(* ===== verification/Prelude.thy ===== *)
theory Prelude
  imports Main "HOL-Library.Word" "HOL-Library.Sublist"
begin

section \<open>Shared vocabulary of the model\<close>

text \<open>
  Names, type synonyms and generic lemmas that every component uses. A Go string is a
  sequence of bytes, modelled as a \<^typ>\<open>char list\<close> (\<^typ>\<open>char\<close> is the type of the 256 bytes),
  so that \<^term>\<open>length\<close> is Go's byte length and indexing is byte indexing. A Go function that may
  panic returns a sum, \<open>Inl\<close> for the panic.
\<close>

named_theorems go_defs "definitions unfolded when a concrete input is evaluated"

type_synonym gostring = string

abbreviation colon :: char where "colon \<equiv> CHR '':''"
abbreviation star :: char where "star \<equiv> CHR ''*''"
abbreviation slash :: char where "slash \<equiv> CHR ''/''"

subsection \<open>Sums as results\<close>

definition bind_sum :: "'e + 'a \<Rightarrow> ('a \<Rightarrow> 'e + 'b) \<Rightarrow> 'e + 'b" where
  "bind_sum r f = (case r of Inl e \<Rightarrow> Inl e | Inr x \<Rightarrow> f x)"

definition map_res :: "('a \<Rightarrow> 'b) \<Rightarrow> 'e + 'a \<Rightarrow> 'e + 'b" where
  "map_res f r = (case r of Inl e \<Rightarrow> Inl e | Inr x \<Rightarrow> Inr (f x))"

lemma bind_sum_simps [simp]:
  "bind_sum (Inl e) f = Inl e" "bind_sum (Inr x) f = f x"
  by (simp_all add: bind_sum_def)

lemma map_res_simps [simp]:
  "map_res f (Inl e) = Inl e" "map_res f (Inr x) = Inr (f x)"
  by (simp_all add: map_res_def)

lemma map_res_eq_Inr [simp]: "map_res f r = Inr y \<longleftrightarrow> (\<exists>x. r = Inr x \<and> y = f x)"
  by (cases r) auto

lemma map_res_eq_Inl [simp]: "map_res f r = Inl e \<longleftrightarrow> r = Inl e"
  by (cases r) auto

lemma bind_sum_eq_Inr: "bind_sum r f = Inr y \<longleftrightarrow> (\<exists>x. r = Inr x \<and> f x = Inr y)"
  by (cases r) auto

lemma map_res_cong [fundef_cong]:
  "r = r' \<Longrightarrow> (\<And>x. r' = Inr x \<Longrightarrow> f x = g x) \<Longrightarrow> map_res f r = map_res g r'"
  by (cases r') auto

lemma bind_sum_cong [fundef_cong]:
  "r = r' \<Longrightarrow> (\<And>x. r' = Inr x \<Longrightarrow> f x = g x) \<Longrightarrow> bind_sum r f = bind_sum r' g"
  by (cases r') auto

subsection \<open>Searching a list by index\<close>

text \<open>The loop \<open>for i := range xs { if p(xs[i]) { ... } }\<close>: the first index where \<open>p\<close> holds.\<close>

fun find_index :: "('a \<Rightarrow> bool) \<Rightarrow> 'a list \<Rightarrow> nat option" where
  "find_index p [] = None"
| "find_index p (x # xs) = (if p x then Some 0 else map_option Suc (find_index p xs))"

lemma find_index_None: "find_index p xs = None \<longleftrightarrow> (\<forall>x \<in> set xs. \<not> p x)"
  by (induction xs) auto

lemma find_index_SomeD:
  "find_index p xs = Some i \<Longrightarrow> i < length xs \<and> p (xs ! i) \<and> (\<forall>j < i. \<not> p (xs ! j))"
proof (induction xs arbitrary: i)
  case Nil
  then show ?case by simp
next
  case (Cons x xs)
  show ?case
  proof (cases "p x")
    case True
    with Cons.prems show ?thesis by simp
  next
    case False
    with Cons.prems obtain k where k: "find_index p xs = Some k" "i = Suc k" by auto
    with Cons.IH[of k] False show ?thesis by (auto simp: less_Suc_eq_0_disj)
  qed
qed

lemma find_index_distinct:
  "distinct xs \<Longrightarrow> i < length xs \<Longrightarrow> find_index (\<lambda>x. x = xs ! i) xs = Some i"
proof (induction xs arbitrary: i)
  case Nil
  then show ?case by simp
next
  case (Cons x xs)
  then show ?case by (cases i) auto
qed

subsection \<open>Sizes, for the termination of functions over nested lists\<close>

lemma size_nth_less [termination_simp]:
  "i < length xs \<Longrightarrow> f (xs ! i) < Suc (size_list f xs)"
  by (rule le_imp_less_Suc, rule size_list_estimation' [of "xs ! i"]) simp_all

lemma length_dropWhile_less_Suc [termination_simp]: "length (dropWhile p xs) < Suc (length xs)"
  by (simp add: length_dropWhile_le less_Suc_eq_le)

lemma sum_list_nth_le: "i < length xs \<Longrightarrow> (f (xs ! i) :: nat) \<le> sum_list (map f xs)"
  by (simp add: member_le_sum_list)

subsection \<open>Filtering and mapping in one pass\<close>

fun pick :: "('a \<Rightarrow> 'b option) \<Rightarrow> 'a list \<Rightarrow> 'b list" where
  "pick f [] = []"
| "pick f (x # xs) = (case f x of None \<Rightarrow> pick f xs | Some y \<Rightarrow> y # pick f xs)"

lemma pick_append [simp]: "pick f (xs @ ys) = pick f xs @ pick f ys"
  by (induction xs) (auto split: option.splits)

lemma pick_Nil_iff: "pick f xs = [] \<longleftrightarrow> (\<forall>x \<in> set xs. f x = None)"
  by (induction xs) (auto split: option.splits)

lemma set_pick: "set (pick f xs) = {y. \<exists>x \<in> set xs. f x = Some y}"
  by (induction xs) (auto split: option.splits)

lemma pick_concat: "pick f (concat xss) = concat (map (pick f) xss)"
  by (induction xss) auto

lemma concat_map_single:
  "i < length xs \<Longrightarrow> (\<And>j. j < length xs \<Longrightarrow> j \<noteq> i \<Longrightarrow> f (xs ! j) = []) \<Longrightarrow>
   concat (map f xs) = f (xs ! i)"
proof (induction xs arbitrary: i)
  case Nil
  then show ?case by simp
next
  case (Cons x xs)
  show ?case
  proof (cases i)
    case 0
    have "concat (map f xs) = []"
      using Cons.prems(2)[of "Suc _"] 0 by (auto simp: in_set_conv_nth)
    with 0 show ?thesis by simp
  next
    case (Suc k)
    have "f x = []" using Cons.prems(2)[of 0] Suc by simp
    moreover have "concat (map f xs) = f (xs ! k)"
      using Suc Cons.prems(1) Cons.prems(2)[of "Suc _"] by (intro Cons.IH) auto
    ultimately show ?thesis using Suc by simp
  qed
qed

lemma sum_list_pick_less:
  "pick f xs \<noteq> [] \<Longrightarrow> (\<And>x y. f x = Some y \<Longrightarrow> g y < (h x :: nat)) \<Longrightarrow>
   sum_list (map g (pick f xs)) < sum_list (map h xs)"
proof (induction xs)
  case Nil
  then show ?case by simp
next
  case (Cons x xs)
  have le: "sum_list (map g (pick f ys)) \<le> sum_list (map h ys)" for ys
    by (induction ys) (auto split: option.splits dest: Cons.prems(2) intro: trans_le_add2 add_mono less_imp_le)
  show ?case
  proof (cases "f x")
    case None
    with Cons show ?thesis by (auto intro: trans_less_add2)
  next
    case (Some y)
    with Cons.prems(2)[of x y] le[of xs] show ?thesis by simp
  qed
qed

end
