(* ===== verification/RadixTree.thy ===== *)
theory RadixTree
  imports Prelude
begin

section \<open>The radix tree of routes (tree.go, param.go)\<close>

text \<open>
  The compressed trie that stores the routes of one HTTP method. A \<open>node\<close> of the source is
  mutated in place through pointers and every node has exactly one owner, so a tree is a
  datatype value and \<open>addRoute\<close> returns the updated tree. A Go panic is \<open>Inl\<close> of a
  value of type \<open>panic\<close>, with the texts that the message quotes; the runtime's own
  index-out-of-range panics are \<open>PanicIndexOutOfRange\<close>. \<open>uint8\<close> and \<open>uint32\<close>
  fields are words.
\<close>

subsection \<open>Parameters (param.go)\<close>

record Param =
  Key :: gostring
  Value :: gostring

type_synonym Params = "Param list"

abbreviation mkParam :: "gostring \<Rightarrow> gostring \<Rightarrow> Param" where
  "mkParam k v \<equiv> \<lparr>Key = k, Value = v\<rparr>"

fun Params_Get :: "Params \<Rightarrow> gostring \<Rightarrow> gostring" where
  "Params_Get [] name = []"
| "Params_Get (p # ps) name = (if Key p = name then Value p else Params_Get ps name)"

fun Params_Has :: "Params \<Rightarrow> gostring \<Rightarrow> bool" where
  "Params_Has [] name = False"
| "Params_Has (p # ps) name = (if Key p = name then True else Params_Has ps name)"

subsection \<open>Nodes\<close>

datatype nodeType = StaticN | RootN | ParamN | CatchAllN

record ('h, 'r, 'm) routeData =
  pattern :: gostring
  handlers :: "'h list"
  rules :: "'r option"
  meta :: "'m option"

datatype ('h, 'r, 'm) node = Node
  (n_path: gostring)
  (n_indices: gostring)
  (n_wildChild: "('h, 'r, 'm) node option")
  (n_nType: nodeType)
  (n_priority: "32 word")
  (n_children: "('h, 'r, 'm) node list")
  (n_data: "('h, 'r, 'm) routeData option")
  (n_maxParams: "8 word")

text \<open>Assignments to one field of a node.\<close>

fun set_path :: "gostring \<Rightarrow> ('h, 'r, 'm) node \<Rightarrow> ('h, 'r, 'm) node" where
  "set_path p' (Node p ix w t pr cs d mp) = Node p' ix w t pr cs d mp"
fun set_indices :: "gostring \<Rightarrow> ('h, 'r, 'm) node \<Rightarrow> ('h, 'r, 'm) node" where
  "set_indices ix' (Node p ix w t pr cs d mp) = Node p ix' w t pr cs d mp"
fun set_wildChild :: "('h, 'r, 'm) node option \<Rightarrow> ('h, 'r, 'm) node \<Rightarrow> ('h, 'r, 'm) node" where
  "set_wildChild w' (Node p ix w t pr cs d mp) = Node p ix w' t pr cs d mp"
fun set_nType :: "nodeType \<Rightarrow> ('h, 'r, 'm) node \<Rightarrow> ('h, 'r, 'm) node" where
  "set_nType t' (Node p ix w t pr cs d mp) = Node p ix w t' pr cs d mp"
fun set_children :: "('h, 'r, 'm) node list \<Rightarrow> ('h, 'r, 'm) node \<Rightarrow> ('h, 'r, 'm) node" where
  "set_children cs' (Node p ix w t pr cs d mp) = Node p ix w t pr cs' d mp"
fun set_data :: "('h, 'r, 'm) routeData option \<Rightarrow> ('h, 'r, 'm) node \<Rightarrow> ('h, 'r, 'm) node" where
  "set_data d' (Node p ix w t pr cs d mp) = Node p ix w t pr cs d' mp"
fun set_maxParams :: "8 word \<Rightarrow> ('h, 'r, 'm) node \<Rightarrow> ('h, 'r, 'm) node" where
  "set_maxParams mp' (Node p ix w t pr cs d mp) = Node p ix w t pr cs d mp'"
fun inc_priority :: "('h, 'r, 'm) node \<Rightarrow> ('h, 'r, 'm) node" where
  "inc_priority (Node p ix w t pr cs d mp) = Node p ix w t (pr + 1) cs d mp"

definition new_node :: "('h, 'r, 'm) node" where
  "new_node = Node [] [] None StaticN 0 [] None 0"

datatype panic =
    PanicWildcardConflict gostring gostring gostring
  | PanicCatchAllConflict gostring gostring
  | PanicDuplicate gostring gostring
  | PanicInvalidWildcard gostring
  | PanicUnnamedWildcard gostring
  | PanicCatchAllNotAtEnd gostring
  | PanicCatchAllSegmentRoot gostring
  | PanicNoSlashBeforeCatchAll gostring
  | PanicInvalidNodeType
  | PanicIndexOutOfRange

subsection \<open>String helpers\<close>

fun longestCommonPrefix :: "gostring \<Rightarrow> gostring \<Rightarrow> nat" where
  "longestCommonPrefix (a # as) (b # bs) = (if a = b then Suc (longestCommonPrefix as bs) else 0)"
| "longestCommonPrefix _ _ = 0"

definition is_wild :: "char \<Rightarrow> bool" where
  [go_defs]: "is_wild c \<longleftrightarrow> c = colon \<or> c = star"

text \<open>The inner loop of \<open>findWildcard\<close>: the bytes up to the next slash, and whether none of
  them starts another wildcard.\<close>

fun scan_wildcard :: "gostring \<Rightarrow> bool \<Rightarrow> gostring \<times> bool" where
  "scan_wildcard [] valid = ([], valid)"
| "scan_wildcard (c # cs) valid =
     (if c = slash then ([], valid)
      else let (w, v) = scan_wildcard cs (if is_wild c then False else valid) in (c # w, v))"

text \<open>\<open>Some (wildcard, i, valid)\<close>, and \<open>None\<close> for the source's index \<open>-1\<close>.\<close>

fun findWildcard :: "gostring \<Rightarrow> (gostring \<times> nat \<times> bool) option" where
  "findWildcard [] = None"
| "findWildcard (c # cs) =
     (if \<not> is_wild c then map_option (\<lambda>(w, i, v). (w, Suc i, v)) (findWildcard cs)
      else let (w, v) = scan_wildcard cs True in Some (c # w, 0, v))"

definition countParams :: "gostring \<Rightarrow> 8 word" where
  [go_defs]: "countParams path =
     (let n = length (filter is_wild path) in if n \<ge> 255 then 255 else of_nat n)"

definition childMaxParams :: "('h, 'r, 'm) node list \<Rightarrow> ('h, 'r, 'm) node option \<Rightarrow> 8 word" where
  [go_defs]: "childMaxParams children wildChild =
     (let m = foldl (\<lambda>mx c. if n_maxParams c > mx then n_maxParams c else mx) 0 children
      in case wildChild of None \<Rightarrow> m | Some wc \<Rightarrow> if n_maxParams wc > m then n_maxParams wc else m)"

subsection \<open>incrementChildPrio\<close>

text \<open>The swap loop: the child at position \<open>k\<close> moves left while its left neighbour has a
  smaller priority. It returns the new position.\<close>

fun move_left :: "('h, 'r, 'm) node list \<Rightarrow> 32 word \<Rightarrow> nat \<Rightarrow> ('h, 'r, 'm) node list \<times> nat" where
  "move_left cs prio 0 = (cs, 0)"
| "move_left cs prio (Suc k) =
     (if n_priority (cs ! k) < prio
      then move_left (cs[k := cs ! Suc k, Suc k := cs ! k]) prio k
      else (cs, Suc k))"

text \<open>The new children, the new index string and the new position. The source slices
  \<open>indices\<close> at \<open>newPos\<close>, \<open>pos\<close> and \<open>pos+1\<close>.\<close>

definition incrementChildPrio ::
  "('h, 'r, 'm) node list \<Rightarrow> gostring \<Rightarrow> nat \<Rightarrow> ('h, 'r, 'm) node list \<times> gostring \<times> nat" where
  [go_defs]: "incrementChildPrio cs ix pos =
     (let cs1 = cs[pos := inc_priority (cs ! pos)];
          (cs2, newPos) = move_left cs1 (n_priority (cs1 ! pos)) pos
      in (cs2,
          if newPos \<noteq> pos
          then take newPos ix @ take 1 (drop pos ix) @ drop newPos (take pos ix) @ drop (pos + 1) ix
          else ix,
          newPos))"

subsection \<open>insertChild\<close>

function insertChild ::
  "('h, 'r, 'm) node \<Rightarrow> gostring \<Rightarrow> gostring \<Rightarrow> ('h, 'r, 'm) routeData \<Rightarrow> panic + ('h, 'r, 'm) node" where
  "insertChild n path fullPath data =
     (case findWildcard path of
        None \<Rightarrow> Inr (set_data (Some data) (set_path path n))
      | Some (wildcard, i, valid) \<Rightarrow>
          if \<not> valid then Inl (PanicInvalidWildcard path)
          else if length wildcard < 2 then Inl (PanicUnnamedWildcard fullPath)
          else if hd wildcard = colon then
            let n1 = (if i > 0 then set_path (take i path) n else n);
                path1 = drop i path;
                child = Node wildcard [] None ParamN 1 [] None 0
            in if length wildcard < length path1 then
                 map_res (\<lambda>g. set_wildChild (Some (set_children [g] child)) n1)
                   (insertChild (Node [] [] None StaticN 1 [] None 0)
                      (drop (length wildcard) path1) fullPath data)
               else Inr (set_wildChild (Some (set_data (Some data) child)) n1)
          else if i + length wildcard \<noteq> length path then Inl (PanicCatchAllNotAtEnd fullPath)
          else if n_path n \<noteq> [] \<and> last (n_path n) = slash then Inl (PanicCatchAllSegmentRoot fullPath)
          else if i = 0 then Inl PanicIndexOutOfRange
          else if path ! (i - 1) \<noteq> slash then Inl (PanicNoSlashBeforeCatchAll fullPath)
          else Inr (set_wildChild
                 (Some (Node [] [] None CatchAllN 1
                    [Node (drop (i - 1) path) [] None CatchAllN 1 [] (Some data) 0] None 0))
                 (set_path (take (i - 1) path) n)))"
  by pat_completeness auto
termination
  by (relation "measure (\<lambda>(n, path, fullPath, data). length path)") auto

declare insertChild.simps [simp del]

subsection \<open>addRoute\<close>

text \<open>The edge split of the walk at position \<open>i\<close> of the node's own path.\<close>

definition split_edge :: "nat \<Rightarrow> ('h, 'r, 'm) node \<Rightarrow> ('h, 'r, 'm) node" where
  [go_defs]: "split_edge i n =
     (case n of Node p ix w t pr cs d mp \<Rightarrow>
        Node (take i p) [p ! i] None t pr
          [Node (drop i p) ix w StaticN (pr - 1) cs d
             (countParams (drop i p) + childMaxParams cs w)]
          None mp)"

definition bump_maxParams :: "8 word \<Rightarrow> ('h, 'r, 'm) node \<Rightarrow> ('h, 'r, 'm) node" where
  [go_defs]: "bump_maxParams k n = (if k > n_maxParams n then set_maxParams k n else n)"

definition existing_pattern :: "('h, 'r, 'm) node \<Rightarrow> gostring" where
  [go_defs]: "existing_pattern wc =
     (case n_children wc of
        c # _ \<Rightarrow> (case n_data c of Some d \<Rightarrow> pattern d | None \<Rightarrow> ''(unknown)'')
      | [] \<Rightarrow> ''(unknown)'')"

text \<open>What the walk shrinks: the rest of the path and the tree below the node. A param node
  weighs one more, for the source's step from it into its single child.\<close>

fun weight :: "('h, 'r, 'm) node \<Rightarrow> nat" where
  "weight (Node p ix w t pr cs d mp) =
     1 + length p + (if t = ParamN then 1 else 0) + sum_list (map weight cs)
       + (case w of None \<Rightarrow> 0 | Some wc \<Rightarrow> weight wc)"

lemma lcp_le: "longestCommonPrefix a b \<le> length a" "longestCommonPrefix a b \<le> length b"
  by (induction a b rule: longestCommonPrefix.induct) auto

lemma lcp_take: "take (longestCommonPrefix a b) a = take (longestCommonPrefix a b) b"
  by (induction a b rule: longestCommonPrefix.induct) auto

lemma lcp_diff:
  "longestCommonPrefix a b < length a \<Longrightarrow> longestCommonPrefix a b < length b \<Longrightarrow>
   a ! longestCommonPrefix a b \<noteq> b ! longestCommonPrefix a b"
  by (induction a b rule: longestCommonPrefix.induct) (auto split: if_splits)

lemma weight_inc_priority [simp]: "weight (inc_priority n) = weight n"
  by (cases n) simp

lemma weight_bump_maxParams [simp]: "weight (bump_maxParams k n) = weight n"
  by (cases n) (simp add: bump_maxParams_def)

lemma length_move_left [simp]: "length (fst (move_left cs prio k)) = length cs"
  by (induction cs prio k rule: move_left.induct) auto

lemma move_left_pos: "snd (move_left cs prio k) \<le> k"
  by (induction cs prio k rule: move_left.induct) (auto split: if_splits)

lemma move_left_shape:
  "k < length cs \<Longrightarrow> move_left cs prio k = (cs', j) \<Longrightarrow>
   cs' = take j cs @ cs ! k # drop j (take k cs) @ drop (Suc k) cs \<and> j \<le> k"
proof (induction cs prio k arbitrary: cs' j rule: move_left.induct)
  case (1 cs prio)
  then show ?case by (simp add: Cons_nth_drop_Suc)
next
  case (2 cs prio k)
  show ?case
  proof (cases "n_priority (cs ! k) < prio")
    case True
    let ?cs1 = "cs[k := cs ! Suc k, Suc k := cs ! k]"
    have d: "drop (Suc k) ?cs1 = cs ! k # drop (Suc (Suc k)) cs"
      using "2.prems"(1) by (simp add: Cons_nth_drop_Suc [symmetric])
    have "cs' = take j ?cs1 @ ?cs1 ! k # drop j (take k ?cs1) @ drop (Suc k) ?cs1 \<and> j \<le> k"
      using True "2.prems" "2.IH"[OF True, of cs' j] by auto
    moreover have "drop j (take (Suc k) cs) = drop j (take k cs) @ [cs ! k]" if "j \<le> k"
      using that "2.prems"(1) by (simp add: take_Suc_conv_app_nth)
    ultimately show ?thesis using d "2.prems"(1) by auto
  next
    case False
    with 2 show ?thesis by (auto simp: Cons_nth_drop_Suc)
  qed
qed

lemma incrementChildPrio_shape:
  assumes "pos < length cs" and "length ix = length cs"
    and "incrementChildPrio cs ix pos = (cs', ix', j)"
  shows "cs' = take j cs @ inc_priority (cs ! pos) # drop j (take pos cs) @ drop (Suc pos) cs"
    and "ix' = take j ix @ ix ! pos # drop j (take pos ix) @ drop (Suc pos) ix"
    and "j \<le> pos"
proof -
  let ?cs1 = "cs[pos := inc_priority (cs ! pos)]"
  obtain c2 where ml: "move_left ?cs1 (n_priority (?cs1 ! pos)) pos = (c2, j)"
    using assms(3) by (auto simp: incrementChildPrio_def Let_def split: prod.splits)
  have shape: "c2 = take j ?cs1 @ ?cs1 ! pos # drop j (take pos ?cs1) @ drop (Suc pos) ?cs1 \<and> j \<le> pos"
    using move_left_shape[OF _ ml] assms(1) by simp
  then show "j \<le> pos" by simp
  show "cs' = take j cs @ inc_priority (cs ! pos) # drop j (take pos cs) @ drop (Suc pos) cs"
    using shape ml assms(1,3) by (auto simp: incrementChildPrio_def Let_def)
  have ix: "take 1 (drop pos ix) = [ix ! pos]"
    using assms(1,2) by (simp add: take_Suc_conv_app_nth flip: Cons_nth_drop_Suc)
  have "ix = take pos ix @ ix ! pos # drop (Suc pos) ix"
    using assms(1,2) by (simp add: Cons_nth_drop_Suc)
  then show "ix' = take j ix @ ix ! pos # drop j (take pos ix) @ drop (Suc pos) ix"
    using ml assms(3) ix by (auto simp: incrementChildPrio_def Let_def split: if_splits)
qed

text \<open>The child at the new position is the incremented one, whatever the index string is.\<close>

lemma incrementChildPrio_nth:
  assumes "pos < length cs" and "incrementChildPrio cs ix pos = (cs', ix', j)"
  shows "j < length cs' \<and> cs' ! j = inc_priority (cs ! pos) \<and> length cs' = length cs"
proof -
  let ?cs1 = "cs[pos := inc_priority (cs ! pos)]"
  obtain c2 where ml: "move_left ?cs1 (n_priority (?cs1 ! pos)) pos = (c2, j)" and "cs' = c2"
    using assms(2) by (auto simp: incrementChildPrio_def Let_def split: prod.splits)
  with move_left_shape[OF _ ml] assms(1) show ?thesis by (auto simp: nth_append)
qed

text \<open>Does a catch-all hang at this node?\<close>

definition has_catchAll :: "('h, 'r, 'm) node \<Rightarrow> bool" where
  [go_defs]: "has_catchAll n =
     (case n_wildChild n of Some wc \<Rightarrow> n_nType wc = CatchAllN | None \<Rightarrow> False)"

text \<open>The last part of the loop body: no static child starts with the next byte, so one is
  created. The new child is the last one; it moves with \<open>incrementChildPrio\<close>, which acts on
  the position \<open>len(n.indices)-1\<close>.\<close>

definition add_static_child ::
  "('h, 'r, 'm) node \<Rightarrow> gostring \<Rightarrow> gostring \<Rightarrow> 8 word \<Rightarrow> ('h, 'r, 'm) routeData
     \<Rightarrow> panic + ('h, 'r, 'm) node" where
  [go_defs]: "add_static_child n path fullPath numParams data =
     (if has_catchAll n then
        Inl (PanicCatchAllConflict fullPath (existing_pattern (the (n_wildChild n))))
      else if length (n_indices n) > length (n_children n) then Inl PanicIndexOutOfRange
      else
        (let (cs, ix, j) = incrementChildPrio (n_children n @ [set_maxParams numParams new_node])
                             (n_indices n @ [hd path]) (length (n_indices n));
             k = (if length (n_indices n) = length (n_children n) then j else length (n_children n))
         in map_res (\<lambda>x. set_children (cs[k := x]) (set_indices ix n))
              (insertChild (cs ! k) path fullPath data)))"

text \<open>
  \<open>walk\<close> is the source's labelled loop. Each \<open>n = child; continue walk\<close> is a
  recursive call whose result takes the child's place. The reads \<open>n.children[i]\<close> are
  guarded, as the runtime does.
\<close>

function walk ::
  "('h, 'r, 'm) node \<Rightarrow> gostring \<Rightarrow> gostring \<Rightarrow> 8 word \<Rightarrow> ('h, 'r, 'm) routeData
     \<Rightarrow> panic + ('h, 'r, 'm) node" where
  "walk n0 path0 fullPath numParams data =
     (let n1 = bump_maxParams numParams n0;
          i = longestCommonPrefix path0 (n_path n1);
          n = (if i < length (n_path n1) then split_edge i n1 else n1);
          path = drop i path0
      in if path \<noteq> [] then
           (if hd path = colon \<or> hd path = star then
              (case n_wildChild n of
                 Some wc0 \<Rightarrow>
                   let wc = bump_maxParams numParams (inc_priority wc0) in
                   if length path \<ge> length (n_path wc) \<and> n_path wc = take (length (n_path wc)) path
                      \<and> n_nType wc \<noteq> CatchAllN
                      \<and> (length (n_path wc) \<ge> length path \<or> path ! length (n_path wc) = slash)
                   then map_res (\<lambda>r. set_wildChild (Some r) n) (walk wc path fullPath (numParams - 1) data)
                   else Inl (PanicWildcardConflict path (n_path wc) fullPath)
               | None \<Rightarrow> insertChild n path fullPath data)
            else if n_nType n = ParamN \<and> hd path = slash \<and> length (n_children n) = 1 then
              map_res (\<lambda>r. set_children [r] n)
                (walk (inc_priority (n_children n ! 0)) path fullPath numParams data)
            else
              (case find_index (\<lambda>x. x = hd path) (n_indices n) of
                 Some k \<Rightarrow>
                   if k < length (n_children n) then
                     (case incrementChildPrio (n_children n) (n_indices n) k of
                        (cs, ix, j) \<Rightarrow>
                          map_res (\<lambda>x. set_children (cs[j := x]) (set_indices ix n))
                            (walk (cs ! j) path fullPath numParams data))
                   else Inl PanicIndexOutOfRange
               | None \<Rightarrow> add_static_child n path fullPath numParams data))
         else (case n_data n of
                 Some d \<Rightarrow> Inl (PanicDuplicate (pattern d) fullPath)
               | None \<Rightarrow> Inr (set_data (Some data) n)))"
  by pat_completeness auto

lemma n_sel_bump [simp]:
  "n_path (bump_maxParams k n) = n_path n" "n_indices (bump_maxParams k n) = n_indices n"
  "n_wildChild (bump_maxParams k n) = n_wildChild n" "n_nType (bump_maxParams k n) = n_nType n"
  "n_children (bump_maxParams k n) = n_children n" "n_data (bump_maxParams k n) = n_data n"
  by (cases n; simp add: bump_maxParams_def)+

lemma n_sel_inc [simp]:
  "n_path (inc_priority n) = n_path n" "n_indices (inc_priority n) = n_indices n"
  "n_wildChild (inc_priority n) = n_wildChild n" "n_nType (inc_priority n) = n_nType n"
  "n_children (inc_priority n) = n_children n" "n_data (inc_priority n) = n_data n"
  by (cases n; simp)+

lemma n_sel_split [simp]:
  "n_path (split_edge i n) = take i (n_path n)" "n_indices (split_edge i n) = [n_path n ! i]"
  "n_wildChild (split_edge i n) = None" "n_nType (split_edge i n) = n_nType n"
  "n_data (split_edge i n) = None"
  by (cases n; simp add: split_edge_def)+

lemma weight_wildChild: "n_wildChild n = Some wc \<Longrightarrow> weight wc < weight n"
  by (cases n) auto

lemma weight_child: "c \<in> set (n_children n) \<Longrightarrow> weight c < weight n"
proof (cases n)
  case (Node p ix w t pr cs d mp)
  assume "c \<in> set (n_children n)"
  with Node have "weight c \<le> sum_list (map weight cs)"
    by (simp add: member_le_sum_list)
  with Node show ?thesis by simp
qed

lemma weight_wild_child:
  "n_wildChild n = Some wc \<Longrightarrow> n_children wc \<noteq> [] \<Longrightarrow> weight (n_children wc ! 0) < weight n"
  using weight_child[of "n_children wc ! 0" wc] weight_wildChild[of n wc] by simp

lemma weight_split_child:
  "n_nType n = ParamN \<Longrightarrow> weight (n_children (split_edge i n) ! 0) < weight n"
  by (cases n) (simp add: split_edge_def)

termination walk
proof (relation "measure (\<lambda>(n, path, fullPath, numParams, data). weight n)", goal_cases)
  case 1
  show ?case by simp
next
  case (2 n0 path0 fullPath numParams data n1 i n path wc0 wc)
  have "\<not> i < length (n_path n1)" using 2 by (auto split: if_splits)
  with 2 show ?case by (auto dest: weight_wildChild)
next
  case (3 n0 path0 fullPath numParams data n1 i n path)
  show ?case
  proof (cases "i < length (n_path n1)")
    case True
    with 3 show ?thesis using weight_split_child[of n1 i] by auto
  next
    case False
    with 3 show ?thesis by (auto intro!: weight_child nth_mem)
  qed
next
  case (4 n0 path0 fullPath numParams data n1 i n path k cs r ix j)
  have nosplit: "\<not> i < length (n_path n1)"
  proof
    assume split: "i < length (n_path n1)"
    have "find_index (\<lambda>x. x = hd path) (n_indices n) = Some k" using 4 by blast
    from find_index_SomeD[OF this] split 4 have "hd path = n_path n1 ! i" by auto
    moreover have "i < length path0" using 4 by auto
    then have "hd path = path0 ! i" using 4 by (simp add: hd_drop_conv_nth)
    ultimately show False using lcp_diff[of path0 "n_path n1"] split \<open>i < length path0\<close> 4 by simp
  qed
  then have "n = n1" using 4 by simp
  moreover have "cs ! j = inc_priority (n_children n ! k)"
    using 4 incrementChildPrio_nth[of k "n_children n"] by (metis prod.inject)
  ultimately show ?case using 4 by (auto intro!: weight_child nth_mem)
qed

declare walk.simps [simp del]

definition addRoute ::
  "('h, 'r, 'm) node \<Rightarrow> gostring \<Rightarrow> ('h, 'r, 'm) routeData \<Rightarrow> panic + ('h, 'r, 'm) node" where
  [go_defs]: "addRoute n path data =
     (let numParams = countParams path; n1 = bump_maxParams numParams (inc_priority n)
      in if n_path n1 = [] \<and> n_children n1 = [] \<and> n_wildChild n1 = None
         then map_res (set_nType RootN) (insertChild n1 path path data)
         else walk n1 path path numParams data)"

subsection \<open>getValue\<close>

text \<open>\<open>*p = append(*p, Param{...})\<close>, when a parameter slice was passed.\<close>

definition append_param :: "Params option \<Rightarrow> gostring \<Rightarrow> gostring \<Rightarrow> Params option" where
  [go_defs]: "append_param params k v = map_option (\<lambda>ps. ps @ [mkParam k v]) params"

text \<open>The trailing-slash recommendation of the child whose index byte is a slash.\<close>

definition slash_child_tsr :: "('h, 'r, 'm) node \<Rightarrow> panic + bool" where
  [go_defs]: "slash_child_tsr ch =
     (if length (n_path ch) = 1 \<and> n_data ch \<noteq> None then Inr True
      else if n_nType ch = CatchAllN then
        (case n_children ch of [] \<Rightarrow> Inl PanicIndexOutOfRange | g # _ \<Rightarrow> Inr (n_data g \<noteq> None))
      else Inr False)"

text \<open>
  The data found, the trailing-slash recommendation, and the parameter slice after the
  lookup (\<open>None\<close> when the caller passed nil for \<open>params\<close>).
\<close>

function getValue ::
  "('h, 'r, 'm) node \<Rightarrow> gostring \<Rightarrow> Params option
     \<Rightarrow> panic + (('h, 'r, 'm) routeData option \<times> bool \<times> Params option)" where
  "getValue n path0 params =
     (if length path0 > length (n_path n) \<and> take (length (n_path n)) path0 = n_path n then
        (let path = drop (length (n_path n)) path0 in
         case find_index (\<lambda>x. x = hd path) (n_indices n) of
           Some i \<Rightarrow>
             if i < length (n_children n) then getValue (n_children n ! i) path params
             else Inl PanicIndexOutOfRange
         | None \<Rightarrow>
             (case n_wildChild n of
                None \<Rightarrow> Inr (None, path = [slash] \<and> n_data n \<noteq> None, params)
              | Some wc \<Rightarrow>
                  if n_nType wc = ParamN then
                    (let seg = takeWhile (\<lambda>c. c \<noteq> slash) path;
                         rest = dropWhile (\<lambda>c. c \<noteq> slash) path;
                         params1 = append_param params (drop 1 (n_path wc)) seg
                     in if params \<noteq> None \<and> n_path wc = [] then Inl PanicIndexOutOfRange
                        else if rest \<noteq> [] then
                          (if n_children wc \<noteq> [] then getValue (n_children wc ! 0) rest params1
                           else Inr (None, length rest = 1, params1))
                        else if n_data wc \<noteq> None then Inr (n_data wc, False, params1)
                        else if length (n_children wc) = 1 then
                          Inr (None, n_path (n_children wc ! 0) = [slash]
                                     \<and> n_data (n_children wc ! 0) \<noteq> None, params1)
                        else Inr (None, False, params1))
                  else if n_nType wc = CatchAllN then
                    (let leaf = (if n_children wc \<noteq> [] then n_children wc ! 0 else wc)
                     in if params \<noteq> None \<and> length (n_path leaf) < 2 then Inl PanicIndexOutOfRange
                        else Inr (n_data leaf, False,
                               append_param params (drop 2 (n_path leaf)) (drop 1 path)))
                  else Inl PanicInvalidNodeType))
      else if path0 = n_path n then
        (if n_data n \<noteq> None then Inr (n_data n, False, params)
         else if path0 = [slash] \<and> n_wildChild n \<noteq> None \<and> n_nType n \<noteq> RootN
         then Inr (None, True, params)
         else
           (case find_index (\<lambda>x. x = slash) (n_indices n) of
              Some i \<Rightarrow>
                if i < length (n_children n)
                then map_res (\<lambda>tsr. (None, tsr, params)) (slash_child_tsr (n_children n ! i))
                else Inl PanicIndexOutOfRange
            | None \<Rightarrow> Inr (None, False, params)))
      else
        Inr (None,
             path0 = [slash] \<or>
             (length (n_path n) = length path0 + 1 \<and> n_path n ! length path0 = slash
              \<and> path0 = take (length (n_path n) - 1) (n_path n) \<and> n_data n \<noteq> None),
             params))"
  by pat_completeness auto
termination getValue
  by (relation "measure (\<lambda>(n, path, params). weight n)")
    (auto intro: weight_child weight_wild_child)

declare getValue.simps [simp del]

end
