(* ===== verification/TreeSpec.thy ===== *)
theory TreeSpec
  imports RadixTree
begin

section \<open>What the radix tree promises\<close>

text \<open>
  The abstract specification of the route table and the proof that the radix tree
  implements it. A tree stands for a list of routes, its abstraction \<open>routes\<close>. The
  specification \<open>trie_lookup\<close> knows nothing of nodes, edges, index bytes or priorities: it
  reads the request path byte by byte against a list of patterns, prefers a literal byte to a
  parameter, and never goes back.
\<close>

subsection \<open>The abstraction function\<close>

definition prep :: "gostring \<Rightarrow> (gostring \<times> 'd) list \<Rightarrow> (gostring \<times> 'd) list" where
  "prep p R = map (\<lambda>(q, x). (p @ q, x)) R"

fun routes :: "('h, 'r, 'm) node \<Rightarrow> (gostring \<times> ('h, 'r, 'm) routeData) list" where
  "routes (Node p ix w t pr cs d mp) =
     prep p ((case d of None \<Rightarrow> [] | Some x \<Rightarrow> [([], x)]) @ concat (map routes cs)
             @ (case w of None \<Rightarrow> [] | Some wc \<Rightarrow> routes wc))"

definition tails :: "('h, 'r, 'm) node \<Rightarrow> (gostring \<times> ('h, 'r, 'm) routeData) list" where
  "tails n = (case n_data n of None \<Rightarrow> [] | Some x \<Rightarrow> [([], x)]) @ concat (map routes (n_children n))
             @ (case n_wildChild n of None \<Rightarrow> [] | Some wc \<Rightarrow> routes wc)"

lemma routes_tails: "routes n = prep (n_path n) (tails n)"
  by (cases n) (simp add: tails_def)

subsection \<open>The specification\<close>

fun step_lit :: "char \<Rightarrow> gostring \<times> 'd \<Rightarrow> (gostring \<times> 'd) option" where
  "step_lit c (a # r, x) =
     (if a = c \<and> \<not> is_wild a \<and> \<not> (a = slash \<and> r \<noteq> [] \<and> hd r = star) then Some (r, x) else None)"
| "step_lit c ([], x) = None"

fun step_param :: "gostring \<times> 'd \<Rightarrow> (gostring \<times> gostring \<times> 'd) option" where
  "step_param (a # r, x) =
     (if a = colon then Some (takeWhile (\<lambda>c. c \<noteq> slash) r, dropWhile (\<lambda>c. c \<noteq> slash) r, x) else None)"
| "step_param ([], x) = None"

fun step_catch :: "gostring \<times> 'd \<Rightarrow> (gostring \<times> 'd) option" where
  "step_catch (a # b # r, x) = (if a = slash \<and> b = star then Some (r, x) else None)"
| "step_catch (_, x) = None"

abbreviation literals :: "char \<Rightarrow> (gostring \<times> 'd) list \<Rightarrow> (gostring \<times> 'd) list" where
  "literals c \<equiv> pick (step_lit c)"
abbreviation params_of :: "(gostring \<times> 'd) list \<Rightarrow> (gostring \<times> gostring \<times> 'd) list" where
  "params_of \<equiv> pick step_param"
abbreviation catches :: "(gostring \<times> 'd) list \<Rightarrow> (gostring \<times> 'd) list" where
  "catches \<equiv> pick step_catch"

text \<open>
  The rest of the patterns against the rest of the path, as the code decides it: a literal of
  some pattern is taken before a wildcard, and a literal taken is not given up again. With \<open>loose\<close> a catch-all accepts
  any byte where its slash should be: the behaviour the tree falls into where a catch-all
  hangs directly at the node of its static prefix.
\<close>

function trie_lookup :: "bool \<Rightarrow> (gostring \<times> 'd) list \<Rightarrow> gostring \<Rightarrow> ('d \<times> Params) option" where
  "trie_lookup loose S [] = map_option (\<lambda>x. (x, [])) (map_of S [])"
| "trie_lookup loose S (c # cs) =
     (if literals c S \<noteq> [] then trie_lookup loose (literals c S) cs
      else if c = slash \<and> catches S \<noteq> [] then
        Some (snd (hd (catches S)), [mkParam (fst (hd (catches S))) cs])
      else if params_of S \<noteq> [] then
        map_option (\<lambda>(x, ps). (x, mkParam (fst (hd (params_of S))) (takeWhile (\<lambda>b. b \<noteq> slash) (c # cs)) # ps))
          (trie_lookup loose (map snd (params_of S)) (dropWhile (\<lambda>b. b \<noteq> slash) (c # cs)))
      else if loose \<and> catches S \<noteq> [] then
        Some (snd (hd (catches S)), [mkParam (fst (hd (catches S))) cs])
      else None)"
  by pat_completeness auto

lemma step_lit_less: "step_lit c x = Some y \<Longrightarrow> length (fst y) < length (fst x)"
  by (induction c x rule: step_lit.induct) (auto split: if_splits)

lemma step_param_less: "step_param x = Some y \<Longrightarrow> length (fst (snd y)) < length (fst x)"
  by (induction x rule: step_param.induct) (auto split: if_splits simp: length_dropWhile_le le_imp_less_Suc)

termination trie_lookup
proof (relation "measure (\<lambda>(loose, S, path). sum_list (map (length \<circ> fst) S))", goal_cases)
  case 1
  show ?case by simp
next
  case (2 loose S c cs)
  from sum_list_pick_less[OF 2, of "length \<circ> fst" "length \<circ> fst"] show ?case
    using step_lit_less[of c] by force
next
  case (3 loose S c cs)
  from sum_list_pick_less[OF 3(3), of "length \<circ> fst \<circ> snd" "length \<circ> fst"] show ?case
    using step_param_less by (force simp: comp_assoc)
qed

declare trie_lookup.simps(2) [simp del]

lemma trie_lookup_Nil_routes [simp]: "trie_lookup l [] path = None"
  by (cases path) (simp_all add: trie_lookup.simps)

subsection \<open>The invariant of the tree\<close>

definition no_wild :: "gostring \<Rightarrow> bool" where
  "no_wild p \<longleftrightarrow> list_all (\<lambda>c. \<not> is_wild c) p"

text \<open>The byte under which a child is indexed: the first byte of its path, and a slash for
  the path-less node that only carries a catch-all.\<close>

definition key :: "('h, 'r, 'm) node \<Rightarrow> char" where
  "key n = (if n_path n = [] then slash else hd (n_path n))"

definition wf_leaf :: "('h, 'r, 'm) node \<Rightarrow> bool" where
  "wf_leaf n \<longleftrightarrow> n_path n = slash # star # drop 2 (n_path n) \<and> drop 2 (n_path n) \<noteq> [] \<and> n_nType n = CatchAllN
     \<and> n_wildChild n = None \<and> n_children n = [] \<and> n_data n \<noteq> None"

text \<open>
  Static nodes index their children by pairwise different literal bytes; the wildcard child
  hangs beside them; a parameter node has at most one child, which starts with a slash; a
  catch-all is a pair of nodes and has no static siblings.
\<close>

fun wf_node :: "('h, 'r, 'm) node \<Rightarrow> bool" where
  "wf_node (Node p ix w t pr cs d mp) \<longleftrightarrow>
     (if t = ParamN then
        length p \<ge> 2 \<and> hd p = colon \<and> slash \<notin> set (tl p) \<and> no_wild (tl p) \<and> w = None
        \<and> list_all wf_node cs
        \<and> (cs = [] \<and> ix = [] \<and> d \<noteq> None
           \<or> length cs = 1 \<and> n_nType (cs ! 0) = StaticN \<and> key (cs ! 0) = slash
             \<and> (ix = [] \<or> ix = [slash]))
      else if t = CatchAllN then
        p = [] \<and> w = None \<and> d = None \<and> ix = [] \<and> length cs = 1 \<and> wf_leaf (cs ! 0)
      else
        no_wild p \<and> ix = map key cs \<and> distinct (map key cs)
        \<and> list_all wf_node cs \<and> list_all (\<lambda>c. n_nType c = StaticN) cs
        \<and> (case w of None \<Rightarrow> True
           | Some wc \<Rightarrow> wf_node wc \<and> (n_nType wc = ParamN \<or> n_nType wc = CatchAllN \<and> cs = []))
        \<and> (p = [] \<longrightarrow> d = None)
        \<and> (p = [] \<and> t = StaticN \<longrightarrow> cs = [] \<and> (case w of None \<Rightarrow> False | Some wc \<Rightarrow> n_nType wc = CatchAllN))
        \<and> (cs = [] \<and> w = None \<longrightarrow> d \<noteq> None))"

lemma wf_cases [consumes 1, case_names param catchAll static]:
  assumes "wf_node n"
    and "\<And>p ix pr cs d mp. n = Node p ix None ParamN pr cs d mp \<Longrightarrow> P"
    and "\<And>ix pr cs mp. n = Node [] ix None CatchAllN pr cs None mp \<Longrightarrow> P"
    and "\<And>p ix w t pr cs d mp. n = Node p ix w t pr cs d mp \<Longrightarrow> t = StaticN \<or> t = RootN \<Longrightarrow> P"
  shows P
  using assms by (cases n) (auto split: if_splits intro: nodeType.exhaust)

text \<open>A node of the static kind, the only kind the walk and the lookup stop at.\<close>

definition is_static :: "('h, 'r, 'm) node \<Rightarrow> bool" where
  "is_static n \<longleftrightarrow> n_nType n = StaticN \<or> n_nType n = RootN"

lemma wf_static_iff:
  "is_static n \<Longrightarrow> wf_node n \<longleftrightarrow>
     no_wild (n_path n) \<and> n_indices n = map key (n_children n) \<and> distinct (map key (n_children n))
     \<and> list_all wf_node (n_children n) \<and> list_all (\<lambda>c. n_nType c = StaticN) (n_children n)
     \<and> (case n_wildChild n of None \<Rightarrow> True
        | Some wc \<Rightarrow> wf_node wc \<and> (n_nType wc = ParamN \<or> n_nType wc = CatchAllN \<and> n_children n = []))
     \<and> (n_path n = [] \<longrightarrow> n_data n = None)
     \<and> (n_path n = [] \<and> n_nType n = StaticN \<longrightarrow> n_children n = [] \<and> has_catchAll n)
     \<and> (n_children n = [] \<and> n_wildChild n = None \<longrightarrow> n_data n \<noteq> None)"
  by (cases n) (simp add: is_static_def has_catchAll_def cong: option.case_cong, elim disjE;
    simp cong: option.case_cong)

lemma wf_staticD:
  assumes "wf_node n" and "is_static n"
  shows "no_wild (n_path n)" "n_indices n = map key (n_children n)" "distinct (map key (n_children n))"
    "\<And>c. c \<in> set (n_children n) \<Longrightarrow> wf_node c \<and> n_nType c = StaticN"
    "\<And>wc. n_wildChild n = Some wc \<Longrightarrow>
       wf_node wc \<and> (n_nType wc = ParamN \<or> n_nType wc = CatchAllN \<and> n_children n = [])"
    "n_path n = [] \<Longrightarrow> n_data n = None"
    "n_path n = [] \<Longrightarrow> n_nType n = StaticN \<Longrightarrow> n_children n = [] \<and> has_catchAll n"
    "n_children n = [] \<Longrightarrow> n_wildChild n = None \<Longrightarrow> n_data n \<noteq> None"
  using assms(1) unfolding wf_static_iff[OF assms(2)] by (simp_all add: list_all_iff)

lemma wf_paramD:
  assumes "wf_node n" and "n_nType n = ParamN"
  obtains nm where "n_path n = colon # nm" "nm \<noteq> []" "slash \<notin> set nm" "no_wild nm"
    "n_wildChild n = None"
    "n_children n = [] \<and> n_indices n = [] \<and> n_data n \<noteq> None \<or>
     (\<exists>ch. n_children n = [ch] \<and> wf_node ch \<and> n_nType ch = StaticN \<and> key ch = slash
           \<and> (n_indices n = [] \<or> n_indices n = [slash]))"
proof (cases n)
  case (Node p ix w t pr cs d mp)
  with assms have "p = colon # tl p" "tl p \<noteq> []" by (cases p; auto)+
  with assms Node show ?thesis
    by (intro that[of "tl p"]) (auto simp: length_Suc_conv)
qed

lemma wf_catchAllD:
  assumes "wf_node n" and "n_nType n = CatchAllN"
  obtains leaf nm x where "n_path n = []" "n_wildChild n = None" "n_data n = None" "n_children n = [leaf]"
    "n_path leaf = slash # star # nm" "nm \<noteq> []" "n_data leaf = Some x" "routes n = [(slash # star # nm, x)]"
proof (cases n)
  case (Node p ix w t pr cs d mp)
  with assms obtain leaf where leaf: "cs = [leaf]" "wf_leaf leaf" and p: "p = []" "w = None" "d = None"
    by (auto simp: length_Suc_conv)
  have "routes leaf = [(n_path leaf, the (n_data leaf))]"
    using leaf by (cases leaf) (auto simp: wf_leaf_def prep_def)
  with leaf p Node show ?thesis
    by (intro that[of leaf "drop 2 (n_path leaf)" "the (n_data leaf)"]) (auto simp: wf_leaf_def prep_def)
qed

subsection \<open>Routes below a well-formed node\<close>

lemma prep_simps [simp]:
  "prep p [] = []" "prep p ((q, x) # R) = (p @ q, x) # prep p R" "prep [] R = R"
  "prep p (R @ R') = prep p R @ prep p R'" "prep p R = [] \<longleftrightarrow> R = []"
  by (simp_all add: prep_def case_prod_beta)

lemma set_prep: "set (prep p R) = (\<lambda>(q, x). (p @ q, x)) ` set R"
  by (simp add: prep_def)

lemma no_wild_simps [simp]:
  "no_wild []" "no_wild (c # p) \<longleftrightarrow> \<not> is_wild c \<and> no_wild p" "no_wild (p @ q) \<longleftrightarrow> no_wild p \<and> no_wild q"
  by (simp_all add: no_wild_def)

lemma is_wild_simps [simp]: "is_wild colon" "is_wild star" "\<not> is_wild slash"
  by (simp_all add: is_wild_def)

lemma is_static_Static [simp]: "n_nType n = StaticN \<Longrightarrow> is_static n"
  by (simp add: is_static_def)

lemma static_key_not_wild: "wf_node n \<Longrightarrow> n_nType n = StaticN \<Longrightarrow> \<not> is_wild (key n)"
  using wf_staticD(1)[of n] by (cases "n_path n") (auto simp: key_def)

lemma static_route_key:
  assumes "wf_node n" and "n_nType n = StaticN" and "(q, x) \<in> set (routes n)"
  shows "q \<noteq> [] \<and> hd q = key n"
proof (cases "n_path n = []")
  case True
  then have ch: "n_children n = []" "n_data n = None" and "has_catchAll n"
    using wf_staticD(6,7)[of n] assms by auto
  then obtain wc where wc: "n_wildChild n = Some wc" "n_nType wc = CatchAllN"
    by (auto simp: has_catchAll_def split: option.splits)
  then have "wf_node wc" using wf_staticD(5)[of n wc] assms by simp
  then obtain nm y where "routes wc = [(slash # star # nm, y)]"
    using wc(2) by (rule wf_catchAllD)
  with assms True ch wc show ?thesis by (simp add: routes_tails[of n] tails_def[of n] key_def)
next
  case False
  with assms show ?thesis by (auto simp: routes_tails[of n] set_prep key_def)
qed

lemma param_route_key:
  assumes "wf_node n" and "n_nType n = ParamN" and "(q, x) \<in> set (routes n)"
  shows "q \<noteq> [] \<and> hd q = colon"
proof (rule wf_paramD[OF assms(1,2)])
  fix nm assume "n_path n = colon # nm"
  with assms(3) show ?thesis by (auto simp: routes_tails[of n] set_prep)
qed

lemma catchAll_route_key:
  assumes "wf_node n" and "n_nType n = CatchAllN" and "(q, x) \<in> set (routes n)"
  shows "\<exists>nm. q = slash # star # nm"
proof (rule wf_catchAllD[OF assms(1,2)])
  fix nm x' assume "routes n = [(slash # star # nm, x')]"
  with assms(3) show ?thesis by simp
qed

definition tails_ok :: "(gostring \<times> 'd) list \<Rightarrow> bool" where
  "tails_ok T \<longleftrightarrow> (\<forall>(q, x) \<in> set T. q = [] \<or> hd q \<noteq> star)"

lemma tails_okI_static:
  assumes "wf_node n" and "is_static n"
  shows "tails_ok (tails n)"
proof -
  note D = wf_staticD[OF assms]
  have "hd q \<noteq> star" if "c \<in> set (n_children n)" "(q, x) \<in> set (routes c)" for c q x
    using static_route_key[of c q x] static_key_not_wild[of c] D(4) that by (auto simp: is_wild_def)
  moreover have "hd q \<noteq> star" if "n_wildChild n = Some wc" "(q, x) \<in> set (routes wc)" for wc q x
    using D(5)[OF that(1)] param_route_key[of wc q x] catchAll_route_key[of wc q x] that(2) by auto
  ultimately show ?thesis
    by (cases "n_wildChild n") (auto simp: tails_ok_def tails_def[of n] split: option.splits)
qed

lemma tails_ok_param:
  assumes "wf_node n" and "n_nType n = ParamN"
  shows "\<forall>(q, x) \<in> set (tails n). q = [] \<or> hd q = slash"
proof (rule wf_paramD[OF assms])
  fix nm assume "n_wildChild n = None"
    and "n_children n = [] \<and> n_indices n = [] \<and> n_data n \<noteq> None \<or>
     (\<exists>ch. n_children n = [ch] \<and> wf_node ch \<and> n_nType ch = StaticN \<and> key ch = slash
           \<and> (n_indices n = [] \<or> n_indices n = [slash]))"
  then show ?thesis
    using static_route_key by (fastforce simp: tails_def[of n] split: option.splits)
qed

lemma routes_nonempty: "wf_node n \<Longrightarrow> routes n \<noteq> []"
proof (induction "weight n" arbitrary: n rule: less_induct)
  case less
  have wild: "routes wc \<noteq> []" if "n_wildChild n = Some wc" "wf_node wc" for wc
    using less.hyps[OF weight_wildChild] that by blast
  have child: "routes c \<noteq> []" if "c \<in> set (n_children n)" "wf_node c" for c
    using less.hyps[OF weight_child] that by blast
  consider "n_nType n = ParamN" | "n_nType n = CatchAllN" | "is_static n"
    by (cases "n_nType n") (auto simp: is_static_def)
  then show ?case
  proof cases
    case 1
    with less.prems show ?thesis
      by (rule wf_paramD) (use child in \<open>auto simp: routes_tails[of n] tails_def[of n]\<close>)
  next
    case 2
    with less.prems show ?thesis by (rule wf_catchAllD) simp
  next
    case 3
    note D = wf_staticD[OF less.prems 3]
    show ?thesis
    proof (cases "n_children n")
      case Nil
      then show ?thesis using D(5,8) wild by (cases "n_wildChild n") (auto simp: routes_tails[of n] tails_def[of n])
    next
      case (Cons c cs)
      then show ?thesis using D(4)[of c] child[of c] by (simp add: routes_tails[of n] tails_def[of n])
    qed
  qed
qed

subsection \<open>The specification along a static prefix\<close>

lemma literals_prep:
  "\<not> is_wild c \<Longrightarrow> no_wild p \<Longrightarrow> tails_ok T \<Longrightarrow>
   literals a (prep (c # p) T) = (if a = c then prep p T else [])"
proof (induction T)
  case Nil
  then show ?case by simp
next
  case (Cons t T)
  obtain q x where t: "t = (q, x)" by (cases t)
  have "hd (p @ q) \<noteq> star" if "p @ q \<noteq> []"
    using Cons.prems that t by (cases p) (auto simp: is_wild_def tails_ok_def)
  with Cons t show ?case by (auto simp: tails_ok_def)
qed

lemma catches_prep:
  "\<not> is_wild c \<Longrightarrow> no_wild p \<Longrightarrow> tails_ok T \<Longrightarrow> catches (prep (c # p) T) = []"
proof (induction T)
  case Nil
  then show ?case by simp
next
  case (Cons t T)
  obtain q x where t: "t = (q, x)" by (cases t)
  have "hd (p @ q) \<noteq> star" if "p @ q \<noteq> []"
    using Cons.prems that t by (cases p) (auto simp: is_wild_def tails_ok_def)
  then have "step_catch (c # p @ q, x) = None" by (cases "p @ q") auto
  with Cons t show ?case by (auto simp: tails_ok_def)
qed

lemma params_of_prep: "\<not> is_wild c \<Longrightarrow> params_of (prep (c # p) T) = []"
  by (induction T) (auto simp: is_wild_def)

lemma map_of_prep_Nil: "p \<noteq> [] \<Longrightarrow> map_of (prep p T) [] = None"
  by (induction T) auto

lemma trie_lookup_prep:
  "no_wild p \<Longrightarrow> tails_ok T \<Longrightarrow>
   trie_lookup l (prep p T) path =
     (if take (length p) path = p then trie_lookup l T (drop (length p) path) else None)"
proof (induction p arbitrary: path)
  case Nil
  then show ?case by simp
next
  case (Cons c p)
  show ?case
  proof (cases path)
    case Nil
    then show ?thesis by (simp add: map_of_prep_Nil)
  next
    case (Cons a as)
    have "T = [] \<or> prep p T \<noteq> []" by simp
    with Cons.IH Cons.prems Cons show ?thesis
      by (auto simp: trie_lookup.simps(2) literals_prep catches_prep params_of_prep)
  qed
qed

subsection \<open>The specification at a node\<close>

lemma literals_Nil: "(\<And>q x. (q, x) \<in> set R \<Longrightarrow> q \<noteq> [] \<Longrightarrow> hd q \<noteq> c) \<Longrightarrow> literals c R = []"
proof (induction R)
  case (Cons r R)
  obtain q x where "r = (q, x)" by (cases r)
  with Cons.prems[of q x] Cons.prems Cons.IH show ?case by (cases q) auto
qed simp

lemma catches_Nil: "(\<And>q x. (q, x) \<in> set R \<Longrightarrow> q \<noteq> [] \<Longrightarrow> hd q \<noteq> slash) \<Longrightarrow> catches R = []"
proof (induction R)
  case (Cons r R)
  obtain q x where "r = (q, x)" by (cases r)
  with Cons.prems[of q x] Cons.prems Cons.IH show ?case
    by (cases "(q, x)" rule: step_catch.cases) auto
qed simp

lemma params_of_Nil: "(\<And>q x. (q, x) \<in> set R \<Longrightarrow> q \<noteq> [] \<Longrightarrow> hd q \<noteq> colon) \<Longrightarrow> params_of R = []"
proof (induction R)
  case (Cons r R)
  obtain q x where "r = (q, x)" by (cases r)
  with Cons.prems[of q x] Cons.prems Cons.IH show ?case by (cases q) auto
qed simp

text \<open>Three facts about one kind of route at a time: everything of the node's routes that can
  match the byte \<open>c\<close> lies below the child indexed by \<open>c\<close>.\<close>

lemma static_pick_child:
  assumes "wf_node n" and "is_static n" and "i < length (n_children n)" and "key (n_children n ! i) = c"
    and "\<And>R. (\<And>q x. (q, x) \<in> set R \<Longrightarrow> q \<noteq> [] \<Longrightarrow> hd q \<noteq> c) \<Longrightarrow> pick f R = []"
    and "\<And>x. f ([], x) = None"
  shows "pick f (concat (map routes (n_children n))) = pick f (routes (n_children n ! i))"
proof -
  note D = wf_staticD[OF assms(1,2)]
  have "pick f (routes (n_children n ! j)) = []" if "j < length (n_children n)" "j \<noteq> i" for j
  proof (rule assms(5))
    fix q x assume "(q, x) \<in> set (routes (n_children n ! j))"
    then have "hd q = key (n_children n ! j)"
      using static_route_key D(4)[OF nth_mem[OF that(1)]] by blast
    moreover have "key (n_children n ! j) \<noteq> key (n_children n ! i)"
      using D(3) that assms(3) nth_eq_iff_index_eq[OF D(3), of j i] by simp
    ultimately show "hd q \<noteq> c" using assms(4) by simp
  qed
  then show ?thesis
    using concat_map_single[of i "n_children n" "\<lambda>c. pick f (routes c)"] assms(3)
    by (simp add: pick_concat comp_def)
qed

lemma static_own_key:
  assumes "wf_node n" and "n_nType n = StaticN"
  shows "n_path n \<noteq> [] \<Longrightarrow> literals (key n) (routes n) \<noteq> []"
    and "n_path n = [] \<Longrightarrow> literals (key n) (routes n) = [] \<and> catches (routes n) \<noteq> [] \<and> key n = slash"
proof -
  assume "n_path n \<noteq> []"
  then obtain c p where p: "n_path n = c # p" by (cases "n_path n") auto
  have "tails n \<noteq> []" using routes_nonempty[OF assms(1)] by (simp add: routes_tails[of n])
  with p show "literals (key n) (routes n) \<noteq> []"
    using wf_staticD(1)[OF assms(1)] assms(2) tails_okI_static[OF assms(1)]
    by (simp add: routes_tails[of n] key_def literals_prep)
next
  assume p: "n_path n = []"
  then have ch: "n_children n = []" "n_data n = None" and "has_catchAll n"
    using wf_staticD(6,7)[of n] assms by auto
  then obtain wc where wc: "n_wildChild n = Some wc" "n_nType wc = CatchAllN"
    by (auto simp: has_catchAll_def split: option.splits)
  then have "wf_node wc" using wf_staticD(5)[of n wc] assms by simp
  then obtain nm y where "routes wc = [(slash # star # nm, y)]"
    using wc(2) by (rule wf_catchAllD)
  then show "literals (key n) (routes n) = [] \<and> catches (routes n) \<noteq> [] \<and> key n = slash"
    using p ch wc by (simp add: routes_tails[of n] tails_def[of n] key_def)
qed

lemma literals_wild: "is_wild c \<Longrightarrow> literals c R = []"
proof (induction R)
  case (Cons r R)
  then show ?case by (cases "(c, r)" rule: step_lit.cases) auto
qed simp

lemma wild_literals_Nil:
  assumes "wf_node n" and "is_static n" and "n_wildChild n = Some wc"
  shows "literals c (routes wc) = []"
proof (cases "is_wild c")
  case True
  then show ?thesis by (rule literals_wild)
next
  case False
  from wf_staticD(5)[OF assms] show ?thesis
  proof (elim conjE disjE)
    assume "wf_node wc" "n_nType wc = ParamN"
    then show ?thesis using param_route_key[of wc] False by (intro literals_Nil) (auto simp: is_wild_def)
  next
    assume "wf_node wc" "n_nType wc = CatchAllN"
    then show ?thesis by (rule wf_catchAllD) simp
  qed
qed

lemma node_step_child:
  assumes wf: "wf_node n" "is_static n" and i: "i < length (n_children n)"
    and c: "key (n_children n ! i) = c"
  shows "trie_lookup l (tails n) (c # cs) = trie_lookup l (routes (n_children n ! i)) (c # cs)"
proof -
  let ?ch = "n_children n ! i"
  note D = wf_staticD[OF wf]
  have ch: "wf_node ?ch" "n_nType ?ch = StaticN" using D(4)[OF nth_mem[OF i]] by auto
  have nw: "\<not> is_wild c" using static_key_not_wild[OF ch] c by simp
  have param: "n_nType wc = ParamN \<and> wf_node wc" if "n_wildChild n = Some wc" for wc
    using D(5)[OF that] i by auto
  have lit: "literals c (tails n) = literals c (routes ?ch)"
    using static_pick_child[OF wf i c, of "step_lit c"] literals_Nil[of _ c] wild_literals_Nil[OF wf]
    by (auto simp: tails_def[of n] split: option.splits)
  have cat: "catches (tails n) = catches (routes ?ch)" if "c = slash"
  proof -
    have "catches (routes wc) = []" if "n_wildChild n = Some wc" for wc
      using param_route_key[of wc] param[OF that] by (intro catches_Nil) auto
    then show ?thesis
      using static_pick_child[OF wf i c, of step_catch] catches_Nil that
      by (auto simp: tails_def[of n] split: option.splits)
  qed
  show ?thesis
    using static_own_key[OF ch] c lit cat
    by (cases "n_path ?ch = []") (auto simp: trie_lookup.simps(2))
qed

lemma no_index:
  assumes wf: "wf_node n" "is_static n" and "\<forall>x \<in> set (n_indices n). x \<noteq> c"
  shows "literals c (tails n) = []"
    and "c = slash \<Longrightarrow> catches (concat (map routes (n_children n))) = []"
proof -
  note D = wf_staticD[OF wf]
  have heads: "hd q \<noteq> c" if "ch \<in> set (n_children n)" "(q, x) \<in> set (routes ch)" for ch q x
    using static_route_key[of ch q x] D(4)[OF that(1)] that assms(3) D(2) by auto
  have "literals c (concat (map routes (n_children n))) = []"
    by (rule literals_Nil) (use heads in auto)
  then show "literals c (tails n) = []"
    using wild_literals_Nil[OF wf] by (auto simp: tails_def[of n] split: option.splits)
  show "catches (concat (map routes (n_children n))) = []" if "c = slash"
    by (rule catches_Nil) (use heads that in auto)
qed

lemma children_params_Nil:
  assumes wf: "wf_node n" "is_static n"
  shows "params_of (concat (map routes (n_children n))) = []"
proof (rule params_of_Nil)
  fix q x assume "(q, x) \<in> set (concat (map routes (n_children n)))"
  then obtain ch where "ch \<in> set (n_children n)" "(q, x) \<in> set (routes ch)" by auto
  then show "hd q \<noteq> colon"
    using static_route_key[of ch q x] static_key_not_wild[of ch] wf_staticD(4)[OF wf] by (auto simp: is_wild_def)
qed

lemma param_routes_params:
  assumes "wf_node wc" and "n_nType wc = ParamN"
  shows "map snd (params_of (routes wc)) = tails wc"
    and "params_of (routes wc) \<noteq> []"
    and "fst (hd (params_of (routes wc))) = drop 1 (n_path wc)"
    and "catches (routes wc) = []"
proof -
  obtain nm where p: "n_path wc = colon # nm" "slash \<notin> set nm" using assms by (rule wf_paramD)
  have tw: "takeWhile (\<lambda>c. c \<noteq> slash) nm = nm" "dropWhile (\<lambda>c. c \<noteq> slash) nm = []"
    using p(2) by (auto intro: takeWhile_eq_all_conv[THEN iffD2])
  have *: "params_of (prep (colon # nm) T) = map (\<lambda>(q, x). (nm, q, x)) T"
    if "\<forall>(q, x) \<in> set T. q = [] \<or> hd q = slash" for T :: "(gostring \<times> ('a, 'b, 'c) routeData) list"
    using that
  proof (induction T)
    case (Cons t T)
    obtain q x where t: "t = (q, x)" by (cases t)
    have "takeWhile (\<lambda>c. c \<noteq> slash) q = [] \<and> dropWhile (\<lambda>c. c \<noteq> slash) q = q"
      using Cons.prems t by (cases q) auto
    moreover have "\<forall>c \<in> set nm. c \<noteq> slash" using p(2) by auto
    ultimately have "step_param (colon # nm @ q, x) = Some (nm, q, x)"
      by (simp add: takeWhile_append2 dropWhile_append2)
    with Cons t show ?case by simp
  qed simp
  note ps = *[OF tails_ok_param[OF assms]]
  show "map snd (params_of (routes wc)) = tails wc"
    by (simp add: routes_tails[of wc] p ps comp_def case_prod_beta)
  have ne: "tails wc \<noteq> []" using routes_nonempty[OF assms(1)] by (simp add: routes_tails[of wc])
  then show "params_of (routes wc) \<noteq> []" by (simp add: routes_tails[of wc] p ps)
  from ne show "fst (hd (params_of (routes wc))) = drop 1 (n_path wc)"
    by (simp add: routes_tails[of wc] p ps hd_map case_prod_beta)
  show "catches (routes wc) = []"
    using param_route_key[OF assms] by (intro catches_Nil) auto
qed

text \<open>The entry for the end of the path does not take part while path is left.\<close>

lemma trie_lookup_skip_Nil: "trie_lookup l (([], x) # S) (c # cs) = trie_lookup l S (c # cs)"
  by (simp add: trie_lookup.simps(2))

lemma map_of_tails_Nil:
  assumes "wf_node n" and "n_nType n \<noteq> CatchAllN"
  shows "map_of (tails n) [] = n_data n"
proof -
  have ne: "\<forall>(q, x) \<in> set (concat (map routes (n_children n))
              @ (case n_wildChild n of None \<Rightarrow> [] | Some wc \<Rightarrow> routes wc)). q \<noteq> []"
  proof (cases "n_nType n = ParamN")
    case True
    with assms(1) show ?thesis by (rule wf_paramD) (use static_route_key in fastforce)
  next
    case False
    then have st: "is_static n" using assms(2) by (cases "n_nType n") (auto simp: is_static_def)
    note D = wf_staticD[OF assms(1) st]
    have "q \<noteq> []" if "n_wildChild n = Some wc" "(q, x) \<in> set (routes wc)" for wc q x
      using D(5)[OF that(1)] param_route_key[of wc q x] catchAll_route_key[of wc q x] that(2) by auto
    then show ?thesis using D(4) static_route_key by (cases "n_wildChild n") fastforce+
  qed
  then have "map_of (concat (map routes (n_children n))
              @ (case n_wildChild n of None \<Rightarrow> [] | Some wc \<Rightarrow> routes wc)) [] = None"
    by (subst map_of_eq_None_iff) force
  then show ?thesis by (simp add: tails_def[of n] split: option.splits)
qed

lemma param_tails_step:
  assumes "wf_node wc" and "n_nType wc = ParamN"
  shows "trie_lookup l (tails wc) (c # cs) =
    (if n_children wc = [] then None else trie_lookup l (routes (n_children wc ! 0)) (c # cs))"
proof (rule wf_paramD[OF assms])
  assume "n_wildChild wc = None" and
    "n_children wc = [] \<and> n_indices wc = [] \<and> n_data wc \<noteq> None \<or>
     (\<exists>ch. n_children wc = [ch] \<and> wf_node ch \<and> n_nType ch = StaticN \<and> key ch = slash
           \<and> (n_indices wc = [] \<or> n_indices wc = [slash]))"
  then show ?thesis
    by (cases "n_data wc") (auto simp: tails_def[of wc] trie_lookup_skip_Nil)
qed


subsection \<open>The tree implements the specification\<close>

text \<open>
  The lookup lies between the strict and the loose specification: it finds whatever the
  strict one finds, with the same parameters, and whatever it finds the loose one finds.
\<close>

definition between ::
  "panic + (('h, 'r, 'm) routeData option \<times> bool \<times> Params option) \<Rightarrow> Params
    \<Rightarrow> (('h, 'r, 'm) routeData \<times> Params) option \<Rightarrow> (('h, 'r, 'm) routeData \<times> Params) option \<Rightarrow> bool" where
  "between r ps strict loose \<longleftrightarrow>
     (\<exists>d tsr ps'. r = Inr (d, tsr, Some ps')
        \<and> (\<forall>x qs. strict = Some (x, qs) \<longrightarrow> d = Some x \<and> ps' = ps @ qs)
        \<and> (\<forall>x. d = Some x \<longrightarrow> (\<exists>qs. ps' = ps @ qs \<and> loose = Some (x, qs))))"

lemma between_None [simp]: "between (Inr (None, t, Some ps')) ps None loose"
  by (simp add: between_def)

lemma between_prefix:
  "between r (ps @ [p]) strict loose \<Longrightarrow>
   between r ps (map_option (\<lambda>(x, qs). (x, p # qs)) strict) (map_option (\<lambda>(x, qs). (x, p # qs)) loose)"
  by (fastforce simp: between_def)

lemma getValue_at_end:
  assumes "wf_node n" and "is_static n"
  shows "\<exists>tsr. getValue n (n_path n) params = Inr (n_data n, tsr, params)"
proof (cases "n_data n")
  case None
  note D = wf_staticD[OF assms]
  show ?thesis
  proof (cases "find_index (\<lambda>x. x = slash) (n_indices n)")
    case (Some i)
    then have i: "i < length (n_children n)" using D(2) by (auto dest: find_index_SomeD)
    then have "\<exists>b. slash_child_tsr (n_children n ! i) = Inr b"
      using D(4)[OF nth_mem[OF i]] by (auto simp: slash_child_tsr_def)
    then show ?thesis using Some i None by (auto simp: getValue.simps[of n])
  qed (auto simp: getValue.simps[of n] None)
qed (auto simp: getValue.simps[of n])

lemma getValue_step_longer: "drop (length (n_path n)) path = c # cs \<Longrightarrow> length (n_path n) < length path"
  by (metis drop_eq_Nil linorder_not_less list.distinct(1))

lemma getValue_step_child:
  assumes step: "take (length (n_path n)) path = n_path n" "drop (length (n_path n)) path = c # cs"
    and "find_index (\<lambda>x. x = c) (n_indices n) = Some i" and "i < length (n_children n)"
  shows "getValue n path params = getValue (n_children n ! i) (c # cs) params"
  using assms by (subst getValue.simps) (simp add: getValue_step_longer[OF step(2)])

lemma getValue_step_none:
  assumes step: "take (length (n_path n)) path = n_path n" "drop (length (n_path n)) path = c # cs"
    and "find_index (\<lambda>x. x = c) (n_indices n) = None" and "n_wildChild n = None"
  shows "\<exists>tsr. getValue n path params = Inr (None, tsr, params)"
  using assms by (subst getValue.simps) (simp add: getValue_step_longer[OF step(2)])

lemma getValue_step_param:
  assumes step: "take (length (n_path n)) path = n_path n" "drop (length (n_path n)) path = c # cs"
    and "find_index (\<lambda>x. x = c) (n_indices n) = None" and "n_wildChild n = Some wc"
    and "n_nType wc = ParamN" and "n_path wc \<noteq> []"
  shows "getValue n path (Some ps) =
     (let ps1 = ps @ [mkParam (drop 1 (n_path wc)) (takeWhile (\<lambda>b. b \<noteq> slash) (c # cs))];
          rest = dropWhile (\<lambda>b. b \<noteq> slash) (c # cs)
      in if rest \<noteq> [] then
           (if n_children wc \<noteq> [] then getValue (n_children wc ! 0) rest (Some ps1)
            else Inr (None, length rest = 1, Some ps1))
         else Inr (n_data wc, n_data wc = None \<and> length (n_children wc) = 1 \<and>
                n_path (n_children wc ! 0) = [slash] \<and> n_data (n_children wc ! 0) \<noteq> None, Some ps1))"
  using assms
  by (subst getValue.simps) (simp add: getValue_step_longer[OF step(2)] append_param_def Let_def)

lemma getValue_step_catchAll:
  assumes step: "take (length (n_path n)) path = n_path n" "drop (length (n_path n)) path = c # cs"
    and "find_index (\<lambda>x. x = c) (n_indices n) = None" and "n_wildChild n = Some wc"
    and "n_nType wc = CatchAllN" and "n_children wc = [leaf]" and "n_path leaf = slash # star # nm"
  shows "getValue n path (Some ps) = Inr (n_data leaf, False, Some (ps @ [mkParam nm cs]))"
  using assms
  by (subst getValue.simps) (simp add: getValue_step_longer[OF step(2)] append_param_def)


lemma catchAll_lookup:
  assumes wf: "wf_node n" "is_static n" and w: "n_wildChild n = Some wc" "n_nType wc = CatchAllN"
    and leaf: "routes wc = [(slash # star # nm, x)]"
  shows "trie_lookup l (tails n) (c # cs) = (if c = slash \<or> l then Some (x, [mkParam nm cs]) else None)"
proof -
  have "n_children n = []" using wf_staticD(5)[OF wf w(1)] w(2) by simp
  then have "tails n = (case n_data n of None \<Rightarrow> [] | Some d \<Rightarrow> [([], d)]) @ [(slash # star # nm, x)]"
    using w leaf by (simp add: tails_def[of n])
  then show ?thesis by (cases "n_data n") (auto simp: trie_lookup.simps(2))
qed

lemma param_lookup:
  assumes wf: "wf_node n" "is_static n" and w: "n_wildChild n = Some wc" "n_nType wc = ParamN"
    and none: "\<forall>x \<in> set (n_indices n). x \<noteq> c"
  shows "trie_lookup l (tails n) (c # cs) =
    map_option (\<lambda>(x, qs). (x, mkParam (drop 1 (n_path wc)) (takeWhile (\<lambda>b. b \<noteq> slash) (c # cs)) # qs))
      (trie_lookup l (tails wc) (dropWhile (\<lambda>b. b \<noteq> slash) (c # cs)))"
proof -
  have wc: "wf_node wc" using wf_staticD(5)[OF wf w(1)] by simp
  note P = param_routes_params[OF wc w(2)]
  have pick_data: "params_of (case n_data n of None \<Rightarrow> [] | Some d \<Rightarrow> [([], d)]) = []"
    "catches (case n_data n of None \<Rightarrow> [] | Some d \<Rightarrow> [([], d)]) = []" by (simp_all split: option.split)
  have par: "params_of (tails n) = params_of (routes wc)"
    using children_params_Nil[OF wf] w pick_data by (simp add: tails_def[of n])
  moreover have "catches (tails n) = []" if "c = slash"
    using no_index(2)[OF wf none that] P(4) w pick_data by (simp add: tails_def[of n])
  ultimately show ?thesis
    using no_index(1)[OF wf none] P(1-3) by (simp only: trie_lookup.simps(2)[of l "tails n"]) auto
qed

lemma param_child:
  assumes "wf_node wc" and "n_nType wc = ParamN" and "n_children wc \<noteq> []"
  shows "wf_node (n_children wc ! 0) \<and> n_nType (n_children wc ! 0) = StaticN \<and>
         key (n_children wc ! 0) = slash \<and> length (n_children wc) = 1"
  by (rule wf_paramD[OF assms(1,2)]) (use assms(3) in auto)

lemma param_path_ne: "wf_node wc \<Longrightarrow> n_nType wc = ParamN \<Longrightarrow> n_path wc \<noteq> []"
  by (erule (1) wf_paramD) simp

lemma no_match_lookup:
  assumes wf: "wf_node n" "is_static n" and "n_wildChild n = None"
    and none: "\<forall>x \<in> set (n_indices n). x \<noteq> c"
  shows "trie_lookup False (tails n) (c # cs) = None"
proof -
  have "params_of (tails n) = []" and "c = slash \<Longrightarrow> catches (tails n) = []"
    using children_params_Nil[OF wf] no_index(2)[OF wf none] assms(3)
    by (auto simp: tails_def[of n] split: option.splits)
  then show ?thesis
    using no_index(1)[OF wf none] by (simp only: trie_lookup.simps(2)[of False "tails n"]) auto
qed

lemma getValue_between:
  "wf_node n \<Longrightarrow> is_static n \<Longrightarrow>
   between (getValue n path (Some ps)) ps (trie_lookup False (routes n) path) (trie_lookup True (routes n) path)"
proof (induction "weight n" arbitrary: n path ps rule: less_induct)
  case less
  note wf = less.prems
  note D = wf_staticD[OF wf]
  have spec: "trie_lookup l (routes n) path =
      (if take (length (n_path n)) path = n_path n then trie_lookup l (tails n) (drop (length (n_path n)) path)
       else None)" for l
    by (simp add: routes_tails[of n] trie_lookup_prep[OF D(1) tails_okI_static[OF wf]])
  show ?case
  proof (cases "take (length (n_path n)) path = n_path n")
    case False
    then have "path \<noteq> n_path n" by auto
    with False show ?thesis by (simp add: spec getValue.simps[of n])
  next
    case pre: True
    show ?thesis
    proof (cases "drop (length (n_path n)) path")
      case Nil
      with pre have path: "path = n_path n" by (metis append_Nil2 append_take_drop_id)
      have "n_nType n \<noteq> CatchAllN" using wf(2) by (auto simp: is_static_def)
      then have "trie_lookup l (routes n) (n_path n) = map_option (\<lambda>x. (x, [])) (n_data n)" for l
        using spec[of l] path map_of_tails_Nil[OF wf(1)] by simp
      then show ?thesis
        using getValue_at_end[OF wf, of "Some ps"] by (auto simp: path between_def)
    next
      case step: (Cons c cs)
      show ?thesis
      proof (cases "find_index (\<lambda>x. x = c) (n_indices n)")
        case (Some i)
        then have i: "i < length (n_children n)" and k: "key (n_children n ! i) = c"
          using D(2) find_index_SomeD[OF Some] by auto
        let ?ch = "n_children n ! i"
        have "between (getValue ?ch (c # cs) (Some ps)) ps (trie_lookup False (routes ?ch) (c # cs))
                (trie_lookup True (routes ?ch) (c # cs))"
          using D(4)[OF nth_mem[OF i]] by (intro less.hyps weight_child nth_mem i) auto
        then show ?thesis
          by (simp add: spec pre step getValue_step_child[OF pre step Some i] node_step_child[OF wf i k])
      next
        case None
        then have none: "\<forall>x \<in> set (n_indices n). x \<noteq> c" by (simp add: find_index_None)
        show ?thesis
        proof (cases "n_wildChild n")
          case w: None
          then show ?thesis
            using getValue_step_none[OF pre step None w, of "Some ps"] no_match_lookup[OF wf w none]
            by (auto simp: spec pre step)
        next
          case w: (Some wc)
          note W = D(5)[OF w]
          show ?thesis
          proof (cases "n_nType wc = ParamN")
            case par: True
            let ?rest = "dropWhile (\<lambda>b. b \<noteq> slash) (c # cs)"
            let ?p = "mkParam (drop 1 (n_path wc)) (takeWhile (\<lambda>b. b \<noteq> slash) (c # cs))"
            have wc: "wf_node wc" "n_path wc \<noteq> []" using W param_path_ne par by auto
            have rest: "between (getValue n path (Some ps)) (ps @ [?p])
                (trie_lookup False (tails wc) ?rest) (trie_lookup True (tails wc) ?rest)"
              (is "between ?r _ _ _")
            proof (cases ?rest)
              case Nil
              have t: "trie_lookup l (tails wc) [] = map_option (\<lambda>x. (x, [])) (n_data wc)" for l
                using map_of_tails_Nil[OF wc(1)] par by simp
              show ?thesis
                unfolding getValue_step_param[OF pre step None w par wc(2)] Let_def Nil t
                by (cases "n_data wc") (auto simp: between_def)
            next
              case (Cons a as)
              show ?thesis
              proof (cases "n_children wc = []")
                case True
                then show ?thesis
                  unfolding getValue_step_param[OF pre step None w par wc(2)] Let_def Cons
                    param_tails_step[OF wc(1) par] by simp
              next
                case False
                let ?ch = "n_children wc ! 0"
                have ch: "wf_node ?ch" "is_static ?ch"
                  using param_child[OF wc(1) par False] by auto
                have "weight ?ch < weight n" using weight_wild_child[OF w False] .
                from less.hyps[OF this ch, of "a # as" "ps @ [?p]"] False show ?thesis
                  unfolding getValue_step_param[OF pre step None w par wc(2)] Let_def Cons
                    param_tails_step[OF wc(1) par] by simp
              qed
            qed
            from between_prefix[OF rest] show ?thesis
              by (simp only: spec pre step if_True simp_thms param_lookup[OF wf w par none])
          next
            case False
            with W have cat: "n_nType wc = CatchAllN" and wc: "wf_node wc" by auto
            from wc cat obtain leaf nm x where L: "n_children wc = [leaf]" "n_path leaf = slash # star # nm"
              "n_data leaf = Some x" "routes wc = [(slash # star # nm, x)]" by (rule wf_catchAllD)
            show ?thesis
              by (auto simp: spec pre step getValue_step_catchAll[OF pre step None w cat L(1,2)]
                    catchAll_lookup[OF wf w cat L(4)] L(3) between_def)
          qed
        qed
      qed
    qed
  qed
qed

end
