(* ===== verification/TreeInsert.thy ===== *)
theory TreeInsert
  imports TreeSpec "HOL-Library.Multiset"
begin

section \<open>Registration keeps the invariant and adds exactly one route\<close>

text \<open>
  The walk of \<open>addRoute\<close>, case by case: each way the loop body can end yields a
  well-formed node whose routes are the old ones and the new one.
\<close>

subsection \<open>Fields that do not matter\<close>

lemma inc_bump_simps [simp]:
  "wf_node (inc_priority n) = wf_node n" "wf_node (bump_maxParams k n) = wf_node n"
  "routes (inc_priority n) = routes n" "routes (bump_maxParams k n) = routes n"
  "tails (inc_priority n) = tails n" "tails (bump_maxParams k n) = tails n"
  "key (inc_priority n) = key n" "key (bump_maxParams k n) = key n"
  "is_static (inc_priority n) = is_static n" "is_static (bump_maxParams k n) = is_static n"
  by (cases n; simp add: bump_maxParams_def tails_def key_def is_static_def)+

lemma set_fields_sel [simp]:
  "n_path (set_data d n) = n_path n" "n_nType (set_data d n) = n_nType n"
  "n_path (set_wildChild w n) = n_path n" "n_nType (set_wildChild w n) = n_nType n"
  "n_path (set_children cs n) = n_path n" "n_nType (set_children cs n) = n_nType n"
  "n_path (set_indices ix n) = n_path n" "n_nType (set_indices ix n) = n_nType n"
  "n_children (set_children cs n) = cs" "n_children (set_indices ix n) = n_children n"
  "n_data (set_children cs n) = n_data n" "n_data (set_indices ix n) = n_data n"
  "n_wildChild (set_children cs n) = n_wildChild n" "n_wildChild (set_indices ix n) = n_wildChild n"
  "n_data (set_wildChild w n) = n_data n" "n_children (set_wildChild w n) = n_children n"
  "n_wildChild (set_wildChild w n) = w" "n_wildChild (set_data d n) = n_wildChild n"
  "n_children (set_data d n) = n_children n" "n_data (set_data d n) = d"
  "n_indices (set_data d n) = n_indices n" "n_indices (set_wildChild w n) = n_indices n"
  "n_indices (set_children cs n) = n_indices n" "n_indices (set_indices ix n) = ix"
  by (cases n; simp)+

subsection \<open>Wildcards of a pattern\<close>

lemma pattern_cases [case_names literal wildcard]:
  obtains "no_wild path"
  | pre c nm rest where "path = pre @ c # nm @ rest" "no_wild pre" "is_wild c" "slash \<notin> set nm"
      "rest = [] \<or> hd rest = slash"
proof (cases "no_wild path")
  case False
  let ?pre = "takeWhile (\<lambda>c. \<not> is_wild c) path"
  let ?suf = "dropWhile (\<lambda>c. \<not> is_wild c) path"
  have suf: "?suf \<noteq> []" "is_wild (hd ?suf)"
    using False hd_dropWhile[of "\<lambda>c. \<not> is_wild c" path] by (auto simp: no_wild_def list_all_iff dropWhile_eq_Nil_conv)
  let ?nm = "takeWhile (\<lambda>c. c \<noteq> slash) (tl ?suf)"
  let ?rest = "dropWhile (\<lambda>c. c \<noteq> slash) (tl ?suf)"
  have "path = ?pre @ hd ?suf # ?nm @ ?rest" using suf(1) by simp
  moreover have "no_wild ?pre" by (auto simp: no_wild_def list_all_iff dest: set_takeWhileD)
  moreover have "slash \<notin> set ?nm" by (auto dest: set_takeWhileD)
  moreover have "?rest = [] \<or> hd ?rest = slash" using hd_dropWhile[of "\<lambda>c. c \<noteq> slash" "tl ?suf"] by auto
  ultimately show ?thesis using suf(2) that(2) by blast
qed (rule that(1))

lemma scan_wildcard_split:
  "slash \<notin> set nm \<Longrightarrow> rest = [] \<or> hd rest = slash \<Longrightarrow>
   scan_wildcard (nm @ rest) v = (nm, v \<and> no_wild nm)"
proof (induction nm arbitrary: v)
  case Nil
  then show ?case by (cases rest) auto
qed auto

lemma findWildcard_literal: "no_wild path \<Longrightarrow> findWildcard path = None"
  by (induction path) auto

lemma findWildcard_split:
  "no_wild pre \<Longrightarrow> is_wild c \<Longrightarrow> slash \<notin> set nm \<Longrightarrow> rest = [] \<or> hd rest = slash \<Longrightarrow>
   findWildcard (pre @ c # nm @ rest) = Some (c # nm, length pre, no_wild nm)"
  by (induction pre) (auto simp: scan_wildcard_split)

subsection \<open>insertChild, by the shape of the pattern\<close>

lemma insertChild_literal:
  "no_wild path \<Longrightarrow> insertChild n path full d = Inr (set_data (Some d) (set_path path n))"
  by (simp add: insertChild.simps[of n path] findWildcard_literal)

lemma insertChild_invalid:
  assumes "no_wild pre" "is_wild c" "slash \<notin> set nm" "rest = [] \<or> hd rest = slash" "nm = [] \<or> \<not> no_wild nm"
  shows "\<exists>e. insertChild n (pre @ c # nm @ rest) full d = Inl e"
  using assms by (auto simp: insertChild.simps[of n "pre @ _"] findWildcard_split)

lemma insertChild_param:
  assumes "no_wild pre" "slash \<notin> set nm" "rest = [] \<or> hd rest = slash" "nm \<noteq> []" "no_wild nm"
  shows "insertChild n (pre @ colon # nm @ rest) full d =
    (let n1 = (if pre \<noteq> [] then set_path pre n else n) in
     if rest \<noteq> [] then
       map_res (\<lambda>g. set_wildChild (Some (Node (colon # nm) [] None ParamN 1 [g] None 0)) n1)
         (insertChild (Node [] [] None StaticN 1 [] None 0) rest full d)
     else Inr (set_wildChild (Some (Node (colon # nm) [] None ParamN 1 [] (Some d) 0)) n1))"
proof -
  have fw: "findWildcard (pre @ colon # nm @ rest) = Some (colon # nm, length pre, True)"
    using assms by (simp add: findWildcard_split)
  have "length nm > 0" using assms(4) by simp
  then show ?thesis
    unfolding insertChild.simps[of n "pre @ colon # nm @ rest"] fw by (simp add: Let_def)
qed

lemma insertChild_catchAll:
  assumes "no_wild pre" "slash \<notin> set nm" "rest = [] \<or> hd rest = slash" "nm \<noteq> []" "no_wild nm"
    and "insertChild n (pre @ star # nm @ rest) full d = Inr n'"
  shows "rest = [] \<and> (\<exists>p. pre = p @ [slash] \<and> n' =
      set_wildChild (Some (Node [] [] None CatchAllN 1
         [Node (slash # star # nm) [] None CatchAllN 1 [] (Some d) 0] None 0)) (set_path p n))"
proof -
  have fw: "findWildcard (pre @ star # nm @ rest) = Some (star # nm, length pre, True)"
    using assms by (simp add: findWildcard_split)
  have "length nm > 0" using assms(4) by simp
  with assms(6) fw have "rest = []" "pre \<noteq> []" "(pre @ star # nm @ rest) ! (length pre - 1) = slash"
    "n' = set_wildChild (Some (Node [] [] None CatchAllN 1
         [Node (drop (length pre - 1) (pre @ star # nm @ rest)) [] None CatchAllN 1 [] (Some d) 0] None 0))
         (set_path (take (length pre - 1) (pre @ star # nm @ rest)) n)"
    by (auto simp: insertChild.simps[of n "pre @ star # nm @ rest"] split: if_splits)
  then show ?thesis by (cases pre rule: rev_cases) (auto simp: nth_append)
qed

subsection \<open>insertChild on a fresh node\<close>

definition fresh :: "('h, 'r, 'm) node \<Rightarrow> bool" where
  "fresh n \<longleftrightarrow> n_path n = [] \<and> n_indices n = [] \<and> n_wildChild n = None \<and> n_nType n = StaticN
     \<and> n_children n = [] \<and> n_data n = None"

lemma insertChild_fresh:
  "fresh n \<Longrightarrow> path \<noteq> [] \<Longrightarrow> insertChild n path full d = Inr n' \<Longrightarrow>
   wf_node (set_nType RootN n') \<and> routes n' = [(path, d)] \<and> n_nType n' = StaticN
    \<and> (\<not> is_wild (hd path) \<longrightarrow> wf_node n' \<and> key n' = hd path)"
proof (induction "length path" arbitrary: n path n' rule: less_induct)
  case less
  obtain pr mp where n: "n = Node [] [] None StaticN pr [] None mp"
    using less.prems(1) by (cases n) (auto simp: fresh_def)
  show ?case
  proof (cases path rule: pattern_cases)
    case literal
    with less.prems n show ?thesis
      by (auto simp: insertChild_literal prep_def key_def no_wild_def list_all_iff)
  next
    case (wildcard pre c nm rest)
    have ok: "nm \<noteq> []" "no_wild nm"
      using insertChild_invalid[OF wildcard(2-5), of n full d] less.prems(3) wildcard(1) by auto
    have hd_path: "hd path = (if pre = [] then c else hd pre)" using wildcard(1) by (cases pre) auto
    consider "c = colon" "rest = []" | "c = colon" "rest \<noteq> []" | "c = star"
      using wildcard(3) by (auto simp: is_wild_def)
    then show ?thesis
    proof cases
      case 1
      with less.prems(3) wildcard ok n hd_path show ?thesis
        by (auto simp: insertChild_param[where rest = "[]", simplified] key_def prep_def Suc_le_eq)
    next
      case 2
      then obtain g where
        g: "insertChild (Node [] [] None StaticN 1 [] None 0) rest full d = Inr g"
        and n': "n' = Node pre [] (Some (Node (colon # nm) [] None ParamN 1 [g] None 0)) StaticN pr [] None mp"
        using less.prems(3) wildcard ok n by (auto simp: insertChild_param Let_def)
      have "length rest < length path" using wildcard(1) by simp
      from less.hyps[OF this _ 2(2) g] have G: "wf_node g" "key g = slash" "routes g = [(rest, d)]" "n_nType g = StaticN"
        using 2(2) wildcard(5) by (auto simp: fresh_def)
      with n' wildcard ok 2 hd_path show ?thesis
        by (auto simp: key_def prep_def Suc_le_eq)
    next
      case 3
      with insertChild_catchAll[OF wildcard(2,4,5) ok, of n full d n'] less.prems(3) wildcard(1) n obtain p where
        "rest = []" "pre = p @ [slash]" and n': "n' = Node p [] (Some (Node [] [] None CatchAllN 1
           [Node (slash # star # nm) [] None CatchAllN 1 [] (Some d) 0] None 0)) StaticN pr [] None mp"
        by fastforce
      with 3 wildcard ok hd_path show ?thesis
        by (cases p) (auto simp: key_def prep_def wf_leaf_def)
    qed
  qed
qed

subsection \<open>The ways a step of the walk ends\<close>

text \<open>What a step yields: a well-formed node of the same kind, with exactly one more route.\<close>

definition grown :: "('h, 'r, 'm) node \<Rightarrow> gostring \<Rightarrow> ('h, 'r, 'm) routeData \<Rightarrow> ('h, 'r, 'm) node \<Rightarrow> bool" where
  "grown n path d n' \<longleftrightarrow> wf_node n' \<and> n_nType n' = n_nType n
     \<and> (n_nType n = StaticN \<longrightarrow> key n' = key n) \<and> (n_nType n = ParamN \<longrightarrow> n_path n' = n_path n)
     \<and> mset (routes n') = add_mset (path, d) (mset (routes n))"

lemma mset_prep: "mset (prep p R) = image_mset (\<lambda>(q, x). (p @ q, x)) (mset R)"
  by (simp add: prep_def)

lemma mset_routes: "mset (routes n) = image_mset (\<lambda>(q, x). (n_path n @ q, x)) (mset (tails n))"
  by (simp add: routes_tails[of n] mset_prep)

lemma mset_concat_routes:
  "mset (concat (map routes (A @ x # B))) = mset (routes x) + mset (concat (map routes (A @ B)))"
  by simp

lemma grown_data:
  assumes "wf_node n" and "n_data n = None" and "n_nType n \<noteq> CatchAllN" and "n_path n \<noteq> []"
  shows "grown n (n_path n) d (set_data (Some d) n)"
  using assms by (cases n) (auto simp: grown_def key_def mset_prep)

lemma key_cong: "n_path n' = n_path n \<Longrightarrow> key n' = key n"
  by (simp add: key_def)

lemma is_static_set [simp]:
  "is_static (set_children cs n) = is_static n" "is_static (set_indices ix n) = is_static n"
  "is_static (set_wildChild w n) = is_static n" "is_static (set_data d n) = is_static n"
  by (simp_all add: is_static_def)

lemma tails_set:
  "tails (set_wildChild w n) = (case n_data n of None \<Rightarrow> [] | Some x \<Rightarrow> [([], x)])
     @ concat (map routes (n_children n)) @ (case w of None \<Rightarrow> [] | Some wc \<Rightarrow> routes wc)"
  "tails (set_children cs n) = (case n_data n of None \<Rightarrow> [] | Some x \<Rightarrow> [([], x)])
     @ concat (map routes cs) @ (case n_wildChild n of None \<Rightarrow> [] | Some wc \<Rightarrow> routes wc)"
  by (simp_all add: tails_def)

lemma is_static_cong: "n_nType n' = n_nType n \<Longrightarrow> is_static n' = is_static n"
  by (simp add: is_static_def)

text \<open>A pattern that starts with a wildcard hangs a parameter node at an existing node.\<close>

lemma insertChild_wild:
  assumes "is_wild (hd path)" "path \<noteq> []" and r: "insertChild n path full d = Inr n'"
  shows "\<exists>pc. n' = set_wildChild (Some pc) n \<and> wf_node pc \<and> n_nType pc = ParamN \<and> routes pc = [(path, d)]"
proof (cases path rule: pattern_cases)
  case literal
  with assms show ?thesis by (cases path) auto
next
  case (wildcard pre c nm rest)
  have pre: "pre = []" using wildcard(1,2) assms(1) by (cases pre) auto
  have ok: "nm \<noteq> []" "no_wild nm"
    using insertChild_invalid[OF wildcard(2-5), of n full d] r wildcard(1) by auto
  have "c = colon"
    using insertChild_catchAll[OF wildcard(2,4,5) ok, of n full d n'] r wildcard(1,3) pre by (auto simp: is_wild_def)
  with r wildcard pre have r': "insertChild n ([] @ colon # nm @ rest) full d = Inr n'" by simp
  show ?thesis
  proof (cases "rest = []")
    case True
    with r' wildcard pre ok \<open>c = colon\<close> show ?thesis
      unfolding insertChild_param[OF no_wild_simps(1) wildcard(4,5) ok]
      by (auto simp: prep_def Suc_le_eq)
  next
    case False
    then obtain g where g: "insertChild (Node [] [] None StaticN 1 [] None 0) rest full d = Inr g"
      and n': "n' = set_wildChild (Some (Node (colon # nm) [] None ParamN 1 [g] None 0)) n"
      using r' unfolding insertChild_param[OF no_wild_simps(1) wildcard(4,5) ok] by (auto simp: Let_def)
    from insertChild_fresh[OF _ False g] have "wf_node g \<and> key g = slash \<and> routes g = [(rest, d)] \<and> n_nType g = StaticN"
      using False wildcard(5) by (auto simp: fresh_def)
    with n' wildcard pre ok \<open>c = colon\<close> show ?thesis by (auto simp: prep_def Suc_le_eq)
  qed
qed

text \<open>A wildcard child where there was none.\<close>

lemma grown_new_param:
  assumes wf: "wf_node n" "is_static n" and w: "n_wildChild n = None" and c: "is_wild (hd path)" "path \<noteq> []"
    and r: "insertChild n path full d = Inr n'"
  shows "grown n (n_path n @ path) d n'"
proof -
  obtain pc where pc: "n' = set_wildChild (Some pc) n" "wf_node pc" "n_nType pc = ParamN" "routes pc = [(path, d)]"
    using insertChild_wild[OF c r] by blast
  have "n_nType n = StaticN \<Longrightarrow> n_path n \<noteq> []"
    using wf_staticD(7)[OF wf] w by (auto simp: has_catchAll_def)
  then have "wf_node n'"
    using wf pc by (auto simp: wf_static_iff)
  moreover have "mset (tails n') = add_mset (path, d) (mset (tails n))"
    using pc w by (simp add: tails_def[of n] tails_set)
  ultimately show ?thesis
    using wf(2) pc by (auto simp: grown_def mset_routes key_def is_static_def)
qed

text \<open>A new static child.\<close>

lemma incrementChildPrio_update:
  assumes "pos < length cs" and "incrementChildPrio cs ((map key cs)[pos := key x]) pos = (cs', ix', j)"
  obtains A B where "A @ B = take pos cs @ drop (Suc pos) cs" "cs'[j := x] = A @ x # B"
    "ix' = map key (A @ x # B)" "cs' ! j = inc_priority (cs ! pos)"
proof -
  have "length ((map key cs)[pos := key x]) = length cs" by simp
  note S = incrementChildPrio_shape[OF assms(1) this assms(2)]
  let ?A = "take j cs" and ?B = "drop j (take pos cs) @ drop (Suc pos) cs"
  have len: "length ?A = j" using S(3) assms(1) by simp
  have "take j cs @ drop j (take pos cs) = take pos cs"
    using S(3) by (metis append_take_drop_id min.absorb1 take_take)
  then have "?A @ ?B = take pos cs @ drop (Suc pos) cs" by simp
  moreover have "cs'[j := x] = ?A @ x # ?B"
    using S(1) len by (simp add: list_update_append)
  moreover have "ix' = map key (?A @ x # ?B)"
    using S(2,3) assms(1) by (simp add: take_map drop_map)
  moreover have "cs' ! j = inc_priority (cs ! pos)" using S(1) len by (simp add: nth_append)
  ultimately show ?thesis by (rule that)
qed

text \<open>A static node whose children are \<open>A @ x # B\<close> where \<open>A @ B\<close> were the others.\<close>

lemma grown_children:
  assumes wf: "wf_node n" "is_static n" and nc: "\<not> has_catchAll n"
    and n': "n' = set_children (A @ x # B) (set_indices (map key (A @ x # B)) n)"
    and x: "wf_node x" "n_nType x = StaticN" and path: "n_path n = [] \<longrightarrow> n_nType n = RootN"
    and others: "set (A @ B) \<subseteq> set (n_children n)" "distinct (map key (A @ B))" "key x \<notin> set (map key (A @ B))"
    and routes: "mset (routes x) + mset (concat (map routes (A @ B)))
        = add_mset (p, d) (mset (concat (map routes (n_children n))))"
  shows "grown n (n_path n @ p) d n'"
proof -
  note D = wf_staticD[OF wf]
  have cs: "list_all wf_node (A @ x # B)" "list_all (\<lambda>c. n_nType c = StaticN) (A @ x # B)"
    "distinct (map key (A @ x # B))" using x others D(4) by (auto simp: list_all_iff)
  have "case n_wildChild n of None \<Rightarrow> True | Some wc \<Rightarrow> wf_node wc \<and> n_nType wc = ParamN"
    using D(5) nc by (auto simp: has_catchAll_def split: option.split)
  then have "wf_node n'"
    using cs D(1,6) path wf(2) unfolding n' by (simp add: wf_static_iff split: option.splits)
  moreover have "mset (tails n') = add_mset (p, d) (mset (tails n))"
    using routes n' by (simp add: tails_def[of n] tails_set ac_simps)
  ultimately show ?thesis
    using wf(2) n' by (auto simp: grown_def mset_routes key_def is_static_def)
qed

lemma grown_static_child:
  assumes wf: "wf_node n" "is_static n" and none: "\<forall>x \<in> set (n_indices n). x \<noteq> hd path"
    and path: "path \<noteq> []" "\<not> is_wild (hd path)"
    and r: "add_static_child n path full np d = Inr n'"
  shows "grown n (n_path n @ path) d n'"
proof -
  note D = wf_staticD[OF wf]
  let ?c0 = "set_maxParams np new_node :: ('a, 'b, 'c) node"
  have len: "length (n_indices n) = length (n_children n)" using D(2) by simp
  obtain cs ix j where inc: "incrementChildPrio (n_children n @ [?c0]) (n_indices n @ [hd path])
      (length (n_indices n)) = (cs, ix, j)" by (rule prod_cases3)
  obtain x where nc: "\<not> has_catchAll n" and x: "insertChild (cs ! j) path full d = Inr x"
    and n': "n' = set_children (cs[j := x]) (set_indices ix n)"
    using r inc len by (auto simp: add_static_child_def split: if_splits)
  have "cs ! j = inc_priority ?c0"
    using incrementChildPrio_nth[OF _ inc] len by simp
  then have "fresh (cs ! j)" by (simp add: fresh_def new_node_def)
  from insertChild_fresh[OF this path(1) x] path(2) have X: "wf_node x" "key x = hd path" "n_nType x = StaticN"
    "routes x = [(path, d)]" by auto
  have "n_indices n @ [hd path] = (map key (n_children n @ [?c0]))[length (n_indices n) := key x]"
    using D(2) X(2) by (simp add: list_update_append)
  with inc have inc': "incrementChildPrio (n_children n @ [?c0])
      ((map key (n_children n @ [?c0]))[length (n_indices n) := key x]) (length (n_indices n)) = (cs, ix, j)" by simp
  obtain A B where AB: "A @ B = n_children n" "cs[j := x] = A @ x # B" "ix = map key (A @ x # B)"
    by (rule incrementChildPrio_update[OF _ inc']) (use len in auto)
  show ?thesis
  proof (rule grown_children[OF wf nc _ X(1,3)])
    show "n' = set_children (A @ x # B) (set_indices (map key (A @ x # B)) n)" using n' AB by simp
    show "n_path n = [] \<longrightarrow> n_nType n = RootN" using D(7) nc wf(2) by (auto simp: is_static_def)
    show "key x \<notin> set (map key (A @ B))" using none D(2) X(2) AB(1) by auto
  qed (use AB D(3) X(4) in auto)
qed

text \<open>A step into a child, the slash child of a parameter, and the wildcard child.\<close>

lemma grown_into_child:
  assumes wf: "wf_node n" "is_static n" and k: "k < length (n_children n)"
    and inc: "incrementChildPrio (n_children n) (n_indices n) k = (cs, ix, j)"
    and x: "grown (n_children n ! k) path d x"
  shows "grown n (n_path n @ path) d (set_children (cs[j := x]) (set_indices ix n))"
proof -
  note D = wf_staticD[OF wf]
  let ?ch = "n_children n ! k"
  have ch: "wf_node ?ch" "n_nType ?ch = StaticN" using D(4)[OF nth_mem[OF k]] by auto
  then have X: "wf_node x" "n_nType x = StaticN" "key x = key ?ch"
    "mset (routes x) = add_mset (path, d) (mset (routes ?ch))" using x by (auto simp: grown_def)
  have "n_indices n = (map key (n_children n))[k := key x]"
    using D(2) X(3) k list_update_id[of "map key (n_children n)" k] by simp
  with inc have inc': "incrementChildPrio (n_children n) ((map key (n_children n))[k := key x]) k = (cs, ix, j)" by simp
  obtain A B where AB: "A @ B = take k (n_children n) @ drop (Suc k) (n_children n)"
    "cs[j := x] = A @ x # B" "ix = map key (A @ x # B)"
    by (rule incrementChildPrio_update[OF k inc'])
  have split: "n_children n = take k (n_children n) @ ?ch # drop (Suc k) (n_children n)"
    using k by (rule id_take_nth_drop)
  have dist: "distinct (map key (take k (n_children n) @ ?ch # drop (Suc k) (n_children n)))"
    using D(3) split by simp
  have nc: "\<not> has_catchAll n" using D(5) k by (auto simp: has_catchAll_def split: option.splits)
  show ?thesis
  proof (rule grown_children[OF wf nc _ X(1,2)])
    show "set_children (cs[j := x]) (set_indices ix n)
        = set_children (A @ x # B) (set_indices (map key (A @ x # B)) n)" using AB by simp
    show "n_path n = [] \<longrightarrow> n_nType n = RootN" using D(7) nc wf(2) by (auto simp: is_static_def)
    show "set (A @ B) \<subseteq> set (n_children n)" unfolding AB(1) by (auto dest: in_set_takeD in_set_dropD)
    show "distinct (map key (A @ B))" "key x \<notin> set (map key (A @ B))"
      unfolding AB(1) X(3) using dist by auto
    have "mset (concat (map routes (n_children n))) = mset (routes ?ch) + mset (concat (map routes (A @ B)))"
      unfolding AB(1) by (subst split) (rule mset_concat_routes)
    then show "mset (routes x) + mset (concat (map routes (A @ B)))
        = add_mset (path, d) (mset (concat (map routes (n_children n))))" using X(4) by simp
  qed
qed

lemma grown_into_slash_child:
  assumes wf: "wf_node n" "n_nType n = ParamN" and ch: "n_children n = [ch]" and x: "grown ch path d x"
  shows "grown n (n_path n @ path) d (set_children [x] n)"
  using assms by (cases n) (auto simp: grown_def mset_prep)

lemma grown_into_param:
  assumes wf: "wf_node n" "is_static n" and w: "n_wildChild n = Some wc" "n_nType wc = ParamN"
    and x: "grown wc path d x"
  shows "grown n (n_path n @ path) d (set_wildChild (Some x) n)"
proof -
  let ?n' = "set_wildChild (Some x) n"
  have "n_path n = [] \<longrightarrow> n_nType n = RootN"
    using wf_staticD(7)[OF wf] w wf(2) by (auto simp: has_catchAll_def is_static_def)
  then have "wf_node ?n'"
    using wf x w by (auto simp: wf_static_iff  grown_def)
  moreover have "mset (tails ?n') = add_mset (path, d) (mset (tails n))"
    using x w by (simp add: tails_def[of n] tails_set grown_def)
  ultimately show ?thesis
    using wf(2) by (auto simp: grown_def mset_routes key_def is_static_def)
qed

text \<open>A parameter node without children gets its slash child.\<close>

lemma grown_param_child:
  assumes wf: "wf_node n" "n_nType n = ParamN" and ch: "length (n_children n) \<noteq> 1"
    and path: "path \<noteq> []" "hd path = slash"
    and r: "add_static_child n path full np d = Inr n'"
  shows "grown n (n_path n @ path) d n'"
proof (rule wf_paramD[OF wf])
  assume "n_wildChild n = None" and
    "n_children n = [] \<and> n_indices n = [] \<and> n_data n \<noteq> None \<or>
     (\<exists>ch. n_children n = [ch] \<and> wf_node ch \<and> n_nType ch = StaticN \<and> key ch = slash
           \<and> (n_indices n = [] \<or> n_indices n = [slash]))"
  with ch have n: "n_children n = []" "n_indices n = []" "n_data n \<noteq> None" by auto
  let ?c0 = "set_maxParams np new_node :: ('a, 'b, 'c) node"
  have inc: "incrementChildPrio [?c0] [hd path] 0 = ([inc_priority ?c0], [hd path], 0)"
    by (simp add: incrementChildPrio_def)
  obtain x where x: "insertChild (inc_priority ?c0) path full d = Inr x"
    and n': "n' = set_children [x] (set_indices [hd path] n)"
    using r n inc by (auto simp: add_static_child_def split: if_splits)
  have "fresh (inc_priority ?c0)" by (simp add: fresh_def new_node_def)
  from insertChild_fresh[OF this path(1) x] path(2)
  have "wf_node x" "key x = slash" "n_nType x = StaticN" "routes x = [(path, d)]" by auto
  with n' n wf path(2) show ?thesis by (cases n) (auto simp: grown_def mset_prep)
qed

subsection \<open>The walk\<close>

lemma split_edge_wf:
  assumes wf: "wf_node n" "is_static n" and i: "i < length (n_path n)" and "n_nType n = StaticN \<longrightarrow> i > 0"
  shows "wf_node (split_edge i n)" "routes (split_edge i n) = routes n"
    "n_nType n = StaticN \<Longrightarrow> key (split_edge i n) = key n"
proof -
  obtain p ix w t pr cs d mp where n: "n = Node p ix w t pr cs d mp" by (cases n)
  have t: "t = StaticN \<or> t = RootN" using wf(2) n by (simp add: is_static_def)
  have "no_wild (take i p)" "no_wild (drop i p)" "\<not> is_wild (p ! i)"
    using wf_staticD(1)[OF wf] n i by (auto simp: no_wild_def list_all_iff dest: in_set_takeD in_set_dropD)
  moreover have "drop i p \<noteq> []" "hd (drop i p) = p ! i" using i n by (auto simp: hd_drop_conv_nth)
  ultimately show "wf_node (split_edge i n)"
    using assms n t by (auto simp: split_edge_def key_def wf_static_iff is_static_def)
  show "routes (split_edge i n) = routes n"
    using n by (simp add: split_edge_def prep_def comp_def case_prod_beta)
  show "key (split_edge i n) = key n" if "n_nType n = StaticN"
    using that assms n by (cases p) (auto simp: split_edge_def key_def)
qed

lemma lcp_prefix: "take (length b) a = b \<Longrightarrow> longestCommonPrefix a b = length b"
  by (induction a b rule: longestCommonPrefix.induct) auto

lemma lcp_pos: "a \<noteq> [] \<Longrightarrow> b \<noteq> [] \<Longrightarrow> hd a = hd b \<Longrightarrow> longestCommonPrefix a b > 0"
  by (cases a; cases b) auto

text \<open>The node the loop body works on: the node itself, or the upper half of the split edge.\<close>

definition walk_node :: "gostring \<Rightarrow> 8 word \<Rightarrow> ('h, 'r, 'm) node \<Rightarrow> ('h, 'r, 'm) node" where
  "walk_node path np n =
     (let n1 = bump_maxParams np n; i = longestCommonPrefix path (n_path n1)
      in if i < length (n_path n1) then split_edge i n1 else n1)"

text \<open>The part of the loop body for a path that goes on below the common prefix.\<close>

definition walk_rest ::
  "('h, 'r, 'm) node \<Rightarrow> gostring \<Rightarrow> gostring \<Rightarrow> 8 word \<Rightarrow> ('h, 'r, 'm) routeData
     \<Rightarrow> panic + ('h, 'r, 'm) node" where
  "walk_rest m rest full np d =
           (if hd rest = colon \<or> hd rest = star then
              (case n_wildChild m of
                 Some wc0 \<Rightarrow>
                   let wc = bump_maxParams np (inc_priority wc0) in
                   if length rest \<ge> length (n_path wc) \<and> n_path wc = take (length (n_path wc)) rest
                      \<and> n_nType wc \<noteq> CatchAllN
                      \<and> (length (n_path wc) \<ge> length rest \<or> rest ! length (n_path wc) = slash)
                   then map_res (\<lambda>r. set_wildChild (Some r) m) (walk wc rest full (np - 1) d)
                   else Inl (PanicWildcardConflict rest (n_path wc) full)
               | None \<Rightarrow> insertChild m rest full d)
            else if n_nType m = ParamN \<and> hd rest = slash \<and> length (n_children m) = 1 then
              map_res (\<lambda>r. set_children [r] m) (walk (inc_priority (n_children m ! 0)) rest full np d)
            else
              (case find_index (\<lambda>x. x = hd rest) (n_indices m) of
                 Some k \<Rightarrow>
                   if k < length (n_children m) then
                     (case incrementChildPrio (n_children m) (n_indices m) k of
                        (cs, ix, j) \<Rightarrow>
                          map_res (\<lambda>x. set_children (cs[j := x]) (set_indices ix m))
                            (walk (cs ! j) rest full np d))
                   else Inl PanicIndexOutOfRange
               | None \<Rightarrow> add_static_child m rest full np d))"

lemma walk_unfold:
  "walk n path full np d =
     (let m = walk_node path np n; rest = drop (longestCommonPrefix path (n_path n)) path
      in if rest \<noteq> [] then walk_rest m rest full np d
         else (case n_data m of
                 Some d' \<Rightarrow> Inl (PanicDuplicate (pattern d') full)
               | None \<Rightarrow> Inr (set_data (Some d) m)))"
  unfolding walk.simps[of n] walk_rest_def walk_node_def Let_def n_sel_bump by (rule refl)

text \<open>The body of the loop below the common prefix, given what the recursive calls do.\<close>

lemma walk_step_grown:
  assumes wf: "wf_node m" "n_nType m \<noteq> CatchAllN" and rest: "rest \<noteq> []"
    and param: "n_nType m = ParamN \<longrightarrow> hd rest = slash"
    and IHc: "\<And>ch x. ch \<in> set (n_children m) \<Longrightarrow> key ch = hd rest \<Longrightarrow>
       walk (inc_priority ch) rest full np d = Inr x \<Longrightarrow> grown ch rest d x"
    and IHw: "\<And>wc x. n_wildChild m = Some wc \<Longrightarrow> wf_node wc \<Longrightarrow> n_nType wc = ParamN \<Longrightarrow>
       take (length (n_path wc)) rest = n_path wc \<Longrightarrow>
       drop (length (n_path wc)) rest = [] \<or> hd (drop (length (n_path wc)) rest) = slash \<Longrightarrow>
       walk (bump_maxParams np (inc_priority wc)) rest full (np - 1) d = Inr x \<Longrightarrow> grown wc rest d x"
    and r': "walk_rest m rest full np d = Inr n'"
  shows "grown m (n_path m @ rest) d n'"
proof -
  note r = r'[unfolded walk_rest_def]
  show ?thesis
  proof (cases "n_nType m = ParamN")
    case True
    then have h: "hd rest = slash" using param by simp
    show ?thesis
    proof (cases "length (n_children m) = 1")
      case one: True
      then obtain ch where ch: "n_children m = [ch]" by (auto simp: length_Suc_conv)
      have "key ch = slash" using param_child[OF wf(1) True] ch by simp
      with r h ch True IHc[of ch] show ?thesis
        by (auto intro!: grown_into_slash_child[OF wf(1) True ch])
    next
      case False
      have "n_indices m = []" using wf_paramD[OF wf(1) True] False by (metis One_nat_def length_Cons list.size(3))
      with r h True False show ?thesis by (intro grown_param_child[OF wf(1) True False rest h]) auto
    qed
  next
    case False
    then have st: "is_static m" using wf(2) by (cases "n_nType m") (auto simp: is_static_def)
    note D = wf_staticD[OF wf(1) st]
    show ?thesis
    proof (cases "is_wild (hd rest)")
      case wild: True
      show ?thesis
      proof (cases "n_wildChild m")
        case None
        with r wild show ?thesis
          by (intro grown_new_param[OF wf(1) st None wild rest]) (auto simp: is_wild_def)
      next
        case (Some wc)
        let ?k = "length (n_path wc)"
        have W: "n_path wc = take ?k rest" "n_nType wc \<noteq> CatchAllN" "length rest \<le> ?k \<or> rest ! ?k = slash"
          and "\<exists>x. n' = set_wildChild (Some x) m
                 \<and> walk (bump_maxParams np (inc_priority wc)) rest full (np - 1) d = Inr x"
          using r wild Some by (auto simp: is_wild_def Let_def split: if_splits)
        then obtain x where x: "n' = set_wildChild (Some x) m"
          "walk (bump_maxParams np (inc_priority wc)) rest full (np - 1) d = Inr x" by blast
        have wc: "wf_node wc" "n_nType wc = ParamN" using D(5)[OF Some] W(2) by auto
        have "drop ?k rest = [] \<or> hd (drop ?k rest) = slash"
          using W(3) by (cases "length rest \<le> ?k") (auto simp: hd_drop_conv_nth)
        from IHw[OF Some wc W(1)[symmetric] this x(2)] show ?thesis
          unfolding x(1) by (rule grown_into_param[OF wf(1) st Some wc(2)])
      qed
    next
      case nw: False
      then have h: "hd rest \<noteq> colon" "hd rest \<noteq> star" by (auto simp: is_wild_def)
      show ?thesis
      proof (cases "find_index (\<lambda>x. x = hd rest) (n_indices m)")
        case None
        with r h False show ?thesis
          by (intro grown_static_child[OF wf(1) st _ rest nw]) (auto simp: find_index_None)
      next
        case (Some k)
        then have k: "k < length (n_children m)" "key (n_children m ! k) = hd rest"
          using D(2) find_index_SomeD[OF Some] by auto
        obtain cs ix j where inc: "incrementChildPrio (n_children m) (n_indices m) k = (cs, ix, j)"
          by (rule prod_cases3)
        have "cs ! j = inc_priority (n_children m ! k)" using incrementChildPrio_nth[OF k(1) inc] by simp
        with r h False Some k(1) inc obtain x where
          x: "walk (inc_priority (n_children m ! k)) rest full np d = Inr x"
            "n' = set_children (cs[j := x]) (set_indices ix m)" by auto
        show ?thesis
          unfolding x(2) by (rule grown_into_child[OF wf(1) st k(1) inc IHc[OF nth_mem[OF k(1)] k(2) x(1)]])
      qed
    qed
  qed
qed

lemma grown_inc_bump [simp]:
  "grown (inc_priority n) p d x = grown n p d x" "grown (bump_maxParams k n) p d x = grown n p d x"
  by (simp_all add: grown_def)

definition at_node :: "gostring \<Rightarrow> ('h, 'r, 'm) node \<Rightarrow> bool" where
  "at_node path n \<longleftrightarrow> wf_node n \<and> n_nType n \<noteq> CatchAllN \<and> path \<noteq> []
     \<and> (n_nType n = StaticN \<longrightarrow> key n = hd path)
     \<and> (n_nType n = ParamN \<longrightarrow> take (length (n_path n)) path = n_path n \<and>
          (drop (length (n_path n)) path = [] \<or> hd (drop (length (n_path n)) path) = slash))"

lemma walk_node_ok:
  assumes "at_node path n"
  shows "wf_node (walk_node path np n)" "n_nType (walk_node path np n) = n_nType n"
    "n_path (walk_node path np n) = take (longestCommonPrefix path (n_path n)) path"
    "grown (walk_node path np n) p d n' \<Longrightarrow> grown n p d n'"
    "ch \<in> set (n_children (walk_node path np n)) \<Longrightarrow>
       key ch = hd (drop (longestCommonPrefix path (n_path n)) path) \<Longrightarrow>
       drop (longestCommonPrefix path (n_path n)) path \<noteq> [] \<Longrightarrow> weight ch < weight n"
    "n_wildChild (walk_node path np n) = Some wc \<Longrightarrow> weight wc < weight n"
proof -
  let ?i = "longestCommonPrefix path (n_path n)" and ?m = "walk_node path np n"
  have wf: "wf_node n" and nc: "n_nType n \<noteq> CatchAllN" using assms by (auto simp: at_node_def)
  have whole: "?i = length (n_path n)" if "n_nType n = ParamN"
    using assms that by (auto simp: at_node_def lcp_prefix)
  have split_ok: "is_static n \<and> (n_nType n = StaticN \<longrightarrow> ?i > 0)" if "?i < length (n_path n)"
  proof -
    have "is_static n" using whole that nc by (cases "n_nType n") (auto simp: is_static_def)
    moreover have "?i > 0" if "n_nType n = StaticN"
      using assms that \<open>?i < length (n_path n)\<close> by (intro lcp_pos) (auto simp: at_node_def key_def split: if_splits)
    ultimately show ?thesis by simp
  qed
  have m: "?m = (if ?i < length (n_path n) then split_edge ?i (bump_maxParams np n) else bump_maxParams np n)"
    by (simp add: walk_node_def)
  have S: "wf_node ?m \<and> routes ?m = routes n \<and> (n_nType n = StaticN \<longrightarrow> key ?m = key n)"
    using split_ok split_edge_wf[of "bump_maxParams np n" ?i] wf by (auto simp: m)
  then show "wf_node ?m" by simp
  show t: "n_nType ?m = n_nType n" by (simp add: m)
  have "take (length (n_path n)) (n_path n) = take ?i path" if "\<not> ?i < length (n_path n)"
    using that lcp_le(2)[of path "n_path n"] lcp_take[of path "n_path n"] by simp
  then show "n_path ?m = take ?i path" using lcp_take[of path "n_path n"] by (simp add: m)
  have "n_path ?m = n_path n" if "n_nType n = ParamN" using whole[OF that] by (simp add: m)
  with S t show "grown ?m p d n' \<Longrightarrow> grown n p d n'" by (auto simp: grown_def)
  show "weight ch < weight n" if ch: "ch \<in> set (n_children ?m)" "key ch = hd (drop ?i path)" "drop ?i path \<noteq> []"
  proof (cases "?i < length (n_path n)")
    case True
    then have "key ch = n_path n ! ?i"
      using ch(1) unfolding m by (cases n) (auto simp: split_edge_def bump_maxParams_def key_def hd_drop_conv_nth split: if_splits)
    with lcp_diff[of path "n_path n"] True ch(2,3) show ?thesis by (simp add: hd_drop_conv_nth)
  qed (use ch in \<open>simp add: m weight_child\<close>)
  show "n_wildChild ?m = Some wc \<Longrightarrow> weight wc < weight n"
    by (auto simp: m weight_wildChild split: if_splits)
qed

lemma at_node_child:
  assumes "wf_node m" "n_nType m \<noteq> CatchAllN" "ch \<in> set (n_children m)" "key ch = hd rest" "rest \<noteq> []"
  shows "at_node rest ch"
proof (cases "n_nType m = ParamN")
  case True
  have "n_children m \<noteq> []" using assms(3) by auto
  from param_child[OF assms(1) True this] assms(3)
  have "wf_node ch \<and> n_nType ch = StaticN" by (auto simp: length_Suc_conv)
  with assms show ?thesis by (simp add: at_node_def)
next
  case False
  then have "is_static m" using assms(2) by (cases "n_nType m") (auto simp: is_static_def)
  with wf_staticD(4)[OF assms(1) this assms(3)] assms show ?thesis by (simp add: at_node_def)
qed

lemma walk_grown: "at_node path n \<Longrightarrow> walk n path full np d = Inr n' \<Longrightarrow> grown n path d n'"
proof (induction "weight n" arbitrary: n path np n' rule: less_induct)
  case less
  let ?i = "longestCommonPrefix path (n_path n)"
  let ?rest = "drop ?i path" and ?m = "walk_node path np n"
  note M = walk_node_ok[OF less.prems(1), where np = np]
  have nc: "n_nType ?m \<noteq> CatchAllN" using M(2) less.prems(1) by (simp add: at_node_def)
  note r = less.prems(2)[unfolded walk_unfold[of n], unfolded Let_def]
  have "grown ?m path d n'"
  proof (cases "?rest = []")
    case True
    then have p: "n_path ?m = path" using M(3) by (simp add: )
    with r True nc M(1) less.prems(1) show ?thesis
      using grown_data[of ?m d] by (auto simp: at_node_def split: option.splits)
  next
    case False
    have "grown ?m (n_path ?m @ ?rest) d n'"
    proof (rule walk_step_grown[OF M(1) nc False])
      show "n_nType ?m = ParamN \<longrightarrow> hd ?rest = slash"
        using less.prems(1) False M(2) by (auto simp: at_node_def lcp_prefix)
      show "grown ch ?rest d x" if "ch \<in> set (n_children ?m)" "key ch = hd ?rest"
        "walk (inc_priority ch) ?rest full np d = Inr x" for ch x
        using less.hyps[of "inc_priority ch" ?rest np x] M(5)[OF that(1,2) False] that(3)
          at_node_child[OF M(1) nc that(1,2) False] by (simp add: at_node_def)
      show "grown wc ?rest d x" if "n_wildChild ?m = Some wc" "wf_node wc" "n_nType wc = ParamN"
        "take (length (n_path wc)) ?rest = n_path wc"
        "drop (length (n_path wc)) ?rest = [] \<or> hd (drop (length (n_path wc)) ?rest) = slash"
        "walk (bump_maxParams np (inc_priority wc)) ?rest full (np - 1) d = Inr x" for wc x
        using less.hyps[of "bump_maxParams np (inc_priority wc)" ?rest "np - 1" x] M(6)[OF that(1)] that False
        by (simp add: at_node_def)
    qed (use r False in simp)
    then show ?thesis using M(3) by simp
  qed
  then show ?case by (rule M(4))
qed

end
