(* ===== verification/RouteTable.thy ===== *)
theory RouteTable
  imports TreeInsert
begin

section \<open>The table of routes: what registration and lookup promise together\<close>

text \<open>
  Declarative views of the route table and the theorems that connect them to the radix tree:
  when one pattern matches one path, when two patterns can be registered together, and which
  pattern wins.
\<close>

subsection \<open>One pattern, one path\<close>

abbreviation segment :: "gostring \<Rightarrow> gostring" where "segment \<equiv> takeWhile (\<lambda>c. c \<noteq> slash)"
abbreviation beyond :: "gostring \<Rightarrow> gostring" where "beyond \<equiv> dropWhile (\<lambda>c. c \<noteq> slash)"

fun is_catch :: "gostring \<Rightarrow> bool" where
  "is_catch (a # b # r) = (a = slash \<and> b = star)"
| "is_catch _ = False"

text \<open>A parameter takes the bytes up to the next slash, a catch-all everything after its
  slash: this is \<open>pat_match False\<close>. With \<open>loose\<close>, a catch-all takes any byte for the slash, as
  the lookup of the tree may; \<open>pat_match_loose\<close> below says how such a match differs.\<close>

function pat_match :: "bool \<Rightarrow> gostring \<Rightarrow> gostring \<Rightarrow> Params option" where
  "pat_match loose [] path = (if path = [] then Some [] else None)"
| "pat_match loose (a # r) [] = None"
| "pat_match loose (a # r) (c # cs) =
     (if a = colon then
        map_option (\<lambda>ps. mkParam (segment r) (segment (c # cs)) # ps)
          (pat_match loose (beyond r) (beyond (c # cs)))
      else if is_catch (a # r) then
        (if c = slash \<or> loose then Some [mkParam (tl r) cs] else None)
      else if a = c \<and> a \<noteq> star then pat_match loose r cs
      else None)"
  by pat_completeness auto
termination by (relation "measure (\<lambda>(l, p, path). length p)") (auto simp: length_dropWhile_le less_Suc_eq_le)

text \<open>A loose match that is not a match is that of a catch-all whose part of the path begins with
  another byte than the slash.\<close>

lemma beyond_slash: "beyond xs = c # cs \<Longrightarrow> c = slash"
  by (induction xs) (auto split: if_splits)

lemma segment_append:
  "slash \<notin> set xs \<Longrightarrow> segment (xs @ slash # ys) = xs \<and> beyond (xs @ slash # ys) = slash # ys"
  by (induction xs) auto

lemma pat_match_loose:
  "pat_match True p path = Some qs \<Longrightarrow> pat_match False p path \<noteq> Some qs \<Longrightarrow>
   \<exists>pre nm u c cs ps. p = pre @ slash # star # nm \<and> path = u @ c # cs \<and> c \<noteq> slash \<and>
     pat_match False pre u = Some ps \<and> qs = ps @ [mkParam nm cs]"
proof (induction True p path arbitrary: qs rule: pat_match.induct)
  case (3 a r c cs)
  show ?case
  proof (cases "a = colon")
    case True
    with 3 obtain ps0 where m: "pat_match True (beyond r) (beyond (c # cs)) = Some ps0"
      "pat_match False (beyond r) (beyond (c # cs)) \<noteq> Some ps0"
      and qs: "qs = mkParam (segment r) (segment (c # cs)) # ps0" by auto
    from "3.hyps"(1)[OF True m] obtain pre nm u d ds ps where
      e: "beyond r = pre @ slash # star # nm" "beyond (c # cs) = u @ d # ds" "d \<noteq> slash"
        "pat_match False pre u = Some ps" "ps0 = ps @ [mkParam nm ds]" by blast
    have u: "u \<noteq> []"
    proof
      assume "u = []"
      with beyond_slash[of "c # cs" d ds] e(2,3) show False by simp
    qed
    then obtain v u' where vu: "u = v # u'" by (cases u) simp
    with beyond_slash[of "c # cs" v "u' @ d # ds"] e(2) have u': "u = slash # u'" by simp
    have "pre \<noteq> []" using e(4) u by (cases pre) auto
    then obtain w pre' where wp: "pre = w # pre'" by (cases pre) simp
    with beyond_slash[of r w "pre' @ slash # star # nm"] e(1) have pre': "pre = slash # pre'" by simp
    have r: "r = segment r @ pre @ slash # star # nm" using takeWhile_dropWhile_id[of _ r] e(1) by metis
    have cc: "c # cs = segment (c # cs) @ u @ d # ds" using takeWhile_dropWhile_id[of _ "c # cs"] e(2) by metis
    define R where "R = segment r"
    define C where "C = segment (c # cs)"
    have RC: "slash \<notin> set R" "slash \<notin> set C" unfolding R_def C_def by (auto dest: set_takeWhileD)
    have SB: "segment (R @ pre) = R" "beyond (R @ pre) = pre" "segment (C @ u) = C" "beyond (C @ u) = u"
      using segment_append[OF RC(1)] segment_append[OF RC(2)] pre' u' by simp_all
    obtain x xs where x: "C @ u = x # xs" using u by (cases "C @ u") auto
    have "pat_match False (colon # R @ pre) (C @ u) = Some (mkParam R C # ps)"
      unfolding x using SB[unfolded x] e(4) by simp
    moreover have "a # r = (colon # R @ pre) @ slash # star # nm"
      using r True by (simp add: R_def)
    moreover have "c # cs = (C @ u) @ d # ds" unfolding C_def append_assoc by (rule cc)
    moreover have "qs = (mkParam R C # ps) @ [mkParam nm ds]" unfolding R_def C_def qs e(5) by simp
    ultimately show ?thesis using e(3) by blast
  next
    case nc: False
    show ?thesis
    proof (cases "is_catch (a # r)")
      case True
      then obtain nm where "a = slash" "r = star # nm" by (cases r) auto
      with 3(3,4) nc show ?thesis
        by (intro exI[of _ "[]"] exI[of _ nm] exI[of _ "[]"] exI[of _ c] exI[of _ cs] exI[of _ "[]"]) (auto split: if_splits)
    next
      case False
      with 3 nc have m: "a = c" "a \<noteq> star" "pat_match True r cs = Some qs" "pat_match False r cs \<noteq> Some qs" by (auto split: if_splits)
      from "3.hyps"(2)[OF nc False _ m(3,4)] m(1,2) obtain pre nm u d ds ps where
        e: "r = pre @ slash # star # nm" "cs = u @ d # ds" "d \<noteq> slash"
          "pat_match False pre u = Some ps" "qs = ps @ [mkParam nm ds]" by blast
      have "\<not> is_catch (a # pre)" using False e(1) by (cases pre) auto
      with e m nc show ?thesis
        by (intro exI[of _ "a # pre"] exI[of _ nm] exI[of _ "c # u"] exI[of _ d] exI[of _ ds] exI[of _ ps]) simp
    qed
  qed
qed (auto split: if_splits)

lemma step_lit_iff: "step_lit c e = Some y \<longleftrightarrow>
   (\<exists>r x. e = (c # r, x) \<and> y = (r, x) \<and> \<not> is_wild c \<and> \<not> is_catch (c # r))"
  by (cases "(c, e)" rule: step_lit.cases; cases "fst y") (auto split: if_splits elim: is_catch.elims simp: neq_Nil_conv)

lemma step_param_iff: "step_param e = Some y \<longleftrightarrow>
   (\<exists>r x. e = (colon # r, x) \<and> y = (segment r, beyond r, x))"
  by (cases e rule: step_param.cases) (auto split: if_splits)

lemma step_catch_iff: "step_catch e = Some y \<longleftrightarrow> (\<exists>r x. e = (slash # star # r, x) \<and> y = (r, x))"
  by (cases e rule: step_catch.cases) (auto split: if_splits)

lemma in_literals: "y \<in> set (literals c S) \<longleftrightarrow>
   (c # fst y, snd y) \<in> set S \<and> \<not> is_wild c \<and> \<not> is_catch (c # fst y)"
  by (cases y) (auto simp: set_pick step_lit_iff)

lemma literals_NilI:
  "(\<And>q y. (c # q, y) \<in> set S \<Longrightarrow> is_wild c \<or> is_catch (c # q)) \<Longrightarrow> literals c S = []"
  by (rule ccontr) (metis in_literals list.set_intros(1) neq_Nil_conv)

lemma in_params: "y \<in> set (params_of S) \<longleftrightarrow>
   (\<exists>r x. (colon # r, x) \<in> set S \<and> y = (segment r, beyond r, x))"
  by (auto simp: set_pick step_param_iff)

lemma in_catches: "y \<in> set (catches S) \<longleftrightarrow> (slash # star # fst y, snd y) \<in> set S"
  by (cases y) (auto simp: set_pick step_catch_iff)

subsection \<open>Two patterns together\<close>

text \<open>What the tree accepts together: parameters at the same position have the same name, and a
  catch-all shares its slash with no other pattern, a parameter included.\<close>

function compatible :: "gostring \<Rightarrow> gostring \<Rightarrow> bool" where
  "compatible [] q = True"
| "compatible (a # p) [] = True"
| "compatible (a # p) (b # q) =
     (if a \<noteq> b then True
      else if a = colon then segment p = segment q \<and> compatible (beyond p) (beyond q)
      else if is_catch (a # p) \<or> is_catch (b # q) then p = q
      else compatible p q)"
  by pat_completeness auto
termination by (relation "measure (\<lambda>(p, q). length p)") (auto simp: length_dropWhile_le less_Suc_eq_le)

text \<open>The conflicts the documentation of the router lists: parameters of different names at the same
  position, and a catch-all beside a static pattern or another catch-all.\<close>

fun at_param :: "gostring \<Rightarrow> bool" where
  "at_param (c # r) = (c = colon)"
| "at_param [] = False"

function conflicting :: "gostring \<Rightarrow> gostring \<Rightarrow> bool" where
  "conflicting (a # p) (b # q) =
     (if a \<noteq> b then False
      else if a = colon then segment p \<noteq> segment q \<or> conflicting (beyond p) (beyond q)
      else if is_catch (a # p) then p \<noteq> q \<and> \<not> at_param q
      else if is_catch (b # q) then \<not> at_param p
      else conflicting p q)"
| "conflicting [] q = False"
| "conflicting (a # p) [] = False"
  by pat_completeness auto
termination by (relation "measure (\<lambda>(p, q). length p)") (auto simp: length_dropWhile_le less_Suc_eq_le)

lemma conflicting_incompatible: "conflicting p q \<Longrightarrow> \<not> compatible p q"
  by (induction p q rule: conflicting.induct) (auto split: if_splits)

definition coherent :: "(gostring \<times> 'd) list \<Rightarrow> bool" where
  "coherent S \<longleftrightarrow> (\<forall>(p, x) \<in> set S. \<forall>(q, y) \<in> set S. compatible p q \<and> (p = q \<longrightarrow> x = y))"

lemma coherentD:
  "coherent S \<Longrightarrow> (p, x) \<in> set S \<Longrightarrow> (q, y) \<in> set S \<Longrightarrow> compatible p q \<and> (p = q \<longrightarrow> x = y)"
  by (auto simp: coherent_def)

lemma compatible_Nil2 [simp]: "compatible p []"
  by (cases p) auto

lemma coherent_literals:
  assumes "coherent S"
  shows "coherent (literals c S)"
  unfolding coherent_def
proof clarify
  fix p x q y assume "(p, x) \<in> set (literals c S)" "(q, y) \<in> set (literals c S)"
  then show "compatible p q \<and> (p = q \<longrightarrow> x = y)"
    using coherentD[OF assms, of "c # p" x "c # q" y] by (auto simp: in_literals is_wild_def split: if_splits)
qed

lemma coherent_params:
  assumes "coherent S"
  shows "coherent (map snd (params_of S))"
  unfolding coherent_def
proof clarify
  fix p x q y assume "(p, x) \<in> set (map snd (params_of S))" "(q, y) \<in> set (map snd (params_of S))"
  then obtain r r' where r: "(colon # r, x) \<in> set S" "p = beyond r" "(colon # r', y) \<in> set S" "q = beyond r'"
    by (auto simp: in_params)
  with coherentD[OF assms r(1,3)] have "segment r = segment r'" "compatible p q" "r = r' \<longrightarrow> x = y" by auto
  with r show "compatible p q \<and> (p = q \<longrightarrow> x = y)" by (metis takeWhile_dropWhile_id)
qed

lemma params_name:
  assumes "coherent S" and "(colon # r, x) \<in> set S"
  shows "fst (hd (params_of S)) = segment r"
proof -
  have "params_of S \<noteq> []" using assms(2) by (force simp: pick_Nil_iff)
  then have "hd (params_of S) \<in> set (params_of S)" by simp
  then obtain r' y where "(colon # r', y) \<in> set S" "hd (params_of S) = (segment r', beyond r', y)"
    unfolding in_params by blast
  with coherentD[OF assms this(1)] show ?thesis by (simp split: if_splits)
qed

lemma hd_catches:
  assumes "catches S \<noteq> []"
  shows "(slash # star # fst (hd (catches S)), snd (hd (catches S))) \<in> set S"
  using assms in_catches[of "hd (catches S)" S] by simp

subsection \<open>Soundness of the specification\<close>

text \<open>Whatever the specification finds is a registered pattern that matches.\<close>

lemma trie_lookup_sound:
  "coherent S \<Longrightarrow> trie_lookup l S path = Some (x, qs) \<Longrightarrow>
   \<exists>p. (p, x) \<in> set S \<and> pat_match l p path = Some qs"
proof (induction l S path arbitrary: x qs rule: trie_lookup.induct)
  case (1 l S)
  then show ?case by (auto dest: map_of_SomeD intro!: exI[of _ "[]"])
next
  case (2 l S c cs)
  note r = "2.prems"(2)[unfolded trie_lookup.simps(2)]
  show ?case
  proof (cases "literals c S = []")
    case False
    with r have "trie_lookup l (literals c S) cs = Some (x, qs)" by simp
    from "2.IH"(1)[OF False coherent_literals[OF "2.prems"(1)] this]
    obtain p where "(p, x) \<in> set (literals c S)" "pat_match l p cs = Some qs" by blast
    then show ?thesis
      by (intro exI[of _ "c # p"]) (auto simp: in_literals is_wild_def)
  next
    case lit: True
    show ?thesis
    proof (cases "catches S \<noteq> [] \<and> (c = slash \<or> l \<and> params_of S = [])")
      case True
      with r lit hd_catches[of S] show ?thesis
        by (intro exI[of _ "slash # star # fst (hd (catches S))"]) (auto split: if_splits)
    next
      case cat: False
      with r lit have par: "params_of S \<noteq> []" by (auto split: if_splits)
      have nc: "\<not> (c = slash \<and> catches S \<noteq> [])" using cat by auto
      obtain qs' where t: "trie_lookup l (map snd (params_of S)) (beyond (c # cs)) = Some (x, qs')"
        and qs: "qs = mkParam (fst (hd (params_of S))) (segment (c # cs)) # qs'"
        using r lit cat par by (auto split: if_splits)
      from "2.IH"(2)[OF _ nc par coherent_params[OF "2.prems"(1)] t] lit
      obtain p where p: "(p, x) \<in> set (map snd (params_of S))" "pat_match l p (beyond (c # cs)) = Some qs'"
        by blast
      then obtain r' where r': "(colon # r', x) \<in> set S" "p = beyond r'" by (auto simp: in_params)
      then show ?thesis
        using p(2) qs params_name[OF "2.prems"(1) r'(1)] by (intro exI[of _ "colon # r'"]) auto
    qed
  qed
qed

subsection \<open>Completeness of the specification\<close>

text \<open>Does \<open>q\<close> take the path away from \<open>p\<close>: does it have the next byte as a literal where \<open>p\<close>
  has a parameter?\<close>

function steals :: "gostring \<Rightarrow> gostring \<Rightarrow> gostring \<Rightarrow> bool" where
  "steals (b # q) (a # p) (c # cs) =
     (if a = colon then
        (if b = colon then steals (beyond q) (beyond p) (beyond (c # cs)) else b = c)
      else if is_catch (a # p) then False
      else a = b \<and> a = c \<and> steals q p cs)"
| "steals [] p path = False"
| "steals (b # q) [] path = False"
| "steals (b # q) (a # p) [] = False"
  by pat_completeness auto
termination by (relation "measure (\<lambda>(q, p, path). length p)") (auto simp: length_dropWhile_le less_Suc_eq_le)

lemma trie_lookup_complete:
  "coherent S \<Longrightarrow> (p, x) \<in> set S \<Longrightarrow> pat_match False p path = Some qs \<Longrightarrow>
   (\<And>q y. (q, y) \<in> set S \<Longrightarrow> \<not> steals q p path) \<Longrightarrow>
   trie_lookup l S path = Some (x, qs)"
proof (induction l S path arbitrary: p x qs rule: trie_lookup.induct)
  case (1 l S)
  from "1.prems"(3) have p: "p = []" "qs = []" by (cases p; simp)+
  obtain y where y: "map_of S [] = Some y"
    using "1.prems"(2) p(1) weak_map_of_SomeI[of "[]" x S] by auto
  with coherentD[OF "1.prems"(1,2) map_of_SomeD[OF y]] p show ?case by simp
next
  case (2 l S c cs)
  obtain a r where p: "p = a # r" using "2.prems"(3) by (cases p) auto
  consider (lit) "a = c" "\<not> is_wild a" "\<not> is_catch (a # r)" "pat_match False r cs = Some qs"
    | (catch) r' where "a = slash" "r = star # r'" "c = slash" "qs = [mkParam r' cs]"
    | (par) "a = colon"
    using "2.prems"(3) p by (cases "is_catch p") (auto simp: is_wild_def neq_Nil_conv split: if_splits elim: is_catch.elims)
  then show ?case
  proof cases
    case lit
    have mem: "(r, x) \<in> set (literals c S)" using lit "2.prems"(2) p by (simp add: in_literals)
    then have ne: "literals c S \<noteq> []" by auto
    have "\<not> steals q r cs" if "(q, y) \<in> set (literals c S)" for q y
      using "2.prems"(4)[of "c # q" y] that lit p by (auto simp: in_literals is_wild_def)
    from "2.IH"(1)[OF ne coherent_literals[OF "2.prems"(1)] mem lit(4) this] ne
    show ?thesis by (simp add: trie_lookup.simps(2))
  next
    case catch
    have mem: "(r', x) \<in> set (catches S)" using catch "2.prems"(2) p by (simp add: in_catches)
    have one: "e = (r', x)" if "e \<in> set (catches S)" for e
      using coherentD[OF "2.prems"(1) "2.prems"(2), of "slash # star # fst e" "snd e"] that catch p
      by (cases e) (auto simp: in_catches)
    have "literals c S = []"
    proof (rule literals_NilI)
      fix q y assume "(c # q, y) \<in> set S"
      with coherentD[OF "2.prems"(1) "2.prems"(2), of "slash # q" y] catch p
      show "is_wild c \<or> is_catch (c # q)" by auto
    qed
    moreover have "hd (catches S) = (r', x)" using one[of "hd (catches S)"] mem by (cases "catches S") auto
    ultimately show ?thesis using mem catch by (auto simp: trie_lookup.simps(2))
  next
    case par
    then obtain qs' where m: "pat_match False (beyond r) (beyond (c # cs)) = Some qs'"
      and qs: "qs = mkParam (segment r) (segment (c # cs)) # qs'"
      using "2.prems"(3) p by auto
    have no: "b \<noteq> c" if "(b # q, y) \<in> set S" "b \<noteq> colon" for b q y
      using "2.prems"(4)[OF that(1)] that(2) p par by auto
    have lit: "literals c S = []" using no[of c] by (intro literals_NilI) (auto simp: is_wild_def)
    have cat: "\<not> (c = slash \<and> catches S \<noteq> [])" using no[of slash] hd_catches[of S] by auto
    have mem: "(beyond r, x) \<in> set (map snd (params_of S))"
      using "2.prems"(2) p par by (force simp: in_params image_iff)
    then have ne: "params_of S \<noteq> []" by auto
    have "\<not> steals q (beyond r) (beyond (c # cs))" if "(q, y) \<in> set (map snd (params_of S))" for q y
      using that "2.prems"(4) p par by (force simp: in_params)
    note nosteal = this
    from "2.IH"(2)[OF _ cat ne coherent_params[OF "2.prems"(1)] mem m] nosteal lit
    have "trie_lookup l (map snd (params_of S)) (beyond (c # cs)) = Some (x, qs')" by blast
    with lit cat ne qs params_name[OF "2.prems"(1) "2.prems"(2)[unfolded p par]] show ?thesis
      by (simp only: trie_lookup.simps(2)) auto
  qed
qed

subsection \<open>The order of the patterns does not matter\<close>

lemma set_literals_cong: "set S = set S' \<Longrightarrow> set (literals c S) = set (literals c S')"
  "set S = set S' \<Longrightarrow> set (params_of S) = set (params_of S')"
  "set S = set S' \<Longrightarrow> set (catches S) = set (catches S')"
  by (auto simp: set_pick)

lemma coherent_cong: "set S = set S' \<Longrightarrow> coherent S = coherent S'"
  by (simp add: coherent_def)

lemma catches_cong:
  assumes "coherent S" and "set S = set S'"
  shows "hd (catches S) = hd (catches S') \<or> catches S = [] \<and> catches S' = []"
proof (cases "catches S = []")
  case True
  then show ?thesis using set_literals_cong(3)[OF assms(2)] by simp
next
  case False
  then have ne: "catches S' \<noteq> []" using set_literals_cong(3)[OF assms(2)] by auto
  from coherentD[OF assms(1) hd_catches[OF False], of "slash # star # fst (hd (catches S'))" "snd (hd (catches S'))"]
    hd_catches[OF ne] assms(2) show ?thesis by (simp add: prod_eq_iff)
qed

lemma params_cong:
  assumes "coherent S" and "set S = set S'"
  shows "fst (hd (params_of S)) = fst (hd (params_of S')) \<or> params_of S = [] \<and> params_of S' = []"
proof (cases "params_of S = []")
  case True
  then show ?thesis using set_literals_cong(2)[OF assms(2)] by simp
next
  case False
  then obtain e where "e \<in> set (params_of S)" by (meson list.set_sel(1))
  then obtain r x where "(colon # r, x) \<in> set S" by (auto simp: in_params)
  with params_name[of S r x] params_name[of S' r x] assms coherent_cong[OF assms(2)] show ?thesis by simp
qed

lemma map_of_cong:
  assumes "coherent S" and "set S = set S'"
  shows "map_of S p = map_of S' p"
proof (cases "map_of S p")
  case None
  then show ?thesis using assms(2) by (metis map_of_eq_None_iff image_cong)
next
  case (Some x)
  then have m: "(p, x) \<in> set S" by (rule map_of_SomeD)
  then obtain y where y: "map_of S' p = Some y" using assms(2) weak_map_of_SomeI[of p x S'] by auto
  with coherentD[OF assms(1) m, of p y] map_of_SomeD[OF y] assms(2) Some show ?thesis by simp
qed

lemma trie_lookup_cong:
  "coherent S \<Longrightarrow> set S = set S' \<Longrightarrow> trie_lookup l S path = trie_lookup l S' path"
proof (induction l S path arbitrary: S' rule: trie_lookup.induct)
  case (1 l S)
  then show ?case by (simp add: map_of_cong)
next
  case (2 l S c cs)
  note L = set_literals_cong[OF "2.prems"(2)]
  have nil: "(literals c S' = []) = (literals c S = [])" "(params_of S' = []) = (params_of S = [])"
    "(catches S' = []) = (catches S = [])" using L(1)[of c] L(2,3) by (metis set_empty)+
  show ?case
  proof (cases "literals c S = []")
    case False
    with "2.IH"(1)[OF False coherent_literals[OF "2.prems"(1)] L(1)] nil show ?thesis
      by (simp add: trie_lookup.simps(2))
  next
    case lit: True
    show ?thesis
    proof (cases "\<not> (c = slash \<and> catches S \<noteq> []) \<and> params_of S \<noteq> []")
      case True
      then have "trie_lookup l (map snd (params_of S)) (beyond (c # cs))
          = trie_lookup l (map snd (params_of S')) (beyond (c # cs))"
        using "2.IH"(2)[OF _ _ _ coherent_params[OF "2.prems"(1)], of "map snd (params_of S')"] lit L(2) by auto
      with True lit nil params_cong[OF "2.prems"] show ?thesis
        by (simp only: trie_lookup.simps(2)) auto
    next
      case False
      with lit nil catches_cong[OF "2.prems"] show ?thesis
        by (simp only: trie_lookup.simps(2)) auto
    qed
  qed
qed

text \<open>Without catch-alls the strict and the loose specification agree.\<close>

lemma trie_lookup_no_catch:
  "\<forall>(p, x) \<in> set S. star \<notin> set p \<Longrightarrow> trie_lookup l S path = trie_lookup l' S path"
proof (induction l S path rule: trie_lookup.induct)
  case (1 l S)
  then show ?case by simp
next
  case (2 l S c cs)
  have "catches S = []" using "2.prems" hd_catches[of S] by fastforce
  moreover have "\<forall>(p, x) \<in> set (literals c S). star \<notin> set p"
    using "2.prems" by (force simp: in_literals)
  moreover have "\<forall>(p, x) \<in> set (map snd (params_of S)). star \<notin> set p"
    using "2.prems" by (fastforce simp: in_params dest: set_dropWhileD)
  ultimately show ?case
    using "2.IH" by (auto simp: trie_lookup.simps(2))
qed

subsection \<open>The routes of a well-formed tree are coherent\<close>

definition apart :: "gostring \<Rightarrow> gostring \<Rightarrow> bool" where
  "apart p q \<longleftrightarrow> p \<noteq> q \<and> (p = [] \<or> q = [] \<or> hd p \<noteq> hd q)"

lemma coherentI:
  "(\<And>p x q y. (p, x) \<in> set S \<Longrightarrow> (q, y) \<in> set S \<Longrightarrow> compatible p q \<and> (p = q \<longrightarrow> x = y)) \<Longrightarrow> coherent S"
  by (auto simp: coherent_def)

definition well_mixed :: "(gostring \<times> 'd) list \<Rightarrow> bool" where
  "well_mixed S \<longleftrightarrow> coherent S \<and> distinct (map fst S)"

lemma apart_compatible: "apart p q \<Longrightarrow> compatible p q \<and> compatible q p \<and> p \<noteq> q"
  by (cases p; cases q) (auto simp: apart_def)

lemma well_mixed_append:
  assumes "well_mixed A" and "well_mixed B"
    and "\<And>p x q y. (p, x) \<in> set A \<Longrightarrow> (q, y) \<in> set B \<Longrightarrow> apart p q"
  shows "well_mixed (A @ B)"
proof -
  have "coherent (A @ B)"
    unfolding coherent_def
  proof clarify
    fix p x q y assume m: "(p, x) \<in> set (A @ B)" "(q, y) \<in> set (A @ B)"
    then consider "(p, x) \<in> set A" "(q, y) \<in> set A" | "(p, x) \<in> set B" "(q, y) \<in> set B"
      | "apart p q" | "apart q p" using assms(3) by auto
    then show "compatible p q \<and> (p = q \<longrightarrow> x = y)"
      using coherentD[of A p x q y] coherentD[of B p x q y] apart_compatible[of p q] apart_compatible[of q p]
        assms(1,2) unfolding well_mixed_def by cases auto
  qed
  moreover have "set (map fst A) \<inter> set (map fst B) = {}"
    using assms(3) apart_compatible by fastforce
  ultimately show ?thesis using assms(1,2) by (auto simp: well_mixed_def)
qed

lemma well_mixed_small [simp]: "well_mixed []" "well_mixed [(p, x)] \<longleftrightarrow> compatible p p"
  by (simp_all add: well_mixed_def coherent_def)

lemma compatible_refl [simp]: "compatible p p"
proof (induction p rule: length_induct)
  case (1 p)
  then show ?case by (cases p) (auto simp: length_dropWhile_le less_Suc_eq_le)
qed

lemma well_mixed_concat:
  "(\<And>n. n \<in> set ns \<Longrightarrow> well_mixed (f n)) \<Longrightarrow> distinct (map k ns) \<Longrightarrow>
   (\<And>n p x. n \<in> set ns \<Longrightarrow> (p, x) \<in> set (f n) \<Longrightarrow> p \<noteq> [] \<and> hd p = k n) \<Longrightarrow>
   well_mixed (concat (map f ns))"
proof (induction ns)
  case (Cons n ns)
  have "well_mixed (f n @ concat (map f ns))"
  proof (rule well_mixed_append)
    fix p x q y assume "(p, x) \<in> set (f n)" "(q, y) \<in> set (concat (map f ns))"
    then obtain n' where "n' \<in> set ns" "(q, y) \<in> set (f n')" by auto
    then have "q \<noteq> [] \<and> hd q = k n'" "p \<noteq> [] \<and> hd p = k n" "k n \<noteq> k n'"
      using Cons.prems(2) Cons.prems(3)[of n' q y] Cons.prems(3)[of n p x] \<open>(p, x) \<in> _\<close> by auto
    then show "apart p q" by (auto simp: apart_def)
  qed (use Cons in auto)
  then show ?case by simp
qed simp

lemma compatible_prefix:
  "no_wild p \<Longrightarrow> q = [] \<or> hd q \<noteq> star \<Longrightarrow> q' = [] \<or> hd q' \<noteq> star \<Longrightarrow>
   compatible (p @ q) (p @ q') = compatible q q'"
proof (induction p)
  case (Cons a p)
  have "\<not> is_catch (a # p @ r)" if "r = [] \<or> hd r \<noteq> star" for r
    using Cons.prems(1) that by (cases p; cases r) auto
  with Cons show ?case by auto
qed simp

lemma well_mixed_prep:
  assumes "no_wild p" and "tails_ok R" and "well_mixed R"
  shows "well_mixed (prep p R)"
proof -
  have "compatible (p @ q) (p @ q') \<and> (p @ q = p @ q' \<longrightarrow> x = y)"
    if "(q, x) \<in> set R" "(q', y) \<in> set R" for q q' x y
  proof -
    have "q = [] \<or> hd q \<noteq> star" "q' = [] \<or> hd q' \<noteq> star" using assms(2) that by (auto simp: tails_ok_def)
    then show ?thesis
      using that assms(3) compatible_prefix[OF assms(1)] coherentD[of R q x q' y] by (auto simp: well_mixed_def)
  qed
  then have "coherent (prep p R)" by (auto simp: coherent_def set_prep)
  moreover have "distinct (map fst (prep p R))"
    using assms(3) by (auto simp: well_mixed_def prep_def comp_def case_prod_beta distinct_map inj_on_def)
  ultimately show ?thesis by (simp add: well_mixed_def)
qed

lemma well_mixed_prep_param:
  assumes "slash \<notin> set nm" and "\<forall>(q, x) \<in> set R. q = [] \<or> hd q = slash" and "well_mixed R"
  shows "well_mixed (prep (colon # nm) R)"
proof -
  have parts: "segment (nm @ q) = nm \<and> beyond (nm @ q) = q" if "(q, x) \<in> set R" for q x
  proof -
    have "q = [] \<or> hd q = slash" using assms(2) that by auto
    then show ?thesis using assms(1) by (cases q) (auto simp: takeWhile_append takeWhile_eq_all_conv dropWhile_append dropWhile_eq_Nil_conv)
  qed
  have "compatible (colon # nm @ q) (colon # nm @ q') \<and> (colon # nm @ q = colon # nm @ q' \<longrightarrow> x = y)"
    if "(q, x) \<in> set R" "(q', y) \<in> set R" for q q' x y
    using parts[OF that(1)] parts[OF that(2)] coherentD[of R q x q' y] that assms(3)
    by (auto simp: well_mixed_def)
  note pair = this
  have "coherent (prep (colon # nm) R)"
  proof (rule coherentI)
    fix p x q y assume "(p, x) \<in> set (prep (colon # nm) R)" "(q, y) \<in> set (prep (colon # nm) R)"
    then obtain p' q' where "(p', x) \<in> set R" "p = colon # nm @ p'" "(q', y) \<in> set R" "q = colon # nm @ q'"
      by (auto simp: set_prep)
    with pair show "compatible p q \<and> (p = q \<longrightarrow> x = y)" by blast
  qed
  moreover have "distinct (map fst (prep (colon # nm) R))"
    using assms(3) by (auto simp: well_mixed_def prep_def comp_def case_prod_beta distinct_map inj_on_def)
  ultimately show ?thesis by (simp add: well_mixed_def)
qed

lemma well_mixed_data:
  assumes "well_mixed R" and "\<And>q x. (q, x) \<in> set R \<Longrightarrow> q \<noteq> []"
  shows "well_mixed ((case d of None \<Rightarrow> [] | Some x \<Rightarrow> [([], x)]) @ R)"
proof (cases d)
  case (Some y)
  have "well_mixed ([([], y)] @ R)"
    by (rule well_mixed_append) (use assms in \<open>force simp: apart_def\<close>)+
  with Some show ?thesis by simp
qed (use assms in simp)

lemma wf_well_mixed: "wf_node n \<Longrightarrow> well_mixed (routes n)"
proof (induction "weight n" arbitrary: n rule: less_induct)
  case less
  show ?case
  proof (cases "is_static n")
    case True
    note D = wf_staticD[OF less.prems True]
    let ?C = "concat (map routes (n_children n))"
    let ?W = "case n_wildChild n of None \<Rightarrow> [] | Some wc \<Rightarrow> routes wc"
    have keys: "q \<noteq> [] \<and> hd q = key ch" if "ch \<in> set (n_children n)" "(q, x) \<in> set (routes ch)" for ch q x
      using D(4)[OF that(1)] that(2) static_route_key by blast
    have wkeys: "q \<noteq> [] \<and> (hd q = colon \<or> n_children n = [])" if "(q, x) \<in> set ?W" for q x
    proof -
      from that obtain wc where w: "n_wildChild n = Some wc" and m: "(q, x) \<in> set (routes wc)"
        by (cases "n_wildChild n") auto
      then have "wf_node wc" "n_nType wc = ParamN \<or> n_nType wc = CatchAllN \<and> n_children n = []"
        using D(5)[OF w] by auto
      with m show ?thesis using param_route_key[of wc q x] catchAll_route_key[of wc q x] by auto
    qed
    have C: "well_mixed ?C"
      using D(3,4) less.hyps[OF weight_child] keys by (intro well_mixed_concat[where k = key]) auto
    have "well_mixed ?W"
      using D(5) less.hyps[OF weight_wildChild] by (auto split: option.split)
    with C have "well_mixed (?C @ ?W)"
    proof (rule well_mixed_append)
      fix p x q y assume "(p, x) \<in> set ?C" and q: "(q, y) \<in> set ?W"
      then obtain ch where ch: "ch \<in> set (n_children n)" "(p, x) \<in> set (routes ch)" by auto
      with wkeys[OF q] keys[OF ch] D(4)[OF ch(1)] static_key_not_wild[of ch]
      show "apart p q" by (auto simp: apart_def is_wild_def)
    qed
    then have "well_mixed (tails n)"
      unfolding tails_def[of n]
    proof (rule well_mixed_data)
      fix q x assume "(q, x) \<in> set (?C @ ?W)"
      then consider "(q, x) \<in> set ?C" | "(q, x) \<in> set ?W" by (auto simp del: set_concat)
      then show "q \<noteq> []" using keys wkeys[of q x] by cases auto
    qed
    with D(1) tails_okI_static[OF less.prems True] show ?thesis
      by (simp add: routes_tails[of n] well_mixed_prep)
  next
    case False
    then consider "n_nType n = CatchAllN" | "n_nType n = ParamN"
      by (cases "n_nType n") (auto simp: is_static_def)
    then show ?thesis
    proof cases
      case 1
      from less.prems 1 show ?thesis by (rule wf_catchAllD) simp
    next
      case 2
      from less.prems 2 show ?thesis
      proof (rule wf_paramD)
        fix nm assume nm: "n_path n = colon # nm" "slash \<notin> set nm" "n_wildChild n = None" and
          ch: "n_children n = [] \<and> n_indices n = [] \<and> n_data n \<noteq> None \<or>
           (\<exists>ch. n_children n = [ch] \<and> wf_node ch \<and> n_nType ch = StaticN \<and> key ch = slash
                 \<and> (n_indices n = [] \<or> n_indices n = [slash]))"
        have "well_mixed (concat (map routes (n_children n)))"
          using ch less.hyps weight_child[of _ n] by auto
        moreover have "q \<noteq> []" if "(q, x) \<in> set (concat (map routes (n_children n)))" for q x
          using ch that by (auto dest: static_route_key)
        ultimately have "well_mixed (tails n)"
          using well_mixed_data[of "concat (map routes (n_children n))" "n_data n"] nm(3)
          by (simp add: tails_def[of n])
        with nm tails_ok_param[OF less.prems 2] show ?thesis
          by (simp add: routes_tails[of n] well_mixed_prep_param del: prep_simps)
      qed
    qed
  qed
qed

subsection \<open>Trees the router builds\<close>

text \<open>Every tree starts as \<open>new(node)\<close>, and its root is of kind \<open>RootN\<close> after the first
  registration.\<close>

definition tree_ok :: "('h, 'r, 'm) node \<Rightarrow> bool" where
  "tree_ok t \<longleftrightarrow> fresh t \<or> wf_node t \<and> n_nType t = RootN"

lemma fresh_cases: "fresh t \<Longrightarrow> \<exists>pr mp. t = Node [] [] None StaticN pr [] None mp"
  by (cases t) (auto simp: fresh_def)

lemma fresh_routes: "fresh t \<Longrightarrow> routes t = []"
  by (auto dest!: fresh_cases)

lemma fresh_getValue: "fresh t \<Longrightarrow> \<exists>tsr. getValue t path params = Inr (None, tsr, params)"
  by (drule fresh_cases) (auto simp: getValue.simps)

lemma tree_ok_new: "tree_ok new_node"
  by (simp add: tree_ok_def fresh_def new_node_def)

lemma tree_well_mixed: "tree_ok t \<Longrightarrow> well_mixed (routes t)"
  by (auto simp: tree_ok_def wf_well_mixed fresh_routes)

lemma tree_coherent: "tree_ok t \<Longrightarrow> coherent (routes t)"
  using tree_well_mixed by (auto simp: well_mixed_def)

lemma tree_between:
  assumes "tree_ok t"
  shows "between (getValue t path (Some ps)) ps (trie_lookup False (routes t) path) (trie_lookup True (routes t) path)"
  using assms fresh_getValue[of t path "Some ps"]
  by (auto simp: tree_ok_def is_static_def fresh_routes intro: getValue_between)

lemma addRoute_grown:
  assumes "tree_ok t" and "p \<noteq> []" and r: "addRoute t p d = Inr t'"
  shows "wf_node t' \<and> n_nType t' = RootN \<and> mset (routes t') = add_mset (p, d) (mset (routes t))"
proof (cases "fresh t")
  case True
  let ?n = "bump_maxParams (countParams p) (inc_priority t)"
  have fresh: "fresh ?n" using True by (simp add: fresh_def)
  with r obtain x where x: "insertChild ?n p p d = Inr x" and t': "t' = set_nType RootN x"
    by (auto simp: addRoute_def Let_def fresh_def)
  have "routes (set_nType RootN x) = routes x" "n_nType (set_nType RootN x) = RootN" by (cases x; simp)+
  with insertChild_fresh[OF fresh assms(2) x] t' fresh_routes[OF True] show ?thesis by simp
next
  case False
  then have wf: "wf_node t" "n_nType t = RootN" using assms(1) by (auto simp: tree_ok_def)
  then have "is_static t" by (simp add: is_static_def)
  from wf_staticD(6,8)[OF wf(1) this] have "\<not> (n_path t = [] \<and> n_children t = [] \<and> n_wildChild t = None)" by blast
  with r have "walk (bump_maxParams (countParams p) (inc_priority t)) p p (countParams p) d = Inr t'"
    by (auto simp: addRoute_def Let_def split: if_splits)
  from walk_grown[OF _ this] wf assms(2) show ?thesis
    by (auto simp: at_node_def grown_def)
qed

definition find_route ::
  "('h, 'r, 'm) node \<Rightarrow> gostring \<Rightarrow> (('h, 'r, 'm) routeData \<times> Params) option" where
  [go_defs]: "find_route t path =
     (case getValue t path (Some []) of Inr (Some d, _, Some qs) \<Rightarrow> Some (d, qs) | _ \<Rightarrow> None)"

lemma find_route_Some:
  "find_route t path = Some (d, qs) \<longleftrightarrow> (\<exists>tsr. getValue t path (Some []) = Inr (Some d, tsr, Some qs))"
  by (auto simp: find_route_def split: sum.splits option.splits)

lemma find_route_sound:
  assumes "tree_ok t" and "find_route t path = Some (d, qs)"
  shows "\<exists>p. (p, d) \<in> set (routes t) \<and> pat_match True p path = Some qs"
proof -
  have "trie_lookup True (routes t) path = Some (d, qs)"
    using tree_between[OF assms(1), of path "[]"] assms(2) by (auto simp: between_def find_route_Some)
  from trie_lookup_sound[OF tree_coherent[OF assms(1)] this] show ?thesis .
qed

lemma strict_found:
  assumes "tree_ok t" and "trie_lookup False (routes t) path = Some (d, qs)"
  shows "find_route t path = Some (d, qs)"
  using tree_between[OF assms(1), of path "[]"] assms(2) by (auto simp: between_def find_route_Some)

lemma find_route_complete:
  assumes "tree_ok t" and "(p, d) \<in> set (routes t)" and "pat_match False p path = Some qs"
    and "\<And>q y. (q, y) \<in> set (routes t) \<Longrightarrow> \<not> steals q p path"
  shows "find_route t path = Some (d, qs)"
  using assms by (intro strict_found trie_lookup_complete tree_coherent)

lemma find_route_exact:
  assumes "tree_ok t" and "\<forall>(p, x) \<in> set (routes t). star \<notin> set p"
  shows "find_route t path = trie_lookup False (routes t) path"
proof (cases "find_route t path")
  case None
  with strict_found[OF assms(1), of path] show ?thesis by (cases "trie_lookup False (routes t) path") auto
next
  case (Some e)
  then have "trie_lookup True (routes t) path = Some e"
    using tree_between[OF assms(1), of path "[]"] by (cases e) (auto simp: between_def find_route_Some)
  with Some trie_lookup_no_catch[OF assms(2)] show ?thesis by metis
qed

lemma static_match: "no_wild p \<Longrightarrow> pat_match l p p = Some []"
  by (induction p) (auto simp: is_wild_def elim: is_catch.elims)

lemma static_not_stolen: "no_wild p \<Longrightarrow> \<not> steals q p path"
  by (induction q p path rule: steals.induct) (auto simp: is_wild_def)

text \<open>A lookup without a parameter slice gives the same data and recommendation.\<close>

lemma getValue_nil_params:
  "getValue n path (Some ps) = Inr (d, tsr, ps') \<Longrightarrow> getValue n path None = Inr (d, tsr, None)"
proof (induction "weight n" arbitrary: n path ps rule: less_induct)
  case less
  have app: "append_param (Some ps) k v = Some (ps @ [mkParam k v])" "append_param None k v = None" for k v
    by (simp_all add: append_param_def)
  have IHc: "getValue c q (Some qs) = Inr (d, tsr, ps') \<Longrightarrow> getValue c q None = Inr (d, tsr, None)"
    if "c \<in> set (n_children n)" for c q qs using less.hyps[OF weight_child[OF that]] .
  have IHw: "getValue (n_children wc ! 0) q (Some qs) = Inr (d, tsr, ps') \<Longrightarrow>
      getValue (n_children wc ! 0) q None = Inr (d, tsr, None)"
    if "n_wildChild n = Some wc" "n_children wc \<noteq> []" for wc q qs
    using less.hyps[OF weight_wild_child[OF that]] .
  consider (down) "length path > length (n_path n)" "take (length (n_path n)) path = n_path n"
    | (at) "path = n_path n"
    | (out) "\<not> (length path > length (n_path n) \<and> take (length (n_path n)) path = n_path n)" "path \<noteq> n_path n"
    by auto
  then show ?case
  proof cases
    case down
    let ?c = "hd (drop (length (n_path n)) path)"
    note r = less.prems[unfolded getValue.simps[of n path "Some ps"]] and g = getValue.simps[of n path None]
    show ?thesis
    proof (cases "find_index (\<lambda>x. x = ?c) (n_indices n)")
      case (Some i)
      with r g down IHc show ?thesis by (auto simp: Let_def split: if_splits intro: IHc)
    next
      case None
      show ?thesis
      proof (cases "n_wildChild n")
        case w: (Some wc)
        show ?thesis
          using r down None w unfolding g
          by (auto simp: Let_def app split: if_splits list.splits intro: IHw[OF w])
      qed (use r down None g in \<open>auto simp: Let_def\<close>)
    qed
  next
    case at
    with less.prems show ?thesis
      unfolding getValue.simps[of n path "Some ps"] getValue.simps[of n path None]
      by (auto split: if_splits option.splits simp del: not_None_eq dest: sym)
  next
    case out
    with less.prems show ?thesis
      unfolding getValue.simps[of n path "Some ps"] getValue.simps[of n path None] by auto
  qed
qed

end
