(* ===== verification/RouterLaws.thy ===== *)
theory RouterLaws
  imports RouteTable
begin

section \<open>The laws of the router\<close>

text \<open>
  The interface the multiplexer relies on, as a locale: a table of routes with a registration
  that may be refused and a lookup. The radix tree is its instance, and the properties of the
  tree follow.
\<close>

subsection \<open>The interface\<close>

text \<open>Registering a list of routes, one after the other.\<close>

fun register_all :: "('t \<Rightarrow> gostring \<Rightarrow> 'd \<Rightarrow> 'e + 't) \<Rightarrow> 't \<Rightarrow> (gostring \<times> 'd) list \<Rightarrow> 'e + 't" where
  "register_all add t [] = Inr t"
| "register_all add t ((p, d) # rs) = bind_sum (add t p d) (\<lambda>t'. register_all add t' rs)"

locale route_table =
  fixes empty :: 't
    and add :: "'t \<Rightarrow> gostring \<Rightarrow> 'd \<Rightarrow> 'e + 't"
    and find :: "'t \<Rightarrow> gostring \<Rightarrow> ('d \<times> Params) option"
    and ok :: "'t \<Rightarrow> bool"
    and table :: "'t \<Rightarrow> (gostring \<times> 'd) list"
  assumes ok_empty: "ok empty"
    and table_empty: "table empty = []"
    and add_ok: "ok t \<Longrightarrow> p \<noteq> [] \<Longrightarrow> add t p d = Inr t' \<Longrightarrow>
        ok t' \<and> mset (table t') = add_mset (p, d) (mset (table t))"
    and table_coherent: "ok t \<Longrightarrow> well_mixed (table t)"
    and find_sound: "ok t \<Longrightarrow> find t path = Some (d, qs) \<Longrightarrow>
        \<exists>p. (p, d) \<in> set (table t) \<and> pat_match True p path = Some qs"
    and find_complete: "ok t \<Longrightarrow> (p, d) \<in> set (table t) \<Longrightarrow> pat_match False p path = Some qs \<Longrightarrow>
        (\<And>q y. (q, y) \<in> set (table t) \<Longrightarrow> \<not> steals q p path) \<Longrightarrow> find t path = Some (d, qs)"
begin

lemma register_all_from:
  "ok t \<Longrightarrow> \<forall>(p, d) \<in> set rs. p \<noteq> [] \<Longrightarrow> register_all add t rs = Inr t' \<Longrightarrow>
   ok t' \<and> mset (table t') = mset rs + mset (table t)"
proof (induction rs arbitrary: t)
  case (Cons e rs)
  obtain p d where e: "e = (p, d)" by (cases e)
  with Cons.prems(3) obtain t1 where t1: "add t p d = Inr t1" "register_all add t1 rs = Inr t'"
    by (auto simp: bind_sum_eq_Inr)
  from add_ok[OF Cons.prems(1) _ t1(1)] Cons.prems(2) e
  have "ok t1" "mset (table t1) = add_mset (p, d) (mset (table t))" by auto
  with Cons.IH[OF _ _ t1(2)] Cons.prems(2) e show ?case by simp
qed simp

lemma register_all_table:
  assumes "\<forall>(p, d) \<in> set rs. p \<noteq> []" and "register_all add empty rs = Inr t"
  shows "ok t" "mset (table t) = mset rs"
  using register_all_from[OF ok_empty assms] by (simp_all add: table_empty)

lemma registered_set:
  "\<forall>(p, d) \<in> set rs. p \<noteq> [] \<Longrightarrow> register_all add empty rs = Inr t \<Longrightarrow> set (table t) = set rs"
  using register_all_table(2) mset_eq_setD by blast

text \<open>A table that accepted a list of routes has no duplicates and no conflicts in it.\<close>

lemma registered_well_mixed:
  assumes "\<forall>(p, d) \<in> set rs. p \<noteq> []" and "register_all add empty rs = Inr t"
  shows "well_mixed rs"
proof -
  have "well_mixed (table t)" by (rule table_coherent[OF register_all_table(1)[OF assms]])
  moreover have "mset (map fst (table t)) = mset (map fst rs)"
    using register_all_table(2)[OF assms] by simp
  ultimately show ?thesis
    using coherent_cong[OF registered_set[OF assms]] mset_eq_imp_distinct_iff
    unfolding well_mixed_def by blast
qed

lemma registered_not_found:
  assumes "\<forall>(p, d) \<in> set rs. p \<noteq> []" and "register_all add empty rs = Inr t"
    and "\<forall>(p, d) \<in> set rs. pat_match True p path = None"
  shows "find t path = None"
proof (cases "find t path")
  case (Some e)
  with find_sound[OF register_all_table(1)[OF assms(1,2)], of path "fst e" "snd e"]
    registered_set[OF assms(1,2)] assms(3) show ?thesis by auto
qed

lemma registered_found:
  assumes "\<forall>(p, d) \<in> set rs. p \<noteq> []" and "register_all add empty rs = Inr t"
    and "(p, d) \<in> set rs" and "pat_match False p path = Some qs"
    and "\<forall>(q, y) \<in> set rs. \<not> steals q p path"
  shows "find t path = Some (d, qs)"
  using find_complete[OF register_all_table(1)[OF assms(1,2)], of p d path qs]
    registered_set[OF assms(1,2)] assms(3-5) by blast

end

interpretation radix: route_table new_node addRoute find_route tree_ok routes
proof unfold_locales
  show "tree_ok (new_node :: ('a, 'b, 'c) node)" by (rule tree_ok_new)
  show "routes (new_node :: ('a, 'b, 'c) node) = []" by (simp add: new_node_def)
  show "tree_ok t' \<and> mset (routes t') = add_mset (p, d) (mset (routes t))"
    if "tree_ok t" "p \<noteq> []" "addRoute t p d = Inr t'" for t p and d :: "('a, 'b, 'c) routeData" and t'
    using addRoute_grown[OF that] by (simp add: tree_ok_def)
qed (fact tree_well_mixed find_route_sound find_route_complete)+

subsection \<open>A small table, for the witnesses\<close>

definition demo_data :: "gostring \<Rightarrow> (nat, nat, nat) routeData" where
  [go_defs]: "demo_data p = \<lparr>pattern = p, handlers = [length p], rules = None, meta = None\<rparr>"

definition demo_routes :: "(gostring \<times> (nat, nat, nat) routeData) list" where
  [go_defs]: "demo_routes = map (\<lambda>p. (p, demo_data p))
     [''/users'', ''/users/:id'', ''/users/new'', ''/files/*path'']"

definition demo_tree :: "(nat, nat, nat) node" where
  [go_defs]: "demo_tree = (case register_all addRoute new_node demo_routes of Inr t \<Rightarrow> t | Inl _ \<Rightarrow> new_node)"

lemma demo_built: "register_all addRoute new_node demo_routes = Inr demo_tree"
  by code_simp

lemma demo_nonempty: "\<forall>(p, d) \<in> set demo_routes. p \<noteq> []"
  by code_simp

lemma demo_ok: "tree_ok demo_tree" "mset (routes demo_tree) = mset demo_routes"
  by (fact radix.register_all_table[OF demo_nonempty demo_built])+

lemma demo_set: "set (routes demo_tree) = set demo_routes"
  by (fact radix.registered_set[OF demo_nonempty demo_built])

text \<open>Two trees with the same routes, registered in opposite orders.\<close>

definition plain_routes :: "(gostring \<times> (nat, nat, nat) routeData) list" where
  [go_defs]: "plain_routes = map (\<lambda>p. (p, demo_data p)) [''/a'', ''/a/:x'', ''/ab/:y/c'', ''/ab'']"

definition plain_tree :: "(nat, nat, nat) node" where
  [go_defs]: "plain_tree = (case register_all addRoute new_node plain_routes of Inr t \<Rightarrow> t | Inl _ \<Rightarrow> new_node)"

definition plain_tree_rev :: "(nat, nat, nat) node" where
  [go_defs]: "plain_tree_rev =
     (case register_all addRoute new_node (rev plain_routes) of Inr t \<Rightarrow> t | Inl _ \<Rightarrow> new_node)"

lemma plain_built:
  "register_all addRoute new_node plain_routes = Inr plain_tree"
  "register_all addRoute new_node (rev plain_routes) = Inr plain_tree_rev"
  by code_simp+

lemma plain_nonempty: "\<forall>(p, d) \<in> set plain_routes. p \<noteq> []" "\<forall>(p, d) \<in> set (rev plain_routes). p \<noteq> []"
  by (simp_all add: plain_routes_def)

lemma plain_ok: "tree_ok plain_tree" "tree_ok plain_tree_rev"
  using radix.register_all_table(1) plain_nonempty plain_built by blast+

lemma plain_set: "set (routes plain_tree) = set plain_routes" "set (routes plain_tree_rev) = set plain_routes"
  using radix.registered_set[OF plain_nonempty(1) plain_built(1)]
    radix.registered_set[OF plain_nonempty(2) plain_built(2)] by simp_all

lemma plain_no_star: "\<forall>(p, x) \<in> set (routes plain_tree). star \<notin> set p"
  unfolding plain_set by (simp add: plain_routes_def)

subsection \<open>Registration\<close>

text \<open>C1. Registering a pattern that is accepted keeps the tree well formed, and the routes of
  the tree afterwards are the old ones and the new one, each once: no edge split, reordering
  of children or wildcard node loses or duplicates a route.\<close>

theorem addRoute_refines_insertion:
  assumes "tree_ok t" and "p \<noteq> []" and "addRoute t p d = Inr t'"
  shows "tree_ok t' \<and> mset (routes t') = add_mset (p, d) (mset (routes t))"
  using radix.add_ok[OF assms] .

theorem addRoute_refines_insertion_witness:
  "\<exists>t'. addRoute demo_tree ''/uploads'' (demo_data ''/uploads'') = Inr t' \<and> tree_ok t' \<and>
     mset (routes t') = add_mset (''/uploads'', demo_data ''/uploads'') (mset (routes demo_tree))"
proof -
  have "\<not> isl (addRoute demo_tree ''/uploads'' (demo_data ''/uploads''))"
    by code_simp
  then obtain t' where t': "addRoute demo_tree ''/uploads'' (demo_data ''/uploads'') = Inr t'"
    by (metis sum.collapse(2))
  with addRoute_refines_insertion[OF demo_ok(1) _ t'] show ?thesis by auto
qed

text \<open>C4. A tree that holds a pattern refuses the same pattern again and every pattern the
  documentation calls a conflict with it (another parameter name at the same position, a
  static pattern or another catch-all beside a catch-all): \<open>addRoute\<close> panics.\<close>

theorem addRoute_rejects_conflicts:
  assumes "tree_ok t" and "p \<noteq> []" and "(q, x) \<in> set (routes t)" and "p = q \<or> conflicting p q"
  shows "\<exists>e. addRoute t p d = Inl e"
proof (cases "addRoute t p d")
  case (Inr t')
  note A = radix.add_ok[OF assms(1,2) Inr]
  then have "well_mixed (routes t')" and m: "mset (map fst (routes t')) = add_mset p (mset (map fst (routes t)))"
    using tree_well_mixed by auto
  then have "distinct (map fst (routes t'))" "coherent (routes t')" by (auto simp: well_mixed_def)
  then have "distinct (p # map fst (routes t))"
    using m mset_eq_imp_distinct_iff[of "map fst (routes t')" "p # map fst (routes t)"] by simp
  then have "p \<noteq> q" using assms(3) by force
  moreover have "(p, d) \<in> set (routes t')" "(q, x) \<in> set (routes t')"
    using A assms(3) by (metis union_single_eq_member set_mset_mset insert_iff set_mset_add_mset_insert)+
  then have "\<not> conflicting p q"
    using coherentD[OF \<open>coherent (routes t')\<close>] conflicting_incompatible by blast
  ultimately show ?thesis using assms(4) by blast
qed simp

theorem addRoute_rejects_conflicts_witness:
  "\<exists>e. addRoute demo_tree ''/users/:name'' (demo_data []) = Inl e"
proof (rule addRoute_rejects_conflicts[OF demo_ok(1)])
  show "(''/users/:id'', demo_data ''/users/:id'') \<in> set (routes demo_tree)"
    unfolding demo_set by (simp add: demo_routes_def)
  show "''/users/:name'' = ''/users/:id'' \<or> conflicting ''/users/:name'' ''/users/:id''" by simp
qed simp

text \<open>What is a conflict and what is not, by the documentation of the router.\<close>

lemma conflicting_examples:
  "conflicting ''/users/:name'' ''/users/:id''"
  "conflicting ''/files/index.html'' ''/files/*rest''"
  "conflicting ''/files/*rest'' ''/files/''"
  "\<not> conflicting ''/users/me'' ''/users/:id''"
  "\<not> conflicting ''/a/:id'' ''/a/*rest''"
  by code_simp+

text \<open>The tree refuses more: a catch-all beside a parameter, in either order, which the
  documentation says is accepted.\<close>

lemma catchAll_beside_parameter_panics:
  "isl (register_all addRoute new_node [(''/a/:id'', demo_data ''i''), (''/a/*rest'', demo_data ''r'')])"
  "isl (register_all addRoute new_node [(''/a/*rest'', demo_data ''r''), (''/a/:id'', demo_data ''i'')])"
  by code_simp+

subsection \<open>Lookup\<close>

text \<open>C3. Whatever a lookup finds was registered, under a pattern that matches the path, and the
  captured parameters are those of that pattern in order. The one exception is a catch-all
  whose slash is another byte in the path: its value is then what follows that byte.\<close>

theorem getValue_sound:
  assumes "tree_ok t" and "getValue t path (Some []) = Inr (Some d, tsr, Some qs)"
  shows "\<exists>p. (p, d) \<in> set (routes t) \<and> (pat_match False p path = Some qs \<or>
     (\<exists>pre nm u c cs ps. p = pre @ slash # star # nm \<and> path = u @ c # cs \<and> c \<noteq> slash \<and>
        pat_match False pre u = Some ps \<and> qs = ps @ [mkParam nm cs]))"
proof -
  obtain p where p: "(p, d) \<in> set (routes t)" "pat_match True p path = Some qs"
    using radix.find_sound[OF assms(1), of path d qs] assms(2) by (auto simp: find_route_Some)
  with pat_match_loose[OF p(2)] show ?thesis by blast
qed

theorem getValue_sound_witness:
  "\<exists>p. (p, demo_data ''/users/:id'') \<in> set (routes demo_tree) \<and>
     (pat_match False p ''/users/42'' = Some [mkParam ''id'' ''42''] \<or>
      (\<exists>pre nm u c cs ps. p = pre @ slash # star # nm \<and> ''/users/42'' = u @ c # cs \<and> c \<noteq> slash \<and>
        pat_match False pre u = Some ps \<and> [mkParam ''id'' ''42''] = ps @ [mkParam nm cs]))"
proof (rule getValue_sound[OF demo_ok(1)])
  show "getValue demo_tree ''/users/42'' (Some []) = Inr (Some (demo_data ''/users/:id''), False, Some [mkParam ''id'' ''42''])"
    by code_simp
qed

text \<open>C2. A registered pattern that matches a path is what a lookup of the path finds, with its
  parameters, unless another registered pattern has the path's next byte as a literal where
  this one has a parameter.\<close>

theorem getValue_complete:
  assumes "tree_ok t" and "(p, d) \<in> set (routes t)" and "pat_match False p path = Some qs"
    and "\<forall>(q, y) \<in> set (routes t). \<not> steals q p path"
  shows "\<exists>tsr. getValue t path (Some []) = Inr (Some d, tsr, Some qs)"
  using radix.find_complete[OF assms(1-3)] assms(4) by (auto simp: find_route_Some)

theorem getValue_complete_witness:
  "\<exists>tsr. getValue demo_tree ''/files/a/b'' (Some []) =
     Inr (Some (demo_data ''/files/*path''), tsr, Some [mkParam ''path'' ''a/b''])"
proof (rule getValue_complete[OF demo_ok(1)])
  show "(''/files/*path'', demo_data ''/files/*path'') \<in> set (routes demo_tree)"
    unfolding demo_set by (simp add: demo_routes_def)
  show "pat_match False ''/files/*path'' ''/files/a/b'' = Some [mkParam ''path'' ''a/b'']" by simp
  show "\<forall>(q, y) \<in> set (routes demo_tree). \<not> steals q ''/files/*path'' ''/files/a/b''"
    unfolding demo_set by (simp add: demo_routes_def)
qed

text \<open>A pattern without wildcards always reaches its own handlers, whatever else is
  registered.\<close>

theorem static_route_wins:
  assumes "tree_ok t" and "(p, d) \<in> set (routes t)" and "no_wild p"
  shows "\<exists>tsr. getValue t p (Some []) = Inr (Some d, tsr, Some [])"
  using radix.find_complete[OF assms(1,2) static_match[OF assms(3)]] static_not_stolen[OF assms(3)]
  by (auto simp: find_route_Some)

theorem static_route_wins_witness:
  "\<exists>tsr. getValue demo_tree ''/users/new'' (Some []) = Inr (Some (demo_data ''/users/new''), tsr, Some [])"
  by (rule static_route_wins[OF demo_ok(1)])
    (simp_all add: demo_set demo_routes_def is_wild_def)

text \<open>C5. The order of registration does not change what a lookup finds: two trees with the same
  routes, none of them a catch-all, answer every path alike.\<close>

theorem registration_order_irrelevant:
  assumes "tree_ok t" and "tree_ok u" and "set (routes t) = set (routes u)"
    and "\<forall>(p, x) \<in> set (routes t). star \<notin> set p"
  shows "find_route t path = find_route u path"
  using find_route_exact[OF assms(1,4)] find_route_exact[OF assms(2)] assms(3,4)
    trie_lookup_cong[OF tree_coherent[OF assms(1)] assms(3)] by metis

theorem registration_order_irrelevant_witness:
  "plain_tree \<noteq> plain_tree_rev \<and> find_route plain_tree ''/ab/7/c'' = find_route plain_tree_rev ''/ab/7/c''"
proof
  show "plain_tree \<noteq> plain_tree_rev" by code_simp
  show "find_route plain_tree ''/ab/7/c'' = find_route plain_tree_rev ''/ab/7/c''"
    by (rule registration_order_irrelevant[OF plain_ok _ plain_no_star]) (simp add: plain_set)
qed

text \<open>A lookup in a tree the router built never panics, with or without a parameter slice, and
  both give the same data and trailing-slash recommendation.\<close>

theorem getValue_never_panics:
  assumes "tree_ok t"
  shows "\<exists>d tsr qs. getValue t path (Some ps) = Inr (d, tsr, Some qs) \<and> getValue t path None = Inr (d, tsr, None)"
proof -
  obtain d tsr qs where "getValue t path (Some ps) = Inr (d, tsr, Some qs)"
    using tree_between[OF assms, of path ps] by (auto simp: between_def)
  with getValue_nil_params show ?thesis by blast
qed

theorem getValue_never_panics_witness:
  "\<exists>d tsr qs. getValue demo_tree ''/nope'' (Some []) = Inr (d, tsr, Some qs) \<and>
     getValue demo_tree ''/nope'' None = Inr (d, tsr, None)"
  by (rule getValue_never_panics[OF demo_ok(1)])

subsection \<open>Two limits of the lookup\<close>

lemma catchAll_tree:
  assumes "no_wild pre" "nm \<noteq> []" "no_wild nm" "slash \<notin> set nm"
  shows "\<exists>pr mp. addRoute new_node (pre @ slash # star # nm) d = Inr (Node pre []
     (Some (Node [] [] None CatchAllN 1 [Node (slash # star # nm) [] None CatchAllN 1 [] (Some d) 0] None 0)) RootN pr [] None mp)"
proof -
  have fw: "findWildcard ((pre @ [slash]) @ star # nm @ []) = Some (star # nm, length (pre @ [slash]), True)"
    using assms by (intro trans[OF findWildcard_split]) simp_all
  have "length nm > 0" using assms(2) by simp
  then have ins: "insertChild (Node [] [] None StaticN pr [] None mp) (pre @ slash # star # nm) full d = Inr (Node pre []
     (Some (Node [] [] None CatchAllN 1 [Node (slash # star # nm) [] None CatchAllN 1 [] (Some d) 0] None 0)) StaticN pr [] None mp)"
    for pr mp full
    using fw by (subst insertChild.simps) (simp add: nth_append)
  show ?thesis
    by (auto simp: addRoute_def Let_def new_node_def bump_maxParams_def ins)
qed

text \<open>A catch-all that is the only route below its prefix does not check its slash: it accepts
  every byte at that position, and drops it from the captured value.\<close>

theorem catchAll_ignores_its_slash:
  assumes "no_wild pre" "nm \<noteq> []" "no_wild nm" "slash \<notin> set nm"
  shows "\<exists>t. addRoute new_node (pre @ slash # star # nm) d = Inr t \<and>
    (\<forall>c cs. getValue t (pre @ c # cs) (Some []) = Inr (Some d, False, Some [mkParam nm cs]))"
proof -
  from catchAll_tree[OF assms, of d] obtain pr mp where
    "addRoute new_node (pre @ slash # star # nm) d = Inr (Node pre []
     (Some (Node [] [] None CatchAllN 1 [Node (slash # star # nm) [] None CatchAllN 1 [] (Some d) 0] None 0)) RootN pr [] None mp)"
    by blast
  moreover have "length nm > 0" using assms(2) by simp
  ultimately show ?thesis
    by (auto simp: getValue.simps append_param_def)
qed

theorem catchAll_ignores_its_slash_witness:
  "\<exists>t. addRoute new_node ''/src/*filepath'' (demo_data ''x'') = Inr t \<and>
    (\<forall>c cs. getValue t (''/src'' @ c # cs) (Some []) = Inr (Some (demo_data ''x''), False, Some [mkParam ''filepath'' cs]))"
  using catchAll_ignores_its_slash[of "''/src''" "''filepath''" "demo_data ''x''"] by (simp add: is_wild_def)

text \<open>A lookup never goes back to a parameter: with \<open>/users/new\<close> registered beside
  \<open>/users/:id\<close>, the path \<open>/users/nope\<close>, which the parameter pattern matches, is not found.\<close>

theorem lookup_does_not_backtrack:
  "(''/users/:id'', demo_data ''/users/:id'') \<in> set (routes demo_tree)
   \<and> pat_match False ''/users/:id'' ''/users/nope'' = Some [mkParam ''id'' ''nope'']
   \<and> find_route demo_tree ''/users/nope'' = None"
  unfolding demo_set find_route_def by (simp add: demo_routes_def) code_simp

end
