(* ===== verification/GoStrings.thy ===== *)
theory GoStrings
  imports Prelude "HOL-Library.Char_ord"
begin

section \<open>The string functions of the standard library the source calls\<close>

text \<open>
  Go's \<open>strings\<close>, \<open>strconv\<close> and \<open>unicode\<close> functions, byte by byte. Case mapping and white
  space are those of the ASCII range; a byte above 127 is neither, which is Go's behaviour
  for every string of ASCII bytes.
\<close>

abbreviation byte :: "char \<Rightarrow> nat" where "byte c \<equiv> of_char c"

definition is_upper :: "char \<Rightarrow> bool" where "is_upper c \<longleftrightarrow> 65 \<le> byte c \<and> byte c \<le> 90"
definition is_lower :: "char \<Rightarrow> bool" where "is_lower c \<longleftrightarrow> 97 \<le> byte c \<and> byte c \<le> 122"
definition is_digit :: "char \<Rightarrow> bool" where "is_digit c \<longleftrightarrow> 48 \<le> byte c \<and> byte c \<le> 57"
definition is_letter :: "char \<Rightarrow> bool" where "is_letter c \<longleftrightarrow> is_upper c \<or> is_lower c"
definition is_space :: "char \<Rightarrow> bool" where "is_space c \<longleftrightarrow> byte c = 32 \<or> 9 \<le> byte c \<and> byte c \<le> 13"

definition lower_char :: "char \<Rightarrow> char" where
  "lower_char c = (if is_upper c then char_of (byte c + 32) else c)"
definition upper_char :: "char \<Rightarrow> char" where
  "upper_char c = (if is_lower c then char_of (byte c - 32) else c)"

definition ToLower :: "gostring \<Rightarrow> gostring" where "ToLower s = map lower_char s"
definition ToUpper :: "gostring \<Rightarrow> gostring" where "ToUpper s = map upper_char s"
definition EqualFold :: "gostring \<Rightarrow> gostring \<Rightarrow> bool" where "EqualFold s t \<longleftrightarrow> ToLower s = ToLower t"

lemma lower_char_idem [simp]: "lower_char (lower_char c) = lower_char c"
  by (auto simp: lower_char_def is_upper_def)

lemma ToLower_idem [simp]: "ToLower (ToLower s) = ToLower s"
  by (simp add: ToLower_def comp_def)

lemma length_ToLower [simp]: "length (ToLower s) = length s"
  by (simp add: ToLower_def)

lemma ToLower_Nil_iff [simp]: "ToLower s = [] \<longleftrightarrow> s = []"
  by (simp add: ToLower_def)

subsection \<open>Prefixes, suffixes and substrings\<close>

definition HasPrefix :: "gostring \<Rightarrow> gostring \<Rightarrow> bool" where
  "HasPrefix s p \<longleftrightarrow> length s \<ge> length p \<and> take (length p) s = p"
definition HasSuffix :: "gostring \<Rightarrow> gostring \<Rightarrow> bool" where
  "HasSuffix s p \<longleftrightarrow> length s \<ge> length p \<and> drop (length s - length p) s = p"

lemma HasPrefix_iff: "HasPrefix s p \<longleftrightarrow> (\<exists>r. s = p @ r)"
proof
  assume "HasPrefix s p"
  then show "\<exists>r. s = p @ r"
    by (intro exI[of _ "drop (length p) s"]) (metis HasPrefix_def append_take_drop_id)
qed (auto simp: HasPrefix_def)

lemma HasSuffix_iff: "HasSuffix s p \<longleftrightarrow> (\<exists>r. s = r @ p)"
proof
  assume "HasSuffix s p"
  then show "\<exists>r. s = r @ p"
    by (intro exI[of _ "take (length s - length p) s"]) (metis HasSuffix_def append_take_drop_id)
qed (auto simp: HasSuffix_def)

lemma HasPrefix_append [simp]: "HasPrefix (p @ s) p"
  by (auto simp: HasPrefix_iff)
lemma HasSuffix_append [simp]: "HasSuffix (s @ p) p"
  by (auto simp: HasSuffix_iff)

definition TrimPrefix :: "gostring \<Rightarrow> gostring \<Rightarrow> gostring" where
  "TrimPrefix s p = (if HasPrefix s p then drop (length p) s else s)"
definition TrimSuffix :: "gostring \<Rightarrow> gostring \<Rightarrow> gostring" where
  "TrimSuffix s p = (if HasSuffix s p then take (length s - length p) s else s)"

text \<open>\<open>strings.Index\<close>; \<open>None\<close> is \<open>-1\<close>.\<close>

fun Index :: "gostring \<Rightarrow> gostring \<Rightarrow> nat option" where
  "Index [] p = (if p = [] then Some 0 else None)"
| "Index (c # s) p = (if HasPrefix (c # s) p then Some 0 else map_option Suc (Index s p))"

definition Contains :: "gostring \<Rightarrow> gostring \<Rightarrow> bool" where
  "Contains s p \<longleftrightarrow> Index s p \<noteq> None"

lemma Index_Some: "Index s p = Some i \<Longrightarrow> s = take i s @ p @ drop (i + length p) s"
proof (induction s arbitrary: i)
  case Nil
  then show ?case by (simp split: if_splits)
next
  case (Cons c s)
  then show ?case by (auto simp: HasPrefix_iff split: if_splits)
qed

lemma Contains_iff: "Contains s p \<longleftrightarrow> (\<exists>u v. s = u @ p @ v)"
proof
  assume "Contains s p"
  then show "\<exists>u v. s = u @ p @ v" unfolding Contains_def using Index_Some by blast
next
  assume "\<exists>u v. s = u @ p @ v"
  then obtain u v where "s = u @ p @ v" by blast
  then show "Contains s p"
  proof (induction u arbitrary: s)
    case Nil
    then have "HasPrefix s p" "s = [] \<Longrightarrow> p = []" by simp_all
    then have "Index s p = Some 0" by (cases s) auto
    then show ?case by (simp add: Contains_def)
  next
    case (Cons c u)
    then show ?case by (auto simp: Contains_def)
  qed
qed

subsection \<open>Splitting and joining\<close>

fun Split :: "char \<Rightarrow> gostring \<Rightarrow> gostring list" where
  "Split d [] = [[]]"
| "Split d (c # s) =
     (if c = d then [] # Split d s
      else case Split d s of [] \<Rightarrow> [[c]] | w # ws \<Rightarrow> (c # w) # ws)"

fun Join :: "gostring list \<Rightarrow> gostring \<Rightarrow> gostring" where
  "Join [] sep = []"
| "Join [w] sep = w"
| "Join (w # ws) sep = w @ sep @ Join ws sep"

lemma Split_nonempty [simp]: "Split d s \<noteq> []"
  by (induction s) (auto split: list.split)

lemma Join_Split: "Join (Split d s) [d] = s"
proof (induction s)
  case Nil
  then show ?case by simp
next
  case (Cons c s)
  show ?case
  proof (cases "Split d s")
    case Nil
    then show ?thesis by simp
  next
    case ws: (Cons w ws)
    with Cons show ?thesis by (cases ws) auto
  qed
qed

lemma Split_no_sep: "w \<in> set (Split d s) \<Longrightarrow> d \<notin> set w"
proof (induction s arbitrary: w)
  case (Cons c s)
  then show ?case by (cases "Split d s") (auto split: if_splits)
qed simp

lemma Split_Join:
  "ws \<noteq> [] \<Longrightarrow> \<forall>w \<in> set ws. d \<notin> set w \<Longrightarrow> Split d (Join ws [d]) = ws"
proof (induction ws "[d]" rule: Join.induct)
  case (2 w)
  then show ?case by (induction w) auto
next
  case (3 w v ws)
  then have IH: "Split d (Join (v # ws) [d]) = v # ws" by simp
  have "d \<notin> set w" using 3 by simp
  then show ?case using IH by (induction w) auto
qed simp

definition TrimLeftSpace :: "gostring \<Rightarrow> gostring" where "TrimLeftSpace s = dropWhile is_space s"
definition TrimSpace :: "gostring \<Rightarrow> gostring" where
  "TrimSpace s = rev (dropWhile is_space (rev (dropWhile is_space s)))"

text \<open>\<open>strings.ReplaceAll\<close> for a non-empty old string.\<close>

function ReplaceAll :: "gostring \<Rightarrow> gostring \<Rightarrow> gostring \<Rightarrow> gostring" where
  "ReplaceAll [] old new = []"
| "ReplaceAll (c # s) old new =
     (if old \<noteq> [] \<and> HasPrefix (c # s) old then new @ ReplaceAll (drop (length old) (c # s)) old new
      else c # ReplaceAll s old new)"
  by pat_completeness auto
termination ReplaceAll
  by (relation "measure (\<lambda>(s, old, new). length s)") auto

subsection \<open>Numbers\<close>

definition digit_char :: "nat \<Rightarrow> char" where "digit_char n = char_of (48 + n)"
definition digit_val :: "char \<Rightarrow> nat" where "digit_val c = byte c - 48"

fun nat_digits :: "nat \<Rightarrow> gostring" where
  "nat_digits n = (if n < 10 then [digit_char n] else nat_digits (n div 10) @ [digit_char (n mod 10)])"

declare nat_digits.simps [simp del]

definition Itoa :: "int \<Rightarrow> gostring" where
  "Itoa i = (if i < 0 then CHR ''-'' # nat_digits (nat (- i)) else nat_digits (nat i))"

definition digits_val :: "gostring \<Rightarrow> nat" where
  "digits_val s = foldl (\<lambda>v c. 10 * v + digit_val c) 0 s"

lemma digit_char_props [simp]:
  "n < 10 \<Longrightarrow> is_digit (digit_char n)" "n < 10 \<Longrightarrow> digit_val (digit_char n) = n"
  by (simp_all add: is_digit_def digit_char_def digit_val_def)

lemma nat_digits_ne [simp]: "nat_digits n \<noteq> []"
  by (simp add: nat_digits.simps[of n])

lemma nat_digits_digit: "c \<in> set (nat_digits n) \<Longrightarrow> is_digit c"
proof (induction n rule: nat_digits.induct)
  case (1 n)
  then show ?case by (cases "n < 10") (auto simp: nat_digits.simps[of n])
qed

lemma digits_val_snoc: "digits_val (s @ [c]) = 10 * digits_val s + digit_val c"
  by (simp add: digits_val_def)

lemma digits_val_nat_digits [simp]: "digits_val (nat_digits n) = n"
proof (induction n rule: nat_digits.induct)
  case (1 n)
  show ?case
  proof (cases "n < 10")
    case True
    then show ?thesis by (simp add: nat_digits.simps[of n] digits_val_def)
  next
    case False
    with 1 show ?thesis by (simp add: nat_digits.simps[of n] digits_val_snoc)
  qed
qed

text \<open>\<open>strconv.ParseInt(s, 10, bits)\<close> and \<open>ParseUint\<close>: an optional sign, at least one digit,
  and the range of the width; \<open>None\<close> is any of their errors.\<close>

definition parse_digits :: "gostring \<Rightarrow> nat option" where
  "parse_digits s = (if s \<noteq> [] \<and> list_all is_digit s then Some (digits_val s) else None)"

definition ParseUint :: "nat \<Rightarrow> gostring \<Rightarrow> nat option" where
  "ParseUint w s = (case parse_digits s of None \<Rightarrow> None | Some n \<Rightarrow> if n < 2 ^ w then Some n else None)"

definition ParseInt :: "nat \<Rightarrow> gostring \<Rightarrow> int option" where
  "ParseInt w s =
     (case s of
        [] \<Rightarrow> None
      | c # r \<Rightarrow>
          (if c = CHR ''-'' then
             (case parse_digits r of None \<Rightarrow> None | Some n \<Rightarrow> if n \<le> 2 ^ (w - 1) then Some (- int n) else None)
           else
             (case parse_digits (if c = CHR ''+'' then r else s) of
                None \<Rightarrow> None
              | Some n \<Rightarrow> if n < 2 ^ (w - 1) then Some (int n) else None)))"

lemma parse_digits_nat_digits [simp]: "parse_digits (nat_digits n) = Some n"
  by (auto simp: parse_digits_def list_all_iff nat_digits_digit)

lemma nat_digits_hd: "c # r = nat_digits n \<Longrightarrow> is_digit c"
  by (metis list.set_intros(1) nat_digits_digit)

theorem ParseInt_Itoa:
  assumes "- (2 ^ (w - 1)) \<le> i" and "i < 2 ^ (w - 1)"
  shows "ParseInt w (Itoa i) = Some i"
proof (cases "i < 0")
  case True
  have "int (nat (- i)) \<le> int (2 ^ (w - 1))" using assms(1) True by simp
  then have "nat (- i) \<le> 2 ^ (w - 1)" by (simp only: of_nat_le_iff)
  with True show ?thesis by (simp add: ParseInt_def Itoa_def)
next
  case False
  have "int (nat i) < int (2 ^ (w - 1))" using assms(2) False by simp
  then have r: "nat i < 2 ^ (w - 1)" by (simp only: of_nat_less_iff)
  obtain c s where cs: "nat_digits (nat i) = c # s" by (cases "nat_digits (nat i)") auto
  then have "is_digit c" using nat_digits_hd by metis
  then have "c \<noteq> CHR ''-''" "c \<noteq> CHR ''+''" by (auto simp: is_digit_def)
  with False r cs parse_digits_nat_digits[of "nat i"] show ?thesis
    by (simp add: ParseInt_def Itoa_def)
qed

end
