(* ===== verification/HandlerChain.thy ===== *)
theory HandlerChain
  imports GoStrings
begin

section \<open>Errors, handlers and the chain (errors.go, report.go, handler.go, context.go)\<close>

subsection \<open>Errors (errors.go, report.go)\<close>

text \<open>
  The errors handlers return: an \<open>HTTPError\<close>, a validation report, a plain error, and an error
  wrapped with \<open>%w\<close>, whose own message includes what it wraps.
\<close>

datatype errorType = RequestErr | ResponseErr

datatype goerr =
    HTTPError (err_code: int) (err_text: gostring)
  | PlainErr (err_text: gostring)
  | WrapErr (err_text: gostring) (err_inner: goerr)
  | Report errorType (rep_field: gostring) (rep_schemaValue: gostring) (rep_rule: gostring) (err_inner: goerr)

definition NewHTTPError :: "int \<Rightarrow> gostring \<Rightarrow> goerr" where
  [go_defs]: "NewHTTPError code message = HTTPError code message"

definition newErrReport :: "errorType \<Rightarrow> gostring \<Rightarrow> gostring \<Rightarrow> gostring \<Rightarrow> goerr \<Rightarrow> goerr" where
  [go_defs]: "newErrReport typ sch schemaValue rl err = Report typ sch schemaValue rl err"

fun Error :: "goerr \<Rightarrow> gostring" where
  "Error (HTTPError c m) = m"
| "Error (PlainErr m) = m"
| "Error (WrapErr m e) = m"
| "Error (Report typ field sv rl e) =
     (if sv \<noteq> [] then
        (if typ = RequestErr then Error e @ '' at request '' @ field @ ''('' @ sv @ '')''
         else Error e @ '' at response '' @ field @ ''('' @ sv @ '')'')
      else Error e)"

text \<open>\<open>errors.As(err, *HTTPError)\<close>: the first \<open>HTTPError\<close> along the unwrapping. A report has no
  \<open>Unwrap\<close> method, so the search stops there.\<close>

fun errors_As_HTTP :: "goerr \<Rightarrow> (int \<times> gostring) option" where
  "errors_As_HTTP (HTTPError c m) = Some (c, m)"
| "errors_As_HTTP (PlainErr m) = None"
| "errors_As_HTTP (WrapErr m e) = errors_As_HTTP e"
| "errors_As_HTTP (Report typ field sv rl e) = None"

subsection \<open>The default error handler (handler.go)\<close>

definition err_status :: "goerr \<Rightarrow> int" where
  [go_defs]: "err_status err =
     (case errors_As_HTTP err of
        Some (c, m) \<Rightarrow> if c > 0 then c else 500
      | None \<Rightarrow> 500)"

definition err_prefix :: "int \<Rightarrow> gostring" where
  [go_defs]: "err_prefix code = ''{\"status\":\"error\",\"statusCode\":'' @ Itoa code @ '',\"message\":\"''"

definition preComputedErrPrefix :: "(int \<times> gostring) list" where
  [go_defs]: "preComputedErrPrefix = map (\<lambda>c. (c, err_prefix c)) [400, 401, 403, 404, 405, 408, 409, 422, 425, 500]"

fun escape_char :: "char \<Rightarrow> gostring" where
  "escape_char c =
     (if c = CHR 0x22 then [CHR 0x5C, CHR 0x22]
      else if c = CHR 0x5C then [CHR 0x5C, CHR 0x5C]
      else if c = CHR 0x0A then [CHR 0x5C, CHR ''n'']
      else if c = CHR 0x0D then [CHR 0x5C, CHR ''r'']
      else if c = CHR 0x09 then [CHR 0x5C, CHR ''t'']
      else [c])"

definition error_body :: "int \<Rightarrow> gostring \<Rightarrow> gostring" where
  [go_defs]: "error_body code msg =
     (case map_of preComputedErrPrefix code of Some p \<Rightarrow> p | None \<Rightarrow> err_prefix code)
     @ concat (map escape_char msg) @ [CHR 0x22, CHR ''}'']"

text \<open>What \<open>defaultErrorHandler\<close> hands to \<open>SendBytes\<close>.\<close>

definition defaultErrorHandler :: "goerr \<Rightarrow> int \<times> gostring" where
  [go_defs]: "defaultErrorHandler err = (err_status err, error_body (err_status err) (Error err))"

text \<open>A reader of JSON strings (RFC 8259), from after the opening quote: the value and the rest
  behind the closing quote. Control characters must be escaped.\<close>

fun json_string :: "gostring \<Rightarrow> (gostring \<times> gostring) option" where
  "json_string [] = None"
| "json_string (c # s) =
     (if c = CHR 0x22 then Some ([], s)
      else if byte c < 32 then None
      else if c = CHR 0x5C then
        (case s of
           [] \<Rightarrow> None
         | e # s' \<Rightarrow>
             (let v = (if e = CHR ''n'' then Some (CHR 0x0A) else if e = CHR ''r'' then Some (CHR 0x0D)
                       else if e = CHR ''t'' then Some (CHR 0x09)
                       else if e = CHR 0x22 \<or> e = CHR 0x5C then Some e else None)
              in case v of None \<Rightarrow> None
                 | Some x \<Rightarrow> map_option (\<lambda>(t, r). (x # t, r)) (json_string s')))
      else map_option (\<lambda>(t, r). (c # t, r)) (json_string s))"

definition readable :: "char \<Rightarrow> bool" where
  "readable c \<longleftrightarrow> byte c \<ge> 32 \<or> c \<in> {CHR 0x0A, CHR 0x0D, CHR 0x09}"

lemma err_prefix_lookup:
  "(case map_of preComputedErrPrefix code of Some p \<Rightarrow> p | None \<Rightarrow> err_prefix code) = err_prefix code"
  by (simp add: preComputedErrPrefix_def map_of_map_restrict[symmetric] split: option.split)

lemma json_string_escape:
  "list_all readable msg \<Longrightarrow> json_string (concat (map escape_char msg) @ CHR 0x22 # rest) = Some (msg, rest)"
proof (induction msg)
  case (Cons c msg)
  then show ?case by (auto simp: readable_def)
qed simp

lemma json_string_control:
  "\<not> list_all readable msg \<Longrightarrow> json_string (concat (map escape_char msg) @ rest) = None"
proof (induction msg)
  case (Cons c msg)
  show ?case
  proof (cases "readable c")
    case True
    with Cons show ?thesis by auto
  next
    case False
    then show ?thesis by (auto simp: readable_def)
  qed
qed simp

text \<open>The body of the default error handler is the fixed opening, the status in decimal and
  the message as a JSON string that reads back to the message, for every message without
  control characters other than newline, carriage return and tab; the statuses with a
  prepared prefix are no exception.\<close>

theorem error_body_roundtrip:
  assumes "list_all readable (Error err)"
  shows "\<exists>rest. snd (defaultErrorHandler err) = err_prefix (err_status err) @ rest
           \<and> json_string rest = Some (Error err, ''}'')"
  using json_string_escape[OF assms, of "''}''"]
  by (auto simp: defaultErrorHandler_def error_body_def err_prefix_lookup)

theorem error_body_roundtrip_witness:
  "\<exists>rest. snd (defaultErrorHandler (WrapErr ''bad \"x\"'' (HTTPError 404 ''no''))) = err_prefix 404 @ rest
     \<and> json_string rest = Some (''bad \"x\"'', ''}'')"
  using error_body_roundtrip[of "WrapErr ''bad \"x\"'' (HTTPError 404 ''no'')"]
  by (simp add: readable_def err_status_def)

text \<open>With any other control character in the message the body is not a JSON text: the
  character is copied as it is.\<close>

theorem error_body_control_not_json:
  assumes "\<not> list_all readable (Error err)"
  shows "\<exists>rest. snd (defaultErrorHandler err) = err_prefix (err_status err) @ rest \<and> json_string rest = None"
  using json_string_control[OF assms, of "[CHR 0x22, CHR ''}'']"]
  by (auto simp: defaultErrorHandler_def error_body_def err_prefix_lookup)

theorem error_body_control_not_json_witness:
  "\<exists>rest. snd (defaultErrorHandler (PlainErr [CHR 0x1B])) = err_prefix 500 @ rest \<and> json_string rest = None"
  using error_body_control_not_json[of "PlainErr [CHR 0x1B]"]
  by (simp add: readable_def err_status_def)

subsection \<open>Handlers and the chain (context.go, Next)\<close>

text \<open>
  A handler is a function of the context that may change it, call \<open>Next\<close> any number of times
  and return an error. It is a tree of such steps, so that a handler is data and what it may
  do to the position in the chain is exactly what the context offers: only \<open>Next\<close> moves it.
  \<open>'s\<close> is the state of the context without the chain; the chain's position is the number
  of handlers started, the source's \<open>handlerIdx + 1\<close>. A panic is an outcome; a handler that does
  not recover hands it on.
\<close>

datatype outcome = Returned "goerr option" | Panicked gostring

datatype 's prog =
    Return "goerr option"
  | Panic gostring
  | Step "'s \<Rightarrow> 's" "'s \<Rightarrow> 's prog"
  | CallNext "outcome \<Rightarrow> 's prog"

primrec exec :: "'s prog \<Rightarrow> (nat \<times> 's \<Rightarrow> outcome \<times> nat \<times> 's) \<Rightarrow> nat \<times> 's \<Rightarrow> outcome \<times> nat \<times> 's" where
  "exec (Return e) nx st = (Returned e, st)"
| "exec (Panic v) nx st = (Panicked v, st)"
| "exec (Step u k) nx st = exec (k (u (snd st))) nx (fst st, u (snd st))"
| "exec (CallNext k) nx st = (case nx st of (r, st') \<Rightarrow> exec (k r) nx st')"

fun next_fuel :: "nat \<Rightarrow> 's prog list \<Rightarrow> nat \<times> 's \<Rightarrow> outcome \<times> nat \<times> 's" where
  "next_fuel 0 hs (i, s) = (Returned None, Suc i, s)"
| "next_fuel (Suc n) hs (i, s) =
     (if i < length hs then exec (hs ! i) (next_fuel n hs) (Suc i, s) else (Returned None, Suc i, s))"

definition Next :: "'s prog list \<Rightarrow> nat \<times> 's \<Rightarrow> outcome \<times> nat \<times> 's" where
  [go_defs]: "Next hs st = next_fuel (length hs) hs st"

definition never_back :: "(nat \<times> 's \<Rightarrow> outcome \<times> nat \<times> 's) \<Rightarrow> bool" where
  "never_back nx \<longleftrightarrow> (\<forall>st. fst st \<le> fst (snd (nx st)))"

lemma exec_mono: "never_back nx \<Longrightarrow> fst st \<le> fst (snd (exec p nx st))"
proof (induction p arbitrary: st)
  case (CallNext k)
  obtain r st' where nx: "nx st = (r, st')" by (cases "nx st")
  then have "fst st \<le> fst st'" using CallNext.prems unfolding never_back_def by (metis snd_conv)
  moreover have "fst st' \<le> fst (snd (exec (k r) nx st'))" using CallNext by blast
  ultimately show ?case by (simp add: nx)
next
  case (Step u k)
  from Step.IH[OF _ Step.prems, of "k (u (snd st))" "(fst st, u (snd st))"] show ?case by auto
qed auto

lemma never_back_next_fuel: "never_back (next_fuel n hs)"
proof (induction n)
  case 0
  then show ?case by (auto simp: never_back_def)
next
  case (Suc n)
  have "i \<le> fst (snd (exec p (next_fuel n hs) (Suc i, s)))" for p i and s :: 'a
    using exec_mono[OF Suc, of "(Suc i, s)" p] by simp
  then show ?case by (auto simp: never_back_def)
qed

lemma exec_cong:
  assumes "never_back nx" and "\<And>i' s'. i \<le> i' \<Longrightarrow> nx (i', s') = nx' (i', s')"
  shows "exec p nx (i, s) = exec p nx' (i, s)"
  using assms(2)
proof (induction p arbitrary: i s)
  case (CallNext k)
  obtain r j s' where nx: "nx (i, s) = (r, j, s')" by (cases "nx (i, s)") auto
  then have "i \<le> j" using assms(1) unfolding never_back_def by (metis fst_conv snd_conv)
  then have "exec (k r) nx (j, s') = exec (k r) nx' (j, s')"
    using CallNext.prems by (intro CallNext.IH) auto
  moreover have "nx' (i, s) = nx (i, s)" using CallNext.prems by simp
  ultimately show ?case by (simp add: nx)
qed auto

lemma next_fuel_enough:
  "length hs - i \<le> n \<Longrightarrow> length hs - i \<le> m \<Longrightarrow> next_fuel n hs (i, s) = next_fuel m hs (i, s)"
proof (induction n arbitrary: m i s)
  case 0
  then show ?case by (cases m) auto
next
  case (Suc n)
  show ?case
  proof (cases "i < length hs")
    case True
    then obtain m' where m: "m = Suc m'" using Suc.prems by (cases m) auto
    have "exec (hs ! i) (next_fuel n hs) (Suc i, s) = exec (hs ! i) (next_fuel m' hs) (Suc i, s)"
      using Suc.prems m by (intro exec_cong never_back_next_fuel Suc.IH) auto
    then show ?thesis using True m by simp
  next
    case False
    then show ?thesis by (cases m) auto
  qed
qed

lemma Next_eq:
  "Next hs (i, s) =
     (if i < length hs then exec (hs ! i) (Next hs) (Suc i, s) else (Returned None, Suc i, s))"
proof (cases "i < length hs")
  case True
  then obtain n where n: "length hs = Suc n" by (cases "length hs") auto
  have "exec (hs ! i) (next_fuel n hs) (Suc i, s) = exec (hs ! i) (Next hs) (Suc i, s)"
  proof (rule exec_cong[OF never_back_next_fuel])
    fix i' s' assume "Suc i \<le> i'"
    then show "next_fuel n hs (i', s') = Next hs (i', s')"
      unfolding Next_def using n by (intro next_fuel_enough) auto
  qed
  with True n show ?thesis by (simp add: Next_def)
next
  case False
  then show ?thesis by (cases "length hs") (auto simp: Next_def)
qed

lemma Next_mono: "fst st \<le> fst (snd (Next hs st))"
  using never_back_next_fuel[of "length hs" hs] unfolding never_back_def Next_def by blast

lemma Next_here: "i = length pre \<Longrightarrow> Next (pre @ h # rest) (i, s) = exec h (Next (pre @ h # rest)) (Suc i, s)"
  by (subst Next_eq) simp

lemma Next_end: "length hs \<le> i \<Longrightarrow> Next hs (i, s) = (Returned None, Suc i, s)"
  by (subst Next_eq) simp

text \<open>C10. \<open>Next\<close> always returns, and obeys the equation of the source: it moves to the next
  position and runs the handler there, or returns nil behind the last one. The fuel, one
  unit per handler, never runs out, since the position only grows.\<close>

theorem Next_obeys_source:
  "Next hs (i, s) =
     (if i < length hs then exec (hs ! i) (Next hs) (Suc i, s) else (Returned None, Suc i, s))
   \<and> i \<le> fst (snd (Next hs (i, s)))"
  using Next_mono[of "(i, s)" hs] by (intro conjI Next_eq) simp

subsection \<open>The shapes of middleware\<close>

text \<open>A handler without a deferred recovery hands a panic on; \<open>ret_next\<close> is \<open>return c.Next()\<close>.\<close>

definition on_return :: "(goerr option \<Rightarrow> 's prog) \<Rightarrow> outcome \<Rightarrow> 's prog" where
  "on_return k r = (case r of Returned e \<Rightarrow> k e | Panicked v \<Rightarrow> Panic v)"

definition ret_next :: "'s prog" where
  "ret_next = CallNext (on_return Return)"

definition around :: "('s \<Rightarrow> 's) \<Rightarrow> ('s \<Rightarrow> 's) \<Rightarrow> 's prog" where
  "around pre post = Step pre (\<lambda>_. CallNext (on_return (\<lambda>e. Step post (\<lambda>_. Return e))))"

definition final :: "('s \<Rightarrow> 's) \<Rightarrow> goerr option \<Rightarrow> 's prog" where
  "final f e = Step f (\<lambda>_. Return e)"

text \<open>Running a whole chain, from \<open>handlerIdx = -1\<close>.\<close>

definition run_chain :: "'s prog list \<Rightarrow> 's \<Rightarrow> outcome \<times> 's" where
  [go_defs]: "run_chain hs s = (case Next hs (0, s) of (r, i, s') \<Rightarrow> (r, s'))"

fun onion :: "(('s \<Rightarrow> 's) \<times> ('s \<Rightarrow> 's)) list \<Rightarrow> ('s \<Rightarrow> 's) \<Rightarrow> 's \<Rightarrow> 's" where
  "onion [] f s = f s"
| "onion ((a, b) # ms) f s = b (onion ms f (a s))"

lemma Next_onion:
  "\<exists>j. Next (done @ map (\<lambda>(a, b). around a b) ms @ [final f e]) (length done, s)
     = (Returned e, j, onion ms f s)"
proof (induction ms arbitrary: "done" s)
  case Nil
  show ?case by (simp add: Next_here final_def)
next
  case (Cons m ms)
  obtain a b where m: "m = (a, b)" by (cases m)
  have "done @ map (\<lambda>(a, b). around a b) (m # ms) @ [final f e]
      = (done @ [around a b]) @ map (\<lambda>(a, b). around a b) ms @ [final f e]" by (simp add: m)
  moreover obtain j where "Next ((done @ [around a b]) @ map (\<lambda>(a, b). around a b) ms @ [final f e])
      (length (done @ [around a b]), a s) = (Returned e, j, onion ms f (a s))" using Cons.IH by blast
  ultimately show ?case
    by (simp add: m Next_here) (simp add: around_def on_return_def)
qed

text \<open>C10. Middleware that works around \<open>Next\<close> nests like the layers of an onion: the parts before
  \<open>Next\<close> run in the order of registration, then the handler, then the parts after it in the
  reverse order, and the handler's error comes back unchanged through all of them.\<close>

theorem middleware_onion:
  "run_chain (map (\<lambda>(a, b). around a b) ms @ [final f e]) s = (Returned e, onion ms f s)"
  using Next_onion[of "[]" ms f e s] by (auto simp: run_chain_def)

text \<open>A program that never calls \<open>Next\<close>.\<close>

primrec no_next :: "'s prog \<Rightarrow> bool" where
  "no_next (Return e) \<longleftrightarrow> True"
| "no_next (Panic v) \<longleftrightarrow> True"
| "no_next (Step u k) \<longleftrightarrow> (\<forall>s. no_next (k s))"
| "no_next (CallNext k) \<longleftrightarrow> False"

lemma exec_no_next: "no_next p \<Longrightarrow> exec p nx st = exec p nx' st"
  by (induction p arbitrary: st) auto

text \<open>A handler that answers without calling \<open>Next\<close> ends the chain: what is registered behind
  it has no effect on the outcome or the state.\<close>

theorem short_circuit:
  assumes "no_next h"
  shows "run_chain (map (\<lambda>(a, b). around a b) ms @ h # rest) s
       = run_chain (map (\<lambda>(a, b). around a b) ms @ [h]) s"
proof -
  have "snd (snd (Next (done @ map (\<lambda>(a, b). around a b) ms @ h # rest) (length done, s)))
        = snd (snd (Next (done @ map (\<lambda>(a, b). around a b) ms @ [h]) (length done, s)))
      \<and> fst (Next (done @ map (\<lambda>(a, b). around a b) ms @ h # rest) (length done, s))
        = fst (Next (done @ map (\<lambda>(a, b). around a b) ms @ [h]) (length done, s))" for "done" s
  proof (induction ms arbitrary: "done" s)
    case Nil
    show ?case using exec_no_next[OF assms] by (simp add: Next_here, metis)
  next
    case (Cons m ms)
    obtain a b where m: "m = (a, b)" by (cases m)
    from Cons.IH[of "done @ [around a b]" "a s"] show ?case
      by (simp add: m Next_here)
        (auto simp: around_def on_return_def split: prod.splits outcome.splits)
  qed
  from this[of "[]" s] show ?thesis
    by (auto simp: run_chain_def split: prod.splits)
qed

theorem short_circuit_witness:
  "run_chain [around (\<lambda>n. n + 1) (\<lambda>n. n * 2), final (\<lambda>n. n + 3) None, final (\<lambda>n. 0) None] (4 :: nat)
   = run_chain [around (\<lambda>n. n + 1) (\<lambda>n. n * 2), final (\<lambda>n. n + 3) None] (4 :: nat)"
  using short_circuit[of "final (\<lambda>n. n + 3) None" "[(\<lambda>n. n + 1, \<lambda>n. n * 2)]" "[final (\<lambda>n. 0) None]" "4 :: nat"]
  by (simp add: final_def)

end
