(* ===== verification/Stores.thy ===== *)
theory Stores
  imports GoStrings "HOL-Library.AList"
begin

section \<open>Stores and maps (extras.go, mux_options.go)\<close>

text \<open>
  The key-value store of a context, the meta information and the schema rules of the routes.
  A Go map is an association list without duplicate keys; the order of the list is one order
  in which \<open>range\<close> may visit it, and the theorems hold for every list.
\<close>

subsection \<open>The interface of a store\<close>

text \<open>\<open>norm\<close> is what the store distinguishes of a key.\<close>

locale kv_store =
  fixes get :: "'s \<Rightarrow> 'k \<Rightarrow> 'v option"
    and put :: "'k \<Rightarrow> 'v \<Rightarrow> 's \<Rightarrow> 's"
    and empty :: 's
    and ok :: "'s \<Rightarrow> bool"
    and norm :: "'k \<Rightarrow> 'n"
  assumes ok_empty: "ok empty"
    and ok_put: "ok s \<Longrightarrow> ok (put k v s)"
    and get_empty: "get empty k = None"
    and get_put: "ok s \<Longrightarrow> get (put k v s) k' = (if norm k' = norm k then Some v else get s k')"
begin

lemma ok_put_all: "ok s \<Longrightarrow> ok (fold (\<lambda>(k, v). put k v) kvs s)"
  by (induction kvs arbitrary: s) (auto simp: ok_put)

text \<open>The last write of a key is what a read returns.\<close>

lemma get_put_all:
  "ok s \<Longrightarrow> get (fold (\<lambda>(k, v). put k v) kvs s) k =
     (case map_of (rev (map (\<lambda>(k, v). (norm k, v)) kvs)) (norm k) of Some v \<Rightarrow> Some v | None \<Rightarrow> get s k)"
proof (induction kvs arbitrary: s)
  case (Cons kv kvs)
  obtain k1 v1 where kv: "kv = (k1, v1)" by (cases kv)
  from Cons.IH[OF ok_put[OF Cons.prems, of k1 v1]] show ?case
    by (auto simp: kv get_put[OF Cons.prems] map_add_def split: option.splits)
qed simp

lemma put_same_get: "ok s \<Longrightarrow> norm k = norm k' \<Longrightarrow> get (put k v (put k' v' s)) x = get (put k v s) x"
  by (simp add: get_put ok_put)

lemma put_swap_get:
  "ok s \<Longrightarrow> norm k \<noteq> norm k' \<Longrightarrow> get (put k v (put k' v' s)) x = get (put k' v' (put k v s)) x"
  by (simp add: get_put ok_put)

end

subsection \<open>The store of a context (extras.go)\<close>

record 'v kv =
  key :: gostring
  val :: 'v

type_synonym 'v gofiStore = "'v kv list"

definition NewDataStore :: "'v gofiStore" where [go_defs]: "NewDataStore = []"
definition NewGlobalStore :: "'v gofiStore" where [go_defs]: "NewGlobalStore = []"

fun Store_Has :: "'v gofiStore \<Rightarrow> gostring \<Rightarrow> bool" where
  "Store_Has [] k = False"
| "Store_Has (e # items) k = (if key e = k then True else Store_Has items k)"

fun Store_Set :: "gostring \<Rightarrow> 'v \<Rightarrow> 'v gofiStore \<Rightarrow> 'v gofiStore" where
  "Store_Set k v [] = [\<lparr>key = k, val = v\<rparr>]"
| "Store_Set k v (e # items) = (if key e = k then e\<lparr>val := v\<rparr> # items else e # Store_Set k v items)"

fun Store_Get :: "'v gofiStore \<Rightarrow> gostring \<Rightarrow> 'v option" where
  "Store_Get [] k = None"
| "Store_Get (e # items) k = (if key e = k then Some (val e) else Store_Get items k)"

text \<open>\<open>Inl\<close> is the panic, with the key its message quotes.\<close>

fun Store_TryGet :: "'v gofiStore \<Rightarrow> gostring \<Rightarrow> gostring + 'v" where
  "Store_TryGet [] k = Inl k"
| "Store_TryGet (e # items) k = (if key e = k then Inr (val e) else Store_TryGet items k)"

text \<open>The pairs the iterator yields, while the consumer wants more.\<close>

fun Store_All :: "'v gofiStore \<Rightarrow> (gostring \<Rightarrow> 'v \<Rightarrow> bool) \<Rightarrow> (gostring \<times> 'v) list" where
  "Store_All [] yield = []"
| "Store_All (e # items) yield =
     (key e, val e) # (if yield (key e) (val e) then Store_All items yield else [])"

definition store_ok :: "'v gofiStore \<Rightarrow> bool" where
  "store_ok s \<longleftrightarrow> distinct (map key s)"

lemma key_Store_Set: "set (map key (Store_Set k v s)) = insert k (set (map key s))"
  by (induction s) auto

lemma Store_Get_Set: "Store_Get (Store_Set k v s) k' = (if k' = k then Some v else Store_Get s k')"
  by (induction s) auto

interpretation gs: kv_store Store_Get Store_Set NewDataStore store_ok id
proof unfold_locales
  fix s :: "'v gofiStore" and k v
  show "store_ok s \<Longrightarrow> store_ok (Store_Set k v s)"
  proof (induction s)
    case (Cons e s)
    then show ?case using key_Store_Set[of k v s] by (auto simp: store_ok_def)
  qed (simp add: store_ok_def)
qed (simp_all add: NewDataStore_def store_ok_def Store_Get_Set)

lemma Store_Has_iff: "Store_Has s k \<longleftrightarrow> Store_Get s k \<noteq> None"
  by (induction s) auto

lemma Store_TryGet_iff: "Store_TryGet s k = (case Store_Get s k of None \<Rightarrow> Inl k | Some v \<Rightarrow> Inr v)"
  by (induction s) auto

lemma Store_All_map: "Store_All s (\<lambda>_ _. True) = map (\<lambda>e. (key e, val e)) s"
  by (induction s) auto

lemma map_of_Store_All: "map_of (Store_All s (\<lambda>_ _. True)) k = Store_Get s k"
  by (induction s) auto

text \<open>A store filled by a sequence of \<open>Set\<close> calls answers every \<open>Get\<close> with the last value set for
  that key, \<open>Has\<close> and \<open>TryGet\<close> agree with \<open>Get\<close>, and \<open>All\<close> yields each key once with that value.\<close>

theorem store_last_write_wins:
  "let s = fold (\<lambda>(k, v). Store_Set k v) kvs NewDataStore in
     Store_Get s k = map_of (rev kvs) k
   \<and> Store_Has s k = (k \<in> fst ` set kvs)
   \<and> Store_TryGet s k = (case map_of (rev kvs) k of None \<Rightarrow> Inl k | Some v \<Rightarrow> Inr v)
   \<and> distinct (map fst (Store_All s (\<lambda>_ _. True)))
   \<and> map_of (Store_All s (\<lambda>_ _. True)) k = map_of (rev kvs) k"
proof -
  let ?s = "fold (\<lambda>(k, v). Store_Set k v) kvs NewDataStore"
  have get: "Store_Get ?s k = map_of (rev kvs) k"
    using gs.get_put_all[OF gs.ok_empty, of kvs k] by (simp add: gs.get_empty case_prod_unfold split: option.splits)
  have "map_of (rev kvs) k = None \<longleftrightarrow> k \<notin> fst ` set kvs"
    by (simp add: map_of_eq_None_iff)
  then have "Store_Has ?s k = (k \<in> fst ` set kvs)" using get by (simp add: Store_Has_iff)
  moreover have "distinct (map fst (Store_All ?s (\<lambda>_ _. True)))"
    using gs.ok_put_all[OF gs.ok_empty, of kvs] by (simp add: Store_All_map comp_def store_ok_def)
  ultimately show ?thesis
    using get by (simp add: Store_TryGet_iff map_of_Store_All)
qed

subsection \<open>Maps of maps\<close>

type_synonym 'v gomap = "(gostring \<times> 'v) list"

definition map_put :: "gostring \<Rightarrow> 'v \<Rightarrow> 'v gomap \<Rightarrow> 'v gomap" where
  [go_defs]: "map_put k v m = AList.update k v m"

definition map_ok :: "'v gomap \<Rightarrow> bool" where
  "map_ok m \<longleftrightarrow> distinct (map fst m)"

lemma map_of_map_put [simp]: "map_of (map_put k v m) k' = (if k' = k then Some v else map_of m k')"
  by (simp add: map_put_def update_conv)

lemma map_ok_put [simp]: "map_ok m \<Longrightarrow> map_ok (map_put k v m)"
  by (simp add: map_ok_def map_put_def distinct_update)

interpretation gm: kv_store map_of map_put "[]" map_ok id
  by unfold_locales (simp_all add: map_ok_def [of "[]"])

subsection \<open>The meta information of the routes (extras.go)\<close>

type_synonym 'v metaMap = "'v gomap gomap"

record 'v MetaMapInfo =
  Path :: gostring
  Method :: gostring
  MetaValue :: 'v

definition inner :: "'v gomap gomap \<Rightarrow> gostring \<Rightarrow> 'v gomap" where
  [go_defs]: "inner m path = (case map_of m path of None \<Rightarrow> [] | Some v \<Rightarrow> v)"

definition Meta_Route :: "'v metaMap \<Rightarrow> gostring \<Rightarrow> gostring \<Rightarrow> 'v option" where
  [go_defs]: "Meta_Route m path method = map_of (inner m path) (ToLower method)"

definition Meta_TryRoute :: "'v metaMap \<Rightarrow> gostring \<Rightarrow> gostring \<Rightarrow> (gostring \<times> gostring) + 'v" where
  [go_defs]: "Meta_TryRoute m path method =
     (case map_of (inner m path) (ToLower method) of None \<Rightarrow> Inl (method, path) | Some v \<Rightarrow> Inr v)"

definition Meta_All :: "'v metaMap \<Rightarrow> 'v metaMap" where
  [go_defs]: "Meta_All m = m"

definition Meta_This :: "'v metaMap \<Rightarrow> gostring \<Rightarrow> gostring \<Rightarrow> 'v option" where
  [go_defs]: "Meta_This routeMeta patt method = map_of (inner routeMeta patt) (ToLower method)"

text \<open>The two nested \<open>range\<close> loops.\<close>

definition Meta_Filter :: "'v metaMap \<Rightarrow> (gostring \<Rightarrow> gostring \<Rightarrow> bool) \<Rightarrow> 'v metaMap" where
  [go_defs]: "Meta_Filter m fn =
     fold (\<lambda>(p, v) r. fold (\<lambda>(mt, vp) r. if fn p mt then map_put p [(mt, vp)] r else r) v r) m []"

definition Meta_FilterAsSlice :: "'v metaMap \<Rightarrow> (gostring \<Rightarrow> gostring \<Rightarrow> bool) \<Rightarrow> 'v MetaMapInfo list" where
  [go_defs]: "Meta_FilterAsSlice m fn =
     fold (\<lambda>(p, v) r. fold (\<lambda>(mt, vp) r.
        if fn p mt then r @ [\<lparr>Path = p, Method = mt, MetaValue = vp\<rparr>] else r) v r) m []"

fun take_until :: "('a \<Rightarrow> bool) \<Rightarrow> 'a list \<Rightarrow> 'a list" where
  "take_until yield [] = []"
| "take_until yield (x # xs) = x # (if yield x then take_until yield xs else [])"

definition meta_infos :: "'v metaMap \<Rightarrow> 'v MetaMapInfo list" where
  "meta_infos m = concat (map (\<lambda>(p, v). map (\<lambda>(mt, vp). \<lparr>Path = p, Method = mt, MetaValue = vp\<rparr>) v) m)"

text \<open>The values the iterators hand to a consumer that stops when its \<open>yield\<close> is false.\<close>

definition Meta_AllSeq :: "'v metaMap \<Rightarrow> ('v MetaMapInfo \<Rightarrow> bool) \<Rightarrow> 'v MetaMapInfo list" where
  [go_defs]: "Meta_AllSeq m yield = take_until yield (meta_infos m)"

definition Meta_FilterSeq ::
  "'v metaMap \<Rightarrow> (gostring \<Rightarrow> gostring \<Rightarrow> bool) \<Rightarrow> ('v MetaMapInfo \<Rightarrow> bool) \<Rightarrow> 'v MetaMapInfo list" where
  [go_defs]: "Meta_FilterSeq m fn yield =
     take_until yield (filter (\<lambda>i. fn (Path i) (Method i)) (meta_infos m))"

lemma fold_filter_snoc:
  "fold (\<lambda>(mt, vp) r. if fn mt then r @ [f mt vp] else r) v r
     = r @ map (\<lambda>(mt, vp). f mt vp) (filter (\<lambda>(mt, vp). fn mt) v)"
  by (induction v arbitrary: r) auto

lemma FilterAsSlice_eq: "Meta_FilterAsSlice m fn = filter (\<lambda>i. fn (Path i) (Method i)) (meta_infos m)"
proof -
  have "fold (\<lambda>(p, v) r. fold (\<lambda>(mt, vp) r.
          if fn p mt then r @ [\<lparr>Path = p, Method = mt, MetaValue = vp\<rparr>] else r) v r) m r
      = r @ filter (\<lambda>i. fn (Path i) (Method i)) (meta_infos m)" for r
  proof (induction m arbitrary: r)
    case (Cons e m)
    obtain p v where e: "e = (p, v)" by (cases e)
    have "filter (\<lambda>i. fn (Path i) (Method i)) (map (\<lambda>(mt, vp). \<lparr>Path = p, Method = mt, MetaValue = vp\<rparr>) v)
        = map (\<lambda>(mt, vp). \<lparr>Path = p, Method = mt, MetaValue = vp\<rparr>) (filter (\<lambda>(mt, vp). fn p mt) v)"
      by (induction v) auto
    with Cons show ?case by (simp add: e meta_infos_def fold_filter_snoc)
  qed (simp add: meta_infos_def)
  then show ?thesis by (simp add: Meta_FilterAsSlice_def)
qed

lemma take_until_True: "(\<And>x. x \<in> set xs \<Longrightarrow> yield x) \<Longrightarrow> take_until yield xs = xs"
  by (induction xs) auto

text \<open>The slice and the iterator variants of the filter yield exactly the registered meta values
  whose path and method the predicate accepts, each of them once per registration.\<close>

theorem meta_filters_complete:
  assumes "map_ok m" and "\<forall>(p, v) \<in> set m. map_ok v"
  shows "i \<in> set (Meta_FilterAsSlice m fn) \<longleftrightarrow>
      fn (Path i) (Method i) \<and> map_of (inner m (Path i)) (Method i) = Some (MetaValue i)"
    and "Meta_FilterSeq m fn (\<lambda>_. True) = Meta_FilterAsSlice m fn"
proof -
  have "i \<in> set (meta_infos m) \<longleftrightarrow> map_of (inner m (Path i)) (Method i) = Some (MetaValue i)"
  proof
    assume "i \<in> set (meta_infos m)"
    then obtain p v mt vp where pv: "(p, v) \<in> set m" "(mt, vp) \<in> set v"
      and i: "i = \<lparr>Path = p, Method = mt, MetaValue = vp\<rparr>" by (auto simp: meta_infos_def)
    have "map_of m p = Some v" "map_of v mt = Some vp"
      using assms pv by (auto simp: map_ok_def)
    then show "map_of (inner m (Path i)) (Method i) = Some (MetaValue i)" by (simp add: i inner_def)
  next
    assume "map_of (inner m (Path i)) (Method i) = Some (MetaValue i)"
    then obtain v where "map_of m (Path i) = Some v" "map_of v (Method i) = Some (MetaValue i)"
      by (auto simp: inner_def split: option.splits)
    then have "(Path i, v) \<in> set m" "(Method i, MetaValue i) \<in> set v" by (auto dest: map_of_SomeD)
    then show "i \<in> set (meta_infos m)" by (cases i) (force simp: meta_infos_def)
  qed
  then show "i \<in> set (Meta_FilterAsSlice m fn) \<longleftrightarrow>
      fn (Path i) (Method i) \<and> map_of (inner m (Path i)) (Method i) = Some (MetaValue i)"
    by (auto simp: FilterAsSlice_eq)
  show "Meta_FilterSeq m fn (\<lambda>_. True) = Meta_FilterAsSlice m fn"
    by (simp add: Meta_FilterSeq_def FilterAsSlice_eq take_until_True)
qed

text \<open>The map variant of the filter keeps at most one method of a path, whatever the predicate
  accepts: each further match of the path replaces the entry of the one before.\<close>

theorem meta_filter_keeps_one_method:
  "length (inner (Meta_Filter m fn) p) \<le> 1"
proof -
  have one: "\<forall>q. length (inner r q) \<le> 1 \<Longrightarrow>
      \<forall>q. length (inner (fold (\<lambda>(mt, vp) r. if fn p mt then map_put p [(mt, vp)] r else r) v r) q) \<le> 1"
    for v p and r :: "'a metaMap"
  proof (induction v arbitrary: r)
    case (Cons e v)
    obtain mt vp where e: "e = (mt, vp)" by (cases e)
    have "\<forall>q. length (inner (if fn p mt then map_put p [(mt, vp)] r else r) q) \<le> 1"
      using Cons.prems by (auto simp: inner_def)
    from Cons.IH[OF this] show ?case by (simp add: e)
  qed simp
  have "\<forall>q. length (inner r q) \<le> 1 \<Longrightarrow>
      \<forall>q. length (inner (fold (\<lambda>(p, v) r. fold (\<lambda>(mt, vp) r. if fn p mt then map_put p [(mt, vp)] r else r) v r) m r) q) \<le> 1"
    for r
  proof (induction m arbitrary: r)
    case (Cons e m)
    obtain p v where e: "e = (p, v)" by (cases e)
    from Cons.IH[OF one[OF Cons.prems, of p v]] show ?case by (simp add: e)
  qed simp
  from this[of "[]"] show ?thesis by (simp add: Meta_Filter_def inner_def)
qed

subsection \<open>Schema rules, custom specs and body parsers (mux_options.go)\<close>

text \<open>\<open>None\<close> is the nil map.\<close>

type_synonym 'r SchemaRulesMap = "'r gomap gomap option"

definition SetRules :: "gostring \<times> gostring \<Rightarrow> 'r \<Rightarrow> 'r SchemaRulesMap \<Rightarrow> 'r SchemaRulesMap" where
  [go_defs]: "SetRules pm r s =
     (case s of
        None \<Rightarrow> None
      | Some m \<Rightarrow> Some
          (case map_of m (fst pm) of
             None \<Rightarrow> map_put (fst pm) [(ToLower (snd pm), r)] m
           | Some x \<Rightarrow> map_put (fst pm) (map_put (ToLower (snd pm)) r x) m))"

definition GetRules :: "'r SchemaRulesMap \<Rightarrow> gostring \<times> gostring \<Rightarrow> 'r option" where
  [go_defs]: "GetRules s pm =
     (case s of
        None \<Rightarrow> None
      | Some m \<Rightarrow>
          (case map_of m (fst pm) of None \<Rightarrow> None | Some x \<Rightarrow> map_of x (ToLower (snd pm))))"

definition route_norm :: "gostring \<times> gostring \<Rightarrow> gostring \<times> gostring" where
  "route_norm pm = (fst pm, ToLower (snd pm))"

interpretation sr: kv_store GetRules SetRules "Some []" "\<lambda>s. s \<noteq> None" route_norm
  by unfold_locales
    (auto simp: GetRules_def SetRules_def route_norm_def prod_eq_iff split: option.splits)

text \<open>The rules a route is served with are the last ones set for its pattern and method; the
  method is compared without case, and other routes are not affected.\<close>

theorem schema_rules_last_set:
  "GetRules (fold (\<lambda>(k, v). SetRules k v) kvs (Some [])) pm =
     map_of (rev (map (\<lambda>(k, v). (route_norm k, v)) kvs)) (route_norm pm)"
  using sr.get_put_all[OF sr.ok_empty, of kvs pm] by (simp add: sr.get_empty split: option.splits)

record ('a, 'b) SpecDefinition =
  specID :: gostring
  spec_type :: gostring
  format :: gostring
  encode :: "('a \<Rightarrow> gostring + 'b) option"
  decode :: "('a \<Rightarrow> gostring + 'a) option"

definition DefineCustomSpec :: "('a, 'b) SpecDefinition \<Rightarrow> ('a, 'b) SpecDefinition" where
  [go_defs]: "DefineCustomSpec spec =
     \<lparr>specID = specID spec, spec_type = spec_type spec, format = format spec, encode = encode spec, decode = decode spec\<rparr>"

definition Spec_SpecID :: "('a, 'b) SpecDefinition \<Rightarrow> gostring" where
  [go_defs]: "Spec_SpecID s = specID s"
definition Spec_Type :: "('a, 'b) SpecDefinition \<Rightarrow> gostring" where
  [go_defs]: "Spec_Type s = (if spec_type s = [] then ''string'' else spec_type s)"
definition Spec_Format :: "('a, 'b) SpecDefinition \<Rightarrow> gostring" where
  [go_defs]: "Spec_Format s = (if format s = [] then ''string'' else format s)"
definition Spec_Encode :: "('a, 'b) SpecDefinition \<Rightarrow> 'a \<Rightarrow> gostring + 'b" where
  [go_defs]: "Spec_Encode s v = (case encode s of
     None \<Rightarrow> Inl (''encode function not defined for spec '' @ [CHR 0x27] @ specID s @ [CHR 0x27]) | Some f \<Rightarrow> f v)"
definition Spec_Decode :: "('a, 'b) SpecDefinition \<Rightarrow> 'a \<Rightarrow> gostring + 'a" where
  [go_defs]: "Spec_Decode s v = (case decode s of
     None \<Rightarrow> Inl (''decode function not defined for spec '' @ [CHR 0x27] @ specID s @ [CHR 0x27]) | Some f \<Rightarrow> f v)"

definition CustomSpecs_Find :: "'s gomap \<Rightarrow> gostring \<Rightarrow> 's option" where
  [go_defs]: "CustomSpecs_Find c i = (if i = [] then None else map_of c i)"

definition RegisterSpec :: "('s \<Rightarrow> gostring) \<Rightarrow> 's list \<Rightarrow> 's gomap \<Rightarrow> 's gomap" where
  [go_defs]: "RegisterSpec spec_id xs m = fold (\<lambda>v. map_put (spec_id v) v) xs m"

text \<open>A body parser is known by its \<open>Match\<close>.\<close>

record 'p BodyParser =
  Match :: "gostring \<Rightarrow> bool"
  parser :: 'p

definition RegisterBodyParser :: "'p BodyParser list \<Rightarrow> 'p BodyParser list \<Rightarrow> 'p BodyParser list" where
  [go_defs]: "RegisterBodyParser xs bps = (if xs \<noteq> [] then xs @ bps else bps)"

fun getSerializer :: "'p BodyParser list \<Rightarrow> gostring \<Rightarrow> gostring + 'p BodyParser" where
  "getSerializer [] contentType =
     Inl (''body parser not defined for content type '' @ [CHR 0x27] @ contentType @ [CHR 0x27])"
| "getSerializer (bp # bps) contentType =
     (if Match bp contentType then Inr bp else getSerializer bps contentType)"

lemma getSerializer_append:
  "getSerializer (xs @ ys) ct =
     (if \<exists>bp \<in> set xs. Match bp ct then getSerializer xs ct else getSerializer ys ct)"
  by (induction xs) auto

text \<open>A registered body parser takes precedence over the built-in ones and over those registered
  before it, for the content types it matches, and no other content type is affected.\<close>

theorem registered_parser_first:
  "getSerializer (RegisterBodyParser [bp] bps) ct = (if Match bp ct then Inr bp else getSerializer bps ct)"
  by (simp add: RegisterBodyParser_def)

end
