(* ===== verification/Adapter.thy ===== *)
theory Adapter
  imports HandlerChain Stores
begin

section \<open>The adapters to net/http (adapter.go) and the server's interface\<close>

text \<open>
  What the source uses of a \<open>fasthttp.RequestCtx\<close> is a record of operations on a state
  \<open>'f\<close>, a parameter of every definition that calls one; its text is not part of the
  repository. \<open>All\<close> iterators are lists in the order they yield.
\<close>

record 'f fasthttp =
  fh_Method :: "'f \<Rightarrow> gostring"
  fh_Path :: "'f \<Rightarrow> gostring"
  fh_QueryString :: "'f \<Rightarrow> gostring"
  fh_RequestURI :: "'f \<Rightarrow> gostring"
  fh_Host :: "'f \<Rightarrow> gostring"
  fh_URIScheme :: "'f \<Rightarrow> gostring"
  fh_URIHost :: "'f \<Rightarrow> gostring"
  fh_RemoteIP :: "'f \<Rightarrow> gostring option"
  fh_IsTLS :: "'f \<Rightarrow> bool"
  fh_ContentLength :: "'f \<Rightarrow> int"
  fh_ConnectionClose :: "'f \<Rightarrow> bool"
  fh_PostBody :: "'f \<Rightarrow> gostring"
  fh_QueryArgs :: "'f \<Rightarrow> (gostring \<times> gostring) list"
  fh_PostArgs :: "'f \<Rightarrow> (gostring \<times> gostring) list"
  fh_QueryPeek :: "gostring \<Rightarrow> 'f \<Rightarrow> gostring"
  fh_QueryHas :: "gostring \<Rightarrow> 'f \<Rightarrow> bool"
  fh_ReqHeaders :: "'f \<Rightarrow> (gostring \<times> gostring) list"
  fh_ReqPeek :: "gostring \<Rightarrow> 'f \<Rightarrow> gostring"
  fh_ReqCookie :: "gostring \<Rightarrow> 'f \<Rightarrow> gostring"
  fh_ReqSet :: "gostring \<Rightarrow> gostring \<Rightarrow> 'f \<Rightarrow> 'f"
  fh_ReqAdd :: "gostring \<Rightarrow> gostring \<Rightarrow> 'f \<Rightarrow> 'f"
  fh_ReqDel :: "gostring \<Rightarrow> 'f \<Rightarrow> 'f"
  fh_MultipartForm :: "'f \<Rightarrow> goerr + (gostring \<times> gostring list) list"
  fh_RespAdd :: "gostring \<Rightarrow> gostring \<Rightarrow> 'f \<Rightarrow> 'f"
  fh_RespSet :: "gostring \<Rightarrow> gostring \<Rightarrow> 'f \<Rightarrow> 'f"
  fh_RespDel :: "gostring \<Rightarrow> 'f \<Rightarrow> 'f"
  fh_RespPeek :: "gostring \<Rightarrow> 'f \<Rightarrow> gostring"
  fh_RespHeaders :: "'f \<Rightarrow> (gostring \<times> gostring) list"
  fh_SetStatusCode :: "int \<Rightarrow> 'f \<Rightarrow> 'f"
  fh_StatusCode :: "'f \<Rightarrow> int"
  fh_SetContentType :: "gostring \<Rightarrow> 'f \<Rightarrow> 'f"
  fh_SetBody :: "gostring \<Rightarrow> 'f \<Rightarrow> 'f"
  fh_RespBody :: "'f \<Rightarrow> gostring"
  fh_Write :: "gostring \<Rightarrow> 'f \<Rightarrow> 'f"
  fh_Redirect :: "gostring \<Rightarrow> int \<Rightarrow> 'f \<Rightarrow> 'f"
  fh_Hijacked :: "'f \<Rightarrow> bool"
  fh_CopyRequest :: "'f \<Rightarrow> 'f"

text \<open>An instance in memory, for the witnesses: a request and a response.\<close>

record web =
  q_method :: gostring
  q_path :: gostring
  q_query :: gostring
  q_args :: "(gostring \<times> gostring) list"
  q_post :: "(gostring \<times> gostring) list"
  q_headers :: "(gostring \<times> gostring) list"
  q_cookies :: "(gostring \<times> gostring) list"
  q_body :: gostring
  p_status :: int
  p_headers :: "(gostring \<times> gostring) list"
  p_body :: gostring

definition pairs_get :: "(gostring \<times> gostring) list \<Rightarrow> gostring \<Rightarrow> gostring" where
  "pairs_get ps k = (case map_of ps k of None \<Rightarrow> [] | Some v \<Rightarrow> v)"

definition pairs_set :: "gostring \<Rightarrow> gostring \<Rightarrow> (gostring \<times> gostring) list \<Rightarrow> (gostring \<times> gostring) list" where
  "pairs_set k v ps = filter (\<lambda>e. fst e \<noteq> k) ps @ [(k, v)]"

definition web_fasthttp :: "web fasthttp" where
  [go_defs]: "web_fasthttp = \<lparr>
     fh_Method = q_method, fh_Path = q_path, fh_QueryString = q_query, fh_RequestURI = q_path,
     fh_Host = (\<lambda>_. ''localhost''), fh_URIScheme = (\<lambda>_. ''http''), fh_URIHost = (\<lambda>_. ''localhost''),
     fh_RemoteIP = (\<lambda>_. Some ''127.0.0.1''), fh_IsTLS = (\<lambda>_. False), fh_ContentLength = (\<lambda>f. int (length (q_body f))),
     fh_ConnectionClose = (\<lambda>_. False), fh_PostBody = q_body, fh_QueryArgs = q_args, fh_PostArgs = q_post,
     fh_QueryPeek = (\<lambda>k f. pairs_get (q_args f) k), fh_QueryHas = (\<lambda>k f. k \<in> fst ` set (q_args f)),
     fh_ReqHeaders = q_headers, fh_ReqPeek = (\<lambda>k f. pairs_get (q_headers f) k),
     fh_ReqCookie = (\<lambda>k f. pairs_get (q_cookies f) k),
     fh_ReqSet = (\<lambda>k v f. f\<lparr>q_headers := pairs_set k v (q_headers f)\<rparr>),
     fh_ReqAdd = (\<lambda>k v f. f\<lparr>q_headers := q_headers f @ [(k, v)]\<rparr>),
     fh_ReqDel = (\<lambda>k f. f\<lparr>q_headers := filter (\<lambda>e. fst e \<noteq> k) (q_headers f)\<rparr>),
     fh_MultipartForm = (\<lambda>_. Inl (PlainErr ''no multipart form'')),
     fh_RespAdd = (\<lambda>k v f. f\<lparr>p_headers := p_headers f @ [(k, v)]\<rparr>),
     fh_RespSet = (\<lambda>k v f. f\<lparr>p_headers := pairs_set k v (p_headers f)\<rparr>),
     fh_RespDel = (\<lambda>k f. f\<lparr>p_headers := filter (\<lambda>e. fst e \<noteq> k) (p_headers f)\<rparr>),
     fh_RespPeek = (\<lambda>k f. pairs_get (p_headers f) k), fh_RespHeaders = p_headers,
     fh_SetStatusCode = (\<lambda>c f. f\<lparr>p_status := c\<rparr>), fh_StatusCode = p_status,
     fh_SetContentType = (\<lambda>v f. f\<lparr>p_headers := pairs_set ''Content-Type'' v (p_headers f)\<rparr>),
     fh_SetBody = (\<lambda>b f. f\<lparr>p_body := b\<rparr>), fh_RespBody = p_body,
     fh_Write = (\<lambda>b f. f\<lparr>p_body := p_body f @ b\<rparr>),
     fh_Redirect = (\<lambda>u c f. f\<lparr>p_status := c, p_headers := pairs_set ''Location'' u (p_headers f)\<rparr>),
     fh_Hijacked = (\<lambda>_. False),
     fh_CopyRequest = (\<lambda>f. f\<lparr>p_status := 200, p_headers := [], p_body := []\<rparr>) \<rparr>"

definition demo_web :: "gostring \<Rightarrow> gostring \<Rightarrow> web" where
  [go_defs]: "demo_web m p = \<lparr>q_method = m, q_path = p, q_query = [], q_args = [], q_post = [], q_headers = [],
     q_cookies = [], q_body = ''hello'', p_status = 200, p_headers = [], p_body = []\<rparr>"

subsection \<open>http.Header\<close>

text \<open>\<open>textproto.CanonicalMIMEHeaderKey\<close>: a name of token bytes gets a capital at its start and
  after each hyphen; any other name is left as it is.\<close>

definition is_token_byte :: "char \<Rightarrow> bool" where
  "is_token_byte c \<longleftrightarrow> is_letter c \<or> is_digit c \<or> c \<in> set ''!#$%&*+-.^_`|~'' \<or> c = CHR 0x27"

fun canonical_from :: "bool \<Rightarrow> gostring \<Rightarrow> gostring" where
  "canonical_from up [] = []"
| "canonical_from up (c # s) = (if up then upper_char c else lower_char c) # canonical_from (c = CHR ''-'') s"

definition CanonicalHeaderKey :: "gostring \<Rightarrow> gostring" where
  "CanonicalHeaderKey s = (if list_all is_token_byte s then canonical_from True s else s)"

type_synonym http_Header = "(gostring list) gomap"

definition Header_values :: "http_Header \<Rightarrow> gostring \<Rightarrow> gostring list" where
  "Header_values h k = (case map_of h (CanonicalHeaderKey k) of None \<Rightarrow> [] | Some vs \<Rightarrow> vs)"
definition Header_Get :: "http_Header \<Rightarrow> gostring \<Rightarrow> gostring" where
  "Header_Get h k = (case Header_values h k of [] \<Rightarrow> [] | v # _ \<Rightarrow> v)"
definition Header_Set :: "gostring \<Rightarrow> gostring \<Rightarrow> http_Header \<Rightarrow> http_Header" where
  "Header_Set k v h = map_put (CanonicalHeaderKey k) [v] h"
definition Header_Add :: "gostring \<Rightarrow> gostring \<Rightarrow> http_Header \<Rightarrow> http_Header" where
  "Header_Add k v h = map_put (CanonicalHeaderKey k) (Header_values h k @ [v]) h"
definition Header_Del :: "gostring \<Rightarrow> http_Header \<Rightarrow> http_Header" where
  "Header_Del k h = AList.delete (CanonicalHeaderKey k) h"

subsection \<open>The response writer\<close>

record responseWriter =
  header :: http_Header
  headerSync :: bool
  headerInit :: bool

definition newResponseWriter :: responseWriter where
  [go_defs]: "newResponseWriter = \<lparr>header = [], headerSync = False, headerInit = False\<rparr>"

definition rw_reset :: "responseWriter \<Rightarrow> responseWriter" where
  [go_defs]: "rw_reset w = w\<lparr>headerSync := False, headerInit := False, header := []\<rparr>"

text \<open>\<open>Header()\<close> allocates the map on first use; the caller may then change it, by \<open>u\<close>.\<close>

definition rw_Header :: "(http_Header \<Rightarrow> http_Header) \<Rightarrow> responseWriter \<Rightarrow> responseWriter" where
  [go_defs]: "rw_Header u w =
     (let w1 = (if \<not> headerInit w then w\<lparr>header := [], headerInit := True\<rparr> else w)
      in w1\<lparr>header := u (header w1)\<rparr>)"

definition add_headers :: "'f fasthttp \<Rightarrow> http_Header \<Rightarrow> 'f \<Rightarrow> 'f" where
  [go_defs]: "add_headers F h f = fold (\<lambda>(key, vals). fold (\<lambda>v. fh_RespAdd F key v) vals) h f"

definition syncHeaders :: "'f fasthttp \<Rightarrow> responseWriter \<Rightarrow> 'f \<Rightarrow> responseWriter \<times> 'f" where
  [go_defs]: "syncHeaders F w f =
     (if \<not> headerInit w \<or> headerSync w then (w, f)
      else (w\<lparr>headerSync := True\<rparr>, add_headers F (header w) f))"

definition rw_Write :: "'f fasthttp \<Rightarrow> gostring \<Rightarrow> responseWriter \<Rightarrow> 'f \<Rightarrow> responseWriter \<times> 'f" where
  [go_defs]: "rw_Write F b w f =
     (let (w1, f1) = (if \<not> headerSync w then syncHeaders F w f else (w, f)) in (w1, fh_Write F b f1))"

definition rw_WriteHeader :: "'f fasthttp \<Rightarrow> int \<Rightarrow> responseWriter \<Rightarrow> 'f \<Rightarrow> responseWriter \<times> 'f" where
  [go_defs]: "rw_WriteHeader F code w f =
     (let (w1, f1) = (if \<not> headerSync w then syncHeaders F w f else (w, f)) in (w1, fh_SetStatusCode F code f1))"

datatype rw_op = UpdHeader "http_Header \<Rightarrow> http_Header" | WriteBody gostring | WriteStatus int

fun rw_step :: "'f fasthttp \<Rightarrow> rw_op \<Rightarrow> responseWriter \<times> 'f \<Rightarrow> responseWriter \<times> 'f" where
  "rw_step F (UpdHeader u) (w, f) = (rw_Header u w, f)"
| "rw_step F (WriteBody b) (w, f) = rw_Write F b w f"
| "rw_step F (WriteStatus c) (w, f) = rw_WriteHeader F c w f"

text \<open>What a sequence of calls sends, without headers.\<close>

fun plain_step :: "'f fasthttp \<Rightarrow> rw_op \<Rightarrow> 'f \<Rightarrow> 'f" where
  "plain_step F (UpdHeader u) f = f"
| "plain_step F (WriteBody b) f = fh_Write F b f"
| "plain_step F (WriteStatus c) f = fh_SetStatusCode F c f"

lemma sync_idem: "syncHeaders F w f = (w', f') \<Longrightarrow> syncHeaders F w' f' = (w', f')"
  by (auto simp: syncHeaders_def split: if_splits)

lemma rw_step_synced:
  "headerInit w \<Longrightarrow> headerSync w \<Longrightarrow>
   headerInit (fst (rw_step F op (w, f))) \<and> headerSync (fst (rw_step F op (w, f)))
   \<and> snd (rw_step F op (w, f)) = plain_step F op f"
  by (cases op) (auto simp: rw_Header_def rw_Write_def rw_WriteHeader_def Let_def)

lemma rw_after_sync:
  "headerInit w \<Longrightarrow> headerSync w \<Longrightarrow> fold (rw_step F) ops (w, f) = (w', f') \<Longrightarrow>
   headerInit w' \<and> headerSync w' \<and> f' = fold (plain_step F) ops f"
proof (induction ops arbitrary: w f)
  case (Cons op ops)
  obtain w1 f1 where s: "rw_step F op (w, f) = (w1, f1)" by (cases "rw_step F op (w, f)")
  then have "headerInit w1 \<and> headerSync w1 \<and> f1 = plain_step F op f"
    using rw_step_synced[OF Cons.prems(1,2), of F op f] by simp
  with Cons.IH[of w1 f1] Cons.prems(3) s show ?case by simp
qed simp

text \<open>C12. The headers of the writer reach the response at most once. The first write or status after
  the header map was allocated sends what the map holds then; nothing that is put in the map
  later is sent, neither by a further write nor by the final synchronisation.\<close>

theorem headers_sent_once:
  assumes "\<not> headerSync w"
    and "\<And>v. op \<noteq> UpdHeader v"
    and "fold (rw_step F) (op # ops) (rw_Header u w, f) = (w', f')"
  shows "syncHeaders F w' f' = (w', fold (plain_step F) (op # ops)
           (add_headers F (header (rw_Header u w)) f))"
proof -
  let ?w = "rw_Header u w"
  have i: "headerInit ?w" "\<not> headerSync ?w" using assms(1) by (auto simp: rw_Header_def Let_def)
  obtain w1 f1 where s: "rw_step F op (?w, f) = (w1, f1)" by (cases "rw_step F op (?w, f)")
  with i assms(2) have "headerInit w1" "headerSync w1"
    "f1 = plain_step F op (add_headers F (header ?w) f)"
    by (cases op; auto simp: rw_Write_def rw_WriteHeader_def syncHeaders_def Let_def)+
  with rw_after_sync[of w1 F ops f1 w' f'] s assms(3) show ?thesis
    by (simp add: syncHeaders_def)
qed

subsection \<open>The request body\<close>

record bodyReader =
  rd_read :: bool
  rd_data :: gostring
  rd_pos :: nat

definition newBodyReader :: bodyReader where
  [go_defs]: "newBodyReader = \<lparr>rd_read = False, rd_data = [], rd_pos = 0\<rparr>"

text \<open>\<open>Read(p)\<close> with a buffer of \<open>n\<close> bytes: the bytes copied, or \<open>None\<close> for \<open>io.EOF\<close>.\<close>

definition body_Read :: "'f fasthttp \<Rightarrow> 'f \<Rightarrow> nat \<Rightarrow> bodyReader \<Rightarrow> gostring option \<times> bodyReader" where
  [go_defs]: "body_Read F f n r =
     (let r1 = (if \<not> rd_read r then r\<lparr>rd_data := fh_PostBody F f, rd_read := True\<rparr> else r)
      in if rd_pos r1 \<ge> length (rd_data r1) then (None, r1)
         else let b = take n (drop (rd_pos r1) (rd_data r1))
              in (Some b, r1\<lparr>rd_pos := rd_pos r1 + length b\<rparr>))"

text \<open>A caller that reads until the end, with a buffer size for each call.\<close>

fun read_all :: "'f fasthttp \<Rightarrow> 'f \<Rightarrow> nat list \<Rightarrow> bodyReader \<Rightarrow> gostring \<times> bool" where
  "read_all F f [] r = ([], False)"
| "read_all F f (n # ns) r =
     (case body_Read F f n r of
        (None, r1) \<Rightarrow> ([], True)
      | (Some b, r1) \<Rightarrow> (case read_all F f ns r1 of (bs, eof) \<Rightarrow> (b @ bs, eof)))"

lemma read_all_from:
  "rd_read r \<longrightarrow> rd_data r = fh_PostBody F f \<Longrightarrow> (\<not> rd_read r \<longrightarrow> rd_pos r = 0) \<Longrightarrow>
   fst (read_all F f ns r) = take (sum_list ns) (drop (rd_pos r) (fh_PostBody F f))
   \<and> (snd (read_all F f ns r) \<longrightarrow> fst (read_all F f ns r) = drop (rd_pos r) (fh_PostBody F f))"
proof (induction ns arbitrary: r)
  case (Cons n ns)
  let ?r1 = "if \<not> rd_read r then r\<lparr>rd_data := fh_PostBody F f, rd_read := True\<rparr> else r"
  have d: "rd_data ?r1 = fh_PostBody F f" "rd_read ?r1" "rd_pos ?r1 = rd_pos r"
    using Cons.prems by auto
  show ?case
  proof (cases "rd_pos r \<ge> length (fh_PostBody F f)")
    case True
    with d show ?thesis by (simp add: body_Read_def Let_def)
  next
    case False
    define D where "D = drop (rd_pos r) (fh_PostBody F f)"
    define r2 where "r2 = ?r1\<lparr>rd_pos := rd_pos r + length (take n D)\<rparr>"
    have "body_Read F f n r = (Some (take n D), r2)"
      using d False unfolding body_Read_def Let_def r2_def D_def by (simp only: d False if_False)
    then have ra: "read_all F f (n # ns) r = (take n D @ fst (read_all F f ns r2), snd (read_all F f ns r2))"
      by (simp add: case_prod_unfold)
    have "drop (rd_pos r2) (fh_PostBody F f) = drop (length (take n D)) D"
      by (simp add: r2_def D_def add.commute)
    also have "\<dots> = drop n D" by (cases "n \<le> length D") simp_all
    finally have pos: "drop (rd_pos r2) (fh_PostBody F f) = drop n D" .
    have "rd_read r2 \<longrightarrow> rd_data r2 = fh_PostBody F f" "\<not> rd_read r2 \<longrightarrow> rd_pos r2 = 0"
      using d unfolding r2_def by simp_all
    from Cons.IH[OF this] show ?thesis
      unfolding ra pos by (auto simp: take_add D_def[symmetric])
  qed
qed simp

text \<open>Reading the body piece by piece with buffers of any sizes yields the posted bytes in order,
  as many as the buffers hold; when the reader reports the end, all of them were delivered.\<close>

theorem body_reader_delivers_body:
  "fst (read_all F f ns newBodyReader) = take (sum_list ns) (fh_PostBody F f)
   \<and> (snd (read_all F f ns newBodyReader) \<longrightarrow> fst (read_all F f ns newBodyReader) = fh_PostBody F f)"
proof -
  have nb: "rd_read newBodyReader = False" "rd_pos newBodyReader = 0"
    by (simp_all add: newBodyReader_def)
  have "rd_read newBodyReader \<longrightarrow> rd_data newBodyReader = fh_PostBody F f"
    "\<not> rd_read newBodyReader \<longrightarrow> rd_pos newBodyReader = 0" by (simp_all add: nb)
  from read_all_from[OF this, of ns] show ?thesis unfolding nb drop0 .
qed


theorem body_reader_delivers_body_witness:
  "read_all web_fasthttp (demo_web ''GET'' ''/'') [2, 4, 1] newBodyReader = (''hello'', True)
   \<and> fst (read_all web_fasthttp (demo_web ''GET'' ''/'') [2, 4, 1] newBodyReader) = fh_PostBody web_fasthttp (demo_web ''GET'' ''/'')"
proof -
  have eof: "snd (read_all web_fasthttp (demo_web ''GET'' ''/'') [2, 4, 1] newBodyReader)"
    by code_simp
  with body_reader_delivers_body[of web_fasthttp "demo_web ''GET'' ''/''" "[2, 4, 1]"]
  have body: "fst (read_all web_fasthttp (demo_web ''GET'' ''/'') [2, 4, 1] newBodyReader)
      = fh_PostBody web_fasthttp (demo_web ''GET'' ''/'')" by blast
  moreover have "fh_PostBody web_fasthttp (demo_web ''GET'' ''/'') = ''hello''"
    by (simp add: web_fasthttp_def demo_web_def)
  ultimately show ?thesis using eof by (simp add: prod_eq_iff)
qed

theorem headers_sent_once_witness:
  "let F = web_fasthttp; f = demo_web ''GET'' ''/''; w = rw_Header (Header_Set ''a'' ''1'') newResponseWriter in
   snd (syncHeaders F (fst (fold (rw_step F) [WriteBody ''x'', UpdHeader (Header_Set ''b'' ''2'')] (w, f)))
      (snd (fold (rw_step F) [WriteBody ''x'', UpdHeader (Header_Set ''b'' ''2'')] (w, f))))
   = f\<lparr>p_headers := [(''A'', ''1'')], p_body := ''x''\<rparr>"
proof -
  have "snd (syncHeaders web_fasthttp (fst S) (snd S)) = fold (plain_step web_fasthttp) [WriteBody ''x'', UpdHeader (Header_Set ''b'' ''2'')]
           (add_headers web_fasthttp (header (rw_Header (Header_Set ''a'' ''1'') newResponseWriter)) (demo_web ''GET'' ''/''))"
    if "S = fold (rw_step web_fasthttp) [WriteBody ''x'', UpdHeader (Header_Set ''b'' ''2'')]
           (rw_Header (Header_Set ''a'' ''1'') newResponseWriter, demo_web ''GET'' ''/'')" for S
    using headers_sent_once[where w = newResponseWriter and op = "WriteBody ''x''" and F = web_fasthttp
        and ops = "[UpdHeader (Header_Set ''b'' ''2'')]" and u = "Header_Set ''a'' ''1''"
        and f = "demo_web ''GET'' ''/''" and w' = "fst S" and f' = "snd S"] that
    by (simp add: newResponseWriter_def)
  moreover have "header (rw_Header (Header_Set ''a'' ''1'') newResponseWriter) = [(''A'', [''1''])]"
    by code_simp
  ultimately show ?thesis
    by (simp add: Let_def add_headers_def web_fasthttp_def demo_web_def)
qed

subsection \<open>The request adapter\<close>

type_synonym url_Values = "(gostring list) gomap"

definition Values_Add :: "gostring \<Rightarrow> gostring \<Rightarrow> url_Values \<Rightarrow> url_Values" where
  "Values_Add k v m = map_put k ((case map_of m k of None \<Rightarrow> [] | Some vs \<Rightarrow> vs) @ [v]) m"

text \<open>\<open>Form\<close>, \<open>PostForm\<close> and \<open>MultipartForm\<close> are \<open>None\<close> while they are nil.\<close>

record Request =
  rq_Method :: gostring
  rq_Proto :: gostring
  rq_ProtoMajor :: int
  rq_ProtoMinor :: int
  rq_Body :: bodyReader
  rq_ContentLength :: int
  rq_Host :: gostring
  rq_RemoteAddr :: gostring
  rq_RequestURI :: gostring
  rq_Pattern :: gostring
  rq_Close :: bool
  rq_Form :: "url_Values option"
  rq_PostForm :: "url_Values option"
  rq_MultipartForm :: "url_Values option"
  rq_parsedForm :: bool
  rq_parsedMultipart :: bool

definition newRequest :: "'f fasthttp \<Rightarrow> 'f \<Rightarrow> gostring \<Rightarrow> Request" where
  [go_defs]: "newRequest F f patt = \<lparr>
     rq_Method = fh_Method F f,
     rq_Proto = (if fh_IsTLS F f then ''HTTP/2.0'' else ''HTTP/1.1''),
     rq_ProtoMajor = (if fh_IsTLS F f then 2 else 1),
     rq_ProtoMinor = (if fh_IsTLS F f then 0 else 1),
     rq_Body = newBodyReader,
     rq_ContentLength = fh_ContentLength F f,
     rq_Host = fh_Host F f,
     rq_RemoteAddr = (case fh_RemoteIP F f of None \<Rightarrow> [] | Some ip \<Rightarrow> ip),
     rq_RequestURI = fh_RequestURI F f,
     rq_Pattern = patt,
     rq_Close = fh_ConnectionClose F f,
     rq_Form = None, rq_PostForm = None, rq_MultipartForm = None,
     rq_parsedForm = False, rq_parsedMultipart = False \<rparr>"

definition reqHeader_Get :: "'f fasthttp \<Rightarrow> 'f \<Rightarrow> gostring \<Rightarrow> gostring" where
  [go_defs]: "reqHeader_Get F f k = fh_ReqPeek F k f"
definition reqHeader_Set :: "'f fasthttp \<Rightarrow> gostring \<Rightarrow> gostring \<Rightarrow> 'f \<Rightarrow> 'f" where
  [go_defs]: "reqHeader_Set F k v f = fh_ReqSet F k v f"
definition reqHeader_Add :: "'f fasthttp \<Rightarrow> gostring \<Rightarrow> gostring \<Rightarrow> 'f \<Rightarrow> 'f" where
  [go_defs]: "reqHeader_Add F k v f = fh_ReqAdd F k v f"
definition reqHeader_Del :: "'f fasthttp \<Rightarrow> gostring \<Rightarrow> 'f \<Rightarrow> 'f" where
  [go_defs]: "reqHeader_Del F k f = fh_ReqDel F k f"

definition reqHeader_Values :: "'f fasthttp \<Rightarrow> 'f \<Rightarrow> gostring \<Rightarrow> gostring list" where
  [go_defs]: "reqHeader_Values F f k = map snd (filter (\<lambda>(h, v). EqualFold h k) (fh_ReqHeaders F f))"

definition reqQuery_Get :: "'f fasthttp \<Rightarrow> 'f \<Rightarrow> gostring \<Rightarrow> gostring" where
  [go_defs]: "reqQuery_Get F f k = fh_QueryPeek F k f"
definition reqQuery_Has :: "'f fasthttp \<Rightarrow> 'f \<Rightarrow> gostring \<Rightarrow> bool" where
  [go_defs]: "reqQuery_Has F f k = fh_QueryHas F k f"

text \<open>\<open>Inl\<close> is \<open>http.ErrNoCookie\<close>.\<close>

definition Request_Cookie :: "'f fasthttp \<Rightarrow> 'f \<Rightarrow> gostring \<Rightarrow> goerr + gostring \<times> gostring" where
  [go_defs]: "Request_Cookie F f name =
     (let v = fh_ReqCookie F name f
      in if v = [] then Inl (PlainErr ''http: named cookie not present'') else Inr (name, v))"

definition ParseForm :: "'f fasthttp \<Rightarrow> 'f \<Rightarrow> Request \<Rightarrow> Request" where
  [go_defs]: "ParseForm F f r =
     (if rq_parsedForm r then r
      else
        let form0 = fold (\<lambda>(k, v). Values_Add k v) (fh_QueryArgs F f) [];
            (post, form) = fold (\<lambda>(k, v) (p, q). (Values_Add k v p, Values_Add k v q)) (fh_PostArgs F f) ([], form0)
        in r\<lparr>rq_parsedForm := True, rq_PostForm := Some post, rq_Form := Some form\<rparr>)"

definition ParseMultipartForm :: "'f fasthttp \<Rightarrow> 'f \<Rightarrow> Request \<Rightarrow> Request \<times> goerr option" where
  [go_defs]: "ParseMultipartForm F f r =
     (if rq_parsedMultipart r then (r, None)
      else
        let r1 = r\<lparr>rq_parsedMultipart := True\<rparr>
        in case fh_MultipartForm F f of
             Inl e \<Rightarrow> (r1, Some e)
           | Inr form \<Rightarrow> (r1\<lparr>rq_MultipartForm := Some form\<rparr>, None))"

definition first_value :: "url_Values option \<Rightarrow> gostring \<Rightarrow> gostring" where
  [go_defs]: "first_value form k =
     (case form of
        None \<Rightarrow> []
      | Some m \<Rightarrow> (case map_of m k of Some (v # vs) \<Rightarrow> v | _ \<Rightarrow> []))"

definition FormValue :: "'f fasthttp \<Rightarrow> 'f \<Rightarrow> gostring \<Rightarrow> Request \<Rightarrow> gostring \<times> Request" where
  [go_defs]: "FormValue F f k r =
     (let r1 = (if rq_Form r = None then fst (ParseMultipartForm F f r) else r)
      in (first_value (rq_Form r1) k, r1))"

definition PostFormValue :: "'f fasthttp \<Rightarrow> 'f \<Rightarrow> gostring \<Rightarrow> Request \<Rightarrow> gostring \<times> Request" where
  [go_defs]: "PostFormValue F f k r =
     (let r1 = (if rq_PostForm r = None then fst (ParseMultipartForm F f r) else r)
      in (first_value (rq_PostForm r1) k, r1))"

definition values_of :: "gostring \<Rightarrow> (gostring \<times> gostring) list \<Rightarrow> gostring list" where
  "values_of k ps = map snd (filter (\<lambda>e. fst e = k) ps)"

lemma Values_Add_fold:
  "(case map_of (fold (\<lambda>(k, v). Values_Add k v) ps m) k of None \<Rightarrow> [] | Some vs \<Rightarrow> vs)
    = (case map_of m k of None \<Rightarrow> [] | Some vs \<Rightarrow> vs) @ values_of k ps"
proof (induction ps arbitrary: m)
  case (Cons e ps)
  obtain a b where e: "e = (a, b)" by (cases e)
  from Cons.IH[of "Values_Add a b m"] show ?case
    by (auto simp: e values_of_def Values_Add_def split: option.splits)
qed (simp add: values_of_def)

lemma fold_pair:
  "fold (\<lambda>(k, v) (p, q). (g k v p, h k v q)) ps (p, q)
     = (fold (\<lambda>(k, v). g k v) ps p, fold (\<lambda>(k, v). h k v) ps q)"
  by (induction ps arbitrary: p q) auto

lemma first_value_list:
  "first_value (Some m) k = (case (case map_of m k of None \<Rightarrow> [] | Some vs \<Rightarrow> vs) of [] \<Rightarrow> [] | v # vs \<Rightarrow> v)"
  by (auto simp: first_value_def split: option.splits list.splits)

text \<open>After \<open>ParseForm\<close>, \<open>FormValue\<close> is the first value of the key among the query parameters
  followed by the posted ones, so a query parameter hides a posted one, and
  \<open>PostFormValue\<close> is the first posted value.\<close>

theorem form_values_after_parse:
  "fst (FormValue F f k (ParseForm F f (newRequest F f patt)))
     = (case values_of k (fh_QueryArgs F f @ fh_PostArgs F f) of [] \<Rightarrow> [] | v # _ \<Rightarrow> v)
   \<and> fst (PostFormValue F f k (ParseForm F f (newRequest F f patt)))
     = (case values_of k (fh_PostArgs F f) of [] \<Rightarrow> [] | v # _ \<Rightarrow> v)"
proof -
  let ?q = "fold (\<lambda>(k, v). Values_Add k v) (fh_QueryArgs F f) []"
  let ?r = "ParseForm F f (newRequest F f patt)"
  have r: "rq_Form ?r = Some (fold (\<lambda>(k, v). Values_Add k v) (fh_PostArgs F f) ?q)"
    "rq_PostForm ?r = Some (fold (\<lambda>(k, v). Values_Add k v) (fh_PostArgs F f) [])"
    by (simp_all add: ParseForm_def newRequest_def fold_pair)
  have "values_of k (fh_QueryArgs F f @ fh_PostArgs F f)
      = values_of k (fh_QueryArgs F f) @ values_of k (fh_PostArgs F f)" by (simp add: values_of_def)
  then show ?thesis
    unfolding FormValue_def PostFormValue_def Let_def r
    by (simp add: first_value_list Values_Add_fold r)
qed

text \<open>Without an explicit \<open>ParseForm\<close> both are empty for every request, since the multipart
  parse they fall back on fills neither map.\<close>

theorem form_values_without_parse:
  "fst (FormValue F f k (newRequest F f patt)) = [] \<and> fst (PostFormValue F f k (newRequest F f patt)) = []"
  by (auto simp: FormValue_def PostFormValue_def newRequest_def ParseMultipartForm_def first_value_def Let_def
      split: sum.splits)

subsection \<open>The injected response\<close>

record InjectResponse =
  StatusCode :: int
  HeaderMap :: http_Header
  Body :: gostring

definition Inject_Header :: "InjectResponse \<Rightarrow> gostring \<Rightarrow> gostring" where
  [go_defs]: "Inject_Header r k = Header_Get (HeaderMap r) k"
definition Inject_HasHeader :: "InjectResponse \<Rightarrow> gostring \<Rightarrow> bool" where
  [go_defs]: "Inject_HasHeader r k \<longleftrightarrow> map_of (HeaderMap r) (CanonicalHeaderKey k) \<noteq> None"

text \<open>How a handler's response becomes the map: every header the server has, added in order.\<close>

definition response_headers :: "'f fasthttp \<Rightarrow> 'f \<Rightarrow> http_Header" where
  [go_defs]: "response_headers F f = fold (\<lambda>(k, v). Header_Add k v) (fh_RespHeaders F f) []"

definition inject_response :: "'f fasthttp \<Rightarrow> 'f \<Rightarrow> InjectResponse" where
  [go_defs]: "inject_response F f =
     \<lparr>StatusCode = fh_StatusCode F f, HeaderMap = response_headers F f, Body = fh_RespBody F f\<rparr>"

end
