(* ===== verification/Context.thy ===== *)
theory Context
  imports Adapter RadixTree
begin

section \<open>The request context (context.go, and the header check of responses.go)\<close>

text \<open>
  The state a handler works on. \<open>ctx\<close> is the context without the chain, the state of the
  handler programs; \<open>reqctx\<close> adds the chain. The value a request was bound to is a pointer
  into a heap of schema objects, since the pool of the route reuses them; the heap and the
  pool's free list are the second component of the operations that touch them.
\<close>

record bindedResult =
  bound :: bool
  bind_err :: "goerr option"
  bind_val :: "nat option"

definition unbound :: bindedResult where
  [go_defs]: "unbound = \<lparr>bound = False, bind_err = None, bind_val = None\<rparr>"

record contextOptions =
  Pattern :: gostring
  Method_name :: gostring

definition newContextOptions :: "gostring \<Rightarrow> gostring \<Rightarrow> contextOptions" where
  [go_defs]: "newContextOptions patt method = \<lparr>Pattern = patt, Method_name = method\<rparr>"

record ('f, 'v) ctx =
  fctx :: 'f
  detached :: bool
  opts :: contextOptions
  routeMeta :: "'v metaMap"
  globalStore :: "'v gofiStore"
  dataStore :: "'v gofiStore option"
  bindedCacheResult :: bindedResult
  params :: Params
  rw :: "responseWriter option"
  req :: "Request option"
  jsonParser :: bool

record ('f, 'v) reqctx =
  base :: "('f, 'v) ctx"
  chain :: "('f, 'v) ctx prog list"
  handlerIdx :: int

subsection \<open>The pool of schema objects\<close>

record 'b schema_heap =
  objs :: "nat \<Rightarrow> 'b"
  free :: "nat list"

text \<open>\<open>reset\<close>; \<open>pooled\<close> says that the route of the old request has rules with a schema pool, and
  \<open>zero\<close> is the zero value of the schema.\<close>

definition ctx_reset ::
  "bool \<Rightarrow> 'b \<Rightarrow> 'f \<Rightarrow> ('f, 'v) reqctx \<Rightarrow> 'b schema_heap \<Rightarrow> ('f, 'v) reqctx \<times> 'b schema_heap" where
  [go_defs]: "ctx_reset pooled zero f c hp =
     (let b = base c;
          hp1 = (case bind_val (bindedCacheResult b) of
                   Some a \<Rightarrow> if bound (bindedCacheResult b) \<and> pooled
                             then \<lparr>objs = (objs hp)(a := zero), free = a # free hp\<rparr> else hp
                 | None \<Rightarrow> hp);
          b1 = b\<lparr>fctx := f, detached := False, opts := newContextOptions [] [], routeMeta := [],
                 dataStore := None, bindedCacheResult := unbound, params := [],
                 rw := map_option rw_reset (rw b), req := None\<rparr>
      in (\<lparr>base = b1, chain = [], handlerIdx = - 1\<rparr>, hp1))"

definition setContextSettings ::
  "contextOptions \<Rightarrow> 'v metaMap \<Rightarrow> 'v gofiStore \<Rightarrow> ('f, 'v) ctx \<Rightarrow> ('f, 'v) ctx" where
  [go_defs]: "setContextSettings o' rm gst c = c\<lparr>opts := o', routeMeta := rm, globalStore := gst\<rparr>"

subsection \<open>Lazily created adapters\<close>

definition Writer :: "('f, 'v) ctx \<Rightarrow> responseWriter \<times> ('f, 'v) ctx" where
  [go_defs]: "Writer c =
     (case rw c of Some w \<Rightarrow> (w, c) | None \<Rightarrow> (newResponseWriter, c\<lparr>rw := Some newResponseWriter\<rparr>))"

definition Request_of :: "'f fasthttp \<Rightarrow> ('f, 'v) ctx \<Rightarrow> Request \<times> ('f, 'v) ctx" where
  [go_defs]: "Request_of F c =
     (case req c of
        Some r \<Rightarrow> (r, c)
      | None \<Rightarrow> let r = newRequest F (fctx c) (Pattern (opts c)) in (r, c\<lparr>req := Some r\<rparr>))"

definition DataStore :: "('f, 'v) ctx \<Rightarrow> 'v gofiStore \<times> ('f, 'v) ctx" where
  [go_defs]: "DataStore c =
     (case dataStore c of Some d \<Rightarrow> (d, c) | None \<Rightarrow> (NewDataStore, c\<lparr>dataStore := Some NewDataStore\<rparr>))"

definition DataStore_Set :: "gostring \<Rightarrow> 'v \<Rightarrow> ('f, 'v) ctx \<Rightarrow> ('f, 'v) ctx" where
  [go_defs]: "DataStore_Set k v c =
     (case DataStore c of (d, c1) \<Rightarrow> c1\<lparr>dataStore := Some (Store_Set k v d)\<rparr>)"

definition DataStore_Get :: "gostring \<Rightarrow> ('f, 'v) ctx \<Rightarrow> 'v option \<times> ('f, 'v) ctx" where
  [go_defs]: "DataStore_Get k c = (case DataStore c of (d, c1) \<Rightarrow> (Store_Get d k, c1))"

definition ctx_getParser :: "('f, 'v) ctx \<Rightarrow> ('f, 'v) ctx" where
  [go_defs]: "ctx_getParser c = c\<lparr>jsonParser := True\<rparr>"

definition ctx_Meta :: "('f, 'v) ctx \<Rightarrow> 'v option" where
  [go_defs]: "ctx_Meta c = Meta_This (routeMeta c) (Pattern (opts c)) (Method_name (opts c))"

text \<open>\<open>c.Writer().Header()\<close>, changed by \<open>u\<close>, and writing through the adapter.\<close>

definition Writer_Header :: "(http_Header \<Rightarrow> http_Header) \<Rightarrow> ('f, 'v) ctx \<Rightarrow> ('f, 'v) ctx" where
  [go_defs]: "Writer_Header u c = (case Writer c of (w, c1) \<Rightarrow> c1\<lparr>rw := Some (rw_Header u w)\<rparr>)"

definition Writer_Write :: "'f fasthttp \<Rightarrow> gostring \<Rightarrow> ('f, 'v) ctx \<Rightarrow> ('f, 'v) ctx" where
  [go_defs]: "Writer_Write F b c =
     (case Writer c of (w, c1) \<Rightarrow> case rw_Write F b w (fctx c1) of (w', f') \<Rightarrow> c1\<lparr>rw := Some w', fctx := f'\<rparr>)"

definition Writer_WriteHeader :: "'f fasthttp \<Rightarrow> int \<Rightarrow> ('f, 'v) ctx \<Rightarrow> ('f, 'v) ctx" where
  [go_defs]: "Writer_WriteHeader F code c =
     (case Writer c of (w, c1) \<Rightarrow> case rw_WriteHeader F code w (fctx c1) of (w', f') \<Rightarrow> c1\<lparr>rw := Some w', fctx := f'\<rparr>)"

subsection \<open>Reading the request, sending a response\<close>

definition ctx_Param :: "('f, 'v) ctx \<Rightarrow> gostring \<Rightarrow> gostring" where
  [go_defs]: "ctx_Param c name = Params_Get (params c) name"
definition ctx_Query :: "'f fasthttp \<Rightarrow> ('f, 'v) ctx \<Rightarrow> gostring \<Rightarrow> gostring" where
  [go_defs]: "ctx_Query F c name = fh_QueryPeek F name (fctx c)"
definition ctx_HeaderVal :: "'f fasthttp \<Rightarrow> ('f, 'v) ctx \<Rightarrow> gostring \<Rightarrow> gostring" where
  [go_defs]: "ctx_HeaderVal F c name = fh_ReqPeek F name (fctx c)"
definition ctx_Body :: "'f fasthttp \<Rightarrow> ('f, 'v) ctx \<Rightarrow> gostring" where
  [go_defs]: "ctx_Body F c = fh_PostBody F (fctx c)"
definition ctx_Path :: "'f fasthttp \<Rightarrow> ('f, 'v) ctx \<Rightarrow> gostring" where
  [go_defs]: "ctx_Path F c = fh_Path F (fctx c)"
definition ctx_Pattern :: "('f, 'v) ctx \<Rightarrow> gostring" where
  [go_defs]: "ctx_Pattern c = Pattern (opts c)"
definition ctx_Method :: "'f fasthttp \<Rightarrow> ('f, 'v) ctx \<Rightarrow> gostring" where
  [go_defs]: "ctx_Method F c = fh_Method F (fctx c)"

definition cookieGet :: "'f fasthttp \<Rightarrow> ('f, 'v) ctx \<Rightarrow> gostring \<Rightarrow> goerr + gostring \<times> gostring" where
  [go_defs]: "cookieGet F c name =
     (let v = fh_ReqCookie F name (fctx c)
      in if length v = 0 then Inl (PlainErr ''http: named cookie not present'') else Inr (name, v))"

definition SendString :: "'f fasthttp \<Rightarrow> int \<Rightarrow> gostring \<Rightarrow> ('f, 'v) ctx \<Rightarrow> ('f, 'v) ctx" where
  [go_defs]: "SendString F code s c =
     c\<lparr>fctx := fh_SetBody F s (fh_SetStatusCode F code (fh_SetContentType F ''text/plain; charset=utf-8'' (fctx c)))\<rparr>"

definition SendBytes :: "'f fasthttp \<Rightarrow> int \<Rightarrow> gostring \<Rightarrow> ('f, 'v) ctx \<Rightarrow> ('f, 'v) ctx" where
  [go_defs]: "SendBytes F code b c = c\<lparr>fctx := fh_SetBody F b (fh_SetStatusCode F code (fctx c))\<rparr>"

definition headerAlreadyWritten :: "'f fasthttp \<Rightarrow> gostring \<Rightarrow> ('f, 'v) ctx \<Rightarrow> bool" where
  [go_defs]: "headerAlreadyWritten F k c \<longleftrightarrow>
     (if length (fh_RespPeek F k (fctx c)) > 0 then True
      else case rw c of
             Some w \<Rightarrow> headerInit w \<and> length (Header_values (header w) k) > 0
           | None \<Rightarrow> False)"

definition ctx_Next :: "('f, 'v) reqctx \<Rightarrow> outcome \<times> ('f, 'v) reqctx" where
  [go_defs]: "ctx_Next c =
     (case Next (chain c) (nat (handlerIdx c + 1), base c) of
        (r, i, b) \<Rightarrow> (r, c\<lparr>base := b, handlerIdx := int i - 1\<rparr>))"

subsection \<open>Copy\<close>

definition ctx_Copy :: "'f fasthttp \<Rightarrow> ('f, 'v) reqctx \<Rightarrow> ('f, 'v) reqctx" where
  [go_defs]: "ctx_Copy F c =
     (let b = base c
      in \<lparr>base = \<lparr>fctx = fh_CopyRequest F (fctx b), detached = True, opts = opts b, routeMeta = routeMeta b,
                  globalStore = globalStore b, dataStore = dataStore b,
                  bindedCacheResult = bindedCacheResult b, params = params b,
                  rw = None, req = None, jsonParser = False\<rparr>,
          chain = chain c, handlerIdx = handlerIdx c\<rparr>)"

text \<open>A copied context keeps the place in the chain, the parameters and the data of the original,
  and continues with the same handlers; from then on a change of one does not show in the
  other, and it is detached from the connection.\<close>

theorem copy_continues_alike:
  "chain (ctx_Copy F c) = chain c \<and> handlerIdx (ctx_Copy F c) = handlerIdx c
   \<and> ctx_Param (base (ctx_Copy F c)) name = ctx_Param (base c) name
   \<and> fst (DataStore_Get k (base (ctx_Copy F c))) = fst (DataStore_Get k (base c))
   \<and> ctx_Meta (base (ctx_Copy F c)) = ctx_Meta (base c)
   \<and> detached (base (ctx_Copy F c))"
  by (simp add: ctx_Copy_def Let_def ctx_Param_def DataStore_Get_def DataStore_def ctx_Meta_def
      split: option.splits)

text \<open>The bound schema object is the exception: the copy holds the same pointer, and when the
  original is reset for the next request on a pooled route, the copy reads the zero value.\<close>

theorem copy_shares_bound_value:
  assumes "bound (bindedCacheResult (base c))" and "bind_val (bindedCacheResult (base c)) = Some a"
  shows "bind_val (bindedCacheResult (base (ctx_Copy F c))) = Some a
       \<and> objs (snd (ctx_reset True zero f c hp)) a = zero
       \<and> a \<in> set (free (snd (ctx_reset True zero f c hp)))"
  using assms by (simp add: ctx_Copy_def ctx_reset_def Let_def)

definition demo_ctx :: "gostring \<Rightarrow> gostring \<Rightarrow> (web, nat) reqctx" where
  [go_defs]: "demo_ctx m p = \<lparr>base = \<lparr>fctx = demo_web m p, detached = False, opts = newContextOptions p m,
     routeMeta = [], globalStore = [], dataStore = None, bindedCacheResult = unbound, params = [],
     rw = None, req = None, jsonParser = False\<rparr>, chain = [], handlerIdx = - 1\<rparr>"

theorem copy_shares_bound_value_witness:
  "let c = demo_ctx ''POST'' ''/a'';
       c1 = c\<lparr>base := (base c)\<lparr>bindedCacheResult := \<lparr>bound = True, bind_err = None, bind_val = Some 3\<rparr>\<rparr>\<rparr>;
       hp = \<lparr>objs = (\<lambda>_. 7 :: nat), free = []\<rparr>
   in bind_val (bindedCacheResult (base (ctx_Copy web_fasthttp c1))) = Some 3
      \<and> objs (snd (ctx_reset True 0 (demo_web ''GET'' ''/b'') c1 hp)) 3 = 0"
  unfolding Let_def
  using copy_shares_bound_value[of "(demo_ctx ''POST'' ''/a'')\<lparr>base := (base (demo_ctx ''POST'' ''/a''))
      \<lparr>bindedCacheResult := \<lparr>bound = True, bind_err = None, bind_val = Some 3\<rparr>\<rparr>\<rparr>" 3 web_fasthttp
      0 "demo_web ''GET'' ''/b''" "\<lparr>objs = (\<lambda>_. 7 :: nat), free = []\<rparr>"]
  by simp

end
