(* ===== verification/Mux.thy ===== *)
theory Mux
  imports Context RouteTable
begin

section \<open>The multiplexer (mux.go)\<close>

text \<open>
  Registration and dispatch. The routers that \<open>With\<close>, \<open>Route\<close> and \<open>Group\<close> create are copies of
  the receiver's struct: they share its trees, its meta map, its options and its documents,
  which are therefore fields of the \<open>server\<close>, and they own a prefix, the inline middleware
  and a slice header for the global middleware, which are fields of a \<open>mux\<close>. The array
  behind that slice is shared until an append outgrows it, so arrays are explicit: a slice is
  an array number and a length, and an append within the capacity writes into the array.
  How far an append beyond the capacity grows is the runtime's choice, the parameter \<open>grow\<close>.
\<close>

subsection \<open>joinPath and listenAddr\<close>

definition joinPath :: "gostring \<Rightarrow> gostring \<Rightarrow> gostring" where
  [go_defs]: "joinPath pre path =
     (if pre = [] then path
      else if path = [] then pre
      else let pSuffix = HasSuffix pre ''/''; pPrefix = HasPrefix path ''/''
           in if pSuffix \<and> pPrefix then pre @ drop 1 path
              else if \<not> pSuffix \<and> \<not> pPrefix then pre @ ''/'' @ path
              else pre @ path)"

definition listenAddr :: "gostring \<Rightarrow> gostring" where
  [go_defs]: "listenAddr addr =
     (if addr = [] then '':8080'' else if \<not> Contains addr '':'' then '':'' @ addr else addr)"

text \<open>Joining a non-empty prefix and a non-empty path leaves exactly one slash at the seam,
  whichever of the two brought one.\<close>

theorem joinPath_one_slash:
  assumes "pre \<noteq> []" and "path \<noteq> []"
  shows "joinPath pre path = TrimSuffix pre ''/'' @ ''/'' @ TrimPrefix path ''/''"
proof -
  have "joinPath (r @ ''/'') path = TrimSuffix (r @ ''/'') ''/'' @ ''/'' @ TrimPrefix path ''/''" for r
    by (auto simp: joinPath_def TrimSuffix_def TrimPrefix_def HasPrefix_iff)
  moreover have "joinPath pre path = TrimSuffix pre ''/'' @ ''/'' @ TrimPrefix path ''/''"
    if "\<not> HasSuffix pre ''/''"
    using assms that by (auto simp: joinPath_def TrimSuffix_def TrimPrefix_def HasPrefix_iff)
  ultimately show ?thesis by (metis HasSuffix_iff)
qed

theorem joinPath_one_slash_witness:
  "joinPath ''/api/'' ''/users'' = ''/api/users'' \<and> joinPath ''/api'' ''users'' = TrimSuffix ''/api'' ''/'' @ ''/'' @ TrimPrefix ''users'' ''/''"
  using joinPath_one_slash[of "''/api''" "''users''"] by (simp add: joinPath_def HasSuffix_def HasPrefix_def)

subsection \<open>Slices\<close>

record slice =
  s_arr :: nat
  s_len :: nat

type_synonym 'h arrays = "'h option list list"

definition slice_elems :: "'h arrays \<Rightarrow> slice \<Rightarrow> 'h list" where
  [go_defs]: "slice_elems A s = map the (take (s_len s) (A ! s_arr s))"

definition slice_append :: "(nat \<Rightarrow> nat \<Rightarrow> nat) \<Rightarrow> 'h list \<Rightarrow> slice \<Rightarrow> 'h arrays \<Rightarrow> slice \<times> 'h arrays" where
  [go_defs]: "slice_append grow xs s A =
     (let a = A ! s_arr s; n = s_len s + length xs
      in if n \<le> length a
         then (s\<lparr>s_len := n\<rparr>, A[s_arr s := take (s_len s) a @ map Some xs @ drop n a])
         else (\<lparr>s_arr = length A, s_len = n\<rparr>,
               A @ [take (s_len s) a @ map Some xs @ replicate (grow (length a) n - n) None]))"

definition slice_ok :: "'h arrays \<Rightarrow> slice \<Rightarrow> bool" where
  "slice_ok A s \<longleftrightarrow> s_arr s < length A \<and> s_len s \<le> length (A ! s_arr s) \<and> None \<notin> set (take (s_len s) (A ! s_arr s))"

lemma slice_append_elems:
  assumes "slice_ok A s" and "slice_append grow xs s A = (s', A')"
  shows "slice_ok A' s'" "slice_elems A' s' = slice_elems A s @ xs"
proof -
  have "slice_ok A' s' \<and> slice_elems A' s' = slice_elems A s @ xs"
    using assms by (auto simp: slice_append_def slice_elems_def slice_ok_def Let_def nth_append comp_def split: if_splits)
  then show "slice_ok A' s'" "slice_elems A' s' = slice_elems A s @ xs" by auto
qed

text \<open>Another slice keeps its elements when it lies in another array or ends before the receiver.\<close>

lemma slice_append_frame:
  assumes "slice_ok A t" and "slice_append grow xs s A = (s', A')" and "slice_ok A s"
    and "s_arr t \<noteq> s_arr s \<or> s_len t \<le> s_len s"
  shows "slice_ok A' t" "slice_elems A' t = slice_elems A t"
proof -
  have "slice_ok A' t \<and> slice_elems A' t = slice_elems A t"
    using assms by (auto simp: slice_append_def slice_elems_def slice_ok_def Let_def nth_append nth_list_update min_def split: if_splits)
  then show "slice_ok A' t" "slice_elems A' t = slice_elems A t" by auto
qed

text \<open>An append fills places and empties none: every slice stays within its array.\<close>

lemma slice_ok_iff:
  "slice_ok A s \<longleftrightarrow> s_arr s < length A \<and> s_len s \<le> length (A ! s_arr s) \<and>
     (\<forall>k < s_len s. A ! s_arr s ! k \<noteq> None)"
  by (auto simp: slice_ok_def in_set_conv_nth)

lemma slice_append_ok:
  assumes "slice_ok A s" and "slice_ok A t" and "slice_append grow xs s A = (s', A')"
  shows "slice_ok A' t"
  using assms unfolding slice_ok_iff
  by (auto simp: slice_append_def Let_def nth_append nth_list_update min_def split: if_splits)

subsection \<open>The routers and what they share\<close>

record 'h mux =
  prefix :: gostring
  middlewares :: slice
  inlineMiddlewares :: "'h list"
  maxParams :: "8 word"

record ('f, 'v, 'r, 'd, 'b) server =
  arrays :: "('f, 'v) ctx prog arrays"
  muxes :: "('f, 'v) ctx prog mux list"
  trees :: "(('f, 'v) ctx prog, 'r, 'v) node gomap"
  paths :: "'d gomap gomap"
  srvMeta :: "'v metaMap"
  srvStore :: "'v gofiStore"
  errHandler :: "goerr \<Rightarrow> ('f, 'v) ctx \<Rightarrow> ('f, 'v) ctx"
  schemaRules :: "'r SchemaRulesMap"
  bodyLimit :: int
  methodNotAllowed :: bool
  ctxPool :: "('f, 'v) reqctx list"
  schemaHeap :: "'b schema_heap"

record ('f, 'v, 's) RouteOptions =
  Hidden :: bool
  Schema :: "'s option"
  RouteMeta :: "'v option"
  Handler :: "('f, 'v) ctx prog"

text \<open>\<open>newRouter\<close>: the global middleware starts as an empty slice of capacity 15.\<close>

definition default_handle :: "'f fasthttp \<Rightarrow> goerr \<Rightarrow> ('f, 'v) ctx \<Rightarrow> ('f, 'v) ctx" where
  [go_defs]: "default_handle F e c = (case defaultErrorHandler e of (code, buf) \<Rightarrow> SendBytes F code buf c)"

definition newRouter :: "'f fasthttp \<Rightarrow> 'b schema_heap \<Rightarrow> ('f, 'v, 'r, 'd, 'b) server" where
  [go_defs]: "newRouter F hp =
     \<lparr>arrays = [replicate 15 None],
      muxes = [\<lparr>prefix = [], middlewares = \<lparr>s_arr = 0, s_len = 0\<rparr>, inlineMiddlewares = [], maxParams = 0\<rparr>],
      trees = [], paths = [], srvMeta = [], srvStore = NewGlobalStore, errHandler = default_handle F,
      schemaRules = Some [], bodyLimit = 4 * 1024 * 1024, methodNotAllowed = True, ctxPool = [], schemaHeap = hp\<rparr>"

definition mux_of :: "('f, 'v, 'r, 'd, 'b) server \<Rightarrow> nat \<Rightarrow> ('f, 'v) ctx prog mux" where
  [go_defs]: "mux_of W i = muxes W ! i"

definition global_mws :: "('f, 'v, 'r, 'd, 'b) server \<Rightarrow> nat \<Rightarrow> ('f, 'v) ctx prog list" where
  [go_defs]: "global_mws W i = slice_elems (arrays W) (middlewares (mux_of W i))"

definition mux_Use ::
  "(nat \<Rightarrow> nat \<Rightarrow> nat) \<Rightarrow> ('f, 'v) ctx prog list \<Rightarrow> nat \<Rightarrow> ('f, 'v, 'r, 'd, 'b) server \<Rightarrow> ('f, 'v, 'r, 'd, 'b) server" where
  [go_defs]: "mux_Use grow mws i W =
     (case slice_append grow mws (middlewares (mux_of W i)) (arrays W) of
        (s, A) \<Rightarrow> W\<lparr>arrays := A, muxes := (muxes W)[i := (mux_of W i)\<lparr>middlewares := s\<rparr>]\<rparr>)"

text \<open>The number of the new router, and the server with it.\<close>

definition mux_With ::
  "('f, 'v) ctx prog list \<Rightarrow> nat \<Rightarrow> ('f, 'v, 'r, 'd, 'b) server \<Rightarrow> nat \<times> ('f, 'v, 'r, 'd, 'b) server" where
  [go_defs]: "mux_With mws i W =
     (let m = mux_of W i
      in (length (muxes W), W\<lparr>muxes := muxes W @ [m\<lparr>inlineMiddlewares := inlineMiddlewares m @ mws\<rparr>]\<rparr>))"

text \<open>\<open>fn\<close> is the function the caller passes, \<open>None\<close> for nil; it registers on the new router.\<close>

definition mux_Group ::
  "(nat \<Rightarrow> ('f, 'v, 'r, 'd, 'b) server \<Rightarrow> panic + ('f, 'v, 'r, 'd, 'b) server) option \<Rightarrow> nat
    \<Rightarrow> ('f, 'v, 'r, 'd, 'b) server \<Rightarrow> panic + (nat \<times> ('f, 'v, 'r, 'd, 'b) server)" where
  [go_defs]: "mux_Group fn i W =
     (case mux_With [] i W of
        (j, W1) \<Rightarrow> (case fn of None \<Rightarrow> Inr (j, W1) | Some g \<Rightarrow> map_res (\<lambda>W2. (j, W2)) (g j W1)))"

definition mux_Route ::
  "gostring \<Rightarrow> (nat \<Rightarrow> ('f, 'v, 'r, 'd, 'b) server \<Rightarrow> panic + ('f, 'v, 'r, 'd, 'b) server) option \<Rightarrow> nat
    \<Rightarrow> ('f, 'v, 'r, 'd, 'b) server \<Rightarrow> panic + (nat \<times> ('f, 'v, 'r, 'd, 'b) server)" where
  [go_defs]: "mux_Route patt fn i W =
     (case mux_With [] i W of
        (j, W1) \<Rightarrow>
          let m = mux_of W1 j;
              W2 = (if patt \<noteq> []
                    then W1\<lparr>muxes := (muxes W1)[j := m\<lparr>prefix :=
                           (if prefix m \<noteq> [] then joinPath (prefix m) patt else patt)\<rparr>]\<rparr>
                    else W1)
          in (case fn of None \<Rightarrow> Inr (j, W2) | Some g \<Rightarrow> map_res (\<lambda>W3. (j, W3)) (g j W2)))"

text \<open>
  \<open>method\<close>: first the documentation and the rules of the schema, then the meta value, then the
  route. The schema compiler is the parameter \<open>compile\<close>: the documentation and the rules of a
  schema for a method and a path.
\<close>

definition register_schema ::
  "('s \<Rightarrow> gostring \<Rightarrow> gostring \<Rightarrow> 'd \<times> 'r) \<Rightarrow> gostring \<Rightarrow> gostring \<Rightarrow> ('f, 'v, 's) RouteOptions
    \<Rightarrow> ('f, 'v, 'r, 'd, 'b) server \<Rightarrow> ('f, 'v, 'r, 'd, 'b) server" where
  [go_defs]: "register_schema compile method path ro W =
     (case Schema ro of
        None \<Rightarrow> W
      | Some sch \<Rightarrow>
          (case compile sch method path of
             (specs, rls) \<Rightarrow>
               let ps = paths W;
                   ps1 = (if inner ps path = []
                          then (if \<not> Hidden ro then map_put path [(ToLower method, specs)] ps else ps)
                          else (if \<not> Hidden ro
                                then map_put path (map_put (ToLower method) specs (inner ps path)) ps
                                else ps))
               in W\<lparr>paths := ps1, schemaRules := SetRules (path, method) rls (schemaRules W)\<rparr>))"

definition register_meta ::
  "gostring \<Rightarrow> gostring \<Rightarrow> ('f, 'v, 's) RouteOptions
    \<Rightarrow> ('f, 'v, 'r, 'd, 'b) server \<Rightarrow> ('f, 'v, 'r, 'd, 'b) server" where
  [go_defs]: "register_meta method path ro W =
     (case RouteMeta ro of
        None \<Rightarrow> W
      | Some v \<Rightarrow> W\<lparr>srvMeta := map_put path [(ToLower method, v)] (srvMeta W)\<rparr>)"

definition mux_method ::
  "('s \<Rightarrow> gostring \<Rightarrow> gostring \<Rightarrow> 'd \<times> 'r) \<Rightarrow> gostring \<Rightarrow> gostring \<Rightarrow> ('f, 'v, 's) RouteOptions \<Rightarrow> nat
    \<Rightarrow> ('f, 'v, 'r, 'd, 'b) server \<Rightarrow> panic + ('f, 'v, 'r, 'd, 'b) server" where
  [go_defs]: "mux_method compile method path0 ro i W =
     (let m = mux_of W i;
          path = (if prefix m \<noteq> [] then joinPath (prefix m) path0 else path0);
          W2 = register_meta method path ro (register_schema compile method path ro W);
          allHandlers = global_mws W2 i @ inlineMiddlewares m @ [Handler ro];
          root = (case map_of (trees W2) method of None \<Rightarrow> new_node | Some n \<Rightarrow> n);
          data = \<lparr>pattern = path, handlers = allHandlers,
                  rules = (if Schema ro = None then None else GetRules (schemaRules W2) (path, method)),
                  meta = RouteMeta ro\<rparr>
      in map_res (\<lambda>root'. W2\<lparr>trees := map_put method root' (trees W2),
                             muxes := (muxes W2)[i := m\<lparr>maxParams := max (maxParams m) (n_maxParams root')\<rparr>]\<rparr>)
           (addRoute root path data))"

definition mux_Configure :: "int \<Rightarrow> bool option \<Rightarrow> ('f, 'v, 'r, 'd, 'b) server \<Rightarrow> ('f, 'v, 'r, 'd, 'b) server" where
  [go_defs]: "mux_Configure limit mna W =
     (let W1 = (if limit > 0 then W\<lparr>bodyLimit := limit\<rparr> else W)
      in case mna of None \<Rightarrow> W1 | Some b \<Rightarrow> W1\<lparr>methodNotAllowed := b\<rparr>)"

definition mux_UseErrorHandler ::
  "(goerr \<Rightarrow> ('f, 'v) ctx \<Rightarrow> ('f, 'v) ctx) option \<Rightarrow> ('f, 'v, 'r, 'd, 'b) server \<Rightarrow> ('f, 'v, 'r, 'd, 'b) server" where
  [go_defs]: "mux_UseErrorHandler h W = (case h of None \<Rightarrow> W | Some g \<Rightarrow> W\<lparr>errHandler := g\<rparr>)"

definition mux_Meta :: "('f, 'v, 'r, 'd, 'b) server \<Rightarrow> 'v metaMap" where
  [go_defs]: "mux_Meta W = srvMeta W"

definition mux_GlobalStore :: "('f, 'v, 'r, 'd, 'b) server \<Rightarrow> 'v gofiStore" where
  [go_defs]: "mux_GlobalStore W = srvStore W"

subsection \<open>Dispatch\<close>

text \<open>\<open>acquireContext\<close>: a context of the pool, or a new one, reset. Whether the old request's route has
  a schema pool, and its zero value, comes from the rules: \<open>schema_zero\<close>.\<close>

definition new_context :: "('f, 'v, 'r, 'd, 'b) server \<Rightarrow> 'f \<Rightarrow> ('f, 'v) reqctx" where
  [go_defs]: "new_context W f =
     \<lparr>base = \<lparr>fctx = f, detached = False, opts = newContextOptions [] [], routeMeta = [],
              globalStore = srvStore W, dataStore = None, bindedCacheResult = unbound, params = [],
              rw = None, req = None, jsonParser = False\<rparr>,
      chain = [], handlerIdx = 0\<rparr>"

definition acquireContext ::
  "('r \<Rightarrow> 'b option) \<Rightarrow> 'f \<Rightarrow> ('f, 'v, 'r, 'd, 'b) server \<Rightarrow> ('f, 'v) reqctx \<times> ('f, 'v, 'r, 'd, 'b) server" where
  [go_defs]: "acquireContext schema_zero f W =
     (let (c, pool) = (case ctxPool W of [] \<Rightarrow> (new_context W f, []) | c # cs \<Rightarrow> (c, cs));
          o' = opts (base c);
          zero = (case GetRules (schemaRules W) (Pattern o', Method_name o') of
                    None \<Rightarrow> None | Some r \<Rightarrow> schema_zero r)
      in case zero of
           Some z \<Rightarrow> (case ctx_reset True z f c (schemaHeap W) of
                         (c1, hp) \<Rightarrow> (c1, W\<lparr>ctxPool := pool, schemaHeap := hp\<rparr>))
         | None \<Rightarrow> (case ctx_reset False undefined f c (schemaHeap W) of
                         (c1, hp) \<Rightarrow> (c1, W\<lparr>ctxPool := pool, schemaHeap := hp\<rparr>)))"

definition releaseContext :: "('f, 'v) reqctx \<Rightarrow> ('f, 'v, 'r, 'd, 'b) server \<Rightarrow> ('f, 'v, 'r, 'd, 'b) server" where
  [go_defs]: "releaseContext c W = W\<lparr>ctxPool := c # ctxPool W\<rparr>"

text \<open>The methods other than the requested one that have a route for the path; the trees in the
  order in which the map is visited.\<close>

fun allowed_from :: "(gostring \<times> (('f, 'v) ctx prog, 'r, 'v) node) list \<Rightarrow> gostring \<Rightarrow> gostring \<Rightarrow> gostring
    \<Rightarrow> panic + gostring" where
  "allowed_from [] path rq buf = Inr buf"
| "allowed_from ((m, root) # ts) path rq buf =
     (if m = rq then allowed_from ts path rq buf
      else bind_sum (getValue root path None)
        (\<lambda>(d, _). if d \<noteq> None
                  then allowed_from ts path rq ((if length buf > 0 then buf @ '', '' else buf) @ m)
                  else allowed_from ts path rq buf))"

definition allowedMethods :: "gostring \<Rightarrow> gostring \<Rightarrow> ('f, 'v, 'r, 'd, 'b) server \<Rightarrow> panic + gostring" where
  [go_defs]: "allowedMethods path requestedMethod W = allowed_from (trees W) path requestedMethod []"

definition syncWriter :: "'f fasthttp \<Rightarrow> ('f, 'v) ctx \<Rightarrow> ('f, 'v) ctx" where
  [go_defs]: "syncWriter F c =
     (case rw c of None \<Rightarrow> c | Some w \<Rightarrow> (case syncHeaders F w (fctx c) of (w', f') \<Rightarrow> c\<lparr>rw := Some w', fctx := f'\<rparr>))"

text \<open>The response side of the request after it is served, whether a panic left the handler, and the
  server.\<close>

type_synonym ('f, 'v, 'r, 'd, 'b) served = "outcome \<times> 'f \<times> ('f, 'v, 'r, 'd, 'b) server"

text \<open>Running the chain, the error handler, the writer and the release, the common tail of the
  branches of \<open>handleFastHTTP\<close>.\<close>

definition finish ::
  "'f fasthttp \<Rightarrow> contextOptions \<Rightarrow> ('f, 'v) ctx prog list \<Rightarrow> ('f, 'v) reqctx \<Rightarrow> ('f, 'v, 'r, 'd, 'b) server
    \<Rightarrow> ('f, 'v, 'r, 'd, 'b) served" where
  [go_defs]: "finish F o' hs c W =
     (let c1 = \<lparr>base = setContextSettings o' (srvMeta W) (srvStore W) (base c), chain = hs, handlerIdx = - 1\<rparr>
      in case ctx_Next c1 of
           (Panicked v, c2) \<Rightarrow> (Panicked v, fctx (base c2), W)
         | (Returned e, c2) \<Rightarrow>
             let b = (case e of None \<Rightarrow> base c2 | Some err \<Rightarrow> errHandler W err (base c2));
                 b1 = syncWriter F b;
                 c3 = c2\<lparr>base := b1\<rparr>
             in (Returned None, fctx b1, if fh_Hijacked F (fctx b1) then W else releaseContext c3 W))"

definition not_found_handler :: "('f, 'v) ctx prog" where
  [go_defs]: "not_found_handler = Return (Some (NewHTTPError 404 ''404 page not found''))"

definition not_allowed_handler :: "gostring \<Rightarrow> ('f, 'v) ctx prog" where
  [go_defs]: "not_allowed_handler allow =
     Step (Writer_Header (Header_Set ''Allow'' allow))
       (\<lambda>_. Return (Some (NewHTTPError 405 ''405 method not allowed'')))"

definition runNotFound ::
  "'f fasthttp \<Rightarrow> nat \<Rightarrow> gostring \<Rightarrow> gostring \<Rightarrow> ('f, 'v) reqctx \<Rightarrow> ('f, 'v, 'r, 'd, 'b) server
    \<Rightarrow> ('f, 'v, 'r, 'd, 'b) served" where
  [go_defs]: "runNotFound F i path method c W =
     finish F (newContextOptions path method) (global_mws W i @ [not_found_handler]) c W"

text \<open>The 405 check and the 404, the end of both branches.\<close>

definition no_route ::
  "'f fasthttp \<Rightarrow> nat \<Rightarrow> gostring \<Rightarrow> gostring \<Rightarrow> ('f, 'v) reqctx \<Rightarrow> ('f, 'v, 'r, 'd, 'b) server
    \<Rightarrow> panic + ('f, 'v, 'r, 'd, 'b) served" where
  [go_defs]: "no_route F i path method c W =
     (if methodNotAllowed W
      then map_res (\<lambda>allow.
             if allow \<noteq> []
             then finish F (newContextOptions path method) (global_mws W i @ [not_allowed_handler allow]) c W
             else runNotFound F i path method c W)
           (allowedMethods path method W)
      else Inr (runNotFound F i path method c W))"

definition redirect_path :: "gostring \<Rightarrow> gostring \<Rightarrow> gostring" where
  [go_defs]: "redirect_path path qs =
     (let p = (if length path > 1 \<and> last path = slash then take (length path - 1) path else path @ ''/'')
      in if length qs > 0 then p @ ''?'' @ qs else p)"

definition handleFastHTTP ::
  "'f fasthttp \<Rightarrow> ('r \<Rightarrow> 'b option) \<Rightarrow> nat \<Rightarrow> 'f \<Rightarrow> ('f, 'v, 'r, 'd, 'b) server
    \<Rightarrow> panic + ('f, 'v, 'r, 'd, 'b) served" where
  [go_defs]: "handleFastHTTP F schema_zero i f W0 =
     (let method = fh_Method F f; path = fh_Path F f;
          (c, W) = acquireContext schema_zero f W0
      in case map_of (trees W) method of
           Some root \<Rightarrow>
             bind_sum (getValue root path (Some (params (base c))))
               (\<lambda>(rd, tsr, ps).
                 let c1 = c\<lparr>base := (base c)\<lparr>params := (case ps of None \<Rightarrow> [] | Some p \<Rightarrow> p)\<rparr>\<rparr>
                 in case rd of
                      Some d \<Rightarrow> Inr (finish F (newContextOptions (pattern d) method) (handlers d) c1 W)
                    | None \<Rightarrow>
                        if method \<noteq> ''CONNECT'' \<and> path \<noteq> ''/'' \<and> tsr
                        then let f' = fh_Redirect F (redirect_path path (fh_QueryString F f))
                                        (if method \<noteq> ''GET'' then 308 else 301) f
                             in Inr (Returned None, f',
                                     if fh_Hijacked F f' then W
                                     else releaseContext (c1\<lparr>base := (base c1)\<lparr>fctx := f'\<rparr>\<rparr>) W)
                        else no_route F i path method c1 W)
         | None \<Rightarrow> no_route F i path method c W)"

subsection \<open>The invariant of the server\<close>

definition server_ok :: "('f, 'v, 'r, 'd, 'b) server \<Rightarrow> bool" where
  "server_ok W \<longleftrightarrow> (\<forall>(m, root) \<in> set (trees W). tree_ok root) \<and> map_ok (trees W)
     \<and> (\<forall>m \<in> set (muxes W). slice_ok (arrays W) (middlewares m))"

definition full_path :: "('f, 'v, 'r, 'd, 'b) server \<Rightarrow> nat \<Rightarrow> gostring \<Rightarrow> gostring" where
  "full_path W i path = (if prefix (mux_of W i) \<noteq> [] then joinPath (prefix (mux_of W i)) path else path)"

lemma server_ok_tree: "server_ok W \<Longrightarrow> map_of (trees W) m = Some root \<Longrightarrow> tree_ok root"
  by (auto simp: server_ok_def dest: map_of_SomeD)

lemma in_map_put: "(a, b) \<in> set (map_put k v m) \<Longrightarrow> (a, b) = (k, v) \<or> (a, b) \<in> set m"
  unfolding map_put_def by (induction m) (auto split: if_splits)

lemma in_set_update: "x \<in> set (xs[i := y]) \<Longrightarrow> x = y \<or> x \<in> set xs"
  using set_update_subset_insert[of xs i y] by blast

lemma newRouter_ok: "server_ok (newRouter F hp)"
  by (simp add: server_ok_def newRouter_def slice_ok_def map_ok_def)

lemma register_frame:
  "trees (register_schema compile method path ro W) = trees W" "muxes (register_schema compile method path ro W) = muxes W"
  "arrays (register_schema compile method path ro W) = arrays W" "srvMeta (register_schema compile method path ro W) = srvMeta W"
  "methodNotAllowed (register_schema compile method path ro W) = methodNotAllowed W"
  "trees (register_meta method path ro W) = trees W" "muxes (register_meta method path ro W) = muxes W"
  "arrays (register_meta method path ro W) = arrays W" "methodNotAllowed (register_meta method path ro W) = methodNotAllowed W"
  "srvMeta (register_meta method path ro W) = (case RouteMeta ro of None \<Rightarrow> srvMeta W
       | Some v \<Rightarrow> map_put path [(ToLower method, v)] (srvMeta W))"
  by (simp_all add: register_schema_def register_meta_def Let_def split: option.splits prod.splits)

lemma mux_method_parts:
  assumes "mux_method compile method path0 ro i W = Inr W'"
  obtains root root' rl where
    "root = (case map_of (trees W) method of None \<Rightarrow> new_node | Some n \<Rightarrow> n)"
    "addRoute root (full_path W i path0) \<lparr>pattern = full_path W i path0,
        handlers = global_mws W i @ inlineMiddlewares (mux_of W i) @ [Handler ro],
        rules = rl, meta = RouteMeta ro\<rparr> = Inr root'"
    "trees W' = map_put method root' (trees W)"
    "muxes W' = (muxes W)[i := (mux_of W i)\<lparr>maxParams := max (maxParams (mux_of W i)) (n_maxParams root')\<rparr>]"
    "arrays W' = arrays W" "methodNotAllowed W' = methodNotAllowed W"
    "srvMeta W' = (case RouteMeta ro of None \<Rightarrow> srvMeta W
       | Some v \<Rightarrow> map_put (full_path W i path0) [(ToLower method, v)] (srvMeta W))"
proof -
  let ?W2 = "register_meta method (full_path W i path0) ro (register_schema compile method (full_path W i path0) ro W)"
  have gm: "global_mws ?W2 i = global_mws W i"
    by (simp add: global_mws_def mux_of_def register_frame)
  show ?thesis
    using assms unfolding mux_method_def Let_def full_path_def[symmetric] map_res_eq_Inr register_frame gm
    by (elim exE conjE) (rule that[OF refl], assumption, simp_all add: register_frame split: option.split)
qed

lemma mux_method_ok:
  assumes "server_ok W" and "i < length (muxes W)" and "full_path W i path0 \<noteq> []"
    and "mux_method compile method path0 ro i W = Inr W'"
  shows "server_ok W'"
proof (rule mux_method_parts[OF assms(4)])
  fix root root' rl
  assume root: "root = (case map_of (trees W) method of None \<Rightarrow> new_node | Some n \<Rightarrow> n)"
    and add: "addRoute root (full_path W i path0) \<lparr>pattern = full_path W i path0,
        handlers = global_mws W i @ inlineMiddlewares (mux_of W i) @ [Handler ro], rules = rl, meta = RouteMeta ro\<rparr> = Inr root'"
    and W': "trees W' = map_put method root' (trees W)" "arrays W' = arrays W"
      "muxes W' = (muxes W)[i := (mux_of W i)\<lparr>maxParams := max (maxParams (mux_of W i)) (n_maxParams root')\<rparr>]"
  have "tree_ok root"
    using root server_ok_tree[OF assms(1)] tree_ok_new by (auto split: option.splits)
  from addRoute_grown[OF this assms(3) add] have "tree_ok root'" by (simp add: tree_ok_def)
  moreover have "slice_ok (arrays W) (middlewares (mux_of W i))"
    using assms(1,2) by (auto simp: server_ok_def mux_of_def)
  ultimately show ?thesis
    using assms(1) unfolding server_ok_def W'
    by (intro conjI ballI) (auto dest: in_map_put in_set_update)
qed

lemma mux_Use_ok:
  assumes "server_ok W" and "i < length (muxes W)"
  shows "server_ok (mux_Use grow mws i W)"
proof -
  obtain s A where ap: "slice_append grow mws (middlewares (mux_of W i)) (arrays W) = (s, A)"
    by (cases "slice_append grow mws (middlewares (mux_of W i)) (arrays W)")
  have ok: "slice_ok (arrays W) (middlewares (mux_of W i))"
    using assms(1,2) by (auto simp: server_ok_def mux_of_def)
  have "slice_ok A (middlewares m)" if "m \<in> set (muxes W)" for m
    using slice_append_ok[OF ok _ ap] assms(1) that by (auto simp: server_ok_def)
  then show ?thesis
    using slice_append_elems(1)[OF ok ap] assms(1) ap
    unfolding server_ok_def mux_Use_def by (auto dest: in_set_update)
qed

lemma mux_With_ok: "server_ok W \<Longrightarrow> i < length (muxes W) \<Longrightarrow> server_ok (snd (mux_With mws i W))"
  by (auto simp: server_ok_def mux_With_def Let_def mux_of_def)

lemma acquire_trees:
  "acquireContext z f W = (c, W') \<Longrightarrow> trees W' = trees W \<and> muxes W' = muxes W \<and> arrays W' = arrays W
     \<and> methodNotAllowed W' = methodNotAllowed W \<and> errHandler W' = errHandler W
     \<and> srvMeta W' = srvMeta W \<and> srvStore W' = srvStore W"
  by (auto simp: acquireContext_def Let_def split: list.splits option.splits prod.splits)

lemma acquire_context:
  "acquireContext z f W = (c, W') \<Longrightarrow> fctx (base c) = f \<and> params (base c) = [] \<and> dataStore (base c) = None
     \<and> req (base c) = None \<and> (case rw (base c) of None \<Rightarrow> True | Some w \<Rightarrow> w = newResponseWriter)"
  by (auto simp: acquireContext_def ctx_reset_def Let_def rw_reset_def newResponseWriter_def
      split: list.splits option.splits prod.splits)

lemma global_mws_acquire: "acquireContext z f W = (c, W') \<Longrightarrow> global_mws W' i = global_mws W i"
  using acquire_trees[of z f W c W'] by (simp add: global_mws_def mux_of_def)

lemma tree_lookup_total:
  assumes "tree_ok t"
  shows "\<exists>d tsr qs. getValue t path (Some ps) = Inr (d, tsr, Some qs) \<and> getValue t path None = Inr (d, tsr, None)"
proof -
  obtain d tsr qs where "getValue t path (Some ps) = Inr (d, tsr, Some qs)"
    using tree_between[OF assms, of path ps] by (auto simp: between_def)
  with getValue_nil_params show ?thesis by blast
qed

subsection \<open>405: the allowed methods\<close>

definition other_methods :: "gostring \<Rightarrow> gostring \<Rightarrow> ('f, 'v, 'r, 'd, 'b) server \<Rightarrow> gostring list" where
  "other_methods path rq W =
     map fst (filter (\<lambda>(m, root). m \<noteq> rq \<and> find_route root path \<noteq> None) (trees W))"

lemma find_route_nil_params:
  assumes "tree_ok t"
  shows "(\<exists>tsr ps. getValue t path None = Inr (d, tsr, ps)) \<and> d \<noteq> None \<Longrightarrow> find_route t path \<noteq> None"
    "getValue t path None = Inr (None, tsr, ps) \<Longrightarrow> find_route t path = None"
  using tree_lookup_total[OF assms, of path "[]"] by (auto simp: find_route_def)

lemma Join_snoc: "Join (ws @ [w]) sep = (if ws = [] then w else Join ws sep @ sep @ w)"
  by (induction ws sep rule: Join.induct) auto

lemma Join_Nil_iff: "\<forall>w \<in> set ws. w \<noteq> [] \<Longrightarrow> Join ws sep = [] \<longleftrightarrow> ws = []"
  by (induction ws sep rule: Join.induct) auto

lemma allowed_from_eq:
  "\<forall>(m, root) \<in> set ts. tree_ok root \<and> m \<noteq> [] \<Longrightarrow> \<forall>w \<in> set ws. w \<noteq> [] \<Longrightarrow>
   allowed_from ts path rq (Join ws '', '') = Inr (Join (ws @
     map fst (filter (\<lambda>(m, root). m \<noteq> rq \<and> find_route root path \<noteq> None) ts)) '', '')"
proof (induction ts arbitrary: ws)
  case (Cons e ts)
  obtain m root where e: "e = (m, root)" by (cases e)
  have ok: "tree_ok root" "m \<noteq> []" using Cons.prems(1) e by auto
  obtain d tsr ps where g: "getValue root path None = Inr (d, tsr, ps)"
    using tree_lookup_total[OF ok(1), of path "[]"] by auto
  show ?case
  proof (cases "m = rq \<or> d = None")
    case True
    then have "m \<noteq> rq \<Longrightarrow> find_route root path = None"
      using g find_route_nil_params(2)[OF ok(1)] by auto
    with True Cons g e show ?thesis by auto
  next
    case False
    then have "find_route root path \<noteq> None" using g find_route_nil_params(1)[OF ok(1), of path d] by blast
    with False have filt: "map fst (filter (\<lambda>(m, root). m \<noteq> rq \<and> find_route root path \<noteq> None) (e # ts))
        = m # map fst (filter (\<lambda>(m, root). m \<noteq> rq \<and> find_route root path \<noteq> None) ts)" by (simp add: e)
    have buf: "(if length (Join ws '', '') > 0 then Join ws '', '' @ '', '' else Join ws '', '') @ m = Join (ws @ [m]) '', ''"
      using Join_Nil_iff[OF Cons.prems(2), of "'', ''"] by (cases "ws = []") (simp_all add: Join_snoc)
    have c: "(m = rq) = False" "(d \<noteq> None) = True" using False by auto
    have "allowed_from (e # ts) path rq (Join ws '', '') = allowed_from ts path rq (Join (ws @ [m]) '', '')"
      by (simp only: e allowed_from.simps g bind_sum_simps prod.case c if_True if_False buf)
    with Cons.IH[of "ws @ [m]"] Cons.prems ok(2) show ?thesis
      unfolding filt by (simp add: e)
  qed
qed simp

lemma allowedMethods_eq:
  "server_ok W \<Longrightarrow> \<forall>m \<in> fst ` set (trees W). m \<noteq> [] \<Longrightarrow>
   allowedMethods path rq W = Inr (Join (other_methods path rq W) '', '')"
  using allowed_from_eq[of "trees W" "[]" path rq] by (force simp: allowedMethods_def other_methods_def server_ok_def)

subsection \<open>Properties of dispatch\<close>

lemma no_route_total: "server_ok W \<Longrightarrow> \<exists>r. no_route F i path method c W = Inr r"
proof -
  assume ok: "server_ok W"
  have "\<exists>s. allowed_from ts path method buf = Inr s" if "\<forall>(m, root) \<in> set ts. tree_ok root" for ts buf
    using that
  proof (induction ts arbitrary: buf)
    case (Cons e ts)
    obtain m root where e: "e = (m, root)" by (cases e)
    then obtain d tsr ps where "getValue root path None = Inr (d, tsr, ps)"
      using tree_lookup_total[of root path "[]"] Cons.prems by auto
    with Cons e show ?case by auto
  qed simp
  then have "\<exists>s. allowedMethods path method W = Inr s"
    using ok by (auto simp: allowedMethods_def server_ok_def)
  then show ?thesis by (auto simp: no_route_def simp del: split_paired_Ex)
qed

lemma server_ok_acquire: "acquireContext z f W = (c, W') \<Longrightarrow> server_ok W \<Longrightarrow> server_ok W'"
  using acquire_trees[of z f W c W'] by (simp add: server_ok_def)

lemma handle_total: "server_ok W \<Longrightarrow> \<exists>r. handleFastHTTP F z i f W = Inr r"
proof -
  assume ok: "server_ok W"
  obtain c W1 where a: "acquireContext z f W = (c, W1)" by (cases "acquireContext z f W")
  note ok1 = server_ok_acquire[OF a ok]
  show ?thesis
  proof (cases "map_of (trees W1) (fh_Method F f)")
    case None
    then show ?thesis using no_route_total[OF ok1] by (simp add: handleFastHTTP_def Let_def a)
  next
    case (Some root)
    then obtain d tsr qs where "getValue root (fh_Path F f) (Some (params (base c))) = Inr (d, tsr, Some qs)"
      using tree_lookup_total[OF server_ok_tree[OF ok1 Some], of "fh_Path F f"] by blast
    with Some show ?thesis
      using no_route_total[OF ok1]
      by (cases d) (auto simp: handleFastHTTP_def Let_def a simp del: split_paired_Ex)
  qed
qed

text \<open>C7. Dispatching a request never panics in the router itself: whatever the method, the path and
  the pooled context, the only panics are those of the handlers.\<close>

theorem dispatch_never_panics:
  assumes "server_ok W"
  shows "\<exists>r. handleFastHTTP F z i f W = Inr r"
  using handle_total[OF assms] .

lemma handle_found:
  assumes "server_ok W" and "map_of (trees W) (fh_Method F f) = Some root"
    and "find_route root (fh_Path F f) = Some (d, qs)" and a: "acquireContext z f W = (c, W1)"
  shows "handleFastHTTP F z i f W
    = Inr (finish F (newContextOptions (pattern d) (fh_Method F f)) (handlers d)
        (c\<lparr>base := (base c)\<lparr>params := qs\<rparr>\<rparr>) W1)"
proof -
  have "params (base c) = []" using acquire_context[OF a] by simp
  moreover obtain tsr where "getValue root (fh_Path F f) (Some []) = Inr (Some d, tsr, Some qs)"
    using assms(3) by (auto simp: find_route_Some)
  ultimately show ?thesis
    using assms(2) acquire_trees[OF a] by (simp add: handleFastHTTP_def Let_def a)
qed

text \<open>C6. Registering a wildcard-free path and then requesting it with that method runs exactly the
  global middleware of the router at registration time, its inline middleware and the
  handler, in this order, under the pattern as it was registered.\<close>

theorem registered_route_served:
  assumes "server_ok W" and "i < length (muxes W)" and "full_path W i path \<noteq> []" and "no_wild (full_path W i path)"
    and "mux_method compile method path ro i W = Inr W'"
    and "fh_Method F f = method" and "fh_Path F f = full_path W i path"
    and "acquireContext z f W' = (c, W1)"
  shows "handleFastHTTP F z j f W'
    = Inr (finish F (newContextOptions (full_path W i path) method)
        (global_mws W i @ inlineMiddlewares (mux_of W i) @ [Handler ro])
        (c\<lparr>base := (base c)\<lparr>params := []\<rparr>\<rparr>) W1)"
proof -
  note ok = mux_method_ok[OF assms(1,2,3,5)]
  obtain root root' rl where root: "root = (case map_of (trees W) method of None \<Rightarrow> new_node | Some n \<Rightarrow> n)"
    and add: "addRoute root (full_path W i path) \<lparr>pattern = full_path W i path,
        handlers = global_mws W i @ inlineMiddlewares (mux_of W i) @ [Handler ro], rules = rl, meta = RouteMeta ro\<rparr> = Inr root'"
      (is "addRoute _ _ ?d = _")
    and W': "trees W' = map_put method root' (trees W)"
    using assms(5) by (rule mux_method_parts)
  have "tree_ok root" using root server_ok_tree[OF assms(1)] tree_ok_new by (auto split: option.splits)
  from addRoute_grown[OF this assms(3) add]
  have t: "tree_ok root'" and "(full_path W i path, ?d) \<in># mset (routes root')"
    by (simp_all add: tree_ok_def del: set_mset_mset)
  then have "(full_path W i path, ?d) \<in> set (routes root')" by simp
  from find_route_complete[OF t this static_match[OF assms(4)]] static_not_stolen[OF assms(4)]
  have "find_route root' (fh_Path F f) = Some (?d, [])" by (simp add: assms(7))
  from handle_found[OF ok _ this assms(8)] W' assms(6) show ?thesis by simp
qed

lemma handle_not_found:
  assumes "server_ok W" and "acquireContext z f W = (c, W1)"
    and "\<And>root. map_of (trees W) (fh_Method F f) = Some root \<Longrightarrow>
      \<exists>ps. getValue root (fh_Path F f) (Some []) = Inr (None, False, ps)"
  shows "\<exists>ps. handleFastHTTP F z i f W
    = no_route F i (fh_Path F f) (fh_Method F f) (c\<lparr>base := (base c)\<lparr>params := ps\<rparr>\<rparr>) W1"
proof (cases "map_of (trees W) (fh_Method F f)")
  case None
  have "c = c\<lparr>base := (base c)\<lparr>params := params (base c)\<rparr>\<rparr>" by simp
  with None show ?thesis
    using acquire_trees[OF assms(2)] by (intro exI[of _ "params (base c)"]) (simp add: handleFastHTTP_def Let_def assms(2))
next
  case (Some root)
  then obtain ps where "getValue root (fh_Path F f) (Some []) = Inr (None, False, ps)" using assms(3) by blast
  moreover have "params (base c) = []" using acquire_context[OF assms(2)] by simp
  ultimately show ?thesis
    using Some acquire_trees[OF assms(2)]
    by (intro exI[of _ "case ps of None \<Rightarrow> [] | Some p \<Rightarrow> p"]) (simp add: handleFastHTTP_def Let_def assms(2))
qed


text \<open>A request that no route of any method matches is, with the default options and no
  middleware, answered with status 404 and the JSON body of the error.\<close>

theorem unmatched_is_404:
  assumes "server_ok W" and "\<forall>m \<in> fst ` set (trees W). m \<noteq> []"
    and "\<And>root. map_of (trees W) (fh_Method F f) = Some root \<Longrightarrow>
      \<exists>ps. getValue root (fh_Path F f) (Some []) = Inr (None, False, ps)"
    and "other_methods (fh_Path F f) (fh_Method F f) W = []"
    and "global_mws W i = []" and "errHandler W = default_handle F"
  shows "\<exists>W'. handleFastHTTP F z i f W = Inr (Returned None,
    fh_SetBody F (error_body 404 ''404 page not found'') (fh_SetStatusCode F 404 f), W')"
proof -
  obtain c W1 where a: "acquireContext z f W = (c, W1)" by (cases "acquireContext z f W")
  obtain ps where h: "handleFastHTTP F z i f W
      = no_route F i (fh_Path F f) (fh_Method F f) (c\<lparr>base := (base c)\<lparr>params := ps\<rparr>\<rparr>) W1"
    using handle_not_found[OF assms(1) a assms(3)] by blast
  have tr: "trees W1 = trees W" "errHandler W1 = errHandler W" using acquire_trees[OF a] by simp_all
  then have om: "other_methods p m W1 = other_methods p m W" for p m by (simp add: other_methods_def)
  have al: "allowedMethods (fh_Path F f) (fh_Method F f) W1 = Inr []"
    using allowedMethods_eq[OF server_ok_acquire[OF a assms(1)]] assms(2,4) tr(1) om by simp
  have nr: "no_route F i (fh_Path F f) (fh_Method F f) c1 W1 = Inr (runNotFound F i (fh_Path F f) (fh_Method F f) c1 W1)" for c1
    by (simp add: no_route_def al)
  have "global_mws W1 i = []" using global_mws_acquire[OF a, of i] assms(5) by simp
  then show ?thesis
    using acquire_context[OF a] tr(2) assms(6)
    by (cases "rw (base c)")
      (simp_all add: h nr runNotFound_def finish_def Let_def ctx_Next_def Next_eq not_found_handler_def
        setContextSettings_def NewHTTPError_def default_handle_def defaultErrorHandler_def err_status_def
        SendBytes_def syncWriter_def syncHeaders_def newResponseWriter_def)
qed

subsection \<open>Sub-routers\<close>

text \<open>A router made by \<open>With\<close> starts with its parent's middleware; what it adds, inline or by its
  own \<open>Use\<close> right away, is added to its chain only and leaves the parent's as it was.\<close>

theorem sub_router_scoped:
  assumes "server_ok W" and "i < length (muxes W)"
    and "mux_With mws i W = (j, W1)" and "mux_Use grow xs j W1 = W2"
  shows "global_mws W2 i = global_mws W i \<and> inlineMiddlewares (mux_of W2 i) = inlineMiddlewares (mux_of W i)
    \<and> global_mws W2 j = global_mws W i @ xs
    \<and> inlineMiddlewares (mux_of W2 j) = inlineMiddlewares (mux_of W i) @ mws"
proof -
  have j: "j = length (muxes W)" and W1: "arrays W1 = arrays W" "mux_of W1 i = mux_of W i"
    "mux_of W1 j = (mux_of W i)\<lparr>inlineMiddlewares := inlineMiddlewares (mux_of W i) @ mws\<rparr>"
    "length (muxes W1) = Suc (length (muxes W))"
    using assms(2,3) by (auto simp: mux_With_def Let_def mux_of_def nth_append)
  obtain s A where ap: "slice_append grow xs (middlewares (mux_of W i)) (arrays W) = (s, A)"
    by (cases "slice_append grow xs (middlewares (mux_of W i)) (arrays W)")
  have ok: "slice_ok (arrays W) (middlewares (mux_of W i))"
    using assms(1,2) by (auto simp: server_ok_def mux_of_def)
  have W2: "arrays W2 = A" "mux_of W2 i = mux_of W i"
    "mux_of W2 j = (mux_of W1 j)\<lparr>middlewares := s\<rparr>"
    using assms(4) ap j W1 assms(2) by (auto simp: mux_Use_def mux_of_def)
  show ?thesis
    using slice_append_elems(2)[OF ok ap] slice_append_frame(2)[OF ok ap ok] W1 W2
    by (simp add: global_mws_def)
qed

text \<open>The shared array breaks this once the parent calls \<open>Use\<close> again: after the sub-router added
  \<open>auth\<close>, the parent's \<open>Use\<close> writes its middleware into the same place of the array, and the
  sub-router's chain has it instead of \<open>auth\<close>.\<close>

theorem parent_use_overwrites_sub_router:
  "let W1 = mux_Use grow [log] 0 (newRouter F hp);
       (j, W2) = mux_With [] 0 W1;
       W3 = mux_Use grow [auth] j W2;
       W4 = mux_Use grow [cors] 0 W3
   in global_mws W3 j = [log, auth] \<and> global_mws W4 j = [log, cors] \<and> global_mws W4 0 = [log, cors]"
  by (simp add: newRouter_def mux_Use_def mux_With_def mux_of_def global_mws_def slice_append_def
      slice_elems_def Let_def numeral_eq_Suc)

text \<open>Registering a route with meta information discards the meta information of every other
  method on the same path.\<close>

theorem meta_of_other_methods_lost:
  assumes "mux_method compile method path ro i W = Inr W'" and "RouteMeta ro = Some v"
    and "ToLower other \<noteq> ToLower method"
  shows "Meta_Route (mux_Meta W') (full_path W i path) method = Some v
       \<and> Meta_Route (mux_Meta W') (full_path W i path) other = None"
proof (rule mux_method_parts[OF assms(1)])
  assume "srvMeta W' = (case RouteMeta ro of None \<Rightarrow> srvMeta W
       | Some v \<Rightarrow> map_put (full_path W i path) [(ToLower method, v)] (srvMeta W))"
  then show ?thesis using assms(2,3) by (simp add: mux_Meta_def Meta_Route_def inner_def)
qed

subsection \<open>A small server, for the witnesses\<close>

type_synonym demo_server = "(web, nat, nat, nat, nat) server"

definition demo_hello :: "(web, nat) ctx prog" where
  [go_defs]: "demo_hello = Step (SendString web_fasthttp 200 ''hi'') (\<lambda>_. Return None)"

definition demo_compile :: "nat \<Rightarrow> gostring \<Rightarrow> gostring \<Rightarrow> nat \<times> nat" where
  [go_defs]: "demo_compile n method path = (n, n)"

definition demo_ro :: "nat option \<Rightarrow> (web, nat, nat) RouteOptions" where
  [go_defs]: "demo_ro v = \<lparr>Hidden = False, Schema = None, RouteMeta = v, Handler = demo_hello\<rparr>"

definition demo_new :: demo_server where
  [go_defs]: "demo_new = newRouter web_fasthttp \<lparr>objs = (\<lambda>_. 0), free = []\<rparr>"

definition demo_get :: demo_server where
  [go_defs]: "demo_get = (case mux_method demo_compile ''GET'' ''/hello'' (demo_ro (Some 1)) 0 demo_new of
     Inr W \<Rightarrow> W | Inl _ \<Rightarrow> demo_new)"

lemma demo_get: "mux_method demo_compile ''GET'' ''/hello'' (demo_ro (Some 1)) 0 demo_new = Inr demo_get"
proof -
  have "\<not> isl (mux_method demo_compile ''GET'' ''/hello'' (demo_ro (Some 1)) 0 demo_new)" by code_simp
  then show ?thesis by (auto simp: demo_get_def split: sum.splits)
qed

lemma demo_new_ok: "server_ok demo_new" "0 < length (muxes demo_new)" "full_path demo_new 0 p = p"
  by (simp_all add: demo_new_def newRouter_ok) (simp_all add: newRouter_def full_path_def mux_of_def)

lemma demo_get_ok: "server_ok demo_get"
  by (rule mux_method_ok[OF demo_new_ok(1,2) _ demo_get]) (simp add: demo_new_ok)


theorem dispatch_never_panics_witness:
  "\<exists>r. handleFastHTTP web_fasthttp (\<lambda>_. None) 0 (demo_web ''GET'' ''/nope'') demo_get = Inr r"
  by (rule dispatch_never_panics[OF demo_get_ok])

theorem registered_route_served_witness:
  "\<exists>c W1. handleFastHTTP web_fasthttp (\<lambda>_. None) 0 (demo_web ''GET'' ''/hello'') demo_get
    = Inr (finish web_fasthttp (newContextOptions ''/hello'' ''GET'') [demo_hello] c W1)"
proof -
  obtain c W1 where a: "acquireContext (\<lambda>_. None) (demo_web ''GET'' ''/hello'') demo_get = (c, W1)"
    by (cases "acquireContext (\<lambda>_. None) (demo_web ''GET'' ''/hello'') demo_get")
  have "global_mws demo_new 0 = []" "inlineMiddlewares (mux_of demo_new 0) = []"
    by (simp_all add: demo_new_def newRouter_def global_mws_def mux_of_def slice_elems_def)
  with registered_route_served[where F = web_fasthttp and j = 0, OF demo_new_ok(1,2) _ _ demo_get _ _ a]
  show ?thesis
    by (auto simp: demo_new_ok is_wild_def web_fasthttp_def demo_web_def demo_ro_def)
qed


theorem unmatched_is_404_witness:
  "\<exists>W'. handleFastHTTP web_fasthttp (\<lambda>_. None) 0 (demo_web ''GET'' ''/'') demo_new = Inr (Returned None,
     (demo_web ''GET'' ''/'')\<lparr>p_status := 404, p_body := error_body 404 ''404 page not found''\<rparr>, W')"
proof -
  have t: "trees demo_new = []" "errHandler demo_new = default_handle web_fasthttp" "global_mws demo_new 0 = []"
    by (simp_all add: demo_new_def newRouter_def global_mws_def mux_of_def slice_elems_def)
  from unmatched_is_404[where F = web_fasthttp and f = "demo_web ''GET'' ''/''" and i = 0 and z = "\<lambda>_. None",
      OF demo_new_ok(1)]
  show ?thesis by (simp add: t other_methods_def) (simp add: web_fasthttp_def demo_web_def)
qed

theorem sub_router_scoped_witness:
  "global_mws (mux_Use (\<lambda>c n. 2 * n) [demo_hello] 1 (snd (mux_With [] 0 demo_new))) 0 = global_mws demo_new 0
   \<and> global_mws (mux_Use (\<lambda>c n. 2 * n) [demo_hello] 1 (snd (mux_With [] 0 demo_new))) 1 = global_mws demo_new 0 @ [demo_hello]"
proof -
  have w: "mux_With [] 0 demo_new = (1, snd (mux_With [] 0 demo_new))"
    by (simp add: mux_With_def demo_new_def newRouter_def Let_def)
  from sub_router_scoped[OF demo_new_ok(1,2) w refl, of "\<lambda>c n. 2 * n" "[demo_hello]"] show ?thesis by simp
qed

theorem meta_of_other_methods_lost_witness:
  "\<exists>W. mux_method demo_compile ''POST'' ''/hello'' (demo_ro (Some 2)) 0 demo_get = Inr W
     \<and> Meta_Route (mux_Meta demo_get) ''/hello'' ''GET'' = Some 1
     \<and> Meta_Route (mux_Meta W) ''/hello'' ''GET'' = None"
proof -
  have "\<not> isl (mux_method demo_compile ''POST'' ''/hello'' (demo_ro (Some 2)) 0 demo_get)" by code_simp
  then obtain W where W: "mux_method demo_compile ''POST'' ''/hello'' (demo_ro (Some 2)) 0 demo_get = Inr W"
    by (metis sum.collapse(2))
  have p: "full_path demo_get 0 ''/hello'' = ''/hello''" by code_simp
  have "Meta_Route (mux_Meta demo_get) ''/hello'' ''GET'' = Some 1" by code_simp
  moreover have "Meta_Route (mux_Meta W) ''/hello'' ''GET'' = None"
    using meta_of_other_methods_lost[OF W, of 2 "''GET''"] unfolding p
    by (simp add: demo_ro_def ToLower_def lower_char_def is_upper_def)
  ultimately show ?thesis using W by blast
qed

end
