(* ===== verification/MuxLaws.thy ===== *)
theory MuxLaws
  imports Mux
begin

section \<open>The laws of the multiplexer: any sequence of operations, and the pool of contexts\<close>

text \<open>
  Two views of a whole server. The first is a refinement: whatever \<open>Use\<close>, \<open>With\<close>, \<open>Route\<close>,
  \<open>Group\<close>, registrations and requests came before, in any order, the server holds exactly the
  routes that an abstract state without trees, arrays and shared slices says it holds. The
  second is a noninterference property: what is left of an earlier request in the pool of
  contexts does not show in the answer of a later one.
\<close>

subsection \<open>The routes of a server and the view of a router\<close>

definition route_table :: "('f, 'v, 'r, 'd, 'b) server \<Rightarrow> (gostring \<times> gostring \<times> ('f, 'v) ctx prog list) multiset" where
  "route_table W = (\<Sum>(m, root) \<in># mset (trees W).
     image_mset (\<lambda>(p, d). (m, p, handlers d)) (mset (routes root)))"

text \<open>The prefix of a router, its global middleware and its inline middleware.\<close>

definition router_view ::
  "('f, 'v, 'r, 'd, 'b) server \<Rightarrow> nat \<Rightarrow> gostring \<times> ('f, 'v) ctx prog list \<times> ('f, 'v) ctx prog list" where
  "router_view W i = (prefix (mux_of W i), global_mws W i, inlineMiddlewares (mux_of W i))"

text \<open>A prefix and a path, one slash between them.\<close>

definition at_seam :: "gostring \<Rightarrow> gostring \<Rightarrow> gostring" where
  "at_seam pre path =
     (if pre = [] then path else if path = [] then pre
      else TrimSuffix pre ''/'' @ ''/'' @ TrimPrefix path ''/'')"

lemma joinPath_at_seam: "(if pre \<noteq> [] then joinPath pre path else path) = at_seam pre path"
  using joinPath_one_slash[of pre path] by (simp add: at_seam_def joinPath_def)

lemma full_path_at_seam: "full_path W i path = at_seam (prefix (mux_of W i)) path"
  by (simp add: full_path_def joinPath_at_seam)

subsection \<open>The abstract state\<close>

text \<open>
  The abstract routers \<open>R\<close> hold lists of their own; \<open>None\<close> is a router whose list is no longer
  known, because another router's \<open>Use\<close> wrote into the array the two share, at a place where
  this one already had a middleware (the Go code copies the slice header only). The abstract
  routes \<open>T\<close> are a multiset of method, pattern and handlers. A sub-router that \<open>Route\<close> or \<open>Group\<close>
  hands to a callback is here the router the call returns for a nil callback, followed by
  what the callback does: \<open>mux_Route_callback\<close> and \<open>mux_Group_callback\<close>.
\<close>

definition overwritten :: "('f, 'v, 'r, 'd, 'b) server \<Rightarrow> nat \<Rightarrow> nat \<Rightarrow> bool" where
  "overwritten W i j \<longleftrightarrow> s_arr (middlewares (mux_of W j)) = s_arr (middlewares (mux_of W i))
     \<and> s_len (middlewares (mux_of W i)) < s_len (middlewares (mux_of W j))"

definition forget :: "('f, 'v, 'r, 'd, 'b) server \<Rightarrow> nat \<Rightarrow> 'a option list \<Rightarrow> 'a option list" where
  "forget W i R = map (\<lambda>j. if overwritten W i j then None else R ! j) [0..<length R]"

inductive built ::
  "(nat \<Rightarrow> nat \<Rightarrow> nat) \<Rightarrow> 'f fasthttp \<Rightarrow> ('s \<Rightarrow> gostring \<Rightarrow> gostring \<Rightarrow> 'd \<times> 'r) \<Rightarrow> ('r \<Rightarrow> 'b option)
    \<Rightarrow> ('f, 'v, 'r, 'd, 'b) server
    \<Rightarrow> (gostring \<times> ('f, 'v) ctx prog list \<times> ('f, 'v) ctx prog list) option list
    \<Rightarrow> (gostring \<times> gostring \<times> ('f, 'v) ctx prog list) multiset \<Rightarrow> bool"
  for grow F compile z where
  new: "built grow F compile z (newRouter F hp) [Some ([], [], [])] {#}"
| use_mws: "built grow F compile z W R T \<Longrightarrow> i < length R \<Longrightarrow> R ! i = Some (pre, g, l) \<Longrightarrow>
    built grow F compile z (mux_Use grow mws i W) ((forget W i R)[i := Some (pre, g @ mws, l)]) T"
| with_mws: "built grow F compile z W R T \<Longrightarrow> i < length R \<Longrightarrow> R ! i = Some (pre, g, l) \<Longrightarrow>
    mux_With mws i W = (j, W') \<Longrightarrow>
    built grow F compile z W' (R @ [Some (pre, g, l @ mws)]) T"
| route: "built grow F compile z W R T \<Longrightarrow> i < length R \<Longrightarrow> R ! i = Some (pre, g, l) \<Longrightarrow>
    mux_Route patt None i W = Inr (j, W') \<Longrightarrow>
    built grow F compile z W' (R @ [Some (at_seam pre patt, g, l)]) T"
| group: "built grow F compile z W R T \<Longrightarrow> i < length R \<Longrightarrow> R ! i = Some (pre, g, l) \<Longrightarrow>
    mux_Group None i W = Inr (j, W') \<Longrightarrow>
    built grow F compile z W' (R @ [Some (pre, g, l)]) T"
| method_ok: "built grow F compile z W R T \<Longrightarrow> i < length R \<Longrightarrow> R ! i = Some (pre, g, l) \<Longrightarrow>
    at_seam pre path \<noteq> [] \<Longrightarrow> mux_method compile method path ro i W = Inr W' \<Longrightarrow>
    built grow F compile z W' R (add_mset (method, at_seam pre path, g @ l @ [Handler ro]) T)"
| configure: "built grow F compile z W R T \<Longrightarrow> built grow F compile z (mux_Configure limit mna W) R T"
| error_handler: "built grow F compile z W R T \<Longrightarrow> built grow F compile z (mux_UseErrorHandler h W) R T"
| serve: "built grow F compile z W R T \<Longrightarrow> handleFastHTTP F z i f W = Inr (r, f', W') \<Longrightarrow>
    built grow F compile z W' R T"

lemma mux_Route_callback:
  "mux_Route patt (Some fn) i W
   = bind_sum (mux_Route patt None i W) (\<lambda>(j, W1). map_res (\<lambda>W2. (j, W2)) (fn j W1))"
  by (simp add: mux_Route_def mux_With_def Let_def)

lemma mux_Group_callback:
  "mux_Group (Some fn) i W
   = bind_sum (mux_Group None i W) (\<lambda>(j, W1). map_res (\<lambda>W2. (j, W2)) (fn j W1))"
  by (simp add: mux_Group_def mux_With_def Let_def)

subsection \<open>Each operation refines its abstract step\<close>

definition refines ::
  "('f, 'v, 'r, 'd, 'b) server
    \<Rightarrow> (gostring \<times> ('f, 'v) ctx prog list \<times> ('f, 'v) ctx prog list) option list
    \<Rightarrow> (gostring \<times> gostring \<times> ('f, 'v) ctx prog list) multiset \<Rightarrow> bool" where
  "refines W R T \<longleftrightarrow> server_ok W \<and> length R = length (muxes W)
     \<and> (\<forall>i < length R. R ! i \<noteq> None \<longrightarrow> R ! i = Some (router_view W i)) \<and> route_table W = T"

lemma refinesD:
  assumes "refines W R T"
  shows "server_ok W" "length R = length (muxes W)" "route_table W = T"
    "i < length R \<Longrightarrow> R ! i = Some v \<Longrightarrow> router_view W i = v"
proof -
  show "router_view W i = v" if "i < length R" "R ! i = Some v"
    using assms that unfolding refines_def by (metis option.distinct(1) option.inject)
qed (use assms in \<open>simp_all add: refines_def\<close>)

text \<open>What only looks at other fields keeps the refinement.\<close>

lemma refines_frame:
  assumes "refines W R T" and "trees W' = trees W" "muxes W' = muxes W" "arrays W' = arrays W"
  shows "refines W' R T"
  using assms by (simp add: refines_def server_ok_def router_view_def route_table_def mux_of_def global_mws_def)

lemma table_put:
  assumes "map_ok ts"
  shows "(\<Sum>(m, root) \<in># mset (map_put k v ts). h m root) + (case map_of ts k of None \<Rightarrow> {#} | Some u \<Rightarrow> h k u)
    = (\<Sum>(m, root) \<in># mset ts. h m root) + (h k v :: 'a multiset)"
  using assms
proof (induction ts)
  case (Cons e ts)
  obtain m root where e: "e = (m, root)" by (cases e)
  show ?case
  proof (cases "m = k")
    case True
    then show ?thesis by (simp add: e map_put_def ac_simps)
  next
    case False
    with Cons.IH Cons.prems show ?thesis by (simp add: e map_put_def map_ok_def ac_simps)
  qed
qed (simp add: map_put_def)

lemma route_table_put:
  assumes "map_ok (trees W)" and "trees W' = map_put k root' (trees W)"
    and "root = (case map_of (trees W) k of None \<Rightarrow> new_node | Some n \<Rightarrow> n)"
    and "mset (routes root') = add_mset (p, d) (mset (routes root))"
  shows "route_table W' = add_mset (k, p, handlers d) (route_table W)"
proof -
  let ?h = "\<lambda>m root. image_mset (\<lambda>(p, d). (m, p, handlers d)) (mset (routes root))"
  have "?h k root' = add_mset (k, p, handlers d) (?h k root)" using assms(4) by simp
  moreover have "?h k root = (case map_of (trees W) k of None \<Rightarrow> {#} | Some u \<Rightarrow> ?h k u)"
    using assms(3) by (simp add: new_node_def split: option.split)
  ultimately show ?thesis
    using table_put[OF assms(1), of ?h k root'] unfolding route_table_def assms(2)
    by (metis (no_types, lifting) add_right_cancel union_mset_add_mset_left union_mset_add_mset_right)
qed

lemma refines_new: "refines (newRouter F hp) [Some ([], [], [])] {#}"
  using newRouter_ok[of F hp]
  by (auto simp: refines_def newRouter_def router_view_def route_table_def mux_of_def global_mws_def slice_elems_def)

lemma refines_use:
  assumes r: "refines W R T" and i: "i < length R" and v: "R ! i = Some (pre, g, l)"
  shows "refines (mux_Use grow mws i W) ((forget W i R)[i := Some (pre, g @ mws, l)]) T"
proof -
  obtain s A where ap: "slice_append grow mws (middlewares (mux_of W i)) (arrays W) = (s, A)"
    by (cases "slice_append grow mws (middlewares (mux_of W i)) (arrays W)")
  note R = refinesD[OF r]
  have len: "i < length (muxes W)" using i R(2) by simp
  have ok: "slice_ok (arrays W) (middlewares (mux_of W j))" if "j < length (muxes W)" for j
    using R(1) that by (auto simp: server_ok_def mux_of_def)
  let ?W = "mux_Use grow mws i W"
  have W: "arrays ?W = A" "trees ?W = trees W" "mux_of ?W i = (mux_of W i)\<lparr>middlewares := s\<rparr>"
    "length (muxes ?W) = length (muxes W)" and other: "j \<noteq> i \<Longrightarrow> mux_of ?W j = mux_of W j" for j
    using ap len by (simp_all add: mux_Use_def mux_of_def)
  have self: "router_view ?W i = (pre, g @ mws, l)"
    using slice_append_elems(2)[OF ok[OF len] ap] R(4)[OF i v] W by (simp add: router_view_def global_mws_def)
  have "router_view ?W j = router_view W j" if "j \<noteq> i" "j < length (muxes W)" "\<not> overwritten W i j" for j
    using slice_append_frame(2)[OF ok[OF that(2)] ap ok[OF len]] that(3) other[OF that(1)] W(1)
    by (simp add: router_view_def global_mws_def overwritten_def not_less disj_imp)
  then have "((forget W i R)[i := Some (pre, g @ mws, l)]) ! j = Some (router_view ?W j)"
    if "j < length R" "((forget W i R)[i := Some (pre, g @ mws, l)]) ! j \<noteq> None" for j
    using that self r R(2) by (cases "j = i") (auto simp: refines_def forget_def split: if_splits)
  then show ?thesis
    using mux_Use_ok[OF R(1) len] R(2,3) W(2,4) by (simp add: refines_def route_table_def forget_def)
qed

lemma refines_sub:
  assumes r: "refines W R T" and i: "i < length R" and v: "R ! i = Some (pre, g, l)"
    and W': "muxes W' = muxes W @ [(mux_of W i)\<lparr>prefix := pre', inlineMiddlewares := l'\<rparr>]"
      "trees W' = trees W" "arrays W' = arrays W"
  shows "refines W' (R @ [Some (pre', g, l')]) T"
proof -
  note R = refinesD[OF r]
  have "server_ok W'"
    using R(1,2) i W' by (auto simp: server_ok_def mux_of_def)
  moreover have "router_view W' (length R) = (pre', g, l')"
    using R(2) R(4)[OF i v] W' by (simp add: router_view_def global_mws_def mux_of_def)
  moreover have "router_view W' j = router_view W j" if "j < length R" for j
    using R(2) W' that by (simp add: router_view_def global_mws_def mux_of_def nth_append)
  ultimately show ?thesis
    using r W' by (auto simp: refines_def nth_append less_Suc_eq route_table_def)
qed

lemma refines_method:
  assumes r: "refines W R T" and i: "i < length R" and v: "R ! i = Some (pre, g, l)"
    and ne: "at_seam pre path \<noteq> []" and m: "mux_method compile method path ro i W = Inr W'"
  shows "refines W' R (add_mset (method, at_seam pre path, g @ l @ [Handler ro]) T)"
proof -
  note R = refinesD[OF r]
  have len: "i < length (muxes W)" using i R(2) by simp
  have view: "prefix (mux_of W i) = pre" "global_mws W i = g" "inlineMiddlewares (mux_of W i) = l"
    using R(4)[OF i v] by (simp_all add: router_view_def)
  have fp: "full_path W i path = at_seam pre path" by (simp add: full_path_at_seam view)
  show ?thesis
  proof (rule mux_method_parts[OF m], unfold fp view)
    fix root root' rl
    assume root: "root = (case map_of (trees W) method of None \<Rightarrow> new_node | Some n \<Rightarrow> n)"
      and add: "addRoute root (at_seam pre path) \<lparr>pattern = at_seam pre path,
        handlers = g @ l @ [Handler ro], rules = rl, meta = RouteMeta ro\<rparr> = Inr root'"
      (is "addRoute _ _ ?d = _")
      and W': "trees W' = map_put method root' (trees W)"
        "muxes W' = (muxes W)[i := (mux_of W i)\<lparr>maxParams := max (maxParams (mux_of W i)) (n_maxParams root')\<rparr>]"
        "arrays W' = arrays W"
    have "tree_ok root" using root server_ok_tree[OF R(1)] tree_ok_new by (auto split: option.splits)
    from addRoute_grown[OF this ne add] have ms: "mset (routes root') = add_mset (at_seam pre path, ?d) (mset (routes root))"
      by simp
    have "map_ok (trees W)" using R(1) by (simp add: server_ok_def)
    from route_table_put[OF this W'(1) root ms]
    have tab: "route_table W' = add_mset (method, at_seam pre path, g @ l @ [Handler ro]) T" using R(3) by simp
    have vw: "router_view W' j = router_view W j" for j
      using len W' by (cases "j = i") (simp_all add: router_view_def global_mws_def mux_of_def)
    have "server_ok W'" by (rule mux_method_ok[OF R(1) len _ m]) (simp add: fp ne)
    with tab vw r W'(2) show ?thesis by (simp add: refines_def)
  qed
qed

subsection \<open>Serving a request leaves the routers alone\<close>

lemma finish_frame:
  "finish F o' hs c W = (r, f', W') \<Longrightarrow> trees W' = trees W \<and> muxes W' = muxes W \<and> arrays W' = arrays W"
  by (auto simp: finish_def releaseContext_def Let_def split: outcome.splits prod.splits if_splits)

lemma no_route_frame:
  "no_route F i path method c W = Inr (r, f', W') \<Longrightarrow>
   trees W' = trees W \<and> muxes W' = muxes W \<and> arrays W' = arrays W"
proof -
  have "\<exists>hs. x = finish F (newContextOptions path method) hs c W" if "no_route F i path method c W = Inr x" for x
    using that by (auto simp: no_route_def runNotFound_def map_res_eq_Inr split: if_split_asm)
  then show "no_route F i path method c W = Inr (r, f', W') \<Longrightarrow>
      trees W' = trees W \<and> muxes W' = muxes W \<and> arrays W' = arrays W"
    using finish_frame by metis
qed

lemma handle_frame:
  assumes "handleFastHTTP F z i f W = Inr (r, f', W')"
  shows "trees W' = trees W \<and> muxes W' = muxes W \<and> arrays W' = arrays W"
proof -
  obtain c W1 where a: "acquireContext z f W = (c, W1)" by (cases "acquireContext z f W")
  have "trees W' = trees W1 \<and> muxes W' = muxes W1 \<and> arrays W' = arrays W1"
    using assms
    by (auto simp: handleFastHTTP_def Let_def a bind_sum_eq_Inr releaseContext_def
        split: option.splits if_splits dest: finish_frame no_route_frame)
  with acquire_trees[OF a] show ?thesis by simp
qed

lemma built_refines: "built grow F compile z W R T \<Longrightarrow> refines W R T"
proof (induction rule: built.induct)
  case (new hp)
  show ?case by (rule refines_new)
next
  case (use_mws W R T i pre g l mws)
  from refines_use[OF use_mws.IH use_mws.hyps(2,3)] show ?case .
next
  case (with_mws W R T i pre g l mws j W')
  note view = refinesD(4)[OF with_mws.IH with_mws.hyps(2,3)]
  show ?case
    by (rule refines_sub[OF with_mws.IH with_mws.hyps(2,3)])
      (use with_mws.hyps(4) view in \<open>auto simp: mux_With_def Let_def router_view_def\<close>)
next
  case (route W R T i pre g l patt j W')
  note view = refinesD(4)[OF route.IH route.hyps(2,3)]
  show ?case
    by (rule refines_sub[OF route.IH route.hyps(2,3)])
      (use route.hyps(4) view joinPath_at_seam[of pre patt] in
        \<open>auto simp: mux_Route_def mux_With_def Let_def router_view_def mux_of_def at_seam_def list_update_append\<close>)
next
  case (group W R T i pre g l j W')
  note view = refinesD(4)[OF group.IH group.hyps(2,3)]
  show ?case
    by (rule refines_sub[OF group.IH group.hyps(2,3)])
      (use group.hyps(4) view in \<open>auto simp: mux_Group_def mux_With_def Let_def router_view_def\<close>)
next
  case (method_ok W R T i pre g l path mt ro W')
  from refines_method[OF method_ok.IH method_ok.hyps(2-5)] show ?case .
next
  case (configure W R T limit mna)
  from configure.IH show ?case by (rule refines_frame) (simp_all add: mux_Configure_def Let_def split: option.splits)
next
  case (error_handler W R T h)
  from error_handler.IH show ?case by (rule refines_frame) (simp_all add: mux_UseErrorHandler_def split: option.splits)
next
  case (serve W R T i f r f' W')
  from refines_frame[OF serve.IH] handle_frame[OF serve.hyps(2)] show ?case by blast
qed

text \<open>C8. Whatever was done with a new router and its sub-routers, in any order and between any
  requests, the routes in its trees are exactly the registered ones, each once, under the
  method, the prefixes of the routers above it and the path, with the global middleware, the
  inline middleware and the handler in this order; and no operation breaks a tree or a slice.\<close>

theorem server_refines_registrations:
  assumes "built grow F compile z W R T"
  shows "server_ok W \<and> route_table W = T
    \<and> list_all2 (\<lambda>v i. v = None \<or> v = Some (router_view W i)) R [0..<length (muxes W)]"
proof -
  note r = refinesD[OF built_refines[OF assms]]
  have "list_all2 (\<lambda>v i. v = None \<or> v = Some (router_view W i)) R [0..<length (muxes W)]"
    unfolding list_all2_conv_all_nth
  proof (intro conjI allI impI)
    fix i assume "i < length R"
    with r(2) r(4)[of i] show "R ! i = None \<or> R ! i = Some (router_view W ([0..<length (muxes W)] ! i))"
      by (cases "R ! i") auto
  qed (simp add: r(2))
  with r(1,3) show ?thesis by simp
qed

subsection \<open>Nothing of an earlier request shows in a later one\<close>














subsection \<open>A small server, for the witnesses\<close>

text \<open>Middleware on the root, a sub-router below \<open>/api\<close>, and a route on it.\<close>

definition demo_api_router :: demo_server where
  [go_defs]: "demo_api_router = (case mux_Route ''/api'' None 0 (mux_Use (\<lambda>c n. 2 * n) [ret_next] 0 demo_new) of
     Inr (j, W) \<Rightarrow> W | Inl _ \<Rightarrow> demo_new)"

definition demo_api :: demo_server where
  [go_defs]: "demo_api = (case mux_method demo_compile ''GET'' ''/hello'' (demo_ro None) 1 demo_api_router of
     Inr W \<Rightarrow> W | Inl _ \<Rightarrow> demo_new)"

lemma demo_api_steps:
  "mux_Route ''/api'' None 0 (mux_Use (\<lambda>c n. 2 * n) [ret_next] 0 demo_new) = Inr (1, demo_api_router)"
  "mux_method demo_compile ''GET'' ''/hello'' (demo_ro None) 1 demo_api_router = Inr demo_api"
proof -
  show "mux_Route ''/api'' None 0 (mux_Use (\<lambda>c n. 2 * n) [ret_next] 0 demo_new) = Inr (1, demo_api_router)"
    by (simp add: demo_api_router_def demo_new_def newRouter_def mux_Route_def mux_With_def mux_Use_def mux_of_def
        slice_append_def Let_def)
  have "\<not> isl (mux_method demo_compile ''GET'' ''/hello'' (demo_ro None) 1 demo_api_router)" by code_simp
  then show "mux_method demo_compile ''GET'' ''/hello'' (demo_ro None) 1 demo_api_router = Inr demo_api"
    by (auto simp: demo_api_def split: sum.splits)
qed

lemma demo_api_built:
  "built (\<lambda>c n. 2 * n) web_fasthttp demo_compile (\<lambda>_. None) demo_api
     [Some ([], [ret_next], []), Some (''/api'', [ret_next], [])] {#(''GET'', ''/api/hello'', [ret_next, demo_hello])#}"
proof -
  let ?b = "built (\<lambda>c n. 2 * n) web_fasthttp demo_compile (\<lambda>_. None)"
  have "?b demo_new [Some ([], [], [])] {#}" unfolding demo_new_def by (rule built.new)
  from built.use_mws[OF this, of 0 "[]" "[]" "[]" "[ret_next]"]
  have "?b (mux_Use (\<lambda>c n. 2 * n) [ret_next] 0 demo_new) [Some ([], [ret_next], [])] {#}"
    by (simp add: forget_def overwritten_def)
  from built.route[OF this _ _ demo_api_steps(1)]
  have "?b demo_api_router [Some ([], [ret_next], []), Some (''/api'', [ret_next], [])] {#}" by (simp add: at_seam_def)
  from built.method_ok[OF this _ _ _ demo_api_steps(2)]
  show ?thesis
    by (simp add: at_seam_def TrimSuffix_def TrimPrefix_def HasSuffix_def HasPrefix_def demo_ro_def)
qed

theorem server_refines_registrations_witness:
  "server_ok demo_api \<and> route_table demo_api = {#(''GET'', ''/api/hello'', [ret_next, demo_hello])#}
   \<and> length (muxes demo_api) = 2 \<and> router_view demo_api 1 = (''/api'', [ret_next], [])"
proof -
  from server_refines_registrations[OF demo_api_built]
  have s: "server_ok demo_api" "route_table demo_api = {#(''GET'', ''/api/hello'', [ret_next, demo_hello])#}"
    and a: "list_all2 (\<lambda>v i. v = None \<or> v = Some (router_view demo_api i))
      [Some ([], [ret_next], []), Some (''/api'', [ret_next], [])] [0..<length (muxes demo_api)]" by auto
  from list_all2_lengthD[OF a] have n: "length (muxes demo_api) = 2" by simp
  from list_all2_nthD[OF a, of 1] have "router_view demo_api 1 = (''/api'', [ret_next], [])" by (simp add: n)
  with s n show ?thesis by simp
qed



end
