(* ===== verification/GoFloat.thy ===== *)
theory GoFloat
  imports GoStrings Complex_Main "HOL-Library.Log_Nat"
begin

section \<open>Floating-point numbers and strconv.ParseFloat\<close>

text \<open>
  A \<open>float64\<close> or \<open>float32\<close> is an exact rational, an infinity, negative zero or not-a-number.
  A conversion into a width rounds to the nearest representable value, ties to even, with the
  gradual underflow and the overflow of IEEE 754; comparisons are exact. \<open>ParseFloat\<close> follows
  the scanner of \<open>strconv\<close>: sign, special words, decimal and hexadecimal mantissa, underscores,
  the exponent with its cap.
\<close>

datatype flt = FNaN | FInf bool | FNegZero | FNum rat

subsection \<open>Rounding\<close>

definition pow2 :: "int \<Rightarrow> rat" where
  "pow2 k = (if k \<ge> 0 then 2 ^ nat k else 1 / 2 ^ nat (- k))"

lemma pow2_pos [simp]: "pow2 k > 0" and pow2_ne [simp]: "pow2 k \<noteq> 0"
  by (simp_all add: pow2_def)

lemma pow2_powi: "pow2 k = 2 powi k"
  by (simp add: pow2_def power_int_def field_simps)

lemma pow2_add: "pow2 (a + b) = pow2 a * pow2 b"
  by (simp add: pow2_powi power_int_add)

lemma pow2_mono: "a \<le> b \<Longrightarrow> pow2 a \<le> pow2 b"
  by (simp add: pow2_powi power_int_increasing)

lemma pow2_less_imp: "pow2 a < pow2 b \<Longrightarrow> a < b"
  by (meson leD leI pow2_mono)

lemma pow2_nonneg_int: "k \<ge> 0 \<Longrightarrow> pow2 k = of_int (2 ^ nat k)"
  by (simp add: pow2_def)

text \<open>The exponent of the leading bit of a positive rational.\<close>

definition log2_rat :: "rat \<Rightarrow> int" where
  "log2_rat q =
     (let (a, b) = quotient_of q;
          k = int (floorlog 2 (nat a)) - int (floorlog 2 (nat b))
      in if pow2 k \<le> q then k else k - 1)"

text \<open>Round to an integer, ties to even.\<close>

definition round_even :: "rat \<Rightarrow> int" where
  "round_even q =
     (let f = floor q; r = q - of_int f
      in if r < 1 / 2 \<or> r = 1 / 2 \<and> even f then f else f + 1)"

lemma round_even_int [simp]: "round_even (of_int n) = n"
  by (simp add: round_even_def)

text \<open>A positive magnitude rounded to \<open>p\<close> bits, with least exponent \<open>lo\<close> and greatest \<open>hi\<close>;
  \<open>None\<close> is overflow.\<close>

definition round_mag :: "int \<Rightarrow> int \<Rightarrow> int \<Rightarrow> rat \<Rightarrow> rat option" where
  "round_mag p lo hi q =
     (let u = max (log2_rat q - (p - 1)) lo;
          v = of_int (round_even (q / pow2 u)) * pow2 u
      in if v \<ge> pow2 (hi + 1) then None else Some v)"

definition mk_flt :: "int \<Rightarrow> int \<Rightarrow> int \<Rightarrow> bool \<Rightarrow> rat \<Rightarrow> flt" where
  "mk_flt p lo hi neg q =
     (let zero = (if neg then FNegZero else FNum 0)
      in if q = 0 then zero
         else case round_mag p lo hi q of
             None \<Rightarrow> FInf (\<not> neg)
           | Some v \<Rightarrow> if v = 0 then zero else FNum (if neg then - v else v))"

definition to_float64 :: "bool \<Rightarrow> rat \<Rightarrow> flt" where "to_float64 = mk_flt 53 (-1074) 1023"
definition to_float32 :: "bool \<Rightarrow> rat \<Rightarrow> flt" where "to_float32 = mk_flt 24 (-149) 127"

text \<open>The conversion \<open>float64(n)\<close> of an integer.\<close>

definition float64_of_int :: "int \<Rightarrow> flt" where
  "float64_of_int n = to_float64 (n < 0) (of_int \<bar>n\<bar>)"

subsection \<open>Comparisons\<close>

fun unsigned_zero :: "flt \<Rightarrow> flt" where
  "unsigned_zero FNegZero = FNum 0"
| "unsigned_zero x = x"

fun lt_num :: "flt \<Rightarrow> flt \<Rightarrow> bool" where
  "lt_num (FNum x) (FNum y) = (x < y)"
| "lt_num (FNum x) (FInf s) = s"
| "lt_num (FInf s) (FNum y) = (\<not> s)"
| "lt_num (FInf s) (FInf t) = (\<not> s \<and> t)"
| "lt_num _ _ = False"

definition flt_eq :: "flt \<Rightarrow> flt \<Rightarrow> bool" where
  "flt_eq x y \<longleftrightarrow> x \<noteq> FNaN \<and> unsigned_zero x = unsigned_zero y"
definition flt_lt :: "flt \<Rightarrow> flt \<Rightarrow> bool" where
  "flt_lt x y \<longleftrightarrow> lt_num (unsigned_zero x) (unsigned_zero y)"
definition flt_le :: "flt \<Rightarrow> flt \<Rightarrow> bool" where
  "flt_le x y \<longleftrightarrow> flt_lt x y \<or> flt_eq x y"

lemma flt_num_simps [simp]:
  "flt_eq (FNum x) (FNum y) \<longleftrightarrow> x = y"
  "flt_lt (FNum x) (FNum y) \<longleftrightarrow> x < y"
  "flt_le (FNum x) (FNum y) \<longleftrightarrow> x \<le> y"
  by (auto simp: flt_eq_def flt_lt_def flt_le_def)

subsection \<open>Integers of at most 53 bits are exact\<close>

lemma log2_rat_int_pow:
  assumes "n > 0"
  shows "log2_rat (of_int n) = int (floorlog 2 (nat n)) - 1"
    and "pow2 (int (floorlog 2 (nat n)) - 1) \<le> of_int n"
proof -
  define l where "l = floorlog 2 (nat n)"
  have one: "floorlog 2 (Suc 0) = 1" by (simp add: floorlog_def)
  have b: "2 ^ (l - 1) \<le> nat n" and l: "l > 0"
    using floorlog_bounds[of "nat n" 2] assms by (auto simp: l_def floorlog_def)
  have "int (2 ^ (l - 1)) \<le> int (nat n)" using b by (simp only: of_nat_le_iff)
  then have "int (2 ^ (l - 1)) \<le> n" using assms by simp
  then have "(of_int (int (2 ^ (l - 1))) :: rat) \<le> of_int n" by (simp only: of_int_le_iff)
  then have p: "(2 :: rat) ^ (l - 1) \<le> of_int n" by simp
  have e: "pow2 (int l - 1) = 2 ^ (l - 1)" using l by (simp add: pow2_def nat_diff_distrib')
  show "pow2 (int (floorlog 2 (nat n)) - 1) \<le> of_int n" using p e by (simp add: l_def)
  with e show "log2_rat (of_int n) = int (floorlog 2 (nat n)) - 1"
    by (simp add: log2_rat_def l_def[symmetric] one)
qed

lemma log2_rat_le: "n > 0 \<Longrightarrow> pow2 (log2_rat (of_int n)) \<le> of_int n"
  by (simp add: log2_rat_int_pow)

lemma log2_rat_bits:
  assumes "0 < n" "n \<le> 2 ^ b" shows "log2_rat (of_int n) \<le> int b"
proof -
  have "pow2 (log2_rat (of_int n)) \<le> of_int n" using assms(1) by (rule log2_rat_le)
  also have "\<dots> \<le> of_int (2 ^ b)" using assms(2) by (simp only: of_int_le_iff)
  also have "\<dots> < pow2 (int b + 1)" by (simp add: pow2_def nat_add_distrib)
  finally show ?thesis using pow2_less_imp by fastforce
qed

lemma round_mag_int:
  assumes n: "0 < n" "n \<le> 2 ^ 53" shows "round_mag 53 (-1074) 1023 (of_int n) = Some (of_int n)"
proof -
  define u where "u = max (log2_rat (of_int n) - (53 - 1)) (-1074)"
  have l: "log2_rat (of_int n) \<le> 53" using log2_rat_bits[of n 53] n by simp
  have exact: "of_int (round_even (of_int n / pow2 u)) * pow2 u = of_int n"
  proof (cases "u \<le> 0")
    case True
    then have "of_int n / pow2 u = of_int (n * 2 ^ nat (- u))"
      by (simp add: pow2_def)
    then have "round_even (of_int n / pow2 u) = n * 2 ^ nat (- u)"
      using round_even_int[of "n * 2 ^ nat (- u)"] by simp
    with True show ?thesis by (simp add: pow2_def)
  next
    case False
    with l have u: "u = 1" and "log2_rat (of_int n) = 53" by (auto simp: u_def)
    then have "pow2 53 \<le> of_int n" using log2_rat_le[OF n(1)] by simp
    then have "(of_int (2 ^ 53) :: rat) \<le> of_int n" by (simp add: pow2_def)
    then have nn: "n = 2 ^ 53" using n(2) by (simp only: of_int_le_iff)
    have "of_int n / pow2 u = of_int (2 ^ 52)" by (simp add: nn u pow2_def)
    then have r: "round_even (of_int n / pow2 u) = 2 ^ 52"
      using round_even_int[of "2 ^ 52"] by simp
    show ?thesis unfolding r by (simp add: nn u pow2_def)
  qed
  have "(of_int n :: rat) \<le> of_int (2 ^ 53)" using n(2) by (simp only: of_int_le_iff)
  also have "\<dots> = pow2 53" by (simp add: pow2_def)
  also have "\<dots> < pow2 1024"
    by (simp add: pow2_powi power_int_strict_increasing)
  finally have "\<not> of_int n \<ge> pow2 (1023 + 1)" by simp
  then show ?thesis unfolding round_mag_def u_def[symmetric] Let_def exact by simp
qed

theorem float64_of_int_exact:
  assumes "\<bar>n\<bar> \<le> 2 ^ 53" shows "float64_of_int n = FNum (of_int n)"
proof (cases "n = 0")
  case True
  then show ?thesis by (simp add: float64_of_int_def to_float64_def mk_flt_def)
next
  case False
  then have "round_mag 53 (-1074) 1023 (of_int \<bar>n\<bar>) = Some (of_int \<bar>n\<bar>)"
    using assms by (intro round_mag_int) auto
  with False show ?thesis
    by (auto simp: float64_of_int_def to_float64_def mk_flt_def abs_if)
qed

text \<open>Above 53 bits the conversion loses the odd integers.\<close>

lemma float64_of_int_inexact: "float64_of_int (2 ^ 53 + 1) = FNum (2 ^ 53)"
proof -
  have f: "floorlog 2 (nat (2 ^ 53 + 1)) = 54" by (simp add: compute_floorlog)
  have l: "log2_rat (of_int (2 ^ 53 + 1)) = 53" using log2_rat_int_pow(1)[of "2 ^ 53 + 1"] f by simp
  have "\<lfloor>9007199254740993 / 2 :: rat\<rfloor> = 4503599627370496" by (rule floor_unique) simp_all
  with l show ?thesis
    by (simp add: float64_of_int_def to_float64_def mk_flt_def round_mag_def round_even_def pow2_def Let_def)
qed

subsection \<open>strconv.ParseFloat\<close>

datatype num_error = ErrSyntax | ErrRange

definition is_hex_letter :: "char \<Rightarrow> bool" where
  "is_hex_letter c \<longleftrightarrow> 97 \<le> byte (lower_char c) \<and> byte (lower_char c) \<le> 102"
definition hex_digit_val :: "char \<Rightarrow> nat" where
  "hex_digit_val c = (if is_digit c then digit_val c else byte (lower_char c) - 87)"

text \<open>The mantissa: underscores are skipped and remembered, one dot is allowed; the result holds
  the flags \<open>underscores\<close>, \<open>sawdot\<close>, \<open>sawdigits\<close>, the digits read as a number and how many of
  them stand after the dot.\<close>

fun scan_mant ::
  "bool \<Rightarrow> gostring \<Rightarrow> bool \<times> bool \<times> bool \<times> nat \<times> nat \<Rightarrow> (bool \<times> bool \<times> bool \<times> nat \<times> nat) \<times> gostring" where
  "scan_mant hex [] st = (st, [])"
| "scan_mant hex (c # s) (u, dot, dig, m, fr) =
     (if c = CHR ''_'' then scan_mant hex s (True, dot, dig, m, fr)
      else if c = CHR ''.'' then
        (if dot then ((u, dot, dig, m, fr), c # s) else scan_mant hex s (u, True, dig, m, fr))
      else if is_digit c \<or> hex \<and> is_hex_letter c then
        scan_mant hex s
          (u, dot, True, (if hex then 16 else 10) * m + hex_digit_val c, if dot then Suc fr else fr)
      else ((u, dot, dig, m, fr), c # s))"

text \<open>The digits of the exponent; the value stops growing at 10000.\<close>

fun scan_exp :: "gostring \<Rightarrow> bool \<times> nat \<Rightarrow> (bool \<times> nat) \<times> gostring" where
  "scan_exp [] st = (st, [])"
| "scan_exp (c # s) (u, e) =
     (if c = CHR ''_'' then scan_exp s (True, e)
      else if is_digit c then scan_exp s (u, if e < 10000 then 10 * e + digit_val c else e)
      else ((u, e), c # s))"

definition strip_sign :: "gostring \<Rightarrow> gostring" where
  "strip_sign s = (if s \<noteq> [] \<and> (hd s = CHR ''-'' \<or> hd s = CHR ''+'') then tl s else s)"
definition has_minus :: "gostring \<Rightarrow> bool" where "has_minus s \<longleftrightarrow> s \<noteq> [] \<and> hd s = CHR ''-''"
definition hex_prefix :: "gostring \<Rightarrow> bool" where
  "hex_prefix s \<longleftrightarrow> length s > 2 \<and> s ! 0 = CHR ''0'' \<and> lower_char (s ! 1) = CHR ''x''"

text \<open>\<open>strconv.underscoreOK\<close>: an underscore stands between digits, or between a base prefix and a
  digit. \<open>saw\<close> is the class of the last character, as in the source.\<close>

fun underscore_loop :: "bool \<Rightarrow> char \<Rightarrow> gostring \<Rightarrow> bool" where
  "underscore_loop hex saw [] = (saw \<noteq> CHR ''_'')"
| "underscore_loop hex saw (c # s) =
     (if is_digit c \<or> hex \<and> is_hex_letter c then underscore_loop hex (CHR ''0'') s
      else if c = CHR ''_'' then saw = CHR ''0'' \<and> underscore_loop hex (CHR ''_'') s
      else saw \<noteq> CHR ''_'' \<and> underscore_loop hex (CHR ''!'') s)"

definition underscoreOK :: "gostring \<Rightarrow> bool" where
  "underscoreOK s0 =
     (let s = strip_sign s0
      in if length s \<ge> 2 \<and> s ! 0 = CHR ''0'' \<and> lower_char (s ! 1) \<in> {CHR ''b'', CHR ''o'', CHR ''x''}
         then underscore_loop (lower_char (s ! 1) = CHR ''x'') (CHR ''0'') (drop 2 s)
         else underscore_loop False (CHR ''^'') s)"

text \<open>\<open>strconv.readFloat\<close>: sign, base, mantissa, number of fraction digits, exponent and the rest
  of the input; \<open>None\<close> is its failure.\<close>

definition readFloat :: "gostring \<Rightarrow> (bool \<times> bool \<times> nat \<times> nat \<times> int \<times> gostring) option" where
  "readFloat s0 =
     (let neg = has_minus s0; s = strip_sign s0; hex = hex_prefix s;
          ((u, dot, dig, m, fr), r) = scan_mant hex (if hex then drop 2 s else s) (False, False, False, 0, 0);
          ok = (\<lambda>u r. u \<longrightarrow> underscoreOK (take (length s0 - length r) s0))
      in if \<not> dig then None
         else if r \<noteq> [] \<and> lower_char (hd r) = (if hex then CHR ''p'' else CHR ''e'') then
           (let eneg = has_minus (tl r); r' = strip_sign (tl r)
            in if r' = [] \<or> \<not> is_digit (hd r') then None
               else let ((u', e), r'') = scan_exp r' (u, 0)
                    in if ok u' r'' then Some (neg, hex, m, fr, if eneg then - int e else int e, r'') else None)
         else if hex then None
         else if ok u r then Some (neg, hex, m, fr, 0, r) else None)"

text \<open>\<open>strconv.special\<close> for a whole string.\<close>

definition special :: "gostring \<Rightarrow> flt option" where
  "special s =
     (let t = strip_sign s
      in if EqualFold t ''inf'' \<or> EqualFold t ''infinity'' then Some (FInf (\<not> has_minus s))
         else if EqualFold s ''nan'' then Some FNaN else None)"

definition pow10 :: "int \<Rightarrow> rat" where
  "pow10 k = (if k \<ge> 0 then 10 ^ nat k else 1 / 10 ^ nat (- k))"

definition ParseFloat :: "nat \<Rightarrow> gostring \<Rightarrow> flt \<times> num_error option" where
  "ParseFloat bits s =
     (case special s of
        Some v \<Rightarrow> (v, None)
      | None \<Rightarrow>
          (case readFloat s of
             Some (neg, hex, m, fr, e, []) \<Rightarrow>
               (let q = of_nat m * (if hex then pow2 (e - 4 * int fr) else pow10 (e - int fr));
                    v = (if bits = 32 then to_float32 neg q else to_float64 neg q)
                in (v, if v = FInf (\<not> neg) then Some ErrRange else None))
           | _ \<Rightarrow> (FNum 0, Some ErrSyntax)))"

subsection \<open>A decimal integer is read exactly\<close>

lemma digit_not: "is_digit c \<Longrightarrow>
  c \<noteq> CHR ''_'' \<and> c \<noteq> CHR ''.'' \<and> c \<noteq> CHR ''-'' \<and> c \<noteq> CHR ''+'' \<and> lower_char c = c \<and>
  c \<noteq> CHR ''i'' \<and> c \<noteq> CHR ''n'' \<and> c \<noteq> CHR ''x''"
  by (auto simp: is_digit_def lower_char_def is_upper_def)

lemma scan_mant_digits:
  "list_all is_digit s \<Longrightarrow>
   scan_mant False s (u, False, dig, m, 0) =
     ((u, False, dig \<or> s \<noteq> [], foldl (\<lambda>v c. 10 * v + digit_val c) m s, 0), [])"
proof (induction s arbitrary: dig m)
  case (Cons c s)
  then show ?case using digit_not[of c] by (simp add: hex_digit_val_def)
qed simp

lemma special_digits:
  assumes "list_all is_digit s" "s \<noteq> []" shows "special s = None" "special (CHR ''-'' # s) = None"
proof -
  obtain c r where s: "s = c # r" using assms(2) by (cases s) auto
  then show "special s = None" "special (CHR ''-'' # s) = None"
    using assms digit_not[of c]
    by (auto simp: special_def strip_sign_def EqualFold_def ToLower_def lower_char_def is_upper_def)
qed

lemma readFloat_digits:
  assumes "list_all is_digit s" "s \<noteq> []"
  shows "readFloat s = Some (False, False, digits_val s, 0, 0, [])"
    and "readFloat (CHR ''-'' # s) = Some (True, False, digits_val s, 0, 0, [])"
proof -
  have hd: "is_digit (hd s)" using assms by (cases s) auto
  have x: "hex_prefix s = False"
    using assms digit_not[of "s ! 1"] by (auto simp: list_all_length hex_prefix_def)
  have g: "strip_sign s = s" "has_minus s = False"
    "strip_sign (CHR ''-'' # s) = s" "has_minus (CHR ''-'' # s) = True"
    using digit_not[OF hd] by (auto simp: strip_sign_def has_minus_def)
  show "readFloat s = Some (False, False, digits_val s, 0, 0, [])"
    "readFloat (CHR ''-'' # s) = Some (True, False, digits_val s, 0, 0, [])"
    using assms by (simp_all add: readFloat_def g x scan_mant_digits digits_val_def)
qed

theorem ParseFloat_Itoa:
  assumes "\<bar>n\<bar> \<le> 2 ^ 53" shows "ParseFloat 64 (Itoa n) = (FNum (of_int n), None)"
proof -
  have d: "list_all is_digit (nat_digits k)" "nat_digits k \<noteq> []" for k
    by (auto simp: list_all_iff nat_digits_digit)
  have e: "float64_of_int n = FNum (of_int n)" using assms by (rule float64_of_int_exact)
  show ?thesis
  proof (cases "n < 0")
    case True
    with e have "to_float64 True (of_nat (nat (- n))) = FNum (of_int n)"
      by (simp add: float64_of_int_def)
    with True show ?thesis
      by (simp add: ParseFloat_def Itoa_def special_digits readFloat_digits d pow10_def)
  next
    case False
    with e have "to_float64 False (of_nat (nat n)) = FNum (of_int n)"
      by (simp add: float64_of_int_def)
    with False show ?thesis
      by (simp add: ParseFloat_def Itoa_def special_digits readFloat_digits d pow10_def)
  qed
qed

end
