(* ===== verification/Utf8.thy ===== *)
theory Utf8
  imports GoStrings
begin

section \<open>Runes: decoding and encoding UTF-8\<close>

text \<open>
  Go's \<open>range\<close> over a string, its conversions between runes and strings, and the \<open>regexp\<close>
  engine read a string as code points. An invalid byte decodes to the replacement
  character and has width one, as \<open>utf8.DecodeRuneInString\<close> specifies.
\<close>

type_synonym rune = nat

definition RuneError :: rune where "RuneError = 65533"

definition cont_byte :: "char \<Rightarrow> bool" where "cont_byte c \<longleftrightarrow> 128 \<le> byte c \<and> byte c < 192"
definition low6 :: "char \<Rightarrow> nat" where "low6 c = byte c mod 64"

text \<open>The range the second byte must be in, for each first byte of a sequence of three or four.\<close>

definition second_lo :: "nat \<Rightarrow> nat" where
  "second_lo b = (if b = 224 then 160 else if b = 240 then 144 else 128)"
definition second_hi :: "nat \<Rightarrow> nat" where
  "second_hi b = (if b = 237 then 159 else if b = 244 then 143 else 191)"

definition DecodeRune :: "gostring \<Rightarrow> rune \<times> nat" where
  "DecodeRune s =
     (case s of
        [] \<Rightarrow> (RuneError, 0)
      | c0 # s1 \<Rightarrow>
          let b0 = byte c0 in
          if b0 < 128 then (b0, 1)
          else if b0 < 194 \<or> b0 > 244 then (RuneError, 1)
          else (case s1 of
              [] \<Rightarrow> (RuneError, 1)
            | c1 # s2 \<Rightarrow>
                if \<not> (second_lo b0 \<le> byte c1 \<and> byte c1 \<le> second_hi b0) then (RuneError, 1)
                else if b0 < 224 then ((b0 mod 32) * 64 + low6 c1, 2)
                else (case s2 of
                    [] \<Rightarrow> (RuneError, 1)
                  | c2 # s3 \<Rightarrow>
                      if \<not> cont_byte c2 then (RuneError, 1)
                      else if b0 < 240 then (((b0 mod 16) * 64 + low6 c1) * 64 + low6 c2, 3)
                      else (case s3 of
                          [] \<Rightarrow> (RuneError, 1)
                        | c3 # _ \<Rightarrow>
                            if \<not> cont_byte c3 then (RuneError, 1)
                            else ((((b0 mod 8) * 64 + low6 c1) * 64 + low6 c2) * 64 + low6 c3, 4)))))"

definition ValidRune :: "nat \<Rightarrow> bool" where
  "ValidRune r \<longleftrightarrow> r < 55296 \<or> 57344 \<le> r \<and> r < 1114112"

text \<open>The conversion \<open>string(r)\<close>: an invalid code point becomes the replacement character.\<close>

definition EncodeRune :: "nat \<Rightarrow> gostring" where
  "EncodeRune r0 =
     (let r = (if ValidRune r0 then r0 else RuneError) in
      if r < 128 then [char_of r]
      else if r < 2048 then [char_of (192 + r div 64), char_of (128 + r mod 64)]
      else if r < 65536 then
        [char_of (224 + r div 4096), char_of (128 + r div 64 mod 64), char_of (128 + r mod 64)]
      else
        [char_of (240 + r div 262144), char_of (128 + r div 4096 mod 64),
         char_of (128 + r div 64 mod 64), char_of (128 + r mod 64)])"

lemma DecodeRune_width: "s \<noteq> [] \<Longrightarrow> 0 < snd (DecodeRune s)"
  by (auto simp: DecodeRune_def Let_def split: list.split)

function runes :: "gostring \<Rightarrow> rune list" where
  "runes s = (if s = [] then [] else fst (DecodeRune s) # runes (drop (snd (DecodeRune s)) s))"
  by pat_completeness auto
termination runes
proof (relation "measure length")
  fix s :: gostring assume "s \<noteq> []"
  then show "(drop (snd (DecodeRune s)) s, s) \<in> measure length"
    using DecodeRune_width[of s] by simp
qed simp

declare runes.simps [simp del]

lemma runes_Nil [simp]: "runes [] = []" by (simp add: runes.simps)

lemma runes_ascii_Cons [simp]: "byte c < 128 \<Longrightarrow> runes (c # s) = byte c # runes s"
  by (simp add: runes.simps[of "c # s"] DecodeRune_def Let_def)

lemma runes_ascii: "list_all (\<lambda>c. byte c < 128) s \<Longrightarrow> runes s = map byte s"
  by (induction s) auto

subsection \<open>Round trip\<close>

lemma mod_64 [simp]: "(128 + x mod 64) mod 64 = x mod (64 :: nat)" "x mod 64 \<le> (63 :: nat)"
  using mod_mult_self3[of 2 64 "x mod 64"] mod_less_divisor[of 64 x] by simp_all

lemma div_mod_6: "(n :: nat) div 64 * 64 + n mod 64 = n" by simp

lemma DecodeRune_Encode: 
  assumes "ValidRune r" shows "DecodeRune (EncodeRune r @ s) = (r, length (EncodeRune r))"
proof -
  have lt: "r < 1114112" using assms by (auto simp: ValidRune_def)
  consider "r < 128" | "128 \<le> r" "r < 2048" | "2048 \<le> r" "r < 65536" | "65536 \<le> r" by linarith
  then show ?thesis
  proof cases
    case 1
    with assms show ?thesis by (simp add: EncodeRune_def DecodeRune_def)
  next
    case 2
    then have b: "2 \<le> r div 64" "r div 64 < 32" by (simp_all add: div_greater_zero_iff less_mult_imp_div_less)
    have m: "192 + r div 64 < 256" "(192 + r div 64) mod 32 = r div 64" using b by (auto simp: mod_add_eq mod_if) 
    show ?thesis using assms 2 b m
      by (simp add: EncodeRune_def DecodeRune_def second_lo_def second_hi_def low6_def Let_def)
  next
    case 3
    then have q: "r div 4096 < 16" by (simp add: less_mult_imp_div_less)
    have sp: "r div 4096 * 64 + r div 64 mod 64 = r div 64"
      by (simp add: div_mult2_eq[of r 64 64, simplified])
    have lo: "r div 4096 = 0 \<Longrightarrow> 32 \<le> r div 64 mod 64" using 3 sp by (simp add: div_le_mono[of 2048 r 64, simplified])
    have hi: "r div 4096 = 13 \<Longrightarrow> r div 64 mod 64 \<le> 31"
      using assms 3 sp by (auto simp: ValidRune_def)
    have m: "(224 + r div 4096) mod 16 = r div 4096" using q by (simp add: mod_if)
    show ?thesis using assms 3 q m lo hi
      by (simp add: EncodeRune_def DecodeRune_def second_lo_def second_hi_def low6_def cont_byte_def Let_def
            sp)
  next
    case 4
    have q: "r div 262144 < 5" using lt by (simp add: less_mult_imp_div_less)
    have s1: "r div 262144 * 64 + r div 4096 mod 64 = r div 4096" by (simp add: div_mult2_eq[of r 4096 64, simplified])
    have s2: "r div 4096 * 64 + r div 64 mod 64 = r div 64" by (simp add: div_mult2_eq[of r 64 64, simplified])
    have m: "(240 + r div 262144) mod 8 = r div 262144" using q by (simp add: mod_if)
    have lo: "r div 262144 = 0 \<Longrightarrow> 16 \<le> r div 4096 mod 64" using 4 s1 by (simp add: div_le_mono[of 65536 r 4096, simplified])
    have hi: "r div 262144 = 4 \<Longrightarrow> r div 4096 mod 64 \<le> 15" using lt s1 by simp
    show ?thesis using assms 4 q m lo hi
      by (simp add: EncodeRune_def DecodeRune_def second_lo_def second_hi_def low6_def cont_byte_def Let_def
            s1 s2)
  qed
qed

theorem runes_Encode: "ValidRune r \<Longrightarrow> runes (EncodeRune r @ s) = r # runes s"
proof -
  assume v: "ValidRune r"
  have "EncodeRune r \<noteq> []" by (simp add: EncodeRune_def Let_def)
  with v show ?thesis by (simp add: runes.simps[of "EncodeRune r @ s"] DecodeRune_Encode)
qed

subsection \<open>ASCII strings\<close>

lemma mod_window: "m * k \<le> b \<Longrightarrow> b < m * k + m \<Longrightarrow> b mod m = b - m * (k :: nat)"
  by (metis add_diff_cancel_left' le_Suc_ex mod_less mod_mult_self4 nat_add_left_cancel_less)

lemma low6_cont: "128 \<le> byte c \<Longrightarrow> byte c \<le> 191 \<Longrightarrow> low6 c = byte c - 128"
  using mod_window[of 64 2 "byte c"] by (simp add: low6_def)

text \<open>A first byte above the ASCII range never decodes to an ASCII rune: overlong forms are errors.\<close>

lemma DecodeRune_ascii:
  assumes "fst (DecodeRune (c # s)) < 128" shows "byte c < 128"
proof (rule ccontr)
  assume c: "\<not> byte c < 128"
  have two: "\<not> byte c < 194 \<Longrightarrow> byte c < 224 \<Longrightarrow> 2 \<le> byte c mod 32"
    using mod_window[of 32 6 "byte c"] by simp
  have three: "\<not> byte c < 224 \<Longrightarrow> byte c < 240 \<Longrightarrow> byte c mod 16 = byte c - 224"
    using mod_window[of 16 14 "byte c"] by simp
  have four: "\<not> byte c < 240 \<Longrightarrow> \<not> 244 < byte c \<Longrightarrow> byte c mod 8 = byte c - 240"
    using mod_window[of 8 30 "byte c"] by simp
  have snd: "second_lo (byte c) \<le> byte d \<Longrightarrow> byte d \<le> second_hi (byte c) \<Longrightarrow>
      128 \<le> byte d \<and> byte d \<le> 191 \<and> (byte c = 224 \<longrightarrow> 160 \<le> byte d) \<and> (byte c = 240 \<longrightarrow> 144 \<le> byte d)" for d
    by (auto simp: second_lo_def second_hi_def split: if_splits)
  have bad: "fst (DecodeRune (c # s)) \<noteq> RuneError" using assms by (simp add: RuneError_def)
  obtain d s2 where s: "s = d # s2" using bad c
    by (cases s) (auto simp: DecodeRune_def Let_def split: if_splits)
  have r: "194 \<le> byte c" "byte c \<le> 244" "second_lo (byte c) \<le> byte d" "byte d \<le> second_hi (byte c)"
    using bad c by (auto simp: s DecodeRune_def Let_def split: if_splits)
  note d = snd[OF r(3,4)]
  show False
  proof (cases "byte c < 224")
    case True
    then have "fst (DecodeRune (c # s)) = (byte c mod 32) * 64 + low6 d"
      using c r by (simp add: s DecodeRune_def)
    then show False using assms True two r by simp
  next
    case ge: False
    obtain e s3 where s2: "s2 = e # s3" and e: "cont_byte e"
      using bad c ge r by (cases s2) (auto simp: s DecodeRune_def Let_def split: if_splits)
    show False
    proof (cases "byte c < 240")
      case True
      then have "fst (DecodeRune (c # s)) = ((byte c mod 16) * 64 + low6 d) * 64 + low6 e"
        using c ge r e by (simp add: s s2 DecodeRune_def)
      then show False using assms True ge three d low6_cont[of d] by (cases "byte c = 224") auto
    next
      case False
      obtain f s4 where s3: "s3 = f # s4" and f: "cont_byte f"
        using bad c ge r e False by (cases s3) (auto simp: s s2 DecodeRune_def Let_def split: if_splits)
      have "fst (DecodeRune (c # s)) = (((byte c mod 8) * 64 + low6 d) * 64 + low6 e) * 64 + low6 f"
        using c ge r e f False by (simp add: s s2 s3 DecodeRune_def)
      then show False using assms False four d r low6_cont[of d] by (cases "byte c = 240") auto
    qed
  qed
qed

lemma runes_Cons: "runes (c # s) = fst (DecodeRune (c # s)) # runes (drop (snd (DecodeRune (c # s))) (c # s))"
  by (simp add: runes.simps[of "c # s"])

text \<open>A predicate that holds of ASCII runes only may be read byte by byte.\<close>

lemma runes_all:
  assumes "\<And>r. P r \<Longrightarrow> r < 128" shows "list_all P (runes s) \<longleftrightarrow> list_all (\<lambda>c. P (byte c)) s"
proof
  assume "list_all P (runes s)"
  then show "list_all (\<lambda>c. P (byte c)) s"
  proof (induction s)
    case (Cons c s)
    then have "P (fst (DecodeRune (c # s)))" by (simp add: runes_Cons)
    then have "byte c < 128" using assms DecodeRune_ascii by blast
    with Cons show ?case by simp
  qed simp
next
  assume "list_all (\<lambda>c. P (byte c)) s"
  then show "list_all P (runes s)"
  proof (induction s)
    case (Cons c s)
    then have "byte c < 128" using assms by simp
    with Cons show ?case by simp
  qed simp
qed

lemma runes_length: "list_all (\<lambda>c. byte c < 128) s \<Longrightarrow> length (runes s) = length s"
  by (simp add: runes_ascii)

lemma runes_Nil_iff [simp]: "runes s = [] \<longleftrightarrow> s = []"
  by (cases s) (simp_all add: runes_Cons)

end
