(* ===== verification/GoValues.thy ===== *)
theory GoValues
  imports GoFloat Utf8
begin

section \<open>Types, kinds and interface values\<close>

text \<open>
  What \<open>reflect\<close> shows of a program: the kinds, the types and the values an \<open>any\<close> holds. A value
  carries its dynamic type; the integers are unbounded here and kept in the range of their kind
  by the predicate \<open>well_typed\<close> and by the conversions. A named type carries its method set, so
  that an interface assertion is decided by names. Recursive types have no representation.
\<close>

datatype kind =
    KInvalid | KBool
  | KInt | KInt8 | KInt16 | KInt32 | KInt64
  | KUint | KUint8 | KUint16 | KUint32 | KUint64 | KUintptr
  | KFloat32 | KFloat64 | KComplex64 | KComplex128
  | KArray | KChan | KFunc | KInterface | KMap | KPointer | KSlice | KString | KStruct | KUnsafePointer

text \<open>\<open>TNamed n ms pms u\<close> is the defined type \<open>n\<close> with the methods \<open>ms\<close> of its values, the further
  methods \<open>pms\<close> of its pointers and the underlying type \<open>u\<close>. A field has its name, type, tag and
  whether it is embedded.\<close>

datatype gotype =
    TBasic kind
  | TNamed gostring "gostring list" "gostring list" gotype
  | TArray nat gotype
  | TSlice gotype
  | TMap gotype gotype
  | TPointer gotype
  | TChan gotype
  | TFunc gostring
  | TInterface "gostring list"
  | TStruct "sfield list"
and sfield = SField (sf_name: gostring) (sf_type: gotype) (sf_tag: gostring) (sf_embedded: bool)

abbreviation "TString \<equiv> TBasic KString"
abbreviation "TBool \<equiv> TBasic KBool"
abbreviation "TInt \<equiv> TBasic KInt"
abbreviation "TFloat64 \<equiv> TBasic KFloat64"
abbreviation "TAny \<equiv> TInterface []"

fun underlying :: "gotype \<Rightarrow> gotype" where
  "underlying (TNamed n ms pms u) = underlying u"
| "underlying t = t"

fun kind_of :: "gotype \<Rightarrow> kind" where
  "kind_of (TBasic k) = k"
| "kind_of (TNamed n ms pms u) = kind_of u"
| "kind_of (TArray n t) = KArray"
| "kind_of (TSlice t) = KSlice"
| "kind_of (TMap k t) = KMap"
| "kind_of (TPointer t) = KPointer"
| "kind_of (TChan t) = KChan"
| "kind_of (TFunc s) = KFunc"
| "kind_of (TInterface ms) = KInterface"
| "kind_of (TStruct fs) = KStruct"

lemma kind_of_underlying [simp]: "kind_of (underlying t) = kind_of t"
  by (induction t rule: underlying.induct) auto

text \<open>\<open>Type.Elem\<close>; it panics on a type without elements.\<close>

definition elem_of :: "gotype \<Rightarrow> gotype option" where
  "elem_of t = (case underlying t of
     TArray n e \<Rightarrow> Some e | TSlice e \<Rightarrow> Some e | TMap k e \<Rightarrow> Some e
   | TPointer e \<Rightarrow> Some e | TChan e \<Rightarrow> Some e | _ \<Rightarrow> None)"

definition fields_of :: "gotype \<Rightarrow> sfield list" where
  "fields_of t = (case underlying t of TStruct fs \<Rightarrow> fs | _ \<Rightarrow> [])"

fun type_name :: "gotype \<Rightarrow> gostring" where
  "type_name (TNamed n ms pms u) = n"
| "type_name t = []"

fun methods_of :: "gotype \<Rightarrow> gostring list" where
  "methods_of (TNamed n ms pms u) = (case u of TInterface is \<Rightarrow> is | _ \<Rightarrow> ms)"
| "methods_of (TPointer (TNamed n ms pms u)) = ms @ pms"
| "methods_of (TInterface ms) = ms"
| "methods_of _ = []"

text \<open>\<open>Type.Implements\<close>, with the interface given by its methods.\<close>

definition implements :: "gotype \<Rightarrow> gostring list \<Rightarrow> bool" where
  "implements t ms \<longleftrightarrow> set ms \<subseteq> set (methods_of t)"

lemma implements_code [code]: "implements t ms = list_all (\<lambda>m. m \<in> set (methods_of t)) ms"
  by (auto simp: implements_def list_all_iff)

lemma size_sf_type_le: "size (sf_type f) \<le> size f"
  by (cases f) simp

lemma size_sf_type [termination_simp]: "f \<in> set fs \<Longrightarrow> size (sf_type f) < Suc (size_list size fs)"
  by (rule le_imp_less_Suc, rule size_list_estimation'[of f]) (simp_all add: size_sf_type_le)

fun comparable :: "gotype \<Rightarrow> bool" where
  "comparable (TBasic k) = True"
| "comparable (TNamed n ms pms u) = comparable u"
| "comparable (TArray n t) = comparable t"
| "comparable (TSlice t) = False"
| "comparable (TMap k t) = False"
| "comparable (TPointer t) = True"
| "comparable (TChan t) = True"
| "comparable (TFunc s) = False"
| "comparable (TInterface ms) = True"
| "comparable (TStruct fs) = list_all (\<lambda>f. comparable (sf_type f)) fs"

subsection \<open>Kinds\<close>

definition signed_kinds :: "kind list" where "signed_kinds = [KInt, KInt8, KInt16, KInt32, KInt64]"
definition unsigned_kinds :: "kind list" where
  "unsigned_kinds = [KUint, KUint8, KUint16, KUint32, KUint64]"

definition is_signed :: "kind \<Rightarrow> bool" where "is_signed k \<longleftrightarrow> k \<in> set signed_kinds"
definition is_unsigned :: "kind \<Rightarrow> bool" where "is_unsigned k \<longleftrightarrow> k \<in> set unsigned_kinds"
definition is_integer :: "kind \<Rightarrow> bool" where
  "is_integer k \<longleftrightarrow> is_signed k \<or> is_unsigned k \<or> k = KUintptr"
definition is_float :: "kind \<Rightarrow> bool" where "is_float k \<longleftrightarrow> k = KFloat32 \<or> k = KFloat64"
definition is_complex :: "kind \<Rightarrow> bool" where "is_complex k \<longleftrightarrow> k = KComplex64 \<or> k = KComplex128"

lemmas kind_class_defs = is_signed_def is_unsigned_def is_integer_def is_float_def is_complex_def
  signed_kinds_def unsigned_kinds_def

text \<open>The width in bits, on a 64-bit platform.\<close>

fun width_of :: "kind \<Rightarrow> nat" where
  "width_of KInt8 = 8" | "width_of KUint8 = 8"
| "width_of KInt16 = 16" | "width_of KUint16 = 16"
| "width_of KInt32 = 32" | "width_of KUint32 = 32"
| "width_of _ = 64"

definition in_range :: "kind \<Rightarrow> int \<Rightarrow> bool" where
  "in_range k i \<longleftrightarrow>
     (if is_signed k then - (2 ^ (width_of k - 1)) \<le> i \<and> i < 2 ^ (width_of k - 1)
      else 0 \<le> i \<and> i < 2 ^ width_of k)"

text \<open>The wrap-around of an integer conversion.\<close>

definition wrap_int :: "kind \<Rightarrow> int \<Rightarrow> int" where
  "wrap_int k i =
     (let m = 2 ^ width_of k; r = i mod m
      in if is_signed k \<and> r \<ge> 2 ^ (width_of k - 1) then r - m else r)"

lemma width_pos [simp]: "0 < width_of k" by (cases k) auto

lemma pow_half: "(2 :: int) ^ width_of k = 2 * 2 ^ (width_of k - 1)"
  by (cases k) simp_all

lemma wrap_int_range: "in_range k (wrap_int k i)"
proof -
  define m h r :: int where "m = 2 ^ width_of k" and "h = 2 ^ (width_of k - 1)" and "r = i mod m"
  have "m = 2 * h" "0 < h" "0 \<le> r" "r < m"
    by (simp_all add: m_def h_def r_def pow_half del: power_eq_0_iff)
  then show ?thesis
    unfolding in_range_def wrap_int_def Let_def m_def[symmetric] h_def[symmetric] r_def[symmetric]
    by (auto simp: not_le)
qed

lemma wrap_int_id:
  assumes "in_range k i" shows "wrap_int k i = i"
proof -
  let ?m = "2 ^ width_of k :: int" and ?h = "2 ^ (width_of k - 1) :: int"
  have m: "?m = 2 * ?h" by (rule pow_half)
  have h: "0 < ?h" by simp
  show ?thesis
  proof (cases "0 \<le> i")
    case True
    have "i < ?m" using assms m h by (auto simp: in_range_def split: if_splits)
    with True have "i mod ?m = i" by simp
    with assms show ?thesis by (auto simp: wrap_int_def in_range_def)
  next
    case False
    with assms have s: "is_signed k" "- ?h \<le> i" by (auto simp: in_range_def split: if_splits)
    have "(i + ?m) mod ?m = i + ?m" using False s m h by (intro mod_pos_pos_trivial) linarith+
    then have "i mod ?m = i + ?m" by simp
    with s m show ?thesis by (auto simp: wrap_int_def Let_def)
  qed
qed

subsection \<open>Values\<close>

text \<open>
  \<open>VNil\<close> is the nil interface. A slice or map is nil (\<open>None\<close>) or has elements; an element of an
  interface type is stored as its dynamic value. A pointer has an address, which decides its
  equality, and the value it points to; a channel or function has an address only.
\<close>

datatype goval =
    VNil
  | VBool gotype bool
  | VInt gotype int
  | VFloat gotype flt
  | VComplex gotype flt flt
  | VString gotype gostring
  | VSlice gotype "goval list option"
  | VArray gotype "goval list"
  | VMap gotype "(goval \<times> goval) list option"
  | VPtr gotype "(nat \<times> goval) option"
  | VStruct gotype "goval list"
  | VRef gotype "nat option"

fun typeof :: "goval \<Rightarrow> gotype option" where
  "typeof VNil = None"
| "typeof (VBool t b) = Some t"
| "typeof (VInt t i) = Some t"
| "typeof (VFloat t f) = Some t"
| "typeof (VComplex t x y) = Some t"
| "typeof (VString t s) = Some t"
| "typeof (VSlice t xs) = Some t"
| "typeof (VArray t xs) = Some t"
| "typeof (VMap t m) = Some t"
| "typeof (VPtr t p) = Some t"
| "typeof (VStruct t fs) = Some t"
| "typeof (VRef t p) = Some t"

text \<open>\<open>reflect.ValueOf(v).Kind()\<close>, which is \<open>Invalid\<close> for nil.\<close>

definition vkind :: "goval \<Rightarrow> kind" where
  "vkind v = (case typeof v of None \<Rightarrow> KInvalid | Some t \<Rightarrow> kind_of t)"

text \<open>A value agrees with its dynamic type.\<close>

fun well_typed :: "goval \<Rightarrow> bool" where
  "well_typed VNil = True"
| "well_typed (VBool t b) = (kind_of t = KBool)"
| "well_typed (VInt t i) = (is_integer (kind_of t) \<and> in_range (kind_of t) i)"
| "well_typed (VFloat t f) = is_float (kind_of t)"
| "well_typed (VComplex t x y) = is_complex (kind_of t)"
| "well_typed (VString t s) = (kind_of t = KString)"
| "well_typed (VSlice t xs) =
     (kind_of t = KSlice \<and> (case xs of None \<Rightarrow> True | Some vs \<Rightarrow> list_all well_typed vs))"
| "well_typed (VArray t vs) = (kind_of t = KArray \<and> list_all well_typed vs)"
| "well_typed (VMap t m) =
     (kind_of t = KMap \<and>
      (case m of None \<Rightarrow> True | Some es \<Rightarrow> list_all (\<lambda>(k, v). well_typed k \<and> well_typed v) es))"
| "well_typed (VPtr t p) =
     (kind_of t = KPointer \<and> (case p of None \<Rightarrow> True | Some (a, v) \<Rightarrow> well_typed v))"
| "well_typed (VStruct t fs) = (kind_of t = KStruct \<and> length fs = length (fields_of t) \<and> list_all well_typed fs)"
| "well_typed (VRef t p) = (kind_of t \<in> {KChan, KFunc, KUnsafePointer})"

text \<open>The constructors of the basic types and the type assertions \<open>v.(string)\<close>, \<open>v.(int)\<close>:
  they hold for the predeclared type only, not for a named type of the same kind.\<close>

abbreviation str :: "gostring \<Rightarrow> goval" where "str s \<equiv> VString TString s"
abbreviation boolv :: "bool \<Rightarrow> goval" where "boolv b \<equiv> VBool TBool b"
abbreviation intv :: "int \<Rightarrow> goval" where "intv i \<equiv> VInt TInt i"

fun as_string :: "goval \<Rightarrow> gostring option" where
  "as_string (VString t s) = (if t = TString then Some s else None)"
| "as_string _ = None"

fun as_bool :: "goval \<Rightarrow> bool option" where
  "as_bool (VBool t b) = (if t = TBool then Some b else None)"
| "as_bool _ = None"

fun as_int :: "kind \<Rightarrow> goval \<Rightarrow> int option" where
  "as_int k (VInt t i) = (if t = TBasic k then Some i else None)"
| "as_int k _ = None"

fun as_float :: "kind \<Rightarrow> goval \<Rightarrow> flt option" where
  "as_float k (VFloat t f) = (if t = TBasic k then Some f else None)"
| "as_float k _ = None"

text \<open>\<open>Value.Len\<close> of the kinds that have a length; \<open>None\<close> is its panic.\<close>

fun vlen :: "goval \<Rightarrow> nat option" where
  "vlen (VString t s) = Some (length s)"
| "vlen (VSlice t xs) = Some (case xs of None \<Rightarrow> 0 | Some vs \<Rightarrow> length vs)"
| "vlen (VArray t vs) = Some (length vs)"
| "vlen (VMap t m) = Some (case m of None \<Rightarrow> 0 | Some es \<Rightarrow> length es)"
| "vlen _ = None"

text \<open>\<open>Value.IsZero\<close>. A float is zero when it is positive zero; inside a comparable array or
  struct the runtime compares with the zero value, and negative zero is equal to it.\<close>

fun flt_zero :: "bool \<Rightarrow> flt \<Rightarrow> bool" where
  "flt_zero strict (FNum q) = (q = 0)"
| "flt_zero strict FNegZero = (\<not> strict)"
| "flt_zero strict _ = False"

fun zero_val :: "bool \<Rightarrow> goval \<Rightarrow> bool" where
  "zero_val s VNil = True"
| "zero_val s (VBool t b) = (\<not> b)"
| "zero_val s (VInt t i) = (i = 0)"
| "zero_val s (VFloat t f) = flt_zero s f"
| "zero_val s (VComplex t x y) = (flt_zero s x \<and> flt_zero s y)"
| "zero_val s (VString t x) = (x = [])"
| "zero_val s (VSlice t xs) = (xs = None)"
| "zero_val s (VArray t vs) = list_all (zero_val (s \<and> \<not> comparable t)) vs"
| "zero_val s (VMap t m) = (m = None)"
| "zero_val s (VPtr t p) = (p = None)"
| "zero_val s (VStruct t fs) = list_all (zero_val (s \<and> \<not> comparable t)) fs"
| "zero_val s (VRef t p) = (p = None)"

abbreviation is_zero :: "goval \<Rightarrow> bool" where "is_zero v \<equiv> zero_val True v"

text \<open>The \<open>==\<close> of two interface values; \<open>None\<close> is the panic on an uncomparable dynamic type.\<close>

fun all_eq :: "(goval \<Rightarrow> goval \<Rightarrow> bool option) \<Rightarrow> goval list \<Rightarrow> goval list \<Rightarrow> bool option" where
  "all_eq f [] [] = Some True"
| "all_eq f (x # xs) (y # ys) =
     (case f x y of None \<Rightarrow> None | Some b \<Rightarrow> if b then all_eq f xs ys else Some False)"
| "all_eq f _ _ = Some False"

lemma all_eq_cong [fundef_cong]:
  "xs = xs' \<Longrightarrow> ys = ys' \<Longrightarrow> (\<And>x y. x \<in> set xs' \<Longrightarrow> f x y = g x y) \<Longrightarrow> all_eq f xs ys = all_eq g xs' ys'"
proof (induction f xs ys arbitrary: xs' ys' rule: all_eq.induct)
  case (2 f x xs y ys)
  then show ?case by (auto split: option.splits)
qed auto

fun go_eq :: "goval \<Rightarrow> goval \<Rightarrow> bool option" where
  "go_eq VNil w = Some (w = VNil)"
| "go_eq (VBool t a) w = (case w of VBool u b \<Rightarrow> Some (t = u \<and> a = b) | _ \<Rightarrow> Some False)"
| "go_eq (VInt t a) w = (case w of VInt u b \<Rightarrow> Some (t = u \<and> a = b) | _ \<Rightarrow> Some False)"
| "go_eq (VFloat t a) w = (case w of VFloat u b \<Rightarrow> Some (t = u \<and> flt_eq a b) | _ \<Rightarrow> Some False)"
| "go_eq (VComplex t a b) w =
     (case w of VComplex u c d \<Rightarrow> Some (t = u \<and> flt_eq a c \<and> flt_eq b d) | _ \<Rightarrow> Some False)"
| "go_eq (VString t a) w = (case w of VString u b \<Rightarrow> Some (t = u \<and> a = b) | _ \<Rightarrow> Some False)"
| "go_eq (VSlice t a) w = (case w of VSlice u b \<Rightarrow> (if t = u then None else Some False) | _ \<Rightarrow> Some False)"
| "go_eq (VArray t a) w =
     (case w of VArray u b \<Rightarrow>
        (if t \<noteq> u then Some False else if \<not> comparable t then None else all_eq go_eq a b)
      | _ \<Rightarrow> Some False)"
| "go_eq (VMap t a) w = (case w of VMap u b \<Rightarrow> (if t = u then None else Some False) | _ \<Rightarrow> Some False)"
| "go_eq (VPtr t a) w =
     (case w of VPtr u b \<Rightarrow> Some (t = u \<and> map_option fst a = map_option fst b) | _ \<Rightarrow> Some False)"
| "go_eq (VStruct t a) w =
     (case w of VStruct u b \<Rightarrow>
        (if t \<noteq> u then Some False else if \<not> comparable t then None else all_eq go_eq a b)
      | _ \<Rightarrow> Some False)"
| "go_eq (VRef t a) w =
     (case w of VRef u b \<Rightarrow>
        (if t \<noteq> u then Some False else if \<not> comparable t then None else Some (a = b))
      | _ \<Rightarrow> Some False)"

subsection \<open>Conversions\<close>

text \<open>\<open>Type.ConvertibleTo\<close>: the numeric and string conversions, identical underlying types up to
  tags, pointers to such types, and an interface the type implements. The conversions from a
  slice to an array or array pointer are left out.\<close>

fun strip_tags :: "gotype \<Rightarrow> gotype" where
  "strip_tags (TBasic k) = TBasic k"
| "strip_tags (TNamed n ms pms u) = TNamed n ms pms u"
| "strip_tags (TArray n t) = TArray n (strip_tags t)"
| "strip_tags (TSlice t) = TSlice (strip_tags t)"
| "strip_tags (TMap k t) = TMap (strip_tags k) (strip_tags t)"
| "strip_tags (TPointer t) = TPointer (strip_tags t)"
| "strip_tags (TChan t) = TChan (strip_tags t)"
| "strip_tags (TFunc s) = TFunc s"
| "strip_tags (TInterface ms) = TInterface ms"
| "strip_tags (TStruct fs) = TStruct (map (\<lambda>f. SField (sf_name f) (strip_tags (sf_type f)) [] (sf_embedded f)) fs)"

definition same_underlying :: "gotype \<Rightarrow> gotype \<Rightarrow> bool" where
  "same_underlying t u \<longleftrightarrow> strip_tags (underlying t) = strip_tags (underlying u)"

definition bytes_or_runes :: "gotype \<Rightarrow> bool" where
  "bytes_or_runes t \<longleftrightarrow> elem_of t = Some (TBasic KUint8) \<or> elem_of t = Some (TBasic KInt32)"

fun unnamed_pointee :: "gotype \<Rightarrow> gotype option" where
  "unnamed_pointee (TPointer t) = Some t"
| "unnamed_pointee t = None"

definition convertible_to :: "gotype \<Rightarrow> gotype \<Rightarrow> bool" where
  "convertible_to src dst \<longleftrightarrow>
     (let s = kind_of src; d = kind_of dst in
      is_integer s \<and> (is_integer d \<or> is_float d \<or> d = KString)
      \<or> is_float s \<and> (is_integer d \<or> is_float d)
      \<or> is_complex s \<and> is_complex d
      \<or> s = KString \<and> d = KSlice \<and> bytes_or_runes dst
      \<or> s = KSlice \<and> d = KString \<and> bytes_or_runes src
      \<or> same_underlying src dst
      \<or> (case (unnamed_pointee src, unnamed_pointee dst) of
           (Some a, Some b) \<Rightarrow> same_underlying a b | _ \<Rightarrow> False)
      \<or> d = KInterface \<and> implements src (methods_of dst))"

fun retype :: "gotype \<Rightarrow> goval \<Rightarrow> goval" where
  "retype t VNil = VNil"
| "retype t (VBool _ b) = VBool t b"
| "retype t (VInt _ i) = VInt t i"
| "retype t (VFloat _ f) = VFloat t f"
| "retype t (VComplex _ x y) = VComplex t x y"
| "retype t (VString _ s) = VString t s"
| "retype t (VSlice _ xs) = VSlice t xs"
| "retype t (VArray _ vs) = VArray t vs"
| "retype t (VMap _ m) = VMap t m"
| "retype t (VPtr _ p) = VPtr t p"
| "retype t (VStruct _ fs) = VStruct t fs"
| "retype t (VRef _ p) = VRef t p"

fun round_to :: "kind \<Rightarrow> flt \<Rightarrow> flt" where
  "round_to k (FNum q) = (if k = KFloat32 then to_float32 (q < 0) \<bar>q\<bar> else to_float64 (q < 0) \<bar>q\<bar>)"
| "round_to k f = f"

text \<open>The truncation of a float to an integer kind; out of range the language leaves the value to
  the implementation, a parameter here.\<close>

definition flt_to_int :: "(kind \<Rightarrow> flt \<Rightarrow> int) \<Rightarrow> kind \<Rightarrow> flt \<Rightarrow> int" where
  "flt_to_int impl k f =
     (case unsigned_zero f of
        FNum q \<Rightarrow> (let i = (if q \<ge> 0 then \<lfloor>q\<rfloor> else \<lceil>q\<rceil>) in if in_range k i then i else impl k f)
      | _ \<Rightarrow> impl k f)"

definition rune_of :: "int \<Rightarrow> nat" where
  "rune_of i = (if 0 \<le> i \<and> ValidRune (nat i) then nat i else RuneError)"

definition bytes_of_vals :: "goval list \<Rightarrow> gostring" where
  "bytes_of_vals vs = map (\<lambda>v. case v of VInt t i \<Rightarrow> char_of (nat i) | _ \<Rightarrow> char_of (0 :: nat)) vs"
definition runes_of_vals :: "goval list \<Rightarrow> gostring" where
  "runes_of_vals vs = concat (map (\<lambda>v. case v of VInt t i \<Rightarrow> EncodeRune (rune_of i) | _ \<Rightarrow> []) vs)"

text \<open>\<open>Value.Convert\<close>, for a convertible type.\<close>

definition go_convert :: "(kind \<Rightarrow> flt \<Rightarrow> int) \<Rightarrow> goval \<Rightarrow> gotype \<Rightarrow> goval" where
  "go_convert impl v t =
     (let d = kind_of t in
      if d = KInterface then v
      else case v of
        VInt s i \<Rightarrow>
          (if is_float d then VFloat t (round_to d (FNum (of_int i)))
           else if d = KString then VString t (EncodeRune (rune_of i))
           else VInt t (wrap_int d i))
      | VFloat s f \<Rightarrow> (if is_float d then VFloat t (round_to d f) else VInt t (flt_to_int impl d f))
      | VComplex s x y \<Rightarrow>
          (let k = (if d = KComplex64 then KFloat32 else KFloat64) in VComplex t (round_to k x) (round_to k y))
      | VString s x \<Rightarrow>
          (if d = KSlice then
             (if elem_of t = Some (TBasic KUint8)
              then VSlice t (Some (map (\<lambda>c. VInt (TBasic KUint8) (int (byte c))) x))
              else VSlice t (Some (map (\<lambda>r. VInt (TBasic KInt32) (int r)) (runes x))))
           else VString t x)
      | VSlice s xs \<Rightarrow>
          (if d = KString then
             (let vs = (case xs of None \<Rightarrow> [] | Some vs \<Rightarrow> vs)
              in VString t (if elem_of s = Some (TBasic KUint8) then bytes_of_vals vs else runes_of_vals vs))
           else VSlice t xs)
      | w \<Rightarrow> retype t w)"

end
