(* ===== verification/Utils.thy ===== *)
theory Utils
  imports GoValues
begin

section \<open>The helpers of package utils\<close>

text \<open>
  \<open>utils/utils.go\<close>, \<open>utils/primitives.go\<close> and \<open>utils/formats.go\<close>. A pointer to a slice is an
  option; a call that may panic returns \<open>Panics\<close>. An error made by \<open>fmt.Errorf\<close> or
  \<open>errors.New\<close> is its format and its arguments, unrendered; an error of the standard library is
  the name of the function that made it.
\<close>

datatype 'a call = Panics | Returns 'a

fun bind_call :: "'a call \<Rightarrow> ('a \<Rightarrow> 'b call) \<Rightarrow> 'b call" where
  "bind_call Panics f = Panics"
| "bind_call (Returns x) f = f x"

lemma bind_call_cong [fundef_cong]:
  "r = r' \<Longrightarrow> (\<And>x. r' = Returns x \<Longrightarrow> f x = g x) \<Longrightarrow> bind_call r f = bind_call r' g"
  by (cases r') auto

datatype gerr =
    Errorf gostring "goval list" | LibErr gostring
  | WrapErr gostring "goval list" gerr | JoinedErr gostring "gerr list"

abbreviation errNew :: "gostring \<Rightarrow> gerr" where "errNew m \<equiv> Errorf m []"

subsection \<open>Slices\<close>

definition Pop :: "'a list option \<Rightarrow> 'a list option" where
  "Pop arr = (case arr of None \<Rightarrow> None | Some xs \<Rightarrow> if xs = [] then Some [] else Some (butlast xs))"

definition Append :: "'a list option \<Rightarrow> 'a \<Rightarrow> 'a list call" where
  "Append arr v = (case arr of None \<Rightarrow> Panics | Some xs \<Rightarrow> Returns (xs @ [v]))"

text \<open>\<open>Push\<close> returns the extended slice; \<open>d\<close> is the zero value of the element type.\<close>

definition Push :: "'a \<Rightarrow> 'a list option \<Rightarrow> 'a \<Rightarrow> 'a list call" where
  "Push d arr v =
     (case arr of
        None \<Rightarrow> if v \<noteq> d then Returns [v] else Panics
      | Some xs \<Rightarrow> if v = d then Returns xs else Returns (xs @ [v]))"

definition LastItem :: "'a \<Rightarrow> 'a list option \<Rightarrow> 'a" where
  "LastItem d arr = (case arr of None \<Rightarrow> d | Some xs \<Rightarrow> if xs = [] then d else last xs)"

definition UpdateItem :: "'a list option \<Rightarrow> ('a \<Rightarrow> 'a) \<Rightarrow> 'a list option" where
  "UpdateItem arr f =
     (case arr of None \<Rightarrow> None
      | Some xs \<Rightarrow> if xs = [] then Some [] else Some (butlast xs @ [f (last xs)]))"

lemma stack_laws:
  "Push d (Some xs) v = Returns ys \<Longrightarrow> v \<noteq> d \<Longrightarrow> Pop (Some ys) = Some xs \<and> LastItem d (Some ys) = v"
  "Pop (UpdateItem arr f) = Pop arr"
  by (auto simp: Push_def Pop_def LastItem_def UpdateItem_def split: option.splits)

definition ToUpperFirst :: "gostring \<Rightarrow> gostring call" where
  "ToUpperFirst s = (if s = [] then Panics else Returns (ToUpper (take 1 s) @ ToLower (drop 1 s)))"

subsection \<open>Kinds\<close>

definition KindIsNumber :: "kind \<Rightarrow> bool" where
  "KindIsNumber k \<longleftrightarrow>
     k \<in> {KInt, KInt8, KInt16, KInt32, KInt64, KUint, KUint8, KUint16, KUint32, KUint64, KFloat32, KFloat64}"

definition PrimitiveKindIsEmpty :: "kind \<Rightarrow> goval \<Rightarrow> bool call" where
  "PrimitiveKindIsEmpty k v =
     (if KindIsNumber k then (case go_eq (intv 0) v of None \<Rightarrow> Panics | Some b \<Rightarrow> Returns b)
      else if k = KString then (case go_eq (str []) v of None \<Rightarrow> Panics | Some b \<Rightarrow> Returns b)
      else Returns False)"

definition IsPrimitiveKind :: "kind \<Rightarrow> bool" where
  "IsPrimitiveKind k \<longleftrightarrow>
     k \<in> {KString, KBool, KInt, KInt8, KInt16, KInt32, KInt64,
          KUint, KUint8, KUint16, KUint32, KUint64, KFloat32, KFloat64}"

definition NotPrimitiveKind :: "kind \<Rightarrow> bool" where "NotPrimitiveKind k \<longleftrightarrow> \<not> IsPrimitiveKind k"

lemma IsPrimitiveKind_iff: "IsPrimitiveKind k \<longleftrightarrow> KindIsNumber k \<or> k = KString \<or> k = KBool"
  by (cases k) (auto simp: IsPrimitiveKind_def KindIsNumber_def)

lemma KindIsNumber_iff: "KindIsNumber k \<longleftrightarrow> is_signed k \<or> is_unsigned k \<or> is_float k"
  by (cases k) (auto simp: KindIsNumber_def kind_class_defs)

subsection \<open>Numbers\<close>

definition parse_float_any :: "gostring \<Rightarrow> flt \<times> gerr option" where
  "parse_float_any s =
     (case ParseFloat 64 s of (f, e) \<Rightarrow> (f, map_option (\<lambda>_. LibErr ''strconv.ParseFloat'') e))"

text \<open>\<open>reflect.Indirect\<close>: the value a pointer points to with its static type, or the value itself;
  \<open>None\<close> is the invalid value.\<close>

definition indirect :: "goval \<Rightarrow> (gotype \<times> goval) option" where
  "indirect v =
     (case v of
        VPtr t p \<Rightarrow> (case p of None \<Rightarrow> None | Some (a, w) \<Rightarrow>
                      (case elem_of t of None \<Rightarrow> None | Some e \<Rightarrow> Some (e, w)))
      | _ \<Rightarrow> (case typeof v of None \<Rightarrow> None | Some t \<Rightarrow> Some (t, v)))"

text \<open>\<open>AnyValueToFloat\<close>: the type switch on the predeclared types first, then reflection. Both
  results are kept, as in the source, whose callers may look at the number beside an error.\<close>

definition AnyValueToFloat :: "(kind \<Rightarrow> flt \<Rightarrow> int) \<Rightarrow> goval \<Rightarrow> (flt \<times> gerr option) call" where
  "AnyValueToFloat impl v =
     (let reflected =
        (case indirect v of
           None \<Rightarrow> Panics
         | Some (t, w) \<Rightarrow>
             if convertible_to t TFloat64 then
               (case go_convert impl w TFloat64 of VFloat _ f \<Rightarrow> Returns (f, None) | _ \<Rightarrow> Panics)
             else if convertible_to t TString then
               (case go_convert impl w TString of VString _ s \<Rightarrow> Returns (parse_float_any s) | _ \<Rightarrow> Panics)
             else Returns (FNaN, Some (Errorf ''cannot convert %v to float64'' [])))
      in case v of
           VInt (TBasic k) i \<Rightarrow> (if k = KUintptr then reflected else Returns (float64_of_int i, None))
         | VFloat (TBasic k) f \<Rightarrow> Returns (f, None)
         | VString (TBasic k) s \<Rightarrow> Returns (parse_float_any s)
         | _ \<Rightarrow> reflected)"

text \<open>\<open>SafeConvert\<close>; \<open>VNil\<close> is the invalid value.\<close>

definition number_to_number :: "(kind \<Rightarrow> flt \<Rightarrow> int) \<Rightarrow> flt \<Rightarrow> gotype \<Rightarrow> goval" where
  "number_to_number impl f t =
     (let k = kind_of t
      in if k = KFloat32 then VFloat t (round_to KFloat32 f)
         else if k = KFloat64 then VFloat t f
         else VInt t (flt_to_int impl k f))"

definition SafeConvert :: "(kind \<Rightarrow> flt \<Rightarrow> int) \<Rightarrow> goval \<Rightarrow> gotype \<Rightarrow> (gerr + goval) call" where
  "SafeConvert impl v t =
     (case typeof v of
        None \<Rightarrow> Returns (Inl (Errorf ''cannot convert invalid value to %v'' []))
      | Some tv \<Rightarrow>
          if convertible_to tv t then Returns (Inr (go_convert impl v t))
          else if KindIsNumber (kind_of tv) \<and> KindIsNumber (kind_of t) then
            bind_call (AnyValueToFloat impl v) (\<lambda>(f, _). Returns (Inr (number_to_number impl f t)))
          else Returns (Inl (Errorf ''cannot convert %v to %v'' [])))"

text \<open>The soft conversions between numbers are never reached: every two number kinds are
  convertible.\<close>

lemma number_kinds_convertible:
  "KindIsNumber (kind_of s) \<Longrightarrow> KindIsNumber (kind_of t) \<Longrightarrow> convertible_to s t"
  by (auto simp: convertible_to_def KindIsNumber_iff is_integer_def Let_def)

lemma SafeConvert_eq:
  "SafeConvert impl v t =
     (case typeof v of
        None \<Rightarrow> Returns (Inl (Errorf ''cannot convert invalid value to %v'' []))
      | Some tv \<Rightarrow> Returns (if convertible_to tv t then Inr (go_convert impl v t)
                            else Inl (Errorf ''cannot convert %v to %v'' [])))"
  by (auto simp: SafeConvert_def number_kinds_convertible split: option.split)

subsection \<open>Primitives from strings\<close>

definition nonPrimitive :: goval where
  "nonPrimitive =
     (let t = TNamed ''utils.nonPrimitiveType'' [] [] (TStruct []) in VPtr (TPointer t) (Some (0, VStruct t [])))"

definition ParseBool :: "gostring \<Rightarrow> bool option" where
  "ParseBool s =
     (if s \<in> {''1'', ''t'', ''T'', ''TRUE'', ''true'', ''True''} then Some True
      else if s \<in> {''0'', ''f'', ''F'', ''FALSE'', ''false'', ''False''} then Some False
      else None)"

text \<open>The bit size 0 stands for \<open>int\<close> and \<open>uint\<close>, which have 64 bits. The conversion after the parse
  is the one of the source: it wraps, and only the parse keeps it from doing so.\<close>

definition bits :: "nat \<Rightarrow> nat" where "bits n = (if n = 0 then 64 else n)"

definition unknown_int :: "nat \<Rightarrow> gerr" where
  "unknown_int n = Errorf ''unknown int type 'int%d' passed as value'' [intv (int n)]"

definition toIntX :: "gostring \<Rightarrow> nat \<Rightarrow> goval \<times> gerr option" where
  "toIntX s bitSize =
     (case ParseInt (bits bitSize) s of
        None \<Rightarrow> (VNil, Some (errNew ''error converting value to int type''))
      | Some i \<Rightarrow>
          if bitSize = 0 then (VInt (TBasic KInt) (wrap_int KInt i), None)
          else if bitSize = 8 then (VInt (TBasic KInt8) (wrap_int KInt8 i), None)
          else if bitSize = 16 then (VInt (TBasic KInt16) (wrap_int KInt16 i), None)
          else if bitSize = 32 then (VInt (TBasic KInt32) (wrap_int KInt32 i), None)
          else if bitSize = 64 then (VInt (TBasic KInt64) (wrap_int KInt64 i), None)
          else (VNil, Some (unknown_int bitSize)))"

definition toUintX :: "gostring \<Rightarrow> nat \<Rightarrow> goval \<times> gerr option" where
  "toUintX s bitSize =
     (case ParseUint (bits bitSize) s of
        None \<Rightarrow> (VNil, Some (LibErr ''strconv.ParseUint''))
      | Some n \<Rightarrow>
          if bitSize = 0 then (VInt (TBasic KUint) (wrap_int KUint (int n)), None)
          else if bitSize = 8 then (VInt (TBasic KUint8) (wrap_int KUint8 (int n)), None)
          else if bitSize = 16 then (VInt (TBasic KUint16) (wrap_int KUint16 (int n)), None)
          else if bitSize = 32 then (VInt (TBasic KUint32) (wrap_int KUint32 (int n)), None)
          else if bitSize = 64 then (VInt (TBasic KUint64) (wrap_int KUint64 (int n)), None)
          else (VNil, Some (unknown_int bitSize)))"

definition PrimitiveFromStr :: "kind \<Rightarrow> gostring \<Rightarrow> goval \<times> gerr option" where
  "PrimitiveFromStr k s =
     (if k = KString then (if s = [] then (VNil, None) else (str s, None))
      else if k = KBool then
        (case ParseBool s of
           None \<Rightarrow> (boolv False, Some (LibErr ''strconv.ParseBool'')) | Some b \<Rightarrow> (boolv b, None))
      else if k = KInt then toIntX s 0
      else if k = KInt8 then toIntX s 8
      else if k = KInt16 then toIntX s 16
      else if k = KInt32 then toIntX s 32
      else if k = KInt64 then toIntX s 64
      else if k = KUint then toUintX s 0
      else if k = KUint8 then toUintX s 8
      else if k = KUint16 then toUintX s 16
      else if k = KUint32 then toUintX s 32
      else if k = KUint64 then toUintX s 64
      else if k = KFloat32 \<or> k = KFloat64 then
        (case ParseFloat (if k = KFloat32 then 32 else 64) s of
           (f, None) \<Rightarrow> (VFloat (TBasic k) f, None)
         | (f, Some e) \<Rightarrow> (VNil, Some (LibErr ''strconv.ParseFloat'')))
      else (nonPrimitive, None))"

definition IsPrimitive :: "goval \<Rightarrow> bool call" where
  "IsPrimitive v = (case go_eq v nonPrimitive of None \<Rightarrow> Panics | Some b \<Rightarrow> Returns (\<not> b))"
definition NotPrimitive :: "goval \<Rightarrow> bool call" where
  "NotPrimitive v = (case go_eq v nonPrimitive of None \<Rightarrow> Panics | Some b \<Rightarrow> Returns b)"

lemma nat_below_pow: "int n < 2 ^ w \<longleftrightarrow> n < 2 ^ w" "int n \<le> 2 ^ w \<longleftrightarrow> n \<le> 2 ^ w"
  by (metis of_nat_less_iff of_nat_numeral of_nat_power) (metis of_nat_le_iff of_nat_numeral of_nat_power)

text \<open>Parsing at a width is parsing at 64 bits and looking at the range.\<close>

lemma ParseInt_narrow:
  assumes "w \<le> v"
  shows "ParseInt w s = Some i \<longleftrightarrow> ParseInt v s = Some i \<and> - (2 ^ (w - 1)) \<le> i \<and> i < 2 ^ (w - 1)"
proof (cases s)
  case (Cons c r)
  have "(2 :: nat) ^ (w - 1) \<le> 2 ^ (v - 1)" using assms by (intro power_increasing) auto
  then have p: "n \<le> 2 ^ (w - 1) \<Longrightarrow> n \<le> 2 ^ (v - 1)" "n < 2 ^ (w - 1) \<Longrightarrow> n < 2 ^ (v - 1)" for n :: nat by linarith+
  have z: "- (2 ^ (w - 1)) \<le> (0 :: int)" "(0 :: int) < 2 ^ (w - 1)" by simp_all
  show ?thesis
  proof (cases "c = CHR ''-''")
    case True
    have "- int n < 2 ^ (w - 1)" for n by (rule order.strict_trans1[OF _ z(2)]) simp
    with p show ?thesis
      by (auto simp: Cons True ParseInt_def nat_below_pow split: option.split)
  next
    case False
    have "- (2 ^ (w - 1)) \<le> int n" for n by (rule order_trans[OF z(1)]) simp
    with p show ?thesis
      by (auto simp: Cons False ParseInt_def nat_below_pow split: option.split)
  qed
qed (simp add: ParseInt_def)

lemma ParseUint_narrow:
  assumes "w \<le> v"
  shows "ParseUint w s = Some n \<longleftrightarrow> ParseUint v s = Some n \<and> int n < 2 ^ w"
proof -
  have "(2 :: nat) ^ w \<le> 2 ^ v" using assms by (intro power_increasing) auto
  then have "n < 2 ^ w \<Longrightarrow> n < 2 ^ v" for n :: nat by linarith
  then show ?thesis by (auto simp: ParseUint_def nat_below_pow split: option.split)
qed

lemma width_le_64: "width_of k \<le> 64"
  by (cases k) simp_all

lemma ParseInt_kind: "is_signed k \<Longrightarrow> ParseInt (width_of k) s = Some i \<longleftrightarrow> ParseInt 64 s = Some i \<and> in_range k i"
  using ParseInt_narrow[OF width_le_64[of k]] by (simp add: in_range_def)

lemma ParseUint_kind: "is_unsigned k \<Longrightarrow> ParseUint (width_of k) s = Some n \<longleftrightarrow> ParseUint 64 s = Some n \<and> in_range k (int n)"
  using ParseUint_narrow[OF width_le_64[of k]] by (auto simp: in_range_def kind_class_defs)

text \<open>The switches on the bit size pick the kind that was asked for, and the conversion changes nothing.\<close>

lemma toIntX_at:
  "toIntX s 0 = (case ParseInt (width_of KInt) s of None \<Rightarrow> (VNil, Some (errNew ''error converting value to int type''))
      | Some i \<Rightarrow> (VInt (TBasic KInt) (wrap_int KInt i), None))"
  "toIntX s 8 = (case ParseInt (width_of KInt8) s of None \<Rightarrow> (VNil, Some (errNew ''error converting value to int type''))
      | Some i \<Rightarrow> (VInt (TBasic KInt8) (wrap_int KInt8 i), None))"
  "toIntX s 16 = (case ParseInt (width_of KInt16) s of None \<Rightarrow> (VNil, Some (errNew ''error converting value to int type''))
      | Some i \<Rightarrow> (VInt (TBasic KInt16) (wrap_int KInt16 i), None))"
  "toIntX s 32 = (case ParseInt (width_of KInt32) s of None \<Rightarrow> (VNil, Some (errNew ''error converting value to int type''))
      | Some i \<Rightarrow> (VInt (TBasic KInt32) (wrap_int KInt32 i), None))"
  "toIntX s 64 = (case ParseInt (width_of KInt64) s of None \<Rightarrow> (VNil, Some (errNew ''error converting value to int type''))
      | Some i \<Rightarrow> (VInt (TBasic KInt64) (wrap_int KInt64 i), None))"
  by (simp_all add: toIntX_def bits_def cong: option.case_cong)

lemma toUintX_at:
  "toUintX s 0 = (case ParseUint (width_of KUint) s of None \<Rightarrow> (VNil, Some (LibErr ''strconv.ParseUint''))
      | Some n \<Rightarrow> (VInt (TBasic KUint) (wrap_int KUint (int n)), None))"
  "toUintX s 8 = (case ParseUint (width_of KUint8) s of None \<Rightarrow> (VNil, Some (LibErr ''strconv.ParseUint''))
      | Some n \<Rightarrow> (VInt (TBasic KUint8) (wrap_int KUint8 (int n)), None))"
  "toUintX s 16 = (case ParseUint (width_of KUint16) s of None \<Rightarrow> (VNil, Some (LibErr ''strconv.ParseUint''))
      | Some n \<Rightarrow> (VInt (TBasic KUint16) (wrap_int KUint16 (int n)), None))"
  "toUintX s 32 = (case ParseUint (width_of KUint32) s of None \<Rightarrow> (VNil, Some (LibErr ''strconv.ParseUint''))
      | Some n \<Rightarrow> (VInt (TBasic KUint32) (wrap_int KUint32 (int n)), None))"
  "toUintX s 64 = (case ParseUint (width_of KUint64) s of None \<Rightarrow> (VNil, Some (LibErr ''strconv.ParseUint''))
      | Some n \<Rightarrow> (VInt (TBasic KUint64) (wrap_int KUint64 (int n)), None))"
  by (simp_all add: toUintX_def bits_def cong: option.case_cong)

lemma PrimitiveFromStr_signed:
  assumes "is_signed k"
  shows "PrimitiveFromStr k s =
    (case ParseInt (width_of k) s of
       None \<Rightarrow> (VNil, Some (errNew ''error converting value to int type'')) | Some i \<Rightarrow> (VInt (TBasic k) i, None))"
proof -
  have "PrimitiveFromStr k s =
    (case ParseInt (width_of k) s of
       None \<Rightarrow> (VNil, Some (errNew ''error converting value to int type'')) | Some i \<Rightarrow> (VInt (TBasic k) (wrap_int k i), None))"
    using assms by (cases k) (simp_all add: PrimitiveFromStr_def toIntX_at is_signed_def signed_kinds_def cong: option.case_cong)
  moreover have "wrap_int k i = i" if "ParseInt (width_of k) s = Some i" for i
    using that assms by (simp add: ParseInt_kind wrap_int_id)
  ultimately show ?thesis by (simp split: option.split)
qed

lemma PrimitiveFromStr_unsigned:
  assumes "is_unsigned k"
  shows "PrimitiveFromStr k s =
    (case ParseUint (width_of k) s of
       None \<Rightarrow> (VNil, Some (LibErr ''strconv.ParseUint'')) | Some n \<Rightarrow> (VInt (TBasic k) (int n), None))"
proof -
  have "PrimitiveFromStr k s =
    (case ParseUint (width_of k) s of
       None \<Rightarrow> (VNil, Some (LibErr ''strconv.ParseUint'')) | Some n \<Rightarrow> (VInt (TBasic k) (wrap_int k (int n)), None))"
    using assms by (cases k) (simp_all add: PrimitiveFromStr_def toUintX_at is_unsigned_def unsigned_kinds_def cong: option.case_cong)
  moreover have "wrap_int k (int n) = int n" if "ParseUint (width_of k) s = Some n" for n
    using that assms by (simp add: ParseUint_kind wrap_int_id)
  ultimately show ?thesis by (simp split: option.split)
qed

lemma primitive_kind_cases:
  assumes "IsPrimitiveKind k"
  obtains "k = KString" | "k = KBool" | "is_signed k" | "is_unsigned k" | "k = KFloat32" | "k = KFloat64"
  using assms by (auto simp: IsPrimitiveKind_iff KindIsNumber_iff is_float_def)

lemma PrimitiveFromStr_typed:
  assumes "PrimitiveFromStr k s = (v, None)" "IsPrimitiveKind k" "k = KString \<longrightarrow> s \<noteq> []"
  shows "typeof v = Some (TBasic k) \<and> well_typed v"
  using assms(2)
proof (cases rule: primitive_kind_cases)
  case 3
  with assms show ?thesis
    by (auto simp: PrimitiveFromStr_signed ParseInt_kind is_integer_def split: option.splits)
next
  case 4
  with assms show ?thesis
    by (auto simp: PrimitiveFromStr_unsigned ParseUint_kind is_integer_def split: option.splits)
qed (use assms in \<open>auto simp: PrimitiveFromStr_def kind_class_defs split: option.splits prod.splits\<close>)

text \<open>C13. A string bound to a primitive kind becomes a value of exactly that kind or an error, and an
  integer is the number the text denotes: no conversion wraps, and an integer kind refuses a text
  only if it denotes no number of 64 bits or one outside the kind. An empty string of kind
  \<open>string\<close> becomes nil without an error.\<close>
theorem primitive_has_its_kind:
  assumes "IsPrimitiveKind k"
  shows "case PrimitiveFromStr k s of
      (v, Some e) \<Rightarrow>
        (is_signed k \<longrightarrow> \<not> (\<exists>i. ParseInt 64 s = Some i \<and> in_range k i))
        \<and> (is_unsigned k \<longrightarrow> \<not> (\<exists>n. ParseUint 64 s = Some n \<and> in_range k (int n)))
    | (v, None) \<Rightarrow>
        if k = KString \<and> s = [] then v = VNil
        else typeof v = Some (TBasic k) \<and> well_typed v
          \<and> (is_signed k \<longrightarrow> (\<exists>i. v = VInt (TBasic k) i \<and> ParseInt 64 s = Some i))
          \<and> (is_unsigned k \<longrightarrow> (\<exists>n. v = VInt (TBasic k) (int n) \<and> ParseUint 64 s = Some n))"
  using assms
proof (cases rule: primitive_kind_cases)
  case 3
  moreover have "\<not> is_unsigned k" "k \<noteq> KString" using 3 by (auto simp: kind_class_defs)
  ultimately show ?thesis
    using ParseInt_kind[OF 3, of s] by (auto simp: PrimitiveFromStr_signed is_integer_def split: option.split)
next
  case 4
  moreover have "\<not> is_signed k" "k \<noteq> KString" using 4 by (auto simp: kind_class_defs)
  ultimately show ?thesis
    using ParseUint_kind[OF 4, of s] by (auto simp: PrimitiveFromStr_unsigned is_integer_def split: option.split)
qed (auto simp: PrimitiveFromStr_def kind_class_defs split: option.split prod.split)

theorem primitive_has_its_kind_witness:
  "IsPrimitiveKind KInt8 \<and> ParseInt 64 ''-128'' = Some (-128)
   \<and> PrimitiveFromStr KInt8 ''-128'' = (VInt (TBasic KInt8) (-128), None)
   \<and> snd (PrimitiveFromStr KInt8 ''300'') \<noteq> None"
proof -
  have k: "IsPrimitiveKind KInt8" "is_signed KInt8" and p: "PrimitiveFromStr KInt8 ''-128'' = (VInt (TBasic KInt8) (-128), None)"
    and e: "snd (PrimitiveFromStr KInt8 ''300'') \<noteq> None"
    by code_simp+
  from primitive_has_its_kind[OF k(1), of "''-128''"] k p e show ?thesis by simp
qed

lemma PrimitiveFromStr_Itoa:
  assumes "is_signed k" "in_range k i" shows "PrimitiveFromStr k (Itoa i) = (VInt (TBasic k) i, None)"
proof -
  have "ParseInt (width_of k) (Itoa i) = Some i"
    using assms by (intro ParseInt_Itoa) (auto simp: in_range_def)
  with assms(1) show ?thesis by (simp add: PrimitiveFromStr_signed)
qed

subsection \<open>Formats\<close>

definition rawMessageType :: gotype where
  "rawMessageType = TNamed ''json.RawMessage'' [''MarshalJSON''] [''UnmarshalJSON''] (TSlice (TBasic KUint8))"

definition CookieType :: gotype where
  "CookieType = TNamed ''http.Cookie'' [] [''String'', ''Valid''] (TStruct [])"

definition ImplementsJSONMarshaler :: "gotype \<Rightarrow> bool" where
  "ImplementsJSONMarshaler t \<longleftrightarrow> implements t [''MarshalJSON''] \<or> implements (TPointer t) [''MarshalJSON'']"
definition ImplementsJSONUnmarshaler :: "gotype \<Rightarrow> bool" where
  "ImplementsJSONUnmarshaler t \<longleftrightarrow> implements t [''UnmarshalJSON''] \<or> implements (TPointer t) [''UnmarshalJSON'']"

definition IsByteSlice :: "gotype \<Rightarrow> bool" where
  "IsByteSlice t \<longleftrightarrow>
     \<not> (ImplementsJSONMarshaler t \<or> ImplementsJSONUnmarshaler t)
     \<and> (kind_of t = KSlice \<or> kind_of t = KArray)
     \<and> (case elem_of t of None \<Rightarrow> False | Some e \<Rightarrow> kind_of e = KUint8)"

definition IsRawJSON :: "gotype \<Rightarrow> bool" where
  "IsRawJSON t \<longleftrightarrow> t = rawMessageType \<or> ImplementsJSONMarshaler t \<or> ImplementsJSONUnmarshaler t"

definition ValidCookieType :: "gotype \<Rightarrow> bool" where
  "ValidCookieType t0 =
     (let t = (if kind_of t0 = KPointer then (case elem_of t0 of None \<Rightarrow> t0 | Some e \<Rightarrow> e) else t0)
      in IsPrimitiveKind (kind_of t) \<or> t = CookieType)"

lemma raw_json_not_bytes: "IsRawJSON t \<Longrightarrow> \<not> IsByteSlice t"
  by (auto simp: IsRawJSON_def IsByteSlice_def rawMessageType_def ImplementsJSONMarshaler_def implements_def)

end
