(* ===== verification/Regex.thy ===== *)
theory Regex
  imports Utf8
begin

section \<open>Regular expressions\<close>

text \<open>
  The fragment of package \<open>regexp\<close> the rules use: the syntax of a pattern, its language over
  runes, and a matcher by derivatives. \<open>MatchString\<close> searches for a match unless the pattern is
  anchored. Groups do not capture and laziness does not change what is matched, so both are
  dropped by the parser.
\<close>

subsection \<open>Classes, expressions and their languages\<close>

datatype citem = CRange nat nat | CProp gostring
datatype cclass = CClass (cl_neg: bool) (cl_fold: bool) (cl_items: "citem list")

datatype re = RNone | REps | RChr cclass | RAlt re re | RConc re re | RStar re

text \<open>The Unicode tables behind \<open>\\p{L}\<close> and \<open>\\p{N}\<close> are a parameter \<open>uni\<close>.\<close>

type_synonym unitab = "gostring \<Rightarrow> rune \<Rightarrow> bool"

fun in_item :: "unitab \<Rightarrow> rune \<Rightarrow> citem \<Rightarrow> bool" where
  "in_item uni c (CRange a b) = (a \<le> c \<and> c \<le> b)"
| "in_item uni c (CProp p) = uni p c"

text \<open>The runes equal to \<open>c\<close> up to case: an ASCII letter folds to its other case, \<open>k\<close> to the Kelvin
  sign and \<open>s\<close> to the long s as well.\<close>

definition fold_orbit :: "rune \<Rightarrow> rune list" where
  "fold_orbit c =
     (if c \<in> {75, 107, 8490} then [75, 107, 8490]
      else if c \<in> {83, 115, 383} then [83, 115, 383]
      else if 65 \<le> c \<and> c \<le> 90 then [c, c + 32]
      else if 97 \<le> c \<and> c \<le> 122 then [c, c - 32]
      else [c])"

definition in_class :: "unitab \<Rightarrow> cclass \<Rightarrow> rune \<Rightarrow> bool" where
  "in_class uni cl c \<longleftrightarrow>
     (list_ex (\<lambda>d. list_ex (in_item uni d) (cl_items cl)) (if cl_fold cl then fold_orbit c else [c]))
     \<noteq> cl_neg cl"

inductive_set star_lang :: "'a list set \<Rightarrow> 'a list set" for L where
  star_Nil: "[] \<in> star_lang L"
| star_app: "u \<in> L \<Longrightarrow> v \<in> star_lang L \<Longrightarrow> u @ v \<in> star_lang L"

fun lang :: "unitab \<Rightarrow> re \<Rightarrow> rune list set" where
  "lang uni RNone = {}"
| "lang uni REps = {[]}"
| "lang uni (RChr cl) = {[c] | c. in_class uni cl c}"
| "lang uni (RAlt r s) = lang uni r \<union> lang uni s"
| "lang uni (RConc r s) = {u @ v | u v. u \<in> lang uni r \<and> v \<in> lang uni s}"
| "lang uni (RStar r) = star_lang (lang uni r)"

definition any_rune :: cclass where "any_rune = CClass True False []"

lemma in_any_rune [simp]: "in_class uni any_rune c"
  by (simp add: in_class_def any_rune_def)

subsection \<open>Derivatives\<close>

fun nullable :: "re \<Rightarrow> bool" where
  "nullable RNone = False"
| "nullable REps = True"
| "nullable (RChr cl) = False"
| "nullable (RAlt r s) = (nullable r \<or> nullable s)"
| "nullable (RConc r s) = (nullable r \<and> nullable s)"
| "nullable (RStar r) = True"

text \<open>Constructors that keep the derivatives small.\<close>

fun is_branch :: "re \<Rightarrow> re \<Rightarrow> bool" where
  "is_branch r (RAlt a b) = (r = a \<or> is_branch r b)"
| "is_branch r s = (r = s)"

fun mk_alt :: "re \<Rightarrow> re \<Rightarrow> re" where
  "mk_alt RNone s = s"
| "mk_alt (RAlt a b) s = mk_alt a (mk_alt b s)"
| "mk_alt r s = (if s = RNone then r else if is_branch r s then s else RAlt r s)"

fun mk_conc :: "re \<Rightarrow> re \<Rightarrow> re" where
  "mk_conc RNone s = RNone"
| "mk_conc REps s = s"
| "mk_conc r s = (if s = RNone then RNone else RConc r s)"

fun deriv :: "unitab \<Rightarrow> rune \<Rightarrow> re \<Rightarrow> re" where
  "deriv uni c RNone = RNone"
| "deriv uni c REps = RNone"
| "deriv uni c (RChr cl) = (if in_class uni cl c then REps else RNone)"
| "deriv uni c (RAlt r s) = mk_alt (deriv uni c r) (deriv uni c s)"
| "deriv uni c (RConc r s) =
     (if nullable r then mk_alt (mk_conc (deriv uni c r) s) (deriv uni c s) else mk_conc (deriv uni c r) s)"
| "deriv uni c (RStar r) = mk_conc (deriv uni c r) (RStar r)"

fun accepts :: "unitab \<Rightarrow> re \<Rightarrow> rune list \<Rightarrow> bool" where
  "accepts uni r [] = nullable r"
| "accepts uni r (c # w) = (if r = RNone then False else accepts uni (deriv uni c r) w)"

lemma is_branch_lang: "is_branch r s \<Longrightarrow> lang uni r \<subseteq> lang uni s"
  by (induction r s rule: is_branch.induct) auto

lemma lang_mk_alt [simp]: "lang uni (mk_alt r s) = lang uni r \<union> lang uni s"
  by (induction r s rule: mk_alt.induct)
     (simp_all add: Un_assoc is_branch_lang Un_absorb1 del: lang.simps(2,3,5,6))

lemma lang_mk_conc [simp]: "lang uni (mk_conc r s) = lang uni (RConc r s)"
  by (cases "(r, s)" rule: mk_conc.cases) auto

lemma nullable_iff: "nullable r \<longleftrightarrow> [] \<in> lang uni r"
  by (induction r) (auto intro: star_Nil)

lemma star_lang_Cons:
  "c # w \<in> star_lang L \<longleftrightarrow> (\<exists>u v. w = u @ v \<and> c # u \<in> L \<and> v \<in> star_lang L)"
proof
  assume "c # w \<in> star_lang L"
  then show "\<exists>u v. w = u @ v \<and> c # u \<in> L \<and> v \<in> star_lang L"
  proof (induction "c # w" arbitrary: c w)
    case (star_app u v)
    then show ?case by (cases u) auto
  qed
next
  assume "\<exists>u v. w = u @ v \<and> c # u \<in> L \<and> v \<in> star_lang L"
  then show "c # w \<in> star_lang L" using star_app[of "c # _" L] by fastforce
qed

lemma lang_deriv: "w \<in> lang uni (deriv uni c r) \<longleftrightarrow> c # w \<in> lang uni r"
proof (induction r arbitrary: w)
  case (RConc r s)
  show ?case
  proof (cases "nullable r")
    case True
    then have "[] \<in> lang uni r" by (simp add: nullable_iff[of _ uni])
    with True RConc show ?thesis by (auto simp: Cons_eq_append_conv)
  next
    case False
    then have "[] \<notin> lang uni r" by (simp add: nullable_iff[of _ uni])
    with False RConc show ?thesis by (auto simp: Cons_eq_append_conv)
  qed
next
  case (RStar r)
  then show ?case by (auto simp: star_lang_Cons)
qed auto

lemma accepts_iff: "accepts uni r w \<longleftrightarrow> w \<in> lang uni r"
proof (induction w arbitrary: r)
  case Nil
  then show ?case by (simp add: nullable_iff)
next
  case (Cons c w)
  then show ?case by (auto simp: lang_deriv)
qed

subsection \<open>Patterns\<close>

text \<open>A compiled pattern: whether it is anchored at the beginning, the expression, and whether it
  is anchored at the end.\<close>

type_synonym pattern = "bool \<times> re \<times> bool"

fun pattern_re :: "pattern \<Rightarrow> re" where
  "pattern_re (b, r, e) =
     (let r1 = (if b then r else RConc (RStar (RChr any_rune)) r)
      in if e then r1 else RConc r1 (RStar (RChr any_rune)))"

definition MatchString :: "unitab \<Rightarrow> pattern \<Rightarrow> gostring \<Rightarrow> bool" where
  "MatchString uni p s \<longleftrightarrow> accepts uni (pattern_re p) (runes s)"

lemma star_any [simp]: "star_lang {[c] | c. in_class uni any_rune c} = UNIV"
proof (intro set_eqI iffI)
  fix w :: "rune list"
  show "w \<in> star_lang {[c] | c. in_class uni any_rune c}"
  proof (induction w)
    case (Cons c w)
    then show ?case using star_app[of "[c]"] by simp
  qed (rule star_Nil)
qed simp

lemma MatchString_iff:
  "MatchString uni (b, r, e) s \<longleftrightarrow>
   (\<exists>u v w. runes s = u @ v @ w \<and> (b \<longrightarrow> u = []) \<and> (e \<longrightarrow> w = []) \<and> v \<in> lang uni r)"
  by (cases b; cases e; simp add: MatchString_def accepts_iff del: in_any_rune)
     (metis append_assoc append_Nil append_Nil2 | (auto simp: append_eq_append_conv2; metis))+

lemma MatchString_anchored: "MatchString uni (True, r, True) s \<longleftrightarrow> runes s \<in> lang uni r"
  by (simp add: MatchString_def accepts_iff)

subsection \<open>Derived forms\<close>

definition RPlus :: "re \<Rightarrow> re" where "RPlus r = RConc r (RStar r)"
definition ROpt :: "re \<Rightarrow> re" where "ROpt r = RAlt REps r"

fun RPow :: "re \<Rightarrow> nat \<Rightarrow> re" where
  "RPow r 0 = REps"
| "RPow r (Suc n) = (if n = 0 then r else RConc r (RPow r n))"

text \<open>At most \<open>n\<close> copies.\<close>

fun RUpTo :: "re \<Rightarrow> nat \<Rightarrow> re" where
  "RUpTo r 0 = REps"
| "RUpTo r (Suc n) = RAlt REps (RConc r (RUpTo r n))"

definition RRepeat :: "re \<Rightarrow> nat \<Rightarrow> nat option \<Rightarrow> re" where
  "RRepeat r n m =
     (case m of
        None \<Rightarrow> RConc (RPow r n) (RStar r)
      | Some k \<Rightarrow> if k = n then RPow r n else RConc (RPow r n) (RUpTo r (k - n)))"

lemma lang_star_chr: "lang uni (RStar (RChr cl)) = {w. list_all (in_class uni cl) w}"
proof (intro set_eqI iffI CollectI)
  fix w assume "w \<in> lang uni (RStar (RChr cl))"
  then have "w \<in> star_lang {[c] | c. in_class uni cl c}" by simp
  then show "list_all (in_class uni cl) w" by induction auto
next
  fix w assume "w \<in> {w. list_all (in_class uni cl) w}"
  then have "list_all (in_class uni cl) w" by simp
  then have "w \<in> star_lang {[c] | c. in_class uni cl c}"
  proof (induction w)
    case (Cons c w)
    then show ?case using star_app[of "[c]"] by simp
  qed (auto intro: star_Nil)
  then show "w \<in> lang uni (RStar (RChr cl))" by simp
qed

lemma lang_conc_chr:
  "w \<in> lang uni (RConc (RChr cl) s) \<longleftrightarrow> (\<exists>c v. w = c # v \<and> in_class uni cl c \<and> v \<in> lang uni s)"
  by (auto intro: exI[of _ "[_]"])

lemma lang_conc_chr_Cons:
  "c # v \<in> lang uni (RConc (RChr cl) s) \<longleftrightarrow> in_class uni cl c \<and> v \<in> lang uni s"
  "[] \<notin> lang uni (RConc (RChr cl) s)"
  unfolding lang_conc_chr by simp_all

lemma lang_plus_chr: "lang uni (RPlus (RChr cl)) = {w. w \<noteq> [] \<and> list_all (in_class uni cl) w}"
proof (intro set_eqI)
  fix w
  show "w \<in> lang uni (RPlus (RChr cl)) \<longleftrightarrow> w \<in> {w. w \<noteq> [] \<and> list_all (in_class uni cl) w}"
    by (cases w) (simp_all add: RPlus_def lang_conc_chr_Cons lang_star_chr del: lang.simps)
qed

lemma lang_pow_chr: "lang uni (RPow (RChr cl) n) = {w. length w = n \<and> list_all (in_class uni cl) w}"
proof (induction n)
  case (Suc n)
  show ?case
  proof (cases "n = 0")
    case True
    then show ?thesis by (auto simp: length_Suc_conv)
  next
    case False
    then have "w \<in> lang uni (RPow (RChr cl) (Suc n)) \<longleftrightarrow> length w = Suc n \<and> list_all (in_class uni cl) w" for w
      using Suc by (cases w) (simp_all add: lang_conc_chr_Cons conj_ac del: lang.simps)
    then show ?thesis by blast
  qed
qed auto

lemma lang_upto_chr: "lang uni (RUpTo (RChr cl) n) = {w. length w \<le> n \<and> list_all (in_class uni cl) w}"
proof (induction n)
  case (Suc n)
  have "w \<in> lang uni (RUpTo (RChr cl) (Suc n)) \<longleftrightarrow> length w \<le> Suc n \<and> list_all (in_class uni cl) w" for w
    using Suc by (cases w) (simp_all add: lang_conc_chr_Cons conj_ac lang.simps(2,4) del: lang.simps(5))
  then show ?case by blast
qed auto

subsection \<open>The syntax of patterns\<close>

text \<open>
  A recursive-descent reader of the pattern, over its runes. The escapes, the classes, the groups
  \<open>( )\<close> and \<open>(?: )\<close>, alternation, \<open>* + ? {n} {n,} {n,m}\<close> with an optional lazy mark and the flag
  \<open>(?i)\<close> are read; \<open>None\<close> is a pattern outside the fragment. Each level of nesting and each atom
  uses one unit of fuel, and \<open>compile\<close> gives as much as the pattern is long.
\<close>

definition digit_rune :: "rune \<Rightarrow> bool" where "digit_rune c \<longleftrightarrow> 48 \<le> c \<and> c \<le> 57"
definition hex_rune :: "rune \<Rightarrow> nat option" where
  "hex_rune c =
     (if digit_rune c then Some (c - 48) else if 97 \<le> c \<and> c \<le> 102 then Some (c - 87)
      else if 65 \<le> c \<and> c \<le> 70 then Some (c - 55) else None)"

fun read_hex :: "rune list \<Rightarrow> nat \<Rightarrow> (nat \<times> rune list) option" where
  "read_hex [] v = None"
| "read_hex (c # s) v =
     (if c = 125 then Some (v, s)
      else case hex_rune c of None \<Rightarrow> None | Some h \<Rightarrow> read_hex s (16 * v + h))"

text \<open>After a backslash: a perl class, a Unicode class, a code point or a quoted character.\<close>

definition read_escape :: "rune list \<Rightarrow> (citem list \<times> rune list) option" where
  "read_escape s =
     (case s of
        [] \<Rightarrow> None
      | c # r \<Rightarrow>
          if c = 100 then Some ([CRange 48 57], r)
          else if c = 119 then Some ([CRange 48 57, CRange 65 90, CRange 95 95, CRange 97 122], r)
          else if c = 115 then Some ([CRange 9 10, CRange 12 13, CRange 32 32], r)
          else if c = 112 then
            (case r of
               b # n # e # r' \<Rightarrow> if b = 123 \<and> e = 125 then Some ([CProp [char_of n]], r') else None
             | _ \<Rightarrow> None)
          else if c = 120 then
            (case r of
               b # r' \<Rightarrow>
                 if b = 123 then (case read_hex r' 0 of None \<Rightarrow> None | Some (v, r'') \<Rightarrow> Some ([CRange v v], r''))
                 else (case r' of
                     d # r'' \<Rightarrow> (case (hex_rune b, hex_rune d) of
                         (Some h, Some l) \<Rightarrow> Some ([CRange (16 * h + l) (16 * h + l)], r'') | _ \<Rightarrow> None)
                   | [] \<Rightarrow> None)
             | [] \<Rightarrow> None)
          else if digit_rune c \<or> 65 \<le> c \<and> c \<le> 90 \<or> 97 \<le> c \<and> c \<le> 122 then None
          else Some ([CRange c c], r))"

text \<open>One element of a bracket class.\<close>

definition class_char :: "rune list \<Rightarrow> (citem list \<times> rune list) option" where
  "class_char s =
     (case s of [] \<Rightarrow> None | c # r \<Rightarrow> if c = 92 then read_escape r else Some ([CRange c c], r))"

fun read_class :: "nat \<Rightarrow> rune list \<Rightarrow> citem list \<Rightarrow> (citem list \<times> rune list) option" where
  "read_class 0 s acc = None"
| "read_class (Suc n) s acc =
     (if s \<noteq> [] \<and> hd s = 93 \<and> acc \<noteq> [] then Some (acc, tl s)
      else case class_char s of
          None \<Rightarrow> None
        | Some (lo, r) \<Rightarrow>
            (case (lo, r) of
               ([CRange a a'], d # e # r') \<Rightarrow>
                 if d = 45 \<and> e \<noteq> 93 then
                   (case class_char (e # r') of
                      Some ([CRange b b'], r'') \<Rightarrow> if a \<le> b then read_class n r'' (acc @ [CRange a b]) else None
                    | _ \<Rightarrow> None)
                 else read_class n r (acc @ lo)
             | _ \<Rightarrow> read_class n r (acc @ lo)))"

definition bracket :: "nat \<Rightarrow> bool \<Rightarrow> rune list \<Rightarrow> (re \<times> rune list) option" where
  "bracket n ci s =
     (let neg = (s \<noteq> [] \<and> hd s = 94)
      in map_option (\<lambda>(items, r). (RChr (CClass neg ci items), r)) (read_class n (if neg then tl s else s) []))"

fun read_num :: "rune list \<Rightarrow> nat \<Rightarrow> bool \<Rightarrow> (nat \<times> rune list) option" where
  "read_num [] v seen = None"
| "read_num (c # s) v seen =
     (if digit_rune c then read_num s (10 * v + (c - 48)) True
      else if seen then Some (v, c # s) else None)"

text \<open>A repetition operator after an atom.\<close>

definition skip_lazy :: "rune list \<Rightarrow> rune list" where
  "skip_lazy s = (if s \<noteq> [] \<and> hd s = 63 then tl s else s)"

definition postfix :: "re \<Rightarrow> rune list \<Rightarrow> re \<times> rune list" where
  "postfix r s =
     (case s of
        [] \<Rightarrow> (r, s)
      | c # t \<Rightarrow>
          if c = 42 then (RStar r, skip_lazy t)
          else if c = 43 then (RPlus r, skip_lazy t)
          else if c = 63 then (ROpt r, skip_lazy t)
          else if c = 123 then
            (case read_num t 0 False of
               Some (n, d # t') \<Rightarrow>
                 if d = 125 then (RRepeat r n (Some n), skip_lazy t')
                 else if d = 44 then
                   (if t' \<noteq> [] \<and> hd t' = 125 then (RRepeat r n None, skip_lazy (tl t'))
                    else case read_num t' 0 False of
                        Some (m, e # t'') \<Rightarrow>
                          if e = 125 \<and> n \<le> m then (RRepeat r n (Some m), skip_lazy t'') else (r, s)
                      | _ \<Rightarrow> (r, s))
                 else (r, s)
             | _ \<Rightarrow> (r, s))
          else (r, s))"

fun mk_seq :: "re list \<Rightarrow> re" where
  "mk_seq [] = REps"
| "mk_seq [r] = r"
| "mk_seq (r # rs) = RConc r (mk_seq rs)"

text \<open>\<open>read_alt\<close> reads up to a closing parenthesis or the end; \<open>alts\<close> are the finished branches
  and \<open>seq\<close> the atoms of the current one, both in reverse.\<close>

fun finish_alt :: "re list \<Rightarrow> re list \<Rightarrow> re" where
  "finish_alt [] seq = mk_seq (rev seq)"
| "finish_alt (a # as) seq = fold RAlt as (RAlt a (mk_seq (rev seq)))"

fun read_alt :: "nat \<Rightarrow> bool \<Rightarrow> rune list \<Rightarrow> re list \<Rightarrow> re list \<Rightarrow> (re \<times> rune list) option" where
  "read_alt 0 ci s alts seq = None"
| "read_alt (Suc n) ci s alts seq =
     (case s of
        [] \<Rightarrow> Some (finish_alt alts seq, [])
      | c # t \<Rightarrow>
          if c = 41 then Some (finish_alt alts seq, s)
          else if c = 124 then read_alt n ci t (mk_seq (rev seq) # alts) []
          else if c = 40 then
            (if take 3 t = [63, 105, 41] then read_alt n True (drop 3 t) alts seq
             else case read_alt n ci (if take 2 t = [63, 58] then drop 2 t else t) [] [] of
                 Some (r, d # t') \<Rightarrow>
                   if d = 41 then
                     (let (r', u) = postfix r t' in read_alt n ci u alts (r' # seq))
                   else None
               | _ \<Rightarrow> None)
          else
            (case (if c = 91 then bracket n ci t
                   else if c = 46 then Some (RChr (CClass True False [CRange 10 10]), t)
                   else if c = 92 then
                     map_option (\<lambda>(items, u). (RChr (CClass False ci items), u)) (read_escape t)
                   else if c \<in> {42, 43, 63, 94, 36} then None
                   else Some (RChr (CClass False ci [CRange c c]), t)) of
               None \<Rightarrow> None
             | Some (r, u) \<Rightarrow> (let (r', u') = postfix r u in read_alt n ci u' alts (r' # seq))))"

text \<open>Whether an alternation stands outside every group and class.\<close>

fun top_bar :: "nat \<Rightarrow> bool \<Rightarrow> rune list \<Rightarrow> bool" where
  "top_bar depth cls [] = False"
| "top_bar depth cls (c # s) =
     (if c = 92 then top_bar depth cls (drop 1 s)
      else if cls then top_bar depth (c \<noteq> 93) s
      else if c = 91 then top_bar depth True s
      else if c = 40 then top_bar (depth + 1) False s
      else if c = 41 then top_bar (depth - 1) False s
      else c = 124 \<and> depth = 0 \<or> top_bar depth False s)"

text \<open>\<open>regexp.MustCompile\<close>: the anchors are read at the two ends of the pattern only, and an
  anchored pattern is not an alternation.\<close>

definition compile :: "gostring \<Rightarrow> pattern option" where
  "compile p =
     (let s = runes p;
          b = (s \<noteq> [] \<and> hd s = 94); s1 = (if b then tl s else s);
          e = (s1 \<noteq> [] \<and> last s1 = 36 \<and> (length s1 < 2 \<or> s1 ! (length s1 - 2) \<noteq> 92));
          s2 = (if e then butlast s1 else s1)
      in case read_alt (Suc (length s2)) False s2 [] [] of
           Some (r, []) \<Rightarrow> if (b \<or> e) \<and> top_bar 0 False s2 then None else Some (b, r, e)
         | _ \<Rightarrow> None)"

end
