(* ===== verification/Regexes.thy ===== *)
theory Regexes
  imports Regex
begin

section \<open>The patterns of the validation rules\<close>

text \<open>
  The constants of \<open>validators/rules/regexes.go\<close>, byte for byte, and the compiled expressions of
  its second block. A string literal cannot hold a backslash, so
  \<open>esc\<close> writes it as a tilde; a quote, a tilde or a byte outside the printable range is written
  by its code.
\<close>

definition esc :: "gostring \<Rightarrow> gostring" where
  "esc = map (\<lambda>c. if c = CHR ''~'' then CHR 0x5C else c)"

text \<open>\<open>regexp.MustCompile\<close>; a pattern that does not compile panics when the package is
  initialised, which \<open>patterns_compile\<close> excludes for the patterns it lists.\<close>

definition MustCompile :: "gostring \<Rightarrow> pattern" where
  "MustCompile p = (case compile p of Some r \<Rightarrow> r | None \<Rightarrow> (True, RNone, True))"

definition alphaRegexString :: gostring where
  \<open>alphaRegexString = ''^[a-zA-Z]+$''\<close>
definition alphaNumericRegexString :: gostring where
  \<open>alphaNumericRegexString = ''^[a-zA-Z0-9]+$''\<close>
definition alphaUnicodeRegexString :: gostring where
  \<open>alphaUnicodeRegexString = esc ''^[~p{L}]+$''\<close>
definition alphaUnicodeNumericRegexString :: gostring where
  \<open>alphaUnicodeNumericRegexString = esc ''^[~p{L}~p{N}]+$''\<close>
definition numericRegexString :: gostring where
  \<open>numericRegexString = esc ''^[-+]?[0-9]+(?:~.[0-9]+)?$''\<close>
definition numberRegexString :: gostring where
  \<open>numberRegexString = ''^[0-9]+$''\<close>
definition hexadecimalRegexString :: gostring where
  \<open>hexadecimalRegexString = ''^(0[xX])?[0-9a-fA-F]+$''\<close>
definition hexColorRegexString :: gostring where
  \<open>hexColorRegexString = ''^#(?:[0-9a-fA-F]{3}|[0-9a-fA-F]{4}|[0-9a-fA-F]{6}|[0-9a-fA-F]{8})$''\<close>
definition rgbRegexString :: gostring where
  \<open>rgbRegexString = esc ''^rgb~(~s*(?:(?:0|[1-9]~d?|1~d~d?|2[0-4]~d|25[0-5])~s*,~s*(?:0|[1-9]~d?|1~d~d?|2[0-4]~d|25[0-5])~s*,~s*(?:0|[1-9]~d?|1~d~d?|2[0-4]~d|25[0-5])|(?:0|[1-9]~d?|1~d~d?|2[0-4]~d|25[0-5])%~s*,~s*(?:0|[1-9]~d?|1~d~d?|2[0-4]~d|25[0-5])%~s*,~s*(?:0|[1-9]~d?|1~d~d?|2[0-4]~d|25[0-5])%)~s*~)$''\<close>
definition rgbaRegexString :: gostring where
  \<open>rgbaRegexString = esc ''^rgba~(~s*(?:(?:0|[1-9]~d?|1~d~d?|2[0-4]~d|25[0-5])~s*,~s*(?:0|[1-9]~d?|1~d~d?|2[0-4]~d|25[0-5])~s*,~s*(?:0|[1-9]~d?|1~d~d?|2[0-4]~d|25[0-5])|(?:0|[1-9]~d?|1~d~d?|2[0-4]~d|25[0-5])%~s*,~s*(?:0|[1-9]~d?|1~d~d?|2[0-4]~d|25[0-5])%~s*,~s*(?:0|[1-9]~d?|1~d~d?|2[0-4]~d|25[0-5])%)~s*,~s*(?:(?:0.[1-9]*)|[01])~s*~)$''\<close>
definition hslRegexString :: gostring where
  \<open>hslRegexString = esc ''^hsl~(~s*(?:0|[1-9]~d?|[12]~d~d|3[0-5]~d|360)~s*,~s*(?:(?:0|[1-9]~d?|100)%)~s*,~s*(?:(?:0|[1-9]~d?|100)%)~s*~)$''\<close>
definition hslaRegexString :: gostring where
  \<open>hslaRegexString = esc ''^hsla~(~s*(?:0|[1-9]~d?|[12]~d~d|3[0-5]~d|360)~s*,~s*(?:(?:0|[1-9]~d?|100)%)~s*,~s*(?:(?:0|[1-9]~d?|100)%)~s*,~s*(?:(?:0.[1-9]*)|[01])~s*~)$''\<close>
definition emailRegexString :: gostring where
  \<open>emailRegexString = esc ''^(?:(?:(?:(?:[a-zA-Z]|~d|[!#~$%&'' @ [CHR 0x27] @ esc ''~*~+~-~/=~?~^_`{~|}'' @ [CHR 0x7E] @ esc '']|[~x{00A0}-~x{D7FF}~x{F900}-~x{FDCF}~x{FDF0}-~x{FFEF}])+(?:~.([a-zA-Z]|~d|[!#~$%&'' @ [CHR 0x27] @ esc ''~*~+~-~/=~?~^_`{~|}'' @ [CHR 0x7E] @ esc '']|[~x{00A0}-~x{D7FF}~x{F900}-~x{FDCF}~x{FDF0}-~x{FFEF}])+)*)|(?:(?:~x22)(?:(?:(?:(?:~x20|~x09)*(?:~x0d~x0a))?(?:~x20|~x09)+)?(?:(?:[~x01-~x08~x0b~x0c~x0e-~x1f~x7f]|~x21|[~x23-~x5b]|[~x5d-~x7e]|[~x{00A0}-~x{D7FF}~x{F900}-~x{FDCF}~x{FDF0}-~x{FFEF}])|(?:(?:[~x01-~x09~x0b~x0c~x0d-~x7f]|[~x{00A0}-~x{D7FF}~x{F900}-~x{FDCF}~x{FDF0}-~x{FFEF}]))))*(?:(?:(?:~x20|~x09)*(?:~x0d~x0a))?(~x20|~x09)+)?(?:~x22))))@(?:(?:(?:[a-zA-Z]|~d|[~x{00A0}-~x{D7FF}~x{F900}-~x{FDCF}~x{FDF0}-~x{FFEF}])|(?:(?:[a-zA-Z]|~d|[~x{00A0}-~x{D7FF}~x{F900}-~x{FDCF}~x{FDF0}-~x{FFEF}])(?:[a-zA-Z]|~d|-|~.|'' @ [CHR 0x7E] @ esc ''|[~x{00A0}-~x{D7FF}~x{F900}-~x{FDCF}~x{FDF0}-~x{FFEF}])*(?:[a-zA-Z]|~d|[~x{00A0}-~x{D7FF}~x{F900}-~x{FDCF}~x{FDF0}-~x{FFEF}])))~.)+(?:(?:[a-zA-Z]|[~x{00A0}-~x{D7FF}~x{F900}-~x{FDCF}~x{FDF0}-~x{FFEF}])|(?:(?:[a-zA-Z]|[~x{00A0}-~x{D7FF}~x{F900}-~x{FDCF}~x{FDF0}-~x{FFEF}])(?:[a-zA-Z]|~d|-|~.|'' @ [CHR 0x7E] @ esc ''|[~x{00A0}-~x{D7FF}~x{F900}-~x{FDCF}~x{FDF0}-~x{FFEF}])*(?:[a-zA-Z]|[~x{00A0}-~x{D7FF}~x{F900}-~x{FDCF}~x{FDF0}-~x{FFEF}])))~.?$''\<close>
definition e164RegexString :: gostring where
  \<open>e164RegexString = esc ''^~+[1-9]?[0-9]{7,14}$''\<close>
definition base32RegexString :: gostring where
  \<open>base32RegexString = ''^(?:[A-Z2-7]{8})*(?:[A-Z2-7]{2}={6}|[A-Z2-7]{4}={4}|[A-Z2-7]{5}={3}|[A-Z2-7]{7}=|[A-Z2-7]{8})$''\<close>
definition base64RegexString :: gostring where
  \<open>base64RegexString = esc ''^(?:[A-Za-z0-9+~/]{4})*(?:[A-Za-z0-9+~/]{2}==|[A-Za-z0-9+~/]{3}=|[A-Za-z0-9+~/]{4})$''\<close>
definition base64URLRegexString :: gostring where
  \<open>base64URLRegexString = ''^(?:[A-Za-z0-9-_]{4})*(?:[A-Za-z0-9-_]{2}==|[A-Za-z0-9-_]{3}=|[A-Za-z0-9-_]{4})$''\<close>
definition base64RawURLRegexString :: gostring where
  \<open>base64RawURLRegexString = ''^(?:[A-Za-z0-9-_]{4})*(?:[A-Za-z0-9-_]{2,4})$''\<close>
definition iSBN10RegexString :: gostring where
  \<open>iSBN10RegexString = ''^(?:[0-9]{9}X|[0-9]{10})$''\<close>
definition iSBN13RegexString :: gostring where
  \<open>iSBN13RegexString = ''^(?:(?:97(?:8|9))[0-9]{10})$''\<close>
definition iSSNRegexString :: gostring where
  \<open>iSSNRegexString = ''^(?:[0-9]{4}-[0-9]{3}[0-9X])$''\<close>
definition uUID3RegexString :: gostring where
  \<open>uUID3RegexString = ''^[0-9a-f]{8}-[0-9a-f]{4}-3[0-9a-f]{3}-[0-9a-f]{4}-[0-9a-f]{12}$''\<close>
definition uUID4RegexString :: gostring where
  \<open>uUID4RegexString = ''^[0-9a-f]{8}-[0-9a-f]{4}-4[0-9a-f]{3}-[89ab][0-9a-f]{3}-[0-9a-f]{12}$''\<close>
definition uUID5RegexString :: gostring where
  \<open>uUID5RegexString = ''^[0-9a-f]{8}-[0-9a-f]{4}-5[0-9a-f]{3}-[89ab][0-9a-f]{3}-[0-9a-f]{12}$''\<close>
definition uUIDRegexString :: gostring where
  \<open>uUIDRegexString = ''^[0-9a-f]{8}-[0-9a-f]{4}-[0-9a-f]{4}-[0-9a-f]{4}-[0-9a-f]{12}$''\<close>
definition uUID3RFC4122RegexString :: gostring where
  \<open>uUID3RFC4122RegexString = ''^[0-9a-fA-F]{8}-[0-9a-fA-F]{4}-3[0-9a-fA-F]{3}-[0-9a-fA-F]{4}-[0-9a-fA-F]{12}$''\<close>
definition uUID4RFC4122RegexString :: gostring where
  \<open>uUID4RFC4122RegexString = ''^[0-9a-fA-F]{8}-[0-9a-fA-F]{4}-4[0-9a-fA-F]{3}-[89abAB][0-9a-fA-F]{3}-[0-9a-fA-F]{12}$''\<close>
definition uUID5RFC4122RegexString :: gostring where
  \<open>uUID5RFC4122RegexString = ''^[0-9a-fA-F]{8}-[0-9a-fA-F]{4}-5[0-9a-fA-F]{3}-[89abAB][0-9a-fA-F]{3}-[0-9a-fA-F]{12}$''\<close>
definition uUIDRFC4122RegexString :: gostring where
  \<open>uUIDRFC4122RegexString = ''^[0-9a-fA-F]{8}-[0-9a-fA-F]{4}-[0-9a-fA-F]{4}-[0-9a-fA-F]{4}-[0-9a-fA-F]{12}$''\<close>
definition uLIDRegexString :: gostring where
  \<open>uLIDRegexString = ''^(?i)[A-HJKMNP-TV-Z0-9]{26}$''\<close>
definition md4RegexString :: gostring where
  \<open>md4RegexString = ''^[0-9a-f]{32}$''\<close>
definition md5RegexString :: gostring where
  \<open>md5RegexString = ''^[0-9a-f]{32}$''\<close>
definition sha256RegexString :: gostring where
  \<open>sha256RegexString = ''^[0-9a-f]{64}$''\<close>
definition sha384RegexString :: gostring where
  \<open>sha384RegexString = ''^[0-9a-f]{96}$''\<close>
definition sha512RegexString :: gostring where
  \<open>sha512RegexString = ''^[0-9a-f]{128}$''\<close>
definition ripemd128RegexString :: gostring where
  \<open>ripemd128RegexString = ''^[0-9a-f]{32}$''\<close>
definition ripemd160RegexString :: gostring where
  \<open>ripemd160RegexString = ''^[0-9a-f]{40}$''\<close>
definition tiger128RegexString :: gostring where
  \<open>tiger128RegexString = ''^[0-9a-f]{32}$''\<close>
definition tiger160RegexString :: gostring where
  \<open>tiger160RegexString = ''^[0-9a-f]{40}$''\<close>
definition tiger192RegexString :: gostring where
  \<open>tiger192RegexString = ''^[0-9a-f]{48}$''\<close>
definition aSCIIRegexString :: gostring where
  \<open>aSCIIRegexString = ''^['' @ [CHR 0x00] @ ''-'' @ [CHR 0x7F] @ '']*$''\<close>
definition printableASCIIRegexString :: gostring where
  \<open>printableASCIIRegexString = ''^[ -'' @ [CHR 0x7E] @ '']*$''\<close>
definition multibyteRegexString :: gostring where
  \<open>multibyteRegexString = ''[^'' @ [CHR 0x00] @ ''-'' @ [CHR 0x7F] @ '']''\<close>
definition dataURIRegexString :: gostring where
  \<open>dataURIRegexString = esc ''^data:((?:~w+~/(?:([^;]|;[^;]).)+)?)''\<close>
definition latitudeRegexString :: gostring where
  \<open>latitudeRegexString = esc ''^[-+]?([1-8]?~d(~.~d+)?|90(~.0+)?)$''\<close>
definition longitudeRegexString :: gostring where
  \<open>longitudeRegexString = esc ''^[-+]?(180(~.0+)?|((1[0-7]~d)|([1-9]?~d))(~.~d+)?)$''\<close>
definition sSNRegexString :: gostring where
  \<open>sSNRegexString = ''^[0-9]{3}[ -]?(0[1-9]|[1-9][0-9])[ -]?([1-9][0-9]{3}|[0-9][1-9][0-9]{2}|[0-9]{2}[1-9][0-9]|[0-9]{3}[1-9])$''\<close>
definition hostnameRegexStringRFC952 :: gostring where
  \<open>hostnameRegexStringRFC952 = esc ''^[a-zA-Z]([a-zA-Z0-9~-]+[~.]?)*[a-zA-Z0-9]$''\<close>
definition hostnameRegexStringRFC1123 :: gostring where
  \<open>hostnameRegexStringRFC1123 = esc ''^([a-zA-Z0-9]{1}[a-zA-Z0-9-]{0,62}){1}(~.[a-zA-Z0-9]{1}[a-zA-Z0-9-]{0,62})*?$''\<close>
definition fqdnRegexStringRFC1123 :: gostring where
  \<open>fqdnRegexStringRFC1123 = esc ''^([a-zA-Z0-9]{1}[a-zA-Z0-9-]{0,62})(~.[a-zA-Z0-9]{1}[a-zA-Z0-9-]{0,62})*?(~.[a-zA-Z]{1}[a-zA-Z0-9]{0,62})~.?$''\<close>
definition btcAddressRegexString :: gostring where
  \<open>btcAddressRegexString = ''^[13][a-km-zA-HJ-NP-Z1-9]{25,34}$''\<close>
definition btcAddressUpperRegexStringBech32 :: gostring where
  \<open>btcAddressUpperRegexStringBech32 = ''^BC1[02-9AC-HJ-NP-Z]{7,76}$''\<close>
definition btcAddressLowerRegexStringBech32 :: gostring where
  \<open>btcAddressLowerRegexStringBech32 = ''^bc1[02-9ac-hj-np-z]{7,76}$''\<close>
definition ethAddressRegexString :: gostring where
  \<open>ethAddressRegexString = ''^0x[0-9a-fA-F]{40}$''\<close>
definition ethAddressUpperRegexString :: gostring where
  \<open>ethAddressUpperRegexString = ''^0x[0-9A-F]{40}$''\<close>
definition ethAddressLowerRegexString :: gostring where
  \<open>ethAddressLowerRegexString = ''^0x[0-9a-f]{40}$''\<close>
definition uRLEncodedRegexString :: gostring where
  \<open>uRLEncodedRegexString = ''^(?:[^%]|%[0-9A-Fa-f]{2})*$''\<close>
definition hTMLEncodedRegexString :: gostring where
  \<open>hTMLEncodedRegexString = ''&#[x]?([0-9a-fA-F]{2})|(&gt)|(&lt)|(&quot)|(&amp)+[;]?''\<close>
definition hTMLRegexString :: gostring where
  \<open>hTMLRegexString = ''<[/]?([a-zA-Z]+).*?>''\<close>
definition jWTRegexString :: gostring where
  \<open>jWTRegexString = esc ''^[A-Za-z0-9-_]+~.[A-Za-z0-9-_]+~.[A-Za-z0-9-_]*$''\<close>
definition bicRegexString :: gostring where
  \<open>bicRegexString = ''^[A-Za-z]{6}[A-Za-z0-9]{2}([A-Za-z0-9]{3})?$''\<close>
definition semverRegexString :: gostring where
  \<open>semverRegexString = esc ''^(0|[1-9]~d*)~.(0|[1-9]~d*)~.(0|[1-9]~d*)(?:-((?:0|[1-9]~d*|~d*[a-zA-Z-][0-9a-zA-Z-]*)(?:~.(?:0|[1-9]~d*|~d*[a-zA-Z-][0-9a-zA-Z-]*))*))?(?:~+([0-9a-zA-Z-]+(?:~.[0-9a-zA-Z-]+)*))?$''\<close>
definition dnsRegexStringRFC1035Label :: gostring where
  \<open>dnsRegexStringRFC1035Label = ''^[a-z]([-a-z0-9]*[a-z0-9]){0,62}$''\<close>
definition cveRegexString :: gostring where
  \<open>cveRegexString = esc ''^CVE-(1999|2~d{3})-(0[^0]~d{2}|0~d[^0]~d{1}|0~d{2}[^0]|[1-9]{1}~d{3,})$''\<close>
definition mongodbRegexString :: gostring where
  \<open>mongodbRegexString = esc ''^[a-f~d]{24}$''\<close>
definition cronRegexString :: gostring where
  \<open>cronRegexString = esc ''(@(annually|yearly|monthly|weekly|daily|hourly|reboot))|(@every (~d+(ns|us|'' @ [CHR 0xC2] @ [CHR 0xB5] @ esc ''s|ms|s|m|h))+)|((((~d+,)+~d+|(~d+(~/|-)~d+)|~d+|~*) ?){5,7})''\<close>
definition spicedbIDRegexString :: gostring where
  \<open>spicedbIDRegexString = esc ''^(([a-zA-Z0-9/_|~-=+]{1,})|~*)$''\<close>
definition spicedbPermissionRegexString :: gostring where
  \<open>spicedbPermissionRegexString = ''^([a-z][a-z0-9_]{1,62}[a-z0-9])?$''\<close>
definition spicedbTypeRegexString :: gostring where
  \<open>spicedbTypeRegexString = ''^([a-z][a-z0-9_]{1,61}[a-z0-9]/)?[a-z][a-z0-9_]{1,62}[a-z0-9]$''\<close>

definition AlphaRegex :: pattern where "AlphaRegex = MustCompile alphaRegexString"
definition AlphaNumericRegex :: pattern where "AlphaNumericRegex = MustCompile alphaNumericRegexString"
definition AlphaUnicodeRegex :: pattern where "AlphaUnicodeRegex = MustCompile alphaUnicodeRegexString"
definition AlphaUnicodeNumericRegex :: pattern where "AlphaUnicodeNumericRegex = MustCompile alphaUnicodeNumericRegexString"
definition NumericRegex :: pattern where "NumericRegex = MustCompile numericRegexString"
definition NumberRegex :: pattern where "NumberRegex = MustCompile numberRegexString"
definition HexadecimalRegex :: pattern where "HexadecimalRegex = MustCompile hexadecimalRegexString"
definition HexColorRegex :: pattern where "HexColorRegex = MustCompile hexColorRegexString"
definition RgbRegex :: pattern where "RgbRegex = MustCompile rgbRegexString"
definition RgbaRegex :: pattern where "RgbaRegex = MustCompile rgbaRegexString"
definition HslRegex :: pattern where "HslRegex = MustCompile hslRegexString"
definition HslaRegex :: pattern where "HslaRegex = MustCompile hslaRegexString"
definition E164Regex :: pattern where "E164Regex = MustCompile e164RegexString"
definition EmailRegex :: pattern where "EmailRegex = MustCompile emailRegexString"
definition Base32Regex :: pattern where "Base32Regex = MustCompile base32RegexString"
definition Base64Regex :: pattern where "Base64Regex = MustCompile base64RegexString"
definition Base64URLRegex :: pattern where "Base64URLRegex = MustCompile base64URLRegexString"
definition Base64RawURLRegex :: pattern where "Base64RawURLRegex = MustCompile base64RawURLRegexString"
definition ISBN10Regex :: pattern where "ISBN10Regex = MustCompile iSBN10RegexString"
definition ISBN13Regex :: pattern where "ISBN13Regex = MustCompile iSBN13RegexString"
definition ISSNRegex :: pattern where "ISSNRegex = MustCompile iSSNRegexString"
definition UUID3Regex :: pattern where "UUID3Regex = MustCompile uUID3RegexString"
definition UUID4Regex :: pattern where "UUID4Regex = MustCompile uUID4RegexString"
definition UUID5Regex :: pattern where "UUID5Regex = MustCompile uUID5RegexString"
definition UUIDRegex :: pattern where "UUIDRegex = MustCompile uUIDRegexString"
definition UUID3RFC4122Regex :: pattern where "UUID3RFC4122Regex = MustCompile uUID3RFC4122RegexString"
definition UUID4RFC4122Regex :: pattern where "UUID4RFC4122Regex = MustCompile uUID4RFC4122RegexString"
definition UUID5RFC4122Regex :: pattern where "UUID5RFC4122Regex = MustCompile uUID5RFC4122RegexString"
definition UUIDRFC4122Regex :: pattern where "UUIDRFC4122Regex = MustCompile uUIDRFC4122RegexString"
definition ULIDRegex :: pattern where "ULIDRegex = MustCompile uLIDRegexString"
definition Md4Regex :: pattern where "Md4Regex = MustCompile md4RegexString"
definition Md5Regex :: pattern where "Md5Regex = MustCompile md5RegexString"
definition Sha256Regex :: pattern where "Sha256Regex = MustCompile sha256RegexString"
definition Sha384Regex :: pattern where "Sha384Regex = MustCompile sha384RegexString"
definition Sha512Regex :: pattern where "Sha512Regex = MustCompile sha512RegexString"
definition Ripemd128Regex :: pattern where "Ripemd128Regex = MustCompile ripemd128RegexString"
definition Ripemd160Regex :: pattern where "Ripemd160Regex = MustCompile ripemd160RegexString"
definition Tiger128Regex :: pattern where "Tiger128Regex = MustCompile tiger128RegexString"
definition Tiger160Regex :: pattern where "Tiger160Regex = MustCompile tiger160RegexString"
definition Tiger192Regex :: pattern where "Tiger192Regex = MustCompile tiger192RegexString"
definition ASCIIRegex :: pattern where "ASCIIRegex = MustCompile aSCIIRegexString"
definition PrintableASCIIRegex :: pattern where "PrintableASCIIRegex = MustCompile printableASCIIRegexString"
definition MultibyteRegex :: pattern where "MultibyteRegex = MustCompile multibyteRegexString"
definition DataURIRegex :: pattern where "DataURIRegex = MustCompile dataURIRegexString"
definition LatitudeRegex :: pattern where "LatitudeRegex = MustCompile latitudeRegexString"
definition LongitudeRegex :: pattern where "LongitudeRegex = MustCompile longitudeRegexString"
definition SSNRegex :: pattern where "SSNRegex = MustCompile sSNRegexString"
definition HostnameRegexRFC952 :: pattern where "HostnameRegexRFC952 = MustCompile hostnameRegexStringRFC952"
definition HostnameRegexRFC1123 :: pattern where "HostnameRegexRFC1123 = MustCompile hostnameRegexStringRFC1123"
definition FqdnRegexRFC1123 :: pattern where "FqdnRegexRFC1123 = MustCompile fqdnRegexStringRFC1123"
definition BtcAddressRegex :: pattern where "BtcAddressRegex = MustCompile btcAddressRegexString"
definition BtcUpperAddressRegexBech32 :: pattern where "BtcUpperAddressRegexBech32 = MustCompile btcAddressUpperRegexStringBech32"
definition BtcLowerAddressRegexBech32 :: pattern where "BtcLowerAddressRegexBech32 = MustCompile btcAddressLowerRegexStringBech32"
definition EthAddressRegex :: pattern where "EthAddressRegex = MustCompile ethAddressRegexString"
definition URLEncodedRegex :: pattern where "URLEncodedRegex = MustCompile uRLEncodedRegexString"
definition HTMLEncodedRegex :: pattern where "HTMLEncodedRegex = MustCompile hTMLEncodedRegexString"
definition HTMLRegex :: pattern where "HTMLRegex = MustCompile hTMLRegexString"
definition JWTRegex :: pattern where "JWTRegex = MustCompile jWTRegexString"
definition BicRegex :: pattern where "BicRegex = MustCompile bicRegexString"
definition SemverRegex :: pattern where "SemverRegex = MustCompile semverRegexString"
definition DnsRegexRFC1035Label :: pattern where "DnsRegexRFC1035Label = MustCompile dnsRegexStringRFC1035Label"
definition CveRegex :: pattern where "CveRegex = MustCompile cveRegexString"
definition MongodbRegex :: pattern where "MongodbRegex = MustCompile mongodbRegexString"
definition CronRegex :: pattern where "CronRegex = MustCompile cronRegexString"
definition SpicedbIDRegex :: pattern where "SpicedbIDRegex = MustCompile spicedbIDRegexString"
definition SpicedbPermissionRegex :: pattern where "SpicedbPermissionRegex = MustCompile spicedbPermissionRegexString"
definition SpicedbTypeRegex :: pattern where "SpicedbTypeRegex = MustCompile spicedbTypeRegexString"

end
