(* ===== verification/NetAddr.thy ===== *)
theory NetAddr
  imports GoFloat
begin

section \<open>The address parsers of package net\<close>

text \<open>
  \<open>net.ParseIP\<close>, \<open>ParseCIDR\<close>, \<open>ParseMAC\<close> and \<open>SplitHostPort\<close>, which the address rules call.
  An address is the list of its sixteen bytes, an IPv4 address in its mapped form
  \<open>::ffff:a.b.c.d\<close>. A zone (\<open>%\<close>) makes \<open>ParseIP\<close> fail, so it is not represented.
\<close>

text \<open>One decimal field of an IPv4 address: no leading zero, at most 255.\<close>

definition octet :: "gostring \<Rightarrow> nat option" where
  "octet s =
     (if s \<noteq> [] \<and> list_all is_digit s \<and> (length s > 1 \<longrightarrow> hd s \<noteq> CHR ''0'') \<and> digits_val s \<le> 255
      then Some (digits_val s) else None)"

definition parseIPv4 :: "gostring \<Rightarrow> nat list option" where
  "parseIPv4 s =
     (let fs = map octet (Split (CHR ''.'') s)
      in if length fs = 4 \<and> list_all (\<lambda>f. f \<noteq> None) fs then Some (map the fs) else None)"

definition is_hex_digit :: "char \<Rightarrow> bool" where "is_hex_digit c \<longleftrightarrow> is_digit c \<or> is_hex_letter c"

definition hex_val :: "gostring \<Rightarrow> nat" where
  "hex_val s = foldl (\<lambda>v c. 16 * v + hex_digit_val c) 0 s"

text \<open>The loop of \<open>netip.parseIPv6\<close>: \<open>bs\<close> are the bytes read, \<open>el\<close> the place of the ellipsis. Each
  round reads a hexadecimal group of one to four digits, or a trailing IPv4 address. The result
  is the bytes, the ellipsis and the unread input.\<close>

function parseIPv6_loop ::
  "gostring \<Rightarrow> nat list \<Rightarrow> nat option \<Rightarrow> (nat list \<times> nat option \<times> gostring) option" where
  "parseIPv6_loop s bs el =
     (if length bs \<ge> 16 then Some (bs, el, s)
      else
        let ds = takeWhile is_hex_digit s; r = dropWhile is_hex_digit s in
        if ds = [] \<or> length ds > 4 then None
        else if r \<noteq> [] \<and> hd r = CHR ''.'' then
          (if el = None \<and> length bs \<noteq> 12 \<or> length bs + 4 > 16 then None
           else map_option (\<lambda>fs. (bs @ fs, el, [])) (parseIPv4 s))
        else
          let v = hex_val ds; bs' = bs @ [v div 256, v mod 256] in
          case r of
            [] \<Rightarrow> Some (bs', el, [])
          | c # r1 \<Rightarrow>
              if c \<noteq> colon \<or> r1 = [] then None
              else if hd r1 = colon then
                (if el \<noteq> None then None
                 else if tl r1 = [] then Some (bs', Some (length bs'), [])
                 else parseIPv6_loop (tl r1) bs' (Some (length bs')))
              else parseIPv6_loop r1 bs' el)"
  by pat_completeness auto
termination parseIPv6_loop
proof (relation "measure (\<lambda>(s, bs, el). length s)", goal_cases)
  case (2 s bs el ds r v bs' c r1)
  then have "length (c # r1) \<le> length s" by (metis length_dropWhile_le)
  then show ?case by (cases r1) auto
next
  case (3 s bs el ds r v bs' c r1)
  then have "length (c # r1) \<le> length s" by (metis length_dropWhile_le)
  then show ?case by auto
qed simp

declare parseIPv6_loop.simps [simp del]

definition parseIPv6 :: "gostring \<Rightarrow> nat list option" where
  "parseIPv6 s =
     (let (el, t) = (if HasPrefix s ''::'' then (Some 0, drop 2 s) else (None, s))
      in if el = Some 0 \<and> t = [] then Some (replicate 16 0)
         else case parseIPv6_loop t [] el of
             Some (bs, el', []) \<Rightarrow>
               (if length bs < 16 then
                  (case el' of
                     None \<Rightarrow> None
                   | Some k \<Rightarrow> Some (take k bs @ replicate (16 - length bs) 0 @ drop k bs))
                else if el' \<noteq> None then None
                else Some bs)
           | _ \<Rightarrow> None)"

definition v4InV6Prefix :: "nat list" where "v4InV6Prefix = replicate 10 0 @ [255, 255]"

text \<open>\<open>netip.ParseAddr\<close> without zones: the address and its bit length.\<close>

definition ParseAddr :: "gostring \<Rightarrow> (nat list \<times> nat) option" where
  "ParseAddr s =
     (case find_index (\<lambda>c. c = CHR ''.'' \<or> c = colon \<or> c = CHR ''%'') s of
        None \<Rightarrow> None
      | Some i \<Rightarrow>
          if s ! i = CHR ''.'' then map_option (\<lambda>bs. (v4InV6Prefix @ bs, 32)) (parseIPv4 s)
          else if s ! i = colon \<and> CHR ''%'' \<notin> set s then map_option (\<lambda>v. (v, 128)) (parseIPv6 s)
          else None)"

definition ParseIP :: "gostring \<Rightarrow> nat list option" where "ParseIP s = map_option fst (ParseAddr s)"

text \<open>\<open>IP.To4\<close> succeeds on the mapped addresses.\<close>

definition is_To4 :: "nat list \<Rightarrow> bool" where "is_To4 v \<longleftrightarrow> take 12 v = v4InV6Prefix"

text \<open>\<open>net.ParseCIDR\<close>: the address and the network address.\<close>

definition dtoi :: "gostring \<Rightarrow> nat option" where
  "dtoi s = (if s \<noteq> [] \<and> list_all is_digit s \<and> digits_val s < 16777215 then Some (digits_val s) else None)"

text \<open>\<open>IP.Mask\<close> with the first \<open>n\<close> bits set.\<close>

fun mask_bytes :: "nat \<Rightarrow> nat list \<Rightarrow> nat list" where
  "mask_bytes n [] = []"
| "mask_bytes n (b # bs) =
     (let h = 8 - min n 8 in b div 2 ^ h * 2 ^ h) # mask_bytes (n - 8) bs"

definition ParseCIDR :: "gostring \<Rightarrow> (nat list \<times> nat list) option" where
  "ParseCIDR s =
     (case find_index (\<lambda>c. c = slash) s of
        None \<Rightarrow> None
      | Some i \<Rightarrow>
          (case (ParseAddr (take i s), dtoi (drop (Suc i) s)) of
             (Some (v, bits), Some n) \<Rightarrow>
               (if n > bits then None else Some (v, mask_bytes (128 - bits + n) v))
           | _ \<Rightarrow> None))"

text \<open>\<open>net.ParseMAC\<close>: groups of two digits after \<open>:\<close> or \<open>-\<close>, or of four after a dot.\<close>

definition xtoi2_ok :: "gostring \<Rightarrow> char option \<Rightarrow> bool" where
  "xtoi2_ok s e \<longleftrightarrow>
     (length s > 2 \<longrightarrow> e = Some (s ! 2)) \<and> length s \<ge> 2 \<and> is_hex_digit (s ! 0) \<and> is_hex_digit (s ! 1)"

definition ParseMAC :: "gostring \<Rightarrow> bool" where
  "ParseMAC s \<longleftrightarrow>
     length s \<ge> 14 \<and>
     (if s ! 2 = colon \<or> s ! 2 = CHR ''-'' then
        (length s + 1) mod 3 = 0 \<and>
        (let n = (length s + 1) div 3
         in n \<in> {6, 8, 20} \<and> list_all (\<lambda>i. xtoi2_ok (drop (3 * i) s) (Some (s ! 2))) [0..<n])
      else if s ! 4 = CHR ''.'' then
        (length s + 1) mod 5 = 0 \<and>
        (let n = 2 * (length s + 1) div 5
         in n \<in> {6, 8, 20} \<and>
            list_all (\<lambda>i. xtoi2_ok (take 2 (drop (5 * i) s)) None \<and>
                          xtoi2_ok (drop (5 * i + 2) s) (Some (s ! 4))) [0..<n div 2])
      else False)"

subsection \<open>Host and port\<close>

text \<open>\<open>strings.LastIndex\<close> of a byte.\<close>

definition LastIndexByte :: "gostring \<Rightarrow> char \<Rightarrow> nat option" where
  "LastIndexByte s c = map_option (\<lambda>i. length s - 1 - i) (find_index (\<lambda>d. d = c) (rev s))"

definition SplitHostPort :: "gostring \<Rightarrow> (gostring \<times> gostring) option" where
  "SplitHostPort s =
     (case LastIndexByte s colon of
        None \<Rightarrow> None
      | Some i \<Rightarrow>
          let port = drop (Suc i) s in
          if s ! 0 = CHR ''['' then
            (case find_index (\<lambda>d. d = CHR '']'') s of
               None \<Rightarrow> None
             | Some e \<Rightarrow>
                 if e + 1 = i \<and> CHR ''['' \<notin> set (drop 1 s) \<and> CHR '']'' \<notin> set (drop (e + 1) s)
                 then Some (take (e - 1) (drop 1 s), port) else None)
          else if colon \<in> set (take i s) \<or> CHR ''['' \<in> set s \<or> CHR '']'' \<in> set s then None
          else Some (take i s, port))"

subsection \<open>Printing and parsing dotted addresses\<close>

definition dotted :: "nat \<Rightarrow> nat \<Rightarrow> nat \<Rightarrow> nat \<Rightarrow> gostring" where
  "dotted a b c d = Join (map nat_digits [a, b, c, d]) ''.''"

lemma nat_digits_lead:
  "length (nat_digits n) > 1 \<Longrightarrow> hd (nat_digits n) \<noteq> CHR ''0''"
proof (induction n rule: nat_digits.induct)
  case (1 n)
  then have n: "\<not> n < 10" by (auto simp: nat_digits.simps[of n])
  have e: "nat_digits n = nat_digits (n div 10) @ [digit_char (n mod 10)]"
    using n by (simp add: nat_digits.simps[of n])
  show ?case
  proof (cases "n div 10 < 10")
    case True
    have "digit_char (n div 10) \<noteq> CHR ''0''"
    proof
      assume "digit_char (n div 10) = CHR ''0''"
      then have "n div 10 = digit_val (CHR ''0'')" using True by (metis digit_char_props(2))
      then show False using n by (simp add: digit_val_def)
    qed
    with True show ?thesis by (simp add: e nat_digits.simps[of "n div 10"])
  next
    case False
    then have "length (nat_digits (n div 10)) > 1"
      by (simp add: nat_digits.simps[of "n div 10"])
    then have "hd (nat_digits (n div 10)) \<noteq> CHR ''0''" using 1(1) n by simp
    then show ?thesis by (simp add: e hd_append)
  qed
qed

lemma octet_nat_digits: "n \<le> 255 \<Longrightarrow> octet (nat_digits n) = Some n"
  using nat_digits_lead[of n] by (auto simp: octet_def list_all_iff nat_digits_digit)

lemma digits_no_dot: "CHR ''.'' \<notin> set (nat_digits n)"
  using nat_digits_digit digit_not by blast

lemma parseIPv4_dotted:
  assumes "a \<le> 255" "b \<le> 255" "c \<le> 255" "d \<le> 255" shows "parseIPv4 (dotted a b c d) = Some [a, b, c, d]"
proof -
  have "Split (CHR ''.'') (dotted a b c d) = map nat_digits [a, b, c, d]"
    unfolding dotted_def by (rule Split_Join) (simp_all add: digits_no_dot)
  with assms show ?thesis by (simp add: parseIPv4_def octet_nat_digits)
qed

lemma find_index_append:
  "\<forall>x \<in> set xs. \<not> p x \<Longrightarrow> find_index p (xs @ ys) = map_option (\<lambda>i. length xs + i) (find_index p ys)"
  by (induction xs) (cases "find_index p ys", auto)+

lemma ParseIP_dotted:
  assumes "a \<le> 255" "b \<le> 255" "c \<le> 255" "d \<le> 255"
  shows "ParseIP (dotted a b c d) = Some (v4InV6Prefix @ [a, b, c, d])"
proof -
  have e: "dotted a b c d = nat_digits a @ CHR ''.'' # Join (map nat_digits [b, c, d]) ''.''"
    by (simp add: dotted_def)
  have nd: "\<forall>x \<in> set (nat_digits a). \<not> (x = CHR ''.'' \<or> x = colon \<or> x = CHR ''%'')"
    using nat_digits_digit by (fastforce simp: is_digit_def)
  have "find_index (\<lambda>x. x = CHR ''.'' \<or> x = colon \<or> x = CHR ''%'') (dotted a b c d) = Some (length (nat_digits a))"
    unfolding e by (subst find_index_append[OF nd]) simp
  moreover have "dotted a b c d ! length (nat_digits a) = CHR ''.''" by (simp add: e)
  ultimately show ?thesis using parseIPv4_dotted[OF assms] by (simp add: ParseIP_def ParseAddr_def)
qed

lemma dotted_is_To4: "is_To4 (v4InV6Prefix @ bs)"
  by (simp add: is_To4_def v4InV6Prefix_def)

end
