(* ===== verification/RuleChecks.thy ===== *)
theory RuleChecks
  imports Utils Regexes NetAddr
begin

section \<open>The validation rules\<close>

text \<open>
  \<open>validators/rules\<close>: every rule is a function of the context it was built with and of the value
  it checks; its verdict is no error, an error, or a panic. Rules that read the world (files,
  name resolution, time zones) and the standard-library parsers without a model here (URLs, time
  layouts, JSON, URNs) take them from the record \<open>stdlib\<close>, a parameter of the model.
\<close>

subsection \<open>Contexts, verdicts and the surroundings\<close>

record vctx =
  vc_type :: "gotype option"
  vc_kind :: kind
  vc_options :: "goval list"

type_synonym verdict = "gerr option call"

abbreviation ok :: verdict where "ok \<equiv> Returns None"
abbreviation err :: "gerr \<Rightarrow> verdict" where "err e \<equiv> Returns (Some e)"
abbreviation fails :: "gostring \<Rightarrow> verdict" where "fails m \<equiv> Returns (Some (errNew m))"

datatype stat = StatNotExist | StatFailed | StatFound bool

record url = url_Scheme :: gostring url_Host :: gostring url_Fragment :: gostring url_Opaque :: gostring

record stdlib =
  lib_f2i :: "kind \<Rightarrow> flt \<Rightarrow> int"
  lib_uni :: unitab
  lib_ToLower :: "gostring \<Rightarrow> gostring"
  lib_ToUpper :: "gostring \<Rightarrow> gostring"
  lib_String :: "goval \<Rightarrow> gostring call"
  lib_ParseURL :: "gostring \<Rightarrow> url option"
  lib_ParseRequestURI :: "gostring \<Rightarrow> bool"
  lib_urn :: "gostring \<Rightarrow> bool"
  lib_timeParse :: "gostring \<Rightarrow> gostring \<Rightarrow> bool"
  lib_LoadLocation :: "gostring \<Rightarrow> bool"
  lib_Stat :: "gostring \<Rightarrow> stat"
  lib_jsonValid :: "gostring \<Rightarrow> bool"
  lib_ResolveIP :: "gostring \<Rightarrow> gostring \<Rightarrow> bool"
  lib_ResolveTCP :: "gostring \<Rightarrow> gostring \<Rightarrow> bool"
  lib_ResolveUDP :: "gostring \<Rightarrow> gostring \<Rightarrow> bool"

type_synonym rule = "stdlib \<Rightarrow> vctx \<Rightarrow> goval \<Rightarrow> verdict"

text \<open>Case mapping: the ASCII one of the model for ASCII strings, the tables of the library for
  the others.\<close>

definition is_ascii :: "gostring \<Rightarrow> bool" where "is_ascii s \<longleftrightarrow> list_all (\<lambda>c. byte c < 128) s"
definition strings_ToLower :: "stdlib \<Rightarrow> gostring \<Rightarrow> gostring" where
  "strings_ToLower L s = (if is_ascii s then ToLower s else lib_ToLower L s)"
definition strings_ToUpper :: "stdlib \<Rightarrow> gostring \<Rightarrow> gostring" where
  "strings_ToUpper L s = (if is_ascii s then ToUpper s else lib_ToUpper L s)"

definition lib_result :: "gostring \<Rightarrow> bool \<Rightarrow> verdict" where
  "lib_result f b = (if b then ok else err (LibErr f))"

text \<open>The kind a rule works with: the one of its context or, when that is invalid, the dynamic one
  of the value; asking the type of nil panics.\<close>

definition effective_kind :: "vctx \<Rightarrow> goval \<Rightarrow> kind call" where
  "effective_kind c v =
     (if vc_kind c \<noteq> KInvalid then Returns (vc_kind c)
      else case typeof v of None \<Rightarrow> Panics | Some t \<Rightarrow> Returns (kind_of t))"

subsection \<open>is\_required.go, is\_present.go, is\_allow\_zero.go\<close>

definition isPrimitiveKind :: "kind \<Rightarrow> bool" where
  "isPrimitiveKind k \<longleftrightarrow>
     k \<in> {KString, KBool, KInt, KInt8, KInt16, KInt32, KInt64,
          KUint, KUint8, KUint16, KUint32, KUint64, KFloat32, KFloat64}"

definition IsRequired :: rule where
  "IsRequired L c v =
     (case typeof v of
        None \<Rightarrow> fails ''value is required''
      | Some t \<Rightarrow>
          let k = kind_of t in
          if k = KSlice \<or> k = KMap \<or> k = KString \<or> k = KArray then
            (if vlen v = Some 0 then fails ''value is required (empty)'' else ok)
          else if KindIsNumber k then
            bind_call (AnyValueToFloat (lib_f2i L) v)
              (\<lambda>(f, _). if flt_eq f (FNum 0) then fails ''value is required (zero)'' else ok)
          else if k = KBool then
            (case v of VBool _ b \<Rightarrow> if b then ok else fails ''value is required (false)'' | _ \<Rightarrow> ok)
          else if k = KStruct then ok
          else (case vc_type c of
              None \<Rightarrow> Panics
            | Some ct \<Rightarrow>
                if \<not> convertible_to t ct then ok
                else if kind_of ct \<noteq> KInterface \<and> is_zero (go_convert (lib_f2i L) v ct)
                then err (Errorf ''value is required (zero value for type %s)'' [])
                else ok))"

definition IsPresent :: rule where
  "IsPresent L c v = (if v = VNil then fails ''value must be present'' else ok)"

definition IsAllowZero :: rule where "IsAllowZero L c v = ok"

subsection \<open>is\_max.go and is\_min.go\<close>

definition limit_or :: "gostring \<Rightarrow> stdlib \<Rightarrow> goval list \<Rightarrow> (flt \<times> gerr option) call" where
  "limit_or msg L opts =
     (case opts of [o1] \<Rightarrow> AnyValueToFloat (lib_f2i L) o1 | _ \<Rightarrow> Returns (FNum 0, Some (errNew msg)))"

text \<open>The number a value is compared by in the default branch: the type switch on the predeclared
  numeric types and \<open>string\<close>.\<close>

fun measured :: "goval \<Rightarrow> flt option" where
  "measured (VInt (TBasic k) i) = (if k = KUintptr then None else Some (float64_of_int i))"
| "measured (VFloat (TBasic k) f) = Some f"
| "measured (VString (TBasic k) s) = Some (float64_of_int (int (length s)))"
| "measured _ = None"

text \<open>The switch on the kind: a collection is measured by its length and an unreadable limit is an
  error; in the default branch the error of the limit is never looked at.\<close>

definition limit_switch ::
  "(flt \<Rightarrow> bool) \<Rightarrow> gerr \<Rightarrow> gostring \<Rightarrow> gerr option \<Rightarrow> kind \<Rightarrow> goval \<Rightarrow> verdict" where
  "limit_switch holds_for failure unsupported e k v =
     (if k = KSlice \<or> k = KArray \<or> k = KMap then
        (case e of
           Some x \<Rightarrow> err x
         | None \<Rightarrow> (case vlen v of
             None \<Rightarrow> Panics
           | Some n \<Rightarrow> if holds_for (float64_of_int (int n)) then ok else err failure))
      else (case measured v of
          Some f \<Rightarrow> if holds_for f then ok else err failure
        | None \<Rightarrow> err (Errorf unsupported [v])))"

definition limit_rule ::
  "(flt \<Rightarrow> flt \<Rightarrow> bool) \<Rightarrow> gostring \<Rightarrow> gostring \<Rightarrow> gostring \<Rightarrow> rule" where
  "limit_rule cmp arity failure unsupported L c v =
     bind_call (limit_or arity L (vc_options c)) (\<lambda>(limit, e).
       let switch = limit_switch (\<lambda>f. cmp f limit) (Errorf failure [VFloat TFloat64 limit]) unsupported e
       in if vc_kind c = KInvalid then
            (case e of
               Some x \<Rightarrow> err x
             | None \<Rightarrow> bind_call (effective_kind c v) (\<lambda>k. switch k v))
          else switch (vc_kind c) v)"

definition IsMax :: rule where
  "IsMax = limit_rule flt_le ''validation rule 'IsMax' requires 1 limit argument''
     ''value must be equal or lesser than maximum limit of %f''
     ''unsupported type %T when validating maximum value''"

definition IsMin :: rule where
  "IsMin = limit_rule (\<lambda>v l. flt_le l v) ''validation rule 'IsMin' requires 1 limit argument''
     ''value must be equal or greater than minimum limit of %f''
     ''unsupported type %T when validating minimum value''"

subsection \<open>is\_oneof.go\<close>

text \<open>The options converted to the type of the context, and the errors of those that do not
  convert.\<close>

definition convert_option :: "stdlib \<Rightarrow> gotype \<Rightarrow> goval \<Rightarrow> gerr + goval" where
  "convert_option L ct opt =
     (if isPrimitiveKind (kind_of ct) \<and> typeof opt = Some ct then Inr opt
      else case typeof opt of
          None \<Rightarrow> Inl (Errorf ''option %d: %v (type %s) is not convertible to %s'' [opt])
        | Some t \<Rightarrow>
            if convertible_to t ct then Inr (go_convert (lib_f2i L) opt ct)
            else Inl (Errorf ''option %d: %v (type %s) is not convertible to %s'' [opt]))"

fun errors_of :: "('e + 'a) list \<Rightarrow> 'e list" where
  "errors_of [] = []"
| "errors_of (Inl e # rs) = e # errors_of rs"
| "errors_of (Inr x # rs) = errors_of rs"

fun values_of :: "('e + 'a) list \<Rightarrow> 'a list" where
  "values_of [] = []"
| "values_of (Inl e # rs) = values_of rs"
| "values_of (Inr x # rs) = x # values_of rs"

text \<open>The search through the options; \<open>shown\<close> is the value the message names.\<close>

fun one_of :: "goval \<Rightarrow> goval \<Rightarrow> goval list \<Rightarrow> verdict" where
  "one_of shown v [] = err (Errorf ''value %v not in allowed options'' [shown])"
| "one_of shown v (opt # opts) =
     (case go_eq v opt of None \<Rightarrow> Panics | Some b \<Rightarrow> if b then ok else one_of shown v opts)"

definition IsOneOf :: rule where
  "IsOneOf L c v =
     (case vc_type c of
        None \<Rightarrow> Panics
      | Some ct \<Rightarrow>
          if \<not> comparable ct then err (Errorf ''type %s is not comparable'' [])
          else
            let useDirect = isPrimitiveKind (kind_of ct);
                converted = map (convert_option L ct) (vc_options c);
                initErrors = errors_of converted; opts = values_of converted
            in bind_call (IsRequired L c v) (\<lambda>e.
                 if e \<noteq> None then ok
                 else if initErrors \<noteq> [] then err (JoinedErr ''invalid options: %w'' initErrors)
                 else if useDirect \<and> typeof v = Some ct then one_of v v opts
                 else case typeof v of
                     None \<Rightarrow> err (Errorf ''value %v (type %s) is not convertible to %s'' [v])
                   | Some t \<Rightarrow>
                       if \<not> convertible_to t ct
                       then err (Errorf ''value %v (type %s) is not convertible to %s'' [v])
                       else one_of v (go_convert (lib_f2i L) v ct) opts))"

subsection \<open>string\_rules.go\<close>

text \<open>\<open>isValRequired\<close> tries one predeclared type after the other; a value of none of them passes,
  except an empty slice of \<open>any\<close>.\<close>

definition IsNotEmpty :: rule where
  "IsNotEmpty L c v =
     (case v of
        VString (TBasic k) s \<Rightarrow> if s = [] then fails ''value is empty'' else ok
      | VInt (TBasic k) i \<Rightarrow> if k \<noteq> KUintptr \<and> i = 0 then fails ''value is empty'' else ok
      | VFloat (TBasic k) f \<Rightarrow> if flt_eq f (FNum 0) then fails ''value is empty'' else ok
      | VSlice t xs \<Rightarrow> if t = TSlice TAny \<and> vlen v = Some 0 then fails ''value is empty'' else ok
      | _ \<Rightarrow> ok)"

definition validateString :: "vctx \<Rightarrow> (gostring \<Rightarrow> bool) \<Rightarrow> gostring \<Rightarrow> goval \<Rightarrow> verdict" where
  "validateString c check errFmt v =
     (case as_string v of
        None \<Rightarrow> fails ''value must be a string''
      | Some s \<Rightarrow>
          if check s then ok
          else (case vc_options c of
              [] \<Rightarrow> fails errFmt
            | arg # _ \<Rightarrow> if arg \<noteq> VNil then err (Errorf errFmt [arg]) else fails errFmt))"

text \<open>The single option of the rule as a string or as a rune.\<close>

definition string_option :: "vctx \<Rightarrow> gostring option" where
  "string_option c = (case vc_options c of [opt] \<Rightarrow> as_string opt | _ \<Rightarrow> None)"
definition rune_option :: "vctx \<Rightarrow> int option" where
  "rune_option c = (case vc_options c of [opt] \<Rightarrow> as_int KInt32 opt | _ \<Rightarrow> None)"

definition strings_ContainsAny :: "gostring \<Rightarrow> gostring \<Rightarrow> bool" where
  "strings_ContainsAny s chars \<longleftrightarrow> list_ex (\<lambda>r. r \<in> set (runes chars)) (runes s)"
definition strings_ContainsRune :: "gostring \<Rightarrow> int \<Rightarrow> bool" where
  "strings_ContainsRune s r \<longleftrightarrow> 0 \<le> r \<and> ValidRune (nat r) \<and> nat r \<in> set (runes s)"

fun with_option :: "'a option \<Rightarrow> ('a \<Rightarrow> bool) \<Rightarrow> bool" where
  "with_option None p = False"
| "with_option (Some x) p = p x"

definition RuleContains :: rule where
  "RuleContains L c =
     validateString c (\<lambda>v. with_option (string_option c) (Contains v)) (''value must contain '%s'' @ [CHR 0x27])"
definition ContainsAny :: rule where
  "ContainsAny L c =
     validateString c (\<lambda>v. with_option (string_option c) (strings_ContainsAny v))
       (''value must contain any of '%s'' @ [CHR 0x27])"
definition ContainsRune :: rule where
  "ContainsRune L c =
     validateString c (\<lambda>v. with_option (rune_option c) (strings_ContainsRune v))
       (''value must contain rune '%v'' @ [CHR 0x27])"
definition Excludes :: rule where
  "Excludes L c =
     validateString c (\<lambda>v. with_option (string_option c) (\<lambda>s. \<not> Contains v s))
       (''value must not contain '%s'' @ [CHR 0x27])"
definition ExcludesAll :: rule where
  "ExcludesAll L c =
     validateString c (\<lambda>v. with_option (string_option c) (\<lambda>s. \<not> strings_ContainsAny v s))
       (''value must not contain any of '%s'' @ [CHR 0x27])"
definition ExcludesRune :: rule where
  "ExcludesRune L c =
     validateString c (\<lambda>v. with_option (rune_option c) (\<lambda>r. \<not> strings_ContainsRune v r))
       (''value must not contain rune '%v'' @ [CHR 0x27])"
definition StartsWith :: rule where
  "StartsWith L c =
     validateString c (\<lambda>v. with_option (string_option c) (HasPrefix v)) (''value must start with '%s'' @ [CHR 0x27])"
definition EndsWith :: rule where
  "EndsWith L c =
     validateString c (\<lambda>v. with_option (string_option c) (HasSuffix v)) (''value must end with '%s'' @ [CHR 0x27])"
definition IsLowercase :: rule where
  "IsLowercase L c = validateString c (\<lambda>v. v = strings_ToLower L v) ''value must be lowercase''"
definition IsUppercase :: rule where
  "IsUppercase L c = validateString c (\<lambda>v. v = strings_ToUpper L v) ''value must be uppercase''"

subsection \<open>payment\_rules.go\<close>

text \<open>\<open>luhnCheck\<close> walks the digits from the right; the argument is the string reversed.\<close>

fun luhn_loop :: "gostring \<Rightarrow> nat \<Rightarrow> bool \<Rightarrow> bool" where
  "luhn_loop [] acc isSecond = (acc mod 10 = 0)"
| "luhn_loop (r # s) acc isSecond =
     (if \<not> is_digit r then False
      else
        let d0 = digit_val r;
            d = (if isSecond then (if d0 * 2 > 9 then d0 * 2 - 9 else d0 * 2) else d0)
        in luhn_loop s (acc + d) (\<not> isSecond))"

definition luhnCheck :: "gostring \<Rightarrow> bool" where "luhnCheck s = luhn_loop (rev s) 0 False"

definition IsCreditCard :: rule where
  "IsCreditCard L c v =
     (case as_string v of
        None \<Rightarrow> fails ''invalid credit card value. value must be a string''
      | Some s0 \<Rightarrow>
          let s = ReplaceAll (ReplaceAll s0 '' '' []) ''-'' [] in
          if length s < 13 \<or> length s > 19 then fails ''invalid credit card number length''
          else if \<not> luhnCheck s then fails ''invalid credit card number (luhn check failed)''
          else ok)"

definition HasLuhnChecksum :: rule where
  "HasLuhnChecksum L c v =
     (let text = (case as_string v of
            Some s \<Rightarrow> Some s
          | None \<Rightarrow> (case as_int KInt v of
              Some i \<Rightarrow> Some (Itoa i)
            | None \<Rightarrow> map_option Itoa (as_int KInt64 v)))
      in case text of
          None \<Rightarrow> fails ''invalid luhn checksum value. value must be string or int''
        | Some s \<Rightarrow> if \<not> luhnCheck s then fails ''luhn checksum failed'' else ok)"

definition IsEIN :: rule where
  "IsEIN L c v =
     (case as_string v of
        None \<Rightarrow> fails ''invalid EIN value. value must be a string''
      | Some s0 \<Rightarrow>
          let s = ReplaceAll s0 ''-'' [] in
          if length s \<noteq> 9 then fails ''invalid EIN length''
          else if \<not> list_all digit_rune (runes s) then fails ''invalid EIN characters''
          else ok)"

subsection \<open>comparison\_rules.go\<close>

definition getLimit :: "stdlib \<Rightarrow> goval list \<Rightarrow> (flt \<times> gerr option) call" where
  "getLimit = limit_or ''validation rule requires 1 limit argument''"

text \<open>The number compared: a length, or the value read with the accessor of its kind, which panics
  on a value of another kind. \<open>None\<close> is a kind without comparison.\<close>

definition compared :: "kind \<Rightarrow> goval \<Rightarrow> flt call option" where
  "compared k v =
     (if k = KString \<or> k = KSlice \<or> k = KArray \<or> k = KMap then
        Some (case vlen v of None \<Rightarrow> Panics | Some n \<Rightarrow> Returns (float64_of_int (int n)))
      else if is_signed k then
        Some (case v of VInt t i \<Rightarrow> if is_signed (kind_of t) then Returns (float64_of_int i) else Panics
              | _ \<Rightarrow> Panics)
      else if is_unsigned k then
        Some (case v of VInt t i \<Rightarrow> if is_signed (kind_of t) then Panics else Returns (float64_of_int i)
              | _ \<Rightarrow> Panics)
      else if is_float k then Some (case v of VFloat t f \<Rightarrow> Returns f | _ \<Rightarrow> Panics)
      else None)"

definition evaluateComparison :: "(flt \<Rightarrow> flt \<Rightarrow> bool) \<Rightarrow> gostring \<Rightarrow> rule" where
  "evaluateComparison check errFmt L c v =
     bind_call (getLimit L (vc_options c)) (\<lambda>(limit, e).
       case e of
         Some x \<Rightarrow> err x
       | None \<Rightarrow> bind_call (effective_kind c v) (\<lambda>k.
           case compared k v of
             None \<Rightarrow> err (Errorf ''unsupported type %v for comparison'' [])
           | Some r \<Rightarrow> bind_call r (\<lambda>cur.
               if check cur limit then ok else err (Errorf errFmt [VFloat TFloat64 limit]))))"

definition IsLen :: rule where "IsLen = evaluateComparison flt_eq ''value length must be %f''"
definition IsEq :: rule where "IsEq = evaluateComparison flt_eq ''value must be equal to %f''"
definition IsNe :: rule where
  "IsNe = evaluateComparison (\<lambda>v l. \<not> flt_eq v l) ''value must not be equal to %f''"
definition IsLt :: rule where "IsLt = evaluateComparison flt_lt ''value must be less than %f''"
definition IsGt :: rule where
  "IsGt = evaluateComparison (\<lambda>v l. flt_lt l v) ''value must be greater than %f''"
definition IsLte :: rule where
  "IsLte = evaluateComparison flt_le ''value must be less than or equal to %f''"
definition IsGte :: rule where
  "IsGte = evaluateComparison (\<lambda>v l. flt_le l v) ''value must be greater than or equal to %f''"

subsection \<open>misc\_rules.go, time\_rules.go and file\_rules.go\<close>

definition IsBoolean :: rule where
  "IsBoolean L c v =
     bind_call (effective_kind c v) (\<lambda>k.
       let failure = fails ''value must be a boolean or a string representation of boolean'' in
       if k = KBool then ok
       else if k = KString then
         (case as_string v of
            None \<Rightarrow> fails ''invalid boolean value''
          | Some s \<Rightarrow> if s \<in> {''true'', ''false'', ''1'', ''0''} then ok else failure)
       else failure)"

definition IsJSON :: rule where
  "IsJSON L c v =
     (case as_string v of
        None \<Rightarrow> fails ''invalid json value. value must be a string''
      | Some s \<Rightarrow>
          if s = [] then fails ''json value cannot be empty''
          else if \<not> lib_jsonValid L s then fails ''value must be valid json'' else ok)"

definition IsDefault :: rule where
  "IsDefault L c v =
     (if v = VNil \<or> is_zero v then ok else fails ''value must be the default (zero) value'')"

definition RFC3339 :: gostring where "RFC3339 = ''2006-01-02T15:04:05Z07:00''"

definition IsDatetime :: rule where
  "IsDatetime L c v =
     (let layout = (case vc_options c of [] \<Rightarrow> RFC3339
                    | opt # _ \<Rightarrow> (case as_string opt of Some l \<Rightarrow> l | None \<Rightarrow> RFC3339))
      in bind_call (effective_kind c v) (\<lambda>k.
           if k \<noteq> KString then fails ''invalid datetime value. value must be a string''
           else case as_string v of
               None \<Rightarrow> Panics
             | Some s \<Rightarrow> if lib_timeParse L layout s then ok
                         else err (Errorf (''value must match datetime layout '%s'' @ [CHR 0x27]) [str layout])))"

definition IsTimezone :: rule where
  "IsTimezone L c v =
     bind_call (effective_kind c v) (\<lambda>k.
       if k \<noteq> KString then fails ''invalid timezone value. value must be a string''
       else case as_string v of
           None \<Rightarrow> Panics
         | Some s \<Rightarrow>
             if s = [] then fails ''timezone value cannot be empty''
             else if lib_LoadLocation L s then ok else fails ''invalid timezone location'')"

definition IsFile :: rule where
  "IsFile L c v =
     (case as_string v of
        None \<Rightarrow> fails ''invalid file path value. value must be a string''
      | Some path \<Rightarrow>
          (case lib_Stat L path of
             StatNotExist \<Rightarrow> err (Errorf ''file '%s' does not exist'' [str path])
           | StatFailed \<Rightarrow> err (LibErr ''os.Stat'')
           | StatFound isDir \<Rightarrow>
               if isDir then err (Errorf ''path '%s' is a directory, not a file'' [str path]) else ok))"

definition IsDir :: rule where
  "IsDir L c v =
     (case as_string v of
        None \<Rightarrow> fails ''invalid directory path value. value must be a string''
      | Some path \<Rightarrow>
          (case lib_Stat L path of
             StatNotExist \<Rightarrow> err (Errorf ''directory '%s' does not exist'' [str path])
           | StatFailed \<Rightarrow> err (LibErr ''os.Stat'')
           | StatFound isDir \<Rightarrow>
               if \<not> isDir then err (Errorf ''path '%s' is a file, not a directory'' [str path]) else ok))"

definition IsFilePath :: rule where
  "IsFilePath L c v =
     (case as_string v of
        None \<Rightarrow> fails ''invalid file path value. value must be a string''
      | Some path \<Rightarrow>
          if path = [] then fails ''file path cannot be empty''
          else if list_ex (\<lambda>b. byte b = 0) path then fails ''file path contains null byte''
          else ok)"

end
