(* ===== verification/NetRules.thy ===== *)
theory NetRules
  imports RuleChecks
begin

section \<open>Rules over patterns and addresses\<close>

text \<open>
  \<open>regex_rules.go\<close>, \<open>net_rules.go\<close>, \<open>ip_rules.go\<close> and \<open>url_rules.go\<close> of
  \<open>validators/rules\<close>.
\<close>

subsection \<open>regex\_rules.go\<close>

definition validateRegex :: "gostring \<Rightarrow> pattern \<Rightarrow> rule" where
  "validateRegex name re L c v =
     (let invalidStr = fails (''invalid '' @ name @ '' value. value must be a string'');
          invalid = fails (''invalid '' @ name @ '' value'');
          judge = (\<lambda>s. if MatchString (lib_uni L) re s then ok else invalid)
      in bind_call (effective_kind c v) (\<lambda>kind.
           if kind = KString then
             (case as_string v of None \<Rightarrow> invalidStr | Some s \<Rightarrow> judge s)
           else if (case typeof v of None \<Rightarrow> False | Some t \<Rightarrow> implements t [''String'']) then
             bind_call (lib_String L v) judge
           else (case as_string v of None \<Rightarrow> Panics | Some s \<Rightarrow> judge s)))"

definition IsAlpha :: rule where "IsAlpha = validateRegex ''alpha'' AlphaRegex"
definition IsAlphaNumeric :: rule where "IsAlphaNumeric = validateRegex ''alphanumeric'' AlphaNumericRegex"
definition IsAlphaUnicode :: rule where "IsAlphaUnicode = validateRegex ''alpha unicode'' AlphaUnicodeRegex"
definition IsAlphaUnicodeNumeric :: rule where "IsAlphaUnicodeNumeric = validateRegex ''alpha unicode numeric'' AlphaUnicodeNumericRegex"
definition IsASCII :: rule where "IsASCII = validateRegex ''ascii'' ASCIIRegex"
definition IsPrintableASCII :: rule where "IsPrintableASCII = validateRegex ''printable ascii'' PrintableASCIIRegex"
definition IsMultibyte :: rule where "IsMultibyte = validateRegex ''multibyte'' MultibyteRegex"
definition IsNumeric :: rule where "IsNumeric = validateRegex ''numeric'' NumericRegex"
definition IsNumber :: rule where "IsNumber = validateRegex ''number'' NumberRegex"
definition IsHexadecimal :: rule where "IsHexadecimal = validateRegex ''hexadecimal'' HexadecimalRegex"
definition IsHexColor :: rule where "IsHexColor = validateRegex ''hex color'' HexColorRegex"
definition IsRGB :: rule where "IsRGB = validateRegex ''rgb'' RgbRegex"
definition IsRGBA :: rule where "IsRGBA = validateRegex ''rgba'' RgbaRegex"
definition IsHSL :: rule where "IsHSL = validateRegex ''hsl'' HslRegex"
definition IsHSLA :: rule where "IsHSLA = validateRegex ''hsla'' HslaRegex"
definition IsEmail :: rule where "IsEmail = validateRegex ''email'' EmailRegex"
definition IsE164 :: rule where "IsE164 = validateRegex ''e164'' E164Regex"
definition IsISBN10 :: rule where "IsISBN10 = validateRegex ''isbn10'' ISBN10Regex"
definition IsISBN13 :: rule where "IsISBN13 = validateRegex ''isbn13'' ISBN13Regex"
definition IsISSN :: rule where "IsISSN = validateRegex ''issn'' ISSNRegex"
definition IsUUID :: rule where "IsUUID = validateRegex ''uuid'' UUIDRegex"
definition IsUUID3 :: rule where "IsUUID3 = validateRegex ''uuid3'' UUID3Regex"
definition IsUUID4 :: rule where "IsUUID4 = validateRegex ''uuid4'' UUID4Regex"
definition IsUUID5 :: rule where "IsUUID5 = validateRegex ''uuid5'' UUID5Regex"
definition IsUUIDRFC4122 :: rule where "IsUUIDRFC4122 = validateRegex ''uuid (rfc4122)'' UUIDRFC4122Regex"
definition IsUUID3RFC4122 :: rule where "IsUUID3RFC4122 = validateRegex ''uuid3 (rfc4122)'' UUID3RFC4122Regex"
definition IsUUID4RFC4122 :: rule where "IsUUID4RFC4122 = validateRegex ''uuid4 (rfc4122)'' UUID4RFC4122Regex"
definition IsUUID5RFC4122 :: rule where "IsUUID5RFC4122 = validateRegex ''uuid5 (rfc4122)'' UUID5RFC4122Regex"
definition IsULID :: rule where "IsULID = validateRegex ''ulid'' ULIDRegex"
definition IsSSN :: rule where "IsSSN = validateRegex ''ssn'' SSNRegex"
definition IsBIC :: rule where "IsBIC = validateRegex ''bic'' BicRegex"
definition IsSemver :: rule where "IsSemver = validateRegex ''semver'' SemverRegex"
definition IsCVE :: rule where "IsCVE = validateRegex ''cve'' CveRegex"
definition IsBase32 :: rule where "IsBase32 = validateRegex ''base32'' Base32Regex"
definition IsBase64 :: rule where "IsBase64 = validateRegex ''base64'' Base64Regex"
definition IsBase64URL :: rule where "IsBase64URL = validateRegex ''base64url'' Base64URLRegex"
definition IsBase64RawURL :: rule where "IsBase64RawURL = validateRegex ''base64rawurl'' Base64RawURLRegex"
definition IsMD4 :: rule where "IsMD4 = validateRegex ''md4'' Md4Regex"
definition IsMD5 :: rule where "IsMD5 = validateRegex ''md5'' Md5Regex"
definition IsSHA256 :: rule where "IsSHA256 = validateRegex ''sha256'' Sha256Regex"
definition IsSHA384 :: rule where "IsSHA384 = validateRegex ''sha384'' Sha384Regex"
definition IsSHA512 :: rule where "IsSHA512 = validateRegex ''sha512'' Sha512Regex"
definition IsRIPEMD128 :: rule where "IsRIPEMD128 = validateRegex ''ripemd128'' Ripemd128Regex"
definition IsRIPEMD160 :: rule where "IsRIPEMD160 = validateRegex ''ripemd160'' Ripemd160Regex"
definition IsTiger128 :: rule where "IsTiger128 = validateRegex ''tiger128'' Tiger128Regex"
definition IsTiger160 :: rule where "IsTiger160 = validateRegex ''tiger160'' Tiger160Regex"
definition IsTiger192 :: rule where "IsTiger192 = validateRegex ''tiger192'' Tiger192Regex"
definition IsHTMLEncoded :: rule where "IsHTMLEncoded = validateRegex ''html encoded'' HTMLEncodedRegex"
definition IsJWT :: rule where "IsJWT = validateRegex ''jwt'' JWTRegex"
definition IsHTML :: rule where "IsHTML = validateRegex ''html'' HTMLRegex"
definition IsCron :: rule where "IsCron = validateRegex ''cron'' CronRegex"
definition IsSpiceDBID :: rule where "IsSpiceDBID = validateRegex ''spicedb id'' SpicedbIDRegex"
definition IsSpiceDBPermission :: rule where "IsSpiceDBPermission = validateRegex ''spicedb permission'' SpicedbPermissionRegex"
definition IsSpiceDBType :: rule where "IsSpiceDBType = validateRegex ''spicedb type'' SpicedbTypeRegex"
definition IsLatitude :: rule where "IsLatitude = validateRegex ''latitude'' LatitudeRegex"
definition IsLongitude :: rule where "IsLongitude = validateRegex ''longitude'' LongitudeRegex"
definition IsBTCAddress :: rule where "IsBTCAddress = validateRegex ''bitcoin address'' BtcAddressRegex"
definition IsETHAddress :: rule where "IsETHAddress = validateRegex ''ethereum address'' EthAddressRegex"
definition IsMongoDB :: rule where "IsMongoDB = validateRegex ''mongodb objectid'' MongodbRegex"

text \<open>Both spellings of the Bech32 form are tried.\<close>

definition IsBTCAddressBech32 :: rule where
  "IsBTCAddressBech32 L c v =
     bind_call (validateRegex ''bitcoin bech32 address'' BtcUpperAddressRegexBech32 L c v) (\<lambda>errUpper.
       if errUpper = None then ok
       else validateRegex ''bitcoin bech32 address'' BtcLowerAddressRegexBech32 L c v)"

subsection \<open>The frame of the address and URL rules\<close>

text \<open>These rules choose their closure by the kind of the context: with an invalid kind the dynamic
  kind of the value decides, with kind \<open>string\<close> a predeclared string is checked, and any other
  kind is refused. \<open>einvalid\<close> is the error of a value without a kind, \<open>estr\<close> that of a value that
  is no string.\<close>

definition string_rule :: "gostring \<Rightarrow> gostring \<Rightarrow> (gostring \<Rightarrow> verdict) \<Rightarrow> vctx \<Rightarrow> goval \<Rightarrow> verdict" where
  "string_rule einvalid estr check c v =
     (let by_kind = (\<lambda>k.
            if k = KString then (case as_string v of None \<Rightarrow> fails estr | Some s \<Rightarrow> check s)
            else fails estr)
      in if vc_kind c = KInvalid then
           (case typeof v of
              None \<Rightarrow> Panics
            | Some t \<Rightarrow> if kind_of t \<noteq> KInvalid then by_kind (kind_of t) else fails einvalid)
         else by_kind (vc_kind c))"

subsection \<open>ip\_rules.go\<close>

definition IsIP :: rule where
  "IsIP L =
     string_rule ''invalid ip value. value must be a string'' ''invalid ip value. value must be a string''
       (\<lambda>s. if ParseIP s = None then fails ''invalid ip value'' else ok)"

definition ip_is_v4 :: "gostring \<Rightarrow> bool" where
  "ip_is_v4 s \<longleftrightarrow> (case ParseIP s of None \<Rightarrow> False | Some ip \<Rightarrow> is_To4 ip)"
definition ip_is_v6 :: "gostring \<Rightarrow> bool" where
  "ip_is_v6 s \<longleftrightarrow> (case ParseIP s of None \<Rightarrow> False | Some ip \<Rightarrow> \<not> is_To4 ip)"

definition IsIPv4 :: rule where
  "IsIPv4 L =
     string_rule ''invalid ipv4 value. value must be a string'' ''invalid ipv4 value. value must be a string''
       (\<lambda>s. if ip_is_v4 s then ok else fails ''invalid ipv4 value'')"

definition IsIPv6 :: rule where
  "IsIPv6 L =
     string_rule ''invalid ipv6 value. value must be a string'' ''invalid ipv6 value. value must be a string''
       (\<lambda>s. if ip_is_v6 s then ok else fails ''invalid ipv6 value'')"

text \<open>A resolvable address passes the syntactic rule first and is then given to the resolver.\<close>

definition then_resolve :: "verdict \<Rightarrow> gostring \<Rightarrow> gostring \<Rightarrow> (gostring \<Rightarrow> bool) \<Rightarrow> goval \<Rightarrow> verdict" where
  "then_resolve first estr f resolve v =
     bind_call first (\<lambda>e.
       if e \<noteq> None then Returns e
       else case as_string v of None \<Rightarrow> fails estr | Some s \<Rightarrow> lib_result f (resolve s))"

definition IsIP4AddrResolvable :: rule where
  "IsIP4AddrResolvable L c v =
     then_resolve (IsIPv4 L c v) ''invalid ipv4 value'' ''net.ResolveIPAddr'' (lib_ResolveIP L ''ip4'') v"
definition IsIP6AddrResolvable :: rule where
  "IsIP6AddrResolvable L c v =
     then_resolve (IsIPv6 L c v) ''invalid ipv6 value'' ''net.ResolveIPAddr'' (lib_ResolveIP L ''ip6'') v"
definition IsIPAddrResolvable :: rule where
  "IsIPAddrResolvable L c v =
     then_resolve (IsIP L c v) ''invalid ip value'' ''net.ResolveIPAddr'' (lib_ResolveIP L ''ip'') v"

text \<open>The address before the last colon.\<close>

definition cut_port4 :: "gostring \<Rightarrow> gostring" where
  "cut_port4 s = (case LastIndexByte s colon of None \<Rightarrow> s | Some i \<Rightarrow> take i s)"

text \<open>The address between the first byte and the bracket before the last colon; the slice
  \<open>v[1:idx-1]\<close> panics when the bracket is the first byte.\<close>

definition cut_port6 :: "gostring \<Rightarrow> gostring call" where
  "cut_port6 s =
     (case LastIndexByte s colon of
        None \<Rightarrow> Returns s
      | Some i \<Rightarrow>
          if i \<noteq> 0 \<and> s ! (i - 1) = CHR '']'' then
            (if i = 1 then Panics else Returns (drop 1 (take (i - 1) s)))
          else Returns s)"

definition IsIP4Addr :: rule where
  "IsIP4Addr L =
     string_rule ''invalid ipv4 address. value must be a string'' ''invalid ipv4 address. value must be a string''
       (\<lambda>s. if ip_is_v4 (cut_port4 s) then ok else fails ''invalid ipv4 address'')"

definition IsIP6Addr :: rule where
  "IsIP6Addr L =
     string_rule ''invalid ipv6 address. value must be a string'' ''invalid ipv6 address. value must be a string''
       (\<lambda>s. bind_call (cut_port6 s) (\<lambda>a. if ip_is_v6 a then ok else fails ''invalid ipv6 address''))"

subsection \<open>net\_rules.go\<close>

definition IsCIDR :: rule where
  "IsCIDR L =
     (let e = ''invalid value passed. CIDR value must be a string''
      in string_rule e e (\<lambda>s. lib_result ''net.ParseCIDR'' (ParseCIDR s \<noteq> None)))"

definition IsCIDRv4 :: rule where
  "IsCIDRv4 L =
     (let e = ''invalid CIDRv4 value. value must be a string''
      in string_rule e e (\<lambda>s.
           case ParseCIDR s of
             None \<Rightarrow> fails ''invalid CIDRv4 value. value must be a IPv4 address''
           | Some (ip, net) \<Rightarrow>
               if \<not> is_To4 ip then fails ''invalid CIDRv4 value. value must be a IPv4 address''
               else if net \<noteq> ip then fails ''invalid CIDR value. ip and x values don't match''
               else ok))"

definition IsCIDRv6 :: rule where
  "IsCIDRv6 L =
     (let e = ''invalid CIDRv6 value. value must be a string''
      in string_rule e e (\<lambda>s.
           case ParseCIDR s of
             None \<Rightarrow> err (LibErr ''net.ParseCIDR'')
           | Some (ip, net) \<Rightarrow>
               if is_To4 ip then fails ''invalid CIDRv6 value. value must be a IPv6 address'' else ok))"

definition IsMAC :: rule where
  "IsMAC L =
     (let e = ''invalid MAC value. value must be a string''
      in string_rule e e (\<lambda>s. lib_result ''net.ParseMAC'' (ParseMAC s)))"

definition IsTCP4AddrResolvable :: rule where
  "IsTCP4AddrResolvable L c v =
     then_resolve (IsIP4Addr L c v) ''invalid tcp4 address. value must be a string'' ''net.ResolveTCPAddr''
       (lib_ResolveTCP L ''tcp4'') v"
definition IsTCP6AddrResolvable :: rule where
  "IsTCP6AddrResolvable L c v =
     then_resolve (IsIP6Addr L c v) ''invalid tcp6 address. value must be a string'' ''net.ResolveTCPAddr''
       (lib_ResolveTCP L ''tcp6'') v"

text \<open>Both syntactic rules are required, one after the other.\<close>

definition both_addr :: rule where
  "both_addr L c v =
     bind_call (IsIP4Addr L c v) (\<lambda>e. if e \<noteq> None then Returns e else IsIP6Addr L c v)"

definition IsTCPAddrResolvable :: rule where
  "IsTCPAddrResolvable L c v =
     then_resolve (both_addr L c v) ''invalid tcp address value'' ''net.ResolveTCPAddr''
       (lib_ResolveTCP L ''tcp'') v"
definition IsUDP4AddrResolvable :: rule where
  "IsUDP4AddrResolvable L c v =
     then_resolve (IsIP4Addr L c v) ''invalid udp4 address'' ''net.ResolveUDPAddr'' (lib_ResolveUDP L ''udp4'') v"
definition IsUDP6AddrResolvable :: rule where
  "IsUDP6AddrResolvable L c v =
     then_resolve (IsIP6Addr L c v) ''invalid udp6 address'' ''net.ResolveUDPAddr'' (lib_ResolveUDP L ''udp6'') v"
definition IsUDPAddrResolvable :: rule where
  "IsUDPAddrResolvable L c v =
     then_resolve (both_addr L c v) ''invalid udp address value'' ''net.ResolveUDPAddr''
       (lib_ResolveUDP L ''udp'') v"

text \<open>\<open>net.ResolveUnixAddr\<close> accepts every name on the network \<open>unix\<close>.\<close>

definition IsUnixAddrResolvable :: rule where
  "IsUnixAddrResolvable L =
     (let e = ''invalid unix address. value must be a string'' in string_rule e e (\<lambda>s. ok))"

definition IsFQDN :: rule where
  "IsFQDN L =
     (let e = ''invalid FQDN value. value must be a string''
      in string_rule e e (\<lambda>s.
           if s = [] then fails ''invalid FQDN value. value cannot be empty''
           else if MatchString (lib_uni L) FqdnRegexRFC1123 s then ok else fails e))"

definition IsHostnameRFC952 :: rule where
  "IsHostnameRFC952 L =
     (let e = ''invalid hostname value. value must be a string''
      in string_rule e e (\<lambda>s.
           if s = [] then fails ''invalid FQDN value. value cannot be empty''
           else if MatchString (lib_uni L) FqdnRegexRFC1123 s then ok else fails e))"

definition IsHostnamePort :: rule where
  "IsHostnamePort L =
     (let e = ''invalid host port value. value must be a string''; invalid = fails ''invalid host port value''
      in string_rule e e (\<lambda>s.
           case SplitHostPort s of
             None \<Rightarrow> invalid
           | Some (host, port) \<Rightarrow>
               (case ParseInt 32 port of
                  None \<Rightarrow> invalid
                | Some n \<Rightarrow>
                    if n > 65535 \<or> n < 1 then invalid
                    else if host \<noteq> [] then
                      (if MatchString (lib_uni L) HostnameRegexRFC1123 host then ok else invalid)
                    else ok)))"

definition IsHostnameRFC1123 :: rule where
  "IsHostnameRFC1123 L =
     (let e = ''invalid host name value. value must be a string''
      in string_rule e e (\<lambda>s.
           if MatchString (lib_uni L) HostnameRegexRFC1123 s then ok else fails ''invalid host name value''))"

subsection \<open>url\_rules.go\<close>

definition isFileURL :: "stdlib \<Rightarrow> gostring \<Rightarrow> verdict" where
  "isFileURL L path =
     (if \<not> HasPrefix path ''file:/'' then fails ''file url must start with file:/''
      else lib_result ''url.ParseRequestURI'' (lib_ParseRequestURI L path))"

definition IsFileURL :: rule where
  "IsFileURL L =
     string_rule ''value is invalid'' ''only string values are allowed as file url''
       (\<lambda>v. let s = strings_ToLower L v in
            if s = [] then fails ''file url value cannot be empty'' else isFileURL L s)"

definition IsDataURI :: rule where
  "IsDataURI L =
     (let e = ''invalid data uri value. value must be a string''; invalid = fails ''invalid data uri value''
      in string_rule e e (\<lambda>v.
           case find_index (\<lambda>b. b = CHR '','') v of
             None \<Rightarrow> invalid
           | Some i \<Rightarrow>
               if \<not> MatchString (lib_uni L) DataURIRegex (take i v) then invalid
               else if \<not> MatchString (lib_uni L) Base64Regex (drop (Suc i) v) then invalid
               else ok))"

definition IsURI :: rule where
  "IsURI L =
     (let e = ''invalid URI value. value must be a string''
      in string_rule e e (\<lambda>s.
           let v = (case find_index (\<lambda>b. b = CHR ''#'') s of None \<Rightarrow> s | Some i \<Rightarrow> take i s) in
           if v = [] then fails ''invalid URI value. value cannot be empty''
           else lib_result ''url.ParseRequestURI'' (lib_ParseRequestURI L v)))"

definition IsURL :: rule where
  "IsURL L =
     (let e = ''only string values are allowed as url''
      in string_rule e e (\<lambda>v.
           let s = strings_ToLower L v in
           if s = [] then fails ''url value cannot be empty''
           else bind_call (isFileURL L s) (\<lambda>r.
             if r = None then ok
             else case lib_ParseURL L s of
                 None \<Rightarrow> fails ''invalid url format''
               | Some u \<Rightarrow>
                   if url_Scheme u = [] then fails ''invalid url format''
                   else if url_Host u = [] \<and> url_Fragment u = [] \<and> url_Opaque u = []
                   then fails ''invalid url format'' else ok)))"

definition IsHttpURL :: rule where
  "IsHttpURL L c v =
     (let e = ''invalid http(s) url. value must be a string''; invalid = fails ''invalid http(s) url''
      in string_rule e e (\<lambda>s0.
           bind_call (IsURL L (c\<lparr>vc_kind := KString\<rparr>) v) (\<lambda>r.
             if r \<noteq> None then Returns r
             else case lib_ParseURL L (strings_ToLower L s0) of
                 None \<Rightarrow> invalid
               | Some u \<Rightarrow>
                   if url_Host u = [] then invalid
                   else if url_Scheme u = ''http'' \<or> url_Scheme u = ''https'' then ok else invalid)) c v)"

definition IsURLEncoded :: rule where
  "IsURLEncoded L c v =
     (case as_string v of
        None \<Rightarrow> Panics
      | Some s \<Rightarrow> if MatchString (lib_uni L) URLEncodedRegex s then ok
                  else fails ''url encoding in the wrong format'')"

definition IsUrnRFC2141 :: rule where
  "IsUrnRFC2141 L c v =
     (case as_string v of
        None \<Rightarrow> fails ''invalid URN value. value must be a string''
      | Some s \<Rightarrow> if \<not> lib_urn L s then fails ''invalid URN value'' else ok)"

end
