(* ===== verification/Validators.thy ===== *)
theory Validators
  imports NetRules
begin

section \<open>Running rules over values and structs\<close>

text \<open>
  Package \<open>validators\<close>: the table of rules (\<open>mappings.go\<close>), the choice of a rule by name
  (\<open>parse.go\<close>), and the rule strings and struct tags of \<open>validator.go\<close>. The parser of struct
  tags is the one of \<open>reflect.StructTag\<close>.
\<close>

subsection \<open>Struct tags\<close>

text \<open>\<open>strconv.Unquote\<close> of the inside of a double-quoted literal.\<close>

fun hex_pair :: "char \<Rightarrow> char \<Rightarrow> char option" where
  "hex_pair a b =
     (if is_hex_digit a \<and> is_hex_digit b then Some (char_of (16 * hex_digit_val a + hex_digit_val b)) else None)"

fun unquote :: "gostring \<Rightarrow> gostring option" where
  "unquote [] = Some []"
| "unquote (c # s) =
     (if c = CHR 0x22 \<or> c = CHR 0x0A then None
      else if c \<noteq> CHR 0x5C then map_option ((#) c) (unquote s)
      else case s of
          [] \<Rightarrow> None
        | e # r \<Rightarrow>
            if e = CHR ''a'' then map_option ((#) (CHR 0x07)) (unquote r)
            else if e = CHR ''b'' then map_option ((#) (CHR 0x08)) (unquote r)
            else if e = CHR ''f'' then map_option ((#) (CHR 0x0C)) (unquote r)
            else if e = CHR ''n'' then map_option ((#) (CHR 0x0A)) (unquote r)
            else if e = CHR ''r'' then map_option ((#) (CHR 0x0D)) (unquote r)
            else if e = CHR ''t'' then map_option ((#) (CHR 0x09)) (unquote r)
            else if e = CHR ''v'' then map_option ((#) (CHR 0x0B)) (unquote r)
            else if e = CHR 0x5C \<or> e = CHR 0x22 then map_option ((#) e) (unquote r)
            else if e = CHR ''x'' then
              (case r of
                 a # b # r' \<Rightarrow>
                   (case hex_pair a b of None \<Rightarrow> None | Some d \<Rightarrow> map_option ((#) d) (unquote r'))
               | _ \<Rightarrow> None)
            else None)"

text \<open>The end of a quoted value: the first unescaped quote.\<close>

fun quote_end :: "gostring \<Rightarrow> nat option" where
  "quote_end [] = None"
| "quote_end (c # s) =
     (if c = CHR 0x22 then Some 0
      else if c = CHR 0x5C then (case s of [] \<Rightarrow> None | d # r \<Rightarrow> map_option (\<lambda>i. i + 2) (quote_end r))
      else map_option Suc (quote_end s))"

definition tag_name_char :: "char \<Rightarrow> bool" where
  "tag_name_char c \<longleftrightarrow> byte c > 32 \<and> c \<noteq> colon \<and> c \<noteq> CHR 0x22 \<and> byte c \<noteq> 127"

text \<open>\<open>StructTag.Lookup\<close>.\<close>

function Lookup :: "gostring \<Rightarrow> gostring \<Rightarrow> gostring option" where
  "Lookup tag0 key =
     (let tag = dropWhile (\<lambda>c. c = CHR '' '') tag0;
          name = takeWhile tag_name_char tag; rest = dropWhile tag_name_char tag
      in if name = [] then None
         else case rest of
             c # q # body \<Rightarrow>
               if c = colon \<and> q = CHR 0x22 then
                 (case quote_end body of
                    None \<Rightarrow> None
                  | Some i \<Rightarrow>
                      if name = key then unquote (take i body) else Lookup (drop (Suc i) body) key)
               else None
           | _ \<Rightarrow> None)"
  by pat_completeness auto
termination Lookup
proof (relation "measure (\<lambda>(t, k). length t)", goal_cases)
  case (2 tag0 key tag name rest c r q body i)
  then have "length (c # q # body) \<le> length tag" by (metis length_dropWhile_le)
  moreover have "length tag \<le> length tag0" using 2 by (simp add: length_dropWhile_le)
  ultimately show ?case by simp
qed simp

declare Lookup.simps [simp del]

definition tag_Get :: "gostring \<Rightarrow> gostring \<Rightarrow> gostring" where
  "tag_Get tag key = (case Lookup tag key of None \<Rightarrow> [] | Some v \<Rightarrow> v)"

subsection \<open>The table and the choice of a rule\<close>

definition Validators :: "(gostring \<times> rule) list" where
  "Validators =
    [(''required'', IsRequired),
     (''present'', IsPresent),
     (''allow_zero'', IsAllowZero),
     (''oneof'', IsOneOf),
     (''max'', IsMax),
     (''min'', IsMin),
     (''cidr'', IsCIDR),
     (''cidrv4'', IsCIDRv4),
     (''cidrv6'', IsCIDRv6),
     (''datauri'', IsDataURI),
     (''fileUrl'', IsFileURL),
     (''fqdn'', IsFQDN),
     (''hostname'', IsHostnameRFC952),
     (''hostname_port'', IsHostnamePort),
     (''hostname_rfc1123'', IsHostnameRFC1123),
     (''ip'', IsIP),
     (''ip4_addr'', IsIP4AddrResolvable),
     (''ip6_addr'', IsIP6AddrResolvable),
     (''ip_addr'', IsIPAddrResolvable),
     (''ipv4'', IsIPv4),
     (''ipv6'', IsIPv6),
     (''mac'', IsMAC),
     (''not_empty'', IsNotEmpty),
     (''tcp4_addr'', IsTCP4AddrResolvable),
     (''tcp6_addr'', IsTCP6AddrResolvable),
     (''tcp_addr'', IsTCPAddrResolvable),
     (''udp4_addr'', IsUDP4AddrResolvable),
     (''udp6_addr'', IsUDP6AddrResolvable),
     (''udp_addr'', IsUDPAddrResolvable),
     (''unix_addr'', IsUnixAddrResolvable),
     (''uri'', IsURI),
     (''url'', IsURL),
     (''http_url'', IsHttpURL),
     (''url_encoded'', IsURLEncoded),
     (''urn_rfc2141'', IsUrnRFC2141),
     (''alpha'', IsAlpha),
     (''alphanum'', IsAlphaNumeric),
     (''alphaunicode'', IsAlphaUnicode),
     (''alphaunicodenum'', IsAlphaUnicodeNumeric),
     (''ascii'', IsASCII),
     (''printascii'', IsPrintableASCII),
     (''multibyte'', IsMultibyte),
     (''numeric'', IsNumeric),
     (''number'', IsNumber),
     (''hexadecimal'', IsHexadecimal),
     (''hexcolor'', IsHexColor),
     (''rgb'', IsRGB),
     (''rgba'', IsRGBA),
     (''hsl'', IsHSL),
     (''hsla'', IsHSLA),
     (''email'', IsEmail),
     (''e164'', IsE164),
     (''isbn10'', IsISBN10),
     (''isbn13'', IsISBN13),
     (''issn'', IsISSN),
     (''uuid'', IsUUID),
     (''uuid3'', IsUUID3),
     (''uuid4'', IsUUID4),
     (''uuid5'', IsUUID5),
     (''uuid_rfc4122'', IsUUIDRFC4122),
     (''uuid3_rfc4122'', IsUUID3RFC4122),
     (''uuid4_rfc4122'', IsUUID4RFC4122),
     (''uuid5_rfc4122'', IsUUID5RFC4122),
     (''ulid'', IsULID),
     (''ssn'', IsSSN),
     (''bic'', IsBIC),
     (''semver'', IsSemver),
     (''cve'', IsCVE),
     (''base32'', IsBase32),
     (''base64'', IsBase64),
     (''base64url'', IsBase64URL),
     (''base64rawurl'', IsBase64RawURL),
     (''md4'', IsMD4),
     (''md5'', IsMD5),
     (''sha256'', IsSHA256),
     (''sha384'', IsSHA384),
     (''sha512'', IsSHA512),
     (''ripemd128'', IsRIPEMD128),
     (''ripemd160'', IsRIPEMD160),
     (''tiger128'', IsTiger128),
     (''tiger160'', IsTiger160),
     (''tiger192'', IsTiger192),
     (''html_encoded'', IsHTMLEncoded),
     (''html'', IsHTML),
     (''jwt'', IsJWT),
     (''cron'', IsCron),
     (''spicedb_id'', IsSpiceDBID),
     (''spicedb_permission'', IsSpiceDBPermission),
     (''spicedb_type'', IsSpiceDBType),
     (''latitude'', IsLatitude),
     (''longitude'', IsLongitude),
     (''btc_addr'', IsBTCAddress),
     (''btc_addr_bech32'', IsBTCAddressBech32),
     (''eth_addr'', IsETHAddress),
     (''mongodb'', IsMongoDB),
     (''contains'', RuleContains),
     (''containsany'', ContainsAny),
     (''containsrune'', ContainsRune),
     (''excludes'', Excludes),
     (''excludesall'', ExcludesAll),
     (''excludesrune'', ExcludesRune),
     (''startswith'', StartsWith),
     (''endswith'', EndsWith),
     (''lowercase'', IsLowercase),
     (''uppercase'', IsUppercase),
     (''len'', IsLen),
     (''eq'', IsEq),
     (''ne'', IsNe),
     (''lt'', IsLt),
     (''gt'', IsGt),
     (''lte'', IsLte),
     (''gte'', IsGte),
     (''datetime'', IsDatetime),
     (''timezone'', IsTimezone),
     (''file'', IsFile),
     (''dir'', IsDir),
     (''filepath'', IsFilePath),
     (''boolean'', IsBoolean),
     (''json'', IsJSON),
     (''isdefault'', IsDefault),
     (''credit_card'', IsCreditCard),
     (''ein'', IsEIN),
     (''luhn_checksum'', HasLuhnChecksum)]"

definition defaultValidator :: "goval \<Rightarrow> verdict" where "defaultValidator v = ok"

text \<open>A built-in rule shadows a custom one of the same name; an unknown rule accepts everything.\<close>

definition NewContextValidatorFn ::
  "stdlib \<Rightarrow> gotype option \<Rightarrow> kind \<Rightarrow> gostring \<Rightarrow> goval list \<Rightarrow> (gostring \<rightharpoonup> vctx \<Rightarrow> goval \<Rightarrow> verdict) \<Rightarrow> goval \<Rightarrow> verdict"
where
  "NewContextValidatorFn L t k name args vals =
     (let c = \<lparr>vc_type = t, vc_kind = k, vc_options = args\<rparr>
      in case map_of Validators name of
           Some r \<Rightarrow> r L c
         | None \<Rightarrow> (case vals name of Some f \<Rightarrow> f c | None \<Rightarrow> defaultValidator))"

subsection \<open>Rule strings\<close>

text \<open>\<open>strings.Fields\<close>.\<close>

fun split_spaces :: "gostring \<Rightarrow> gostring list" where
  "split_spaces [] = [[]]"
| "split_spaces (c # s) =
     (if is_space c then [] # split_spaces s
      else case split_spaces s of [] \<Rightarrow> [[c]] | w # ws \<Rightarrow> (c # w) # ws)"

definition Fields :: "gostring \<Rightarrow> gostring list" where
  "Fields s = filter (\<lambda>w. w \<noteq> []) (split_spaces s)"

record ruleDefinition = rdf_Name :: gostring rdf_Args :: "goval list"

definition parse_rule :: "gostring \<Rightarrow> ruleDefinition option" where
  "parse_rule part0 =
     (let part = TrimSpace part0
      in if part = [] then None
         else case find_index (\<lambda>c. c = CHR ''='') part of
             Some i \<Rightarrow>
               Some \<lparr>rdf_Name = TrimSpace (take i part), rdf_Args = map str (Fields (drop (Suc i) part))\<rparr>
           | None \<Rightarrow> Some \<lparr>rdf_Name = part, rdf_Args = []\<rparr>)"

definition parseRules :: "gostring \<Rightarrow> ruleDefinition list" where
  "parseRules ruleStr = pick parse_rule (Split (CHR '','') ruleStr)"

fun first_error :: "(goval \<Rightarrow> verdict) list \<Rightarrow> goval \<Rightarrow> verdict" where
  "first_error [] v = ok"
| "first_error (f # fs) v = bind_call (f v) (\<lambda>e. if e \<noteq> None then Returns e else first_error fs v)"

definition Validate :: "stdlib \<Rightarrow> goval \<Rightarrow> gostring \<Rightarrow> verdict" where
  "Validate L val rulesStr =
     (if rulesStr = [] then ok
      else first_error
        (map (\<lambda>def. NewContextValidatorFn L (typeof val) (vkind val) (rdf_Name def) (rdf_Args def) Map.empty)
          (parseRules rulesStr)) val)"

subsection \<open>Structs\<close>

definition exported :: "gostring \<Rightarrow> bool" where "exported name \<longleftrightarrow> name \<noteq> [] \<and> is_upper (hd name)"

text \<open>The loop over the fields; reading an unexported field that has a tag panics.\<close>

fun validate_fields :: "stdlib \<Rightarrow> (sfield \<times> goval) list \<Rightarrow> gerr list call" where
  "validate_fields L [] = Returns []"
| "validate_fields L ((f, v) # fs) =
     (let tag = tag_Get (sf_tag f) ''validate'' in
      if tag = [] then validate_fields L fs
      else if \<not> exported (sf_name f) then Panics
      else bind_call (Validate L v tag) (\<lambda>e.
        bind_call (validate_fields L fs) (\<lambda>es.
          Returns (case e of None \<Rightarrow> es | Some x \<Rightarrow> WrapErr ''field '%s': %v'' [str (sf_name f)] x # es))))"

definition ValidateStruct :: "stdlib \<Rightarrow> goval \<Rightarrow> verdict" where
  "ValidateStruct L s =
     (let v = (if vkind s = KPointer then (case indirect s of None \<Rightarrow> VNil | Some (t, w) \<Rightarrow> w) else s)
      in case v of
           VStruct t vs \<Rightarrow>
             bind_call (validate_fields L (zip (fields_of t) vs)) (\<lambda>es.
               if es = [] then ok else err (JoinedErr ''; '' es))
         | _ \<Rightarrow> fails ''ValidateStruct: value must be a struct or pointer to struct'')"

end
