(* ===== verification/ValidatorLaws.thy ===== *)
theory ValidatorLaws
  imports Validators
begin

section \<open>What the validation rules accept\<close>

text \<open>
  Characterisations of the rules of \<open>Validators\<close> and of the walk over a struct: the shapes the
  pattern rules accept, the arithmetic of the limits, the Luhn checksum, and the behaviour of the
  rules that never succeed on the values they are meant for.
\<close>

subsection \<open>Pattern rules\<close>

text \<open>The context of a rule on a string field.\<close>

definition string_ctx :: "vctx \<Rightarrow> bool" where
  "string_ctx c \<longleftrightarrow> vc_kind c = KString \<or> vc_kind c = KInvalid"

lemma effective_kind_str [simp]: "string_ctx c \<Longrightarrow> effective_kind c (str s) = Returns KString"
  by (auto simp: string_ctx_def effective_kind_def)

lemma validateRegex_str:
  "string_ctx c \<Longrightarrow> validateRegex name re L c (str s) =
     (if MatchString (lib_uni L) re s then ok else fails (''invalid '' @ name @ '' value''))"
  by (simp add: validateRegex_def)

subsection \<open>Letters, digits and digests\<close>

lemma validateRegex_ok [simp]:
  "string_ctx c \<Longrightarrow> validateRegex name re L c (str s) = ok \<longleftrightarrow> MatchString (lib_uni L) re s"
  by (simp add: validateRegex_str)

definition lower_hex :: "char \<Rightarrow> bool" where
  "lower_hex c \<longleftrightarrow> is_digit c \<or> 97 \<le> byte c \<and> byte c \<le> 102"

definition hex_digest :: "nat \<Rightarrow> pattern" where
  "hex_digest n = (True, RPow (RChr (CClass False False [CRange 48 57, CRange 97 102])) n, True)"

lemma digest_patterns:
  "Md4Regex = hex_digest 32" "Md5Regex = hex_digest 32" "Sha256Regex = hex_digest 64"
  "Sha384Regex = hex_digest 96" "Sha512Regex = hex_digest 128" "Ripemd128Regex = hex_digest 32"
  "Ripemd160Regex = hex_digest 40" "Tiger128Regex = hex_digest 32" "Tiger160Regex = hex_digest 40"
  "Tiger192Regex = hex_digest 48"
  by code_simp+

lemma text_patterns:
  "AlphaRegex = (True, RPlus (RChr (CClass False False [CRange 97 122, CRange 65 90])), True)"
  "NumberRegex = (True, RPlus (RChr (CClass False False [CRange 48 57])), True)"
  "AlphaNumericRegex =
     (True, RPlus (RChr (CClass False False [CRange 97 122, CRange 65 90, CRange 48 57])), True)"
  by code_simp+

lemma match_plus:
  assumes "\<And>r. in_class uni cl r \<Longrightarrow> r < 128"
  shows "MatchString uni (True, RPlus (RChr cl), True) s \<longleftrightarrow>
    s \<noteq> [] \<and> list_all (\<lambda>c. in_class uni cl (byte c)) s"
  using runes_all[of "in_class uni cl" s] assms by (auto simp: MatchString_anchored lang_plus_chr)

lemma match_pow:
  assumes "\<And>r. in_class uni cl r \<Longrightarrow> r < 128"
  shows "MatchString uni (True, RPow (RChr cl) n, True) s \<longleftrightarrow>
    length s = n \<and> list_all (\<lambda>c. in_class uni cl (byte c)) s"
proof -
  have "length (runes s) = length s" if "list_all (\<lambda>c. in_class uni cl (byte c)) s"
    using that assms by (intro runes_length) (auto simp: list_all_iff)
  then show ?thesis
    using runes_all[of "in_class uni cl" s] assms by (auto simp: MatchString_anchored lang_pow_chr)
qed

lemma match_digest: "MatchString uni (hex_digest n) s \<longleftrightarrow> length s = n \<and> list_all lower_hex s"
  unfolding hex_digest_def
  by (subst match_pow) (auto simp: in_class_def lower_hex_def is_digit_def list_all_iff)

definition digest_rules :: "(rule \<times> nat) list" where
  "digest_rules =
     [(IsMD4, 32), (IsMD5, 32), (IsSHA256, 64), (IsSHA384, 96), (IsSHA512, 128), (IsRIPEMD128, 32),
      (IsRIPEMD160, 40), (IsTiger128, 32), (IsTiger160, 40), (IsTiger192, 48)]"

text \<open>The digest rules (\<open>md4\<close>, \<open>md5\<close>, the SHA-2 and RIPEMD families, Tiger) accept a string
  exactly when it has the length of the digest and consists of lower-case hexadecimal digits: the
  patterns of the source, read by the regular-expression model, admit nothing else, in
  particular no upper case, no separator and no multi-byte character.\<close>
theorem digest_rules_exact:
  assumes "(r, n) \<in> set digest_rules" and "string_ctx c"
  shows "r L c (str s) = ok \<longleftrightarrow> length s = n \<and> list_all lower_hex s"
  using assms
  by (auto simp: digest_rules_def IsMD4_def IsMD5_def IsSHA256_def IsSHA384_def IsSHA512_def IsRIPEMD128_def
      IsRIPEMD160_def IsTiger128_def IsTiger160_def IsTiger192_def digest_patterns match_digest)

text \<open>A concrete library for the witnesses.\<close>

definition demo_lib :: stdlib where
  "demo_lib = \<lparr>lib_f2i = (\<lambda>k f. 0), lib_uni = (\<lambda>n c. False), lib_ToLower = (\<lambda>s. s), lib_ToUpper = (\<lambda>s. s),
     lib_String = (\<lambda>v. Returns []), lib_ParseURL = (\<lambda>s. None), lib_ParseRequestURI = (\<lambda>s. False),
     lib_urn = (\<lambda>s. False), lib_timeParse = (\<lambda>l s. False), lib_LoadLocation = (\<lambda>s. False),
     lib_Stat = (\<lambda>s. StatNotExist), lib_jsonValid = (\<lambda>s. False), lib_ResolveIP = (\<lambda>n s. False),
     lib_ResolveTCP = (\<lambda>n s. False), lib_ResolveUDP = (\<lambda>n s. False)\<rparr>"

text \<open>The context used by the witnesses.\<close>

definition str_ctx :: vctx where
  "str_ctx = \<lparr>vc_type = Some TString, vc_kind = KString, vc_options = []\<rparr>"

lemma string_ctx_str_ctx [simp]: "string_ctx str_ctx" "string_ctx (str_ctx\<lparr>vc_options := os\<rparr>)"
  by (simp_all add: string_ctx_def str_ctx_def)

theorem digest_rules_exact_witness:
  "IsMD5 demo_lib str_ctx (str (replicate 32 CHR ''f'')) = ok \<and> IsMD5 demo_lib str_ctx (str (replicate 32 CHR ''F'')) \<noteq> ok"
proof -
  have m: "(IsMD5, 32) \<in> set digest_rules" by (simp add: digest_rules_def)
  show ?thesis unfolding digest_rules_exact[OF m string_ctx_str_ctx(1)]
    by (simp add: lower_hex_def is_digit_def list_all_iff)
qed

lemma match_text:
  "MatchString uni AlphaRegex s \<longleftrightarrow> s \<noteq> [] \<and> list_all is_letter s"
  "MatchString uni NumberRegex s \<longleftrightarrow> s \<noteq> [] \<and> list_all is_digit s"
  "MatchString uni AlphaNumericRegex s \<longleftrightarrow> s \<noteq> [] \<and> list_all (\<lambda>b. is_letter b \<or> is_digit b) s"
  unfolding text_patterns
  by (subst match_plus;
      auto simp: in_class_def is_letter_def is_upper_def is_lower_def is_digit_def list_all_iff)+

text \<open>The text rules accept exactly the non-empty strings of their alphabet: \<open>alpha\<close> ASCII
  letters, \<open>number\<close> decimal digits, \<open>alphanum\<close> both.\<close>
theorem text_rules_exact:
  assumes "string_ctx c"
  shows "(IsAlpha L c (str s) = ok \<longleftrightarrow> s \<noteq> [] \<and> list_all is_letter s)
    \<and> (IsNumber L c (str s) = ok \<longleftrightarrow> s \<noteq> [] \<and> list_all is_digit s)
    \<and> (IsAlphaNumeric L c (str s) = ok \<longleftrightarrow> s \<noteq> [] \<and> list_all (\<lambda>b. is_letter b \<or> is_digit b) s)"
  using assms by (simp add: IsAlpha_def IsNumber_def IsAlphaNumeric_def match_text)

theorem text_rules_exact_witness:
  "string_ctx str_ctx \<and> IsAlpha demo_lib str_ctx (str ''Gofi'') = ok \<and> IsNumber demo_lib str_ctx (str ''1a'') \<noteq> ok
   \<and> IsAlphaNumeric demo_lib str_ctx (str ''1a'') = ok"
  using text_rules_exact[OF string_ctx_str_ctx(1)]
  by (simp add: is_letter_def is_upper_def is_lower_def is_digit_def)

subsection \<open>The Luhn checksum\<close>

text \<open>The contribution of a digit, doubled in every second place.\<close>

definition luhn_digit :: "bool \<Rightarrow> char \<Rightarrow> nat" where
  "luhn_digit second c =
     (if second then (if digit_val c * 2 > 9 then digit_val c * 2 - 9 else digit_val c * 2) else digit_val c)"

fun luhn_sum :: "gostring \<Rightarrow> bool \<Rightarrow> nat" where
  "luhn_sum [] second = 0"
| "luhn_sum (c # s) second = luhn_digit second c + luhn_sum s (\<not> second)"

lemma luhn_loop_eq:
  "luhn_loop s acc second \<longleftrightarrow> list_all is_digit s \<and> (acc + luhn_sum s second) mod 10 = 0"
  by (induction s arbitrary: acc second) (auto simp: luhn_digit_def Let_def add.assoc)

lemma luhn_sum_append:
  "luhn_sum (u @ v) second = luhn_sum u second + luhn_sum v (second \<noteq> odd (length u))"
proof (induction u arbitrary: second)
  case (Cons c u)
  then show ?case by (cases second; cases "odd (length u)") simp_all
qed simp

lemma digit_val_inj: "is_digit c \<Longrightarrow> is_digit d \<Longrightarrow> digit_val c = digit_val d \<Longrightarrow> c = d"
  using of_char_eq_iff[of c d, where ?'a = nat] unfolding is_digit_def digit_val_def by linarith

lemma digit_val_le: "is_digit c \<Longrightarrow> digit_val c \<le> 9"
  unfolding is_digit_def digit_val_def by linarith

lemma luhn_digit_le: "is_digit c \<Longrightarrow> luhn_digit second c \<le> 9"
  using digit_val_le[of c] by (auto simp: luhn_digit_def)

lemma luhn_digit_inj:
  assumes "is_digit c" "is_digit d" "luhn_digit second c = luhn_digit second d" shows "c = d"
proof -
  have "digit_val c = digit_val d"
    using assms(3) digit_val_le[OF assms(1)] digit_val_le[OF assms(2)]
    by (auto simp: luhn_digit_def split: if_splits; presburger)
  with assms(1,2) show ?thesis by (rule digit_val_inj)
qed

lemma digit_congruence:
  assumes "(a + k) mod 10 = 0" "(b + k) mod 10 = (0 :: nat)" "a \<le> 9" "b \<le> 9" shows "a = b"
proof -
  obtain p q where "a + k = 10 * p" "b + k = 10 * q" using assms(1,2) by (metis dvdE mod_0_imp_dvd)
  with assms(3,4) show ?thesis by (cases p q rule: linorder_cases) linarith+
qed

text \<open>C14. The checksum catches every mistyped digit: when a number passes \<open>luhnCheck\<close>, the number
  with one digit replaced by another does not. This is the property the algorithm exists for;
  it depends on doubling every second digit from the right and on casting out nines.\<close>
theorem luhn_detects_single_errors:
  assumes "luhnCheck (u @ c # v)" and "is_digit d" and "d \<noteq> c"
  shows "\<not> luhnCheck (u @ d # v)"
proof
  assume d: "luhnCheck (u @ d # v)"
  define b where "b = odd (length (rev v))"
  define K where "K = luhn_sum (rev v) False + luhn_sum (rev u) (\<not> b)"
  have e: "luhnCheck (u @ x # v) \<longleftrightarrow> list_all is_digit (u @ x # v) \<and> (luhn_digit b x + K) mod 10 = 0" for x
    by (auto simp: luhnCheck_def luhn_loop_eq luhn_sum_append b_def K_def ac_simps)
  have c: "is_digit c" using assms(1) unfolding e by simp
  have "luhn_digit b c = luhn_digit b d"
  proof (rule digit_congruence)
    show "(luhn_digit b c + K) mod 10 = 0" using assms(1) unfolding e by blast
    show "(luhn_digit b d + K) mod 10 = 0" using d unfolding e by blast
  qed (rule luhn_digit_le[OF c], rule luhn_digit_le[OF assms(2)])
  then have "c = d" using luhn_digit_inj c assms(2) by blast
  with assms(3) show False by simp
qed

theorem luhn_detects_single_errors_witness:
  "luhnCheck (''7992739871'' @ CHR ''3'' # []) \<and> \<not> luhnCheck (''7992739871'' @ CHR ''8'' # [])"
proof -
  have "luhnCheck (''7992739871'' @ CHR ''3'' # [])" by code_simp
  moreover have "is_digit (CHR ''8'')" by (simp add: is_digit_def)
  ultimately show ?thesis
    using luhn_detects_single_errors[of "''7992739871''" "CHR ''3''" "[]" "CHR ''8''"] by simp
qed

subsection \<open>Limits\<close>

lemma AnyValueToFloat_Itoa:
  "\<bar>n\<bar> \<le> 2 ^ 53 \<Longrightarrow> AnyValueToFloat f (str (Itoa n)) = Returns (FNum (of_int n), None)"
  by (simp add: AnyValueToFloat_def parse_float_any_def ParseFloat_Itoa)

text \<open>The rules that compare with a limit, each with the relation it stands for.\<close>

definition limit_rules :: "(rule \<times> (int \<Rightarrow> int \<Rightarrow> bool)) list" where
  "limit_rules =
     [(IsMax, (\<le>)), (IsMin, (\<ge>)), (IsLt, (<)), (IsGt, (>)), (IsLte, (\<le>)), (IsGte, (\<ge>)),
      (IsEq, (=)), (IsNe, (\<noteq>))]"

definition int_field :: "kind \<Rightarrow> int \<Rightarrow> vctx" where
  "int_field k n = \<lparr>vc_type = Some (TBasic k), vc_kind = k, vc_options = [str (Itoa n)]\<rparr>"

lemma evaluateComparison_int:
  assumes "\<bar>n\<bar> \<le> 2 ^ 53" "\<bar>i\<bar> \<le> 2 ^ 53" "is_signed k \<or> is_unsigned k"
  shows "evaluateComparison check f L (int_field k n) (VInt (TBasic k) i) = ok \<longleftrightarrow>
         check (FNum (of_int i)) (FNum (of_int n))"
proof -
  have "compared k (VInt (TBasic k) i) = Some (Returns (FNum (of_int i)))"
    using assms(2,3) float64_of_int_exact[of i] by (auto simp: compared_def kind_class_defs)
  moreover have "k \<noteq> KInvalid" using assms(3) by (auto simp: kind_class_defs)
  ultimately show ?thesis using AnyValueToFloat_Itoa[OF assms(1)]
    by (auto simp: evaluateComparison_def getLimit_def limit_or_def int_field_def effective_kind_def)
qed

lemma limit_rule_int:
  assumes "\<bar>n\<bar> \<le> 2 ^ 53" "\<bar>i\<bar> \<le> 2 ^ 53" "is_signed k \<or> is_unsigned k"
  shows "limit_rule cmp a f u L (int_field k n) (VInt (TBasic k) i) = ok \<longleftrightarrow>
         cmp (FNum (of_int i)) (FNum (of_int n))"
proof -
  have "k \<notin> {KSlice, KArray, KMap, KInvalid, KUintptr}" using assms(3) by (auto simp: kind_class_defs)
  then show ?thesis using AnyValueToFloat_Itoa[OF assms(1)] float64_of_int_exact[OF assms(2)]
    by (auto simp: limit_rule_def limit_or_def limit_switch_def int_field_def)
qed

text \<open>C15. On an integer field whose tag gives an integer limit, \<open>max\<close>, \<open>min\<close>, \<open>lt\<close>, \<open>gt\<close>,
  \<open>lte\<close>, \<open>gte\<close>, \<open>eq\<close> and \<open>ne\<close> decide exactly their relation on the integers, although the limit
  is parsed from text and both sides are compared as \<open>float64\<close>, as long as value and limit have
  at most 53 bits. (\<open>float64_of_int_inexact\<close> shows that the bound is sharp.)\<close>
theorem limits_exact_to_53_bits:
  assumes "(r, R) \<in> set limit_rules" and "is_signed k \<or> is_unsigned k"
    and "\<bar>n\<bar> \<le> 2 ^ 53" and "\<bar>i\<bar> \<le> 2 ^ 53"
  shows "r L (int_field k n) (VInt (TBasic k) i) = ok \<longleftrightarrow> R i n"
  using assms(1) evaluateComparison_int[OF assms(3,4,2)] limit_rule_int[OF assms(3,4,2)]
  by (auto simp: limit_rules_def IsMax_def IsMin_def IsLt_def IsGt_def IsLte_def IsGte_def IsEq_def IsNe_def)

theorem limits_exact_to_53_bits_witness:
  "IsMax demo_lib (int_field KInt 10) (intv 11) \<noteq> ok \<and> IsMax demo_lib (int_field KInt 10) (intv 10) = ok"
proof -
  have m: "(IsMax, (\<le>)) \<in> set limit_rules" by (simp add: limit_rules_def)
  have k: "is_signed KInt \<or> is_unsigned KInt" by (simp add: kind_class_defs)
  show ?thesis
    using limits_exact_to_53_bits[OF m k, of 10 11 demo_lib] limits_exact_to_53_bits[OF m k, of 10 10 demo_lib] by simp
qed

text \<open>Beyond 53 bits a value above the maximum passes.\<close>

lemma max_rounds: "IsMax L (int_field KInt64 (2 ^ 53)) (VInt (TBasic KInt64) (2 ^ 53 + 1)) = ok"
  using AnyValueToFloat_Itoa[of "2 ^ 53"] float64_of_int_inexact
  by (simp add: IsMax_def limit_rule_def limit_or_def limit_switch_def int_field_def)

text \<open>On a scalar field a limit that is no number is never reported: the rule compares with zero.\<close>

lemma unreadable_limit_is_zero:
  assumes "AnyValueToFloat (lib_f2i L) opt = Returns (FNum 0, Some e)" "\<bar>i\<bar> \<le> 2 ^ 53"
  shows "IsMax L \<lparr>vc_type = Some TInt, vc_kind = KInt, vc_options = [opt]\<rparr> (intv i) = ok \<longleftrightarrow> i \<le> 0"
  using assms float64_of_int_exact[of i]
  by (simp add: IsMax_def limit_rule_def limit_or_def limit_switch_def)

subsection \<open>Rules that cannot succeed on the values they are meant for\<close>

lemma table_lookups:
  "map_of Validators ''containsrune'' = Some ContainsRune"
  "map_of Validators ''excludesrune'' = Some ExcludesRune"
  "map_of Validators ''oneof'' = Some IsOneOf"
  by (simp_all add: Validators_def)

lemma validateString_never: "(\<And>s. \<not> check s) \<Longrightarrow> validateString c check f v \<noteq> ok"
  by (auto simp: validateString_def split: option.splits list.splits)

lemma rune_option_of_strings: "vc_options c = map str args \<Longrightarrow> rune_option c = None"
  by (cases args) (auto simp: rune_option_def split: list.splits)

text \<open>\<open>containsrune\<close> and \<open>excludesrune\<close> reject every value when they are written in a struct
  tag: a tag yields string arguments, the rules assert a rune, and without it the check is
  false, for the excluding rule too.\<close>
theorem rune_rules_reject_tag_arguments:
  assumes "name \<in> {''containsrune'', ''excludesrune''}"
  shows "NewContextValidatorFn L t k name (map str args) vals v \<noteq> ok"
  using assms
  by (auto simp: NewContextValidatorFn_def table_lookups ContainsRune_def ExcludesRune_def
      rune_option_of_strings validateString_never simp del: map_of.simps)

theorem rune_rules_reject_tag_arguments_witness:
  "NewContextValidatorFn demo_lib (Some TString) KString ''containsrune'' (map str [''a'']) Map.empty (str ''abc'') \<noteq> ok"
  by (rule rune_rules_reject_tag_arguments) simp

lemma string_not_to_number: "KindIsNumber (kind_of t) \<Longrightarrow> \<not> convertible_to TString t"
proof -
  assume n: "KindIsNumber (kind_of t)"
  then have "kind_of t \<noteq> KString" "kind_of t \<noteq> KSlice" "kind_of t \<noteq> KInterface" by (auto simp: KindIsNumber_def)
  moreover have "strip_tags (underlying t) \<noteq> TString"
  proof
    assume "strip_tags (underlying t) = TString"
    then have "underlying t = TString" by (cases "underlying t") auto
    then have "kind_of t = KString" using kind_of_underlying[of t] by simp
    with \<open>kind_of t \<noteq> KString\<close> show False by simp
  qed
  moreover have "unnamed_pointee TString = None" by simp
  ultimately show ?thesis
    by (auto simp: convertible_to_def same_underlying_def kind_class_defs Let_def)
qed

lemma oneof_number_never:
  assumes t: "vc_type c = Some t" "KindIsNumber (kind_of t)" and opts: "vc_options c = map str args" "args \<noteq> []"
    and req: "IsRequired L c v = ok"
  shows "IsOneOf L c v \<noteq> ok"
proof -
  have "convert_option L t (str a) = Inl (Errorf ''option %d: %v (type %s) is not convertible to %s'' [str a])" for a
  proof -
    have "t \<noteq> TString" using t(2) by (auto simp: KindIsNumber_def)
    then show ?thesis using string_not_to_number[OF t(2)] by (simp add: convert_option_def)
  qed
  then have "errors_of (map (convert_option L t) (map str args)) \<noteq> []" using opts(2) by (cases args) simp_all
  with t opts req show ?thesis by (simp add: IsOneOf_def Let_def)
qed

text \<open>On a number field, \<open>oneof\<close> written in a tag rejects every value that is present (that
  passes \<open>required\<close>): the options of a tag are strings, a string does not convert to a number
  type, and the rule answers \<open>invalid options\<close> whatever the value is.\<close>
theorem oneof_on_numbers_rejects:
  assumes "KindIsNumber (kind_of t)" and "args \<noteq> []"
    and "IsRequired L \<lparr>vc_type = Some t, vc_kind = k, vc_options = map str args\<rparr> v = ok"
  shows "NewContextValidatorFn L (Some t) k ''oneof'' (map str args) vals v \<noteq> ok"
  using oneof_number_never[OF _ assms(1) _ assms(2,3)]
  by (simp add: NewContextValidatorFn_def table_lookups)

theorem oneof_on_numbers_rejects_witness:
  "KindIsNumber (kind_of TInt)
   \<and> NewContextValidatorFn demo_lib (Some TInt) KInt ''oneof'' (map str [''1'', ''2'']) Map.empty (intv 1) \<noteq> ok"
proof -
  have k: "KindIsNumber (kind_of TInt)" by (simp add: KindIsNumber_def)
  have "IsRequired demo_lib \<lparr>vc_type = Some TInt, vc_kind = KInt, vc_options = map str [''1'', ''2'']\<rparr> (intv 1) = ok"
    using float64_of_int_exact[of 1]
    by (simp add: IsRequired_def KindIsNumber_def AnyValueToFloat_def)
  with oneof_on_numbers_rejects[OF k] k show ?thesis by blast
qed

subsection \<open>Socket addresses\<close>

lemma port_no_colon: "list_all is_digit port \<Longrightarrow> colon \<notin> set port"
  by (auto simp: list_all_iff is_digit_def)

lemma octet_colon: "colon \<in> set s \<Longrightarrow> octet s = None"
  using port_no_colon[of s] by (auto simp: octet_def)

lemma parseIPv4_colon: "colon \<in> set s \<Longrightarrow> parseIPv4 s = None"
proof -
  assume "colon \<in> set s"
  then have "\<exists>w \<in> set (Split (CHR ''.'') s). colon \<in> set w"
  proof (induction s)
    case (Cons c s)
    show ?case
    proof (cases "c = CHR ''.''")
      case True
      with Cons show ?thesis by auto
    next
      case False
      obtain w ws where ws: "Split (CHR ''.'') s = w # ws" by (cases "Split (CHR ''.'') s") auto
      show ?thesis
      proof (cases "c = colon")
        case True
        with False ws show ?thesis by simp
      next
        case c: False
        with Cons ws have "\<exists>x \<in> set (w # ws). colon \<in> set x" by simp
        with False ws show ?thesis by auto
      qed
    qed
  qed simp
  then obtain w where w: "w \<in> set (Split (CHR ''.'') s)" "octet w = None" using octet_colon by blast
  then have "\<not> list_all (\<lambda>f. f \<noteq> None) (map octet (Split (CHR ''.'') s))" by (auto simp: list_all_iff)
  then show ?thesis by (simp add: parseIPv4_def Let_def)
qed

lemma LastIndexByte_append: "c \<notin> set v \<Longrightarrow> LastIndexByte (u @ c # v) c = Some (length u)"
proof -
  assume "c \<notin> set v"
  then have "find_index (\<lambda>d. d = c) (rev v @ c # rev u) = Some (length v)"
    by (subst find_index_append) auto
  then show ?thesis by (simp add: LastIndexByte_def)
qed

text \<open>A socket address: a host and a decimal port.\<close>

definition socket :: "gostring \<Rightarrow> gostring \<Rightarrow> gostring" where "socket host port = host @ colon # port"

text \<open>An IPv4 socket address is no IPv6 address, and a bracketed one is no IPv4 address.\<close>

lemma ip6_rejects_v4_socket:
  assumes "list_all is_digit port" shows "ip_is_v6 (socket (dotted p q r s) port) = False"
    and "cut_port6 (socket (dotted p q r s) port) = Returns (socket (dotted p q r s) port)"
proof -
  let ?s = "socket (dotted p q r s) port"
  define w where "w = Join (map nat_digits [q, r, s]) ''.'' @ colon # port"
  have e: "?s = nat_digits p @ CHR ''.'' # w" by (simp add: dotted_def socket_def w_def)
  have nd: "\<forall>x \<in> set (nat_digits p). \<not> (x = CHR ''.'' \<or> x = colon \<or> x = CHR ''%'')"
    using nat_digits_digit by (fastforce simp: is_digit_def)
  have f: "find_index (\<lambda>x. x = CHR ''.'' \<or> x = colon \<or> x = CHR ''%'') ?s = Some (length (nat_digits p))"
    unfolding e by (subst find_index_append[OF nd]) simp
  have "colon \<in> set ?s" by (simp add: socket_def)
  then have "ParseIP ?s = None"
    using f parseIPv4_colon[of ?s] by (simp add: ParseIP_def ParseAddr_def e)
  then show "ip_is_v6 ?s = False" by (simp add: ip_is_v6_def)
  have last: "?s ! (length (dotted p q r s) - 1) \<noteq> CHR '']''"
  proof -
    have ne: "dotted p q r s \<noteq> []" by (simp add: dotted_def)
    have "last (dotted p q r s) = last (nat_digits s)" by (simp add: dotted_def)
    moreover have "is_digit (last (nat_digits s))" using nat_digits_digit[OF last_in_set[OF nat_digits_ne]] .
    ultimately have "last (dotted p q r s) \<noteq> CHR '']''" by (auto simp: is_digit_def)
    with ne show ?thesis by (simp add: socket_def nth_append last_conv_nth)
  qed
  show "cut_port6 ?s = Returns ?s"
    using last LastIndexByte_append[OF port_no_colon[OF assms], of "dotted p q r s"]
    by (simp add: cut_port6_def socket_def)
qed

lemma ip4_rejects_brackets:
  assumes "list_all is_digit port" shows "ip_is_v4 (cut_port4 (socket (CHR ''['' # host @ '']'') port)) = False"
proof -
  let ?h = "CHR ''['' # host @ '']''"
  have c: "cut_port4 (socket ?h port) = ?h"
    using LastIndexByte_append[OF port_no_colon[OF assms], of ?h] by (simp add: cut_port4_def socket_def)
  have o4: "octet (CHR ''['' # w) = None" for w by (simp add: octet_def is_digit_def)
  have v4: "parseIPv4 (CHR ''['' # w) = None" for w
  proof -
    obtain x xs where "Split (CHR ''.'') w = x # xs" by (cases "Split (CHR ''.'') w") auto
    then show ?thesis by (simp add: parseIPv4_def o4)
  qed
  have v6: "parseIPv6 (CHR ''['' # w) = None" for w
    by (simp add: parseIPv6_def HasPrefix_def parseIPv6_loop.simps[of "CHR ''['' # w"] is_hex_digit_def
        is_digit_def is_hex_letter_def lower_char_def is_upper_def)
  have "ParseIP ?h = None" by (simp add: ParseIP_def ParseAddr_def v4 v6 split: option.split)
  then show ?thesis by (simp add: c ip_is_v4_def)
qed

text \<open>\<open>tcp_addr\<close> and \<open>udp_addr\<close> reject every socket address: they require the syntax of an IPv4
  address and that of an IPv6 address at once, so \<open>a.b.c.d:port\<close> fails the second test and
  \<open>[host]:port\<close> the first, whatever the resolver would answer.\<close>
theorem socket_rules_reject_sockets:
  assumes "r \<in> {IsTCPAddrResolvable, IsUDPAddrResolvable}" and "string_ctx c" and "list_all is_digit port"
    and "h = dotted p q s t \<or> h = CHR ''['' # host @ '']''"
  shows "r L c (str (socket h port)) \<noteq> ok"
proof -
  have sr: "string_rule a b check c (str x) = check x" for a b check x
    using assms(2) by (auto simp: string_rule_def string_ctx_def)
  have "both_addr L c (str (socket h port)) \<noteq> ok"
    using assms(4)
  proof
    assume h: "h = dotted p q s t"
    show ?thesis using ip6_rejects_v4_socket[OF assms(3), of p q s t]
      by (auto simp: both_addr_def IsIP4Addr_def IsIP6Addr_def sr h)
  next
    assume h: "h = CHR ''['' # host @ '']''"
    show ?thesis using ip4_rejects_brackets[OF assms(3), of host]
      by (simp add: both_addr_def IsIP4Addr_def sr h)
  qed
  then have b: "then_resolve (both_addr L c (str (socket h port))) e f g v \<noteq> ok" for e f g v
    by (cases "both_addr L c (str (socket h port))") (auto simp: then_resolve_def)
  with assms(1) show ?thesis by (auto simp: IsTCPAddrResolvable_def IsUDPAddrResolvable_def)
qed

theorem socket_rules_reject_sockets_witness:
  "IsTCPAddrResolvable demo_lib str_ctx (str (socket (dotted 127 0 0 1) ''80'')) \<noteq> ok"
  by (rule socket_rules_reject_sockets[of _ _ _ _ 127 0 0 1]) (simp_all add: is_digit_def)

text \<open>The bracket at the start of a socket address is taken for the end of a host: the rule slices
  out of range.\<close>

lemma tcp6_panics: "IsTCP6AddrResolvable L str_ctx (str '']:80'') = Panics"
proof -
  have "cut_port6 '']:80'' = Panics" by code_simp
  then show ?thesis
    by (simp add: IsTCP6AddrResolvable_def then_resolve_def IsIP6Addr_def string_rule_def str_ctx_def)
qed

subsection \<open>Values and structs\<close>

text \<open>A rule name that is neither built in nor registered accepts every value: a misspelt rule
  is silently no rule. A built-in rule takes precedence over a custom one of the same name.\<close>
theorem rule_lookup:
  "(map_of Validators name = None \<longrightarrow> vals name = None \<longrightarrow> NewContextValidatorFn L t k name args vals v = ok)
   \<and> (map_of Validators name = Some r \<longrightarrow>
      NewContextValidatorFn L t k name args vals v = r L \<lparr>vc_type = t, vc_kind = k, vc_options = args\<rparr> v)
   \<and> (map_of Validators name = None \<longrightarrow> vals name = Some f \<longrightarrow>
      NewContextValidatorFn L t k name args vals v = f \<lparr>vc_type = t, vc_kind = k, vc_options = args\<rparr> v)"
  by (simp add: NewContextValidatorFn_def defaultValidator_def)

lemma unknown_rule: "map_of Validators ''requird'' = None" by (simp add: Validators_def)
lemma max_rule: "map_of Validators ''max'' = Some IsMax" by (simp add: Validators_def)

theorem rule_lookup_witness:
  "NewContextValidatorFn demo_lib (Some TInt) KInt ''requird'' [] Map.empty VNil = ok
   \<and> NewContextValidatorFn demo_lib (Some TInt) KInt ''max'' [] [''max'' \<mapsto> \<lambda>c v. ok] (intv 3)
     = IsMax demo_lib \<lparr>vc_type = Some TInt, vc_kind = KInt, vc_options = []\<rparr> (intv 3)"
  using rule_lookup[of "''requird''" Map.empty demo_lib "Some TInt" KInt "[]" VNil]
    rule_lookup[of "''max''" "[''max'' \<mapsto> \<lambda>c v. ok]" demo_lib "Some TInt" KInt "[]" "intv 3" IsMax]
  by (simp add: unknown_rule max_rule)











end
