(* ===== verification/Rules.thy ===== *)
theory Rules
  imports Validators Stores HandlerChain
begin

section \<open>Rule definitions and response statuses (rules.go, statuses.go, schema.go)\<close>

text \<open>
  The tree of rules a schema compiles to: one node per field with its type, its tags, its
  validators and the rules of its elements and properties (\<open>rules.go\<close>); the table of the named
  HTTP statuses (\<open>statuses.go\<close>); the rules of a request part or of a response code; and the run of
  the validators of one node (\<open>runValidation\<close> of \<open>schema.go\<close>). A pointer to a node is an option,
  a Go map an association list.
\<close>

subsection \<open>Rule definitions\<close>

text \<open>A struct field as \<open>reflect\<close> shows it, with its index path.\<close>

record StructField =
  StructFld :: sfield
  Index :: "nat list"

type_synonym custom_validators = "gostring \<rightharpoonup> vctx \<Rightarrow> goval \<Rightarrow> verdict"

record ruleOpts =
  ro_typ :: gotype
  ro_kind :: kind
  ro_rule :: gostring
  ro_args :: "gostring list"
  ro_dator :: "goval \<Rightarrow> verdict"

definition newRuleOpts ::
  "stdlib \<Rightarrow> custom_validators \<Rightarrow> gotype \<Rightarrow> kind \<Rightarrow> gostring \<Rightarrow> gostring list \<Rightarrow> ruleOpts"
where
  "newRuleOpts L customs t k name args =
     \<lparr>ro_typ = t, ro_kind = k, ro_rule = name, ro_args = args,
      ro_dator = NewContextValidatorFn L (Some t) k name (map str args) customs\<rparr>"

text \<open>The byte offset of a field, which nothing reads, is left out of the accessor.\<close>

record fieldAccessor =
  acc_index :: "nat list"
  acc_fieldType :: gotype
  acc_kind :: kind
  acc_name :: gostring

text \<open>The parts of a node that hold no other node.\<close>

record rule_info =
  ri_typ :: gotype
  ri_kind :: kind
  ri_format :: gostring
  ri_pattern :: gostring
  ri_field :: gostring
  ri_fieldName :: gostring
  ri_defStr :: gostring
  ri_defVal :: goval
  ri_rules :: "ruleOpts list"
  ri_max :: "flt option"
  ri_required :: bool
  ri_present :: bool
  ri_tags :: "gostring list gomap"
  ri_accessor :: fieldAccessor
  ri_jsonKeyBytes :: gostring

datatype RuleDef =
  RuleDef (rd: rule_info) (rd_item: "RuleDef option") (rd_additional: "RuleDef option")
    (rd_properties: "(gostring \<times> RuleDef) list") (rd_ordered: "RuleDef list")

fun rd_update :: "(rule_info \<Rightarrow> rule_info) \<Rightarrow> RuleDef \<Rightarrow> RuleDef" where
  "rd_update f (RuleDef i it ad ps os) = RuleDef (f i) it ad ps os"

definition preComputeJSONKey :: "gostring \<Rightarrow> gostring" where
  "preComputeJSONKey name = (if name = [] then [] else CHR 0x22 # name @ [CHR 0x22, colon])"

text \<open>The name of the field in JSON: the part of its \<open>json\<close> tag before the first comma, or else its
  Go name.\<close>

definition json_tag_name :: "sfield \<Rightarrow> gostring" where
  "json_tag_name sf =
     (case Lookup (sf_tag sf) ''json'' of
        None \<Rightarrow> sf_name sf
      | Some tag \<Rightarrow> (let n = hd (Split (CHR '','') tag) in if n \<noteq> [] then n else sf_name sf))"

definition newRuleDef ::
  "StructField \<Rightarrow> gostring \<Rightarrow> goval \<Rightarrow> ruleOpts list \<Rightarrow> bool \<Rightarrow> bool \<Rightarrow> flt option \<Rightarrow>
   RuleDef gomap option \<Rightarrow> RuleDef option \<Rightarrow> RuleDef option \<Rightarrow> RuleDef"
where
  "newRuleDef sf defStr defVal rules required present mx properties items addProps =
     (let f = StructFld sf; t = sf_type f; tagName = json_tag_name f
      in RuleDef
           \<lparr>ri_typ = t, ri_kind = kind_of t, ri_format = [], ri_pattern = [], ri_field = tagName,
            ri_fieldName = sf_name f, ri_defStr = defStr, ri_defVal = defVal, ri_rules = rules,
            ri_max = mx, ri_required = required, ri_present = present, ri_tags = [],
            ri_accessor = \<lparr>acc_index = Index sf, acc_fieldType = t, acc_kind = kind_of t, acc_name = sf_name f\<rparr>,
            ri_jsonKeyBytes = preComputeJSONKey tagName\<rparr>
           items addProps (case properties of None \<Rightarrow> [] | Some ps \<Rightarrow> ps) [])"

definition getItemRuleDef :: "gotype \<Rightarrow> RuleDef" where
  "getItemRuleDef t =
     newRuleDef \<lparr>StructFld = SField [] t [] False, Index = []\<rparr> [] VNil [] False False None None None None"

text \<open>A registered format: code of the application behind the interface \<open>CustomSpec\<close>.\<close>

record custom_spec =
  sp_Type :: gostring
  sp_Format :: gostring
  sp_Encode :: "goval \<Rightarrow> (gerr + gostring) call"
  sp_Decode :: "goval \<Rightarrow> (gerr + goval) call"

text \<open>The methods that take a nil receiver.\<close>

definition hasRule :: "RuleDef option \<Rightarrow> gostring \<Rightarrow> bool" where
  "hasRule r rule =
     (case r of None \<Rightarrow> False | Some d \<Rightarrow> list_ex (\<lambda>l. ro_rule l = rule) (ri_rules (rd d)))"

fun first_opts :: "ruleOpts list \<Rightarrow> gostring \<Rightarrow> gostring list" where
  "first_opts [] rule = []"
| "first_opts (l # ls) rule = (if ro_rule l = rule then ro_args l else first_opts ls rule)"

definition ruleOptions :: "RuleDef option \<Rightarrow> gostring \<Rightarrow> gostring list" where
  "ruleOptions r rule = (case r of None \<Rightarrow> [] | Some d \<Rightarrow> first_opts (ri_rules (rd d)) rule)"

fun first_named :: "ruleOpts list \<Rightarrow> gostring list \<Rightarrow> gostring \<Rightarrow> gostring" where
  "first_named [] names fallback = fallback"
| "first_named (l # ls) names fallback =
     (if list_ex (\<lambda>n. ro_rule l = n) names then ro_rule l else first_named ls names fallback)"

definition findRules :: "RuleDef option \<Rightarrow> gostring list \<Rightarrow> gostring \<Rightarrow> gostring" where
  "findRules r names fallback =
     (case r of None \<Rightarrow> fallback | Some d \<Rightarrow> first_named (ri_rules (rd d)) names fallback)"

text \<open>The methods that link nodes; on a nil receiver they change nothing.\<close>

fun attach_to :: "gostring \<Rightarrow> RuleDef \<Rightarrow> RuleDef \<Rightarrow> RuleDef" where
  "attach_to name item (RuleDef i it ad ps os) = RuleDef i it ad (map_put name item ps) (os @ [item])"

definition attach :: "gostring \<Rightarrow> RuleDef \<Rightarrow> RuleDef option \<Rightarrow> RuleDef option" where
  "attach name item r = map_option (attach_to name item) r"

fun append_item :: "RuleDef option \<Rightarrow> RuleDef \<Rightarrow> RuleDef" where
  "append_item item (RuleDef i it ad ps os) = RuleDef i item ad ps os"

definition rd_append :: "RuleDef option \<Rightarrow> RuleDef option \<Rightarrow> RuleDef option" where
  "rd_append item r = map_option (append_item item) r"

fun set_addProps :: "RuleDef option \<Rightarrow> RuleDef \<Rightarrow> RuleDef" where
  "set_addProps props (RuleDef i it ad ps os) = RuleDef i it props ps os"

definition addProps :: "RuleDef option \<Rightarrow> RuleDef option \<Rightarrow> RuleDef option" where
  "addProps props r = map_option (set_addProps props) r"

subsection \<open>Running the validators of a node (schema.go)\<close>

text \<open>A validation error: a report of one rule, an error of a conversion, or the errors of a node joined. \<open>goerr_of\<close> reads it
  as an error of the handlers, with the message of a rule rendered by \<open>msg\<close>.\<close>

datatype verr =
    VReport errorType gostring gostring gostring gerr
  | VPlain gerr
  | VJoin "verr list"

fun goerr_of :: "(gerr \<Rightarrow> gostring) \<Rightarrow> verr \<Rightarrow> goerr" where
  "goerr_of msg (VReport t s p r e) = newErrReport t s p r (PlainErr (msg e))"
| "goerr_of msg (VPlain e) = PlainErr (msg e)"
| "goerr_of msg (VJoin es) = PlainErr (Join (map (\<lambda>e. Error (goerr_of msg e)) es) [CHR 0x0A])"

text \<open>\<open>errors.Join\<close> of non-nil errors.\<close>

definition errors_Join :: "verr list \<Rightarrow> verr option" where
  "errors_Join es = (if es = [] then None else Some (VJoin es))"

fun collect_errs :: "goval \<Rightarrow> (gostring \<Rightarrow> gerr \<Rightarrow> verr) \<Rightarrow> ruleOpts list \<Rightarrow> verr list call" where
  "collect_errs v report [] = Returns []"
| "collect_errs v report (r # rs) =
     bind_call (ro_dator r v) (\<lambda>e.
       bind_call (collect_errs v report rs) (\<lambda>es.
         Returns (case e of None \<Rightarrow> es | Some x \<Rightarrow> report (ro_rule r) x # es)))"

definition runValidation ::
  "goval \<Rightarrow> errorType \<Rightarrow> gostring \<Rightarrow> gostring \<Rightarrow> ruleOpts list \<Rightarrow> verr option call"
where
  "runValidation v t sch keypath rules =
     (if rules = [] then Returns None
      else bind_call (collect_errs v (VReport t sch keypath) rules) (\<lambda>es. Returns (errors_Join es)))"

definition runValidationLazy ::
  "goval \<Rightarrow> errorType \<Rightarrow> gostring \<Rightarrow> gostring list \<Rightarrow> ruleOpts list \<Rightarrow> verr option call"
where
  "runValidationLazy v t sch keys rules =
     (if rules = [] then Returns None
      else bind_call (collect_errs v (VReport t sch (Join keys [CHR 0x2E])) rules) (\<lambda>es. Returns (errors_Join es)))"

subsection \<open>The named statuses (statuses.go)\<close>

record statusInfo =
  si_Code :: gostring
  si_Description :: gostring
  si_Deprecated :: bool

abbreviation status_info :: "gostring \<Rightarrow> gostring \<Rightarrow> bool \<Rightarrow> statusInfo" where
  "status_info c d x \<equiv> \<lparr>si_Code = c, si_Description = d, si_Deprecated = x\<rparr>"

definition informational :: gostring where "informational = ''Informational''"
definition successFieldName :: gostring where "successFieldName = ''Success''"
definition redirectFieldName :: gostring where "redirectFieldName = ''Redirect''"
definition serverErr :: gostring where "serverErr = ''ServerError''"
definition clientErr :: gostring where "clientErr = ''ClientError''"
definition errFieldName :: gostring where "errFieldName = ''Err''"
definition defaultFieldName :: gostring where "defaultFieldName = ''Default''"

lemmas field_names = informational_def successFieldName_def redirectFieldName_def serverErr_def
  clientErr_def errFieldName_def defaultFieldName_def

definition statuses :: "statusInfo list gomap" where
  "statuses =
    [(informational, [status_info ''1XX'' ''Informational Response'' False]),
     (successFieldName, [status_info ''2XX'' ''Success Response'' False]),
     (redirectFieldName, [status_info ''3XX'' ''Redirect Response'' False]),
     (clientErr, [status_info ''4XX'' ''Client Error'' False]),
     (serverErr, [status_info ''5XX'' ''Server Error'' False]),
     (errFieldName, [status_info ''4XX'' ''Client Error'' False, status_info ''5XX'' ''Server Error'' False]),
     (defaultFieldName, [status_info ''default'' ''Default Response'' False]),
     (''Continue'', [status_info ''100'' ''Continue Response'' False]),
     (''SwitchingProtocols'', [status_info ''101'' ''Switching Protocols Respones'' False]),
     (''Processing'', [status_info ''102'' ''Processing (Deprecated) Response'' True]),
     (''EarlyHints'', [status_info ''103'' ''Early Hints Response'' False]),
     (''Ok'', [status_info ''200'' ''OK Response'' False]),
     (''Created'', [status_info ''201'' ''Resource Created Response'' False]),
     (''Accepted'', [status_info ''202'' ''Accepted Response'' False]),
     (''NonAuthoritativeInformation'', [status_info ''203'' ''Non-Authoritative Information Response'' False]),
     (''NoContent'', [status_info ''204'' ''No Content Response'' False]),
     (''ResetContent'', [status_info ''205'' ''Reset Content Response'' False]),
     (''PartialContent'', [status_info ''206'' ''Partial Content Response'' False]),
     (''MultiStatus'', [status_info ''207'' ''Multi-Status Response'' False]),
     (''AlreadyReported'', [status_info ''208'' ''Already Reported Response'' False]),
     (''IMUsed'', [status_info ''226'' ''IM Used Response'' False]),
     (''MultipleChoices'', [status_info ''300'' ''Mulitiple Choices Response'' False]),
     (''MovedPermanently'', [status_info ''301'' ''Moved Permanently Response'' False]),
     (''Found'', [status_info ''302'' ''Resource Found Response'' False]),
     (''SeeOther'', [status_info ''303'' ''See Other Response'' False]),
     (''NotModified'', [status_info ''304'' ''Not Modified Response'' False]),
     (''TemporaryRedirect'', [status_info ''307'' ''Temporary Redirect Response'' False]),
     (''PermanentRedirect'', [status_info ''308'' ''Permanent Redirect Response'' False]),
     (''BadRequest'', [status_info ''400'' ''Bad Request Error'' False]),
     (''Unauthorized'', [status_info ''401'' ''Unauthorized Error'' False]),
     (''PaymentRequired'', [status_info ''402'' ''Payment Required Error'' False]),
     (''Forbidden'', [status_info ''403'' ''Forbidden Error'' False]),
     (''NotFound'', [status_info ''404'' ''Not Found Error'' False]),
     (''MethodNotAllowed'', [status_info ''405'' ''Method Not Allowed Error'' False]),
     (''NotAcceptable'', [status_info ''406'' ''Not Acceptable Error'' False]),
     (''ProxyAuthenticationRequired'', [status_info ''407'' ''Proxy Authentication Required Error'' False]),
     (''RequestTimeout'', [status_info ''408'' ''Request Timeout Error'' False]),
     (''Conflict'', [status_info ''409'' ''Conflict Error'' False]),
     (''Gone'', [status_info ''410'' ''Resource Gone Error'' False]),
     (''LengthRequired'', [status_info ''411'' ''Length Required Error'' False]),
     (''PreconditionFailed'', [status_info ''412'' ''Precondition Failed Error'' False]),
     (''ContentTooLarge'', [status_info ''413'' ''Content Too Large Error'' False]),
     (''URITooLong'', [status_info ''414'' ''URI Too Long Error'' False]),
     (''UnsupportedMediaType'', [status_info ''415'' ''Unsupported Media Type Error'' False]),
     (''RangeNotSatisfiable'', [status_info ''416'' ''Range Not Satisfiable Error'' False]),
     (''ExpectiationFailed'', [status_info ''417'' ''Expectation Failed Error'' False]),
     (''ImTeaPot'', [status_info ''418'' ''I'm a teapot Error'' False]),
     (''MisdirectedRequest'', [status_info ''421'' ''Misdirected Request Error'' False]),
     (''UnprocessableContent'', [status_info ''422'' ''Unprocessable Content Error'' False]),
     (''Locked'', [status_info ''423'' ''Locked Error'' False]),
     (''FailedDependency'', [status_info ''424'' ''Failed Dependency Error'' False]),
     (''TooEarly'', [status_info ''425'' ''Too Early Error'' False]),
     (''UpgradeRequired'', [status_info ''426'' ''Upgrade Required Error'' False]),
     (''PreconditionRequired'', [status_info ''428'' ''Precondition Required Error'' False]),
     (''TooManyRequests'', [status_info ''429'' ''Too Many Requests Error'' False]),
     (''RequestHeaderFieldsTooLarge'', [status_info ''431'' ''Request Header Fields Too Large Error'' False]),
     (''UnavailableForLegalReasons'', [status_info ''451'' ''Unavailable For Legal Reasons Error'' False]),
     (''InternalServerError'', [status_info ''500'' ''Internal Server Error'' False]),
     (''NotImplemented'', [status_info ''501'' ''Not Implemented Error'' False]),
     (''BadGateway'', [status_info ''502'' ''Bad Gateway Error'' False]),
     (''ServiceUnavailable'', [status_info ''503'' ''Service Unavailable Error'' False]),
     (''GatewayTimeout'', [status_info ''504'' ''Gateway Timeout Error'' False]),
     (''HTTPVersionNotSupported'', [status_info ''505'' ''HTTP Version Not Supported Error'' False]),
     (''VariantAlsoNegotiates'', [status_info ''506'' ''Variant Also Negotiates Error'' False]),
     (''InsufficientStorage'', [status_info ''507'' ''Insufficient Storage Error'' False]),
     (''LoopDetected'', [status_info ''508'' ''Loop Detected Error'' False]),
     (''NotExtended'', [status_info ''510'' ''Not Extended Error'' False]),
     (''NetworkAuthenticationRequired'', [status_info ''511'' ''Network Authentication Required Error'' False])]"

record statusFieldInfo =
  sfi_Field :: gostring
  sfi_Description :: gostring

text \<open>One entry of the inverse table: a name with a single status whose code is a number.\<close>

definition code_entry :: "gostring \<times> statusInfo list \<Rightarrow> (int \<times> statusFieldInfo) option" where
  "code_entry e =
     (case snd e of
        [s] \<Rightarrow> (case ParseInt 16 (si_Code s) of
                 None \<Rightarrow> None
               | Some c \<Rightarrow> Some (c, \<lparr>sfi_Field = fst e, sfi_Description = si_Description s\<rparr>))
      | _ \<Rightarrow> None)"

definition buildCodeToStatus :: "(int \<times> statusFieldInfo) list" where
  "buildCodeToStatus = fold (\<lambda>e r. case code_entry e of None \<Rightarrow> r | Some (c, i) \<Rightarrow> AList.update c i r) statuses []"

definition codeToStatuses :: "int \<rightharpoonup> statusFieldInfo" where
  "codeToStatuses code = map_of buildCodeToStatus code"

subsection \<open>The rules of a schema\<close>

type_synonym ruleDefMap = "RuleDef gomap"

text \<open>The websocket contract \<open>'w\<close> of a schema is kept unread; the pool of schema values only
  caches allocations and is left out.\<close>

record 'w schemaRules =
  sr_req :: ruleDefMap
  sr_responses :: "ruleDefMap gomap"
  sr_websocket :: "'w option"
  sr_schemaType :: "gotype option"

definition newSchemaRules :: "gotype option \<Rightarrow> 'w schemaRules" where
  "newSchemaRules t = \<lparr>sr_req = [], sr_responses = [], sr_websocket = None, sr_schemaType = t\<rparr>"

abbreviation rd_field :: "RuleDef \<Rightarrow> gostring" where "rd_field d \<equiv> ri_field (rd d)"

definition setReq :: "gostring \<Rightarrow> RuleDef option \<Rightarrow> 'w schemaRules \<Rightarrow> 'w schemaRules" where
  "setReq k rules s =
     (case rules of None \<Rightarrow> s
      | Some d \<Rightarrow> s\<lparr>sr_req := map_put (k @ ''.'' @ rd_field d) d (sr_req s)\<rparr>)"

definition setResps :: "gostring \<Rightarrow> RuleDef option \<Rightarrow> 'w schemaRules \<Rightarrow> 'w schemaRules" where
  "setResps k rules s =
     (case rules of None \<Rightarrow> s
      | Some d \<Rightarrow>
          (case map_of (sr_responses s) k of
             Some m \<Rightarrow> s\<lparr>sr_responses := map_put k (map_put (rd_field d) d m) (sr_responses s)\<rparr>
           | None \<Rightarrow> s\<lparr>sr_responses := map_put k [(rd_field d, d)] (sr_responses s)\<rparr>))"

text \<open>The parts of a schema.\<close>

definition schemaReq :: gostring where "schemaReq = ''Request''"
definition schemaHeaders :: gostring where "schemaHeaders = ''Header''"
definition schemaCookies :: gostring where "schemaCookies = ''Cookie''"
definition schemaQuery :: gostring where "schemaQuery = ''Query''"
definition schemaPath :: gostring where "schemaPath = ''Path''"
definition schemaBody :: gostring where "schemaBody = ''Body''"
definition schemaWebSocket :: gostring where "schemaWebSocket = ''WebSocket''"

lemmas schema_fields = schemaReq_def schemaHeaders_def schemaCookies_def schemaQuery_def schemaPath_def
  schemaBody_def schemaWebSocket_def

definition reqSchemaIn :: "gostring \<Rightarrow> gostring" where
  "reqSchemaIn s =
     (if s = schemaPath then ''path'' else if s = schemaQuery then ''query''
      else if s = schemaHeaders then ''header'' else if s = schemaCookies then ''cookie''
      else ''<unknown>'')"

text \<open>Reading the rules; a nil schema has none.\<close>

definition getReqRules :: "'w schemaRules option \<Rightarrow> gostring \<Rightarrow> RuleDef option" where
  "getReqRules s k =
     (case s of None \<Rightarrow> None | Some r \<Rightarrow> map_of (sr_req r) (schemaReq @ ''.'' @ k))"

definition ApplicationJson :: gostring where "ApplicationJson = ''application/json''"
definition AnyContenType :: gostring where "AnyContenType = ''*/*''"

text \<open>The content type a header node declares by its default.\<close>

definition declared_content :: "RuleDef \<Rightarrow> gostring" where
  "declared_content hs =
     (let try = (\<lambda>n. case map_of (rd_properties hs) n of
                        Some v \<Rightarrow> if ri_defStr (rd v) \<noteq> [] then Some (ri_defStr (rd v)) else None
                      | None \<Rightarrow> None)
      in case try ''content-type'' of
           Some c \<Rightarrow> c
         | None \<Rightarrow> (case try ''Content-Type'' of Some c \<Rightarrow> c | None \<Rightarrow> ApplicationJson))"

definition reqContent :: "'w schemaRules option \<Rightarrow> gostring" where
  "reqContent s =
     (case getReqRules s schemaHeaders of None \<Rightarrow> ApplicationJson | Some hs \<Rightarrow> declared_content hs)"

text \<open>The response rules of a status code: those of its own name, else those of its class, else the
  default ones.\<close>

definition resp_or ::
  "'w schemaRules \<Rightarrow> gostring \<Rightarrow> (gostring \<times> ruleDefMap) option \<Rightarrow> (gostring \<times> ruleDefMap) option"
where
  "resp_or s n rest = (case map_of (sr_responses s) n of Some m \<Rightarrow> Some (n, m) | None \<Rightarrow> rest)"

definition handleDefaults :: "'w schemaRules \<Rightarrow> int \<Rightarrow> gerr + gostring \<times> ruleDefMap" where
  "handleDefaults s code =
     (let own =
        (if 100 \<le> code \<and> code \<le> 199 then resp_or s informational None
         else if 200 \<le> code \<and> code \<le> 299 then resp_or s successFieldName None
         else if 300 \<le> code \<and> code \<le> 399 then resp_or s redirectFieldName None
         else if 400 \<le> code \<and> code \<le> 499 then resp_or s redirectFieldName (resp_or s errFieldName None)
         else if 500 \<le> code \<and> code \<le> 599 then resp_or s errFieldName (resp_or s errFieldName None)
         else None)
      in case own of
           Some r \<Rightarrow> Inr r
         | None \<Rightarrow> (case resp_or s defaultFieldName None of
                     Some r \<Rightarrow> Inr r
                   | None \<Rightarrow> Inl (Errorf ''no matching response rules for the given status code %d'' [intv code])))"

definition getRespRulesByCode :: "'w schemaRules \<Rightarrow> int \<Rightarrow> gerr + gostring \<times> ruleDefMap" where
  "getRespRulesByCode s code =
     (case codeToStatuses code of
        Some i \<Rightarrow> (case map_of (sr_responses s) (sfi_Field i) of
                    Some m \<Rightarrow> Inr (sfi_Field i, m)
                  | None \<Rightarrow> handleDefaults s code)
      | None \<Rightarrow> handleDefaults s code)"

definition respContent :: "'w schemaRules \<Rightarrow> int \<Rightarrow> gostring" where
  "respContent s code =
     (case getRespRulesByCode s code of
        Inl e \<Rightarrow> ApplicationJson
      | Inr (f, m) \<Rightarrow> (case map_of m schemaHeaders of None \<Rightarrow> ApplicationJson | Some hs \<Rightarrow> declared_content hs))"

subsection \<open>The laws of the tables\<close>

lemma statuses_distinct: "distinct (map fst statuses)" by (simp add: statuses_def field_names)

lemma digit_chars:
  "is_digit CHR ''0''" "is_digit CHR ''1''" "is_digit CHR ''2''" "is_digit CHR ''3''" "is_digit CHR ''4''"
  "is_digit CHR ''5''" "is_digit CHR ''6''" "is_digit CHR ''7''" "is_digit CHR ''8''" "is_digit CHR ''9''"
  "\<not> is_digit CHR ''X''" "\<not> is_digit CHR ''d''"
  by (simp_all add: is_digit_def)

lemma digit_vals:
  "digit_val CHR ''0'' = 0" "digit_val CHR ''1'' = 1" "digit_val CHR ''2'' = 2" "digit_val CHR ''3'' = 3"
  "digit_val CHR ''4'' = 4" "digit_val CHR ''5'' = 5" "digit_val CHR ''6'' = 6" "digit_val CHR ''7'' = 7"
  "digit_val CHR ''8'' = 8" "digit_val CHR ''9'' = 9"
  by (simp_all add: digit_val_def)

lemma digit_val_less: "is_digit c \<Longrightarrow> digit_val c < 10"
  by (auto simp: is_digit_def digit_val_def)

lemma ParseInt_three:
  assumes "is_digit a" "is_digit b" "is_digit c"
  shows "ParseInt 16 [a, b, c] = Some (int (100 * digit_val a + 10 * digit_val b + digit_val c))"
proof -
  have "a \<noteq> CHR ''-''" "a \<noteq> CHR ''+''" using assms(1) by (auto simp: is_digit_def)
  moreover have "digits_val [a, b, c] = 100 * digit_val a + 10 * digit_val b + digit_val c"
    by (simp add: digits_val_def algebra_simps)
  moreover have "digits_val [a, b, c] < 32768"
    using assms calculation(3) digit_val_less[of a] digit_val_less[of b] digit_val_less[of c] by linarith
  ultimately show ?thesis using assms by (simp add: ParseInt_def parse_digits_def)
qed

lemma ParseInt_letters:
  "\<not> is_digit b \<Longrightarrow> is_digit a \<Longrightarrow> ParseInt 16 (a # b # s) = None"
  "ParseInt 16 ''default'' = None"
  by (auto simp: ParseInt_def parse_digits_def digit_chars is_digit_def)

lemma codes_of_statuses:
  "map fst (pick code_entry statuses) =
     [100, 101, 102, 103, 200, 201, 202, 203, 204, 205, 206, 207, 208, 226, 300, 301, 302, 303,
      304, 307, 308, 400, 401, 402, 403, 404, 405, 406, 407, 408, 409, 410, 411, 412, 413, 414,
      415, 416, 417, 418, 421, 422, 423, 424, 425, 426, 428, 429, 431, 451, 500, 501, 502, 503,
      504, 505, 506, 507, 508, 510, 511]"
  by (simp add: statuses_def code_entry_def ParseInt_three ParseInt_letters digit_chars digit_vals)

lemma update_new: "k \<notin> fst ` set r \<Longrightarrow> AList.update k v r = r @ [(k, v)]"
  by (induction r) auto

lemma fold_update_pick:
  "distinct (map fst (r @ pick f xs)) \<Longrightarrow>
     fold (\<lambda>e r. case f e of None \<Rightarrow> r | Some (c, i) \<Rightarrow> AList.update c i r) xs r = r @ pick f xs"
proof (induction xs arbitrary: r)
  case (Cons x xs)
  show ?case
  proof (cases "f x")
    case (Some y)
    obtain c i where y: "y = (c, i)" by (cases y)
    have "AList.update c i r = r @ [(c, i)]"
      using Cons.prems by (intro update_new) (auto simp: Some y)
    with Cons.IH[of "r @ [(c, i)]"] Cons.prems show ?thesis by (simp add: Some y)
  qed (use Cons in auto)
qed simp

lemma status_entries: "buildCodeToStatus = pick code_entry statuses"
  using fold_update_pick[of "[]" code_entry statuses] codes_of_statuses by (simp add: buildCodeToStatus_def)

lemma codeToStatuses_iff:
  "codeToStatuses c = Some i \<longleftrightarrow>
     (\<exists>s. map_of statuses (sfi_Field i) = Some [s] \<and> ParseInt 16 (si_Code s) = Some c
          \<and> sfi_Description i = si_Description s)"
proof
  assume "codeToStatuses c = Some i"
  then have "(c, i) \<in> set (pick code_entry statuses)"
    by (simp add: codeToStatuses_def status_entries map_of_SomeD)
  then obtain e where e: "e \<in> set statuses" "code_entry e = Some (c, i)" by (auto simp: set_pick)
  moreover have "map_of statuses (fst e) = Some (snd e)"
    using e(1) statuses_distinct by (simp add: map_of_eq_Some_iff)
  ultimately show "\<exists>s. map_of statuses (sfi_Field i) = Some [s] \<and> ParseInt 16 (si_Code s) = Some c
          \<and> sfi_Description i = si_Description s"
    by (auto simp: code_entry_def split: list.splits option.splits)
next
  assume "\<exists>s. map_of statuses (sfi_Field i) = Some [s] \<and> ParseInt 16 (si_Code s) = Some c
          \<and> sfi_Description i = si_Description s"
  then obtain s where "map_of statuses (sfi_Field i) = Some [s]" "ParseInt 16 (si_Code s) = Some c"
    "sfi_Description i = si_Description s" by blast
  then have "(sfi_Field i, [s]) \<in> set statuses" "code_entry (sfi_Field i, [s]) = Some (c, i)"
    by (auto simp: code_entry_def dest: map_of_SomeD)
  then have "(c, i) \<in> set (pick code_entry statuses)" by (auto simp: set_pick)
  then show "codeToStatuses c = Some i"
    using codes_of_statuses by (simp add: codeToStatuses_def status_entries map_of_eq_Some_iff)
qed

text \<open>The table of the numeric codes is the inverse of the table of the named statuses: the field
  that a code leads to is the one that declares it, and every name that stands for a single
  numeric code is found by that code. No two names share a code, so the order in which the map is
  read while the table is built cannot matter.\<close>

theorem codeToStatuses_inverse:
  "codeToStatuses c = Some i \<longleftrightarrow>
     (\<exists>s. map_of statuses (sfi_Field i) = Some [s] \<and> ParseInt 16 (si_Code s) = Some c
          \<and> sfi_Description i = si_Description s)"
  by (rule codeToStatuses_iff)

subsection \<open>Which response rules a code selects\<close>

text \<open>The order in which the fields of a schema are tried for a code.\<close>

definition class_fields :: "int \<Rightarrow> gostring list" where
  "class_fields code =
     (if 100 \<le> code \<and> code \<le> 199 then [informational]
      else if 200 \<le> code \<and> code \<le> 299 then [successFieldName]
      else if 300 \<le> code \<and> code \<le> 399 then [redirectFieldName]
      else if 400 \<le> code \<and> code \<le> 499 then [redirectFieldName, errFieldName]
      else if 500 \<le> code \<and> code \<le> 599 then [errFieldName]
      else [])"

definition resp_fields :: "int \<Rightarrow> gostring list" where
  "resp_fields code =
     (case codeToStatuses code of Some i \<Rightarrow> [sfi_Field i] | None \<Rightarrow> []) @ class_fields code @ [defaultFieldName]"

lemma field_of_code_single: "codeToStatuses c = Some i \<Longrightarrow> map_of statuses (sfi_Field i) = Some xs \<Longrightarrow> length xs = 1"
  using codeToStatuses_iff[of c i] by auto

lemma class_field_statuses:
  "map_of statuses clientErr = Some [status_info ''4XX'' ''Client Error'' False]"
  "map_of statuses serverErr = Some [status_info ''5XX'' ''Server Error'' False]"
  by (simp_all add: statuses_def field_names)

lemma class_name_without_code:
  "codeToStatuses c = Some i \<Longrightarrow> sfi_Field i \<noteq> clientErr \<and> sfi_Field i \<noteq> serverErr"
  using codeToStatuses_iff[of c i] class_field_statuses
  by (auto simp: ParseInt_letters digit_chars)

abbreviation declared :: "'w schemaRules \<Rightarrow> gostring \<Rightarrow> (gostring \<times> ruleDefMap) option" where
  "declared s n \<equiv> map_option (Pair n) (map_of (sr_responses s) n)"

definition first_declared :: "'w schemaRules \<Rightarrow> gostring list \<Rightarrow> (gostring \<times> ruleDefMap) option" where
  "first_declared s ns = (case pick (declared s) ns of r # rs \<Rightarrow> Some r | [] \<Rightarrow> None)"

lemma first_declared_simps [simp]:
  "first_declared s [] = None"
  "first_declared s (n # ns) = resp_or s n (first_declared s ns)"
  by (simp_all add: first_declared_def resp_or_def split: option.splits)

lemma first_declared_append:
  "first_declared s (xs @ ys) = (case first_declared s xs of Some r \<Rightarrow> Some r | None \<Rightarrow> first_declared s ys)"
  by (induction xs) (auto simp: resp_or_def split: option.splits)

lemma resp_or_same [simp]: "resp_or s n (resp_or s n r) = resp_or s n r"
  by (simp add: resp_or_def split: option.splits)

lemma handleDefaults_eq:
  "handleDefaults s code =
     (case first_declared s (class_fields code @ [defaultFieldName]) of
        Some r \<Rightarrow> Inr r
      | None \<Rightarrow> Inl (Errorf ''no matching response rules for the given status code %d'' [intv code]))"
proof -
  have own: "first_declared s (class_fields code) =
       (if 100 \<le> code \<and> code \<le> 199 then resp_or s informational None
         else if 200 \<le> code \<and> code \<le> 299 then resp_or s successFieldName None
         else if 300 \<le> code \<and> code \<le> 399 then resp_or s redirectFieldName None
         else if 400 \<le> code \<and> code \<le> 499 then resp_or s redirectFieldName (resp_or s errFieldName None)
         else if 500 \<le> code \<and> code \<le> 599 then resp_or s errFieldName (resp_or s errFieldName None)
         else None)"
    by (simp add: class_fields_def)
  show ?thesis
    unfolding handleDefaults_def own[symmetric] first_declared_append Let_def by (simp split: option.split)
qed

lemma getRespRules_eq:
  "getRespRulesByCode s code =
     (case first_declared s (resp_fields code) of
        Some r \<Rightarrow> Inr r
      | None \<Rightarrow> Inl (Errorf ''no matching response rules for the given status code %d'' [intv code]))"
  unfolding getRespRulesByCode_def handleDefaults_eq resp_fields_def
  by (auto simp: resp_or_def split: option.split)

text \<open>The rules of a response are those of the first declared field among: the field named after
  its exact status, the fields of its class of codes, and the default field; when the schema
  declares none of them, and only then, there is an error.\<close>

theorem response_rules_first_declared:
  "getRespRulesByCode s code =
     (case pick (declared s) (resp_fields code) of
        r # rs \<Rightarrow> Inr r
      | [] \<Rightarrow> Inl (Errorf ''no matching response rules for the given status code %d'' [intv code]))"
  by (auto simp: getRespRules_eq first_declared_def split: list.split)

text \<open>A schema that declares its client and server errors under the names \<open>ClientError\<close> and
  \<open>ServerError\<close>, which the table of statuses lists for the classes 4XX and 5XX, declares nothing:
  no code ever selects those fields. A client error is answered under the rules of the
  redirects when the schema has them, even when it declares the field \<open>Err\<close> as well.\<close>

theorem client_errors_use_redirect_rules:
  "getRespRulesByCode (s\<lparr>sr_responses := map_put clientErr m (map_put serverErr m (sr_responses s))\<rparr>) code
     = getRespRulesByCode s code
   \<and> getRespRulesByCode \<lparr>sr_req = q, sr_responses = [(errFieldName, e), (redirectFieldName, r)],
        sr_websocket = w, sr_schemaType = t\<rparr> 404 = Inr (redirectFieldName, r)"
proof
  have n: "n \<in> set (resp_fields code) \<Longrightarrow> n \<noteq> clientErr \<and> n \<noteq> serverErr" for n
    using class_name_without_code[of code]
    by (auto simp: resp_fields_def class_fields_def field_names split: option.splits if_splits)
  let ?s = "s\<lparr>sr_responses := map_put clientErr m (map_put serverErr m (sr_responses s))\<rparr>"
  have "first_declared ?s ns = first_declared s ns"
    if "\<forall>n \<in> set ns. n \<noteq> clientErr \<and> n \<noteq> serverErr" for ns
    using that by (induction ns) (auto simp: resp_or_def)
  with n have "first_declared ?s (resp_fields code) = first_declared s (resp_fields code)" by blast
  then show "getRespRulesByCode ?s code = getRespRulesByCode s code" by (simp add: getRespRules_eq)
next
  have "codeToStatuses 404 = Some \<lparr>sfi_Field = ''NotFound'', sfi_Description = ''Not Found Error''\<rparr>"
    unfolding codeToStatuses_iff
    by (simp add: statuses_def field_names ParseInt_three digit_chars digit_vals)
  then show "getRespRulesByCode \<lparr>sr_req = q, sr_responses = [(errFieldName, e), (redirectFieldName, r)],
        sr_websocket = w, sr_schemaType = t\<rparr> 404 = Inr (redirectFieldName, r)"
    by (simp add: getRespRulesByCode_def handleDefaults_def resp_or_def field_names)
qed

subsection \<open>The errors of a node\<close>

definition rule_reports :: "goval \<Rightarrow> (gostring \<Rightarrow> gerr \<Rightarrow> verr) \<Rightarrow> ruleOpts list \<Rightarrow> verr list" where
  "rule_reports v report rs =
     pick (\<lambda>r. case ro_dator r v of Returns (Some e) \<Rightarrow> Some (report (ro_rule r) e) | _ \<Rightarrow> None) rs"

lemma collect_errs_eq:
  "\<forall>r \<in> set rs. ro_dator r v \<noteq> Panics \<Longrightarrow> collect_errs v report rs = Returns (rule_reports v report rs)"
proof (induction rs)
  case (Cons r rs)
  then show ?case by (cases "ro_dator r v") (auto simp: rule_reports_def split: option.splits)
qed (simp add: rule_reports_def)

lemma collect_errs_panics:
  "r \<in> set rs \<Longrightarrow> ro_dator r v = Panics \<Longrightarrow> collect_errs v report rs = Panics"
proof (induction rs)
  case (Cons x rs)
  then show ?case by (cases "ro_dator x v") auto
qed simp

lemma runValidation_eq:
  "\<forall>r \<in> set rs. ro_dator r v \<noteq> Panics \<Longrightarrow>
     runValidation v t sch k rs = Returns (errors_Join (rule_reports v (VReport t sch k) rs))"
  by (auto simp: runValidation_def collect_errs_eq errors_Join_def rule_reports_def)

lemma runValidation_ok_iff:
  "runValidation v t sch k rs = Returns None \<longleftrightarrow> (\<forall>r \<in> set rs. ro_dator r v = ok)"
proof
  assume r: "runValidation v t sch k rs = Returns None"
  show "\<forall>r \<in> set rs. ro_dator r v = ok"
  proof
    fix x assume x: "x \<in> set rs"
    have np: "\<forall>r \<in> set rs. ro_dator r v \<noteq> Panics"
      using r collect_errs_panics by (fastforce simp: runValidation_def split: if_splits)
    then have "rule_reports v (VReport t sch k) rs = []"
      using r by (simp add: runValidation_eq errors_Join_def split: if_splits)
    then have "\<not> (\<exists>e. ro_dator x v = Returns (Some e))"
      using x by (auto simp: rule_reports_def pick_Nil_iff split: call.splits option.splits)
    with np x show "ro_dator x v = ok" by (cases "ro_dator x v") auto
  qed
next
  assume a: "\<forall>r \<in> set rs. ro_dator r v = ok"
  then have "rule_reports v (VReport t sch k) rs = []" by (simp add: rule_reports_def pick_Nil_iff)
  with a show "runValidation v t sch k rs = Returns None" by (simp add: runValidation_eq errors_Join_def)
qed

lemma runValidationLazy_eq: "runValidationLazy v t sch keys rs = runValidation v t sch (Join keys [CHR 0x2E]) rs"
  by (simp add: runValidationLazy_def runValidation_def)

end
