(* ===== verification/Compiler.thy ===== *)
theory Compiler
  imports Rules
begin

section \<open>Compiling a schema (compiler.go, schema.go)\<close>

text \<open>
  A schema is a struct type whose fields name the parts of a request and the responses by status.
  \<open>compileSchema\<close> walks it once at registration: it turns the tags of every field into a rule
  definition, the tree that requests are validated with, and builds the OpenAPI description of
  the operation beside it. Methods that tags refer to are code of the application, and the
  websocket part is compiled elsewhere: both are arguments.
\<close>

subsection \<open>Outcomes\<close>

text \<open>A panic, the end of the process by \<open>log.Fatalln\<close>, or a result.\<close>

datatype 'a run = Crash | Fatal gostring | Done 'a

fun bind_run :: "'a run \<Rightarrow> ('a \<Rightarrow> 'b run) \<Rightarrow> 'b run" where
  "bind_run Crash f = Crash"
| "bind_run (Fatal m) f = Fatal m"
| "bind_run (Done x) f = f x"

lemma bind_run_cong [fundef_cong]:
  "r = r' \<Longrightarrow> (\<And>x. r' = Done x \<Longrightarrow> f x = g x) \<Longrightarrow> bind_run r f = bind_run r' g"
  by (cases r') auto

lemma bind_run_Done: "bind_run r f = Done y \<longleftrightarrow> (\<exists>x. r = Done x \<and> f x = Done y)"
  by (cases r) auto

fun run_of :: "'a call \<Rightarrow> 'a run" where
  "run_of Panics = Crash"
| "run_of (Returns x) = Done x"

fun fold_run :: "('a \<Rightarrow> 's \<Rightarrow> 's run) \<Rightarrow> 'a list \<Rightarrow> 's \<Rightarrow> 's run" where
  "fold_run f [] s = Done s"
| "fold_run f (x # xs) s = bind_run (f x s) (fold_run f xs)"

lemma fold_run_cong [fundef_cong]:
  "xs = ys \<Longrightarrow> s = t \<Longrightarrow> (\<And>x u. x \<in> set ys \<Longrightarrow> f x u = g x u) \<Longrightarrow> fold_run f xs s = fold_run g ys t"
proof (induction xs arbitrary: ys s t)
  case (Cons x xs)
  have "fold_run f xs u = fold_run g xs u" for u
    using Cons.prems by (intro Cons.IH) auto
  then have "fold_run f xs = fold_run g xs" by blast
  with Cons.prems show ?case by auto
qed auto

lemma fold_run_append: "fold_run f (xs @ ys) s = bind_run (fold_run f xs s) (fold_run f ys)"
proof (induction xs arbitrary: s)
  case (Cons x xs)
  then show ?case by (cases "f x s") auto
qed simp

subsection \<open>The visible fields of a struct\<close>

text \<open>
  \<open>reflect.VisibleFields\<close>: the fields in order, each embedded struct followed by the fields it
  promotes; a field hidden by a shallower one of its name, or by another of the same depth, is
  dropped. The walk keeps the fields found so far; a dropped one has no name.
\<close>

definition struct_elem :: "gotype \<Rightarrow> gotype" where
  "struct_elem t = (if kind_of t = KPointer then (case elem_of t of None \<Rightarrow> t | Some e \<Rightarrow> e) else t)"

definition unname :: "gostring \<Rightarrow> StructField \<Rightarrow> StructField" where
  "unname n f =
     (if sf_name (StructFld f) = n
      then f\<lparr>StructFld := SField [] (sf_type (StructFld f)) (sf_tag (StructFld f)) (sf_embedded (StructFld f))\<rparr>
      else f)"

text \<open>The last field recorded under a name decides, also when it has been dropped: \<open>byName\<close> keeps the
  depth at which the name was last recorded.\<close>

type_synonym vf_state = "StructField list \<times> (gostring \<rightharpoonup> nat)"

definition vf_add :: "nat list \<Rightarrow> sfield \<Rightarrow> vf_state \<Rightarrow> vf_state" where
  "vf_add ix f st =
     (let n = sf_name f; new = \<lparr>StructFld = f, Index = ix\<rparr>
      in case snd st n of
           None \<Rightarrow> (fst st @ [new], (snd st)(n \<mapsto> length ix))
         | Some d \<Rightarrow>
             if length ix = d then (map (unname n) (fst st), snd st)
             else if length ix < d then (map (unname n) (fst st) @ [new], (snd st)(n \<mapsto> length ix))
             else st)"

lemma size_underlying: "size (underlying t) \<le> size t"
  by (induction t rule: underlying.induct) auto

lemma size_elem_of [termination_simp]: "elem_of t = Some e \<Longrightarrow> size e < size t"
  using size_underlying[of t] by (auto simp: elem_of_def split: gotype.splits)

lemma size_fields_of: "size_list size (fields_of t) \<le> size t"
  using size_underlying[of t] by (auto simp: fields_of_def split: gotype.splits)

lemma size_field_type: "f \<in> set (fields_of t) \<Longrightarrow> size (sf_type f) < size t"
  using size_underlying[of t] size_sf_type[of f "fields_of t"] by (auto simp: fields_of_def split: gotype.splits)

lemma size_struct_elem: "size (struct_elem t) \<le> size t"
  using size_elem_of[of t] by (force simp: struct_elem_def split: option.splits)

function vf_walk :: "nat list \<Rightarrow> nat \<Rightarrow> sfield list \<Rightarrow> vf_state \<Rightarrow> vf_state" where
  "vf_walk ix i [] st = st"
| "vf_walk ix i (f # fs) st =
     (let st1 = vf_add (ix @ [i]) f st;
          t = struct_elem (sf_type f);
          st2 = (if sf_embedded f \<and> kind_of t = KStruct then vf_walk (ix @ [i]) 0 (fields_of t) st1 else st1)
      in vf_walk ix (Suc i) fs st2)"
  by pat_completeness auto
termination
proof (relation "measure (\<lambda>(ix, i, fs, st). size_list size fs)", goal_cases)
  case (2 ix i f fs st st1 t)
  have "size_list size (fields_of t) \<le> size t" by (rule size_fields_of)
  also have "size t \<le> size f" using 2 size_struct_elem[of "sf_type f"] size_sf_type_le[of f] by simp
  finally show ?case by simp
qed auto

definition VisibleFields :: "gotype \<Rightarrow> StructField list" where
  "VisibleFields t =
     filter (\<lambda>f. sf_name (StructFld f) \<noteq> []) (fst (vf_walk [] 0 (fields_of t) ([], Map.empty)))"

abbreviation fld_type :: "StructField \<Rightarrow> gotype" where "fld_type f \<equiv> sf_type (StructFld f)"
abbreviation fld_name :: "StructField \<Rightarrow> gostring" where "fld_name f \<equiv> sf_name (StructFld f)"
abbreviation fld_tag :: "StructField \<Rightarrow> gostring" where "fld_tag f \<equiv> sf_tag (StructFld f)"

lemma fld_type_unname [simp]: "fld_type (unname n f) = fld_type f"
  by (simp add: unname_def)

lemma vf_add_sizes:
  "(\<forall>g \<in> set (fst st). size (fld_type g) < m) \<Longrightarrow> size (sf_type f) < m \<Longrightarrow>
     \<forall>g \<in> set (fst (vf_add ix f st)). size (fld_type g) < m"
  by (auto simp: vf_add_def Let_def split: option.splits)

lemma vf_walk_sizes:
  "(\<forall>g \<in> set (fst st). size (fld_type g) < m) \<Longrightarrow> size_list size fs \<le> m \<Longrightarrow>
     \<forall>g \<in> set (fst (vf_walk ix i fs st)). size (fld_type g) < m"
proof (induction ix i fs st rule: vf_walk.induct)
  case (2 ix i f fs st)
  let ?st1 = "vf_add (ix @ [i]) f st" and ?t = "struct_elem (sf_type f)"
  have f: "size (sf_type f) < m" using 2(4) size_sf_type_le[of f] by simp
  then have 1: "\<forall>g \<in> set (fst ?st1). size (fld_type g) < m" using vf_add_sizes[OF 2(3)] by blast
  have "size_list size (fields_of ?t) \<le> m"
    using size_fields_of[of ?t] size_struct_elem[of "sf_type f"] f by linarith
  then have "\<forall>g \<in> set (fst (if sf_embedded f \<and> kind_of ?t = KStruct
      then vf_walk (ix @ [i]) 0 (fields_of ?t) ?st1 else ?st1)). size (fld_type g) < m"
    using 2(1)[OF refl refl _ 1] 1 by simp
  from 2(2)[OF refl refl refl this] 2(4) show ?case by (simp only: vf_walk.simps Let_def) simp
qed simp

lemma size_VisibleFields [termination_simp]: "f \<in> set (VisibleFields t) \<Longrightarrow> size (fld_type f) < size t"
  using vf_walk_sizes[of "([], Map.empty)" "size t" "fields_of t" "[]" 0] size_fields_of[of t]
  by (auto simp: VisibleFields_def)

subsection \<open>Reading the sample value of a field\<close>

text \<open>The zero value of a type.\<close>

function zero_of :: "gotype \<Rightarrow> goval" where
  "zero_of t =
     (let k = kind_of t in
      if k = KBool then VBool t False
      else if is_integer k then VInt t 0
      else if is_float k then VFloat t (FNum 0)
      else if is_complex k then VComplex t (FNum 0) (FNum 0)
      else if k = KString then VString t []
      else if k = KSlice then VSlice t None
      else if k = KArray then
        (case underlying t of TArray n e \<Rightarrow> VArray t (replicate n (zero_of e)) | _ \<Rightarrow> VNil)
      else if k = KMap then VMap t None
      else if k = KPointer then VPtr t None
      else if k = KStruct then VStruct t (map (\<lambda>f. zero_of (sf_type f)) (fields_of t))
      else if k = KInterface \<or> k = KInvalid then VNil
      else VRef t None)"
  by pat_completeness auto
termination
proof (relation "measure size", goal_cases)
  case (2 t k n e)
  then show ?case using size_underlying[of t] by simp
next
  case (3 t k f)
  then show ?case by (auto intro: size_field_type)
qed simp

declare zero_of.simps [simp del]

text \<open>\<open>Value.Comparable\<close>.\<close>

fun value_comparable :: "goval \<Rightarrow> bool" where
  "value_comparable (VSlice t xs) = False"
| "value_comparable (VMap t m) = False"
| "value_comparable (VRef t p) = (kind_of t \<noteq> KFunc)"
| "value_comparable (VArray t vs) =
     (case elem_of t of
        Some e \<Rightarrow> if kind_of e \<in> {KInterface, KArray, KStruct} then list_all value_comparable vs else comparable t
      | None \<Rightarrow> False)"
| "value_comparable (VStruct t vs) = list_all value_comparable vs"
| "value_comparable _ = True"

text \<open>\<open>Value.FieldByIndex\<close> on a struct: an embedded nil pointer on the way panics.\<close>

fun field_at :: "nat list \<Rightarrow> goval \<Rightarrow> goval call" where
  "field_at [] v = Returns v"
| "field_at (i # ix) v =
     (case v of
        VStruct t vs \<Rightarrow> if i < length vs then field_at ix (vs ! i) else Panics
      | VPtr t (Some (a, VStruct u vs)) \<Rightarrow> if i < length vs then field_at ix (vs ! i) else Panics
      | _ \<Rightarrow> Panics)"

text \<open>\<open>Value.FieldByName\<close>, which finds the visible fields. A result is a field, read or not
  readable because it is unexported, or the invalid value. A name is exported when every field
  on its path is.\<close>

definition find_field :: "gotype \<Rightarrow> gostring \<Rightarrow> StructField option" where
  "find_field t n = List.find (\<lambda>f. fld_name f = n) (VisibleFields t)"

definition FieldByName :: "goval \<Rightarrow> gostring \<Rightarrow> (StructField \<times> goval) option call" where
  "FieldByName v n =
     (case typeof v of
        None \<Rightarrow> Panics
      | Some t \<Rightarrow>
          if kind_of t \<noteq> KStruct then Panics
          else (case find_field t n of
                  None \<Rightarrow> Returns None
                | Some f \<Rightarrow> bind_call (field_at (Index f) v) (\<lambda>w. Returns (Some (f, w)))))"

text \<open>The value a schema field starts from: the one of the sample struct when it is comparable and not
  the zero value, or else the one of the \<open>default\<close> tag. \<open>parent = None\<close> is the invalid value;
  \<open>VNil\<close> the nil result.\<close>

definition default_or :: "StructField \<Rightarrow> goval \<Rightarrow> goval" where
  "default_or f fieldVal =
     (let tagVal = tag_Get (fld_tag f) ''default''; k = kind_of (fld_type f)
      in if IsPrimitiveKind k then
           (case PrimitiveFromStr k tagVal of (w, None) \<Rightarrow> w | (w, Some e) \<Rightarrow> fieldVal)
         else if k = KSlice \<and> tagVal = ''[]'' then
           (case elem_of (fld_type f) of Some e \<Rightarrow> VSlice (TSlice e) (Some []) | None \<Rightarrow> VNil)
         else VNil)"

definition getPrimitiveValFromParent :: "goval option \<Rightarrow> StructField \<Rightarrow> goval call" where
  "getPrimitiveValFromParent parent f =
     (case parent of
        None \<Rightarrow> Returns (default_or f VNil)
      | Some p \<Rightarrow>
          if vkind p \<noteq> KStruct then Returns (default_or f VNil)
          else bind_call (FieldByName p (fld_name f)) (\<lambda>r.
            case r of
              None \<Rightarrow> Returns (default_or f VNil)
            | Some (g, fv) \<Rightarrow>
                if \<not> value_comparable fv then Returns (default_or f VNil)
                else if \<not> exported (fld_name f) then Panics
                else let ktv = zero_of (fld_type f)
                     in if value_comparable ktv then
                          (case go_eq fv ktv of
                             None \<Rightarrow> Panics
                           | Some b \<Rightarrow> Returns (if b then default_or f fv else fv))
                        else Returns (default_or f fv)))"

subsection \<open>Field names and promotion\<close>

definition isPromotedEmbed :: "StructField \<Rightarrow> bool" where
  "isPromotedEmbed f =
     (if \<not> sf_embedded (StructFld f) then False
      else if kind_of (struct_elem (fld_type f)) \<noteq> KStruct then False
      else (case Lookup (fld_tag f) ''json'' of
              None \<Rightarrow> True
            | Some tag \<Rightarrow> (let name = hd (Split (CHR '','') tag) in \<not> (name \<noteq> [] \<and> name \<noteq> ''-''))))"

definition getFieldName :: "StructField \<Rightarrow> gostring" where
  "getFieldName f =
     (let jsonTags = Split (CHR '','') (tag_Get (fld_tag f) ''json'')
      in if jsonTags \<noteq> [] \<and> hd jsonTags \<noteq> [] then hd jsonTags else fld_name f)"

lemma Split_not_Nil: "Split d s \<noteq> []"
  by (induction s) (auto split: list.splits)

lemma getFieldName_eq: "getFieldName f = json_tag_name (StructFld f)"
  by (auto simp: getFieldName_def json_tag_name_def tag_Get_def Let_def Split_not_Nil split: option.splits)

subsection \<open>Tags and rule definitions\<close>

text \<open>What a multiplexer brings to the compiler: its options, the library of the validators, the
  method a tag refers to (code of the application, called on the zero value of the type: \<open>None\<close>
  when there is no such method or it returns no string), and the websocket part of a schema.\<close>

record compiler =
  cm_lib :: stdlib
  cm_customs :: custom_validators
  cm_customSpecs :: "custom_spec gomap"
  cm_method :: "gostring \<Rightarrow> gotype \<Rightarrow> gostring option call"

definition parseTagValue :: "compiler \<Rightarrow> gostring \<Rightarrow> gotype \<Rightarrow> gostring call" where
  "parseTagValue cm tag t =
     (case tag of
        c # methodName \<Rightarrow>
          if c = CHR ''@'' then
            bind_call (cm_method cm methodName t) (\<lambda>r. Returns (case r of Some v \<Rightarrow> v | None \<Rightarrow> tag))
          else Returns tag
      | [] \<Rightarrow> Returns tag)"

text \<open>\<open>tagFieldRegex.FindStringSubmatch\<close> of a part without commas: a rule name and what follows a
  \<open>=\<close> or an \<open>@\<close>.\<close>

definition tag_word :: "char \<Rightarrow> bool" where
  "tag_word c \<longleftrightarrow> is_letter c \<or> is_digit c \<or> c = CHR ''_''"

definition tagFieldRegex :: "gostring \<Rightarrow> (gostring \<times> gostring \<times> gostring) option" where
  "tagFieldRegex part =
     (let s = dropWhile (\<lambda>c. \<not> tag_word c) part; name = takeWhile tag_word s
      in if name = [] then None
         else Some (case dropWhile tag_word s of
                [] \<Rightarrow> (name, [], [])
              | c # r \<Rightarrow> let arg = takeWhile (\<lambda>d. d \<noteq> CHR '','') r
                         in if c = CHR ''='' then (name, arg, [])
                            else if c = CHR ''@'' then (name, [], arg) else (name, [], [])))"

text \<open>One rule of a \<open>validate\<close> tag; a part without a name panics.\<close>

definition parse_vtag :: "compiler \<Rightarrow> gotype \<Rightarrow> gostring \<Rightarrow> (gostring \<times> gostring list) call" where
  "parse_vtag cm t part =
     (case tagFieldRegex part of
        None \<Rightarrow> Panics
      | Some (ruleName, opt, ref) \<Rightarrow>
          bind_call (if ref \<noteq> [] then cm_method cm ref t else Returns None) (\<lambda>r.
            let optionStr = (case r of Some ts \<Rightarrow> ts | None \<Rightarrow> opt)
            in Returns (ruleName, if optionStr \<noteq> [] then Split (CHR '' '') optionStr else [])))"

fun parse_vtags :: "compiler \<Rightarrow> gotype \<Rightarrow> gostring list \<Rightarrow> (gostring \<times> gostring list) list call" where
  "parse_vtags cm t [] = Returns []"
| "parse_vtags cm t (p # ps) =
     bind_call (parse_vtag cm t p) (\<lambda>r. bind_call (parse_vtags cm t ps) (\<lambda>rs. Returns (r # rs)))"

text \<open>The bound kept on a rule definition: the last \<open>max\<close> or \<open>lte\<close> with more than one option.\<close>

definition max_of_rule :: "gostring \<times> gostring list \<Rightarrow> flt option" where
  "max_of_rule r =
     (if (fst r = ''max'' \<or> fst r = ''lte'') \<and> length (snd r) > 1 then
        (case ParseFloat 64 (hd (snd r)) of (f, None) \<Rightarrow> Some f | (f, Some e) \<Rightarrow> None)
      else None)"

definition tag_max :: "(gostring \<times> gostring list) list \<Rightarrow> flt option" where
  "tag_max rs = fold (\<lambda>r m. case max_of_rule r of Some f \<Rightarrow> Some f | None \<Rightarrow> m) rs None"

text \<open>\<open>required\<close> together with \<open>allow_zero\<close> becomes \<open>present\<close>: the first \<open>required\<close> rule is replaced.\<close>

fun relax_required :: "compiler \<Rightarrow> gotype \<Rightarrow> ruleOpts list \<Rightarrow> ruleOpts list" where
  "relax_required cm t [] = []"
| "relax_required cm t (r # rs) =
     (if ro_rule r = ''required'' then newRuleOpts (cm_lib cm) (cm_customs cm) t (kind_of t) ''present'' [] # rs
      else r # relax_required cm t rs)"

record vtag_info =
  vi_rules :: "ruleOpts list"
  vi_required :: bool
  vi_present :: bool
  vi_max :: "flt option"

definition vtag_names :: "(gostring \<times> gostring list) list \<Rightarrow> gostring \<Rightarrow> bool" where
  "vtag_names rs n \<longleftrightarrow> list_ex (\<lambda>r. fst r = n) rs"

definition validate_tag :: "compiler \<Rightarrow> gotype \<Rightarrow> gostring \<Rightarrow> vtag_info call" where
  "validate_tag cm t tag =
     bind_call (parse_vtags cm t (Split (CHR '','') tag)) (\<lambda>rs.
       let rules = map (\<lambda>(n, os). newRuleOpts (cm_lib cm) (cm_customs cm) t (kind_of t) n os) rs;
           required = vtag_names rs ''required''; relax = required \<and> vtag_names rs ''allow_zero''
       in Returns
            \<lparr>vi_rules = (if relax then relax_required cm t rules else rules),
             vi_required = required, vi_present = vtag_names rs ''present'' \<or> relax, vi_max = tag_max rs\<rparr>)"

text \<open>A tag that is present and not blank.\<close>

definition tag_set :: "gostring \<Rightarrow> gostring \<Rightarrow> gostring option" where
  "tag_set tags k =
     (case Lookup tags k of None \<Rightarrow> None | Some v \<Rightarrow> if TrimSpace v = [] then None else Some v)"

definition plain_tags :: "gostring list" where
  "plain_tags = [''example'', ''deprecated'', ''description'', ''pattern'', ''spec'']"

definition read_plain :: "compiler \<Rightarrow> StructField \<Rightarrow> gostring \<Rightarrow> gostring list gomap \<Rightarrow> gostring list gomap call" where
  "read_plain cm sf k m =
     (case tag_set (fld_tag sf) k of
        None \<Rightarrow> Returns m
      | Some tag \<Rightarrow> bind_call (parseTagValue cm tag (fld_type sf)) (\<lambda>v. Returns (map_put k [v] m)))"

fun read_all :: "compiler \<Rightarrow> StructField \<Rightarrow> gostring list \<Rightarrow> gostring list gomap \<Rightarrow> gostring list gomap call" where
  "read_all cm sf [] m = Returns m"
| "read_all cm sf (k # ks) m = bind_call (read_plain cm sf k m) (read_all cm sf ks)"

definition getFieldRuleDefs :: "compiler \<Rightarrow> StructField \<Rightarrow> goval \<Rightarrow> RuleDef call" where
  "getFieldRuleDefs cm sf defVal =
     bind_call (case tag_set (fld_tag sf) ''validate'' of
                  None \<Rightarrow> Returns \<lparr>vi_rules = [], vi_required = False, vi_present = False, vi_max = None\<rparr>
                | Some tag \<Rightarrow> validate_tag cm (fld_type sf) tag) (\<lambda>v.
     bind_call (case tag_set (fld_tag sf) ''default'' of
                  None \<Rightarrow> Returns [] | Some tag \<Rightarrow> parseTagValue cm tag (fld_type sf)) (\<lambda>defStr.
     bind_call (read_all cm sf plain_tags
                  (case tag_set (fld_tag sf) ''json'' of
                     None \<Rightarrow> [] | Some tag \<Rightarrow> [(''json'', Split (CHR '','') tag)])) (\<lambda>tags.
       Returns (rd_update (\<lambda>i. i\<lparr>ri_tags := tags\<rparr>)
         (newRuleDef sf defStr defVal (vi_rules v) (vi_required v) (vi_present v) (vi_max v) None None None)))))"

subsection \<open>OpenAPI schemas (schema.go)\<close>

record openapiDiscriminator =
  PropertyName :: gostring
  Mapping :: "gostring gomap"

record schema_info =
  os_Title :: gostring
  os_Format :: gostring
  os_Type :: gostring
  os_Pattern :: gostring
  os_Default :: goval
  os_Minimum :: "flt option"
  os_Maximum :: "flt option"
  os_Enum :: "goval list option"
  os_Discriminator :: "openapiDiscriminator option"
  os_Required :: "gostring list"
  os_Deprecated :: "bool option"
  os_Description :: gostring
  os_Example :: goval
  os_ParentRequired :: bool

datatype openapiSchema =
  OASchema (oa: schema_info) (oa_OneOf: "openapiSchema list") (oa_Items: "openapiSchema option")
    (oa_AdditionalProperties: "openapiSchema option") (oa_Properties: "(gostring \<times> openapiSchema) list")

definition newOpenapiSchema ::
  "gostring \<Rightarrow> gostring \<Rightarrow> gostring \<Rightarrow> goval \<Rightarrow> flt option \<Rightarrow> flt option \<Rightarrow> goval list option \<Rightarrow>
   openapiSchema option \<Rightarrow> openapiSchema option \<Rightarrow> openapiSchema gomap \<Rightarrow> gostring list \<Rightarrow> bool option \<Rightarrow>
   gostring \<Rightarrow> goval \<Rightarrow> bool \<Rightarrow> openapiSchema"
where
  "newOpenapiSchema fmt ty pattn deflt mn mx enum items addprops properties required deprecated describe example pRequired =
     OASchema
       \<lparr>os_Title = [], os_Format = fmt, os_Type = ty, os_Pattern = pattn, os_Default = deflt, os_Minimum = mn,
        os_Maximum = mx, os_Enum = enum, os_Discriminator = None, os_Required = required,
        os_Deprecated = deprecated, os_Description = describe, os_Example = example, os_ParentRequired = pRequired\<rparr>
       [] items addprops properties"

text \<open>The zero schema.\<close>

definition empty_schema :: openapiSchema where
  "empty_schema = newOpenapiSchema [] [] [] VNil None None None None None [] [] None [] VNil False"

definition oa_IsEmpty :: "openapiSchema option \<Rightarrow> bool" where
  "oa_IsEmpty o' = (case o' of None \<Rightarrow> True | Some s \<Rightarrow> os_Type (oa s) = [])"

record openapiParameter =
  pa_In :: gostring
  pa_Name :: gostring
  pa_Required :: "bool option"
  pa_Schema :: openapiSchema

definition newOpenapiParameter :: "gostring \<Rightarrow> gostring \<Rightarrow> bool option \<Rightarrow> openapiSchema \<Rightarrow> openapiParameter" where
  "newOpenapiParameter loc name required schema =
     \<lparr>pa_In = loc, pa_Name = name, pa_Required = required, pa_Schema = schema\<rparr>"

definition findByNameIn :: "openapiParameter list \<Rightarrow> gostring \<Rightarrow> gostring \<Rightarrow> openapiParameter option" where
  "findByNameIn ps name loc = List.find (\<lambda>v. pa_Name v = name \<and> pa_In v = loc) ps"

record openapiRequestObject =
  rq_Description :: gostring
  rq_Required :: bool
  rq_Content :: "openapiSchema gomap"

record openapiHeaderObject =
  ho_Required :: "bool option"
  ho_Schema :: openapiSchema
  ho_value :: gostring

definition newOpenapiHeaderObject :: "bool option \<Rightarrow> gostring \<Rightarrow> openapiSchema \<Rightarrow> openapiHeaderObject" where
  "newOpenapiHeaderObject required value schema = \<lparr>ho_Required = required, ho_Schema = schema, ho_value = value\<rparr>"

record openapiResponseObject =
  rs_Description :: gostring
  rs_Headers :: "openapiHeaderObject gomap"
  rs_Required :: bool
  rs_Content :: "openapiSchema gomap"

record Info =
  in_Hidden :: bool
  in_OperationId :: gostring
  in_Summary :: gostring
  in_Deprecated :: bool
  in_Method :: gostring
  in_Url :: gostring
  in_Description :: gostring
  in_ExternalDocs :: "(gostring \<times> gostring) list"
  in_Tags :: "gostring list"

record openapiOperationObject =
  op_OperationId :: gostring
  op_Summary :: gostring
  op_Description :: gostring
  op_Deprecated :: "bool option"
  op_Parameters :: "openapiParameter list"
  op_RequestBody :: "openapiRequestObject option"
  op_Responses :: "openapiResponseObject gomap"
  op_ExternalDocs :: "(gostring \<times> gostring) list"
  op_Tags :: "gostring list"
  op_urlPath :: gostring
  op_method :: gostring
  op_bodySchema :: openapiSchema
  op_websocketSchema :: openapiSchema
  op_responsesParameters :: "openapiParameter list gomap"
  op_responsesSchema :: "openapiSchema gomap"

definition initOpenapiOperationObject :: openapiOperationObject where
  "initOpenapiOperationObject =
     \<lparr>op_OperationId = [], op_Summary = [], op_Description = [], op_Deprecated = None, op_Parameters = [],
      op_RequestBody = None, op_Responses = [], op_ExternalDocs = [], op_Tags = [], op_urlPath = [], op_method = [],
      op_bodySchema = empty_schema, op_websocketSchema = empty_schema, op_responsesParameters = [],
      op_responsesSchema = []\<rparr>"

subsection \<open>The type information of a field\<close>

text \<open>The first option of a list that is a number.\<close>

fun first_float :: "gostring list \<Rightarrow> flt option" where
  "first_float [] = None"
| "first_float (o' # os) = (case ParseFloat 64 o' of (f, None) \<Rightarrow> Some f | (f, Some e) \<Rightarrow> first_float os)"

text \<open>The values of \<open>oneof\<close>; an option that is no value of the kind ends the process.\<close>

fun map_run :: "('a \<Rightarrow> 'b run) \<Rightarrow> 'a list \<Rightarrow> 'b list run" where
  "map_run f [] = Done []"
| "map_run f (x # xs) = bind_run (f x) (\<lambda>y. bind_run (map_run f xs) (\<lambda>ys. Done (y # ys)))"

definition optsMapper :: "gostring list \<Rightarrow> (gostring \<Rightarrow> goval run) \<Rightarrow> goval list option run" where
  "optsMapper opts fn = (if opts = [] then Done None else bind_run (map_run fn opts) (\<lambda>vs. Done (Some vs)))"

definition bad_option :: "gostring \<Rightarrow> gostring \<Rightarrow> gostring" where
  "bad_option s name =
     ''unsupported type in schema validate option '' @ [CHR 0x27] @ ''oneof='' @ s @ [CHR 0x27] @ '' at '' @ name"

definition int_option :: "kind \<Rightarrow> gostring \<Rightarrow> gostring \<Rightarrow> goval run" where
  "int_option k name s =
     (case ParseInt 64 s of None \<Rightarrow> Fatal (bad_option s name) | Some v \<Rightarrow> Done (VInt (TBasic k) (wrap_int k v)))"

definition float_option :: "gostring \<Rightarrow> gostring \<Rightarrow> goval run" where
  "float_option name s =
     (case ParseFloat 32 s of (f, Some e) \<Rightarrow> Fatal (bad_option s name) | (f, None) \<Rightarrow> Done (VFloat TFloat64 f))"

definition TimeObjectFormat :: gostring where "TimeObjectFormat = ''date-time''"
definition CookieObjectFormat :: gostring where "CookieObjectFormat = ''cookie''"
definition ByteFormat :: gostring where "ByteFormat = ''byte''"
definition RawJSONFormat :: gostring where "RawJSONFormat = ''raw-json''"

definition TimeType :: gotype where
  "TimeType = TNamed ''time.Time'' [''MarshalJSON'', ''MarshalText'', ''String''] [''UnmarshalJSON'', ''UnmarshalText'']
     (TStruct [SField ''wall'' (TBasic KUint64) [] False, SField ''ext'' (TBasic KInt64) [] False,
               SField ''loc'' (TPointer (TNamed ''time.Location'' [] [''String''] (TStruct []))) [] False])"

definition MultipartFile :: gotype where
  "MultipartFile = TNamed ''multipart.FileHeader'' [] [''Open''] (TStruct [])"

definition RFC3339Nano :: gostring where "RFC3339Nano = ''2006-01-02T15:04:05.999999999Z07:00''"

text \<open>The tags of a rule definition that carry one value.\<close>

definition tag_value :: "RuleDef \<Rightarrow> gostring \<Rightarrow> gostring option" where
  "tag_value d k = (case map_of (ri_tags (rd d)) k of Some (v # vs) \<Rightarrow> Some v | _ \<Rightarrow> None)"

definition tag_or_empty :: "RuleDef \<Rightarrow> gostring \<Rightarrow> gostring" where
  "tag_or_empty d k = (case tag_value d k of Some v \<Rightarrow> v | None \<Rightarrow> [])"

definition tag_example :: "gotype \<Rightarrow> RuleDef \<Rightarrow> goval run" where
  "tag_example t d =
     (case tag_value d ''example'' of
        None \<Rightarrow> Done VNil
      | Some s \<Rightarrow> (case PrimitiveFromStr (kind_of t) s of
                    (v, None) \<Rightarrow> bind_run (run_of (IsPrimitive v)) (\<lambda>b. Done (if b then v else VNil))
                  | (v, Some e) \<Rightarrow> Done VNil))"

definition tag_deprecated :: "RuleDef \<Rightarrow> bool option" where
  "tag_deprecated d =
     (case tag_value d ''deprecated'' of
        None \<Rightarrow> None
      | Some s \<Rightarrow> (case ParseBool s of Some b \<Rightarrow> if b then Some True else None | None \<Rightarrow> None))"

text \<open>What the switch over the kinds finds out; the rest of a schema is the same for every type.\<close>

record type_part =
  tp_format :: gostring
  tp_type :: gostring
  tp_pattern :: gostring
  tp_enum :: "goval list option"
  tp_items :: "openapiSchema option"
  tp_addProps :: "openapiSchema option"
  tp_properties :: "openapiSchema gomap"
  tp_required :: "gostring list"

definition part :: "gostring \<Rightarrow> gostring \<Rightarrow> gostring \<Rightarrow> goval list option \<Rightarrow> type_part" where
  "part fmt ty pat enum =
     \<lparr>tp_format = fmt, tp_type = ty, tp_pattern = pat, tp_enum = enum, tp_items = None, tp_addProps = None,
      tp_properties = [], tp_required = []\<rparr>"

definition string_formats :: "gostring list" where
  "string_formats = [''date'', ''date-time'', ''password'', ''byte'', ''binary'', ''email'', ''uuid'', ''uri'',
     ''hostname'', ''ipv4'', ''ipv6'']"

text \<open>The part of a scalar type.\<close>

definition scalar_part :: "kind \<Rightarrow> gostring \<Rightarrow> gostring \<Rightarrow> RuleDef \<Rightarrow> type_part run" where
  "scalar_part k name pat d =
     (let opts = ruleOptions (Some d) ''oneof'' in
      if k = KString then
        bind_run (optsMapper opts (\<lambda>s. Done (str s))) (\<lambda>e. Done (part (findRules (Some d) string_formats []) ''string'' pat e))
      else if k \<in> {KInt8, KInt16, KInt32, KUint8, KUint16, KUint32} then
        bind_run (optsMapper opts (int_option KInt32 name)) (\<lambda>e. Done (part ''int32'' ''integer'' pat e))
      else if k \<in> {KInt, KInt64, KUint, KUint64} then
        bind_run (optsMapper opts (int_option KInt64 name)) (\<lambda>e. Done (part ''int64'' ''integer'' pat e))
      else if k = KFloat32 \<or> k = KFloat64 then
        bind_run (optsMapper opts (float_option name)) (\<lambda>e. Done (part ''float'' ''number'' pat e))
      else if k = KBool then Done (part ''bool'' ''boolean'' pat (Some [boolv True, boolv False]))
      else Done (part [] [] pat None))"

definition set_format :: "gostring \<Rightarrow> RuleDef \<Rightarrow> RuleDef" where
  "set_format f = rd_update (\<lambda>i. i\<lparr>ri_format := f\<rparr>)"

definition set_pattern :: "gostring \<Rightarrow> RuleDef \<Rightarrow> RuleDef" where
  "set_pattern p = rd_update (\<lambda>i. i\<lparr>ri_pattern := p\<rparr>)"

definition set_kind :: "kind \<Rightarrow> RuleDef \<Rightarrow> RuleDef" where
  "set_kind k = rd_update (\<lambda>i. i\<lparr>ri_kind := k\<rparr>)"

text \<open>The end of the function: the schema of the node and its pattern.\<close>

definition finish_schema ::
  "gotype \<Rightarrow> goval \<Rightarrow> RuleDef \<Rightarrow> type_part \<Rightarrow> RuleDef \<Rightarrow> (openapiSchema \<times> RuleDef) run"
where
  "finish_schema t value d0 p d =
     bind_run (tag_example t d0) (\<lambda>example.
       Done (newOpenapiSchema (tp_format p) (tp_type p) (tp_pattern p) value
               (first_float (ruleOptions (Some d0) ''min'' @ ruleOptions (Some d0) ''gte''))
               (first_float (ruleOptions (Some d0) ''max'' @ ruleOptions (Some d0) ''lte''))
               (tp_enum p) (tp_items p) (tp_addProps p) (tp_properties p) (tp_required p) (tag_deprecated d0)
               (tag_or_empty d0 ''description'') example (ri_required (rd d0) \<or> ri_present (rd d0)),
             set_pattern (tp_pattern p) d))"

text \<open>\<open>getTypeInfoRecursive\<close>: the OpenAPI schema of a type and the rule definition completed with those
  of its elements or fields. The definition the caller holds is a pointer in the source; here the
  updated one is returned.\<close>

function getTypeInfo ::
  "compiler \<Rightarrow> gotype \<Rightarrow> goval \<Rightarrow> gostring \<Rightarrow> RuleDef \<Rightarrow> (openapiSchema \<times> RuleDef) run"
where
  "getTypeInfo cm t value name d =
     (let k = kind_of t; pat = tag_or_empty d ''pattern''; specTag = tag_or_empty d ''spec'';
          opts = ruleOptions (Some d) ''oneof''; fin = finish_schema t value d;
          strs = optsMapper opts (\<lambda>s. Done (str s))
      in case CustomSpecs_Find (cm_customSpecs cm) specTag of
           Some sp \<Rightarrow> bind_run strs (\<lambda>e. fin (part (sp_Format sp) (sp_Type sp) pat e) (set_format specTag d))
         | None \<Rightarrow>
             if k = KSlice \<or> k = KArray then
               if IsByteSlice t then fin (part ''byte'' ''string'' pat None) (set_format ByteFormat d)
               else if IsRawJSON t then fin (part [] [] pat None) (set_format RawJSONFormat d)
               else (case elem_of t of
                       None \<Rightarrow> Crash
                     | Some e \<Rightarrow> bind_run (getTypeInfo cm e value name (getItemRuleDef e)) (\<lambda>(i, di).
                         fin ((part [] ''array'' pat None)\<lparr>tp_items := Some i\<rparr>) (append_item (Some di) d)))
             else if k = KMap then
               (case elem_of t of
                  None \<Rightarrow> Crash
                | Some e \<Rightarrow> bind_run (getTypeInfo cm e value name (getItemRuleDef e)) (\<lambda>(i, di).
                    fin ((part [] ''object'' pat None)\<lparr>tp_addProps := Some i\<rparr>) (set_addProps (Some di) d)))
             else if k = KStruct then
               if t = TimeType then
                 bind_run strs (\<lambda>e. fin (part TimeObjectFormat ''string'' (if pat = [] then RFC3339Nano else pat) e)
                                     (set_format TimeObjectFormat d))
               else if t = CookieType then
                 bind_run strs (\<lambda>e. fin (part CookieObjectFormat ''string'' pat e) (set_format CookieObjectFormat d))
               else if t = MultipartFile then fin (part ''binary'' ''string'' pat None) d
               else bind_run
                 (fold_run (\<lambda>sf (props, req, d1).
                    if isPromotedEmbed sf then Done (props, req, d1)
                    else bind_run (run_of (getPrimitiveValFromParent (if value = VNil then None else Some value) sf)) (\<lambda>v.
                      let n = getFieldName sf
                      in if n = ''-'' then Done (props, req, d1)
                         else bind_run (run_of (getFieldRuleDefs cm sf v)) (\<lambda>fd.
                           bind_run (getTypeInfo cm (fld_type sf) v n fd) (\<lambda>(s, fd').
                             Done (map_put n s props,
                                   if hasRule (Some fd) ''required'' \<or> hasRule (Some fd) ''present'' then req @ [n] else req,
                                   attach_to n fd' d1)))))
                    (VisibleFields t) ([], [], d))
                 (\<lambda>(props, req, d1).
                    fin ((part [] ''object'' pat None)\<lparr>tp_properties := props, tp_required := req\<rparr>) d1)
             else if k = KPointer then
               (case elem_of t of None \<Rightarrow> Crash | Some e \<Rightarrow> getTypeInfo cm e value name (set_kind (kind_of e) d))
             else bind_run (scalar_part k name pat d) (\<lambda>p. fin p d))"
  by pat_completeness auto
termination
  by (relation "measure (\<lambda>(cm, t, value, name, d). size t)") (auto dest: size_elem_of size_VisibleFields)

declare getTypeInfo.simps [simp del]

subsection \<open>The schema of an operation\<close>

text \<open>The compilation of the websocket part of a schema, when it declares a protocol: its OpenAPI
  schema and its contract.\<close>

type_synonym 'w websocket_part = "goval \<Rightarrow> (openapiSchema \<times> 'w) option run"

record 'w compiledSchema =
  cs_specs :: openapiOperationObject
  cs_rules :: "'w schemaRules"

text \<open>The state of the compilation.\<close>

type_synonym 'w cstate = "openapiOperationObject \<times> 'w schemaRules"

text \<open>The field of the value \<open>obj\<close> that holds a part; the invalid value has none.\<close>

definition sub_value :: "goval option \<Rightarrow> gostring \<Rightarrow> goval option call" where
  "sub_value obj n =
     (case obj of
        None \<Rightarrow> Panics
      | Some v \<Rightarrow> bind_call (FieldByName v n) (\<lambda>r. Returns (map_option snd r)))"

text \<open>One field of a request or response part that has named entries: \<open>parent\<close> is the node of the
  part. \<open>None\<close> is an entry that is skipped.\<close>

definition part_field ::
  "compiler \<Rightarrow> goval option \<Rightarrow> gostring \<Rightarrow> bool \<Rightarrow> StructField \<Rightarrow>
   (gostring \<times> openapiParameter \<times> RuleDef) option run"
where
  "part_field cm obj rqn lower f =
     (if isPromotedEmbed f then Done None
      else if rqn = schemaCookies \<and> \<not> ValidCookieType (fld_type f) then Done None
      else bind_run (run_of (bind_call (sub_value obj rqn) (\<lambda>sub. getPrimitiveValFromParent sub f))) (\<lambda>v.
        let name0 = getFieldName f
        in if name0 = ''-'' then Done None
           else let loc = reqSchemaIn rqn; name = (if lower \<and> loc = ''header'' then ToLower name0 else name0)
                in bind_run (run_of (getFieldRuleDefs cm f v)) (\<lambda>d.
                  bind_run (getTypeInfo cm (fld_type f) v name d) (\<lambda>(s, d').
                    Done (Some (name,
                      newOpenapiParameter loc name (if hasRule (Some d) ''required'' then Some True else None) s, d'))))))"

text \<open>The node of a part and the parameters of its fields.\<close>

definition part_fields ::
  "compiler \<Rightarrow> goval option \<Rightarrow> StructField \<Rightarrow> bool \<Rightarrow> (RuleDef \<times> openapiParameter list) run"
where
  "part_fields cm obj rqf lower =
     fold_run (\<lambda>f (p, ps). bind_run (part_field cm obj (fld_name rqf) lower f) (\<lambda>r.
         case r of
           None \<Rightarrow> Done (p, ps)
         | Some (name, param, d) \<Rightarrow> Done (attach_to name d p, ps @ [param])))
       (VisibleFields (fld_type rqf))
       (newRuleDef \<lparr>StructFld = SField (fld_name rqf) (fld_type rqf) [] False, Index = []\<rparr>
          [] VNil [] False False None None None None, [])"

text \<open>The body of a request or response.\<close>

definition body_info :: "compiler \<Rightarrow> goval option \<Rightarrow> StructField \<Rightarrow> (openapiSchema \<times> RuleDef) run" where
  "body_info cm obj rqf =
     bind_run (run_of (getPrimitiveValFromParent obj rqf)) (\<lambda>v.
       bind_run (run_of (getFieldRuleDefs cm rqf v)) (\<lambda>d.
         getTypeInfo cm (fld_type rqf) v (getFieldName rqf) d))"

definition request_part :: "compiler \<Rightarrow> goval option \<Rightarrow> StructField \<Rightarrow> 'w cstate \<Rightarrow> 'w cstate run" where
  "request_part cm obj rqf st =
     (let rqn = fld_name rqf in
      if rqn \<in> set [schemaHeaders, schemaCookies, schemaQuery, schemaPath] then
        if kind_of (fld_type rqf) \<noteq> KStruct then Done st
        else bind_run (part_fields cm obj rqf True) (\<lambda>(p, ps).
          Done ((fst st)\<lparr>op_Parameters := op_Parameters (fst st) @ ps\<rparr>,
                if ps = [] then snd st else setReq schemaReq (Some p) (snd st)))
      else if rqn = schemaBody then
        bind_run (body_info cm obj rqf) (\<lambda>(s, d).
          Done ((fst st)\<lparr>op_bodySchema := s\<rparr>, setReq schemaReq (Some d) (snd st)))
      else Done st)"

definition response_part :: "compiler \<Rightarrow> gostring \<Rightarrow> goval option \<Rightarrow> StructField \<Rightarrow> 'w cstate \<Rightarrow> 'w cstate run" where
  "response_part cm field obj rqf st =
     (let rqn = fld_name rqf in
      if rqn \<in> set [schemaHeaders, schemaCookies] then
        if kind_of (fld_type rqf) \<noteq> KStruct then Done st
        else bind_run (part_fields cm obj rqf False) (\<lambda>(p, ps).
          Done ((fst st)\<lparr>op_responsesParameters := map_put field ps (op_responsesParameters (fst st))\<rparr>,
                if ps = [] then snd st else setResps field (Some p) (snd st)))
      else if rqn = schemaBody then
        bind_run (body_info cm obj rqf) (\<lambda>(s, d).
          Done ((fst st)\<lparr>op_responsesSchema := map_put field s (op_responsesSchema (fst st))\<rparr>,
                setResps field (Some d) (snd st)))
      else Done st)"


definition schema_field ::
  "compiler \<Rightarrow> 'w websocket_part \<Rightarrow> goval \<Rightarrow> StructField \<Rightarrow> 'w cstate \<Rightarrow> 'w cstate run"
where
  "schema_field cm ws schema sf st =
     (if kind_of (fld_type sf) \<noteq> KStruct then Done st
      else bind_run (run_of (sub_value (case schema of VPtr t (Some (a, v)) \<Rightarrow> Some v | _ \<Rightarrow> None) (fld_name sf))) (\<lambda>obj.
        if fld_name sf = schemaReq then
          fold_run (request_part cm obj) (VisibleFields (fld_type sf)) st
        else if fld_name sf = schemaWebSocket then
          bind_run (ws schema) (\<lambda>r.
            Done (case r of
                    None \<Rightarrow> st
                  | Some (s, c) \<Rightarrow> ((fst st)\<lparr>op_websocketSchema := s\<rparr>, (snd st)\<lparr>sr_websocket := Some c\<rparr>)))
        else if map_of statuses (fld_name sf) \<noteq> None then
          fold_run (response_part cm (fld_name sf) obj) (VisibleFields (fld_type sf)) st
        else Done st))"

definition compileSchema ::
  "compiler \<Rightarrow> 'w websocket_part \<Rightarrow> goval \<Rightarrow> Info \<Rightarrow> 'w compiledSchema run"
where
  "compileSchema cm ws schema info =
     (case typeof schema of
        None \<Rightarrow> Crash
      | Some t \<Rightarrow>
          let strct = (if kind_of t = KPointer then (case elem_of t of Some e \<Rightarrow> e | None \<Rightarrow> t) else t);
              op = initOpenapiOperationObject
                     \<lparr>op_OperationId := in_OperationId info, op_method := in_Method info, op_Summary := in_Summary info,
                      op_urlPath := in_Url info, op_Description := in_Description info,
                      op_ExternalDocs := in_ExternalDocs info, op_Tags := in_Tags info,
                      op_Deprecated := (if in_Deprecated info then Some True else None)\<rparr>
          in if kind_of strct \<noteq> KStruct then Crash
             else bind_run (fold_run (schema_field cm ws schema) (VisibleFields strct) (op, newSchemaRules (Some strct)))
                    (\<lambda>(op', rules). Done \<lparr>cs_specs = op', cs_rules = rules\<rparr>))"

subsection \<open>The description of an operation (schema.go)\<close>

text \<open>The first parts of \<open>normalize\<close>: the request body, under the content type a default of the header
  declares.\<close>

definition default_string :: "openapiSchema \<Rightarrow> gostring option" where
  "default_string s = (case as_string (os_Default (oa s)) of Some d \<Rightarrow> if d = [] then None else Some d | None \<Rightarrow> None)"

definition normalize_body :: "openapiOperationObject \<Rightarrow> openapiOperationObject" where
  "normalize_body op =
     (if oa_IsEmpty (Some (op_bodySchema op)) then op
      else let contentType =
             (case findByNameIn (op_Parameters op) ''content-type'' ''header'' of
                Some v \<Rightarrow> (case default_string (pa_Schema v) of Some d \<Rightarrow> d | None \<Rightarrow> AnyContenType)
              | None \<Rightarrow> AnyContenType)
           in op\<lparr>op_RequestBody := Some
                \<lparr>rq_Description = [], rq_Required = os_ParentRequired (oa (op_bodySchema op)),
                 rq_Content = [(contentType, op_bodySchema op)]\<rparr>\<rparr>)"

text \<open>The response headers of one status. An existing response is looked up by value: the assignments
  to it are lost.\<close>

definition headers_of :: "openapiParameter list \<Rightarrow> openapiHeaderObject gomap" where
  "headers_of ps =
     fold (\<lambda>p m. if pa_In p = ''header'' then
                map_put (pa_Name p)
                  (newOpenapiHeaderObject (pa_Required p)
                     (case default_string (pa_Schema p) of Some d \<Rightarrow> d | None \<Rightarrow> AnyContenType) (pa_Schema p)) m
              else m) ps []"

definition put_headers ::
  "openapiParameter list \<Rightarrow> statusInfo \<Rightarrow> openapiResponseObject gomap \<Rightarrow> openapiResponseObject gomap"
where
  "put_headers ps si m =
     (case map_of m (si_Code si) of
        Some v \<Rightarrow> m
      | None \<Rightarrow> map_put (si_Code si)
                  \<lparr>rs_Description = si_Description si, rs_Headers = headers_of ps, rs_Required = False, rs_Content = []\<rparr> m)"

definition put_schema ::
  "openapiSchema \<Rightarrow> statusInfo \<Rightarrow> openapiResponseObject gomap \<Rightarrow> openapiResponseObject gomap"
where
  "put_schema s si m =
     (case map_of m (si_Code si) of
        Some v \<Rightarrow>
          (let contentType = (case map_of (rs_Headers v) ''content-type'' of Some c \<Rightarrow> ho_value c | None \<Rightarrow> AnyContenType)
           in map_put (si_Code si)
                (v\<lparr>rs_Description := si_Description si, rs_Content := [(contentType, s)],
                   rs_Required := os_ParentRequired (oa s)\<rparr>) m)
      | None \<Rightarrow> map_put (si_Code si)
                  \<lparr>rs_Description = si_Description si, rs_Headers = [], rs_Required = os_ParentRequired (oa s),
                   rs_Content = [(AnyContenType, s)]\<rparr> m)"

definition status_of :: "gostring \<Rightarrow> statusInfo list" where
  "status_of field = (case map_of statuses field of Some is \<Rightarrow> is | None \<Rightarrow> [])"

definition normalize_responses :: "openapiOperationObject \<Rightarrow> openapiOperationObject" where
  "normalize_responses op =
     (let m1 = fold (\<lambda>(field, ps). fold (put_headers ps) (status_of field)) (op_responsesParameters op) (op_Responses op);
          m2 = fold (\<lambda>(field, s). fold (put_schema s) (status_of field)) (op_responsesSchema op) m1
      in op\<lparr>op_Responses := m2\<rparr>)"

definition ws_description :: gostring where
  "ws_description =
     ''Switching Protocols Response. The schema below documents the post-upgrade websocket protocol.''"

definition normalize_websocket :: "openapiOperationObject \<Rightarrow> openapiOperationObject" where
  "normalize_websocket op =
     (if oa_IsEmpty (Some (op_websocketSchema op)) then op
      else let r = (case map_of (op_Responses op) ''101'' of
                      Some v \<Rightarrow> v
                    | None \<Rightarrow> \<lparr>rs_Description = [], rs_Headers = [], rs_Required = False, rs_Content = []\<rparr>)
           in op\<lparr>op_Responses := map_put ''101''
                (r\<lparr>rs_Description := ws_description,
                   rs_Required := os_ParentRequired (oa (op_websocketSchema op)),
                   rs_Content := [(ApplicationJson, op_websocketSchema op)]\<rparr>) (op_Responses op)\<rparr>)"

definition op_normalize :: "gostring \<Rightarrow> gostring \<Rightarrow> openapiOperationObject \<Rightarrow> openapiOperationObject" where
  "op_normalize method path op =
     normalize_websocket (normalize_responses (normalize_body (op\<lparr>op_method := method, op_urlPath := path\<rparr>)))"

end
