(* ===== verification/CompilerLaws.thy ===== *)
theory CompilerLaws
  imports Compiler ValidatorLaws
begin

section \<open>Laws of the schema compiler\<close>

text \<open>
  The rules of a \<open>validate\<close> tag are read back as they were written, a part without a name panics;
  the OpenAPI schema of a type and the rules its values are validated with describe the same
  fields; and what the compilation loses.
\<close>

subsection \<open>Reading a validate tag\<close>

definition print_rule :: "gostring \<times> gostring list \<Rightarrow> gostring" where
  "print_rule r = fst r @ (if snd r = [] then [] else CHR ''='' # Join (snd r) '' '')"

definition plain_rule :: "gostring \<times> gostring list \<Rightarrow> bool" where
  "plain_rule r \<longleftrightarrow> fst r \<noteq> [] \<and> list_all tag_word (fst r)
     \<and> list_all (\<lambda>a. a \<noteq> [] \<and> CHR '','' \<notin> set a \<and> CHR '' '' \<notin> set a) (snd r)"

lemma tag_word_not: "\<not> tag_word (CHR '','')" "\<not> tag_word (CHR ''='')"
  by (simp_all add: tag_word_def is_letter_def is_upper_def is_lower_def is_digit_def)

lemma set_Join: "set (Join ws sep) \<subseteq> (\<Union>w \<in> set ws. set w) \<union> set sep"
  by (induction ws sep rule: Join.induct) auto

lemma Join_not_Nil: "ws \<noteq> [] \<Longrightarrow> hd ws \<noteq> [] \<Longrightarrow> Join ws sep \<noteq> []"
  by (cases "(ws, sep)" rule: Join.cases) auto

lemma tagFieldRegex_print:
  assumes "plain_rule r"
  shows "tagFieldRegex (print_rule r) = Some (fst r, Join (snd r) '' '', [])"
proof -
  obtain n os where r: "r = (n, os)" by (cases r)
  have n: "n \<noteq> []" "\<forall>c \<in> set n. tag_word c" using assms by (auto simp: r plain_rule_def list_all_iff)
  have os: "CHR '','' \<notin> set (Join os '' '')"
    using assms set_Join[of os "'' ''"] by (auto simp: r plain_rule_def list_all_iff)
  have "dropWhile (\<lambda>c. \<not> tag_word c) (n @ x) = n @ x" for x using n by (cases n) auto
  moreover have "takeWhile tag_word (n @ CHR ''='' # x) = n" "dropWhile tag_word (n @ CHR ''='' # x) = CHR ''='' # x" for x
    using n(2) tag_word_not by (simp_all add: takeWhile_append2 dropWhile_append2)
  moreover have "takeWhile (\<lambda>d. d \<noteq> CHR '','') (Join os '' '') = Join os '' ''"
    using os by (auto simp: takeWhile_eq_all_conv)
  moreover have "dropWhile (\<lambda>c. \<not> tag_word c) n = n" using calculation(1)[of "[]"] by simp
  ultimately show ?thesis
    using n by (cases "os = []")
      (simp_all add: r tagFieldRegex_def print_rule_def Let_def takeWhile_eq_all_conv[THEN iffD2]
        dropWhile_eq_Nil_conv[THEN iffD2] tag_word_not)
qed

lemma parse_vtag_print:
  assumes "plain_rule r" shows "parse_vtag cm t (print_rule r) = Returns r"
proof -
  obtain n os where r: "r = (n, os)" by (cases r)
  have "os \<noteq> [] \<Longrightarrow> Join os '' '' \<noteq> [] \<and> Split (CHR '' '') (Join os '' '') = os"
    using assms Join_not_Nil[of os "'' ''"] Split_Join[of os "CHR '' ''"]
    by (cases os) (auto simp: r plain_rule_def list_all_iff)
  then show ?thesis using tagFieldRegex_print[OF assms] by (cases "os = []") (simp_all add: r parse_vtag_def)
qed

text \<open>C17. A \<open>validate\<close> tag written from a list of rules, each a name of letters, digits and
  underscores with options that contain no comma and no blank, is read back as that list: the
  names, the options and their order.\<close>

theorem validate_tag_roundtrip:
  assumes "rs \<noteq> []" and "list_all plain_rule rs"
  shows "parse_vtags cm t (Split (CHR '','') (Join (map print_rule rs) '','')) = Returns rs"
proof -
  have nc: "CHR '','' \<notin> set (print_rule r)" if "plain_rule r" for r
    using that set_Join[of "snd r" "'' ''"] tag_word_not
    by (auto simp: print_rule_def plain_rule_def list_all_iff)
  have "Split (CHR '','') (Join (map print_rule rs) '','') = map print_rule rs"
    using assms nc by (intro Split_Join) (auto simp: list_all_iff)
  moreover have "parse_vtags cm t (map print_rule rs) = Returns rs" using assms(2)
    by (induction rs) (auto simp: parse_vtag_print)
  ultimately show ?thesis by simp
qed

definition demo_cm :: compiler where
  "demo_cm = \<lparr>cm_lib = demo_lib, cm_customs = Map.empty, cm_customSpecs = [], cm_method = (\<lambda>m t. Returns None)\<rparr>"

theorem validate_tag_roundtrip_witness:
  "parse_vtags demo_cm TInt (Split (CHR '','') (Join (map print_rule [(''required'', []), (''oneof'', [''1'', ''2''])]) '',''))
     = Returns [(''required'', []), (''oneof'', [''1'', ''2''])]"
  by (rule validate_tag_roundtrip)
    (simp_all add: plain_rule_def tag_word_def is_letter_def is_upper_def is_lower_def)

lemma tagFieldRegex_None: "list_all (\<lambda>c. \<not> tag_word c) p \<Longrightarrow> tagFieldRegex p = None"
proof -
  assume "list_all (\<lambda>c. \<not> tag_word c) p"
  then have e: "dropWhile (\<lambda>c. \<not> tag_word c) p = []" by (simp add: dropWhile_eq_Nil_conv list_all_iff)
  show ?thesis unfolding tagFieldRegex_def e by simp
qed

lemma parse_vtags_panics: "p \<in> set ps \<Longrightarrow> parse_vtag cm t p = Panics \<Longrightarrow> parse_vtags cm t ps = Panics"
proof (induction ps)
  case (Cons q qs)
  then show ?case by (cases "parse_vtag cm t q") auto
qed simp

text \<open>A \<open>validate\<close> tag with a part that contains no letter, digit or underscore (a trailing comma,
  two commas in a row, a blank between commas) panics when the route is registered.\<close>

theorem empty_rule_panics:
  assumes "tag_set (fld_tag sf) ''validate'' = Some tag"
    and "p \<in> set (Split (CHR '','') tag)" and "list_all (\<lambda>c. \<not> tag_word c) p"
  shows "getFieldRuleDefs cm sf v = Panics"
proof -
  have "parse_vtag cm (fld_type sf) p = Panics"
    using assms(3) tagFieldRegex_None[of p] by (simp add: parse_vtag_def)
  then have "parse_vtags cm (fld_type sf) (Split (CHR '','') tag) = Panics"
    by (rule parse_vtags_panics[OF assms(2)])
  then show ?thesis by (simp add: getFieldRuleDefs_def validate_tag_def assms(1))
qed

definition trailing_comma :: StructField where
  "trailing_comma =
     \<lparr>StructFld = SField ''Age'' TInt (''validate:'' @ [CHR 0x22] @ ''required,'' @ [CHR 0x22]) False, Index = [0]\<rparr>"

theorem empty_rule_panics_witness: "getFieldRuleDefs demo_cm trailing_comma VNil = Panics"
proof (rule empty_rule_panics)
  show "tag_set (fld_tag trailing_comma) ''validate'' = Some ''required,''"
    by (simp add: tag_set_def trailing_comma_def) code_simp
  show "[] \<in> set (Split (CHR '','') ''required,'')" by simp
qed simp


subsection \<open>The document and the validators describe the same fields\<close>

text \<open>A schema agrees with a rule definition when they have the same elements, the same additional
  properties and the same named fields in the same order, and all of these agree; and when the
  list of fields kept for encoding, read by the JSON names of the fields, is the same map.\<close>

definition by_name :: "RuleDef list \<Rightarrow> (gostring \<times> RuleDef) list" where
  "by_name os = fold (\<lambda>o' m. map_put (rd_field o') o' m) os []"

inductive agrees :: "openapiSchema \<Rightarrow> RuleDef \<Rightarrow> bool" where
  agreesI: "rel_option agrees items it \<Longrightarrow> rel_option agrees addl ad \<Longrightarrow>
     list_all2 (rel_prod (=) agrees) props ps \<Longrightarrow> ps = by_name os \<Longrightarrow>
     agrees (OASchema i oneof items addl props) (RuleDef r it ad ps os)"
monos option.rel_mono list.rel_mono prod.rel_mono

inductive_simps agrees_simps: "agrees (OASchema i oneof items addl props) (RuleDef r it ad ps os)"

definition leaf :: "RuleDef \<Rightarrow> bool" where
  "leaf d \<longleftrightarrow> rd_item d = None \<and> rd_additional d = None \<and> rd_properties d = [] \<and> rd_ordered d = []"

lemma list_all2_map_put:
  "list_all2 (rel_prod (=) R) xs ys \<Longrightarrow> R x y \<Longrightarrow> list_all2 (rel_prod (=) R) (map_put n x xs) (map_put n y ys)"
proof (induction rule: list_all2_induct)
  case (Cons p xs q ys)
  then show ?case by (cases p; cases q) (auto simp: map_put_def)
qed (simp add: map_put_def)

lemma by_name_snoc: "by_name (os @ [d]) = map_put (rd_field d) d (by_name os)"
  by (simp add: by_name_def)

lemma newRuleDef_leaf: "leaf (newRuleDef sf a b c d e f None None None)"
  by (simp add: leaf_def newRuleDef_def Let_def)

lemma rd_update_leaf [simp]: "leaf (rd_update f d) = leaf d"
  by (cases d) (simp add: leaf_def)

lemma leaf_set [simp]: "leaf (set_format f d) = leaf d" "leaf (set_kind k d) = leaf d"
  by (simp_all add: set_format_def set_kind_def)

lemma rd_field_update:
  "(\<And>i. ri_field (f i) = ri_field i) \<Longrightarrow> rd_field (rd_update f d) = rd_field d"
  by (cases d) simp

lemma bind_call_Returns: "bind_call r f = Returns y \<longleftrightarrow> (\<exists>x. r = Returns x \<and> f x = Returns y)"
  by (cases r) auto

lemma getFieldRuleDefs_facts:
  assumes "getFieldRuleDefs cm sf v = Returns d"
  shows "leaf d" and "rd_field d = getFieldName sf"
proof -
  from assms obtain a b c e f g tags where
    d: "d = rd_update (\<lambda>i. i\<lparr>ri_tags := tags\<rparr>) (newRuleDef sf a b c e f g None None None)"
    unfolding getFieldRuleDefs_def by (auto simp: bind_call_Returns)
  show "leaf d" by (simp add: d newRuleDef_leaf)
  show "rd_field d = getFieldName sf"
    by (simp add: d getFieldName_eq newRuleDef_def Let_def)
qed

lemma finish_schema_facts:
  assumes "finish_schema t v d0 p d = Done (s, d')"
  shows "d' = set_pattern (tp_pattern p) d \<and> oa_Items s = tp_items p \<and> oa_AdditionalProperties s = tp_addProps p
     \<and> oa_Properties s = tp_properties p"
  using assms by (auto simp: finish_schema_def newOpenapiSchema_def bind_run_Done)

lemma set_fields [simp]:
  "rd_field (set_pattern p d) = rd_field d" "rd_field (set_format f d) = rd_field d" "rd_field (set_kind k d) = rd_field d"
  "rd_field (attach_to n e d) = rd_field d" "rd_field (append_item o' d) = rd_field d" "rd_field (set_addProps o' d) = rd_field d"
  by (cases d; simp add: set_pattern_def set_format_def set_kind_def)+

lemma agrees_finish:
  assumes "finish_schema t v d0 p d = Done (s, d')"
    and "rel_option agrees (tp_items p) (rd_item d)" and "rel_option agrees (tp_addProps p) (rd_additional d)"
    and "list_all2 (rel_prod (=) agrees) (tp_properties p) (rd_properties d)" and "rd_properties d = by_name (rd_ordered d)"
  shows "agrees s d' \<and> rd_field d' = rd_field d"
  using finish_schema_facts[OF assms(1)] assms(2-)
  by (cases s; cases d) (auto simp: agrees_simps set_pattern_def)

lemma agrees_plain:
  assumes "finish_schema t v d0 (part fmt ty pat e) d = Done (s, d')" and "leaf d"
  shows "agrees s d' \<and> rd_field d' = rd_field d"
  using assms by (intro agrees_finish[OF assms(1)]) (simp_all add: part_def leaf_def by_name_def)


lemma run_of_Done: "run_of r = Done x \<longleftrightarrow> r = Returns x"
  by (cases r) auto

lemma fold_run_inv:
  assumes "fold_run f xs s = Done s'" and "P s"
    and "\<And>x u u'. x \<in> set xs \<Longrightarrow> P u \<Longrightarrow> f x u = Done u' \<Longrightarrow> P u'"
  shows "P s'"
  using assms
proof (induction xs arbitrary: s)
  case (Cons x xs)
  then obtain u where u: "f x s = Done u" "fold_run f xs u = Done s'" by (auto simp: bind_run_Done)
  with Cons.prems have "P u" by (meson list.set_intros(1))
  with Cons.IH[OF u(2)] Cons.prems(3) show ?case by (meson list.set_intros(2))
qed simp

text \<open>The invariant of the loop over the fields of a struct.\<close>

definition struct_inv ::
  "gostring \<Rightarrow> (gostring \<times> openapiSchema) list \<times> gostring list \<times> RuleDef \<Rightarrow> bool"
where
  "struct_inv n st \<longleftrightarrow> (case st of (props, req, d) \<Rightarrow>
     list_all2 (rel_prod (=) agrees) props (rd_properties d) \<and> rd_properties d = by_name (rd_ordered d)
     \<and> rd_item d = None \<and> rd_additional d = None \<and> rd_field d = n)"

lemma struct_inv_leaf: "leaf d \<Longrightarrow> struct_inv (rd_field d) ([], [], d)"
  by (simp add: struct_inv_def leaf_def by_name_def)

lemma struct_inv_attach:
  "struct_inv m (props, req, d) \<Longrightarrow> agrees s e \<Longrightarrow> rd_field e = n \<Longrightarrow>
     struct_inv m (map_put n s props, req', attach_to n e d)"
  by (cases d) (auto simp: struct_inv_def by_name_snoc list_all2_map_put)

lemma scalar_part_part: "scalar_part k name pat d = Done p \<Longrightarrow> \<exists>fmt ty pat e. p = part fmt ty pat e"
  by (auto simp: scalar_part_def Let_def bind_run_Done split: if_splits)

text \<open>The case of a struct, for fields whose types are known to agree.\<close>

lemma struct_agrees:
  assumes IH: "\<And>u v name d s d'. size u < size t \<Longrightarrow> getTypeInfo cm u v name d = Done (s, d') \<Longrightarrow> leaf d \<Longrightarrow>
      agrees s d' \<and> rd_field d' = rd_field d"
    and none: "CustomSpecs_Find (cm_customSpecs cm) (tag_or_empty d ''spec'') = None"
    and k: "kind_of t = KStruct" and r: "getTypeInfo cm t v name d = Done (s, d')" and leaf: "leaf d"
  shows "agrees s d' \<and> rd_field d' = rd_field d"
proof -
  let ?pat = "tag_or_empty d ''pattern''"
  let ?body = "\<lambda>sf (props, req, d1).
      if isPromotedEmbed sf then Done (props, req, d1)
      else bind_run (run_of (getPrimitiveValFromParent (if v = VNil then None else Some v) sf)) (\<lambda>v.
        let n = getFieldName sf
        in if n = ''-'' then Done (props, req, d1)
           else bind_run (run_of (getFieldRuleDefs cm sf v)) (\<lambda>fd.
             bind_run (getTypeInfo cm (fld_type sf) v n fd) (\<lambda>(s, fd').
               Done (map_put n s props,
                     if hasRule (Some fd) ''required'' \<or> hasRule (Some fd) ''present'' then req @ [n] else req,
                     attach_to n fd' d1))))"
  consider (opaque) fmt ty pat e f where "finish_schema t v d (part fmt ty pat e) (set_format f d) = Done (s, d')"
    | (plain) fmt ty pat e where "finish_schema t v d (part fmt ty pat e) d = Done (s, d')"
    | (fields) props req d1 where "fold_run ?body (VisibleFields t) ([], [], d) = Done (props, req, d1)"
        "finish_schema t v d ((part [] ''object'' ?pat None)\<lparr>tp_properties := props, tp_required := req\<rparr>) d1 = Done (s, d')"
    using r by (auto simp: getTypeInfo.simps[of cm t] Let_def none k bind_run_Done split: if_splits)
  then show ?thesis
  proof cases
    case opaque
    with agrees_plain[OF opaque] leaf show ?thesis by simp
  next
    case plain
    with agrees_plain[OF plain] leaf show ?thesis by simp
  next
    case fields
    have "struct_inv (rd_field d) (props, req, d1)"
    proof (rule fold_run_inv[where P = "struct_inv (rd_field d)", OF fields(1) struct_inv_leaf[OF leaf]])
      fix sf u u' assume sf: "sf \<in> set (VisibleFields t)" and inv: "struct_inv (rd_field d) u" and b: "?body sf u = Done u'"
      obtain ps rq e where u: "u = (ps, rq, e)" by (cases u)
      from b inv u consider "u' = u"
        | w fd s1 fd1 rq' where "getFieldRuleDefs cm sf w = Returns fd" "getTypeInfo cm (fld_type sf) w (getFieldName sf) fd = Done (s1, fd1)"
          "u' = (map_put (getFieldName sf) s1 ps, rq', attach_to (getFieldName sf) fd1 e)"
        by (auto simp: Let_def bind_run_Done run_of_Done split: if_splits)
      then show "struct_inv (rd_field d) u'"
      proof cases
        case 2
        have "agrees s1 fd1 \<and> rd_field fd1 = getFieldName sf"
          using IH[OF size_VisibleFields[OF sf] 2(2)] getFieldRuleDefs_facts[OF 2(1)] by simp
        with struct_inv_attach inv 2(3) u show ?thesis by blast
      qed (use inv in simp)
    qed
    then show ?thesis
      using agrees_finish[OF fields(2)] by (auto simp: struct_inv_def part_def)
  qed
qed

lemma getTypeInfo_agrees:
  "getTypeInfo cm t v name d = Done (s, d') \<Longrightarrow> leaf d \<Longrightarrow> agrees s d' \<and> rd_field d' = rd_field d"
proof (induction t arbitrary: v name d s d' rule: measure_induct_rule[where f = size])
  case (less t)
  let ?k = "kind_of t" and ?pat = "tag_or_empty d ''pattern''"
  have elem: "agrees i di" if "elem_of t = Some e" "getTypeInfo cm e v name (getItemRuleDef e) = Done (i, di)" for e i di
    using less.IH[OF size_elem_of[OF that(1)] that(2)] by (simp add: getItemRuleDef_def newRuleDef_leaf)
  have r: "getTypeInfo cm t v name d = Done (s, d')" by (rule less.prems)
  note leaf = less.prems(2)
  consider (custom) sp where "CustomSpecs_Find (cm_customSpecs cm) (tag_or_empty d ''spec'') = Some sp"
    | (none) "CustomSpecs_Find (cm_customSpecs cm) (tag_or_empty d ''spec'') = None" by fastforce
  then show ?case
  proof cases
    case custom
    with r leaf show ?thesis
      by (auto simp: getTypeInfo.simps[of cm t] Let_def bind_run_Done dest!: agrees_plain)
  next
    case none
    note unf = getTypeInfo.simps[of cm t] Let_def none
    consider (list) "?k = KSlice \<or> ?k = KArray" | (mapp) "?k = KMap" | (strct) "?k = KStruct" | (ptr) "?k = KPointer"
      | (scalar) "?k \<notin> {KSlice, KArray, KMap, KStruct, KPointer}" by auto
    then show ?thesis
    proof cases
      case scalar
      then obtain p where p: "scalar_part ?k name ?pat d = Done p" "finish_schema t v d p d = Done (s, d')"
        using r by (auto simp: unf bind_run_Done)
      then obtain fmt ty pat e where "p = part fmt ty pat e" using scalar_part_part by metis
      with p(2) agrees_plain leaf show ?thesis by metis
    next
      case ptr
      with r obtain e where e: "elem_of t = Some e" "getTypeInfo cm e v name (set_kind (kind_of e) d) = Done (s, d')"
        by (auto simp: unf split: option.splits)
      from less.IH[OF size_elem_of[OF e(1)] e(2)] leaf show ?thesis by simp
    next
      case mapp
      with r obtain e i di where e: "elem_of t = Some e" "getTypeInfo cm e v name (getItemRuleDef e) = Done (i, di)"
        "finish_schema t v d ((part [] ''object'' ?pat None)\<lparr>tp_addProps := Some i\<rparr>) (set_addProps (Some di) d) = Done (s, d')"
        by (auto simp: unf bind_run_Done split: option.splits)
      have "agrees s d' \<and> rd_field d' = rd_field (set_addProps (Some di) d)"
        by (rule agrees_finish[OF e(3)]) (use leaf elem[OF e(1,2)] in \<open>cases d; simp add: part_def leaf_def by_name_def\<close>)+
      then show ?thesis by simp
    next
      case list
      consider (bytes) fmt ty f where "finish_schema t v d (part fmt ty ?pat None) (set_format f d) = Done (s, d')"
        | (items) e i di where "elem_of t = Some e" "getTypeInfo cm e v name (getItemRuleDef e) = Done (i, di)"
          "finish_schema t v d ((part [] ''array'' ?pat None)\<lparr>tp_items := Some i\<rparr>) (append_item (Some di) d) = Done (s, d')"
        using r list by (auto simp: unf bind_run_Done split: option.splits if_splits)
      then show ?thesis
      proof cases
        case bytes
        with agrees_plain[OF bytes] leaf show ?thesis by simp
      next
        case items
        have "agrees s d' \<and> rd_field d' = rd_field (append_item (Some di) d)"
          by (rule agrees_finish[OF items(3)]) (use leaf elem[OF items(1,2)] in \<open>cases d; simp add: part_def leaf_def by_name_def\<close>)+
        then show ?thesis by simp
      qed
    next
      case strct
      show ?thesis using struct_agrees[OF _ none strct r leaf] less.IH by blast
    qed
  qed
qed


text \<open>C18. Whatever type a body field has, when its compilation succeeds the OpenAPI schema and the rule
  definition agree at every depth: the same elements, the same additional properties, and under
  the same names in the same order the same fields. The list that responses are encoded from
  holds the same definitions under their JSON names.\<close>

theorem schema_and_rules_agree:
  assumes "body_info cm obj sf = Done (s, d)"
  shows "agrees s d \<and> rd_field d = getFieldName sf"
proof -
  from assms obtain v d0 where d0: "getFieldRuleDefs cm sf v = Returns d0"
    and i: "getTypeInfo cm (fld_type sf) v (getFieldName sf) d0 = Done (s, d)"
    by (auto simp: body_info_def bind_run_Done run_of_Done)
  from getTypeInfo_agrees[OF i] getFieldRuleDefs_facts[OF d0] show ?thesis by simp
qed

definition quoted :: "gostring \<Rightarrow> gostring \<Rightarrow> gostring" where
  "quoted k v = k @ colon # CHR 0x22 # v @ [CHR 0x22]"

definition body_type :: gotype where
  "body_type = TStruct [SField ''Name'' TString (quoted ''json'' ''name'') False,
     SField ''Tags'' (TSlice TString) [] False]"

definition body_field :: StructField where
  "body_field = \<lparr>StructFld = SField ''Body'' body_type [] False, Index = [0]\<rparr>"

theorem schema_and_rules_agree_witness:
  "case body_info demo_cm None body_field of
     Done (s, d) \<Rightarrow> agrees s d \<and> map fst (oa_Properties s) = [''name'', ''Tags''] | _ \<Rightarrow> False"
proof -
  have c: "case body_info demo_cm None body_field of
      Done (s, d) \<Rightarrow> map fst (oa_Properties s) = [''name'', ''Tags''] | _ \<Rightarrow> False" by code_simp
  then obtain s d where b: "body_info demo_cm None body_field = Done (s, d)" by (auto split: run.splits)
  from schema_and_rules_agree[OF b] c b show ?thesis by simp
qed

subsection \<open>What the compilation loses\<close>

text \<open>The rules of a body are found by the name \<open>Body\<close>: a \<open>Body\<close> field with another name in its
  \<open>json\<close> tag is described in the OpenAPI document, but its rules are stored where nothing looks
  them up, and the body is treated as one the schema does not have.\<close>

theorem body_rules_found_iff_untagged:
  assumes "fld_name rqf = schemaBody" and "body_info cm obj rqf = Done (s, d)"
  shows "\<exists>st'. request_part cm obj rqf st = Done st' \<and> op_bodySchema (fst st') = s
    \<and> getReqRules (Some (snd st')) schemaBody =
        (if getFieldName rqf = schemaBody then Some d else getReqRules (Some (snd st)) schemaBody)"
proof -
  from assms(2) obtain v d0 where d0: "getFieldRuleDefs cm rqf v = Returns d0"
    and i: "getTypeInfo cm (fld_type rqf) v (getFieldName rqf) d0 = Done (s, d)"
    by (auto simp: body_info_def bind_run_Done run_of_Done)
  have "rd_field d = getFieldName rqf" using getTypeInfo_agrees[OF i] getFieldRuleDefs_facts[OF d0] by simp
  then show ?thesis
    using assms by (simp add: request_part_def schema_fields setReq_def getReqRules_def Let_def)
qed

definition tagged_body :: StructField where
  "tagged_body = \<lparr>StructFld = SField ''Body'' body_type (quoted ''json'' ''payload'') False, Index = [0]\<rparr>"

theorem body_rules_found_iff_untagged_witness:
  "\<exists>st'. request_part demo_cm None tagged_body (initOpenapiOperationObject, newSchemaRules None :: unit schemaRules) = Done st'
     \<and> getReqRules (Some (snd st')) schemaBody = None"
proof -
  have "case body_info demo_cm None tagged_body of Done (s, d) \<Rightarrow> True | _ \<Rightarrow> False" by code_simp
  then obtain s d where b: "body_info demo_cm None tagged_body = Done (s, d)" by (auto split: run.splits)
  have n: "fld_name tagged_body = schemaBody" by code_simp
  have g: "getFieldName tagged_body \<noteq> schemaBody" by code_simp
  have "getReqRules (Some (snd (initOpenapiOperationObject, newSchemaRules None :: unit schemaRules))) schemaBody = None"
    by (simp add: getReqRules_def newSchemaRules_def)
  with body_rules_found_iff_untagged[OF n b, of "(initOpenapiOperationObject, newSchemaRules None :: unit schemaRules)"] g
  show ?thesis by metis
qed

lemma part_field_loc:
  "part_field cm obj rqn lower f = Done (Some (n, param, d)) \<Longrightarrow> pa_In param = reqSchemaIn rqn"
  by (auto simp: part_field_def Let_def bind_run_Done newOpenapiParameter_def split: if_splits)

lemma part_fields_loc:
  assumes "part_fields cm obj rqf lower = Done (p, ps)"
  shows "\<forall>x \<in> set ps. pa_In x = reqSchemaIn (fld_name rqf)"
proof -
  let ?P = "\<lambda>u :: RuleDef \<times> openapiParameter list. \<forall>x \<in> set (snd u). pa_In x = reqSchemaIn (fld_name rqf)"
  have "?P (p, ps)"
  proof (rule fold_run_inv[where P = ?P, OF assms[unfolded part_fields_def]])
    fix f and u u' :: "RuleDef \<times> openapiParameter list"
    assume u: "?P u" and r: "(case u of (p, ps) \<Rightarrow> bind_run (part_field cm obj (fld_name rqf) lower f) (\<lambda>r.
         case r of None \<Rightarrow> Done (p, ps) | Some (name, param, d) \<Rightarrow> Done (attach_to name d p, ps @ [param]))) = Done u'"
    show "?P u'"
    proof (cases "part_field cm obj (fld_name rqf) lower f")
      case (Done x)
      with r u show ?thesis by (cases u; cases x) (auto dest: part_field_loc)
    qed (use r in \<open>cases u; simp\<close>)+
  qed simp
  then show ?thesis by simp
qed

lemma headers_of_none: "\<forall>x \<in> set ps. pa_In x \<noteq> ''header'' \<Longrightarrow> headers_of ps = []"
  unfolding headers_of_def by (induction ps) auto

text \<open>The parameters of a response are kept per status, not per part: once its cookies are
  compiled, the headers declared before them are gone, and the OpenAPI document of that response
  lists no header.\<close>

theorem cookies_erase_response_headers:
  assumes "response_part cm field obj ck st = Done st'" and "fld_name ck = schemaCookies"
    and "kind_of (fld_type ck) = KStruct"
  shows "\<exists>ps. map_of (op_responsesParameters (fst st')) field = Some ps \<and> headers_of ps = []"
proof -
  have r: "bind_run (part_fields cm obj ck False) (\<lambda>(p, ps).
      Done ((fst st)\<lparr>op_responsesParameters := map_put field ps (op_responsesParameters (fst st))\<rparr>,
            if ps = [] then snd st else setResps field (Some p) (snd st))) = Done st'"
    using assms by (simp add: response_part_def)
  then obtain p ps where ps: "part_fields cm obj ck False = Done (p, ps)"
    by (cases "part_fields cm obj ck False") auto
  have st': "map_of (op_responsesParameters (fst st')) field = Some ps" using r by (auto simp: ps)
  have "\<forall>x \<in> set ps. pa_In x \<noteq> ''header''"
    using part_fields_loc[OF ps] assms(2) by (simp add: reqSchemaIn_def schema_fields)
  from headers_of_none[OF this] st' show ?thesis by blast
qed

definition ok_type :: gotype where
  "ok_type = TStruct [SField ''Header'' (TStruct [SField ''ETag'' TString [] False]) [] False,
     SField ''Cookie'' (TStruct [SField ''Sid'' TString [] False]) [] False]"

definition ok_value :: goval where "ok_value = zero_of ok_type"

definition nth_field :: "gotype \<Rightarrow> nat \<Rightarrow> StructField" where "nth_field t i = VisibleFields t ! i"

definition after_parts :: "nat \<Rightarrow> unit cstate run" where
  "after_parts k = fold_run (response_part demo_cm ''Ok'' (Some ok_value)) (take k (VisibleFields ok_type))
     (initOpenapiOperationObject, newSchemaRules None)"

theorem cookies_erase_response_headers_witness:
  "case after_parts 1 of
     Done st1 \<Rightarrow> map fst (headers_of (the (map_of (op_responsesParameters (fst st1)) ''Ok''))) = [''ETag'']
       \<and> (case response_part demo_cm ''Ok'' (Some ok_value) (nth_field ok_type 1) st1 of
            Done st2 \<Rightarrow> \<exists>ps. map_of (op_responsesParameters (fst st2)) ''Ok'' = Some ps \<and> headers_of ps = []
          | _ \<Rightarrow> False)
   | _ \<Rightarrow> False"
proof -
  have h: "case after_parts 1 of Done st1 \<Rightarrow>
      map fst (headers_of (the (map_of (op_responsesParameters (fst st1)) ''Ok''))) = [''ETag'']
      \<and> (case response_part demo_cm ''Ok'' (Some ok_value) (nth_field ok_type 1) st1 of Done st2 \<Rightarrow> True | _ \<Rightarrow> False)
    | _ \<Rightarrow> False" by code_simp
  then obtain st1 st2 where 1: "after_parts 1 = Done st1"
    and 2: "response_part demo_cm ''Ok'' (Some ok_value) (nth_field ok_type 1) st1 = Done st2"
    by (auto split: run.splits)
  have n: "fld_name (nth_field ok_type 1) = schemaCookies" by code_simp
  have k: "kind_of (fld_type (nth_field ok_type 1)) = KStruct" by code_simp
  from cookies_erase_response_headers[OF 2 n k] h 1 2 show ?thesis by simp
qed

text \<open>The bound on a rule definition is set only when a \<open>max\<close> has two options or more.\<close>

lemma tag_max_single: "list_all (\<lambda>r. length (snd r) \<le> 1) rs \<Longrightarrow> tag_max rs = None"
proof -
  assume a: "list_all (\<lambda>r. length (snd r) \<le> 1) rs"
  have "fold (\<lambda>r m. case max_of_rule r of Some f \<Rightarrow> Some f | None \<Rightarrow> m) rs m = m" for m
    using a by (induction rs arbitrary: m) (auto simp: max_of_rule_def)
  then show ?thesis by (simp add: tag_max_def)
qed

end
