(* ===== verification/Requests.thy ===== *)
theory Requests
  imports Compiler Context
begin

section \<open>Validating and binding a request (requests.go)\<close>

text \<open>
  \<open>Validate\<close> and \<open>ValidateAndBind\<close>: the choice of the parts of a request, the cached result of a full
  validation, the checks of the headers, the query, the path and the cookies against the srs of
  the schema, and the hand-over of the body to a body parser. A part is bound by setting fields of
  the \<open>Request\<close> struct of a fresh schema value; without binding there is no such struct. The schema
  values of the pool are zero values: \<open>reset\<close> clears them before they are put back.
\<close>

subsection \<open>Selecting the parts\<close>

datatype RequestSchema = Header | PathPart | Query | Cookie | Body | OtherSelector gostring

type_synonym requestPartMask = "8 word"

definition partHeader :: requestPartMask where "partHeader = push_bit 0 1"
definition partPath :: requestPartMask where "partPath = push_bit 1 1"
definition partQuery :: requestPartMask where "partQuery = push_bit 2 1"
definition partCookie :: requestPartMask where "partCookie = push_bit 3 1"
definition partBody :: requestPartMask where "partBody = push_bit 4 1"

unbundle bit_operations_syntax

definition partAll :: requestPartMask where
  "partAll = partHeader OR partPath OR partQuery OR partCookie OR partBody"

fun selector_bit :: "RequestSchema \<Rightarrow> requestPartMask option" where
  "selector_bit Header = Some partHeader"
| "selector_bit PathPart = Some partPath"
| "selector_bit Query = Some partQuery"
| "selector_bit Cookie = Some partCookie"
| "selector_bit Body = Some partBody"
| "selector_bit (OtherSelector s) = None"

fun selector_name :: "RequestSchema \<Rightarrow> gostring" where
  "selector_name Header = ''request.header''"
| "selector_name PathPart = ''request.path''"
| "selector_name Query = ''request.query''"
| "selector_name Cookie = ''request.cookie''"
| "selector_name Body = ''request.body''"
| "selector_name (OtherSelector s) = s"

fun mask_loop :: "RequestSchema list \<Rightarrow> requestPartMask \<Rightarrow> verr + requestPartMask" where
  "mask_loop [] msk = Inr msk"
| "mask_loop (s # ss) msk =
     (case selector_bit s of
        Some b \<Rightarrow> mask_loop ss (msk OR b)
      | None \<Rightarrow> Inl (VReport RequestErr schemaReq (selector_name s) ''invalid_selector''
                      (errNew ''unsupported request schema selector'')))"

definition buildRequestPartMask :: "RequestSchema list \<Rightarrow> verr + requestPartMask" where
  "buildRequestPartMask selectors = (if selectors = [] then Inr partAll else mask_loop selectors 0)"

definition has_part :: "requestPartMask \<Rightarrow> requestPartMask \<Rightarrow> bool" where
  "has_part msk p \<longleftrightarrow> msk AND p \<noteq> 0"

subsection \<open>What a request brings\<close>

text \<open>The values of a request, as the context reads them, and the code of the application and of the
  standard library that the checks call: the custom formats, \<open>time.Parse\<close>, the construction of an
  \<open>http.Cookie\<close>, and the body parsers. A body parser takes the body, whether to bind, the srs and
  the \<open>Request\<close> struct, and returns an error or the struct.\<close>

type_synonym body_parser =
  "gostring \<Rightarrow> bool \<Rightarrow> RuleDef \<Rightarrow> goval option \<Rightarrow> (verr option \<times> goval option) call"

record req_env =
  re_header :: "gostring \<Rightarrow> gostring"
  re_query :: "gostring \<Rightarrow> gostring"
  re_param :: "gostring \<Rightarrow> gostring"
  re_cookie :: "gostring \<Rightarrow> goerr + gostring \<times> gostring"
  re_body :: gostring
  re_contentType :: gostring
  re_f2i :: "kind \<Rightarrow> flt \<Rightarrow> int"
  re_specs :: "custom_spec gomap"
  re_timeParse :: "gostring \<Rightarrow> gostring \<Rightarrow> gerr + goval"
  re_newCookie :: "gostring \<Rightarrow> gostring \<Rightarrow> goval"
  re_parsers :: "body_parser BodyParser list"

text \<open>The values come from the context of the request.\<close>

definition env_reads :: "'f fasthttp \<Rightarrow> ('f, 'v) ctx \<Rightarrow> req_env \<Rightarrow> req_env" where
  "env_reads F c env =
     env\<lparr>re_header := ctx_HeaderVal F c, re_query := ctx_Query F c, re_param := ctx_Param c,
         re_cookie := cookieGet F c, re_body := ctx_Body F c,
         re_contentType := ctx_HeaderVal F c ''Content-Type''\<rparr>"

subsection \<open>Setting a field\<close>

fun set_at :: "nat list \<Rightarrow> goval \<Rightarrow> goval \<Rightarrow> goval call" where
  "set_at [] w v = Returns w"
| "set_at (i # ix) w v =
     (case v of
        VStruct t vs \<Rightarrow>
          if i < length vs then bind_call (set_at ix w (vs ! i)) (\<lambda>x. Returns (VStruct t (vs[i := x]))) else Panics
      | VPtr t (Some (a, VStruct u vs)) \<Rightarrow>
          if i < length vs
          then bind_call (set_at ix w (vs ! i)) (\<lambda>x. Returns (VPtr t (Some (a, VStruct u (vs[i := x])))))
          else Panics
      | _ \<Rightarrow> Panics)"

text \<open>The index path and the type of a field reached by names.\<close>

fun field_path :: "gotype \<Rightarrow> gostring list \<Rightarrow> (nat list \<times> gotype) option" where
  "field_path t [] = Some ([], t)"
| "field_path t (n # ns) =
     (if kind_of t \<noteq> KStruct then None
      else case find_field t n of
             None \<Rightarrow> None
           | Some f \<Rightarrow> map_option (\<lambda>(p, u). (Index f @ p, u)) (field_path (fld_type f) ns))"

text \<open>The field of the \<open>Request\<close> struct a value is bound to.\<close>

definition locate :: "goval option \<Rightarrow> gostring list \<Rightarrow> (nat list \<times> gotype) option" where
  "locate rs names =
     (case rs of
        None \<Rightarrow> None
      | Some v \<Rightarrow> (case typeof v of None \<Rightarrow> None | Some t \<Rightarrow> field_path t names))"

definition store_at :: "nat list \<Rightarrow> goval \<Rightarrow> goval option \<Rightarrow> goval option call" where
  "store_at p w rs = (case rs of None \<Rightarrow> Panics | Some v \<Rightarrow> bind_call (set_at p w v) (\<lambda>x. Returns (Some x)))"

subsection \<open>A value given as a string\<close>

text \<open>The end of \<open>doValidateStrAndBind\<close>; a value that does not convert to the type of its field is
  logged and left unbound.\<close>

definition bind_str ::
  "req_env \<Rightarrow> gostring \<Rightarrow> RuleDef \<Rightarrow> goval \<Rightarrow> goval option \<Rightarrow> goval option call"
where
  "bind_str env field def v rs =
     (case locate rs [field, ri_fieldName (rd def)] of
        None \<Rightarrow> Panics
      | Some (p, t) \<Rightarrow>
          (case typeof v of
             None \<Rightarrow> Panics
           | Some tv \<Rightarrow>
               if \<not> convertible_to tv t then Returns rs
               else if \<not> exported (ri_fieldName (rd def)) then Panics
               else store_at p (go_convert (re_f2i env) v t) rs))"

definition str_value :: "req_env \<Rightarrow> RuleDef \<Rightarrow> gostring \<Rightarrow> (gerr + goval) call" where
  "str_value env def qv =
     (case CustomSpecs_Find (re_specs env) (ri_format (rd def)) of
        Some spec \<Rightarrow> sp_Decode spec (str qv)
      | None \<Rightarrow>
          let (v, err) = PrimitiveFromStr (ri_kind (rd def)) qv in
          bind_call (NotPrimitive v) (\<lambda>np.
            if err = None \<and> \<not> np then Returns (Inr v)
            else if ri_format (rd def) = TimeObjectFormat then Returns (re_timeParse env (ri_pattern (rd def)) qv)
            else Returns (Inl (case err of Some e \<Rightarrow> e | None \<Rightarrow> errNew ''unsupported header type passed''))))"

definition doValidateStrAndBind ::
  "req_env \<Rightarrow> gostring \<Rightarrow> gostring \<Rightarrow> RuleDef \<Rightarrow> bool \<Rightarrow> goval option \<Rightarrow> (verr option \<times> goval option) call"
where
  "doValidateStrAndBind env field qv0 def shouldBind rs =
     (let i = rd def; qv = (if qv0 = [] \<and> ri_defStr i \<noteq> [] then ri_defStr i else qv0)
      in if \<not> ri_required i \<and> qv = [] then Returns (None, rs)
         else bind_call (str_value env def qv) (\<lambda>r.
           case r of
             Inl e \<Rightarrow> Returns (Some (VReport RequestErr field (ri_field i) ''typeCast'' e), rs)
           | Inr v \<Rightarrow>
               bind_call (runValidation v RequestErr field (ri_field i) (ri_rules i)) (\<lambda>err.
                 if err \<noteq> None then Returns (err, rs)
                 else if shouldBind then bind_call (bind_str env field def v rs) (\<lambda>rs'. Returns (None, rs'))
                 else Returns (None, rs))))"

subsection \<open>A cookie\<close>

text \<open>Binding a cookie: a pointer field of the cookie type gets the new object, any other field of
  that format its value. A pointer to a primitive is dereferenced, which panics as long as it is
  nil.\<close>

definition bind_cookie_object :: "req_env \<Rightarrow> RuleDef \<Rightarrow> goval \<Rightarrow> goval option \<Rightarrow> goval option call" where
  "bind_cookie_object env def ck rs =
     (case (locate rs [schemaCookies, ri_fieldName (rd def)], typeof ck) of
        (Some (p, t), Some tc) \<Rightarrow>
          if \<not> exported (ri_fieldName (rd def)) then Panics
          else if kind_of t = KPointer then
            (if convertible_to (TPointer tc) t then store_at p (VPtr t (Some (0, ck))) rs else Panics)
          else if convertible_to tc t then store_at p (go_convert (re_f2i env) ck t) rs
          else Panics
      | _ \<Rightarrow> Panics)"

definition bind_cookie_value :: "req_env \<Rightarrow> RuleDef \<Rightarrow> goval \<Rightarrow> goval option \<Rightarrow> goval option call" where
  "bind_cookie_value env def v rs =
     (case (locate rs [schemaCookies, ri_fieldName (rd def)], typeof v, rs) of
        (Some (p, t), Some tv, Some r) \<Rightarrow>
          if \<not> exported (ri_fieldName (rd def)) then Panics
          else if kind_of t = KPointer then
            (case field_at p r of
               Returns (VPtr u (Some (a, w))) \<Rightarrow>
                 (case elem_of t of
                    Some e \<Rightarrow> if convertible_to tv e then store_at p (VPtr u (Some (a, go_convert (re_f2i env) v e))) rs
                              else Panics
                  | None \<Rightarrow> Panics)
             | _ \<Rightarrow> Panics)
          else if convertible_to tv t then store_at p (go_convert (re_f2i env) v t) rs
          else Panics
      | _ \<Rightarrow> Panics)"

definition check_cookie ::
  "req_env \<Rightarrow> bool \<Rightarrow> RuleDef \<Rightarrow> goval option \<Rightarrow> (verr option \<times> goval option) call"
where
  "check_cookie env shouldBind def rs =
     (let i = rd def in
      case re_cookie env (ri_field i) of
        Inl e \<Rightarrow>
          if ri_required i then
            Returns (Some (VReport RequestErr schemaCookies (ri_field i) ''required'' (LibErr ''http: named cookie not present'')), rs)
          else Returns (None, rs)
      | Inr (name, v) \<Rightarrow>
          if ri_format i = CookieObjectFormat then
            bind_call (runValidation (str v) RequestErr schemaCookies (ri_field i) (ri_rules i)) (\<lambda>err.
              if err \<noteq> None then Returns (err, rs)
              else if shouldBind then
                bind_call (bind_cookie_object env def (re_newCookie env name v) rs) (\<lambda>rs'. Returns (None, rs'))
              else Returns (None, rs))
          else
            (let (cvs, err) = PrimitiveFromStr (ri_kind i) v in
             case err of
               Some e \<Rightarrow> Returns (Some (VPlain e), rs)
             | None \<Rightarrow>
                 bind_call (NotPrimitive cvs) (\<lambda>np.
                   if np then
                     Returns (Some (VReport RequestErr schemaCookies (ri_field i) ''invalid_type''
                       (errNew ''only primitives and http.Cookie types are supported'')), rs)
                   else bind_call (runValidation cvs RequestErr schemaCookies (ri_field i) (ri_rules i)) (\<lambda>err.
                     if err \<noteq> None then Returns (err, rs)
                     else if shouldBind then bind_call (bind_cookie_value env def cvs rs) (\<lambda>rs'. Returns (None, rs'))
                     else Returns (None, rs)))))"

subsection \<open>A part, and the whole request\<close>

text \<open>The loop over the entries of a part: the errors are collected, the struct is updated.\<close>

type_synonym entry_check = "RuleDef \<Rightarrow> goval option \<Rightarrow> (verr option \<times> goval option) call"

fun part_loop :: "entry_check \<Rightarrow> RuleDef list \<Rightarrow> goval option \<Rightarrow> (verr list \<times> goval option) call" where
  "part_loop f [] rs = Returns ([], rs)"
| "part_loop f (d # ds) rs =
     bind_call (f d rs) (\<lambda>(e, rs1).
       bind_call (part_loop f ds rs1) (\<lambda>(es, rs2).
         Returns (case e of None \<Rightarrow> es | Some x \<Rightarrow> x # es, rs2)))"

definition check_part ::
  "'w schemaRules \<Rightarrow> bool \<Rightarrow> gostring \<Rightarrow> entry_check \<Rightarrow> goval option \<Rightarrow> (verr + goval option) call"
where
  "check_part srs selected field f rs =
     (if \<not> selected then Returns (Inr rs)
      else case getReqRules (Some srs) field of
        None \<Rightarrow> Returns (Inr rs)
      | Some pdef \<Rightarrow>
          bind_call (part_loop f (map snd (rd_properties pdef)) rs) (\<lambda>(errs, rs').
            Returns (if errs = [] then Inr rs' else Inl (VJoin errs))))"

fun bind_part :: "(verr + 'a) call \<Rightarrow> ('a \<Rightarrow> (verr + 'b) call) \<Rightarrow> (verr + 'b) call" where
  "bind_part Panics f = Panics"
| "bind_part (Returns (Inl e)) f = Returns (Inl e)"
| "bind_part (Returns (Inr x)) f = f x"

text \<open>The rules without their validators, for binding a body that is not validated.\<close>

fun stripValidationRules :: "RuleDef \<Rightarrow> RuleDef" where
  "stripValidationRules (RuleDef i it ad ps os) =
     RuleDef (i\<lparr>ri_required := False, ri_max := None, ri_rules := []\<rparr>)
       (map_option stripValidationRules it) (map_option stripValidationRules ad)
       (map (\<lambda>(k, d). (k, stripValidationRules d)) ps) (map stripValidationRules os)"

text \<open>The content type of the body: the declared one, or the one of the request when the schema has
  none or declares JSON.\<close>

definition body_content_type :: "req_env \<Rightarrow> 'w schemaRules \<Rightarrow> gostring" where
  "body_content_type env srs =
     (let ct = reqContent (Some srs)
      in if ct = ApplicationJson \<and> re_contentType env \<noteq> [] then re_contentType env else ct)"

definition bindRequestBodyWithoutValidation ::
  "req_env \<Rightarrow> 'w schemaRules \<Rightarrow> goval option \<Rightarrow> goval option call"
where
  "bindRequestBodyWithoutValidation env srs rs =
     (case getReqRules (Some srs) schemaBody of
        None \<Rightarrow> Returns rs
      | Some pdef \<Rightarrow>
          if ri_kind (rd pdef) = KInvalid \<or> re_body env = [] then Returns rs
          else (case getSerializer (re_parsers env) (body_content_type env srs) of
                  Inl e \<Rightarrow> Returns rs
                | Inr sz \<Rightarrow>
                    bind_call (parser sz (re_body env) True (stripValidationRules pdef) rs) (\<lambda>(e, rs'). Returns rs')))"

definition check_body ::
  "req_env \<Rightarrow> 'w schemaRules \<Rightarrow> bool \<Rightarrow> goval option \<Rightarrow> (verr + goval option) call"
where
  "check_body env srs shouldBind rs =
     (case getReqRules (Some srs) schemaBody of
        None \<Rightarrow> Returns (Inr rs)
      | Some pdef \<Rightarrow>
          if ri_kind (rd pdef) = KInvalid then Returns (Inr rs)
          else if re_body env = [] then
            Returns (if ri_required (rd pdef)
                     then Inl (VReport RequestErr schemaBody [] ''required'' (errNew ''request body is required''))
                     else Inr rs)
          else (case getSerializer (re_parsers env) (body_content_type env srs) of
                  Inl e \<Rightarrow> Returns (Inl (VReport RequestErr schemaBody (body_content_type env srs) ''required'' (errNew e)))
                | Inr sz \<Rightarrow>
                    bind_call (parser sz (re_body env) shouldBind pdef rs) (\<lambda>(e, rs').
                      Returns (case e of Some x \<Rightarrow> Inl x | None \<Rightarrow> Inr rs'))))"

definition check_parts ::
  "req_env \<Rightarrow> 'w schemaRules \<Rightarrow> bool \<Rightarrow> requestPartMask \<Rightarrow> goval option \<Rightarrow> (verr + goval option) call"
where
  "check_parts env srs shouldBind msk rs =
     bind_part (check_part srs (has_part msk partHeader) schemaHeaders
       (\<lambda>d. doValidateStrAndBind env schemaHeaders (re_header env (ri_field (rd d))) d shouldBind) rs) (\<lambda>rs1.
     bind_part (check_part srs (has_part msk partQuery) schemaQuery
       (\<lambda>d. doValidateStrAndBind env schemaQuery (re_query env (ri_field (rd d))) d shouldBind) rs1) (\<lambda>rs2.
     bind_part (check_part srs (has_part msk partPath) schemaPath
       (\<lambda>d. doValidateStrAndBind env schemaPath (re_param env (ri_field (rd d))) d shouldBind) rs2) (\<lambda>rs3.
     bind_part (check_part srs (has_part msk partCookie) schemaCookies (check_cookie env shouldBind) rs3) (\<lambda>rs4.
     if has_part msk partBody then check_body env srs shouldBind rs4
     else if shouldBind then bind_call (bindRequestBodyWithoutValidation env srs rs4) (\<lambda>rs5. Returns (Inr rs5))
     else Returns (Inr rs4)))))"

text \<open>\<open>validateAndOrBindRequest\<close>. The type to bind to is \<open>T\<close>; an object of the pool has the type of the
  registered schema, so another \<open>T\<close> panics. The result is the schema value, or nil without
  binding.\<close>

definition request_value :: "goval \<Rightarrow> goval option call" where
  "request_value schema =
     bind_call (FieldByName schema schemaReq) (\<lambda>r. Returns (map_option snd r))"

definition put_request :: "goval \<Rightarrow> goval option \<Rightarrow> goval call" where
  "put_request schema rs =
     (case (locate (Some schema) [schemaReq], rs) of
        (Some (p, t), Some r) \<Rightarrow> set_at p r schema
      | _ \<Rightarrow> Returns schema)"

definition validateAndOrBindRequest ::
  "req_env \<Rightarrow> 'w schemaRules option \<Rightarrow> gotype \<Rightarrow> bool \<Rightarrow> requestPartMask \<Rightarrow> (verr + goval option) call"
where
  "validateAndOrBindRequest env srs T shouldBind msk =
     (case srs of
        None \<Rightarrow> Returns (Inl (VReport RequestErr schemaReq [] ''required''
                  (errNew ''schema not properly registered to route handler'')))
      | Some r \<Rightarrow>
          if shouldBind \<and> sr_schemaType r \<noteq> None \<and> sr_schemaType r \<noteq> Some T then Panics
          else if sr_req r = [] then Returns (Inr (if shouldBind then Some (zero_of T) else None))
          else if shouldBind then
            bind_call (request_value (zero_of T)) (\<lambda>rs.
              bind_part (check_parts env r True msk rs) (\<lambda>rs'.
                bind_call (put_request (zero_of T) rs') (\<lambda>s. Returns (Inr (Some s)))))
          else bind_part (check_parts env r False msk None) (\<lambda>rs'. Returns (Inr None)))"

subsection \<open>The cached result\<close>

text \<open>The result of a full validation is kept in the context; \<open>bc_val\<close> is the bound schema value, or
  nil after a validation without binding.\<close>

record bind_cache =
  bc_bound :: bool
  bc_err :: "verr option"
  bc_val :: "goval option"

definition no_cache :: bind_cache where "no_cache = \<lparr>bc_bound = False, bc_err = None, bc_val = None\<rparr>"

definition Request_Validate ::
  "req_env \<Rightarrow> 'w schemaRules option \<Rightarrow> RequestSchema list \<Rightarrow> bind_cache \<Rightarrow> (verr option \<times> bind_cache) call"
where
  "Request_Validate env srs s cache =
     (case buildRequestPartMask s of
        Inl e \<Rightarrow> Returns (Some e, cache)
      | Inr msk \<Rightarrow>
          let useCache = (msk = partAll) in
          if useCache \<and> bc_bound cache then Returns (bc_err cache, cache)
          else bind_call (validateAndOrBindRequest env srs TAny False msk) (\<lambda>r.
            case r of
              Inl e \<Rightarrow> Returns (Some e, if useCache then \<lparr>bc_bound = True, bc_err = Some e, bc_val = None\<rparr> else cache)
            | Inr v \<Rightarrow> Returns (None, if useCache then \<lparr>bc_bound = True, bc_err = None, bc_val = None\<rparr> else cache)))"

definition cached_value :: "bind_cache \<Rightarrow> gotype \<Rightarrow> goval option" where
  "cached_value cache T = (case bc_val cache of Some v \<Rightarrow> if typeof v = Some T then Some v else None | None \<Rightarrow> None)"

definition ValidateAndBind ::
  "req_env \<Rightarrow> 'w schemaRules option \<Rightarrow> gotype \<Rightarrow> RequestSchema list \<Rightarrow> bind_cache \<Rightarrow>
   ((verr + goval option) \<times> bind_cache) call"
where
  "ValidateAndBind env srs T s cache =
     (case buildRequestPartMask s of
        Inl e \<Rightarrow> Returns (Inl e, cache)
      | Inr msk \<Rightarrow>
          let useCache = (msk = partAll);
              run = bind_call (validateAndOrBindRequest env srs T True msk) (\<lambda>r.
                case r of
                  Inl e \<Rightarrow> Returns (Inl e, if useCache then \<lparr>bc_bound = True, bc_err = Some e, bc_val = None\<rparr> else cache)
                | Inr v \<Rightarrow> Returns (Inr v, if useCache then \<lparr>bc_bound = True, bc_err = None, bc_val = v\<rparr> else cache))
          in if useCache \<and> bc_bound cache then
               (case bc_err cache of
                  Some e \<Rightarrow> Returns (Inl e, cache)
                | None \<Rightarrow> (case cached_value cache T of Some v \<Rightarrow> Returns (Inr (Some v), cache) | None \<Rightarrow> run))
             else run)"

end
