(* ===== verification/RequestLaws.thy ===== *)
theory RequestLaws
  imports Requests CompilerLaws
begin

section \<open>Laws of request validation\<close>

text \<open>
  The selection of parts, what an accepted request satisfies, the cached result, and the binding
  of values to struct fields.
\<close>

subsection \<open>The selected parts\<close>

lemmas part_bits = partHeader_def partPath_def partQuery_def partCookie_def partBody_def

lemma has_part_OR: "has_part (m OR b) p \<longleftrightarrow> has_part m p \<or> has_part b p"
  by (simp add: has_part_def and.commute[of _ p] bit.conj_disj_distrib or_eq_0_iff)

lemma has_part_bit:
  "selector_bit s = Some b \<Longrightarrow> selector_bit t = Some c \<Longrightarrow> has_part b c \<longleftrightarrow> s = t"
  by (cases s; cases t) (auto simp: part_bits has_part_def)

lemma has_part_all: "selector_bit s = Some b \<Longrightarrow> has_part partAll b"
  by (cases s) (auto simp: partAll_def part_bits has_part_def)

lemma mask_loop_error: "(\<exists>e. mask_loop ss m = Inl e) \<longleftrightarrow> (\<exists>n. OtherSelector n \<in> set ss)"
proof (induction ss arbitrary: m)
  case (Cons s ss)
  then show ?case by (cases s) auto
qed simp

lemma mask_loop_bits:
  "mask_loop ss m = Inr k \<Longrightarrow> selector_bit s = Some b \<Longrightarrow> has_part k b \<longleftrightarrow> has_part m b \<or> s \<in> set ss"
proof (induction ss arbitrary: m)
  case (Cons t ss)
  then obtain c where c: "selector_bit t = Some c" "mask_loop ss (m OR c) = Inr k"
    by (auto split: option.splits)
  from Cons.IH[OF c(2) Cons.prems(2)] has_part_bit[OF c(1) Cons.prems(2)] show ?case
    by (auto simp: has_part_OR)
qed simp

text \<open>The selectors of a call decide which parts of the request are looked at: with no selector all
  of them, otherwise exactly the named ones, in any order and with repetitions; a selector that is
  none of the five is an error and nothing is validated.\<close>

theorem selectors_choose_parts:
  "((\<exists>e. buildRequestPartMask ss = Inl e) \<longleftrightarrow> (\<exists>n. OtherSelector n \<in> set ss))
   \<and> (buildRequestPartMask ss = Inr m \<longrightarrow> selector_bit s = Some b \<longrightarrow>
        (has_part m b \<longleftrightarrow> ss = [] \<or> s \<in> set ss))"
proof (cases "ss = []")
  case True
  then show ?thesis by (auto simp: buildRequestPartMask_def has_part_all)
next
  case False
  moreover have "\<not> has_part 0 b" by (simp add: has_part_def)
  ultimately show ?thesis
    using mask_loop_error[of ss 0] mask_loop_bits[of ss 0 m s b] by (auto simp: buildRequestPartMask_def)
qed

theorem selectors_choose_parts_witness:
  "buildRequestPartMask [Query, Header, Query] = Inr 5 \<and> has_part 5 partQuery \<and> \<not> has_part 5 partBody"
proof -
  have m: "buildRequestPartMask [Query, Header, Query] = Inr 5"
    by (simp add: buildRequestPartMask_def part_bits)
  show ?thesis
    using m selectors_choose_parts[of "[Query, Header, Query]" 5 Query partQuery]
      selectors_choose_parts[of "[Query, Header, Query]" 5 Body partBody] by simp
qed

subsection \<open>What an accepted entry satisfies\<close>

definition effective :: "RuleDef \<Rightarrow> gostring \<Rightarrow> gostring" where
  "effective d s = (if s = [] \<and> ri_defStr (rd d) \<noteq> [] then ri_defStr (rd d) else s)"

definition entry_ok :: "req_env \<Rightarrow> RuleDef \<Rightarrow> gostring \<Rightarrow> bool" where
  "entry_ok env d s \<longleftrightarrow>
     (\<not> ri_required (rd d) \<and> effective d s = [])
     \<or> (case str_value env d (effective d s) of
          Returns (Inr v) \<Rightarrow> list_all (\<lambda>r. ro_dator r v = ok) (ri_rules (rd d)) | _ \<Rightarrow> False)"

definition cookie_ok :: "req_env \<Rightarrow> RuleDef \<Rightarrow> bool" where
  "cookie_ok env d \<longleftrightarrow>
     (case re_cookie env (ri_field (rd d)) of
        Inl e \<Rightarrow> \<not> ri_required (rd d)
      | Inr (n, v) \<Rightarrow>
          if ri_format (rd d) = CookieObjectFormat then list_all (\<lambda>r. ro_dator r (str v) = ok) (ri_rules (rd d))
          else (case PrimitiveFromStr (ri_kind (rd d)) v of
                  (w, None) \<Rightarrow> NotPrimitive w = Returns False \<and> list_all (\<lambda>r. ro_dator r w = ok) (ri_rules (rd d))
                | _ \<Rightarrow> False))"

lemma runValidation_list: "runValidation v t s k rs = Returns None \<longleftrightarrow> list_all (\<lambda>r. ro_dator r v = ok) rs"
  by (simp add: runValidation_ok_iff list_all_iff)

lemma runValidation_pass: "list_all (\<lambda>r. ro_dator r v = ok) rs \<Longrightarrow> runValidation v t s k rs = Returns None"
  by (simp add: runValidation_list)

lemma str_entry_ok:
  assumes "doValidateStrAndBind env field s d sb rs = Returns (None, rs')"
  shows "entry_ok env d s"
proof (cases "\<not> ri_required (rd d) \<and> effective d s = []")
  case False
  with assms have b: "bind_call (str_value env d (effective d s)) (\<lambda>r.
      case r of
        Inl e \<Rightarrow> Returns (Some (VReport RequestErr field (ri_field (rd d)) ''typeCast'' e), rs)
      | Inr v \<Rightarrow> bind_call (runValidation v RequestErr field (ri_field (rd d)) (ri_rules (rd d))) (\<lambda>err.
          if err \<noteq> None then Returns (err, rs)
          else if sb then bind_call (bind_str env field d v rs) (\<lambda>rs'. Returns (None, rs'))
          else Returns (None, rs))) = Returns (None, rs')"
    unfolding doValidateStrAndBind_def Let_def effective_def[symmetric] by (simp only: if_False)
  show ?thesis
  proof (cases "str_value env d (effective d s)")
    case (Returns r)
    show ?thesis
    proof (cases r)
      case (Inr v)
      with b Returns have "runValidation v RequestErr field (ri_field (rd d)) (ri_rules (rd d)) = Returns None"
        by (cases "runValidation v RequestErr field (ri_field (rd d)) (ri_rules (rd d))") (auto split: if_splits)
      with Returns Inr show ?thesis by (simp add: entry_ok_def runValidation_list)
    qed (use b Returns in simp)
  qed (use b in simp)
qed (simp add: entry_ok_def)

lemma str_entry_ok_iff: "doValidateStrAndBind env field s d False rs = Returns (None, rs) \<longleftrightarrow> entry_ok env d s"
proof
  assume "entry_ok env d s"
  then show "doValidateStrAndBind env field s d False rs = Returns (None, rs)"
    by (auto simp: doValidateStrAndBind_def Let_def effective_def[symmetric] entry_ok_def runValidation_pass
        split: call.splits sum.splits)
qed (rule str_entry_ok)

lemma cookie_entry_ok:
  assumes "check_cookie env sb d rs = Returns (None, rs')"
  shows "cookie_ok env d"
proof (cases "re_cookie env (ri_field (rd d))")
  case (Inl e)
  with assms show ?thesis by (auto simp: check_cookie_def cookie_ok_def split: if_splits)
next
  case (Inr nv)
  obtain n v where nv: "nv = (n, v)" by (cases nv)
  let ?val = "\<lambda>w. runValidation w RequestErr schemaCookies (ri_field (rd d)) (ri_rules (rd d))"
  show ?thesis
  proof (cases "ri_format (rd d) = CookieObjectFormat")
    case True
    with assms Inr nv have "?val (str v) = Returns None"
      by (cases "?val (str v)") (auto simp: check_cookie_def split: if_splits)
    with True Inr nv show ?thesis by (simp add: cookie_ok_def runValidation_list)
  next
    case False
    obtain w err where p: "PrimitiveFromStr (ri_kind (rd d)) v = (w, err)" by fastforce
    show ?thesis
    proof (cases err)
      case None
      with assms Inr nv False p have np: "NotPrimitive w = Returns False"
        by (cases "NotPrimitive w") (auto simp: check_cookie_def split: if_splits)
      with assms Inr nv False p None have "?val w = Returns None"
        by (cases "?val w") (auto simp: check_cookie_def split: if_splits)
      with np False Inr nv p None show ?thesis by (simp add: cookie_ok_def runValidation_list)
    qed (use assms Inr nv False p in \<open>simp add: check_cookie_def\<close>)
  qed
qed

lemma cookie_entry_ok_iff: "check_cookie env False d rs = Returns (None, rs) \<longleftrightarrow> cookie_ok env d"
proof
  assume "cookie_ok env d"
  then show "check_cookie env False d rs = Returns (None, rs)"
    by (auto simp: check_cookie_def Let_def cookie_ok_def runValidation_pass
        split: if_splits sum.splits option.splits prod.splits)
qed (rule cookie_entry_ok)

lemma part_loop_ok:
  "part_loop f ds rs = Returns ([], rs') \<Longrightarrow> d \<in> set ds \<Longrightarrow> \<exists>r1 r2. f d r1 = Returns (None, r2)"
proof (induction ds arbitrary: rs)
  case (Cons x ds)
  then obtain e r1 es r2 where "f x rs = Returns (e, r1)" "part_loop f ds r1 = Returns (es, r2)"
    "(case e of None \<Rightarrow> es | Some y \<Rightarrow> y # es) = []" "r2 = rs'"
    by (auto simp: bind_call_Returns)
  with Cons show ?case by (auto split: option.splits)
qed simp

lemma part_loop_all:
  "\<forall>d \<in> set ds. f d rs = Returns (None, rs) \<Longrightarrow> part_loop f ds rs = Returns ([], rs)"
  by (induction ds) auto

text \<open>The entries of a part of the schema.\<close>

definition entries :: "'w schemaRules \<Rightarrow> gostring \<Rightarrow> RuleDef list" where
  "entries srs field =
     (case getReqRules (Some srs) field of None \<Rightarrow> [] | Some p \<Rightarrow> map snd (rd_properties p))"

lemma check_part_ok:
  "check_part srs sel field f rs = Returns (Inr rs') \<Longrightarrow> sel \<Longrightarrow> d \<in> set (entries srs field) \<Longrightarrow>
     \<exists>r1 r2. f d r1 = Returns (None, r2)"
  by (auto simp: check_part_def entries_def bind_call_Returns split: option.splits if_splits)
    (metis image_eqI list.set_map part_loop_ok snd_conv)

lemma check_part_all:
  "sel \<Longrightarrow> \<forall>d \<in> set (entries srs field). f d rs = Returns (None, rs) \<Longrightarrow> check_part srs sel field f rs = Returns (Inr rs)"
  "\<not> sel \<Longrightarrow> check_part srs sel field f rs = Returns (Inr rs)"
  by (auto simp: check_part_def entries_def part_loop_all split: option.splits)

lemma bind_part_Returns:
  "bind_part r f = Returns (Inr y) \<longleftrightarrow> (\<exists>x. r = Returns (Inr x) \<and> f x = Returns (Inr y))"
proof (cases r)
  case (Returns s)
  then show ?thesis by (cases s) auto
qed simp

text \<open>The parts given as strings, with the bit that selects them and where their values come from.\<close>

definition str_parts :: "(gostring \<times> requestPartMask \<times> (req_env \<Rightarrow> gostring \<Rightarrow> gostring)) list" where
  "str_parts = [(schemaHeaders, partHeader, re_header), (schemaQuery, partQuery, re_query),
     (schemaPath, partPath, re_param)]"

definition parts_ok :: "req_env \<Rightarrow> 'w schemaRules \<Rightarrow> requestPartMask \<Rightarrow> bool" where
  "parts_ok env srs m \<longleftrightarrow>
     list_all (\<lambda>(field, b, get). has_part m b \<longrightarrow>
       list_all (\<lambda>d. entry_ok env d (get env (ri_field (rd d)))) (entries srs field)) str_parts
     \<and> (has_part m partCookie \<longrightarrow> list_all (cookie_ok env) (entries srs schemaCookies))"

text \<open>A schema with one required header and one cookie behind a pointer, and a request that has both.\<close>

definition demo_env :: req_env where
  "demo_env = \<lparr>re_header = (\<lambda>n. if n = ''x-id'' then ''7'' else []), re_query = (\<lambda>n. []), re_param = (\<lambda>n. []),
     re_cookie = (\<lambda>n. Inr (n, ''abc'')), re_body = [], re_contentType = [], re_f2i = (\<lambda>k f. 0), re_specs = [],
     re_timeParse = (\<lambda>l s. Inl (LibErr ''time.Parse'')), re_newCookie = (\<lambda>n v. str v), re_parsers = []\<rparr>"

definition header_type :: gotype where
  "header_type = TStruct [SField ''XId'' TString (quoted ''json'' ''x-id'') False]"

definition request_type :: gotype where
  "request_type = TStruct [SField ''Header'' header_type [] False,
     SField ''Cookie'' (TStruct [SField ''Sid'' (TPointer TString) [] False]) [] False]"

definition header_def :: RuleDef where
  "header_def = newRuleDef \<lparr>StructFld = SField ''XId'' TString (quoted ''json'' ''x-id'') False, Index = [0]\<rparr> [] VNil
     [newRuleOpts demo_lib Map.empty TString KString ''required'' []] True False None None None None"

definition cookie_def :: RuleDef where
  "cookie_def = set_kind KString (newRuleDef \<lparr>StructFld = SField ''Sid'' (TPointer TString) [] False, Index = [0]\<rparr> [] VNil
     [] False False None None None None)"

definition part_def :: "gostring \<Rightarrow> gostring \<Rightarrow> RuleDef \<Rightarrow> RuleDef" where
  "part_def field name d = attach_to name d
     (newRuleDef \<lparr>StructFld = SField field (TStruct []) [] False, Index = []\<rparr> [] VNil [] False False None None None None)"

definition demo_rules :: "unit schemaRules" where
  "demo_rules = setReq schemaReq (Some (part_def schemaHeaders ''x-id'' header_def))
     (setReq schemaReq (Some (part_def schemaCookies ''Sid'' cookie_def)) (newSchemaRules None))"

definition bare_env :: req_env where "bare_env = demo_env\<lparr>re_header := (\<lambda>n. [])\<rparr>"

lemma newRuleDef_fields:
  "rd (newRuleDef sf ds dv rs rq pr mx None it ad) =
     \<lparr>ri_typ = fld_type sf, ri_kind = kind_of (fld_type sf), ri_format = [], ri_pattern = [],
      ri_field = json_tag_name (StructFld sf), ri_fieldName = fld_name sf, ri_defStr = ds, ri_defVal = dv,
      ri_rules = rs, ri_max = mx, ri_required = rq, ri_present = pr, ri_tags = [],
      ri_accessor = \<lparr>acc_index = Index sf, acc_fieldType = fld_type sf, acc_kind = kind_of (fld_type sf), acc_name = fld_name sf\<rparr>,
      ri_jsonKeyBytes = preComputeJSONKey (json_tag_name (StructFld sf))\<rparr>"
  "rd_properties (newRuleDef sf ds dv rs rq pr mx None it ad) = []"
  by (simp_all add: newRuleDef_def Let_def)

lemma demo_tags:
  "json_tag_name (SField ''XId'' TString (quoted ''json'' ''x-id'') False) = ''x-id''"
  "json_tag_name (SField ''Sid'' (TPointer TString) [] False) = ''Sid''"
  by code_simp+

lemma no_tag: "json_tag_name (SField n t [] e) = n"
  by (simp add: json_tag_name_def Lookup.simps)

lemma rd_simps [simp]:
  "rd (rd_update f d) = f (rd d)" "rd (attach_to n e d) = rd d" "rd_properties (attach_to n e d) = map_put n e (rd_properties d)"
  by (cases d; simp)+

lemma part_def_facts: "rd_field (part_def f n d) = f" "rd_properties (part_def f n d) = [(n, d)]"
  by (simp_all add: part_def_def newRuleDef_fields no_tag map_put_def)

lemma demo_entries:
  "entries demo_rules schemaHeaders = [header_def]" "entries demo_rules schemaQuery = []"
  "entries demo_rules schemaPath = []" "entries demo_rules schemaCookies = [cookie_def]"
  "getReqRules (Some demo_rules) schemaBody = None" "sr_req demo_rules \<noteq> []"
  by (simp_all add: entries_def demo_rules_def getReqRules_def setReq_def part_def_facts newSchemaRules_def
      map_put_def schema_fields)

lemma required_string:
  "NewContextValidatorFn L (Some TString) KString ''required'' [] Map.empty (str s) = ok \<longleftrightarrow> s \<noteq> []"
proof -
  have "map_of Validators ''required'' = Some IsRequired" by (simp add: Validators_def)
  then show ?thesis by (simp add: NewContextValidatorFn_def IsRequired_def)
qed

lemma header_facts:
  "ri_field (rd header_def) = ''x-id''" "ri_fieldName (rd header_def) = ''XId''" "ri_defStr (rd header_def) = []"
  "ri_required (rd header_def)" "ri_kind (rd header_def) = KString" "ri_format (rd header_def) = []"
  "ri_rules (rd header_def) = [newRuleOpts demo_lib Map.empty TString KString ''required'' []]"
  by (simp_all add: header_def_def newRuleDef_fields demo_tags)

lemma cookie_facts:
  "ri_field (rd cookie_def) = ''Sid''" "ri_fieldName (rd cookie_def) = ''Sid''" "ri_format (rd cookie_def) = []"
  "ri_kind (rd cookie_def) = KString" "ri_rules (rd cookie_def) = []"
  by (simp_all add: cookie_def_def set_kind_def newRuleDef_fields demo_tags)

lemma string_primitive: "s \<noteq> [] \<Longrightarrow> PrimitiveFromStr KString s = (str s, None)" "NotPrimitive (str s) = Returns False"
  "PrimitiveFromStr KString [] = (VNil, None)" "NotPrimitive VNil = Returns False"
  by (simp_all add: PrimitiveFromStr_def NotPrimitive_def nonPrimitive_def Let_def)

lemma required_nil: "NewContextValidatorFn L (Some TString) KString ''required'' [] Map.empty VNil \<noteq> ok"
proof -
  have "map_of Validators ''required'' = Some IsRequired" by (simp add: Validators_def)
  then show ?thesis by (simp add: NewContextValidatorFn_def IsRequired_def)
qed

lemma header_ok: "re_specs env = [] \<Longrightarrow> entry_ok env header_def s \<longleftrightarrow> s \<noteq> []"
  by (cases "s = []")
    (simp_all add: entry_ok_def header_facts effective_def str_value_def CustomSpecs_Find_def string_primitive
      newRuleOpts_def required_string required_nil)

lemma demo_cookie: "cookie_ok demo_env cookie_def"
  by (simp add: cookie_ok_def cookie_facts demo_env_def string_primitive CookieObjectFormat_def)

lemma demo_fields:
  "re_specs demo_env = []" "re_specs bare_env = []" "re_header demo_env ''x-id'' = ''7''" "re_header bare_env n = []"
  by (simp_all add: demo_env_def bare_env_def)

lemma demo_parts: "parts_ok demo_env demo_rules m" "\<not> parts_ok bare_env demo_rules partHeader"
  "\<not> has_part partHeader partBody"
  by (simp_all add: parts_ok_def str_parts_def demo_entries header_ok demo_cookie header_facts
      demo_fields has_part_def part_bits)

lemma check_parts_ok: "check_parts env srs sb m rs = Returns (Inr rs') \<Longrightarrow> parts_ok env srs m"
proof -
  assume "check_parts env srs sb m rs = Returns (Inr rs')"
  then obtain rs1 rs2 rs3 rs4 where
    h: "check_part srs (has_part m partHeader) schemaHeaders
        (\<lambda>d. doValidateStrAndBind env schemaHeaders (re_header env (ri_field (rd d))) d sb) rs = Returns (Inr rs1)"
    and q: "check_part srs (has_part m partQuery) schemaQuery
        (\<lambda>d. doValidateStrAndBind env schemaQuery (re_query env (ri_field (rd d))) d sb) rs1 = Returns (Inr rs2)"
    and p: "check_part srs (has_part m partPath) schemaPath
        (\<lambda>d. doValidateStrAndBind env schemaPath (re_param env (ri_field (rd d))) d sb) rs2 = Returns (Inr rs3)"
    and c: "check_part srs (has_part m partCookie) schemaCookies (check_cookie env sb) rs3 = Returns (Inr rs4)"
    unfolding check_parts_def bind_part_Returns by blast
  have "has_part m partHeader \<Longrightarrow> d \<in> set (entries srs schemaHeaders) \<Longrightarrow> entry_ok env d (re_header env (ri_field (rd d)))" for d
    using check_part_ok[OF h] str_entry_ok by blast
  moreover have "has_part m partQuery \<Longrightarrow> d \<in> set (entries srs schemaQuery) \<Longrightarrow> entry_ok env d (re_query env (ri_field (rd d)))" for d
    using check_part_ok[OF q] str_entry_ok by blast
  moreover have "has_part m partPath \<Longrightarrow> d \<in> set (entries srs schemaPath) \<Longrightarrow> entry_ok env d (re_param env (ri_field (rd d)))" for d
    using check_part_ok[OF p] str_entry_ok by blast
  moreover have "has_part m partCookie \<Longrightarrow> d \<in> set (entries srs schemaCookies) \<Longrightarrow> cookie_ok env d" for d
    using check_part_ok[OF c] cookie_entry_ok by blast
  ultimately show "parts_ok env srs m" by (simp add: parts_ok_def str_parts_def list_all_iff)
qed

lemma check_part_complete:
  assumes "\<And>d. f d rs = Returns (None, rs) \<longleftrightarrow> P d" and "sel \<Longrightarrow> list_all P (entries srs field)"
  shows "check_part srs sel field f rs = Returns (Inr rs)"
proof (cases sel)
  case True
  then show ?thesis using assms by (intro check_part_all(1)) (simp_all add: list_all_iff)
qed (simp add: check_part_all(2))

lemma check_parts_complete:
  assumes "parts_ok env srs m" and "\<not> has_part m partBody"
  shows "check_parts env srs False m rs = Returns (Inr rs)"
proof -
  have 1: "check_part srs (has_part m b) field (\<lambda>d. doValidateStrAndBind env field (get env (ri_field (rd d))) d False) rs = Returns (Inr rs)"
    if "(field, b, get) \<in> set str_parts" for field b get
    by (rule check_part_complete[OF str_entry_ok_iff])
      (use assms(1) that in \<open>auto simp: parts_ok_def list_all_iff\<close>)
  have 2: "check_part srs (has_part m partCookie) schemaCookies (check_cookie env False) rs = Returns (Inr rs)"
    by (rule check_part_complete[OF cookie_entry_ok_iff]) (use assms(1) in \<open>simp add: parts_ok_def\<close>)
  show ?thesis
    unfolding check_parts_def using 1[of schemaHeaders partHeader re_header] 1[of schemaQuery partQuery re_query]
      1[of schemaPath partPath re_param] 2 assms(2) by (simp add: str_parts_def)
qed

text \<open>C19. Validation is sound and, for the parts that are not the body, complete, for a schema that
  declares a part of the request. A request that is accepted, with or without binding, satisfies
  the schema in every selected part other than the body: each declared header, query value, path
  parameter and cookie is absent and not required, or converts to the type of its field and passes
  every rule of it, a declared default standing for a missing value. And without binding and
  without the body a request is accepted exactly then.\<close>

theorem accepted_iff_parts_ok:
  "(validateAndOrBindRequest env (Some srs) T sb m = Returns (Inr v) \<longrightarrow> sr_req srs \<noteq> [] \<longrightarrow> parts_ok env srs m)
   \<and> (\<not> has_part m partBody \<longrightarrow> sr_req srs \<noteq> [] \<longrightarrow>
        (validateAndOrBindRequest env (Some srs) T False m = Returns (Inr None) \<longleftrightarrow> parts_ok env srs m))"
proof (intro conjI impI)
  assume "validateAndOrBindRequest env (Some srs) T sb m = Returns (Inr v)" "sr_req srs \<noteq> []"
  then show "parts_ok env srs m"
    by (cases sb) (auto simp: validateAndOrBindRequest_def bind_call_Returns bind_part_Returns
        split: if_splits dest: check_parts_ok)
next
  assume "\<not> has_part m partBody" "sr_req srs \<noteq> []"
  then show "validateAndOrBindRequest env (Some srs) T False m = Returns (Inr None) \<longleftrightarrow> parts_ok env srs m"
    using check_parts_complete[of env srs m None]
    by (auto simp: validateAndOrBindRequest_def bind_part_Returns dest: check_parts_ok)
qed

theorem accepted_iff_parts_ok_witness:
  "parts_ok demo_env demo_rules partHeader
   \<and> validateAndOrBindRequest demo_env (Some demo_rules) TAny False partHeader = Returns (Inr None)
   \<and> validateAndOrBindRequest bare_env (Some demo_rules) TAny False partHeader \<noteq> Returns (Inr None)"
  using accepted_iff_parts_ok[of demo_env demo_rules TAny False partHeader None]
    accepted_iff_parts_ok[of bare_env demo_rules TAny False partHeader None] demo_parts demo_entries(6) by blast

subsection \<open>The cached result\<close>

text \<open>A full validation runs once per request: when it has returned, calling it again returns the
  same error or success and leaves the cache alone, whatever the request or the rules have become
  meanwhile; and a validation of some of the parts neither reads nor writes the cached result.\<close>

theorem full_validation_cached:
  assumes "Request_Validate env srs [] no_cache = Returns (e, c)"
  shows "Request_Validate env' srs' [] c = Returns (e, c)
     \<and> (buildRequestPartMask ss = Inr m \<longrightarrow> m \<noteq> partAll \<longrightarrow>
          Request_Validate env srs ss c = bind_call (Request_Validate env srs ss no_cache) (\<lambda>(e, _). Returns (e, c)))"
proof
  show "Request_Validate env' srs' [] c = Returns (e, c)"
  proof (cases "validateAndOrBindRequest env srs TAny False partAll")
    case (Returns r)
    with assms show ?thesis
      by (cases r) (auto simp: Request_Validate_def buildRequestPartMask_def Let_def no_cache_def)
  qed (use assms in \<open>simp add: Request_Validate_def buildRequestPartMask_def no_cache_def\<close>)
  show "buildRequestPartMask ss = Inr m \<longrightarrow> m \<noteq> partAll \<longrightarrow>
      Request_Validate env srs ss c = bind_call (Request_Validate env srs ss no_cache) (\<lambda>(e, _). Returns (e, c))"
    by (cases "validateAndOrBindRequest env srs TAny False m")
      (auto simp: Request_Validate_def Let_def split: sum.split)
qed

lemma demo_validates: "validateAndOrBindRequest demo_env (Some demo_rules) TAny False partAll = Returns (Inr None)"
proof -
  have 1: "check_part demo_rules sel field f rs = Returns (Inr rs)"
    if "\<And>d. f d rs = Returns (None, rs) \<longleftrightarrow> P d" "list_all P (entries demo_rules field)" for f rs P sel field
    using that by (intro check_part_complete) auto
  have "check_parts demo_env demo_rules False partAll None = Returns (Inr None)"
    unfolding check_parts_def
    by (subst 1[OF str_entry_ok_iff], simp add: demo_entries header_ok demo_fields header_facts,
        subst bind_part.simps, subst 1[OF str_entry_ok_iff], simp add: demo_entries,
        subst bind_part.simps, subst 1[OF str_entry_ok_iff], simp add: demo_entries,
        subst bind_part.simps, subst 1[OF cookie_entry_ok_iff], simp add: demo_entries demo_cookie)
      (simp add: check_body_def demo_entries)
  then show ?thesis by (simp add: validateAndOrBindRequest_def demo_entries)
qed

theorem full_validation_cached_witness:
  "\<exists>c. Request_Validate demo_env (Some demo_rules) [] no_cache = Returns (None, c)
     \<and> Request_Validate bare_env (Some demo_rules) [] c = Returns (None, c)"
proof -
  have "Request_Validate demo_env (Some demo_rules) [] no_cache
      = Returns (None, \<lparr>bc_bound = True, bc_err = None, bc_val = None\<rparr>)"
    by (simp add: Request_Validate_def buildRequestPartMask_def no_cache_def demo_validates)
  from full_validation_cached[OF this, of bare_env "Some demo_rules"] this show ?thesis by blast
qed

subsection \<open>Binding\<close>

lemma bind_call_Returns_E: "bind_call r f = Returns y \<Longrightarrow> (\<And>x. r = Returns x \<Longrightarrow> f x = Returns y \<Longrightarrow> P) \<Longrightarrow> P"
  by (auto simp: bind_call_Returns)

text \<open>A field that has been set is read back, and the fields that are not on its path keep their value.\<close>

lemma set_at_Cons:
  assumes "set_at (i # ix) w v = Returns v'"
  obtains x y where "set_at ix w x = Returns y" "\<And>jx. field_at (i # jx) v = field_at jx x"
    "\<And>jx. field_at (i # jx) v' = field_at jx y" "\<And>j jx. j \<noteq> i \<Longrightarrow> field_at (j # jx) v' = field_at (j # jx) v"
proof (cases v)
  case (VStruct t vs)
  with assms obtain y where "i < length vs" "set_at ix w (vs ! i) = Returns y" "v' = VStruct t (vs[i := y])"
    by (auto split: if_splits elim!: bind_call_Returns_E)
  with VStruct show ?thesis by (intro that[of "vs ! i" y]) auto
next
  case (VPtr t p)
  with assms obtain a u vs y where "p = Some (a, VStruct u vs)" "i < length vs"
    "set_at ix w (vs ! i) = Returns y" "v' = VPtr t (Some (a, VStruct u (vs[i := y])))"
    by (auto split: if_splits option.splits goval.splits prod.splits elim!: bind_call_Returns_E)
  with VPtr show ?thesis by (intro that[of "vs ! i" y]) auto
qed (use assms in auto)

lemma field_at_set_at: "set_at p w v = Returns v' \<Longrightarrow> field_at p v' = Returns w"
proof (induction p arbitrary: v v')
  case (Cons i ix)
  from Cons.prems show ?case by (rule set_at_Cons) (use Cons.IH in simp)
qed simp

lemma field_at_set_at_other:
  "set_at p w v = Returns v' \<Longrightarrow> take (length q) p \<noteq> q \<Longrightarrow> take (length p) q \<noteq> p \<Longrightarrow> field_at q v' = field_at q v"
proof (induction p arbitrary: v v' q)
  case (Cons i ix)
  obtain j jx where q: "q = j # jx" using Cons.prems(2) by (cases q) auto
  have d: "j = i \<Longrightarrow> take (length jx) ix \<noteq> jx \<and> take (length ix) jx \<noteq> ix" using Cons.prems(2,3) by (auto simp: q)
  from Cons.prems(1) show ?case
    by (rule set_at_Cons) (use Cons.IH[of _ _ jx] d in \<open>cases "j = i"; simp add: q\<close>)
qed simp

text \<open>C20. A header, query value or path parameter that is bound lands in the field of its name and
  nowhere else: the field holds the value converted to the type of the field, and every field that
  does not lie on the path keeps its value.\<close>

theorem bound_value_read_back:
  assumes "bind_str env field d v (Some r) = Returns (Some r')"
    and "locate (Some r) [field, ri_fieldName (rd d)] = Some (p, t)" and "typeof v = Some tv" and "convertible_to tv t"
  shows "field_at p r' = Returns (go_convert (re_f2i env) v t)
     \<and> (\<forall>q. take (length q) p \<noteq> q \<and> take (length p) q \<noteq> p \<longrightarrow> field_at q r' = field_at q r)"
proof -
  from assms have s: "set_at p (go_convert (re_f2i env) v t) r = Returns r'"
    by (auto simp: bind_str_def store_at_def bind_call_Returns split: if_splits)
  show ?thesis using field_at_set_at[OF s] field_at_set_at_other[OF s] by blast
qed

lemma zero_request:
  "zero_of request_type = VStruct request_type
     [VStruct header_type [str []], VStruct (TStruct [SField ''Sid'' (TPointer TString) [] False]) [VPtr (TPointer TString) None]]"
  by (simp add: request_type_def header_type_def zero_of.simps fields_of_def kind_class_defs)

theorem bound_value_read_back_witness:
  "\<exists>r. bind_str demo_env schemaHeaders header_def (str ''7'') (Some (zero_of request_type)) = Returns (Some r)
     \<and> field_at [0, 0] r = Returns (str ''7'') \<and> field_at [1, 0] r = Returns (VPtr (TPointer TString) None)"
proof -
  have l: "locate (Some (zero_of request_type)) [schemaHeaders, ''XId''] = Some ([0, 0], TString)" by code_simp
  have "\<exists>r. store_at [0, 0] (str ''7'') (Some (zero_of request_type)) = Returns (Some r)"
    by (simp add: zero_request store_at_def)
  then obtain r where b: "bind_str demo_env schemaHeaders header_def (str ''7'') (Some (zero_of request_type)) = Returns (Some r)"
    by (auto simp: bind_str_def l header_facts convertible_to_def go_convert_def exported_def is_upper_def
        same_underlying_def)
  have o': "field_at [1, 0] (zero_of request_type) = Returns (VPtr (TPointer TString) None)" by code_simp
  have l': "locate (Some (zero_of request_type)) [schemaHeaders, ri_fieldName (rd header_def)] = Some ([0, 0], TString)"
    by (simp add: header_facts l)
  have c: "typeof (str ''7'') = Some TString" "convertible_to TString TString"
    by (simp_all add: convertible_to_def same_underlying_def)
  have v: "go_convert (re_f2i demo_env) (str ''7'') TString = str ''7''" by (simp add: go_convert_def)
  have "take 2 [0 :: nat, 0] \<noteq> [1, 0] \<and> take 2 [1 :: nat, 0] \<noteq> [0, 0]" by simp
  with bound_value_read_back[OF b l' c] b o' v show ?thesis
    by (metis length_Cons list.size(3) numeral_2_eq_2)
qed

text \<open>A cookie declared as a pointer to a primitive is accepted by \<open>Validate\<close> and panics in
  \<open>ValidateAndBind\<close>: the field of the fresh schema value is nil, and the source writes through it.\<close>

theorem pointer_cookie_panics_on_bind:
  assumes "re_cookie env (ri_field (rd d)) = Inr (n, s)" and "cookie_ok env d"
    and "ri_format (rd d) \<noteq> CookieObjectFormat"
    and "locate (Some r) [schemaCookies, ri_fieldName (rd d)] = Some (p, t)" and "kind_of t = KPointer"
    and "field_at p r = Returns (VPtr t None)"
  shows "check_cookie env False d (Some r) = Returns (None, Some r) \<and> check_cookie env True d (Some r) = Panics"
proof
  show "check_cookie env False d (Some r) = Returns (None, Some r)"
    using assms(2) by (simp add: cookie_entry_ok_iff)
  from assms(1-3) obtain w where w: "PrimitiveFromStr (ri_kind (rd d)) s = (w, None)" "NotPrimitive w = Returns False"
    "list_all (\<lambda>r. ro_dator r w = ok) (ri_rules (rd d))"
    by (auto simp: cookie_ok_def split: prod.splits option.splits)
  have "bind_cookie_value env d w (Some r) = Panics"
    using assms(4-6) by (simp add: bind_cookie_value_def split: option.split)
  with w assms(1,3) show "check_cookie env True d (Some r) = Panics"
    by (simp add: check_cookie_def runValidation_pass)
qed

theorem pointer_cookie_panics_on_bind_witness:
  "check_cookie demo_env False cookie_def (Some (zero_of request_type)) = Returns (None, Some (zero_of request_type))
   \<and> check_cookie demo_env True cookie_def (Some (zero_of request_type)) = Panics"
proof (rule pointer_cookie_panics_on_bind)
  show "re_cookie demo_env (ri_field (rd cookie_def)) = Inr (''Sid'', ''abc'')" by (simp add: cookie_facts demo_env_def)
  show "cookie_ok demo_env cookie_def" by (rule demo_cookie)
  show "ri_format (rd cookie_def) \<noteq> CookieObjectFormat" by (simp add: cookie_facts CookieObjectFormat_def)
  have "locate (Some (zero_of request_type)) [schemaCookies, ''Sid''] = Some ([1, 0], TPointer TString)" by code_simp
  then show "locate (Some (zero_of request_type)) [schemaCookies, ri_fieldName (rd cookie_def)]
      = Some ([1, 0], TPointer TString)" by (simp add: cookie_facts)
  show "field_at [1, 0] (zero_of request_type) = Returns (VPtr (TPointer TString) None)" by code_simp
qed simp

end
