(* ===== verification/Encoding.thy ===== *)
theory Encoding
  imports Utils
begin

section \<open>Text forms of bytes and numbers\<close>

text \<open>
  What the encoders take from the standard library: standard base64 with padding, the shortest
  decimal of a float that reads back to it (\<open>strconv.AppendFloat\<close> with precision -1), and the
  \<open>%v\<close> of the basic types (package \<open>fmt\<close>).
\<close>

subsection \<open>Base64\<close>

definition b64_char :: "nat \<Rightarrow> char" where
  "b64_char n =
     (if n < 26 then char_of (65 + n) else if n < 52 then char_of (71 + n)
      else if n < 62 then char_of (n - 4) else if n = 62 then CHR ''+'' else CHR ''/'')"

definition b64_val :: "char \<Rightarrow> nat option" where
  "b64_val c =
     (let b = byte c in
      if 65 \<le> b \<and> b \<le> 90 then Some (b - 65) else if 97 \<le> b \<and> b \<le> 122 then Some (b - 71)
      else if 48 \<le> b \<and> b \<le> 57 then Some (b + 4)
      else if c = CHR ''+'' then Some 62 else if c = CHR ''/'' then Some 63 else None)"

definition pad :: char where "pad = CHR ''=''"

fun b64_EncodeToString :: "gostring \<Rightarrow> gostring" where
  "b64_EncodeToString (a # b # c # s) =
     b64_char (byte a div 4) # b64_char (byte a mod 4 * 16 + byte b div 16) #
     b64_char (byte b mod 16 * 4 + byte c div 64) # b64_char (byte c mod 64) # b64_EncodeToString s"
| "b64_EncodeToString [a, b] =
     [b64_char (byte a div 4), b64_char (byte a mod 4 * 16 + byte b div 16), b64_char (byte b mod 16 * 4), pad]"
| "b64_EncodeToString [a] = [b64_char (byte a div 4), b64_char (byte a mod 4 * 16), pad, pad]"
| "b64_EncodeToString [] = []"

text \<open>The bits left over in the last group are ignored.\<close>

fun b64_groups :: "gostring \<Rightarrow> gostring option" where
  "b64_groups [] = Some []"
| "b64_groups (a # b # c # d # s) =
     (case (b64_val a, b64_val b) of
        (Some x, Some y) \<Rightarrow>
          let b0 = char_of (x * 4 + y div 16) in
          if c = pad then (if d = pad \<and> s = [] then Some [b0] else None)
          else (case b64_val c of
                  None \<Rightarrow> None
                | Some z \<Rightarrow>
                    let b1 = char_of ((y mod 16) * 16 + z div 4) in
                    if d = pad then (if s = [] then Some [b0, b1] else None)
                    else (case b64_val d of
                            None \<Rightarrow> None
                          | Some w \<Rightarrow> map_option (\<lambda>r. b0 # b1 # char_of ((z mod 4) * 64 + w) # r) (b64_groups s)))
      | _ \<Rightarrow> None)"
| "b64_groups s = None"

definition b64_DecodeString :: "gostring \<Rightarrow> gerr + gostring" where
  "b64_DecodeString s =
     (case b64_groups (filter (\<lambda>c. c \<noteq> CHR 0x0A \<and> c \<noteq> CHR 0x0D) s) of
        Some bs \<Rightarrow> Inr bs
      | None \<Rightarrow> Inl (LibErr ''illegal base64 data''))"

lemma byte_less: "byte c < 256"
  by simp

text \<open>The six-bit digits of up to three bytes, and the bytes back from them.\<close>

lemma six_bits:
  fixes x y :: nat
  shows "x < 256 \<Longrightarrow> x div 4 < 64" and "x mod 4 * 16 < 64" and "x mod 16 * 4 < 64" and "x mod 64 < 64"
    and "y < 256 \<Longrightarrow> x mod 4 * 16 + y div 16 < 64" and "y < 256 \<Longrightarrow> x mod 16 * 4 + y div 64 < 64"
proof -
  have m: "x mod 4 < 4" "x mod 16 < 16" by simp_all
  then show "x mod 4 * 16 < 64" "x mod 16 * 4 < 64" "x mod 64 < 64" by simp_all
  show "x < 256 \<Longrightarrow> x div 4 < 64" by (simp add: less_mult_imp_div_less)
  have "y < 256 \<Longrightarrow> y div 16 < 16" "y < 256 \<Longrightarrow> y div 64 < 4" by (simp_all add: less_mult_imp_div_less)
  with m show "y < 256 \<Longrightarrow> x mod 4 * 16 + y div 16 < 64" "y < 256 \<Longrightarrow> x mod 16 * 4 + y div 64 < 64"
    by fastforce+
qed

lemma from_six_bits:
  fixes x y :: nat
  assumes "y < 256"
  shows "(x mod 4 * 16 + y div 16) div 16 = x mod 4" and "(x mod 4 * 16 + y div 16) mod 16 = y div 16"
    and "(x mod 16 * 4 + y div 64) div 4 = x mod 16" and "(x mod 16 * 4 + y div 64) mod 4 = y div 64"
proof -
  have "y div 16 < 16" "y div 64 < 4" using assms by (simp_all add: less_mult_imp_div_less)
  then show "(x mod 4 * 16 + y div 16) div 16 = x mod 4" "(x mod 4 * 16 + y div 16) mod 16 = y div 16"
    "(x mod 16 * 4 + y div 64) div 4 = x mod 16" "(x mod 16 * 4 + y div 64) mod 4 = y div 64"
    by (simp_all add: div_mult_self3 mod_mult_self3)
qed

lemma b64_val_char: "n < 64 \<Longrightarrow> b64_val (b64_char n) = Some n"
proof -
  assume n: "n < 64"
  then consider "n < 26" | "26 \<le> n" "n < 52" | "52 \<le> n" "n < 62" | "n = 62" | "n = 63" by linarith
  then show ?thesis by cases (auto simp: b64_val_def b64_char_def Let_def)
qed

lemma b64_char_plain: "n < 64 \<Longrightarrow> b64_char n \<noteq> pad \<and> b64_char n \<noteq> CHR 0x0A \<and> b64_char n \<noteq> CHR 0x0D"
proof -
  assume "n < 64"
  then have "b64_val (b64_char n) \<noteq> None" by (simp add: b64_val_char)
  moreover have "b64_val pad = None" "b64_val (CHR 0x0A) = None" "b64_val (CHR 0x0D) = None"
    by (simp_all add: b64_val_def pad_def)
  ultimately show ?thesis by metis
qed

lemmas b64_digit = b64_val_char[OF six_bits(1)[OF byte_less]] b64_val_char[OF six_bits(2)] b64_val_char[OF six_bits(3)]
  b64_val_char[OF six_bits(4)] b64_val_char[OF six_bits(5)[OF byte_less]] b64_val_char[OF six_bits(6)[OF byte_less]]
lemmas b64_plain = b64_char_plain[OF six_bits(1)[OF byte_less]] b64_char_plain[OF six_bits(2)] b64_char_plain[OF six_bits(3)]
  b64_char_plain[OF six_bits(4)] b64_char_plain[OF six_bits(5)[OF byte_less]] b64_char_plain[OF six_bits(6)[OF byte_less]]
lemmas b64_back = from_six_bits[OF byte_less]

lemma byte_halves:
  "char_of (byte b div 16 mod 16 * 16 + byte b mod 16) = b" "char_of (byte c div 64 mod 4 * 64 + byte c mod 64) = c"
proof -
  have "byte b div 16 < 16" "byte c div 64 < 4" using byte_less by (simp_all add: less_mult_imp_div_less)
  then show "char_of (byte b div 16 mod 16 * 16 + byte b mod 16) = b"
    "char_of (byte c div 64 mod 4 * 64 + byte c mod 64) = c"
    by simp_all
qed

lemma b64_groups_encode: "b64_groups (b64_EncodeToString s) = Some s"
  by (induction s rule: b64_EncodeToString.induct) (simp_all add: b64_digit b64_plain b64_back byte_halves Let_def)

lemma b64_encode_no_newline: "c \<in> set (b64_EncodeToString s) \<Longrightarrow> c \<noteq> CHR 0x0A \<and> c \<noteq> CHR 0x0D"
  by (induction s rule: b64_EncodeToString.induct) (auto simp: b64_plain pad_def)

lemma b64_roundtrip: "b64_DecodeString (b64_EncodeToString s) = Inr s"
proof -
  have "filter (\<lambda>c. c \<noteq> CHR 0x0A \<and> c \<noteq> CHR 0x0D) (b64_EncodeToString s) = b64_EncodeToString s"
    using b64_encode_no_newline by (auto intro!: filter_True)
  then show ?thesis by (simp add: b64_DecodeString_def b64_groups_encode)
qed

subsection \<open>Floats in decimal\<close>

definition pow10 :: "int \<Rightarrow> rat" where
  "pow10 k = (if k \<ge> 0 then 10 ^ nat k else 1 / 10 ^ nat (- k))"

text \<open>The position of the decimal point before the first digit: \<open>10 ^ (k - 1) \<le> x < 10 ^ k\<close>.\<close>

definition dec_point :: "rat \<Rightarrow> int" where
  "dec_point x =
     (if x \<ge> 1 then int (length (nat_digits (nat \<lfloor>x\<rfloor>)))
      else 1 - int (length (nat_digits (nat (\<lceil>1 / x\<rceil> - 1)))))"

text \<open>The decimals of \<open>n\<close> digits next to \<open>x\<close> that round to it, the nearer one first; seventeen digits
  are always enough for 64 bits.\<close>

definition decimal_at :: "(bool \<Rightarrow> rat \<Rightarrow> flt) \<Rightarrow> rat \<Rightarrow> int \<Rightarrow> (int \<times> int) option" where
  "decimal_at rnd x n =
     (let p = n - dec_point x; s = x * pow10 p; lo = \<lfloor>s\<rfloor>; hi = lo + 1;
          fits = (\<lambda>c. rnd False (of_int c * pow10 (- p)) = FNum x);
          near = (if s - of_int lo < 1 / 2 \<or> s - of_int lo = 1 / 2 \<and> even lo then [lo, hi] else [hi, lo])
      in map_option (\<lambda>c. (c, p)) (List.find fits near))"

fun shortest_from :: "nat \<Rightarrow> (bool \<Rightarrow> rat \<Rightarrow> flt) \<Rightarrow> rat \<Rightarrow> int \<Rightarrow> int \<times> int" where
  "shortest_from 0 rnd x n = (let p = n - dec_point x in (round_even (x * pow10 p), p))"
| "shortest_from (Suc k) rnd x n =
     (case decimal_at rnd x n of Some d \<Rightarrow> d | None \<Rightarrow> shortest_from k rnd x (n + 1))"

text \<open>The digits without trailing zeros, and the decimal point before the first one.\<close>

definition trim_zeros :: "gostring \<Rightarrow> gostring" where
  "trim_zeros ds = rev (dropWhile (\<lambda>c. c = CHR ''0'') (rev ds))"

definition shortest :: "(bool \<Rightarrow> rat \<Rightarrow> flt) \<Rightarrow> rat \<Rightarrow> gostring \<times> int" where
  "shortest rnd x =
     (let (c, p) = shortest_from 16 rnd x 1; ds = nat_digits (nat c)
      in (trim_zeros ds, int (length ds) - p))"

definition zeros :: "int \<Rightarrow> gostring" where "zeros n = replicate (nat n) (CHR ''0'')"

definition decimal_f :: "gostring \<times> int \<Rightarrow> gostring" where
  "decimal_f d =
     (let ds = fst d; dp = snd d; n = int (length ds)
      in if dp \<le> 0 then ''0.'' @ zeros (- dp) @ ds
         else if n \<le> dp then ds @ zeros (dp - n)
         else take (nat dp) ds @ ''.'' @ drop (nat dp) ds)"

definition decimal_e :: "gostring \<times> int \<Rightarrow> gostring" where
  "decimal_e d =
     (let ds = fst d; e = snd d - 1; m = nat_digits (nat \<bar>e\<bar>)
      in take 1 ds @ (if length ds > 1 then ''.'' @ drop 1 ds else []) @ ''e'' @ (if e < 0 then ''-'' else ''+'')
         @ (if length m < 2 then ''0'' else []) @ m)"

definition format_flt :: "(rat \<Rightarrow> gostring) \<Rightarrow> flt \<Rightarrow> gostring" where
  "format_flt f x =
     (case x of
        FNaN \<Rightarrow> ''NaN'' | FInf pos \<Rightarrow> (if pos then ''+Inf'' else ''-Inf'') | FNegZero \<Rightarrow> ''-0''
      | FNum q \<Rightarrow> if q = 0 then ''0'' else (if q < 0 then ''-'' else []) @ f \<bar>q\<bar>)"

text \<open>\<open>AppendFloat(x, 'f', -1, 64)\<close>, and the \<open>%v\<close> of package \<open>fmt\<close>, which is \<open>%g\<close>.\<close>

definition FormatFloat_f :: "flt \<Rightarrow> gostring" where
  "FormatFloat_f = format_flt (\<lambda>q. decimal_f (shortest to_float64 q))"

definition FormatFloat_g :: "(bool \<Rightarrow> rat \<Rightarrow> flt) \<Rightarrow> flt \<Rightarrow> gostring" where
  "FormatFloat_g rnd =
     format_flt (\<lambda>q. let d = shortest rnd q; e = snd d - 1
                     in if e < -4 \<or> e \<ge> 6 then decimal_e d else decimal_f d)"

text \<open>\<open>fmt.Sprintf("%v", v)\<close>: of a value without methods and of a basic kind its text; anything else
  (a Stringer, a pointer) is left to the parameter.\<close>

definition Sprint_v :: "(goval \<Rightarrow> gostring) \<Rightarrow> goval \<Rightarrow> gostring" where
  "Sprint_v lib v =
     (case v of
        VNil \<Rightarrow> ''<nil>''
      | VBool t b \<Rightarrow> if methods_of t \<noteq> [] then lib v else if b then ''true'' else ''false''
      | VInt t i \<Rightarrow> if methods_of t \<noteq> [] then lib v else Itoa i
      | VFloat t x \<Rightarrow> if methods_of t \<noteq> [] then lib v
                      else FormatFloat_g (if kind_of t = KFloat32 then to_float32 else to_float64) x
      | VString t s \<Rightarrow> if methods_of t \<noteq> [] then lib v else s
      | _ \<Rightarrow> lib v)"

end
