(* ===== verification/JsonNodes.thy ===== *)
theory JsonNodes
  imports Requests Encoding
begin

section \<open>Values of JSON nodes (cont/json.go)\<close>

text \<open>
  Package \<open>cont\<close> reads Go values out of the nodes of a parsed JSON document. The documents are those
  of \<open>fastjson\<close>, a library: a node is of an unknown type \<open>'n\<close>, a nil node is \<open>None\<close>, and the methods
  the package calls are the fields of the record \<open>fastjson\<close>. A value of type \<open>any\<close> that stands for
  no JSON value (a missing node, an array, an object) is a value of the package's own types, as in
  the source.
\<close>

datatype jtype = TypeNull | TypeObject | TypeArray | TypeString | TypeNumber | TypeTrue | TypeFalse

record 'n fastjson =
  fj_ParseBytes :: "gostring \<Rightarrow> gerr + 'n"
  fj_Type :: "'n \<Rightarrow> jtype"
  fj_Get :: "'n \<Rightarrow> gostring \<Rightarrow> 'n option"
  fj_StringBytes :: "'n \<Rightarrow> gerr + gostring"
  fj_GetStringBytes :: "'n \<Rightarrow> gostring"
  fj_Int :: "'n \<Rightarrow> gerr + int"
  fj_Int64 :: "'n \<Rightarrow> gerr + int"
  fj_Uint :: "'n \<Rightarrow> gerr + int"
  fj_Uint64 :: "'n \<Rightarrow> gerr + int"
  fj_Float64 :: "'n \<Rightarrow> gerr + flt"
  fj_Bool :: "'n \<Rightarrow> gerr + bool"
  fj_Array :: "'n option \<Rightarrow> (gerr + 'n list) call"
  fj_Object :: "'n option \<Rightarrow> (gerr + (gostring \<times> 'n) list) call"
  fj_MarshalTo :: "'n \<Rightarrow> gostring"
  fj_String :: "'n \<Rightarrow> gostring"
  lib_Unquote :: "gostring \<Rightarrow> gerr + gostring"
  lib_Unmarshal :: "gostring \<Rightarrow> gerr + goval"

text \<open>The markers of the package.\<close>

definition JsonDefinition :: "int \<Rightarrow> goval" where
  "JsonDefinition i = VInt (TNamed ''cont.JsonDefinition'' [] [] (TBasic KUint8)) i"

definition ArrayDefinition :: goval where "ArrayDefinition = JsonDefinition 1"
definition ObjectDefinition :: goval where "ObjectDefinition = JsonDefinition 2"
definition MapDefinition :: goval where "MapDefinition = JsonDefinition 3"
definition InterfaceDefinition :: goval where "InterfaceDefinition = JsonDefinition 4"

definition EOF_val :: goval where "EOF_val = VStruct (TNamed ''cont.eof'' [] [] (TStruct [])) []"

abbreviation bytes_val :: "gostring \<Rightarrow> goval" where
  "bytes_val s \<equiv> VSlice (TSlice (TBasic KUint8)) (Some (map (\<lambda>c. VInt (TBasic KUint8) (int (byte c))) s))"

definition map_res :: "('a \<Rightarrow> 'b) \<Rightarrow> gerr + 'a \<Rightarrow> gerr + 'b" where
  "map_res f r = (case r of Inl e \<Rightarrow> Inl e | Inr x \<Rightarrow> Inr (f x))"

text \<open>The kinds both readers treat alike; the conversions to narrow integers wrap around.\<close>

definition scalar_kinds :: "kind list" where
  "scalar_kinds = [KString, KInt, KInt8, KInt16, KInt32, KInt64, KUint, KUint8, KUint16, KUint32, KUint64,
     KFloat32, KFloat64, KBool]"

definition node_scalar :: "'n fastjson \<Rightarrow> 'n \<Rightarrow> kind \<Rightarrow> gerr + goval" where
  "node_scalar P node k =
     (if k = KString then map_res str (fj_StringBytes P node)
      else if k = KInt then map_res (VInt TInt) (fj_Int P node)
      else if k \<in> {KInt8, KInt16, KInt32} then map_res (\<lambda>v. VInt (TBasic k) (wrap_int k v)) (fj_Int P node)
      else if k = KInt64 then map_res (VInt (TBasic k)) (fj_Int64 P node)
      else if k = KUint then map_res (VInt (TBasic k)) (fj_Uint P node)
      else if k \<in> {KUint8, KUint16, KUint32} then map_res (\<lambda>v. VInt (TBasic k) (wrap_int k v)) (fj_Uint P node)
      else if k = KUint64 then map_res (VInt (TBasic k)) (fj_Uint64 P node)
      else if k = KFloat32 then map_res (\<lambda>v. VFloat (TBasic k) (round_to KFloat32 v)) (fj_Float64 P node)
      else if k = KFloat64 then map_res (VFloat (TBasic k)) (fj_Float64 P node)
      else map_res boolv (fj_Bool P node))"

text \<open>Of a string the text, of a number a float, of an object or array its JSON.\<close>

definition extractRawValue :: "'n fastjson \<Rightarrow> 'n \<Rightarrow> gerr + goval" where
  "extractRawValue P node =
     (case fj_Type P node of
        TypeString \<Rightarrow> map_res str (fj_StringBytes P node)
      | TypeNumber \<Rightarrow> map_res (VFloat TFloat64) (fj_Float64 P node)
      | TypeTrue \<Rightarrow> Inr (boolv True)
      | TypeFalse \<Rightarrow> Inr (boolv False)
      | _ \<Rightarrow> Inr (bytes_val (fj_MarshalTo P node)))"

text \<open>The value of a node for a kind; another kind panics.\<close>

definition GetNodeByKind :: "'n fastjson \<Rightarrow> 'n option \<Rightarrow> kind \<Rightarrow> gostring \<Rightarrow> (gerr + goval) call" where
  "GetNodeByKind P nd k fmt =
     (case nd of
        None \<Rightarrow> Returns (Inr EOF_val)
      | Some node \<Rightarrow>
          if fj_Type P node = TypeNull then Returns (Inr EOF_val)
          else if k \<in> set scalar_kinds then Returns (node_scalar P node k)
          else if k = KArray \<or> k = KSlice then
            Returns (Inr (if fmt = RawJSONFormat \<or> fmt = ByteFormat then bytes_val (fj_MarshalTo P node) else ArrayDefinition))
          else if k = KStruct then
            Returns (if fmt = TimeObjectFormat then map_res str (fj_StringBytes P node)
                     else if fmt \<noteq> [] then extractRawValue P node else Inr ObjectDefinition)
          else if k = KMap then Returns (Inr MapDefinition)
          else if k = KInterface then Returns (Inr InterfaceDefinition)
          else Panics)"

text \<open>The same by path, from the root of a document; here a struct of any other format is an object.\<close>

fun fj_GetPath :: "'n fastjson \<Rightarrow> 'n option \<Rightarrow> gostring list \<Rightarrow> 'n option" where
  "fj_GetPath P nd [] = nd"
| "fj_GetPath P None (k # ks) = None"
| "fj_GetPath P (Some n) (k # ks) = fj_GetPath P (fj_Get P n k) ks"

definition GetByKind :: "'n fastjson \<Rightarrow> 'n \<Rightarrow> kind \<Rightarrow> gostring \<Rightarrow> gostring list \<Rightarrow> (gerr + goval) call" where
  "GetByKind P pv k fmt keys =
     (case fj_GetPath P (Some pv) keys of
        None \<Rightarrow> Returns (Inr EOF_val)
      | Some obj \<Rightarrow>
          if fj_Type P obj = TypeNull then Returns (Inr EOF_val)
          else if k \<in> set scalar_kinds then Returns (node_scalar P obj k)
          else if k = KArray \<or> k = KSlice then
            Returns (Inr (if fmt = RawJSONFormat \<or> fmt = ByteFormat then bytes_val (fj_MarshalTo P obj) else ArrayDefinition))
          else if k = KStruct then
            Returns (if fmt = TimeObjectFormat then map_res str (fj_StringBytes P obj) else Inr ObjectDefinition)
          else if k = KMap then Returns (Inr MapDefinition)
          else if k = KInterface then Returns (Inr InterfaceDefinition)
          else Panics)"

definition Exist :: "'n fastjson \<Rightarrow> 'n \<Rightarrow> gostring list \<Rightarrow> bool" where
  "Exist P pv keys \<longleftrightarrow> fj_GetPath P (Some pv) keys \<noteq> None"

text \<open>The values of an array of primitives; nulls are left out.\<close>

fun bind_res :: "(gerr + 'a) call \<Rightarrow> ('a \<Rightarrow> (gerr + 'b) call) \<Rightarrow> (gerr + 'b) call" where
  "bind_res Panics f = Panics"
| "bind_res (Returns (Inl e)) f = Returns (Inl e)"
| "bind_res (Returns (Inr x)) f = f x"

fun GetPrimitiveArrValsFromNode :: "'n fastjson \<Rightarrow> 'n list \<Rightarrow> kind \<Rightarrow> gostring \<Rightarrow> (gerr + goval list) call" where
  "GetPrimitiveArrValsFromNode P [] k fmt = Returns (Inr [])"
| "GetPrimitiveArrValsFromNode P (n # ns) k fmt =
     bind_res (GetNodeByKind P (Some n) k fmt) (\<lambda>v.
       bind_res (GetPrimitiveArrValsFromNode P ns k fmt) (\<lambda>vs. Returns (Inr (if v = EOF_val then vs else v # vs))))"

text \<open>The loop by index stops at the first null or missing element, in at most \<open>fuel\<close> elements; a
  document with \<open>n\<close> elements needs \<open>n + 1\<close>.\<close>

fun arr_vals_from ::
  "nat \<Rightarrow> 'n fastjson \<Rightarrow> 'n \<Rightarrow> kind \<Rightarrow> gostring \<Rightarrow> gostring list \<Rightarrow> nat \<Rightarrow> (gerr + goval list) call option"
where
  "arr_vals_from 0 P pv k fmt keys i = None"
| "arr_vals_from (Suc fuel) P pv k fmt keys i =
     (case GetByKind P pv k fmt (keys @ [nat_digits i]) of
        Panics \<Rightarrow> Some Panics
      | Returns (Inl e) \<Rightarrow> Some (Returns (Inl e))
      | Returns (Inr v) \<Rightarrow>
          if v = EOF_val then Some (Returns (Inr []))
          else map_option (\<lambda>r. bind_res r (\<lambda>vs. Returns (Inr (v # vs)))) (arr_vals_from fuel P pv k fmt keys (Suc i)))"

definition GetPrimitiveArrVals ::
  "nat \<Rightarrow> 'n fastjson \<Rightarrow> 'n \<Rightarrow> kind \<Rightarrow> gostring \<Rightarrow> gostring list \<Rightarrow> (gerr + goval list) call option"
where
  "GetPrimitiveArrVals fuel P pv k fmt keys = arr_vals_from fuel P pv k fmt keys 0"

text \<open>A value of any type. The JSON of an array or object is asked for with \<open>GetStringBytes\<close>.\<close>

definition any_of_node :: "'n fastjson \<Rightarrow> 'n \<Rightarrow> gerr + goval" where
  "any_of_node P node =
     (case fj_Type P node of
        TypeString \<Rightarrow>
          (let s = fj_String P node in
           if length s \<ge> 2 \<and> hd s = CHR 0x22 \<and> last s = CHR 0x22 then map_res str (lib_Unquote P s) else Inr (str s))
      | TypeTrue \<Rightarrow> Inr (boolv True)
      | TypeFalse \<Rightarrow> Inr (boolv False)
      | TypeNull \<Rightarrow> Inr VNil
      | TypeArray \<Rightarrow> lib_Unmarshal P (fj_GetStringBytes P node)
      | TypeObject \<Rightarrow> lib_Unmarshal P (fj_GetStringBytes P node)
      | TypeNumber \<Rightarrow>
          (case fj_Int P node of
             Inr i \<Rightarrow> Inr (intv i)
           | Inl e \<Rightarrow> map_res (VFloat TFloat64) (fj_Float64 P node)))"

definition GetAnyValueFromNode :: "'n fastjson \<Rightarrow> 'n option \<Rightarrow> gerr + goval" where
  "GetAnyValueFromNode P nd =
     (case nd of None \<Rightarrow> Inl (errNew ''error getting any value string from node'') | Some n \<Rightarrow> any_of_node P n)"

definition GetAnyValue :: "'n fastjson \<Rightarrow> 'n \<Rightarrow> gostring list \<Rightarrow> gerr + goval" where
  "GetAnyValue P pv keys =
     (case fj_GetPath P (Some pv) keys of None \<Rightarrow> Inl (errNew ''error getting any value'') | Some n \<Rightarrow> any_of_node P n)"

subsection \<open>What is lost in reading a node\<close>

text \<open>A number read for a narrow integer kind is always in the range of the kind, and is the number of
  the document exactly when that is.\<close>

lemma narrow_int_wraps:
  assumes "k \<in> {KInt8, KInt16, KInt32}" and "fj_Type P n \<noteq> TypeNull" and "fj_Int P n = Inr i"
  shows "GetNodeByKind P (Some n) k fmt = Returns (Inr (VInt (TBasic k) (wrap_int k i)))
     \<and> in_range k (wrap_int k i) \<and> (wrap_int k i = i \<longleftrightarrow> in_range k i)"
proof (intro conjI)
  show "GetNodeByKind P (Some n) k fmt = Returns (Inr (VInt (TBasic k) (wrap_int k i)))"
    using assms by (auto simp: GetNodeByKind_def node_scalar_def scalar_kinds_def map_res_def)
  show "in_range k (wrap_int k i)" by (rule wrap_int_range)
  show "wrap_int k i = i \<longleftrightarrow> in_range k i" using wrap_int_range[of k i] wrap_int_id[of k i] by auto
qed

end
