(* ===== verification/JsonDecode.thy ===== *)
theory JsonDecode
  imports JsonNodes
begin

section \<open>Validating and decoding a JSON body (bodyparser_json.go, context.go)\<close>

text \<open>
  \<open>walkStruct\<close> follows the rule definition of a body through the nodes of the document: it reads
  the value of each node, runs the validators, and sets the field the value belongs to. The source
  holds a \<open>reflect.Value\<close> it sets; here a field is its type and current value, and the field with
  its new value is returned. \<open>NoField\<close> is validation without binding, \<open>Invalid\<close> the zero
  \<open>reflect.Value\<close>. A field obtained through an unexported field is read-only, setting it panics; the
  fields of an embedded unexported struct are settable when they are exported.
\<close>

datatype access = Settable | EmbedRO | StickyRO

datatype field = NoField | Invalid | Field access gotype goval

definition set_field :: "access \<Rightarrow> gotype \<Rightarrow> goval \<Rightarrow> field call" where
  "set_field ro t v = (if ro = Settable then Returns (Field ro t v) else Panics)"

record json_env =
  je_specs :: "custom_spec gomap"
  je_f2i :: "kind \<Rightarrow> flt \<Rightarrow> int"
  je_timeParse :: "gostring \<Rightarrow> gostring \<Rightarrow> gerr + goval"
  je_UnmarshalJSON :: "gotype \<Rightarrow> goval \<Rightarrow> gostring \<Rightarrow> (gerr + goval) call"
  je_MaxDepth :: nat
  je_MaintainOrder :: bool

subsection \<open>Setting a field from a value\<close>

definition as_bytes :: "goval \<Rightarrow> gostring option" where
  "as_bytes v = (case v of VSlice t (Some vs) \<Rightarrow> if t = TSlice (TBasic KUint8) then Some (bytes_of_vals vs) else None
                 | VSlice t None \<Rightarrow> if t = TSlice (TBasic KUint8) then Some [] else None | _ \<Rightarrow> None)"

definition as_anys :: "goval \<Rightarrow> goval list option" where
  "as_anys v = (case v of VSlice t xs \<Rightarrow> if t = TSlice TAny then Some (case xs of None \<Rightarrow> [] | Some vs \<Rightarrow> vs) else None
                | _ \<Rightarrow> None)"

definition any_slice :: "goval list \<Rightarrow> goval" where "any_slice vs = VSlice (TSlice TAny) (Some vs)"

definition RFC3339 :: gostring where "RFC3339 = ''2006-01-02T15:04:05Z07:00''"

definition parseTime :: "json_env \<Rightarrow> gostring \<Rightarrow> gostring \<Rightarrow> gerr + goval" where
  "parseTime E s layout =
     (let rest = (case je_timeParse E RFC3339 s of Inr t \<Rightarrow> Inr t | Inl e \<Rightarrow> je_timeParse E RFC3339Nano s)
      in if layout = [] then rest else (case je_timeParse E layout s of Inr t \<Rightarrow> Inr t | Inl e \<Rightarrow> rest))"

definition pointer_to :: "gotype \<Rightarrow> goval \<Rightarrow> goval" where "pointer_to t v = VPtr t (Some (0, v))"

text \<open>\<open>bindValOnElem\<close>: the new value of an element of type \<open>t\<close>, which starts as \<open>old\<close>. An array kind
  takes no slice: setting it panics.\<close>

fun map_res_call :: "('a \<Rightarrow> (gerr + 'b) call) \<Rightarrow> 'a list \<Rightarrow> (gerr + 'b list) call" where
  "map_res_call f [] = Returns (Inr [])"
| "map_res_call f (x # xs) = bind_res (f x) (\<lambda>y. bind_res (map_res_call f xs) (\<lambda>ys. Returns (Inr (y # ys))))"

lemma map_res_call_cong [fundef_cong]:
  "xs = ys \<Longrightarrow> (\<And>x. x \<in> set ys \<Longrightarrow> f x = g x) \<Longrightarrow> map_res_call f xs = map_res_call g ys"
  by (induction xs arbitrary: ys) auto

lemma as_anys_size: "as_anys v = Some xs \<Longrightarrow> x \<in> set xs \<Longrightarrow> size x < size v"
  by (auto simp: as_anys_def split: goval.splits if_splits option.splits dest: size_list_estimation'[of _ _ "size x" size])

function bindValOnElem :: "json_env \<Rightarrow> gotype \<Rightarrow> goval \<Rightarrow> goval \<Rightarrow> (gerr + goval) call" where
  "bindValOnElem E t old v =
     (if v = VNil then Returns (Inr old)
      else if kind_of t = KPointer then
        (case as_anys v of
           None \<Rightarrow> Returns (Inr old)
         | Some xs \<Rightarrow>
             (case elem_of t of
                None \<Rightarrow> Panics
              | Some s \<Rightarrow>
                  (case elem_of s of
                     None \<Rightarrow> Panics
                   | Some e \<Rightarrow>
                       bind_res (map_res_call (\<lambda>x. bindValOnElem E e (zero_of e) x) xs) (\<lambda>ys.
                         if kind_of s = KSlice then Returns (Inr (pointer_to t (VSlice s (Some ys)))) else Panics))))
      else if kind_of t = KSlice \<or> kind_of t = KArray then
        (case (as_anys v, elem_of t) of
           (Some xs, Some e) \<Rightarrow>
             (case (kind_of e = KPointer, elem_of e) of
                (True, Some p) \<Rightarrow>
                  bind_res (map_res_call (\<lambda>x. bindValOnElem E p (zero_of p) x) xs) (\<lambda>ys.
                    if kind_of t = KSlice then Returns (Inr (VSlice t (Some (map (pointer_to e) ys)))) else Panics)
              | _ \<Rightarrow>
                  bind_res (map_res_call (\<lambda>x. bindValOnElem E e (zero_of e) x) xs) (\<lambda>ys.
                    if kind_of t = KSlice then Returns (Inr (VSlice t (Some ys))) else Panics))
         | _ \<Rightarrow> Returns (Inr old))
      else SafeConvert (je_f2i E) v t)"
  by pat_completeness auto
termination
  by (relation "measure (\<lambda>(E, t, old, v). size v)") (auto dest: as_anys_size as_anys_size[OF sym])

declare bindValOnElem.simps [simp del]

text \<open>The elements of a slice of primitives.\<close>

definition slice_elems :: "json_env \<Rightarrow> gotype \<Rightarrow> goval list \<Rightarrow> (gerr + goval list) call" where
  "slice_elems E e xs = map_res_call (\<lambda>x. bindValOnElem E e (zero_of e) x) xs"

definition mismatch :: "(gerr + goval) call" where
  "mismatch = Returns (Inl (Errorf ''type mismatch. expected array value got %T'' []))"

definition set_time :: "json_env \<Rightarrow> gotype \<Rightarrow> goval \<Rightarrow> gostring \<Rightarrow> (gerr + goval) option" where
  "set_time E t v layout =
     (if t = TimeType then (case as_string v of Some s \<Rightarrow> Some (parseTime E s layout) | None \<Rightarrow> None) else None)"

text \<open>\<open>decodeFieldValue\<close>: the new value of a settable field.\<close>

definition decode_value :: "json_env \<Rightarrow> gotype \<Rightarrow> goval \<Rightarrow> goval \<Rightarrow> gostring \<Rightarrow> (gerr + goval) call" where
  "decode_value E t old v layout =
     (case (as_bytes v, implements (TPointer t) [''UnmarshalJSON'']) of
        (Some raw, True) \<Rightarrow> je_UnmarshalJSON E t old raw
      | _ \<Rightarrow>
          if kind_of t = KPointer then
            (case elem_of t of
               None \<Rightarrow> Panics
             | Some e \<Rightarrow>
                 (case set_time E e v layout of
                    Some r \<Rightarrow> Returns (map_res (pointer_to t) r)
                  | None \<Rightarrow>
                      if kind_of e = KSlice \<or> kind_of e = KArray then
                        (case (as_anys v, elem_of e) of
                           (Some xs, Some i) \<Rightarrow>
                             bind_res (slice_elems E i xs) (\<lambda>ys.
                               if kind_of e = KSlice then Returns (Inr (pointer_to t (VSlice e (Some ys)))) else Panics)
                         | _ \<Rightarrow> mismatch)
                      else bind_res (SafeConvert (je_f2i E) v e) (\<lambda>w. Returns (Inr (pointer_to t w)))))
          else if kind_of t = KSlice \<or> kind_of t = KArray then
            (case (as_anys v, elem_of t) of
               (Some xs, Some i) \<Rightarrow>
                 (case (kind_of i = KPointer, elem_of i) of
                    (True, Some p) \<Rightarrow>
                      bind_res (slice_elems E p xs) (\<lambda>ys.
                        if kind_of t = KSlice then Returns (Inr (VSlice t (Some (map (pointer_to i) ys)))) else Panics)
                  | _ \<Rightarrow>
                      bind_res (slice_elems E i xs) (\<lambda>ys.
                        if kind_of t = KSlice then Returns (Inr (VSlice t (Some ys))) else Panics))
             | _ \<Rightarrow> mismatch)
          else (case set_time E t v layout of
                  Some r \<Rightarrow> Returns r
                | None \<Rightarrow> SafeConvert (je_f2i E) v t))"

definition decodeFieldValue :: "json_env \<Rightarrow> field \<Rightarrow> goval \<Rightarrow> gostring \<Rightarrow> (gerr + field) call" where
  "decodeFieldValue E fd v layout =
     (if v = VNil then Returns (Inr fd)
      else case fd of
        NoField \<Rightarrow> Returns (Inr NoField)
      | Invalid \<Rightarrow> Panics
      | Field ro t old \<Rightarrow>
          if ro \<noteq> Settable \<and> as_bytes v \<noteq> None then Panics
          else bind_res (decode_value E t old v layout) (\<lambda>w. bind_call (set_field ro t w) (\<lambda>f. Returns (Inr f))))"

text \<open>Raw JSON: to the field's own \<open>UnmarshalJSON\<close>, to that of a fresh object behind a nil pointer, or
  as bytes.\<close>

definition raw_value :: "json_env \<Rightarrow> gotype \<Rightarrow> goval \<Rightarrow> gostring \<Rightarrow> (gerr + goval) call" where
  "raw_value E t old raw =
     (if implements (TPointer t) [''UnmarshalJSON''] then je_UnmarshalJSON E t old raw
      else case (kind_of t = KPointer, elem_of t) of
        (True, Some e) \<Rightarrow>
          (let cur = (case old of
                        VPtr u None \<Rightarrow> if implements (TPointer e) [''UnmarshalJSON''] then pointer_to t (zero_of e) else old
                      | _ \<Rightarrow> old)
           in case cur of
                VPtr u (Some (a, w)) \<Rightarrow>
                  if implements t [''UnmarshalJSON'']
                  then bind_res (je_UnmarshalJSON E e w raw) (\<lambda>x. Returns (Inr (VPtr t (Some (a, x)))))
                  else Returns (Inl (Errorf ''cannot bind raw JSON to field of type %s'' []))
              | _ \<Rightarrow> Returns (Inl (Errorf ''cannot bind raw JSON to field of type %s'' [])))
      | _ \<Rightarrow>
          if kind_of t = KSlice \<and> map_option kind_of (elem_of t) = Some KUint8 then
            Returns (Inr (VSlice t (Some (map (\<lambda>c. VInt (TBasic KUint8) (int (byte c))) raw))))
          else Returns (Inl (Errorf ''cannot bind raw JSON to field of type %s'' [])))"

definition decodeRawJSONField :: "json_env \<Rightarrow> field \<Rightarrow> gostring \<Rightarrow> (gerr + field) call" where
  "decodeRawJSONField E fd raw =
     (case fd of
        Field ro t old \<Rightarrow>
          if ro = Settable then bind_res (raw_value E t old raw) (\<lambda>w. Returns (Inr (Field ro t w))) else Panics
      | NoField \<Rightarrow> Returns (Inr NoField)
      | Invalid \<Rightarrow> Panics)"

text \<open>The base64 text between the quotes of a JSON string.\<close>

definition decodeBase64Field :: "gostring \<Rightarrow> gerr + gostring" where
  "decodeBase64Field s =
     (if length s \<ge> 2 \<and> hd s = CHR 0x22 \<and> last s = CHR 0x22 then b64_DecodeString (butlast (tl s))
      else Inl (Errorf ''expected base64-encoded JSON string, got %s'' [str s]))"

text \<open>Setting the decoded bytes: the value is a \<open>[]byte\<close> and must be assignable.\<close>

definition set_bytes :: "field \<Rightarrow> gostring \<Rightarrow> field call" where
  "set_bytes fd bs =
     (case fd of
        NoField \<Rightarrow> Returns NoField
      | Invalid \<Rightarrow> Panics
      | Field ro t old \<Rightarrow>
          let bytes = map (\<lambda>c. VInt (TBasic KUint8) (int (byte c))) bs in
          if kind_of t = KPointer then
            (case elem_of t of
               Some e \<Rightarrow> if underlying e = TSlice (TBasic KUint8)
                         then set_field ro t (pointer_to t (VSlice e (Some bytes))) else Panics
             | None \<Rightarrow> Panics)
          else if underlying t = TSlice (TBasic KUint8) then set_field ro t (VSlice t (Some bytes))
          else Panics)"

subsection \<open>Fields of fields\<close>

text \<open>\<open>getFieldStruct\<close>: the field of a struct, or of the struct behind a pointer, with its index path.\<close>

definition child_access :: "access \<Rightarrow> StructField \<Rightarrow> access" where
  "child_access ro f =
     (if ro = StickyRO then StickyRO
      else if exported (fld_name f) then Settable
      else if sf_embedded (StructFld f) then EmbedRO else StickyRO)"

definition nil_pointer :: "goval \<Rightarrow> bool" where
  "nil_pointer v = (case v of VPtr t None \<Rightarrow> True | _ \<Rightarrow> False)"

definition getFieldStruct :: "field \<Rightarrow> gostring \<Rightarrow> (nat list \<times> field) call" where
  "getFieldStruct fd name =
     (case fd of
        NoField \<Rightarrow> Returns ([], NoField)
      | Invalid \<Rightarrow> Returns ([], Invalid)
      | Field ro t v \<Rightarrow>
          if kind_of (struct_elem t) \<noteq> KStruct \<or> nil_pointer v then Returns ([], Invalid)
          else (case find_field (struct_elem t) name of
                  None \<Rightarrow> Returns ([], Invalid)
                | Some f \<Rightarrow> bind_call (field_at (Index f) v) (\<lambda>w.
                    Returns (Index f, Field (child_access ro f) (fld_type f) w))))"

text \<open>The source sets the field in place; here the parent is rebuilt around it.\<close>

definition put_child :: "field \<Rightarrow> nat list \<Rightarrow> field \<Rightarrow> field call" where
  "put_child fd ix child =
     (case (fd, child) of
        (Field ro t v, Field ro' t' w) \<Rightarrow> bind_call (set_at ix w v) (\<lambda>v'. Returns (Field ro t v'))
      | _ \<Rightarrow> Returns fd)"

subsection \<open>Walking the rules of a body\<close>

text \<open>The result of a node: the error, whether the node was walked to its end, and the field.\<close>

type_synonym walk = "(verr option \<times> bool \<times> field) call"

definition finished :: "field \<Rightarrow> walk" where "finished fd = Returns (None, True, fd)"

definition fail :: "gostring \<Rightarrow> gostring list \<Rightarrow> gostring \<Rightarrow> gerr \<Rightarrow> field \<Rightarrow> walk" where
  "fail sch keys rule e fd = Returns (Some (VReport RequestErr sch (Join keys [CHR 0x2E]) rule e), False, fd)"

definition after_rules ::
  "goval \<Rightarrow> gostring \<Rightarrow> gostring list \<Rightarrow> ruleOpts list \<Rightarrow> field \<Rightarrow> walk \<Rightarrow> walk"
where
  "after_rules v sch keys rls fd k =
     bind_call (runValidationLazy v RequestErr sch keys rls) (\<lambda>er.
       if er \<noteq> None then Returns (er, False, fd) else k)"

definition decode_into :: "json_env \<Rightarrow> gostring \<Rightarrow> gostring list \<Rightarrow> field \<Rightarrow> goval \<Rightarrow> gostring \<Rightarrow> walk" where
  "decode_into E sch keys fd v layout =
     (if fd = NoField then finished NoField
      else bind_call (decodeFieldValue E fd v layout) (\<lambda>r.
        case r of Inl e \<Rightarrow> fail sch keys ''decode'' e fd | Inr fd' \<Rightarrow> finished fd'))"

definition node_get :: "'n fastjson \<Rightarrow> 'n option \<Rightarrow> gostring \<Rightarrow> 'n option" where
  "node_get P nd k = (case nd of None \<Rightarrow> None | Some n \<Rightarrow> fj_Get P n k)"

text \<open>The value of a node with the default of its rules; nil stands for none.\<close>

definition node_or_default :: "goval \<Rightarrow> rule_info \<Rightarrow> goval" where
  "node_or_default v i =
     (if (v = VNil \<or> v = EOF_val) \<and> ri_defVal i \<noteq> VNil then ri_defVal i else if v = EOF_val then VNil else v)"

text \<open>A nil pointer is allocated before its value is known.\<close>

definition alloc_pointer :: "field \<Rightarrow> field call" where
  "alloc_pointer fd =
     (case fd of
        Field ro t v \<Rightarrow>
          if kind_of t = KPointer then
            (case elem_of t of Some e \<Rightarrow> set_field ro t (pointer_to t (zero_of e)) | None \<Rightarrow> Panics)
          else Returns fd
      | _ \<Rightarrow> Returns fd)"

text \<open>The children of a struct: the fields in their order, or, for rules without it, the visible fields
  of the type, or else the map of the properties.\<close>

definition struct_children :: "json_env \<Rightarrow> RuleDef \<Rightarrow> (gostring \<times> RuleDef) list" where
  "struct_children E d =
     (if rd_ordered d \<noteq> [] then map (\<lambda>c. (ri_field (rd c), c)) (rd_ordered d)
      else if je_MaintainOrder E then
        List.map_filter (\<lambda>f. if isPromotedEmbed f then None
          else map_option (Pair (getFieldName f)) (map_of (rd_properties d) (getFieldName f))) (VisibleFields (ri_typ (rd d)))
      else rd_properties d)"

fun walk_fields :: "(RuleDef \<Rightarrow> gostring \<Rightarrow> field \<Rightarrow> walk) \<Rightarrow> (gostring \<times> RuleDef) list \<Rightarrow> field \<Rightarrow> walk" where
  "walk_fields step [] fd = finished fd"
| "walk_fields step ((name, c) # cs) fd =
     bind_call (getFieldStruct fd (ri_fieldName (rd c))) (\<lambda>(ix, child).
       bind_call (step c name child) (\<lambda>(er, _, child').
         bind_call (put_child fd ix child') (\<lambda>fd'.
           if er \<noteq> None then Returns (er, False, fd') else walk_fields step cs fd')))"

lemma walk_fields_cong [fundef_cong]:
  "cs = cs' \<Longrightarrow> fd = fd' \<Longrightarrow> (\<And>n c f. (n, c) \<in> set cs' \<Longrightarrow> step c n f = step' c n f) \<Longrightarrow>
     walk_fields step cs fd = walk_fields step' cs' fd'"
proof (induction cs arbitrary: cs' fd fd')
  case (Cons p cs)
  obtain n c where [simp]: "p = (n, c)" by (cases p)
  have "walk_fields step cs f = walk_fields step' cs f" for f
    using Cons.prems by (intro Cons.IH) auto
  then have "walk_fields step cs = walk_fields step' cs" by (rule ext)
  moreover have "step c n = step' c n" using Cons.prems by (intro ext) auto
  moreover have "cs' = (n, c) # cs" "fd' = fd" using Cons.prems by simp_all
  ultimately show ?case by (simp only: \<open>p = (n, c)\<close> walk_fields.simps)
qed auto

text \<open>The entries of a map, all of them: the last error is the result, and only the entries without one
  are put in the map.\<close>

definition map_elem :: "field \<Rightarrow> field call" where
  "map_elem fd =
     (case fd of
        NoField \<Rightarrow> Returns NoField
      | Invalid \<Rightarrow> Panics
      | Field ro t v \<Rightarrow> (case elem_of t of Some e \<Rightarrow> Returns (Field Settable e (zero_of e)) | None \<Rightarrow> Panics))"

fun put_entry :: "(goval \<times> goval) list \<Rightarrow> goval \<Rightarrow> goval \<Rightarrow> (goval \<times> goval) list" where
  "put_entry [] k v = [(k, v)]"
| "put_entry ((k', v') # es) k v = (if k' = k then (k, v) # es else (k', v') # put_entry es k v)"

definition string_keys :: "gotype \<Rightarrow> bool" where
  "string_keys t = (case underlying t of
     TMap k e \<Rightarrow> k = TString \<or> kind_of k = KInterface \<and> implements TString (methods_of k) | _ \<Rightarrow> False)"

definition SetMapIndex :: "field \<Rightarrow> gostring \<Rightarrow> field \<Rightarrow> field call" where
  "SetMapIndex fd k child =
     (case (fd, child) of
        (Field ro t (VMap u (Some es)), Field ro' e w) \<Rightarrow>
          if ro = Settable \<and> string_keys t then Returns (Field ro t (VMap u (Some (put_entry es (str k) w)))) else Panics
      | (NoField, _) \<Rightarrow> Returns NoField
      | _ \<Rightarrow> Panics)"

fun walk_entries ::
  "('n \<Rightarrow> gostring \<Rightarrow> field \<Rightarrow> walk) \<Rightarrow> (gostring \<times> 'n) list \<Rightarrow> verr option \<Rightarrow> field \<Rightarrow> walk"
where
  "walk_entries step [] er fd = Returns (er, er = None, fd)"
| "walk_entries step ((k, n) # es) er fd =
     bind_call (map_elem fd) (\<lambda>el.
       bind_call (step n k el) (\<lambda>(e, _, el').
         if e \<noteq> None then walk_entries step es e fd
         else bind_call (SetMapIndex fd k el') (walk_entries step es er)))"

definition make_map :: "field \<Rightarrow> field call" where
  "make_map fd =
     (case fd of
        NoField \<Rightarrow> Returns NoField
      | Invalid \<Rightarrow> Panics
      | Field ro t v \<Rightarrow> if kind_of t = KMap then set_field ro t (VMap t (Some [])) else Panics)"

text \<open>The elements of an array that are not primitives.\<close>

fun walk_items :: "('n \<Rightarrow> nat \<Rightarrow> walk) \<Rightarrow> nat \<Rightarrow> 'n list \<Rightarrow> (verr option \<times> field list) call" where
  "walk_items step i [] = Returns (None, [])"
| "walk_items step i (n # ns) =
     bind_call (step n i) (\<lambda>(e, _, f).
       if e \<noteq> None then Returns (e, [])
       else bind_call (walk_items step (Suc i) ns) (\<lambda>(e', fs). Returns (e', f # fs)))"

fun field_val :: "field \<Rightarrow> goval" where
  "field_val (Field ro t v) = v"
| "field_val _ = VNil"

text \<open>The type of the new slice, and a fresh element of it. \<open>MakeSlice\<close> panics on another kind and on a
  negative capacity.\<close>

definition slice_type :: "field \<Rightarrow> int \<Rightarrow> (gotype \<times> gotype) option call" where
  "slice_type fd n =
     (case fd of
        NoField \<Rightarrow> Returns None
      | Invalid \<Rightarrow> Panics
      | Field ro t v \<Rightarrow>
          let s = struct_elem t in
          if kind_of s = KSlice \<and> n \<ge> 0 then
            (case elem_of s of Some e \<Rightarrow> Returns (Some (s, e)) | None \<Rightarrow> Panics)
          else Panics)"

definition set_slice :: "field \<Rightarrow> goval \<Rightarrow> field call" where
  "set_slice fd w =
     (case fd of
        NoField \<Rightarrow> Returns NoField
      | Invalid \<Rightarrow> Panics
      | Field ro t v \<Rightarrow> if kind_of t = KPointer then set_field ro t (pointer_to t w) else set_field ro t w)"

definition max_exceeded :: "json_env \<Rightarrow> rule_info \<Rightarrow> nat \<Rightarrow> bool" where
  "max_exceeded E i n = (case ri_max i of None \<Rightarrow> False | Some m \<Rightarrow> int n > flt_to_int (je_f2i E) KInt m)"

definition array_size :: "json_env \<Rightarrow> rule_info \<Rightarrow> int" where
  "array_size E i = (case ri_max i of None \<Rightarrow> 50 | Some m \<Rightarrow> flt_to_int (je_f2i E) KInt m)"

text \<open>Values of a format: dates and cookies, the formats of the application, raw JSON and bytes.\<close>

definition walk_string :: "json_env \<Rightarrow> gostring \<Rightarrow> gostring list \<Rightarrow> rule_info \<Rightarrow> goval \<Rightarrow> field \<Rightarrow> walk" where
  "walk_string E sch keys i v fd =
     after_rules v sch keys (ri_rules i) fd (decode_into E sch keys fd v (ri_pattern i))"

definition walk_custom ::
  "json_env \<Rightarrow> gostring \<Rightarrow> gostring list \<Rightarrow> rule_info \<Rightarrow> custom_spec \<Rightarrow> goval \<Rightarrow> field \<Rightarrow> walk"
where
  "walk_custom E sch keys i spec v fd =
     bind_call (sp_Decode spec v) (\<lambda>r.
       case r of
         Inl e \<Rightarrow> fail sch keys ''typeCast'' e fd
       | Inr w \<Rightarrow> after_rules w sch keys (ri_rules i) fd (decode_into E sch keys fd w []))"

definition walk_raw :: "json_env \<Rightarrow> gostring \<Rightarrow> gostring list \<Rightarrow> rule_info \<Rightarrow> goval \<Rightarrow> field \<Rightarrow> walk" where
  "walk_raw E sch keys i v fd =
     (case as_bytes v of
        None \<Rightarrow> fail sch keys ''parser'' (errNew ''expected raw JSON bytes'') fd
      | Some raw \<Rightarrow>
          after_rules v sch keys (ri_rules i) fd
            (bind_call (decodeRawJSONField E fd raw) (\<lambda>r.
               case r of Inl e \<Rightarrow> fail sch keys ''decode'' e fd | Inr fd' \<Rightarrow> finished fd')))"

definition walk_bytes :: "json_env \<Rightarrow> gostring \<Rightarrow> gostring list \<Rightarrow> rule_info \<Rightarrow> goval \<Rightarrow> field \<Rightarrow> walk" where
  "walk_bytes E sch keys i v fd =
     (case as_bytes v of
        None \<Rightarrow> fail sch keys ''parser'' (errNew ''expected raw JSON bytes'') fd
      | Some raw \<Rightarrow>
          (case decodeBase64Field raw of
             Inl e \<Rightarrow> fail sch keys ''decode'' e fd
           | Inr bs \<Rightarrow> after_rules (bytes_val bs) sch keys (ri_rules i) fd (bind_call (set_bytes fd bs) finished)))"

text \<open>An array of primitives, and a value of any type.\<close>

definition walk_primitives ::
  "json_env \<Rightarrow> 'n fastjson \<Rightarrow> gostring \<Rightarrow> gostring list \<Rightarrow> rule_info \<Rightarrow> kind \<Rightarrow> 'n option \<Rightarrow> field \<Rightarrow> walk"
where
  "walk_primitives E P sch keys i k nd fd =
     bind_call (fj_Array P nd) (\<lambda>r.
       case r of
         Inl e \<Rightarrow> fail sch keys ''parser'' e fd
       | Inr ns \<Rightarrow>
           bind_call (GetPrimitiveArrValsFromNode P ns k (ri_format i)) (\<lambda>q.
             if max_exceeded E i (case q of Inl e \<Rightarrow> 0 | Inr vs \<Rightarrow> length vs)
             then fail sch keys ''max'' (errNew ''array size too large'') fd
             else case q of
               Inl e \<Rightarrow> fail sch keys ''parser'' e fd
             | Inr vs \<Rightarrow> after_rules (any_slice vs) sch keys (ri_rules i) fd (decode_into E sch keys fd (any_slice vs) [])))"

definition walk_any ::
  "json_env \<Rightarrow> 'n fastjson \<Rightarrow> gostring \<Rightarrow> gostring list \<Rightarrow> rule_info \<Rightarrow> 'n option \<Rightarrow> field \<Rightarrow> walk"
where
  "walk_any E P sch keys i nd fd =
     (case GetAnyValueFromNode P nd of
        Inl e \<Rightarrow> fail sch keys ''parser'' e fd
      | Inr v \<Rightarrow> after_rules v sch keys (ri_rules i) fd (decode_into E sch keys fd v []))"

lemma struct_children_size: "(n, c) \<in> set (struct_children E d) \<Longrightarrow> size c < size d"
proof -
  assume a: "(n, c) \<in> set (struct_children E d)"
  have o: "c \<in> set (rd_ordered d) \<Longrightarrow> size c < size d"
    by (cases d) (auto dest: size_list_estimation'[of _ _ "size c" size])
  have p: "(k, c) \<in> set (rd_properties d) \<Longrightarrow> size c < size d" for k
    by (cases d) (auto dest: size_list_estimation'[of _ _ "size c" "size_prod (\<lambda>x. 0) size"])
  from a show ?thesis
    by (auto simp: struct_children_def map_filter_def split: if_splits intro: o dest: p p[OF map_of_SomeD])
qed

lemma size_additional [termination_simp]: "rd_additional d = Some c \<Longrightarrow> size c < size d"
  and size_item [termination_simp]: "rd_item d = Some c \<Longrightarrow> size c < size d"
  by (cases d; simp)+

lemma walk_entries_cong [fundef_cong]:
  "es = es' \<Longrightarrow> er = er' \<Longrightarrow> fd = fd' \<Longrightarrow> (\<And>k n f. step n k f = step' n k f) \<Longrightarrow>
     walk_entries step es er fd = walk_entries step' es' er' fd'"
  by (metis ext)

lemma walk_items_cong [fundef_cong]:
  "ns = ns' \<Longrightarrow> i = i' \<Longrightarrow> (\<And>n k. step n k = step' n k) \<Longrightarrow> walk_items step i ns = walk_items step' i' ns'"
  by (metis ext)

function walkStruct ::
  "json_env \<Rightarrow> 'n fastjson \<Rightarrow> 'n option \<Rightarrow> gostring \<Rightarrow> RuleDef \<Rightarrow> field \<Rightarrow> gostring list \<Rightarrow> walk"
where
  "walkStruct E P nd sch d fd0 keys =
     (let i = rd d in
      if length keys > (if je_MaxDepth E = 0 then 100 else je_MaxDepth E)
      then fail sch keys ''depth'' (errNew ''max recursion depth exceeded'') fd0
      else bind_call (GetNodeByKind P nd (ri_kind i) (ri_format i)) (\<lambda>r.
        case r of
          Inl e \<Rightarrow> fail sch keys ''parser'' e fd0
        | Inr v0 \<Rightarrow>
            let v = node_or_default v0 i in
            if \<not> ri_required i \<and> \<not> ri_present i \<and> v = VNil then Returns (None, False, fd0)
            else bind_call (alloc_pointer fd0) (\<lambda>fd.
              if ri_format i = TimeObjectFormat \<or> ri_format i = CookieObjectFormat then walk_string E sch keys i v fd
              else case CustomSpecs_Find (je_specs E) (ri_format i) of
                Some spec \<Rightarrow> walk_custom E sch keys i spec v fd
              | None \<Rightarrow>
                  if ri_format i = RawJSONFormat then walk_raw E sch keys i v fd
                  else if ri_format i = ByteFormat then walk_bytes E sch keys i v fd
                  else if ri_kind i = KStruct then
                    walk_fields (\<lambda>c name child. walkStruct E P (node_get P nd name) schemaBody c child (keys @ [name]))
                      (struct_children E d) fd
                  else if ri_kind i = KMap then
                    (case rd_additional d of
                       None \<Rightarrow> finished fd
                     | Some c \<Rightarrow>
                         bind_call (fj_Object P nd) (\<lambda>r.
                           case r of
                             Inl e \<Rightarrow> fail sch keys ''parser'' e fd
                           | Inr es \<Rightarrow>
                               bind_call (make_map fd) (\<lambda>m.
                                 walk_entries (\<lambda>n k el. walkStruct E P (Some n) schemaBody c el (keys @ [k])) es None m)))
                  else if ri_kind i = KSlice \<or> ri_kind i = KArray then
                    (case rd_item d of
                       None \<Rightarrow> Panics
                     | Some c \<Rightarrow>
                         if IsPrimitiveKind (ri_kind (rd c)) then walk_primitives E P sch keys i (ri_kind (rd c)) nd fd
                         else bind_call (slice_type fd (array_size E i)) (\<lambda>st.
                           bind_call (fj_Array P nd) (\<lambda>r.
                             case r of
                               Inl e \<Rightarrow> fail sch keys ''parser'' e fd
                             | Inr ns \<Rightarrow>
                                 if ns = [] \<and> ri_required i \<and> \<not> ri_present i
                                 then fail sch (keys @ [''0'']) ''required'' (errNew ''value must not be empty'') fd
                                 else if max_exceeded E i (length ns)
                                 then fail sch (keys @ [nat_digits (length ns)]) ''max''
                                        (Errorf ''array length must not be greater than %f'' []) fd
                                 else bind_call
                                   (walk_items (\<lambda>n j. walkStruct E P (Some n) schemaBody c
                                      (case st of None \<Rightarrow> NoField | Some (s, e) \<Rightarrow> Field Settable e (zero_of e))
                                      (keys @ [nat_digits j])) 0 ns)
                                   (\<lambda>(er, fs).
                                     if er \<noteq> None then Returns (er, False, fd)
                                     else let sv = (case st of None \<Rightarrow> VNil | Some (s, e) \<Rightarrow> VSlice s (Some (map field_val fs)))
                                          in after_rules sv sch keys (ri_rules i) fd (bind_call (set_slice fd sv) finished)))))
                  else if ri_kind i = KInterface then walk_any E P sch keys i nd fd
                  else walk_string E sch keys i v fd)))"
  by pat_completeness auto
termination
  by (relation "measure (\<lambda>(E, P, nd, sch, d, fd, keys). size d)")
     (auto dest: struct_children_size size_additional size_item)

declare walkStruct.simps [simp del]

subsection \<open>The body of a request\<close>

text \<open>The body is cut at a number of bytes. A primitive body is read as text, any other one as a
  document; the parsed value is set in the field \<open>Body\<close> of the \<open>Request\<close> struct.\<close>

definition body_limit :: "int \<Rightarrow> nat" where
  "body_limit MaxRequestSize = (if MaxRequestSize = 0 then 1048576 else nat MaxRequestSize)"

definition body_error :: "gostring \<Rightarrow> gerr \<Rightarrow> verr" where
  "body_error rule e = VReport RequestErr schemaBody [] rule e"

definition bind_primitive :: "json_env \<Rightarrow> goval \<Rightarrow> goval option \<Rightarrow> goval option call" where
  "bind_primitive E v rs =
     (case (locate rs [schemaBody], typeof v) of
        (Some (p, t), Some tv) \<Rightarrow>
          (case (kind_of t = KPointer, elem_of t) of
             (True, Some e) \<Rightarrow>
               if convertible_to tv e then store_at p (pointer_to t (go_convert (je_f2i E) v e)) rs else Panics
           | _ \<Rightarrow> if convertible_to tv t then store_at p (go_convert (je_f2i E) v t) rs else Panics)
      | _ \<Rightarrow> Panics)"

definition request_field :: "bool \<Rightarrow> goval option \<Rightarrow> field" where
  "request_field shouldBind rs =
     (if \<not> shouldBind then NoField
      else case rs of
        None \<Rightarrow> Invalid
      | Some r \<Rightarrow> (case typeof r of None \<Rightarrow> Invalid | Some t \<Rightarrow> Field Settable t r))"

definition request_of :: "field \<Rightarrow> goval option \<Rightarrow> goval option" where
  "request_of fd rs = (case fd of Field ro t v \<Rightarrow> Some v | _ \<Rightarrow> rs)"

definition decode_document ::
  "json_env \<Rightarrow> 'n fastjson \<Rightarrow> 'n \<Rightarrow> bool \<Rightarrow> RuleDef \<Rightarrow> goval option \<Rightarrow> (verr option \<times> goval option) call"
where
  "decode_document E P pv shouldBind d rs =
     (let req = request_field shouldBind rs in
      bind_call (getFieldStruct req schemaBody) (\<lambda>(ix, fd).
        bind_call (walkStruct E P (Some pv) schemaBody d fd []) (\<lambda>(er, fin, fd').
          bind_call (put_child req ix fd') (\<lambda>req'.
            Returns (if er \<noteq> None then er
                     else if fin then None
                     else Some (body_error ''parser'' (errNew ''couldn't parse request body'')), request_of req' rs)))))"

definition ValidateAndDecodeRequest :: "json_env \<Rightarrow> 'n fastjson \<Rightarrow> int \<Rightarrow> body_parser" where
  "ValidateAndDecodeRequest E P MaxRequestSize body shouldBind d rs =
     (let bs = take (body_limit MaxRequestSize) body; i = rd d in
      if bs = [] then
        Returns (if ri_required i \<or> ri_present i
                 then Some (body_error ''required'' (errNew ''request body is required'')) else None, rs)
      else case PrimitiveFromStr (ri_kind i) bs of
        (v, Some e) \<Rightarrow> Returns (Some (body_error ''encoder'' e), rs)
      | (v, None) \<Rightarrow>
          bind_call (IsPrimitive v) (\<lambda>prim.
            if prim then
              bind_call (runValidation v RequestErr schemaBody [] (ri_rules i)) (\<lambda>er.
                if er \<noteq> None then Returns (er, rs)
                else if shouldBind \<and> rs \<noteq> None then bind_call (bind_primitive E v rs) (\<lambda>rs'. Returns (None, rs'))
                else Returns (None, rs))
            else case fj_ParseBytes P bs of
              Inl e \<Rightarrow> Returns (Some (body_error ''parser'' e), rs)
            | Inr pv \<Rightarrow> decode_document E P pv shouldBind d rs))"

text \<open>The media types of the parser; \<open>mime.ParseMediaType\<close> is a parameter.\<close>

definition Match_json :: "(gostring \<Rightarrow> gostring option) \<Rightarrow> gostring \<Rightarrow> bool" where
  "Match_json ParseMediaType contentType =
     (case ParseMediaType contentType of
        None \<Rightarrow> False
      | Some mt \<Rightarrow> mt = ''application/json'' \<or> HasSuffix mt ''+json'')"

end
