(* ===== verification/JsonEncode.thy ===== *)
theory JsonEncode
  imports JsonDecode
begin

section \<open>Validating and encoding a JSON response (bodyparser_json.go)\<close>

text \<open>
  \<open>encodeFieldValue\<close> writes a value as JSON, checking it against its rules on the way. A
  \<open>reflect.Value\<close> is its static type and its value, with whether it was read through an unexported
  field, or \<open>None\<close> for the invalid value; a field of an interface type has that static type and its
  dynamic value. The text is returned instead of written to a buffer. A pointer, interface or
  default may lead back to the same rds, so the recursion is bounded by fuel; \<open>None\<close> is fuel used
  up. Setting the default in the object that is sent is not modelled, and a default of an unexported
  field panics here. A value is a finite tree: the code can also be given a map, slice or pointer
  that contains itself behind a field of type \<open>any\<close> (\<open>m["self"] = m\<close>), and recurses for ever on it;
  such values cannot be written here.
\<close>

record enc_env =
  ee_specs :: "custom_spec gomap"
  ee_f2i :: "kind \<Rightarrow> flt \<Rightarrow> int"
  ee_MarshalJSON :: "goval \<Rightarrow> (gerr + gostring) call"
  ee_timeFormat :: "goval \<Rightarrow> gostring \<Rightarrow> gostring"
  ee_msg :: "gerr \<Rightarrow> gostring"

type_synonym 'a enc = "(verr + 'a) call option"

fun bind_enc :: "'a enc \<Rightarrow> ('a \<Rightarrow> 'b enc) \<Rightarrow> 'b enc" where
  "bind_enc None f = None"
| "bind_enc (Some Panics) f = Some Panics"
| "bind_enc (Some (Returns (Inl e))) f = Some (Returns (Inl e))"
| "bind_enc (Some (Returns (Inr x))) f = f x"

abbreviation enc_ok :: "'a \<Rightarrow> 'a enc" where "enc_ok x \<equiv> Some (Returns (Inr x))"
abbreviation enc_err :: "verr \<Rightarrow> 'a enc" where "enc_err e \<equiv> Some (Returns (Inl e))"

fun enc_call :: "'a call \<Rightarrow> ('a \<Rightarrow> 'b enc) \<Rightarrow> 'b enc" where
  "enc_call Panics f = Some Panics"
| "enc_call (Returns x) f = f x"

fun enc_map :: "('a \<Rightarrow> 'b enc) \<Rightarrow> 'a list \<Rightarrow> 'b list enc" where
  "enc_map f [] = enc_ok []"
| "enc_map f (x # xs) = bind_enc (f x) (\<lambda>y. bind_enc (enc_map f xs) (\<lambda>ys. enc_ok (y # ys)))"

subsection \<open>Strings\<close>

definition escape_rune :: "rune \<Rightarrow> gostring" where
  "escape_rune r =
     (if r = 34 then [CHR 0x5C, CHR 0x22] else if r = 92 then [CHR 0x5C, CHR 0x5C]
      else if r = 10 then [CHR 0x5C, CHR ''n''] else if r = 13 then [CHR 0x5C, CHR ''r'']
      else if r = 9 then [CHR 0x5C, CHR ''t''] else EncodeRune r)"

definition encodeString :: "gostring \<Rightarrow> gostring" where
  "encodeString s = CHR 0x22 # concat (map escape_rune (runes s)) @ [CHR 0x22]"

subsection \<open>Empty values and defaults\<close>

type_synonym rvalue = "(bool \<times> gotype \<times> goval) option"

definition isEmptyValue :: "gotype \<Rightarrow> goval \<Rightarrow> bool" where
  "isEmptyValue t v =
     (let k = kind_of t in
      if k = KString then (case v of VString u s \<Rightarrow> s = [] | _ \<Rightarrow> False)
      else if is_signed k then (case v of VInt u i \<Rightarrow> i = 0 | _ \<Rightarrow> False)
      else if k = KBool then (case v of VBool u b \<Rightarrow> \<not> b | _ \<Rightarrow> False)
      else if k = KSlice \<or> k = KArray \<or> k = KMap then vlen v = Some 0
      else if k = KPointer then nil_pointer v
      else if k = KInterface then v = VNil
      else False)"

definition empty_rvalue :: "rvalue \<Rightarrow> bool" where
  "empty_rvalue rv = (case rv of None \<Rightarrow> False | Some (ro, t, v) \<Rightarrow> isEmptyValue t v)"

text \<open>The default of the rules is put in place of an empty value; converting a nil default, or one of
  another type, panics.\<close>

definition apply_default :: "enc_env \<Rightarrow> RuleDef option \<Rightarrow> rvalue \<Rightarrow> rvalue call" where
  "apply_default E rds rv =
     (case (rv, rds) of
        (Some (ro, t, v), Some d) \<Rightarrow>
          if ri_defStr (rd d) \<noteq> [] \<and> isEmptyValue t v then
            (case typeof (ri_defVal (rd d)) of
               None \<Rightarrow> Panics
             | Some u \<Rightarrow>
                 if convertible_to u t \<and> \<not> ro then Returns (Some (ro, t, go_convert (ee_f2i E) (ri_defVal (rd d)) t))
                 else Panics)
          else Returns rv
      | _ \<Rightarrow> Returns rv)"

subsection \<open>Fields\<close>

text \<open>The field an index path leads to, and its value.\<close>

fun index_field :: "gotype \<Rightarrow> nat list \<Rightarrow> sfield option" where
  "index_field t [] = None"
| "index_field t (i # ix) =
     (let fs = fields_of (struct_elem t) in
      if i < length fs then (if ix = [] then Some (fs ! i) else index_field (sf_type (fs ! i)) ix) else None)"

definition rvalue_of_field :: "sfield \<Rightarrow> goval \<Rightarrow> rvalue" where
  "rvalue_of_field f v = Some (\<not> exported (sf_name f), sf_type f, v)"

definition field_named :: "goval \<Rightarrow> gostring \<Rightarrow> rvalue call" where
  "field_named v n =
     bind_call (FieldByName v n) (\<lambda>r. Returns (case r of None \<Rightarrow> None | Some (f, w) \<Rightarrow> rvalue_of_field (StructFld f) w))"

definition rule_field :: "gotype \<Rightarrow> goval \<Rightarrow> RuleDef \<Rightarrow> rvalue call" where
  "rule_field t v d =
     (let ix = acc_index (ri_accessor (rd d)) in
      if ix = [] then field_named v (ri_fieldName (rd d))
      else case index_field t ix of
             None \<Rightarrow> Panics
           | Some f \<Rightarrow> bind_call (field_at ix v) (\<lambda>w. Returns (rvalue_of_field f w)))"

definition json_tags :: "RuleDef \<Rightarrow> gostring list" where
  "json_tags d = (case map_of (ri_tags (rd d)) ''json'' of None \<Rightarrow> [] | Some ts \<Rightarrow> ts)"

definition json_key :: "RuleDef \<Rightarrow> gostring" where
  "json_key d =
     (if ri_jsonKeyBytes (rd d) \<noteq> [] then ri_jsonKeyBytes (rd d)
      else CHR 0x22 # ri_field (rd d) @ [CHR 0x22, colon])"

text \<open>The fields of a struct that are written, in order: with rules, those of the rules; without, the
  visible fields of the type. Each has its key as written, its place in the key path and its rules.\<close>

definition schema_field ::
  "gotype \<Rightarrow> goval \<Rightarrow> RuleDef \<Rightarrow> (gostring \<times> gostring \<times> rvalue \<times> RuleDef option) option call"
where
  "schema_field t v d =
     bind_call (rule_field t v d) (\<lambda>rv.
       Returns (if ''omitempty'' \<in> set (json_tags d) \<and> empty_rvalue rv \<or> ''-'' \<in> set (json_tags d) then None
                else Some (json_key d, ri_field (rd d), rv, Some d)))"

definition plain_field ::
  "goval \<Rightarrow> StructField \<Rightarrow> (gostring \<times> gostring \<times> rvalue \<times> RuleDef option) option call"
where
  "plain_field v f =
     (let tags = Split (CHR '','') (tag_Get (fld_tag f) ''json''); name = getFieldName f in
      if isPromotedEmbed f \<or> ''-'' \<in> set tags then Returns None
      else bind_call (field_named v (fld_name f)) (\<lambda>rv.
        Returns (if ''omitempty'' \<in> set tags \<and> empty_rvalue rv then None
                 else Some (CHR 0x22 # name @ [CHR 0x22, colon], name, rv, None))))"

definition struct_fields ::
  "gotype \<Rightarrow> goval \<Rightarrow> RuleDef option \<Rightarrow> (gostring \<times> gostring \<times> rvalue \<times> RuleDef option) option call list"
where
  "struct_fields t v rds =
     (case rds of
        Some d \<Rightarrow> if rd_ordered d \<noteq> [] then map (schema_field t v) (rd_ordered d) else map (plain_field v) (VisibleFields t)
      | None \<Rightarrow> map (plain_field v) (VisibleFields t))"

subsection \<open>Values\<close>

definition ResErr :: "gostring list \<Rightarrow> gostring \<Rightarrow> gerr \<Rightarrow> verr" where
  "ResErr kp rule e = VReport ResponseErr schemaBody (Join kp [CHR 0x2E]) rule e"

definition is_nil :: "goval \<Rightarrow> bool" where
  "is_nil v = (case v of VNil \<Rightarrow> True | VSlice t None \<Rightarrow> True | VMap t None \<Rightarrow> True | VPtr t None \<Rightarrow> True | _ \<Rightarrow> False)"

definition marshaler :: "goval \<Rightarrow> bool" where
  "marshaler v = (case typeof v of None \<Rightarrow> False | Some t \<Rightarrow> implements t [''MarshalJSON''])"

fun skip_none :: "'a option list \<Rightarrow> 'a list" where
  "skip_none [] = []"
| "skip_none (None # xs) = skip_none xs"
| "skip_none (Some x # xs) = x # skip_none xs"

definition scalar_text :: "goval \<Rightarrow> gostring" where
  "scalar_text v =
     (case v of VString t s \<Rightarrow> encodeString s | VInt t i \<Rightarrow> if kind_of t = KUintptr then [] else Itoa i
      | VFloat t x \<Rightarrow> FormatFloat_f x | VBool t b \<Rightarrow> (if b then ''true'' else ''false'') | _ \<Rightarrow> [])"

definition slice_vals :: "goval \<Rightarrow> goval list" where
  "slice_vals v = (case v of VSlice t (Some vs) \<Rightarrow> vs | VArray t vs \<Rightarrow> vs | _ \<Rightarrow> [])"

definition map_entries :: "goval \<Rightarrow> (goval \<times> goval) list" where
  "map_entries v = (case v of VMap t (Some es) \<Rightarrow> es | _ \<Rightarrow> [])"

definition map_types :: "gotype \<Rightarrow> (gotype \<times> gotype) option" where
  "map_types t = (case underlying t of TMap k e \<Rightarrow> Some (k, e) | _ \<Rightarrow> None)"

fun encodeFieldValue :: "nat \<Rightarrow> enc_env \<Rightarrow> rvalue \<Rightarrow> RuleDef option \<Rightarrow> gostring list \<Rightarrow> gostring enc" where
  "encodeFieldValue 0 E rv rds kp = None"
| "encodeFieldValue (Suc fuel) E rv0 rds kp =
     enc_call (apply_default E rds rv0) (\<lambda>rv.
       if (case rv of Some (ro, t, v) \<Rightarrow> ro | None \<Rightarrow> False) then Some Panics
       else let vany = (case rv of None \<Rightarrow> VNil | Some (ro, t, v) \<Rightarrow> v);
                checked = (case rds of None \<Rightarrow> Returns None
                           | Some d \<Rightarrow> runValidation vany ResponseErr schemaBody (Join kp [CHR 0x2E]) (ri_rules (rd d)))
       in enc_call checked (\<lambda>er.
         case er of
           Some e \<Rightarrow> enc_err e
         | None \<Rightarrow>
             (case rv of
                None \<Rightarrow> enc_ok ''null''
              | Some (ro, t, v) \<Rightarrow>
                  if v = VNil then enc_ok ''null''
                  else case (case rds of None \<Rightarrow> None | Some d \<Rightarrow> CustomSpecs_Find (ee_specs E) (ri_format (rd d))) of
                    Some spec \<Rightarrow>
                      enc_call (sp_Encode spec v) (\<lambda>r.
                        case r of Inl e \<Rightarrow> enc_err (ResErr kp ''typeMismatch'' e) | Inr s \<Rightarrow> enc_ok (encodeString s))
                  | None \<Rightarrow>
                      if marshaler v then
                        (if kind_of t \<in> {KSlice, KMap, KPointer} \<and> is_nil v then enc_ok ''null''
                         else enc_call (ee_MarshalJSON E v) (\<lambda>r.
                           case r of Inl e \<Rightarrow> enc_err (ResErr kp ''typeMismatch'' e) | Inr s \<Rightarrow> enc_ok s))
                      else if IsByteSlice t then
                        enc_ok (if is_nil v then ''null'' else encodeString (b64_EncodeToString (bytes_of_vals (slice_vals v))))
                      else if kind_of t = KInterface then
                        encodeFieldValue fuel E (map_option (\<lambda>u. (False, u, v)) (typeof v)) rds kp
                      else if kind_of t = KPointer then
                        encodeFieldValue fuel E
                          (case (v, elem_of t) of (VPtr u (Some (a, w)), Some e) \<Rightarrow> Some (False, e, w) | _ \<Rightarrow> None) rds kp
                      else if kind_of t = KSlice \<or> kind_of t = KArray then
                        (case elem_of t of
                           None \<Rightarrow> Some Panics
                         | Some e \<Rightarrow>
                             bind_enc (enc_map (\<lambda>(j, w). encodeFieldValue fuel E (Some (False, e, w))
                                 (case rds of None \<Rightarrow> None | Some d \<Rightarrow> rd_item d) (kp @ [nat_digits j]))
                               (zip [0..<length (slice_vals v)] (slice_vals v)))
                               (\<lambda>ss. enc_ok (''['' @ Join ss '','' @ '']'')))
                      else if kind_of t = KMap then
                        (case map_types t of
                           None \<Rightarrow> Some Panics
                         | Some (tk, te) \<Rightarrow>
                             let mrds = (case rds of None \<Rightarrow> None | Some d \<Rightarrow> rd_additional d) in
                             bind_enc (enc_map (\<lambda>(k, w).
                                 case as_string k of
                                   None \<Rightarrow> enc_err (ResErr kp ''typeMismatch'' (errNew ''map key must be of type string''))
                                 | Some ks \<Rightarrow>
                                     bind_enc (encodeFieldValue fuel E (Some (False, tk, k)) mrds (kp @ [ks])) (\<lambda>x.
                                       bind_enc (encodeFieldValue fuel E (Some (False, te, w)) mrds (kp @ [ks])) (\<lambda>y.
                                         enc_ok (x @ colon # y))))
                               (map_entries v))
                               (\<lambda>ss. enc_ok (''{'' @ Join ss '','' @ ''}'')))
                      else if kind_of t = KStruct then
                        (case rds of
                           None \<Rightarrow> Some Panics
                         | Some d \<Rightarrow>
                             if ri_format (rd d) = TimeObjectFormat then
                               (if typeof v = Some TimeType then enc_ok (encodeString (ee_timeFormat E v (ri_pattern (rd d))))
                                else enc_err (ResErr kp ''typeMismatch'' (errNew ''cannot cast time field to string'')))
                             else bind_enc (enc_map (\<lambda>c. enc_call c (\<lambda>r.
                                      case r of
                                        None \<Rightarrow> enc_ok None
                                      | Some (jkey, name, frv, fds) \<Rightarrow>
                                          bind_enc (encodeFieldValue fuel E frv fds (kp @ [name])) (\<lambda>x. enc_ok (Some (jkey @ x)))))
                                    (struct_fields t v rds))
                                    (\<lambda>ss. enc_ok (''{'' @ Join (skip_none ss) '','' @ ''}'')))
                      else enc_ok (scalar_text v))))"

subsection \<open>The body of a response\<close>

definition body_value :: "rvalue \<Rightarrow> goval option" where
  "body_value rv =
     (case rv of
        None \<Rightarrow> None
      | Some (ro, t, v) \<Rightarrow>
          if kind_of t = KPointer then (case v of VPtr u (Some (a, w)) \<Rightarrow> Some w | _ \<Rightarrow> None) else Some v)"

definition body_kind :: "rvalue \<Rightarrow> kind" where
  "body_kind rv =
     (case rv of
        None \<Rightarrow> KInvalid
      | Some (ro, t, v) \<Rightarrow>
          if kind_of t = KPointer then
            (case (v, elem_of t) of (VPtr u (Some (a, w)), Some e) \<Rightarrow> kind_of e | _ \<Rightarrow> KInvalid)
          else kind_of t)"

definition encode_body :: "nat \<Rightarrow> enc_env \<Rightarrow> RuleDef option \<Rightarrow> rvalue \<Rightarrow> gostring enc" where
  "encode_body fuel E rds body =
     (case encodeFieldValue fuel E body rds [] of
        Some (Returns (Inl e)) \<Rightarrow>
          enc_err (VReport ResponseErr schemaBody [] ''encoder'' (LibErr (Error (goerr_of (ee_msg E) e))))
      | r \<Rightarrow> r)"

definition ValidateAndEncodeResponse ::
  "nat \<Rightarrow> enc_env \<Rightarrow> RuleDef option \<Rightarrow> rvalue \<Rightarrow> gostring enc"
where
  "ValidateAndEncodeResponse fuel E rds body =
     (case rds of
        Some d \<Rightarrow>
          if (ri_required (rd d) \<or> ri_present (rd d)) \<and> body_value body = None then
            enc_err (VReport ResponseErr schemaBody [] ''required'' (errNew ''value is required for body''))
          else if ri_kind (rd d) \<noteq> body_kind body then
            enc_err (VReport ResponseErr schemaBody [] ''typeMismatch'' (errNew ''body schema and payload mismatch''))
          else encode_body fuel E rds body
      | None \<Rightarrow> encode_body fuel E rds body)"

end
