(* ===== verification/JsonLaws.thy ===== *)
theory JsonLaws
  imports JsonEncode RequestLaws
begin

section \<open>What the JSON parser guarantees\<close>

subsection \<open>A body that binds also validates\<close>

text \<open>The rules of an array of structs are run on the bound slice, and on nil when nothing is bound;
  \<open>lax_arrays\<close> says that there are none.\<close>

fun lax_arrays :: "RuleDef \<Rightarrow> bool" where
  "lax_arrays (RuleDef i it ad ps os) =
     ((case it of
         None \<Rightarrow> True
       | Some c \<Rightarrow> (IsPrimitiveKind (ri_kind (rd c)) \<or> ri_rules i = []) \<and> lax_arrays c)
      \<and> (case ad of None \<Rightarrow> True | Some c \<Rightarrow> lax_arrays c)
      \<and> list_all (\<lambda>(n, c). lax_arrays c) ps \<and> list_all lax_arrays os)"

lemma lax_item: "lax_arrays d \<Longrightarrow> rd_item d = Some c \<Longrightarrow>
    lax_arrays c \<and> (IsPrimitiveKind (ri_kind (rd c)) \<or> ri_rules (rd d) = [])"
  and lax_additional: "lax_arrays d \<Longrightarrow> rd_additional d = Some c \<Longrightarrow> lax_arrays c"
  by (cases d; simp)+

lemma lax_children: "lax_arrays d \<Longrightarrow> (n, c) \<in> set (struct_children E d) \<Longrightarrow> lax_arrays c"
  by (cases d) (fastforce simp: struct_children_def map_filter_def list_all_iff split: if_split_asm dest: map_of_SomeD)

lemma call_Returns: "bind_call c f = Returns y \<longleftrightarrow> (\<exists>x. c = Returns x \<and> f x = Returns y)"
  by (cases c) auto

lemma call_sum: "bind_call c (\<lambda>r. case r of Inl e \<Rightarrow> F e | Inr w \<Rightarrow> G w) = Returns y \<longleftrightarrow>
    (\<exists>e. c = Returns (Inl e) \<and> F e = Returns y) \<or> (\<exists>w. c = Returns (Inr w) \<and> G w = Returns y)"
proof (cases c)
  case (Returns r)
  then show ?thesis by (cases r) auto
qed simp

lemma after_rules_ok: "after_rules v sch keys rls fd k = Returns (None, fin, fd') \<longleftrightarrow>
    runValidationLazy v RequestErr sch keys rls = Returns None \<and> k = Returns (None, fin, fd')"
  by (auto simp: after_rules_def call_Returns split: if_splits)

lemma fail_not_ok [simp]: "fail sch keys r e fd \<noteq> Returns (None, fin, fd')"
  by (simp add: fail_def)

lemma decode_into_ok: "decode_into E sch keys fd v l = Returns (None, fin, fd') \<Longrightarrow>
    decode_into E sch keys NoField v l = Returns (None, fin, NoField)"
  by (auto simp: decode_into_def finished_def call_sum split: if_split_asm)

lemma walk_string_ok: "walk_string E sch keys i v fd = Returns (None, fin, fd') \<Longrightarrow>
    walk_string E sch keys i v NoField = Returns (None, fin, NoField)"
  by (auto simp: walk_string_def after_rules_ok dest: decode_into_ok)

lemma walk_custom_ok: "walk_custom E sch keys i spec v fd = Returns (None, fin, fd') \<Longrightarrow>
    walk_custom E sch keys i spec v NoField = Returns (None, fin, NoField)"
  by (auto simp: walk_custom_def after_rules_ok call_sum dest: decode_into_ok)

lemma walk_raw_ok: "walk_raw E sch keys i v fd = Returns (None, fin, fd') \<Longrightarrow>
    walk_raw E sch keys i v NoField = Returns (None, fin, NoField)"
  by (cases "as_bytes v") (auto simp: walk_raw_def after_rules_ok call_sum finished_def decodeRawJSONField_def)

lemma walk_bytes_ok: "walk_bytes E sch keys i v fd = Returns (None, fin, fd') \<Longrightarrow>
    walk_bytes E sch keys i v NoField = Returns (None, fin, NoField)"
proof -
  assume a: "walk_bytes E sch keys i v fd = Returns (None, fin, fd')"
  then obtain raw where r: "as_bytes v = Some raw" by (cases "as_bytes v") (auto simp: walk_bytes_def)
  with a obtain bs where "decodeBase64Field raw = Inr bs"
    by (cases "decodeBase64Field raw") (auto simp: walk_bytes_def)
  with a r show ?thesis by (auto simp: walk_bytes_def after_rules_ok call_Returns finished_def set_bytes_def)
qed

lemma walk_any_ok: "walk_any E P sch keys i nd fd = Returns (None, fin, fd') \<Longrightarrow>
    walk_any E P sch keys i nd NoField = Returns (None, fin, NoField)"
  by (cases "GetAnyValueFromNode P nd") (auto simp: walk_any_def after_rules_ok dest: decode_into_ok)

lemma walk_primitives_ok:
  assumes "walk_primitives E P sch keys i k nd fd = Returns (None, fin, fd')"
  shows "walk_primitives E P sch keys i k nd NoField = Returns (None, fin, NoField)"
proof -
  from assms obtain ns where ns: "fj_Array P nd = Returns (Inr ns)" by (auto simp: walk_primitives_def call_sum)
  with assms obtain q where q: "GetPrimitiveArrValsFromNode P ns k (ri_format i) = Returns q"
    by (auto simp: walk_primitives_def call_sum call_Returns)
  with assms ns obtain vs where "q = Inr vs" by (cases q) (auto simp: walk_primitives_def call_sum split: if_split_asm)
  with assms ns q show ?thesis
    by (auto simp: walk_primitives_def call_sum after_rules_ok split: if_split_asm dest: decode_into_ok)
qed

lemma walk_fields_ok:
  assumes "\<And>n c f fin f'. (n, c) \<in> set cs \<Longrightarrow> step c n f = Returns (None, fin, f') \<Longrightarrow>
      step c n NoField = Returns (None, fin, NoField)"
  shows "walk_fields step cs fd = Returns (None, fin, fd') \<Longrightarrow> walk_fields step cs NoField = Returns (None, fin, NoField)"
  using assms
proof (induction cs arbitrary: fd)
  case (Cons p cs)
  obtain n c where p: "p = (n, c)" by (cases p)
  from Cons.prems(1) obtain ix child e fn child' fd1 where
    s: "step c n child = Returns (e, fn, child')" and
    r: "(if e \<noteq> None then Returns (e, False, fd1) else walk_fields step cs fd1) = Returns (None, fin, fd')"
    by (auto simp: p call_Returns)
  then have e: "e = None" and w: "walk_fields step cs fd1 = Returns (None, fin, fd')" by (auto split: if_splits)
  have "step c n NoField = Returns (None, fn, NoField)" using Cons.prems(2)[of n c] s e p by simp
  moreover have "walk_fields step cs NoField = Returns (None, fin, NoField)"
    using Cons.IH[OF w] Cons.prems(2) by auto
  ultimately show ?case by (simp add: p getFieldStruct_def put_child_def)
qed (simp add: finished_def)

lemma walk_entries_error: "walk_entries step es (Some e) fd = Returns (er, fin, fd') \<Longrightarrow> er \<noteq> None"
proof (induction es arbitrary: e fd)
  case (Cons p es)
  then show ?case by (cases p) (auto simp: call_Returns split: if_splits)
qed auto

lemma walk_entries_ok:
  assumes "\<And>n k f fin f'. step n k f = Returns (None, fin, f') \<Longrightarrow> step n k NoField = Returns (None, fin, NoField)"
  shows "walk_entries step es None fd = Returns (None, fin, fd') \<Longrightarrow>
    walk_entries step es None NoField = Returns (None, fin, NoField)"
proof (induction es arbitrary: fd)
  case (Cons p es)
  obtain k n where p: "p = (k, n)" by (cases p)
  from Cons.prems obtain el e fn el' where s: "step n k el = Returns (e, fn, el')" and
    r: "(if e \<noteq> None then walk_entries step es e fd
         else bind_call (SetMapIndex fd k el') (walk_entries step es None)) = Returns (None, fin, fd')"
    by (auto simp: p call_Returns)
  have e: "e = None" using r walk_entries_error by (cases e) (fastforce split: if_splits)+
  with r obtain fd1 where w: "walk_entries step es None fd1 = Returns (None, fin, fd')" by (auto simp: call_Returns)
  have "step n k NoField = Returns (None, fn, NoField)" using assms s e by simp
  with Cons.IH[OF w] show ?case by (simp add: p map_elem_def SetMapIndex_def)
qed auto

lemma walk_items_ok:
  assumes "\<And>n j fin f'. step n j = Returns (None, fin, f') \<Longrightarrow> step' n j = Returns (None, fin, NoField)"
  shows "walk_items step j ns = Returns (None, fs) \<Longrightarrow> \<exists>fs'. walk_items step' j ns = Returns (None, fs')"
proof (induction ns arbitrary: j fs)
  case (Cons n ns)
  from Cons.prems obtain e fn f e' fs1 where s: "step n j = Returns (e, fn, f)" and
    r: "(if e \<noteq> None then Returns (e, []) else bind_call (walk_items step (Suc j) ns) (\<lambda>(e', fs). Returns (e', f # fs)))
        = Returns (None, fs)"
    by (auto simp: call_Returns)
  then have e: "e = None" and "\<exists>fs1. walk_items step (Suc j) ns = Returns (None, fs1)"
    by (auto simp: call_Returns split: if_splits)
  with Cons.IH obtain fs' where "walk_items step' (Suc j) ns = Returns (None, fs')" by blast
  moreover have "step' n j = Returns (None, fn, NoField)" using assms s e by simp
  ultimately show ?case by simp
qed simp

lemma no_rules_lazy [simp]: "runValidationLazy v t sch keys [] = Returns None"
  by (simp add: runValidationLazy_def)

lemma alloc_NoField [simp]: "alloc_pointer NoField = Returns NoField"
  by (simp add: alloc_pointer_def)

text \<open>A node of no special format is walked by its kind.\<close>

definition walk_kind ::
  "json_env \<Rightarrow> 'n fastjson \<Rightarrow> 'n option \<Rightarrow> gostring \<Rightarrow> RuleDef \<Rightarrow> goval \<Rightarrow> field \<Rightarrow> gostring list \<Rightarrow> walk"
where
  "walk_kind E P nd sch d v fd keys =
     (let i = rd d in
                  if ri_kind i = KStruct then
                    walk_fields (\<lambda>c name child. walkStruct E P (node_get P nd name) schemaBody c child (keys @ [name]))
                      (struct_children E d) fd
                  else if ri_kind i = KMap then
                    (case rd_additional d of
                       None \<Rightarrow> finished fd
                     | Some c \<Rightarrow>
                         bind_call (fj_Object P nd) (\<lambda>r.
                           case r of
                             Inl e \<Rightarrow> fail sch keys ''parser'' e fd
                           | Inr es \<Rightarrow>
                               bind_call (make_map fd) (\<lambda>m.
                                 walk_entries (\<lambda>n k el. walkStruct E P (Some n) schemaBody c el (keys @ [k])) es None m)))
                  else if ri_kind i = KSlice \<or> ri_kind i = KArray then
                    (case rd_item d of
                       None \<Rightarrow> Panics
                     | Some c \<Rightarrow>
                         if IsPrimitiveKind (ri_kind (rd c)) then walk_primitives E P sch keys i (ri_kind (rd c)) nd fd
                         else bind_call (slice_type fd (array_size E i)) (\<lambda>st.
                           bind_call (fj_Array P nd) (\<lambda>r.
                             case r of
                               Inl e \<Rightarrow> fail sch keys ''parser'' e fd
                             | Inr ns \<Rightarrow>
                                 if ns = [] \<and> ri_required i \<and> \<not> ri_present i
                                 then fail sch (keys @ [''0'']) ''required'' (errNew ''value must not be empty'') fd
                                 else if max_exceeded E i (length ns)
                                 then fail sch (keys @ [nat_digits (length ns)]) ''max''
                                        (Errorf ''array length must not be greater than %f'' []) fd
                                 else bind_call
                                   (walk_items (\<lambda>n j. walkStruct E P (Some n) schemaBody c
                                      (case st of None \<Rightarrow> NoField | Some (s, e) \<Rightarrow> Field Settable e (zero_of e))
                                      (keys @ [nat_digits j])) 0 ns)
                                   (\<lambda>(er, fs).
                                     if er \<noteq> None then Returns (er, False, fd)
                                     else let sv = (case st of None \<Rightarrow> VNil | Some (s, e) \<Rightarrow> VSlice s (Some (map field_val fs)))
                                          in after_rules sv sch keys (ri_rules i) fd (bind_call (set_slice fd sv) finished)))))
                  else if ri_kind i = KInterface then walk_any E P sch keys i nd fd
                  else walk_string E sch keys i v fd)"

definition plain_format :: "json_env \<Rightarrow> gostring \<Rightarrow> bool" where
  "plain_format E f \<longleftrightarrow> f \<notin> {TimeObjectFormat, CookieObjectFormat, RawJSONFormat, ByteFormat} \<and>
     CustomSpecs_Find (je_specs E) f = None"

text \<open>What happens before: the depth, the value with its default, absent optional values, pointers.\<close>

definition too_deep :: "json_env \<Rightarrow> gostring list \<Rightarrow> bool" where
  "too_deep E keys \<longleftrightarrow> length keys > (if je_MaxDepth E = 0 then 100 else je_MaxDepth E)"

definition absent :: "rule_info \<Rightarrow> goval \<Rightarrow> bool" where
  "absent i v \<longleftrightarrow> \<not> ri_required i \<and> \<not> ri_present i \<and> v = VNil"

lemma walkStruct_plain:
  assumes "\<not> too_deep E keys" and "GetNodeByKind P nd (ri_kind (rd d)) (ri_format (rd d)) = Returns (Inr v0)"
    and "\<not> absent (rd d) (node_or_default v0 (rd d))" and "alloc_pointer fd0 = Returns fd"
    and "plain_format E (ri_format (rd d))"
  shows "walkStruct E P nd sch d fd0 keys = walk_kind E P nd sch d (node_or_default v0 (rd d)) fd keys"
proof -
  let ?i = "rd d"
  have c: "(length keys > (if je_MaxDepth E = 0 then 100 else je_MaxDepth E)) = False"
    "(\<not> ri_required ?i \<and> \<not> ri_present ?i \<and> node_or_default v0 ?i = VNil) = False"
    "(ri_format ?i = TimeObjectFormat \<or> ri_format ?i = CookieObjectFormat) = False"
    "(ri_format ?i = RawJSONFormat) = False" "(ri_format ?i = ByteFormat) = False"
    "CustomSpecs_Find (je_specs E) (ri_format ?i) = None"
    using assms by (auto simp: too_deep_def absent_def plain_format_def)
  show ?thesis
    unfolding walkStruct.simps[of E P nd sch d fd0 keys] walk_kind_def Let_def
    by (simp only: c assms(2,4) bind_call.simps sum.case option.case if_False)
qed

text \<open>A walk without an error got as far as the value of its node.\<close>

lemma walkStruct_ok:
  assumes "walkStruct E P nd sch d fd0 keys = Returns (None, fin, fd')"
  obtains v0 where "\<not> too_deep E keys" "GetNodeByKind P nd (ri_kind (rd d)) (ri_format (rd d)) = Returns (Inr v0)"
proof -
  have d: "\<not> too_deep E keys"
  proof
    assume "too_deep E keys"
    with assms show False by (simp add: walkStruct.simps[of E P nd sch d fd0 keys] Let_def too_deep_def)
  qed
  with assms that show ?thesis
    by (auto simp: walkStruct.simps[of E P nd sch d fd0 keys] Let_def call_sum too_deep_def)
qed

lemma walk_kind_without_binding:
  assumes walk: "walk_kind E P nd sch d v fd keys = Returns (None, fin, fd')" and lax: "lax_arrays d"
    and IH: "\<And>c nd sch f keys fin f'. size c < size d \<Longrightarrow> walkStruct E P nd sch c f keys = Returns (None, fin, f') \<Longrightarrow>
      lax_arrays c \<Longrightarrow> walkStruct E P nd sch c NoField keys = Returns (None, fin, NoField)"
  shows "walk_kind E P nd sch d v NoField keys = Returns (None, fin, NoField)"
proof -
  let ?i = "rd d"
  note wk = walk_kind_def Let_def
  consider "ri_kind ?i = KStruct" | "ri_kind ?i = KMap" | "ri_kind ?i = KSlice \<or> ri_kind ?i = KArray"
    | "ri_kind ?i = KInterface" | "ri_kind ?i \<notin> {KStruct, KMap, KSlice, KArray, KInterface}"
    by blast
  then show ?thesis
  proof cases
    case 1
    let ?step = "\<lambda>c name child. walkStruct E P (node_get P nd name) schemaBody c child (keys @ [name])"
    from 1 walk have w: "walk_fields ?step (struct_children E d) fd = Returns (None, fin, fd')"
      by (simp add: wk)
    have "walk_fields ?step (struct_children E d) NoField = Returns (None, fin, NoField)"
      by (rule walk_fields_ok[OF _ w]) (auto intro: IH struct_children_size lax_children[OF lax])
    with 1 show ?thesis by (simp add: wk)
  next
    case 2
    show ?thesis
    proof (cases "rd_additional d")
      case None
      with 2 walk show ?thesis by (simp add: wk finished_def)
    next
      case (Some c)
      let ?step = "\<lambda>n k el. walkStruct E P (Some n) schemaBody c el (keys @ [k])"
      from 2 Some walk obtain es where es: "fj_Object P nd = Returns (Inr es)"
        by (auto simp: wk call_sum)
      with 2 Some walk obtain m where w: "walk_entries ?step es None m = Returns (None, fin, fd')"
        by (auto simp: wk call_Returns)
      have "walk_entries ?step es None NoField = Returns (None, fin, NoField)"
        by (rule walk_entries_ok[OF _ w]) (auto intro: IH size_additional[OF Some] lax_additional[OF lax Some])
      with 2 Some es show ?thesis by (simp add: wk make_map_def)
    qed
  next
    case 3
    show ?thesis
    proof (cases "rd_item d")
      case None
      with 3 walk show ?thesis by (auto simp: wk)
    next
      case (Some c)
      show ?thesis
      proof (cases "IsPrimitiveKind (ri_kind (rd c))")
        case True
        with 3 Some walk show ?thesis by (auto simp: wk walk_primitives_ok)
      next
        case False
        with lax_item[OF lax Some] have no_rules: "ri_rules ?i = []" by simp
        let ?step = "\<lambda>f n j. walkStruct E P (Some n) schemaBody c f (keys @ [nat_digits j])"
        from 3 Some False walk obtain st where st: "slice_type fd (array_size E ?i) = Returns st"
          by (cases "slice_type fd (array_size E ?i)") (auto simp: wk)
        with 3 Some False walk obtain ns where ns: "fj_Array P nd = Returns (Inr ns)"
          by (auto simp: wk call_sum)
        with 3 Some False walk st have nonempty: "\<not> (ns = [] \<and> ri_required ?i \<and> \<not> ri_present ?i)"
          by (auto simp: wk split: if_split_asm)
        from 3 Some False walk st ns nonempty have small: "\<not> max_exceeded E ?i (length ns)"
          by (auto simp: wk split: if_split_asm)
        let ?f = "case st of None \<Rightarrow> NoField | Some (s, e) \<Rightarrow> Field Settable e (zero_of e)"
        from 3 Some False walk st ns nonempty small obtain fs where
          w: "walk_items (?step ?f) 0 ns = Returns (None, fs)" and fin: "fin"
          by (auto simp: wk call_Returns no_rules after_rules_ok finished_def split: if_split_asm)
        have "\<exists>fs'. walk_items (?step NoField) 0 ns = Returns (None, fs')"
          by (rule walk_items_ok[OF _ w]) (auto intro: IH size_item[OF Some] lax_item[OF lax Some, THEN conjunct1])
        with 3 Some False ns nonempty small fin show ?thesis
          by (auto simp: wk slice_type_def set_slice_def finished_def no_rules after_rules_def)
      qed
    qed
  next
    case 4
    with walk show ?thesis by (simp add: wk walk_any_ok)
  next
    case 5
    with walk show ?thesis by (simp add: wk walk_string_ok)
  qed
qed

lemma walk_without_binding:
  assumes "walkStruct E P nd sch d fd0 keys = Returns (None, fin, fd')" and "lax_arrays d"
  shows "walkStruct E P nd sch d NoField keys = Returns (None, fin, NoField)"
  using assms
proof (induction d arbitrary: nd sch fd0 keys fin fd' rule: measure_induct_rule[of size])
  case (less d)
  note walk = less.prems(1) and lax = less.prems(2)
  let ?i = "rd d"
  from walk obtain v0 where depth: "\<not> too_deep E keys" and
    v0: "GetNodeByKind P nd (ri_kind ?i) (ri_format ?i) = Returns (Inr v0)"
    by (rule walkStruct_ok)
  let ?v = "node_or_default v0 ?i"
  note red = walkStruct.simps[of E P nd sch d fd0 keys] walkStruct.simps[of E P nd sch d NoField keys] Let_def
    depth[unfolded too_deep_def] v0
  show ?case
  proof (cases "absent ?i ?v")
    case True
    with walk show ?thesis by (simp add: red absent_def)
  next
    case False
    then have na: "\<not> (\<not> ri_required ?i \<and> \<not> ri_present ?i \<and> ?v = VNil)" by (simp add: absent_def)
    have "alloc_pointer fd0 \<noteq> Panics" using walk na by (auto simp: red)
    then obtain fd where fd: "alloc_pointer fd0 = Returns fd" by (cases "alloc_pointer fd0") auto
    note red = red na fd
    show ?thesis
    proof (cases "plain_format E (ri_format ?i)")
      case True
      have "walk_kind E P nd sch d ?v fd keys = Returns (None, fin, fd')"
        using walk walkStruct_plain[OF depth v0 False fd True, of sch] by simp
      then have "walk_kind E P nd sch d ?v NoField keys = Returns (None, fin, NoField)"
        by (rule walk_kind_without_binding[OF _ lax less.IH])
      then show ?thesis using walkStruct_plain[OF depth v0 False alloc_NoField True, of sch] by simp
    next
      case special: False
      consider (str) "ri_format ?i = TimeObjectFormat \<or> ri_format ?i = CookieObjectFormat"
        | (custom) spec where "ri_format ?i \<noteq> TimeObjectFormat" "ri_format ?i \<noteq> CookieObjectFormat"
            "CustomSpecs_Find (je_specs E) (ri_format ?i) = Some spec"
        | (raw) "ri_format ?i \<noteq> TimeObjectFormat" "ri_format ?i \<noteq> CookieObjectFormat"
            "CustomSpecs_Find (je_specs E) (ri_format ?i) = None" "ri_format ?i = RawJSONFormat \<or> ri_format ?i = ByteFormat"
        using special by (cases "CustomSpecs_Find (je_specs E) (ri_format ?i)") (auto simp: plain_format_def)
      then show ?thesis
      proof cases
        case str
        then show ?thesis using walk by (simp add: red walk_string_ok)
      next
        case custom
        then show ?thesis using walk by (simp add: red walk_custom_ok)
      next
        case raw
        then show ?thesis using walk by (auto simp: red walk_raw_ok walk_bytes_ok)
      qed
    qed
  qed
qed

text \<open>A small JSON library for the examples, with the documented behaviour of \<open>fastjson\<close>: a method on
  a nil node panics, and \<open>GetStringBytes\<close> of anything but a string is empty.\<close>

datatype jdoc = JNull | JBool bool | JInt int | JStr gostring | JArr "jdoc list" | JObj "(gostring \<times> jdoc) list"

abbreviation wrong :: "gostring \<Rightarrow> gerr + 'a" where "wrong what \<equiv> Inl (LibErr what)"

definition demo_json :: "jdoc fastjson" where
  "demo_json =
     (let num = (\<lambda>n. case n of JInt i \<Rightarrow> Inr i | _ \<Rightarrow> wrong ''not a number'')
      in \<lparr>fj_ParseBytes = (\<lambda>s. if s = ''[7]'' then Inr (JArr [JInt 7]) else wrong ''cannot parse JSON''),
          fj_Type = (\<lambda>n. case n of JNull \<Rightarrow> TypeNull | JBool b \<Rightarrow> if b then TypeTrue else TypeFalse
                     | JInt i \<Rightarrow> TypeNumber | JStr s \<Rightarrow> TypeString | JArr xs \<Rightarrow> TypeArray | JObj es \<Rightarrow> TypeObject),
          fj_Get = (\<lambda>n k. case n of JObj es \<Rightarrow> map_of es k | _ \<Rightarrow> None),
          fj_StringBytes = (\<lambda>n. case n of JStr s \<Rightarrow> Inr s | _ \<Rightarrow> wrong ''not a string''),
          fj_GetStringBytes = (\<lambda>n. case n of JStr s \<Rightarrow> s | _ \<Rightarrow> []),
          fj_Int = num, fj_Int64 = num, fj_Uint = num, fj_Uint64 = num,
          fj_Float64 = (\<lambda>n. map_res (\<lambda>i. FNum (of_int i)) (num n)),
          fj_Bool = (\<lambda>n. case n of JBool b \<Rightarrow> Inr b | _ \<Rightarrow> wrong ''not a bool''),
          fj_Array = (\<lambda>n. case n of None \<Rightarrow> Panics | Some (JArr xs) \<Rightarrow> Returns (Inr xs) | Some _ \<Rightarrow> Returns (wrong ''not an array'')),
          fj_Object = (\<lambda>n. case n of None \<Rightarrow> Panics | Some (JObj es) \<Rightarrow> Returns (Inr es) | Some _ \<Rightarrow> Returns (wrong ''not an object'')),
          fj_MarshalTo = (\<lambda>n. []), fj_String = (\<lambda>n. []),
          lib_Unquote = Inr,
          lib_Unmarshal = (\<lambda>s. if s = [] then wrong ''unexpected end of JSON input'' else Inr (str s))\<rparr>)"

definition demo_je :: json_env where
  "demo_je = \<lparr>je_specs = [], je_f2i = (\<lambda>k f. 0), je_timeParse = (\<lambda>l s. Inl (LibErr ''parsing time'')),
     je_UnmarshalJSON = (\<lambda>t v s. Returns (Inr v)), je_MaxDepth = 0, je_MaintainOrder = True\<rparr>"

definition demo_info :: "gotype \<Rightarrow> ruleOpts list \<Rightarrow> rule_info" where
  "demo_info t rls =
     \<lparr>ri_typ = t, ri_kind = kind_of t, ri_format = [], ri_pattern = [], ri_field = ''Body'', ri_fieldName = ''Body'',
      ri_defStr = [], ri_defVal = VNil, ri_rules = rls, ri_max = None, ri_required = True, ri_present = False, ri_tags = [],
      ri_accessor = \<lparr>acc_index = [0], acc_fieldType = t, acc_kind = kind_of t, acc_name = ''Body''\<rparr>,
      ri_jsonKeyBytes = preComputeJSONKey ''Body''\<rparr>"

definition demo_def :: "gotype \<Rightarrow> RuleDef" where "demo_def t = RuleDef (demo_info t []) None None [] []"

definition demo_array :: "gotype \<Rightarrow> ruleOpts list \<Rightarrow> RuleDef" where
  "demo_array e rls = RuleDef (demo_info (TSlice e) rls) (Some (demo_def e)) None [] []"

text \<open>C21. A body that \<open>ValidateAndBind\<close> accepts is one that \<open>Validate\<close> accepts: whatever the
  rules, the walk without binding succeeds on the same body, as long as no array of objects has
  rules of its own.\<close>

theorem bound_body_is_valid:
  assumes "ValidateAndDecodeRequest E P M body True d rs = Returns (None, rs')" and "lax_arrays d"
  shows "ValidateAndDecodeRequest E P M body False d rs0 = Returns (None, rs0)"
proof -
  let ?bs = "take (body_limit M) body"
  obtain v er where p: "PrimitiveFromStr (ri_kind (rd d)) ?bs = (v, er)" by (cases "PrimitiveFromStr (ri_kind (rd d)) ?bs")
  note def = ValidateAndDecodeRequest_def Let_def p
  show ?thesis
  proof (cases "?bs = []")
    case True
    with assms(1) show ?thesis by (auto simp: def split: if_split_asm)
  next
    case False
    with assms(1) have er: "er = None" by (cases er) (auto simp: def)
    with False assms(1) obtain prim where prim: "IsPrimitive v = Returns prim"
      by (cases "IsPrimitive v") (auto simp: def)
    show ?thesis
    proof (cases prim)
      case True
      with False er prim assms(1) show ?thesis
        by (auto simp: def call_Returns split: if_split_asm)
    next
      case np: False
      with False er prim assms(1) obtain pv where pv: "fj_ParseBytes P ?bs = Inr pv"
        by (cases "fj_ParseBytes P ?bs") (auto simp: def)
      with np False er prim assms(1) have "decode_document E P pv True d rs = Returns (None, rs')" by (simp add: def)
      then obtain fd e fin fd' where w: "walkStruct E P (Some pv) schemaBody d fd [] = Returns (e, fin, fd')"
        and r: "(if e \<noteq> None then e else if fin then None
                 else Some (body_error ''parser'' (errNew ''couldn't parse request body''))) = None"
        by (auto simp: decode_document_def Let_def call_Returns)
      then have "e = None" "fin" by (auto split: if_split_asm)
      with w have "walkStruct E P (Some pv) schemaBody d NoField [] = Returns (None, True, NoField)"
        using walk_without_binding[OF _ assms(2)] by simp
      then show ?thesis using np False er prim pv
        by (simp add: def decode_document_def request_field_def getFieldStruct_def put_child_def request_of_def)
    qed
  qed
qed

definition demo_request :: "gotype \<Rightarrow> gotype" where
  "demo_request t = TNamed ''Request'' [] [] (TStruct [SField ''Body'' t [] False])"

definition demo_body_request :: "goval list option \<Rightarrow> goval" where
  "demo_body_request vs = VStruct (demo_request (TSlice TInt)) [VSlice (TSlice TInt) vs]"

lemma demo_json_bound:
  "ValidateAndDecodeRequest demo_je demo_json 40 ''[7]'' True (demo_array TInt []) (Some (demo_body_request None))
     = Returns (None, Some (demo_body_request (Some [intv 7])))"
  by code_simp

theorem bound_body_is_valid_witness:
  "ValidateAndDecodeRequest demo_je demo_json 40 ''[7]'' False (demo_array TInt []) None = Returns (None, None)"
  by (rule bound_body_is_valid[OF demo_json_bound]) code_simp

text \<open>Without binding, the rules of an array of objects are run on nil instead of the array: when
  they reject nil, as \<open>required\<close> does, \<open>Validate\<close> rejects every body, also those that
  \<open>ValidateAndBind\<close> accepts.\<close>

theorem object_array_validated_as_nil:
  assumes "ri_kind (rd d) = KSlice" and "plain_format E (ri_format (rd d))" and "rd_item d = Some c"
    and "\<not> IsPrimitiveKind (ri_kind (rd c))" and "fj_Type P n \<noteq> TypeNull"
    and "runValidationLazy VNil RequestErr sch keys (ri_rules (rd d)) \<noteq> Returns None"
  shows "walkStruct E P (Some n) sch d NoField keys \<noteq> Returns (None, fin, fd)"
proof
  assume w: "walkStruct E P (Some n) sch d NoField keys = Returns (None, fin, fd)"
  then obtain v0 where depth: "\<not> too_deep E keys" and
    v0: "GetNodeByKind P (Some n) (ri_kind (rd d)) (ri_format (rd d)) = Returns (Inr v0)"
    by (rule walkStruct_ok)
  have "v0 = ArrayDefinition"
    using v0 assms(1,2,5) by (simp add: GetNodeByKind_def scalar_kinds_def plain_format_def)
  then have "\<not> absent (rd d) (node_or_default v0 (rd d))"
    by (simp add: absent_def node_or_default_def ArrayDefinition_def JsonDefinition_def EOF_val_def)
  from walkStruct_plain[OF depth v0 this alloc_NoField assms(2)] w
  have k: "walk_kind E P (Some n) sch d (node_or_default v0 (rd d)) NoField keys = Returns (None, fin, fd)" by simp
  then obtain ns where ns: "fj_Array P (Some n) = Returns (Inr ns)"
    using assms(1,3,4) by (auto simp: walk_kind_def Let_def slice_type_def call_sum)
  with k show False
    using assms(1,3,4,6)
    by (auto simp: walk_kind_def Let_def slice_type_def after_rules_ok call_Returns split: if_split_asm)
qed

definition demo_required :: ruleOpts where
  "demo_required = \<lparr>ro_typ = TAny, ro_kind = KSlice, ro_rule = ''required'', ro_args = [],
     ro_dator = (\<lambda>v. Returns (if v = VNil then Some (errNew ''value is required'') else None))\<rparr>"

abbreviation "empty_object \<equiv> TStruct []"

lemma plain_demo: "plain_format demo_je []"
  by (simp add: plain_format_def TimeObjectFormat_def CookieObjectFormat_def RawJSONFormat_def ByteFormat_def
      demo_je_def CustomSpecs_Find_def)

theorem object_array_validated_as_nil_witness:
  "walkStruct demo_je demo_json (Some (JArr [JObj []])) schemaBody (demo_array empty_object [demo_required]) NoField []
     \<noteq> Returns (None, True, NoField)"
proof (rule object_array_validated_as_nil[where c = "demo_def empty_object"])
  show "runValidationLazy VNil RequestErr schemaBody [] (ri_rules (rd (demo_array empty_object [demo_required]))) \<noteq> Returns None"
    by (simp add: demo_array_def demo_info_def demo_required_def runValidationLazy_def errors_Join_def)
  show "plain_format demo_je (ri_format (rd (demo_array empty_object [demo_required])))"
    by (simp add: demo_array_def demo_info_def plain_demo)
qed (simp_all add: demo_array_def demo_info_def demo_def_def IsPrimitiveKind_def demo_json_def Let_def)

subsection \<open>What is not checked, and what panics\<close>

text \<open>The rules of a struct field are never run, bound or not: the walk is the same without
  them.\<close>

theorem struct_rules_never_run:
  assumes "ri_kind (rd d) = KStruct" and "plain_format E (ri_format (rd d))"
  shows "walkStruct E P nd sch (rd_update (ri_rules_update (\<lambda>_. rls)) d) fd keys = walkStruct E P nd sch d fd keys"
proof -
  obtain i it ad ps os where d: "d = RuleDef i it ad ps os" by (cases d)
  have c: "(ri_format i = TimeObjectFormat \<or> ri_format i = CookieObjectFormat) = False" "(ri_format i = RawJSONFormat) = False"
    "(ri_format i = ByteFormat) = False" "CustomSpecs_Find (je_specs E) (ri_format i) = None" "ri_kind i = KStruct"
    using assms by (auto simp: plain_format_def d)
  have sel: "ri_typ (i\<lparr>ri_rules := rls\<rparr>) = ri_typ i" "ri_kind (i\<lparr>ri_rules := rls\<rparr>) = ri_kind i"
    "ri_format (i\<lparr>ri_rules := rls\<rparr>) = ri_format i" "ri_required (i\<lparr>ri_rules := rls\<rparr>) = ri_required i"
    "ri_present (i\<lparr>ri_rules := rls\<rparr>) = ri_present i" "ri_defVal (i\<lparr>ri_rules := rls\<rparr>) = ri_defVal i"
    by simp_all
  show ?thesis
    unfolding walkStruct.simps[of E P nd sch "rd_update (ri_rules_update (\<lambda>_. rls)) d" fd keys]
      walkStruct.simps[of E P nd sch d fd keys] Let_def node_or_default_def struct_children_def
    unfolding d rd_update.simps RuleDef.sel sel c option.case if_False
    by (simp only: if_True simp_thms)
qed

theorem struct_rules_never_run_witness:
  "walkStruct demo_je demo_json (Some (JObj [])) schemaBody
     (rd_update (ri_rules_update (\<lambda>_. [demo_required])) (demo_def empty_object)) NoField [] = Returns (None, True, NoField)"
proof -
  have "ri_kind (rd (demo_def empty_object)) = KStruct" "plain_format demo_je (ri_format (rd (demo_def empty_object)))"
    by (simp_all add: demo_def_def demo_info_def plain_demo)
  moreover have "walkStruct demo_je demo_json (Some (JObj [])) schemaBody (demo_def empty_object) NoField [] = Returns (None, True, NoField)"
    by code_simp
  ultimately show ?thesis using struct_rules_never_run by metis
qed

text \<open>A required array that is missing from the body panics: the parser asks a nil node for its
  elements. Only an optional or a null one is answered with an error.\<close>

theorem missing_array_panics:
  assumes "fj_Array P None = Panics" and "ri_kind (rd d) = KSlice" and "plain_format E (ri_format (rd d))"
    and "ri_required (rd d)" and "ri_defVal (rd d) = VNil" and "rd_item d \<noteq> None" and "\<not> too_deep E keys"
  shows "walkStruct E P None sch d NoField keys = Panics"
proof -
  from assms(6) obtain c where c: "rd_item d = Some c" by blast
  have v: "GetNodeByKind P None (ri_kind (rd d)) (ri_format (rd d)) = Returns (Inr EOF_val)"
    by (simp add: GetNodeByKind_def)
  have "\<not> absent (rd d) (node_or_default EOF_val (rd d))" using assms(4) by (simp add: absent_def)
  from walkStruct_plain[OF assms(7) v this alloc_NoField assms(3)]
  show ?thesis using assms(1,2) c by (simp add: walk_kind_def Let_def walk_primitives_def slice_type_def)
qed

theorem missing_array_panics_witness:
  "walkStruct demo_je demo_json None schemaBody (demo_array TInt []) NoField [] = Panics"
  by (rule missing_array_panics)
    (simp_all add: demo_json_def Let_def demo_array_def demo_info_def plain_demo too_deep_def)

text \<open>A field of type \<open>any\<close> rejects every array and object: their JSON is read with
  \<open>GetStringBytes\<close>, which is empty for them.\<close>

theorem any_rejects_composites:
  assumes "fj_Type P n \<in> {TypeArray, TypeObject}" and "fj_GetStringBytes P n = []" and "lib_Unmarshal P [] = Inl e"
    and "ri_kind (rd d) = KInterface" and "plain_format E (ri_format (rd d))" and "\<not> too_deep E keys"
  shows "walkStruct E P (Some n) sch d NoField keys = fail sch keys ''parser'' e NoField"
proof -
  have v: "GetNodeByKind P (Some n) (ri_kind (rd d)) (ri_format (rd d)) = Returns (Inr InterfaceDefinition)"
    using assms(1,4) by (auto simp: GetNodeByKind_def scalar_kinds_def)
  have "\<not> absent (rd d) (node_or_default InterfaceDefinition (rd d))"
    by (simp add: absent_def node_or_default_def InterfaceDefinition_def JsonDefinition_def EOF_val_def)
  moreover have "GetAnyValueFromNode P (Some n) = Inl e"
    using assms(1-3) by (auto simp: GetAnyValueFromNode_def any_of_node_def)
  ultimately show ?thesis
    using walkStruct_plain[OF assms(6) v _ alloc_NoField assms(5)] assms(4)
    by (simp add: walk_kind_def Let_def walk_any_def)
qed

theorem any_rejects_composites_witness:
  "walkStruct demo_je demo_json (Some (JArr [JInt 1])) schemaBody (demo_def TAny) NoField []
     = fail schemaBody [] ''parser'' (LibErr ''unexpected end of JSON input'') NoField"
  by (rule any_rejects_composites)
    (simp_all add: demo_json_def Let_def demo_def_def demo_info_def plain_demo too_deep_def)

end
