(* ===== verification/EncodeLaws.thy ===== *)
theory EncodeLaws
  imports JsonLaws
begin

section \<open>What the JSON encoder guarantees\<close>

subsection \<open>Strings read back\<close>

definition json_rune :: "rune \<Rightarrow> bool" where
  "json_rune r \<longleftrightarrow> ValidRune r \<and> (r \<ge> 32 \<or> r \<in> {9, 10, 13})"

lemma runes_concat: "list_all ValidRune rs \<Longrightarrow> runes (concat (map EncodeRune rs)) = rs"
  by (induction rs) (simp_all add: runes_Encode)

lemma json_string_high:
  "list_all (\<lambda>c. byte c \<ge> 128) bs \<Longrightarrow> json_string (bs @ s) = map_option (\<lambda>(t, r). (bs @ t, r)) (json_string s)"
proof (induction bs)
  case (Cons c bs)
  then have "byte c \<noteq> 34" "byte c \<noteq> 92" by auto
  then have "c \<noteq> CHR 0x22" "c \<noteq> CHR 0x5C" by auto
  with Cons show ?case by (auto simp: option.map_comp comp_def split_beta)
qed (simp add: split_beta option.map_id)

lemma encode_high: "ValidRune r \<Longrightarrow> r \<ge> 128 \<Longrightarrow> list_all (\<lambda>c. byte c \<ge> 128) (EncodeRune r)"
  by (auto simp: EncodeRune_def Let_def ValidRune_def)

lemma escape_reads_back:
  assumes "json_rune r"
  shows "json_string (escape_rune r @ s) = map_option (\<lambda>(t, q). (EncodeRune r @ t, q)) (json_string s)"
proof (cases "r < 128")
  case True
  then have e: "EncodeRune r = [char_of r]" by (simp add: EncodeRune_def Let_def ValidRune_def)
  have enc: "EncodeRune 34 = [CHR 0x22]" "EncodeRune 92 = [CHR 0x5C]" "EncodeRune 10 = [CHR 0x0A]"
    "EncodeRune 13 = [CHR 0x0D]" "EncodeRune 9 = [CHR 0x09]"
    by (simp_all add: EncodeRune_def Let_def ValidRune_def char_of_def bit_simps)
  consider "r = 34" | "r = 92" | "r = 10" | "r = 13" | "r = 9" | "r \<ge> 32" "r \<noteq> 34" "r \<noteq> 92"
    using assms by (auto simp: json_rune_def)
  then show ?thesis
  proof cases
    case 6
    then have "escape_rune r = [char_of r]" by (simp add: escape_rune_def e)
    moreover have "byte (char_of r :: char) = r" using True by simp
    then have "(char_of r :: char) \<noteq> CHR 0x22" "(char_of r :: char) \<noteq> CHR 0x5C" "\<not> byte (char_of r :: char) < 32"
      using 6 True by (auto dest: arg_cong[where f = byte])
    ultimately show ?thesis by (simp add: e)
  qed (simp_all add: enc escape_rune_def)
next
  case False
  then have "escape_rune r = EncodeRune r" by (simp add: escape_rune_def)
  with False assms json_string_high[OF encode_high] show ?thesis by (simp add: json_rune_def)
qed

text \<open>A string that is the UTF-8 of its code points, none of them a control character other than
  tab, newline and carriage return, is encoded as a JSON string that reads back to it.\<close>

theorem encoded_string_reads_back:
  assumes "list_all json_rune rs" and "s = concat (map EncodeRune rs)"
  shows "\<exists>body. encodeString s = CHR 0x22 # body \<and> json_string (body @ rest) = Some (s, rest)"
proof -
  have v: "list_all ValidRune rs" using assms(1) by (auto simp: list_all_iff json_rune_def)
  have "json_string (concat (map escape_rune rs) @ CHR 0x22 # rest) = Some (concat (map EncodeRune rs), rest)"
    using assms(1) by (induction rs) (simp_all add: escape_reads_back)
  then show ?thesis using assms(2) by (simp add: encodeString_def runes_concat[OF v])
qed

theorem encoded_string_reads_back_witness:
  "\<exists>body. encodeString (concat (map EncodeRune [34, 233, 8364, 10])) = CHR 0x22 # body
     \<and> json_string (body @ '','') = Some (concat (map EncodeRune [34, 233, 8364, 10]), '','')"
  by (rule encoded_string_reads_back[of "[34, 233, 8364, 10]"]) (simp_all add: json_rune_def ValidRune_def)

subsection \<open>Bytes read back\<close>

lemma escape_plain: "byte c < 128 \<Longrightarrow> byte c \<ge> 32 \<Longrightarrow> byte c \<noteq> 34 \<Longrightarrow> byte c \<noteq> 92 \<Longrightarrow> escape_rune (byte c) = [c]"
  by (auto simp: escape_rune_def EncodeRune_def Let_def ValidRune_def)

lemma b64_plain_char: "c \<in> set (b64_EncodeToString s) \<Longrightarrow> byte c < 128 \<and> byte c \<ge> 32 \<and> byte c \<noteq> 34 \<and> byte c \<noteq> 92"
proof -
  assume "c \<in> set (b64_EncodeToString s)"
  then have "b64_val c \<noteq> None \<or> c = pad"
    by (induction s rule: b64_EncodeToString.induct) (auto simp: b64_digit)
  then show ?thesis by (auto simp: b64_val_def pad_def Let_def split: if_split_asm)
qed

lemma encodeString_b64: "encodeString (b64_EncodeToString bs) = CHR 0x22 # b64_EncodeToString bs @ [CHR 0x22]"
proof -
  let ?s = "b64_EncodeToString bs"
  have "runes ?s = map byte ?s" using b64_plain_char by (intro runes_ascii) (auto simp: list_all_iff)
  moreover have "concat (map (\<lambda>c. escape_rune (byte c)) t) = t" if "set t \<subseteq> set ?s" for t
    using that by (induction t) (auto simp: escape_plain dest: b64_plain_char)
  ultimately show ?thesis by (simp add: encodeString_def comp_def)
qed

lemma decode_encoded: "decodeBase64Field (encodeString (b64_EncodeToString bs)) = Inr bs"
  by (simp add: encodeString_b64 decodeBase64Field_def b64_roundtrip)

subsection \<open>Fuel\<close>

text \<open>More fuel does not change the result.\<close>

definition enc_le :: "'a enc \<Rightarrow> 'a enc \<Rightarrow> bool" where "enc_le x y \<longleftrightarrow> x = None \<or> x = y"

lemma enc_le_refl [simp]: "enc_le x x" "enc_le None x"
  by (simp_all add: enc_le_def)

lemma enc_le_bind: "enc_le x y \<Longrightarrow> (\<And>a. enc_le (f a) (g a)) \<Longrightarrow> enc_le (bind_enc x f) (bind_enc y g)"
proof -
  assume x: "enc_le x y" and f: "\<And>a. enc_le (f a) (g a)"
  show ?thesis
  proof (cases x)
    case (Some c)
    with x have y: "y = Some c" by (simp add: enc_le_def)
    show ?thesis
    proof (cases c)
      case (Returns r)
      with f Some y show ?thesis by (cases r) simp_all
    qed (simp add: Some y)
  qed simp
qed

lemma enc_le_call: "(\<And>a. enc_le (f a) (g a)) \<Longrightarrow> enc_le (enc_call c f) (enc_call c g)"
  by (cases c) auto

lemma enc_le_map: "(\<And>a. enc_le (f a) (g a)) \<Longrightarrow> enc_le (enc_map f xs) (enc_map g xs)"
  by (induction xs) (auto intro!: enc_le_bind)

lemma enc_le_if: "enc_le x y \<Longrightarrow> enc_le x' y' \<Longrightarrow> enc_le (if b then x else x') (if b then y else y')"
  by simp

lemma enc_le_option: "enc_le x y \<Longrightarrow> (\<And>a. enc_le (f a) (g a)) \<Longrightarrow>
    enc_le (case z of None \<Rightarrow> x | Some a \<Rightarrow> f a) (case z of None \<Rightarrow> y | Some a \<Rightarrow> g a)"
  by (cases z) auto

lemma enc_le_sum: "(\<And>a. enc_le (f a) (f' a)) \<Longrightarrow> (\<And>a. enc_le (g a) (g' a)) \<Longrightarrow>
    enc_le (case z of Inl a \<Rightarrow> f a | Inr a \<Rightarrow> g a) (case z of Inl a \<Rightarrow> f' a | Inr a \<Rightarrow> g' a)"
  by (cases z) auto

lemma enc_le_prod: "(\<And>a b. enc_le (f a b) (g a b)) \<Longrightarrow> enc_le (case z of (a, b) \<Rightarrow> f a b) (case z of (a, b) \<Rightarrow> g a b)"
  by (cases z) auto

lemma encode_more_fuel: "enc_le (encodeFieldValue n E rv rds kp) (encodeFieldValue (Suc n) E rv rds kp)"
proof (induction n arbitrary: rv rds kp)
  case (Suc n)
  show ?case
    unfolding encodeFieldValue.simps(2)[of n E rv rds kp] encodeFieldValue.simps(2)[of "Suc n" E rv rds kp] Let_def
    by (intro enc_le_call enc_le_if enc_le_option enc_le_sum enc_le_prod enc_le_bind enc_le_map enc_le_refl Suc)
qed (simp only: encodeFieldValue.simps(1) enc_le_refl)

text \<open>Rules without a default anywhere.\<close>

fun no_defaults :: "RuleDef \<Rightarrow> bool" where
  "no_defaults (RuleDef i it ad ps os) =
     (ri_defStr i = [] \<and> (case it of None \<Rightarrow> True | Some c \<Rightarrow> no_defaults c)
      \<and> (case ad of None \<Rightarrow> True | Some c \<Rightarrow> no_defaults c) \<and> list_all no_defaults os)"

definition free_of_defaults :: "RuleDef option \<Rightarrow> bool" where
  "free_of_defaults rds = (case rds of None \<Rightarrow> True | Some d \<Rightarrow> no_defaults d)"

lemma free_parts:
  "free_of_defaults (Some d) \<Longrightarrow> ri_defStr (rd d) = [] \<and> free_of_defaults (rd_item d) \<and> free_of_defaults (rd_additional d)
     \<and> (\<forall>c \<in> set (rd_ordered d). free_of_defaults (Some c))"
  by (cases d) (auto simp: free_of_defaults_def list_all_iff)

definition weight :: "rvalue \<Rightarrow> nat" where
  "weight rv = (case rv of None \<Rightarrow> 0 | Some (ro, t, v) \<Rightarrow> 3 * size v + (if kind_of t = KInterface then 2
     else if kind_of t = KPointer \<or> kind_of t = KStruct then 1 else 0))"

definition well_typed_rvalue :: "rvalue \<Rightarrow> bool" where
  "well_typed_rvalue rv = (case rv of None \<Rightarrow> True | Some (ro, t, v) \<Rightarrow> well_typed v)"

text \<open>A value inside another one.\<close>

definition inside :: "goval \<Rightarrow> goval \<Rightarrow> bool" where
  "inside w v \<longleftrightarrow> size w < size v \<and> (well_typed v \<longrightarrow> well_typed w)"

lemma well_typed_dynamic: "well_typed v \<Longrightarrow> typeof v = Some t \<Longrightarrow> kind_of t \<noteq> KInterface"
  by (cases v) (auto simp: kind_class_defs)

lemma inside_slice: "w \<in> set (slice_vals v) \<Longrightarrow> inside w v"
proof -
  assume a: "w \<in> set (slice_vals v)"
  have "w \<in> set vs \<Longrightarrow> size w \<le> size_list size vs" for vs by (simp add: size_list_estimation')
  with a show "inside w v"
    by (fastforce simp: slice_vals_def inside_def list_all_iff split: goval.splits option.splits)
qed

lemma inside_pointer: "v = VPtr u (Some (a, w)) \<Longrightarrow> inside w v"
  by (simp add: inside_def)

lemma inside_map: "(k, w) \<in> set (map_entries v) \<Longrightarrow> inside k v \<and> inside w v"
proof -
  assume a: "(k, w) \<in> set (map_entries v)"
  have "(k, w) \<in> set es \<Longrightarrow> size k \<le> size_list (size_prod size size) es \<and> size w \<le> size_list (size_prod size size) es" for es
    using size_list_estimation'[of "(k, w)" es] by fastforce
  with a show ?thesis
    by (fastforce simp: map_entries_def inside_def list_all_iff split: goval.splits option.splits)
qed

lemma inside_field: "field_at ix v = Returns w \<Longrightarrow> ix \<noteq> [] \<Longrightarrow> inside w v"
proof (induction ix v rule: field_at.induct)
  case (2 i ix v)
  have one: "inside w v" if "field_at ix x = Returns w" "inside x v" "\<And>j jx. ix = j # jx \<Longrightarrow> inside w x" for x
    using that by (cases ix) (auto simp: inside_def)
  have elem: "i < length vs \<Longrightarrow> size (vs ! i) \<le> size_list size vs" for vs :: "goval list"
    using size_list_estimation'[of "vs ! i" vs "size (vs ! i)" size] by simp
  from 2(3) consider
    (struct) t vs where "v = VStruct t vs" "i < length vs" "field_at ix (vs ! i) = Returns w"
    | (ptr) t a u vs where "v = VPtr t (Some (a, VStruct u vs))" "i < length vs" "field_at ix (vs ! i) = Returns w"
    by (auto split: goval.splits option.splits if_splits)
  then show ?case
  proof cases
    case struct
    then have "inside (vs ! i) v" using elem by (fastforce simp: inside_def list_all_length)
    with struct 2 show ?thesis by (intro one[of "vs ! i"]) auto
  next
    case ptr
    then have "inside (vs ! i) v" using elem by (fastforce simp: inside_def list_all_length)
    with ptr 2 show ?thesis by (intro one[of "vs ! i"]) auto
  qed
qed simp

lemma vf_add_index: "\<forall>g \<in> set (fst st). Index g \<noteq> [] \<Longrightarrow> ix \<noteq> [] \<Longrightarrow> \<forall>g \<in> set (fst (vf_add ix f st)). Index g \<noteq> []"
  by (auto simp: vf_add_def Let_def unname_def split: option.splits)

lemma vf_walk_index: "\<forall>g \<in> set (fst st). StructField.Index g \<noteq> [] \<Longrightarrow>
    \<forall>g \<in> set (fst (vf_walk ix i fs st)). StructField.Index g \<noteq> []"
proof (induction ix i fs st rule: vf_walk.induct)
  case (2 ix i f fs st)
  let ?st1 = "vf_add (ix @ [i]) f st" and ?t = "struct_elem (sf_type f)"
  have 1: "\<forall>g \<in> set (fst ?st1). StructField.Index g \<noteq> []" using vf_add_index[OF 2(3), of "ix @ [i]" f] by simp
  then have "\<forall>g \<in> set (fst (if sf_embedded f \<and> kind_of ?t = KStruct
      then vf_walk (ix @ [i]) 0 (fields_of ?t) ?st1 else ?st1)). StructField.Index g \<noteq> []"
    using 2(1)[OF refl refl _ 1] by simp
  from 2(2)[OF refl refl refl this] show ?case by (simp only: vf_walk.simps Let_def)
qed simp

lemma VisibleFields_index: "f \<in> set (VisibleFields t) \<Longrightarrow> Index f \<noteq> []"
  using vf_walk_index[of "([], Map.empty)" "[]" 0 "fields_of t"] by (auto simp: VisibleFields_def)

text \<open>What the fields of a struct hand on.\<close>

definition handed_on :: "goval \<Rightarrow> RuleDef option \<Rightarrow> (gostring \<times> gostring \<times> rvalue \<times> RuleDef option) option call \<Rightarrow> bool" where
  "handed_on v rds c \<longleftrightarrow>
     (\<forall>jk n ro t w fds. c = Returns (Some (jk, n, Some (ro, t, w), fds)) \<longrightarrow> inside w v)
     \<and> (\<forall>jk n frv fds. c = Returns (Some (jk, n, frv, fds)) \<longrightarrow> free_of_defaults rds \<longrightarrow> free_of_defaults fds)"

lemma field_named_inside: "field_named v n = Returns (Some (ro, t, w)) \<Longrightarrow> inside w v"
proof -
  assume "field_named v n = Returns (Some (ro, t, w))"
  then obtain f where f: "FieldByName v n = Returns (Some (f, w))"
    by (auto simp: field_named_def call_Returns rvalue_of_field_def split: option.split_asm prod.split_asm)
  then obtain tv where "find_field tv n = Some f" "field_at (StructField.Index f) v = Returns w"
    by (auto simp: FieldByName_def call_Returns split: option.split_asm if_split_asm)
  then show "inside w v"
    using VisibleFields_index[of f tv] by (intro inside_field) (auto simp: find_field_def find_Some_iff)
qed

lemma index_field_nonempty: "index_field t ix = Some f \<Longrightarrow> ix \<noteq> []"
  by (cases ix) auto

lemma rule_field_inside: "rule_field u v d = Returns (Some (ro, t, w)) \<Longrightarrow> inside w v"
  by (auto simp: rule_field_def Let_def call_Returns rvalue_of_field_def split: if_split_asm option.split_asm
      intro: field_named_inside inside_field index_field_nonempty)

lemma struct_fields_hand_on: "c \<in> set (struct_fields t v rds) \<Longrightarrow> handed_on v rds c"
proof -
  assume c: "c \<in> set (struct_fields t v rds)"
  have plain: "handed_on v rds (plain_field v f)" for f
    by (auto simp: handed_on_def plain_field_def Let_def call_Returns free_of_defaults_def
        split: if_split_asm intro: field_named_inside)
  have rule: "handed_on v rds (schema_field t v d)" if "rds = Some r" "d \<in> set (rd_ordered r)" for r d
    using that free_parts[of r]
    by (auto simp: handed_on_def schema_field_def call_Returns split: if_split_asm intro: rule_field_inside)
  from c show ?thesis using plain rule
    by (auto simp: struct_fields_def split: option.split_asm if_split_asm)
qed

subsection \<open>Enough fuel\<close>

definition returns :: "'a enc \<Rightarrow> bool" where "returns x \<longleftrightarrow> x \<noteq> None"

lemma returns_Some [simp]: "returns (Some x)"
  by (simp add: returns_def)

lemma returns_bind: "returns x \<Longrightarrow> (\<And>a. returns (f a)) \<Longrightarrow> returns (bind_enc x f)"
proof -
  assume x: "returns x" and f: "\<And>a. returns (f a)"
  then obtain c where c: "x = Some c" by (auto simp: returns_def)
  show ?thesis
  proof (cases c)
    case (Returns r)
    with c f show ?thesis by (cases r) simp_all
  qed (simp add: c)
qed

lemma returns_call: "(\<And>a. c = Returns a \<Longrightarrow> returns (f a)) \<Longrightarrow> returns (enc_call c f)"
  by (cases c) simp_all

lemma returns_map: "(\<And>a. a \<in> set xs \<Longrightarrow> returns (f a)) \<Longrightarrow> returns (enc_map f xs)"
  by (induction xs) (auto intro!: returns_bind)

lemma returns_if: "(b \<Longrightarrow> returns x) \<Longrightarrow> (\<not> b \<Longrightarrow> returns y) \<Longrightarrow> returns (if b then x else y)"
  by simp

lemma returns_option: "(z = None \<Longrightarrow> returns x) \<Longrightarrow> (\<And>a. z = Some a \<Longrightarrow> returns (f a)) \<Longrightarrow>
    returns (case z of None \<Rightarrow> x | Some a \<Rightarrow> f a)"
  by (cases z) auto

lemma returns_sum: "(\<And>a. returns (f a)) \<Longrightarrow> (\<And>a. returns (g a)) \<Longrightarrow> returns (case z of Inl a \<Rightarrow> f a | Inr a \<Rightarrow> g a)"
  by (cases z) auto

lemma returns_prod: "(\<And>a b. z = (a, b) \<Longrightarrow> returns (f a b)) \<Longrightarrow> returns (case z of (a, b) \<Rightarrow> f a b)"
  by (cases z) auto

lemma encode_returns:
  "free_of_defaults rds \<Longrightarrow> well_typed_rvalue rv \<Longrightarrow> weight rv < n \<Longrightarrow> returns (encodeFieldValue n E rv rds kp)"
proof (induction n arbitrary: rv rds kp)
  case (Suc n)
  have d: "apply_default E rds rv = Returns rv"
    using Suc.prems(1) free_parts by (auto simp: apply_default_def split: option.splits prod.splits)
  have child: "returns (encodeFieldValue n E (Some (ro, t, w)) fds kp')"
    if "rv = Some (ro', t', v)" "inside w v" "free_of_defaults fds" for ro t w fds kp' ro' t' v
    using that Suc.prems(2,3) by (intro Suc.IH) (auto simp: weight_def well_typed_rvalue_def inside_def split: if_split_asm)
  have invalid: "returns (encodeFieldValue n E None fds kp')" if "rv = Some (ro', t', v)" "kind_of t' \<in> {KInterface, KPointer, KStruct}" "free_of_defaults fds" for fds kp' ro' t' v
    using that Suc.prems(3) by (intro Suc.IH) (auto simp: weight_def well_typed_rvalue_def split: if_split_asm)
  have sub: "free_of_defaults (case rds of None \<Rightarrow> None | Some d \<Rightarrow> rd_item d)"
    "free_of_defaults (case rds of None \<Rightarrow> None | Some d \<Rightarrow> rd_additional d)"
    using Suc.prems(1) free_parts by (auto simp: free_of_defaults_def[of None] split: option.split)
  have interface: "returns (encodeFieldValue n E (map_option (\<lambda>u. (False, u, v)) (typeof v)) rds kp)"
    if "rv = Some (ro, t, v)" "kind_of t = KInterface" for ro t v
    using that Suc.prems well_typed_dynamic[of v]
    by (intro Suc.IH) (auto simp: weight_def well_typed_rvalue_def split: option.split)
  have pointer: "returns (encodeFieldValue n E
      (case (v, elem_of t) of (VPtr u (Some (a, w)), Some e) \<Rightarrow> Some (False, e, w) | _ \<Rightarrow> None) rds kp)"
    if "rv = Some (ro, t, v)" "kind_of t = KPointer" for ro t v
    using that Suc.prems(1) invalid[OF that(1)] child[OF that(1)] inside_pointer[of v]
    by (auto split: goval.split option.split)
  have field: "returns (encodeFieldValue n E frv fds kp')"
    if "rv = Some (ro, t, v)" "kind_of t = KStruct" "Returns (Some (jk, name, frv, fds)) \<in> set (struct_fields t v rds)"
    for ro t v jk name frv fds kp'
  proof -
    from struct_fields_hand_on[OF that(3)] Suc.prems(1) have f: "free_of_defaults fds"
      and i: "\<And>ro u w. frv = Some (ro, u, w) \<Longrightarrow> inside w v"
      by (auto simp: handed_on_def)
    show ?thesis
    proof (cases frv)
      case None
      then show ?thesis using invalid[OF that(1) _ f] that(2) by simp
    next
      case (Some x)
      then show ?thesis using child[OF that(1) i f] by (cases x) auto
    qed
  qed
  show ?case
    unfolding encodeFieldValue.simps(2)[of n E rv rds kp] d enc_call.simps(2) Let_def
  proof (intro returns_call returns_if returns_option returns_sum returns_prod returns_bind returns_map returns_Some, goal_cases)
    case (1 a aa ro b t v)
    then show ?case using interface by simp
  next
    case (2 a aa ro b t v)
    then show ?case using pointer by simp
  next
    case (3 a aa ro b t v e ab j w)
    then have "inside w v" by (auto intro: inside_slice dest: set_zip_rightD)
    with 3 show ?case using child[OF _ _ sub(1)] by simp
  next
    case (4 a aa ro b t v ab tk te ac k w ks)
    then have "inside k v" by (auto dest: inside_map)
    with 4 show ?case using child[OF _ _ sub(2)] by simp
  next
    case (5 a aa ro b t v ab tk te ac k w ks ad)
    then have "inside w v" by (auto dest: inside_map)
    with 5 show ?case using child[OF _ _ sub(2)] by simp
  next
    case (6 a aa ro b t v d ab ac ad jkey ba name bb frv fds)
    then show ?case using field by simp
  qed
qed simp

text \<open>C23. The recursion of the encoder is bounded by the value: for rules without defaults and a finite
  value that agrees with its types, a fuel of three times the size of the value and three more
  is enough for a text, an error or a panic, and more fuel gives the same. A value that contains
  itself is no value of the model; on it the code does not return.\<close>

theorem encoding_returns:
  assumes "free_of_defaults rds" and "well_typed v" and "3 * size v + 3 \<le> n"
  shows "\<exists>r. encodeFieldValue n E (Some (ro, t, v)) rds kp = Some r
     \<and> (\<forall>k. encodeFieldValue (n + k) E (Some (ro, t, v)) rds kp = Some r)"
proof -
  have "returns (encodeFieldValue n E (Some (ro, t, v)) rds kp)"
    using assms by (intro encode_returns) (auto simp: well_typed_rvalue_def weight_def)
  then obtain r where r: "encodeFieldValue n E (Some (ro, t, v)) rds kp = Some r" by (auto simp: returns_def)
  have "encodeFieldValue (n + k) E (Some (ro, t, v)) rds kp = Some r" for k
  proof (induction k)
    case (Suc k)
    then show ?case using encode_more_fuel[of "n + k" E "Some (ro, t, v)" rds kp] by (simp add: enc_le_def del: encodeFieldValue.simps)
  qed (simp add: r del: encodeFieldValue.simps)
  with r show ?thesis by blast
qed

theorem encoding_returns_witness:
  "\<exists>r. encodeFieldValue 30 \<lparr>ee_specs = [], ee_f2i = (\<lambda>k f. 0), ee_MarshalJSON = (\<lambda>v. Panics), ee_timeFormat = (\<lambda>v l. []),
       ee_msg = (\<lambda>e. [])\<rparr> (Some (False, TSlice TInt, VSlice (TSlice TInt) (Some [intv 1]))) (Some (demo_array TInt [])) [] = Some r"
proof -
  have "free_of_defaults (Some (demo_array TInt []))" "well_typed (VSlice (TSlice TInt) (Some [intv 1]))"
    "3 * size (VSlice (TSlice TInt) (Some [intv 1])) + 3 \<le> 30"
    by (simp_all add: free_of_defaults_def demo_array_def demo_def_def demo_info_def kind_class_defs in_range_def)
  from encoding_returns[OF this] show ?thesis by blast
qed

subsection \<open>What an encoded response has been checked for\<close>

definition value_of :: "rvalue \<Rightarrow> goval" where
  "value_of rv = (case rv of None \<Rightarrow> VNil | Some (ro, t, v) \<Rightarrow> v)"

lemma encode_checks_rules:
  assumes "encodeFieldValue n E rv (Some d) kp = enc_ok s"
  shows "\<exists>rv'. apply_default E (Some d) rv = Returns rv'
     \<and> runValidation (value_of rv') ResponseErr schemaBody (Join kp [CHR 0x2E]) (ri_rules (rd d)) = Returns None"
proof (cases n)
  case (Suc m)
  show ?thesis
  proof (cases "apply_default E (Some d) rv")
    case Panics
    with assms Suc show ?thesis by simp
  next
    case (Returns rv')
    let ?c = "runValidation (value_of rv') ResponseErr schemaBody (Join kp [CHR 0x2E]) (ri_rules (rd d))"
    have "?c = Returns None"
    proof (cases ?c)
      case Panics
      with assms Suc Returns show ?thesis
        by (simp add: value_of_def split: if_split_asm)
    next
      case r: (Returns e)
      show ?thesis
      proof (cases e)
        case (Some x)
        with assms Suc Returns r show ?thesis by (simp add: value_of_def split: if_split_asm)
      qed (simp add: r)
    qed
    with Returns show ?thesis by blast
  qed
qed (use assms in simp)

lemma enc_map_ok: "enc_map f xs = enc_ok ys \<Longrightarrow> x \<in> set xs \<Longrightarrow> \<exists>y. f x = enc_ok y"
proof (induction xs arbitrary: ys)
  case (Cons a xs)
  then obtain y where y: "f a = enc_ok y" by (cases "(f a, \<lambda>y. bind_enc (enc_map f xs) (\<lambda>ys. enc_ok (y # ys)))" rule: bind_enc.cases) auto
  with Cons.prems(1) obtain zs where "enc_map f xs = enc_ok zs"
    by (cases "(enc_map f xs, \<lambda>ys. enc_ok (y # ys))" rule: bind_enc.cases) auto
  with Cons y show ?case by auto
qed simp

lemma enc_call_ok: "enc_call c f = enc_ok y \<longleftrightarrow> (\<exists>x. c = Returns x \<and> f x = enc_ok y)"
  by (cases c) auto

lemma bind_enc_ok: "bind_enc x f = enc_ok y \<Longrightarrow> \<exists>a. x = enc_ok a \<and> f a = enc_ok y"
proof -
  assume b: "bind_enc x f = enc_ok y"
  then obtain c where c: "x = Some c" by (cases x) auto
  with b obtain r where r: "c = Returns r" by (cases c) auto
  with b c show ?thesis by (cases r) auto
qed

text \<open>C24. A struct is written only if every field that is written satisfies its rules, with its default
  in place of an empty value.\<close>

theorem written_fields_checked:
  assumes enc: "encodeFieldValue (Suc n) E (Some (ro, t, v)) (Some d) kp = enc_ok s"
    and t: "kind_of t = KStruct" "v \<noteq> VNil" "\<not> marshaler v"
    and d: "ri_defStr (rd d) = []" "CustomSpecs_Find (ee_specs E) (ri_format (rd d)) = None"
      "ri_format (rd d) \<noteq> TimeObjectFormat"
    and c: "c \<in> set (rd_ordered d)" "schema_field t v c = Returns (Some (jk, name, frv, Some c))"
  shows "\<exists>rv. apply_default E (Some c) frv = Returns rv
     \<and> runValidation (value_of rv) ResponseErr schemaBody (Join (kp @ [name]) [CHR 0x2E]) (ri_rules (rd c)) = Returns None"
proof -
  have a: "apply_default E (Some d) (Some (ro, t, v)) = Returns (Some (ro, t, v))"
    by (simp add: apply_default_def d(1))
  have k: "IsByteSlice t = False" "(KStruct = KInterface) = False" "(KStruct = KPointer) = False"
    "(KStruct = KSlice) = False" "(KStruct = KArray) = False" "(KStruct = KMap) = False"
    using t(1) by (auto simp: IsByteSlice_def)
  let ?field = "\<lambda>c. enc_call c (\<lambda>r. case r of None \<Rightarrow> enc_ok None | Some (jkey, name, frv, fds) \<Rightarrow>
      bind_enc (encodeFieldValue n E frv fds (kp @ [name])) (\<lambda>x. enc_ok (Some (jkey @ x))))"
  from encode_checks_rules[OF enc] a
  have r: "runValidation v ResponseErr schemaBody (Join kp [CHR 0x2E]) (ri_rules (rd d)) = Returns None"
    by (simp add: value_of_def)
  have ro: "\<not> ro"
  proof
    assume "ro"
    have "apply_default E (Some d) (Some (True, t, v)) = Returns (Some (True, t, v))"
      by (simp add: apply_default_def d(1))
    with enc \<open>ro\<close> show False by simp
  qed
  have "bind_enc (enc_map ?field (struct_fields t v (Some d))) (\<lambda>ss. enc_ok (''{'' @ Join (skip_none ss) '','' @ ''}'')) = enc_ok s"
    using enc unfolding encodeFieldValue.simps(2)[of n E "Some (ro, t, v)" "Some d" kp] a Let_def
    by (simp only: enc_call.simps option.case prod.case r ro t d k if_False if_True simp_thms)
  from bind_enc_ok[OF this] obtain ss where m: "enc_map ?field (struct_fields t v (Some d)) = enc_ok ss" by blast
  have "schema_field t v c \<in> set (struct_fields t v (Some d))"
    using c(1) by (auto simp: struct_fields_def)
  from enc_map_ok[OF m this] obtain y where "?field (schema_field t v c) = enc_ok y" by blast
  then have "bind_enc (encodeFieldValue n E frv (Some c) (kp @ [name])) (\<lambda>x. enc_ok (Some (jk @ x))) = enc_ok y"
    by (simp add: c(2))
  from bind_enc_ok[OF this] obtain x where "encodeFieldValue n E frv (Some c) (kp @ [name]) = enc_ok x" by blast
  from encode_checks_rules[OF this] show ?thesis .
qed

definition demo_ee :: enc_env where
  "demo_ee = \<lparr>ee_specs = [], ee_f2i = (\<lambda>k f. 0), ee_MarshalJSON = (\<lambda>v. Returns (Inr ''null'')), ee_timeFormat = (\<lambda>v l. []),
     ee_msg = (\<lambda>e. [])\<rparr>"

definition demo_point :: gotype where "demo_point = TStruct [SField ''Body'' TInt [] False]"

definition demo_point_def :: RuleDef where
  "demo_point_def = RuleDef (demo_info demo_point []) None None [(''Body'', demo_def TInt)] [demo_def TInt]"

theorem written_fields_checked_witness:
  "encodeFieldValue 3 demo_ee (Some (False, demo_point, VStruct demo_point [intv 7])) (Some demo_point_def) [] = enc_ok ''{\"Body\":7}''
   \<and> runValidation (intv 7) ResponseErr schemaBody ''Body'' (ri_rules (rd (demo_def TInt))) = Returns None"
proof -
  have e: "encodeFieldValue (Suc 2) demo_ee (Some (False, demo_point, VStruct demo_point [intv 7])) (Some demo_point_def) []
      = enc_ok ''{\"Body\":7}''"
    by code_simp
  have f: "schema_field demo_point (VStruct demo_point [intv 7]) (demo_def TInt)
      = Returns (Some (json_key (demo_def TInt), ''Body'', Some (False, TInt, intv 7), Some (demo_def TInt)))"
    by (simp add: schema_field_def rule_field_def json_tags_def demo_def_def demo_info_def demo_point_def_def[symmetric]
        rvalue_of_field_def fields_of_def demo_point_def struct_elem_def exported_def is_upper_def)
  have "\<exists>rv. apply_default demo_ee (Some (demo_def TInt)) (Some (False, TInt, intv 7)) = Returns rv
     \<and> runValidation (value_of rv) ResponseErr schemaBody (Join ([] @ [''Body'']) [CHR 0x2E]) (ri_rules (rd (demo_def TInt))) = Returns None"
    by (rule written_fields_checked[OF e _ _ _ _ _ _ _ f])
      (simp_all add: demo_point_def demo_point_def_def demo_def_def demo_info_def marshaler_def implements_def
        demo_ee_def CustomSpecs_Find_def TimeObjectFormat_def)
  then have "runValidation (intv 7) ResponseErr schemaBody ''Body'' (ri_rules (rd (demo_def TInt))) = Returns None"
    by (simp add: apply_default_def value_of_def demo_def_def demo_info_def)
  with e show ?thesis by (simp add: numeral_3_eq_3 numeral_2_eq_2 del: encodeFieldValue.simps)
qed

text \<open>A date is written by its own \<open>MarshalJSON\<close>: the layout of its \<open>pattern\<close> tag has no effect
  on a response.\<close>

theorem date_pattern_ignored:
  assumes "typeof v = Some TimeType"
  shows "encodeFieldValue n E (Some (ro, TimeType, v)) (Some (rd_update (ri_pattern_update (\<lambda>_. p)) d)) kp
     = encodeFieldValue n E (Some (ro, TimeType, v)) (Some d) kp"
proof (cases n)
  case (Suc m)
  obtain i it ad ps os where d: "d = RuleDef i it ad ps os" by (cases d)
  have m: "marshaler v \<longleftrightarrow> True" using assms by (simp add: marshaler_def implements_def TimeType_def)
  have k: "kind_of TimeType = KStruct" by (simp add: TimeType_def)
  have sel: "ri_defStr (i\<lparr>ri_pattern := p\<rparr>) = ri_defStr i" "ri_rules (i\<lparr>ri_pattern := p\<rparr>) = ri_rules i"
    "ri_format (i\<lparr>ri_pattern := p\<rparr>) = ri_format i" by simp_all
  have a: "apply_default E (Some dd) (Some (ro, TimeType, v)) = Returns (Some (ro, TimeType, v))" for dd
    by (simp add: apply_default_def isEmptyValue_def k kind_class_defs)
  show ?thesis
    unfolding Suc encodeFieldValue.simps(2)[of m E _ "Some d"]
      encodeFieldValue.simps(2)[of m E _ "Some (rd_update (ri_pattern_update (\<lambda>_. p)) d)"] a Let_def
    unfolding d rd_update.simps enc_call.simps option.case prod.case RuleDef.sel sel m if_True
    by (rule refl)
qed simp

theorem date_pattern_ignored_witness:
  "encodeFieldValue 2 demo_ee (Some (False, TimeType, VStruct TimeType []))
       (Some (rd_update (ri_pattern_update (\<lambda>_. ''2006'')) (demo_def TimeType))) []
     = encodeFieldValue 2 demo_ee (Some (False, TimeType, VStruct TimeType [])) (Some (demo_def TimeType)) []"
  by (rule date_pattern_ignored) simp

text \<open>A struct without rules panics. So the fields of a struct held by a value of type \<open>any\<close>,
  which are written without rules, must not be structs themselves.\<close>

theorem struct_without_rules_panics:
  assumes "kind_of t = KStruct" and "v \<noteq> VNil" and "\<not> marshaler v"
  shows "encodeFieldValue (Suc n) E (Some (False, t, v)) None kp = Some Panics"
proof -
  have "apply_default E None (Some (False, t, v)) = Returns (Some (False, t, v))" "\<not> IsByteSlice t"
    using assms(1) by (auto simp: apply_default_def IsByteSlice_def)
  with assms show ?thesis by simp
qed

theorem struct_without_rules_panics_witness:
  "encodeFieldValue 4 demo_ee (Some (False, TAny, VStruct (TStruct [SField ''P'' demo_point [] False]) [VStruct demo_point [intv 7]]))
     (Some (demo_def TAny)) [] = Some Panics
   \<and> encodeFieldValue 1 demo_ee (Some (False, demo_point, VStruct demo_point [intv 7])) None [] = Some Panics"
proof -
  have "encodeFieldValue (Suc 0) demo_ee (Some (False, demo_point, VStruct demo_point [intv 7])) None [] = Some Panics"
    by (rule struct_without_rules_panics) (simp_all add: demo_point_def marshaler_def implements_def)
  moreover have "encodeFieldValue 4 demo_ee
      (Some (False, TAny, VStruct (TStruct [SField ''P'' demo_point [] False]) [VStruct demo_point [intv 7]])) (Some (demo_def TAny)) []
    = Some Panics"
    by code_simp
  ultimately show ?thesis by (simp del: encodeFieldValue.simps)
qed

subsection \<open>From a response to a request\<close>

text \<open>A value of a type whose elements are bytes.\<close>

abbreviation byte_slice :: "gotype \<Rightarrow> gostring \<Rightarrow> goval" where
  "byte_slice t bs \<equiv> VSlice t (Some (map (\<lambda>c. VInt (TBasic KUint8) (int (byte c))) bs))"

lemma bytes_of_byte_slice: "bytes_of_vals (map (\<lambda>c. VInt (TBasic KUint8) (int (byte c))) bs) = bs"
  by (induction bs) (simp_all add: bytes_of_vals_def)

lemma encode_byte_slice:
  assumes "IsByteSlice t" and "kind_of t = KSlice" and "bs \<noteq> [] \<or> ri_defStr (rd d) = []"
    and "CustomSpecs_Find (ee_specs E) (ri_format (rd d)) = None"
    and "runValidation (byte_slice t bs) ResponseErr schemaBody (Join kp [CHR 0x2E]) (ri_rules (rd d)) = Returns None"
  shows "encodeFieldValue (Suc n) E (Some (False, t, byte_slice t bs)) (Some d) kp = enc_ok (encodeString (b64_EncodeToString bs))"
proof -
  have "apply_default E (Some d) (Some (False, t, byte_slice t bs)) = Returns (Some (False, t, byte_slice t bs))"
    using assms(2,3) by (auto simp: apply_default_def isEmptyValue_def kind_class_defs)
  moreover have "\<not> marshaler (byte_slice t bs)"
    using assms(1) by (simp add: marshaler_def IsByteSlice_def ImplementsJSONMarshaler_def)
  ultimately show ?thesis
    using assms(1,4,5) by (simp add: is_nil_def slice_vals_def bytes_of_byte_slice)
qed

text \<open>C22. A byte slice that a response contains comes back from a request: where the rules accept it, the
  encoder writes it, and the walk over a body whose node has the text written binds exactly the
  same value to a field of that type, under the rules of the request.\<close>

theorem bytes_roundtrip:
  assumes "IsByteSlice t" and "underlying t = TSlice (TBasic KUint8)" and "v = byte_slice t bs"
    and "bs \<noteq> [] \<or> ri_defStr (rd d) = []" and "CustomSpecs_Find (ee_specs E) (ri_format (rd d)) = None"
    and "runValidation v ResponseErr schemaBody (Join kp [CHR 0x2E]) (ri_rules (rd d)) = Returns None"
    and q: "ri_kind (rd q) = KSlice" "ri_format (rd q) = ByteFormat" "CustomSpecs_Find (je_specs E') ByteFormat = None"
      "length keys \<le> (if je_MaxDepth E' = 0 then 100 else je_MaxDepth E')"
    and "runValidationLazy (bytes_val bs) RequestErr sch keys (ri_rules (rd q)) = Returns None"
  shows "\<exists>s. encodeFieldValue (Suc n) E (Some (False, t, v)) (Some d) kp = enc_ok s
    \<and> (fj_Type P node = TypeString \<and> fj_MarshalTo P node = s \<longrightarrow>
        walkStruct E' P (Some node) sch q (Field Settable t old) keys = Returns (None, True, Field Settable t v))"
proof -
  have k: "kind_of t = KSlice" using assms(2) by (metis kind_of.simps(4) kind_of_underlying)
  let ?s = "encodeString (b64_EncodeToString bs)"
  have raw: "as_bytes (bytes_val ?s) = Some ?s" by (simp add: as_bytes_def bytes_of_byte_slice)
  have nd: "node_or_default (bytes_val ?s) (rd q) = bytes_val ?s"
    by (simp add: node_or_default_def EOF_val_def)
  have st: "set_bytes (Field Settable t old) bs = Returns (Field Settable t v)"
    by (simp add: set_bytes_def k assms(2,3) set_field_def)
  have fmt: "ByteFormat \<noteq> TimeObjectFormat" "ByteFormat \<noteq> CookieObjectFormat" "ByteFormat \<noteq> RawJSONFormat"
    by (simp_all add: ByteFormat_def TimeObjectFormat_def CookieObjectFormat_def RawJSONFormat_def)
  have "walkStruct E' P (Some node) sch q (Field Settable t old) keys = Returns (None, True, Field Settable t v)"
    if "fj_Type P node = TypeString" "fj_MarshalTo P node = ?s"
  proof -
    have g: "GetNodeByKind P (Some node) KSlice ByteFormat = Returns (Inr (bytes_val ?s))"
      using that by (simp add: GetNodeByKind_def scalar_kinds_def)
    have a: "alloc_pointer (Field Settable t old) = Returns (Field Settable t old)" by (simp add: alloc_pointer_def k)
    have w: "walk_bytes E' sch keys (rd q) (bytes_val ?s) (Field Settable t old) = Returns (None, True, Field Settable t v)"
      by (simp add: walk_bytes_def raw decode_encoded after_rules_def assms(11) st finished_def)
    have l: "\<not> length keys > (if je_MaxDepth E' = 0 then 100 else je_MaxDepth E')" using q(4) by (simp split: if_splits)
    show ?thesis
      by (subst walkStruct.simps) (simp only: Let_def l if_False if_True q(1,2,3) g bind_call.simps sum.case nd fmt a w option.case
          goval.distinct simp_thms)
  qed
  with encode_byte_slice[OF assms(1) k assms(4,5) assms(6)[unfolded assms(3)], of n]
  show ?thesis unfolding assms(3) by blast
qed

text \<open>The library of the examples, with the text of its strings.\<close>

definition text_json :: "jdoc fastjson" where
  "text_json = demo_json\<lparr>fj_MarshalTo := (\<lambda>n. case n of JStr s \<Rightarrow> encodeString s | _ \<Rightarrow> [])\<rparr>"

theorem bytes_roundtrip_witness:
  "\<exists>s. encodeFieldValue 1 demo_ee (Some (False, TSlice (TBasic KUint8), byte_slice (TSlice (TBasic KUint8)) ''hi!?''))
        (Some (demo_def (TSlice (TBasic KUint8)))) [] = enc_ok s
    \<and> walkStruct demo_je text_json (Some (JStr (b64_EncodeToString ''hi!?''))) schemaBody
        (rd_update (\<lambda>i. i\<lparr>ri_format := ByteFormat\<rparr>) (demo_def (TSlice (TBasic KUint8))))
        (Field Settable (TSlice (TBasic KUint8)) (VSlice (TSlice (TBasic KUint8)) None)) []
      = Returns (None, True, Field Settable (TSlice (TBasic KUint8)) (byte_slice (TSlice (TBasic KUint8)) ''hi!?''))"
proof -
  let ?t = "TSlice (TBasic KUint8)"
  let ?d = "demo_def ?t" and ?q = "rd_update (\<lambda>i. i\<lparr>ri_format := ByteFormat\<rparr>) (demo_def ?t)"
  let ?n = "JStr (b64_EncodeToString ''hi!?'')" and ?f = "Field Settable ?t (VSlice ?t None)"
  have t: "IsByteSlice ?t" "underlying ?t = ?t" "kind_of ?t = KSlice" by code_simp+
  have d: "ri_defStr (rd ?d) = []" "ri_format (rd ?d) = []" "ri_rules (rd ?d) = []" "ri_kind (rd ?q) = KSlice"
    "ri_format (rd ?q) = ByteFormat" "ri_rules (rd ?q) = []" "je_specs demo_je = []" "ee_specs demo_ee = []"
    by (simp_all add: demo_def_def demo_info_def demo_je_def demo_ee_def)
  have none: "CustomSpecs_Find [] f = None" for f by (simp add: CustomSpecs_Find_def)
  have ok: "runValidation x ResponseErr b c [] = Returns None" "runValidationLazy x RequestErr b cs [] = Returns None" for x b c cs
    by (simp_all add: runValidation_def runValidationLazy_def)
  have e: "''hi!?'' \<noteq> [] \<or> ri_defStr (rd ?d) = []" "CustomSpecs_Find (ee_specs demo_ee) (ri_format (rd ?d)) = None"
    "runValidation (byte_slice ?t ''hi!?'') ResponseErr schemaBody (Join [] [CHR 0x2E]) (ri_rules (rd ?d)) = Returns None"
    by (simp_all only: d none ok simp_thms)
  have q: "CustomSpecs_Find (je_specs demo_je) ByteFormat = None"
    "length ([] :: gostring list) \<le> (if je_MaxDepth demo_je = 0 then 100 else je_MaxDepth demo_je)"
    "runValidationLazy (bytes_val ''hi!?'') RequestErr schemaBody [] (ri_rules (rd ?q)) = Returns None"
    by (simp_all only: d none ok list.size zero_le)
  obtain s where s: "encodeFieldValue (Suc 0) demo_ee (Some (False, ?t, byte_slice ?t ''hi!?'')) (Some ?d) [] = enc_ok s"
    and w: "fj_Type text_json ?n = TypeString \<and> fj_MarshalTo text_json ?n = s \<longrightarrow>
      walkStruct demo_je text_json (Some ?n) schemaBody ?q ?f [] = Returns (None, True, Field Settable ?t (byte_slice ?t ''hi!?''))"
    using bytes_roundtrip[OF t(1,2) refl e d(4,5) q, where n = 0 and P = text_json and node = ?n and old = "VSlice ?t None"]
    by blast
  have "s = encodeString (b64_EncodeToString ''hi!?'')"
    using s unfolding encode_byte_slice[OF t(1,3) e] by blast
  moreover have "fj_Type text_json (JStr x) = TypeString" "fj_MarshalTo text_json (JStr x) = encodeString x" for x
    by (simp_all add: text_json_def demo_json_def Let_def)
  ultimately have "walkStruct demo_je text_json (Some ?n) schemaBody ?q ?f [] = Returns (None, True, Field Settable ?t (byte_slice ?t ''hi!?''))"
    using w by metis
  with s show ?thesis unfolding One_nat_def by blast
qed

end
