(* ===== verification/FormParser.thy ===== *)
theory FormParser
  imports JsonDecode
begin

section \<open>Form and multipart bodies (bodyparser_form.go, bodyparser_multipart.go)\<close>

text \<open>
  A form is a list of keys with their values. The keys of nested values are paths: \<open>a.b\<close> is the
  field \<open>b\<close> of \<open>a\<close>, \<open>a.0.b\<close> that of the first element. Both parsers range over the properties of
  the schema and set the fields of the body; the order of a Go map is the order of the list here.
\<close>

subsection \<open>url.ParseQuery\<close>

definition unhex :: "char \<Rightarrow> nat option" where
  "unhex c =
     (if is_digit c then Some (digit_val c)
      else if 97 \<le> byte c \<and> byte c \<le> 102 then Some (byte c - 87)
      else if 65 \<le> byte c \<and> byte c \<le> 70 then Some (byte c - 55) else None)"

fun QueryUnescape :: "gostring \<Rightarrow> gostring option" where
  "QueryUnescape [] = Some []"
| "QueryUnescape (c # s) =
     (if c = CHR ''%'' then
        (case s of
           a # b # r \<Rightarrow>
             (case (unhex a, unhex b) of
                (Some x, Some y) \<Rightarrow> map_option (Cons (char_of (16 * x + y))) (QueryUnescape r)
              | _ \<Rightarrow> None)
         | _ \<Rightarrow> None)
      else map_option (Cons (if c = CHR ''+'' then CHR '' '' else c)) (QueryUnescape s))"

type_synonym form = "(gostring \<times> gostring list) list"

fun form_add :: "form \<Rightarrow> gostring \<Rightarrow> gostring \<Rightarrow> form" where
  "form_add [] k v = [(k, [v])]"
| "form_add ((k', vs) # es) k v = (if k' = k then (k, vs @ [v]) # es else (k', vs) # form_add es k v)"

definition cut_eq :: "gostring \<Rightarrow> gostring \<times> gostring" where
  "cut_eq s = (takeWhile (\<lambda>c. c \<noteq> CHR ''='') s, drop 1 (dropWhile (\<lambda>c. c \<noteq> CHR ''='') s))"

text \<open>A bad pair is left out, and its error is reported at the end; only the first one, but a
  semicolon overwrites it.\<close>

fun parse_pairs :: "gostring list \<Rightarrow> form \<Rightarrow> gerr option \<Rightarrow> gerr option \<times> form" where
  "parse_pairs [] m er = (er, m)"
| "parse_pairs (p # ps) m er =
     (if CHR '';'' \<in> set p then parse_pairs ps m (Some (errNew ''invalid semicolon separator in query''))
      else if p = [] then parse_pairs ps m er
      else let (k, v) = cut_eq p; bad = (case er of None \<Rightarrow> Some (LibErr ''invalid URL escape'') | e \<Rightarrow> e) in
        case QueryUnescape k of
          None \<Rightarrow> parse_pairs ps m bad
        | Some k' \<Rightarrow>
            (case QueryUnescape v of
               None \<Rightarrow> parse_pairs ps m bad
             | Some v' \<Rightarrow> parse_pairs ps (form_add m k' v') er))"

definition ParseQuery :: "gostring \<Rightarrow> gerr + form" where
  "ParseQuery s = (case parse_pairs (Split (CHR ''&'') s) [] None of (Some e, m) \<Rightarrow> Inl e | (None, m) \<Rightarrow> Inr m)"

subsection \<open>Keys\<close>

definition has_prefix :: "form \<Rightarrow> gostring \<Rightarrow> bool" where
  "has_prefix fm p \<longleftrightarrow> list_ex (\<lambda>(k, v). HasPrefix k p) fm"

definition sub_form :: "gostring \<Rightarrow> form \<Rightarrow> form" where
  "sub_form p fm = List.map_filter (\<lambda>(k, v). if HasPrefix k p then Some (drop (length p) k, v) else None) fm"

definition item_prefix :: "gostring \<Rightarrow> nat \<Rightarrow> gostring" where
  "item_prefix k i = k @ ''.'' @ nat_digits i @ ''.''"

text \<open>The forms of the elements \<open>0, 1, \<dots>\<close> up to the first missing index. Every element uses a key of
  its own, so there are at most as many as keys.\<close>

fun item_forms :: "nat \<Rightarrow> (gostring \<Rightarrow> bool) \<Rightarrow> form \<Rightarrow> gostring \<Rightarrow> nat \<Rightarrow> form list" where
  "item_forms 0 found fm k i = []"
| "item_forms (Suc n) found fm k i =
     (if found (item_prefix k i) then sub_form (item_prefix k i) fm # item_forms n found fm k (Suc i) else [])"

subsection \<open>Setting fields\<close>

record form_env =
  fe_specs :: "custom_spec gomap"
  fe_f2i :: "kind \<Rightarrow> flt \<Rightarrow> int"
  fe_timeParse :: "gostring \<Rightarrow> gostring \<Rightarrow> gerr + goval"

definition parseVal :: "form_env \<Rightarrow> gostring \<Rightarrow> rule_info \<Rightarrow> (gerr + goval) call" where
  "parseVal E v i =
     (if ri_format i = TimeObjectFormat then Returns (fe_timeParse E (ri_pattern i) v)
      else case CustomSpecs_Find (fe_specs E) (ri_format i) of
        Some spec \<Rightarrow> sp_Decode spec (str v)
      | None \<Rightarrow> Returns (case PrimitiveFromStr (ri_kind i) v of (w, None) \<Rightarrow> Inr w | (w, Some e) \<Rightarrow> Inl e))"

function bind_value :: "(kind \<Rightarrow> flt \<Rightarrow> int) \<Rightarrow> bool \<Rightarrow> gotype \<Rightarrow> goval \<Rightarrow> goval \<Rightarrow> (gerr option \<times> goval) call" where
  "bind_value f2i ro t old v =
     (case typeof v of
        None \<Rightarrow> Returns (None, old)
      | Some tv \<Rightarrow>
          if convertible_to tv t then (if ro then Panics else Returns (None, go_convert f2i v t))
          else if kind_of t = KPointer then
            (case elem_of t of
               None \<Rightarrow> Panics
             | Some e \<Rightarrow>
                 if nil_pointer old \<and> ro then Panics
                 else let (a, w) = (case old of VPtr u (Some p) \<Rightarrow> p | _ \<Rightarrow> (0, zero_of e)) in
                   bind_call (bind_value f2i ro e w v) (\<lambda>(er, w'). Returns (er, VPtr t (Some (a, w')))))
          else Returns (Some (Errorf ''cannot convert %v to %v'' []), old))"
  by pat_completeness auto
termination
  by (relation "measure (\<lambda>(f2i, ro, t, old, v). size t)") (auto dest: size_elem_of)

declare bind_value.simps [simp del]

definition bindValue :: "form_env \<Rightarrow> field \<Rightarrow> goval \<Rightarrow> (gerr option \<times> field) call" where
  "bindValue E fd v =
     (case fd of
        Field ro t old \<Rightarrow> bind_call (bind_value (fe_f2i E) (ro \<noteq> Settable) t old v) (\<lambda>(er, w). Returns (er, Field ro t w))
      | _ \<Rightarrow> if v = VNil then Returns (None, fd) else Panics)"

type_synonym bound = "(verr option \<times> field) call"

definition bind_or :: "(gerr \<Rightarrow> verr) \<Rightarrow> form_env \<Rightarrow> field \<Rightarrow> goval \<Rightarrow> bound" where
  "bind_or wrap E fd v = bind_call (bindValue E fd v) (\<lambda>(er, fd'). Returns (map_option wrap er, fd'))"

text \<open>The field of a struct or of the struct a pointer points to; without one \<open>FieldByName\<close> panics.\<close>

definition form_field :: "field \<Rightarrow> gostring \<Rightarrow> (nat list \<times> field) call" where
  "form_field fd name =
     (case fd of
        Field ro t v \<Rightarrow> if kind_of (struct_elem t) \<noteq> KStruct \<or> nil_pointer v then Panics else getFieldStruct fd name
      | _ \<Rightarrow> Panics)"

text \<open>The loop over the properties. \<open>pre\<close> decides before the field is looked up: an error, the next
  property, or the field; a property without a field is skipped.\<close>

datatype check = Stop verr | Skip | Go

fun form_loop ::
  "(gostring \<Rightarrow> RuleDef \<Rightarrow> check) \<Rightarrow> (gostring \<Rightarrow> RuleDef \<Rightarrow> field \<Rightarrow> bound) \<Rightarrow> (gostring \<times> RuleDef) list \<Rightarrow> field \<Rightarrow> bound"
where
  "form_loop pre step [] fd = Returns (None, fd)"
| "form_loop pre step ((k, c) # cs) fd =
     (case pre k c of
        Stop e \<Rightarrow> Returns (Some e, fd)
      | Skip \<Rightarrow> form_loop pre step cs fd
      | Go \<Rightarrow>
          bind_call (form_field fd (ri_fieldName (rd c))) (\<lambda>(ix, child).
            if child = Invalid then form_loop pre step cs fd
            else bind_call (step k c child) (\<lambda>(er, child').
              bind_call (put_child fd ix child') (\<lambda>fd'.
                if er \<noteq> None then Returns (er, fd') else form_loop pre step cs fd'))))"

lemma form_loop_cong [fundef_cong]:
  "pre = pre' \<Longrightarrow> cs = cs' \<Longrightarrow> fd = fd' \<Longrightarrow> (\<And>k c f. (k, c) \<in> set cs' \<Longrightarrow> step k c f = step' k c f) \<Longrightarrow>
     form_loop pre step cs fd = form_loop pre' step' cs' fd'"
proof (induction cs arbitrary: cs' fd fd')
  case (Cons p cs)
  obtain k c where p: "p = (k, c)" by (cases p)
  have "form_loop pre step cs f = form_loop pre' step' cs f" for f
    by (rule Cons.IH[OF Cons.prems(1) refl refl]) (use Cons.prems in auto)
  then have "form_loop pre step cs = form_loop pre' step' cs" by (rule ext)
  moreover have "step k c = step' k c" using Cons.prems p by (intro ext) auto
  moreover have "cs' = (k, c) # cs" "fd' = fd" "pre' = pre" using Cons.prems p by simp_all
  ultimately show ?case by (simp only: p form_loop.simps)
qed auto

text \<open>The elements of a slice of primitives and of a slice of structs.\<close>

fun elems_loop :: "(nat \<Rightarrow> gostring \<Rightarrow> (verr + goval) call) \<Rightarrow> nat \<Rightarrow> gostring list \<Rightarrow> (verr + goval list) call" where
  "elems_loop step i [] = Returns (Inr [])"
| "elems_loop step i (v # vs) =
     bind_part (step i v) (\<lambda>w. bind_part (elems_loop step (Suc i) vs) (\<lambda>ws. Returns (Inr (w # ws))))"

fun structs_loop :: "(form \<Rightarrow> bound) \<Rightarrow> form list \<Rightarrow> (verr + goval list) call" where
  "structs_loop step [] = Returns (Inr [])"
| "structs_loop step (f # fs) =
     bind_call (step f) (\<lambda>(er, fd).
       case er of
         Some e \<Rightarrow> Returns (Inl e)
       | None \<Rightarrow> bind_part (structs_loop step fs) (\<lambda>ws. Returns (Inr (field_val fd # ws))))"

lemma structs_loop_cong [fundef_cong]:
  "fs = fs' \<Longrightarrow> (\<And>f. step f = step' f) \<Longrightarrow> structs_loop step fs = structs_loop step' fs'"
  by (metis ext)

definition elem_value :: "form_env \<Rightarrow> (gerr \<Rightarrow> verr) \<Rightarrow> gotype \<Rightarrow> goval \<Rightarrow> (verr + goval) call" where
  "elem_value E wrap e v =
     bind_call (bind_value (fe_f2i E) False e (zero_of e) v) (\<lambda>(er, w).
       Returns (case er of Some x \<Rightarrow> Inl (wrap x) | None \<Rightarrow> Inr w))"

text \<open>Setting a slice made of the results of a loop.\<close>

definition bind_slice :: "form_env \<Rightarrow> (gerr \<Rightarrow> verr) \<Rightarrow> field \<Rightarrow> (gotype \<Rightarrow> (verr + goval list) call) \<Rightarrow> bound" where
  "bind_slice E wrap fd loop =
     bind_call (slice_type fd 0) (\<lambda>st.
       case st of
         None \<Rightarrow> Panics
       | Some (s, e) \<Rightarrow>
           bind_call (loop e) (\<lambda>r.
             case r of
               Inl er \<Rightarrow> Returns (Some er, fd)
             | Inr ws \<Rightarrow> bind_or wrap E fd (VSlice s (Some ws))))"

lemma bind_slice_cong [fundef_cong]:
  "E = E' \<Longrightarrow> wrap = wrap' \<Longrightarrow> fd = fd' \<Longrightarrow> (\<And>e. loop e = loop' e) \<Longrightarrow>
     bind_slice E wrap fd loop = bind_slice E' wrap' fd' loop'"
  by (metis ext)

definition form_vals :: "form \<Rightarrow> gostring \<Rightarrow> gostring list" where
  "form_vals fm k = (case map_of fm k of None \<Rightarrow> [] | Some vs \<Rightarrow> vs)"

definition is_list_kind :: "kind \<Rightarrow> bool" where "is_list_kind k \<longleftrightarrow> k = KSlice \<or> k = KArray"

definition required_error :: "gostring \<Rightarrow> verr" where
  "required_error k = VReport RequestErr schemaBody k ''required'' (errNew ''field is required'')"

subsection \<open>Nested structs\<close>

text \<open>\<open>bindStruct\<close> checks that required scalars are there; it runs no other rule.\<close>

definition nested_pre :: "form \<Rightarrow> gostring \<Rightarrow> RuleDef \<Rightarrow> check" where
  "nested_pre fm k c =
     (let i = rd c in
      if map_of fm k = None \<and> \<not> is_list_kind (ri_kind i) \<and> ri_kind i \<noteq> KStruct
      then (if ri_required i \<or> ri_present i then Stop (required_error k) else Skip)
      else Go)"

definition nested_scalar :: "form_env \<Rightarrow> form \<Rightarrow> gostring \<Rightarrow> RuleDef \<Rightarrow> field \<Rightarrow> bound" where
  "nested_scalar E fm k c fd =
     (case form_vals fm k of
        [] \<Rightarrow> Returns (None, fd)
      | v # vs \<Rightarrow>
          bind_call (parseVal E v (rd c)) (\<lambda>r.
            case r of Inl e \<Rightarrow> Returns (Some (VPlain e), fd) | Inr w \<Rightarrow> bind_or VPlain E fd w))"

definition nested_elem :: "form_env \<Rightarrow> rule_info \<Rightarrow> gotype \<Rightarrow> nat \<Rightarrow> gostring \<Rightarrow> (verr + goval) call" where
  "nested_elem E i e j v =
     bind_call (parseVal E v i) (\<lambda>r. case r of Inl x \<Rightarrow> Returns (Inl (VPlain x)) | Inr w \<Rightarrow> elem_value E VPlain e w)"

lemma size_property [termination_simp]: "(k, c) \<in> set (rd_properties d) \<Longrightarrow> size c < size d"
  by (cases d) (auto dest: size_list_estimation'[of _ _ "size c" "size_prod (\<lambda>x. 0) size"])

function bindStruct :: "form_env \<Rightarrow> form \<Rightarrow> field \<Rightarrow> RuleDef \<Rightarrow> bound" where
  "bindStruct E fm dest d =
     form_loop (nested_pre fm) (\<lambda>k c fd.
       let i = rd c in
       if is_list_kind (ri_kind i) then
         (case rd_item c of
            None \<Rightarrow> Panics
          | Some ec \<Rightarrow>
              if ri_kind (rd ec) = KStruct then
                bind_slice E VPlain fd (\<lambda>e.
                  structs_loop (\<lambda>sf. bindStruct E sf (Field Settable e (zero_of e)) ec)
                    (item_forms (length fm) (has_prefix fm) fm k 0))
              else bind_slice E VPlain fd (\<lambda>e. elems_loop (nested_elem E (rd ec) e) 0 (form_vals fm k)))
       else if ri_kind i = KStruct then
         (if CustomSpecs_Find (fe_specs E) (ri_format i) \<noteq> None then nested_scalar E fm k c fd
          else bindStruct E (sub_form (k @ ''.'') fm) fd c)
       else nested_scalar E fm k c fd)
     (rd_properties d) dest"
  by pat_completeness auto
termination
  by (relation "measure (\<lambda>(E, fm, dest, d). size d)") (use size_property size_item in \<open>fastforce+\<close>)

declare bindStruct.simps [simp del]

subsection \<open>The body\<close>

definition BodyErr :: "gostring \<Rightarrow> gostring \<Rightarrow> gerr \<Rightarrow> verr" where
  "BodyErr k rule e = VReport RequestErr schemaBody k rule e"

definition item_key :: "gostring \<Rightarrow> nat \<Rightarrow> gostring" where "item_key k j = k @ ''.'' @ nat_digits j"

text \<open>A top-level scalar and the elements of a top-level slice are checked against their rules.\<close>

definition body_scalar :: "form_env \<Rightarrow> form \<Rightarrow> gostring \<Rightarrow> RuleDef \<Rightarrow> field \<Rightarrow> bound" where
  "body_scalar E fm k c fd =
     (case form_vals fm k of
        [] \<Rightarrow> Returns (None, fd)
      | v # vs \<Rightarrow>
          bind_call (parseVal E v (rd c)) (\<lambda>r.
            case r of
              Inl e \<Rightarrow> Returns (Some (BodyErr k ''typeCast'' e), fd)
            | Inr w \<Rightarrow>
                bind_call (runValidation w RequestErr schemaBody k (ri_rules (rd c))) (\<lambda>er.
                  if er \<noteq> None then Returns (er, fd) else bind_or (BodyErr k ''typeMismatch'') E fd w)))"

definition body_elem :: "form_env \<Rightarrow> gostring \<Rightarrow> rule_info \<Rightarrow> gotype \<Rightarrow> nat \<Rightarrow> gostring \<Rightarrow> (verr + goval) call" where
  "body_elem E k i e j v =
     bind_call (parseVal E v i) (\<lambda>r.
       case r of
         Inl x \<Rightarrow> Returns (Inl (BodyErr (item_key k j) ''typeCast'' x))
       | Inr w \<Rightarrow>
           bind_call (runValidation w RequestErr schemaBody (item_key k j) (ri_rules i)) (\<lambda>er.
             case er of
               Some x \<Rightarrow> Returns (Inl x)
             | None \<Rightarrow> elem_value E (BodyErr (item_key k j) ''typeMismatch'') e w))"

text \<open>The rules of an element of a slice without item rules.\<close>

definition item_info :: "RuleDef \<Rightarrow> field \<Rightarrow> rule_info call" where
  "item_info c fd =
     (case rd_item c of
        Some ec \<Rightarrow> Returns (rd ec)
      | None \<Rightarrow>
          (case fd of
             Field ro t v \<Rightarrow>
               (case elem_of t of
                  Some e \<Rightarrow> Returns ((rd (getItemRuleDef e))\<lparr>ri_kind := kind_of e\<rparr>)
                | None \<Rightarrow> Panics)
           | _ \<Rightarrow> Panics))"

definition body_structs :: "form_env \<Rightarrow> form \<Rightarrow> form list \<Rightarrow> gostring \<Rightarrow> (gerr \<Rightarrow> verr) \<Rightarrow> RuleDef \<Rightarrow> field \<Rightarrow> bound" where
  "body_structs E fm fms k wrap c fd =
     bind_slice E wrap fd (\<lambda>e.
       bind_part (structs_loop
           (\<lambda>sf. bindStruct E sf (Field Settable e (zero_of e)) (case rd_item c of Some ec \<Rightarrow> ec | None \<Rightarrow> getItemRuleDef e)) fms)
         (\<lambda>ws. if fms = [] \<and> ri_required (rd c) \<and> \<not> ri_present (rd c)
               then Returns (Inl (BodyErr k ''required'' (errNew ''value must not be empty'')))
               else Returns (Inr ws)))"

text \<open>A property of the body.\<close>

definition form_property :: "form_env \<Rightarrow> form \<Rightarrow> gostring \<Rightarrow> RuleDef \<Rightarrow> field \<Rightarrow> bound" where
  "form_property E fm k c fd =
     (let i = rd c in
      if is_list_kind (ri_kind i) then
        bind_call (item_info c fd) (\<lambda>ei.
          if ri_kind ei = KStruct then
            body_structs E fm (item_forms (length fm) (has_prefix fm) fm k 0) k (BodyErr k ''typeMismatch'') c fd
          else bind_slice E (BodyErr k ''typeMismatch'') fd (\<lambda>e. elems_loop (body_elem E k ei e) 0 (form_vals fm k)))
      else if ri_kind i = KStruct then
        (if CustomSpecs_Find (fe_specs E) (ri_format i) \<noteq> None then body_scalar E fm k c fd
         else bindStruct E (sub_form (k @ ''.'') fm) fd c)
      else body_scalar E fm k c fd)"

definition nested_kind :: "kind \<Rightarrow> bool" where "nested_kind k \<longleftrightarrow> is_list_kind k \<or> k = KStruct"

definition form_pre :: "form \<Rightarrow> gostring \<Rightarrow> RuleDef \<Rightarrow> check" where
  "form_pre fm k c =
     (let i = rd c in
      if map_of fm k = None \<and> \<not> (nested_kind (ri_kind i) \<and> has_prefix fm (k @ ''.''))
      then (if ri_required i \<or> ri_present i then Stop (required_error k) else Skip)
      else Go)"

text \<open>Nothing at all is checked when the body is not bound.\<close>

definition bind_body ::
  "(field \<Rightarrow> bound) \<Rightarrow> bool \<Rightarrow> goval option \<Rightarrow> (verr option \<times> goval option) call"
where
  "bind_body run shouldBind rs =
     (if \<not> shouldBind \<or> rs = None then Returns (None, rs)
      else let req = request_field True rs in
        bind_call (getFieldStruct req schemaBody) (\<lambda>(ix, fd).
          bind_call (run fd) (\<lambda>(er, fd').
            bind_call (put_child req ix fd') (\<lambda>req'. Returns (er, request_of req' rs)))))"

definition form_limit :: "int \<Rightarrow> nat" where
  "form_limit MaxRequestSize = (if MaxRequestSize = 0 then 10485760 else nat MaxRequestSize)"

definition Form_ValidateAndDecodeRequest :: "form_env \<Rightarrow> int \<Rightarrow> body_parser" where
  "Form_ValidateAndDecodeRequest E MaxRequestSize body shouldBind d rs =
     (case ParseQuery (take (form_limit MaxRequestSize) body) of
        Inl e \<Rightarrow> Returns (Some (BodyErr [] ''parser'' e), rs)
      | Inr fm \<Rightarrow>
          if ri_kind (rd d) \<noteq> KStruct then
            Returns (Some (BodyErr [] ''typeMismatch'' (errNew ''form body must be a struct'')), rs)
          else bind_body (form_loop (form_pre fm) (form_property E fm) (rd_properties d)) shouldBind rs)"

definition Match_form :: "(gostring \<Rightarrow> gostring option) \<Rightarrow> gostring \<Rightarrow> bool" where
  "Match_form ParseMediaType contentType =
     (case ParseMediaType contentType of None \<Rightarrow> False | Some mt \<Rightarrow> mt = ''application/x-www-form-urlencoded'')"

definition Form_ValidateAndEncodeResponse :: "gerr + gostring" where
  "Form_ValidateAndEncodeResponse = Inl (errNew ''form body parser does not support response encoding'')"

end
