(* ===== verification/MultipartParser.thy ===== *)
theory MultipartParser
  imports FormParser
begin

section \<open>Multipart bodies (bodyparser_multipart.go)\<close>

text \<open>
  The multipart parser is a copy of the form parser that also binds uploaded files. The form comes
  from \<open>fasthttp\<close>, parsed: its values and its files, each a list of \<open>*multipart.FileHeader\<close>.
\<close>

type_synonym files = "(gostring \<times> goval list) list"

abbreviation "fileHeaderPtrType \<equiv> TPointer MultipartFile"

definition isSingleFileField :: "field \<Rightarrow> bool" where
  "isSingleFileField fd = (case fd of Field ro t v \<Rightarrow> t = fileHeaderPtrType | _ \<Rightarrow> False)"

definition isMultiFileField :: "field \<Rightarrow> bool" where
  "isMultiFileField fd =
     (case fd of Field ro t v \<Rightarrow> is_list_kind (kind_of t) \<and> elem_of t = Some fileHeaderPtrType | _ \<Rightarrow> False)"

definition has_file_prefix :: "files \<Rightarrow> gostring \<Rightarrow> bool" where
  "has_file_prefix fl p \<longleftrightarrow> list_ex (\<lambda>(k, v). HasPrefix k p) fl"

definition part_found :: "form \<Rightarrow> files \<Rightarrow> gostring \<Rightarrow> bool" where
  "part_found fm fl p \<longleftrightarrow> has_prefix fm p \<or> has_file_prefix fl p"

function multipart_bindStruct :: "form_env \<Rightarrow> form \<Rightarrow> field \<Rightarrow> RuleDef \<Rightarrow> bound" where
  "multipart_bindStruct E fm dest d =
     form_loop
       (\<lambda>k c. if map_of fm k \<noteq> None \<or> ri_kind (rd c) \<in> {KSlice, KArray, KStruct} then Go
              else if ri_required (rd c) \<or> ri_present (rd c) then Stop (required_error k) else Skip)
       (\<lambda>k c fd.
          if ri_kind (rd c) = KSlice \<or> ri_kind (rd c) = KArray then
            (case rd_item c of
               None \<Rightarrow> Panics
             | Some ec \<Rightarrow>
                 bind_slice E VPlain fd (\<lambda>e.
                   if ri_kind (rd ec) = KStruct then
                     structs_loop (\<lambda>sf. multipart_bindStruct E sf (Field Settable e (zero_of e)) ec)
                       (item_forms (length fm) (has_prefix fm) fm k 0)
                   else elems_loop (nested_elem E (rd ec) e) 0 (form_vals fm k)))
          else if ri_kind (rd c) = KStruct \<and> CustomSpecs_Find (fe_specs E) (ri_format (rd c)) = None then
            multipart_bindStruct E (sub_form (k @ ''.'') fm) fd c
          else nested_scalar E fm k c fd)
       (rd_properties d) dest"
  by pat_completeness auto
termination
  by (relation "measure (\<lambda>(E, fm, dest, d). size d)") (use size_property size_item in \<open>fastforce+\<close>)

declare multipart_bindStruct.simps [simp del]

text \<open>The presence check of a property depends on whether its field takes files.\<close>

definition multipart_check :: "form \<Rightarrow> files \<Rightarrow> gostring \<Rightarrow> RuleDef \<Rightarrow> field \<Rightarrow> check" where
  "multipart_check fm fl k c fd =
     (let i = rd c; missing = (if ri_required i \<or> ri_present i then Stop (required_error k) else Skip);
          fls = map_of fl k
      in if isSingleFileField fd \<or> isMultiFileField fd then (if fls = None \<or> fls = Some [] then missing else Go)
         else if map_of fm k = None \<and> fls = None \<and> \<not> (nested_kind (ri_kind i) \<and> part_found fm fl (k @ ''.''))
         then missing else Go)"

definition bind_files :: "form_env \<Rightarrow> gostring \<Rightarrow> goval list \<Rightarrow> field \<Rightarrow> bound" where
  "bind_files E k fls fd =
     (if isMultiFileField fd then
        (case fd of
           Field ro t v \<Rightarrow>
             if kind_of t = KSlice then bind_or (BodyErr k ''typeMismatch'') E fd (VSlice t (Some fls)) else Panics
         | _ \<Rightarrow> Panics)
      else if isSingleFileField fd \<and> fls \<noteq> [] then bind_or (BodyErr k ''typeMismatch'') E fd (hd fls)
      else Returns (None, fd))"

definition multipart_property :: "form_env \<Rightarrow> form \<Rightarrow> files \<Rightarrow> gostring \<Rightarrow> RuleDef \<Rightarrow> field \<Rightarrow> bound" where
  "multipart_property E fm fl k c fd =
     (case multipart_check fm fl k c fd of
        Stop e \<Rightarrow> Returns (Some e, fd)
      | Skip \<Rightarrow> Returns (None, fd)
      | Go \<Rightarrow>
          (case map_of fl k of
             Some fls \<Rightarrow> bind_files E k fls fd
           | None \<Rightarrow>
               let i = rd c in
               if is_list_kind (ri_kind i) then
                 bind_call (item_info c fd) (\<lambda>ei.
                   if ri_kind ei = KStruct then
                     body_structs E fm (item_forms (length fm + length fl) (part_found fm fl) fm k 0) k VPlain c fd
                   else bind_slice E (BodyErr k ''typeMismatch'') fd (\<lambda>e. elems_loop (body_elem E k ei e) 0 (form_vals fm k)))
               else if ri_kind i = KStruct then
                 (if CustomSpecs_Find (fe_specs E) (ri_format i) \<noteq> None then body_scalar E fm k c fd
                  else multipart_bindStruct E (sub_form (k @ ''.'') fm) fd c)
               else body_scalar E fm k c fd))"

definition Multipart_ValidateAndDecodeRequest ::
  "form_env \<Rightarrow> gerr + form \<times> files \<Rightarrow> bool \<Rightarrow> RuleDef \<Rightarrow> goval option \<Rightarrow> (verr option \<times> goval option) call"
where
  "Multipart_ValidateAndDecodeRequest E mform shouldBind d rs =
     (case mform of
        Inl e \<Rightarrow> Returns (Some (BodyErr [] ''parser'' e), rs)
      | Inr (fm, fl) \<Rightarrow>
          if ri_kind (rd d) \<noteq> KStruct then
            Returns (Some (BodyErr [] ''typeMismatch'' (errNew ''multipart body must be a struct'')), rs)
          else bind_body (form_loop (\<lambda>k c. Go) (multipart_property E fm fl) (rd_properties d)) shouldBind rs)"

definition Match_multipart :: "(gostring \<Rightarrow> gostring option) \<Rightarrow> gostring \<Rightarrow> bool" where
  "Match_multipart ParseMediaType contentType =
     (case ParseMediaType contentType of None \<Rightarrow> False | Some mt \<Rightarrow> mt = ''multipart/form-data'')"

definition Multipart_ValidateAndEncodeResponse :: "gerr + gostring" where
  "Multipart_ValidateAndEncodeResponse = Inl (errNew ''multipart body parser does not support response encoding'')"

end
