(* ===== verification/FormLaws.thy ===== *)
theory FormLaws
  imports MultipartParser JsonLaws
begin

section \<open>What the form parsers check\<close>

subsection \<open>An example\<close>

definition demo_fe :: form_env where
  "demo_fe = \<lparr>fe_specs = [], fe_f2i = (\<lambda>k f. 0), fe_timeParse = (\<lambda>l s. Inl (LibErr ''parsing time''))\<rparr>"

definition demo_form_type :: gotype where "demo_form_type = TStruct [SField ''Body'' TString [] False]"

definition demo_form_def :: RuleDef where
  "demo_form_def = RuleDef (demo_info demo_form_type []) None None [(''name'', demo_def TString)] []"

definition demo_form_request :: "gostring \<Rightarrow> goval" where
  "demo_form_request s = VStruct (demo_request demo_form_type) [VStruct demo_form_type [str s]]"

lemma demo_query: "ParseQuery (take (form_limit 40) ''name=x'') = Inr [(''name'', [''x''])]"
  by code_simp

lemma demo_form_bound:
  "Form_ValidateAndDecodeRequest demo_fe 40 ''name=x'' True demo_form_def (Some (demo_form_request []))
     = Returns (None, Some (demo_form_request ''x''))"
  by code_simp

definition demo_items :: form where
  "demo_items = [(''a.0.x'', [''1'']), (''a.1.x'', [''2'']), (''a.3.x'', [''4''])]"

subsection \<open>Elements of a list\<close>

lemma item_forms_length: "length (item_forms n found fm k i) \<le> n"
  by (induction n arbitrary: i) auto

lemma item_forms_found: "j < length (item_forms n found fm k i) \<Longrightarrow> found (item_prefix k (i + j))"
proof (induction n arbitrary: i j)
  case (Suc n)
  show ?case
  proof (cases j)
    case 0
    with Suc.prems show ?thesis by (auto split: if_split_asm)
  next
    case (Suc j')
    with Suc.prems have "j' < length (item_forms n found fm k (Suc i))" by (auto split: if_split_asm)
    with Suc.IH Suc show ?thesis by fastforce
  qed
qed simp

lemma item_forms_stop: "length (item_forms n found fm k i) < n \<Longrightarrow> \<not> found (item_prefix k (i + length (item_forms n found fm k i)))"
proof (induction n arbitrary: i)
  case (Suc n)
  then show ?case using Suc.IH[of "Suc i"] by (auto split: if_split_asm)
qed simp

lemma nat_digits_inj: "nat_digits m = nat_digits n \<Longrightarrow> m = n"
  by (metis digits_val_nat_digits)

lemma prefix_digits:
  assumes "HasPrefix s (item_prefix k m)" and "HasPrefix s (item_prefix k n)" shows "m = n"
proof -
  have d: "takeWhile is_digit (nat_digits i @ CHR ''.'' # r) = nat_digits i" for i r
    using nat_digits_digit by (subst takeWhile_append2) (auto simp: is_digit_def)
  have e: "\<exists>r. s = k @ ''.'' @ nat_digits i @ ''.'' @ r" if "HasPrefix s (item_prefix k i)" for i
    using that by (auto simp: HasPrefix_iff item_prefix_def)
  obtain r1 r2 where "s = k @ ''.'' @ nat_digits m @ ''.'' @ r1" "s = k @ ''.'' @ nat_digits n @ ''.'' @ r2"
    using e[OF assms(1)] e[OF assms(2)] by blast
  then have "nat_digits m @ CHR ''.'' # r1 = nat_digits n @ CHR ''.'' # r2" by simp
  then have "nat_digits m = nat_digits n" using d by metis
  then show ?thesis by (rule nat_digits_inj)
qed

text \<open>The number of tries is enough: the elements read are those of the indices from 0 up to the
  first one that no key of the form has.\<close>

theorem every_item_is_read:
  "(\<forall>j < length (item_forms (length fm) (has_prefix fm) fm k 0). has_prefix fm (item_prefix k j))
   \<and> \<not> has_prefix fm (item_prefix k (length (item_forms (length fm) (has_prefix fm) fm k 0)))"
proof -
  define L where "L = length (item_forms (length fm) (has_prefix fm) fm k 0)"
  have before: "has_prefix fm (item_prefix k j)" if "j < L" for j
    using item_forms_found[of j "length fm" "has_prefix fm" fm k 0] that by (simp add: L_def)
  moreover have "\<not> has_prefix fm (item_prefix k L)"
  proof
    assume last: "has_prefix fm (item_prefix k L)"
    then have "\<not> L < length fm" using item_forms_stop[of "length fm" "has_prefix fm" fm k 0] by (auto simp: L_def)
    moreover have "\<forall>j \<in> {..L}. \<exists>s \<in> set (map fst fm). HasPrefix s (item_prefix k j)"
    proof
      fix j assume "j \<in> {..L}"
      then have "has_prefix fm (item_prefix k j)" using before last by (cases "j = L") auto
      then show "\<exists>s \<in> set (map fst fm). HasPrefix s (item_prefix k j)"
        by (force simp: has_prefix_def list_ex_iff)
    qed
    then obtain f where f: "\<forall>j \<in> {..L}. f j \<in> set (map fst fm) \<and> HasPrefix (f j) (item_prefix k j)" by metis
    then have "inj_on f {..L}" by (intro inj_onI) (metis prefix_digits)
    then have "card {..L} \<le> card (set (map fst fm))" using f by (intro card_inj_on_le[of f]) auto
    then have "Suc L \<le> length fm" using card_length[of "map fst fm"] by simp
    ultimately show False by simp
  qed
  ultimately show ?thesis by (simp add: L_def)
qed

theorem every_item_is_read_witness:
  "item_forms (length demo_items) (has_prefix demo_items) demo_items ''a'' 0 = [[(''x'', [''1''])], [(''x'', [''2''])]]
   \<and> \<not> has_prefix demo_items (item_prefix ''a'' 2)"
proof -
  have "item_forms (length demo_items) (has_prefix demo_items) demo_items ''a'' 0 = [[(''x'', [''1''])], [(''x'', [''2''])]]"
    by code_simp
  with every_item_is_read[of demo_items "''a''"] show ?thesis by (simp add: numeral_2_eq_2)
qed

subsection \<open>Nested structs\<close>

text \<open>The two parsers bind nested structs alike.\<close>

theorem parsers_bind_alike: "multipart_bindStruct E fm dest d = bindStruct E fm dest d"
proof (induction d arbitrary: fm dest rule: measure_induct_rule[of size])
  case (less d)
  show ?case
    unfolding multipart_bindStruct.simps[of E fm dest d] bindStruct.simps[of E fm dest d]
  proof (rule form_loop_cong[OF ext[OF ext] refl refl], goal_cases)
    case (1 k c)
    show ?case by (auto simp: nested_pre_def is_list_kind_def Let_def)
  next
    case (2 k c fd)
    then have c: "size c < size d" by (rule size_property)
    have e: "multipart_bindStruct E fm' fd' ec = bindStruct E fm' fd' ec" if "rd_item c = Some ec" for fm' fd' ec
      using size_item[OF that] c by (intro less.IH) simp
    show ?case
      by (auto simp: Let_def is_list_kind_def less.IH[OF c] e split: option.splits)
  qed
qed

text \<open>The definitions without any of their rules; what is required stays.\<close>

fun erase_rules :: "RuleDef \<Rightarrow> RuleDef" where
  "erase_rules (RuleDef i it ad ps os) =
     RuleDef (i\<lparr>ri_rules := []\<rparr>) (map_option erase_rules it) ad (map (\<lambda>(k, c). (k, erase_rules c)) ps) os"

lemma erase_fields [simp]:
  "rd (erase_rules d) = (rd d)\<lparr>ri_rules := []\<rparr>" "rd_item (erase_rules d) = map_option erase_rules (rd_item d)"
  "rd_properties (erase_rules d) = map (\<lambda>(k, c). (k, erase_rules c)) (rd_properties d)"
  by (cases d; simp)+

lemma form_loop_map:
  assumes "\<And>k c. pre k (g c) = pre k c" and "\<And>k c f. (k, c) \<in> set cs \<Longrightarrow> step k (g c) f = step k c f"
    and "\<And>c. ri_fieldName (rd (g c)) = ri_fieldName (rd c)"
  shows "form_loop pre step (map (\<lambda>(k, c). (k, g c)) cs) fd = form_loop pre step cs fd"
  using assms(2)
proof (induction cs arbitrary: fd)
  case (Cons p cs)
  obtain k c where p: "p = (k, c)" by (cases p)
  have IH: "form_loop pre step (map (\<lambda>(k, c). (k, g c)) cs) f = form_loop pre step cs f" for f
    using Cons by auto
  then have IH: "form_loop pre step (map (\<lambda>(k, c). (k, g c)) cs) = form_loop pre step cs" by (rule ext)
  have st: "step k (g c) = step k c" by (rule ext) (use Cons.prems p in auto)
  show ?case unfolding p list.map prod.case form_loop.simps assms(1,3) IH st ..
qed simp

lemma parseVal_erase [simp]: "parseVal E v (i\<lparr>ri_rules := rls\<rparr>) = parseVal E v i"
  by (simp add: parseVal_def split: option.split)

lemma nested_erase [simp]:
  "nested_pre fm k (erase_rules c) = nested_pre fm k c" "nested_scalar E fm k (erase_rules c) fd = nested_scalar E fm k c fd"
  "nested_elem E (i\<lparr>ri_rules := rls\<rparr>) e = nested_elem E i e"
  by (auto simp: nested_pre_def nested_scalar_def nested_elem_def fun_eq_iff Let_def split: list.split)

text \<open>Below the first level of a form no rule is ever run: binding a nested struct is the same
  with all rules erased.\<close>

theorem nested_rules_never_run: "bindStruct E fm dest (erase_rules d) = bindStruct E fm dest d"
proof (induction d arbitrary: fm dest rule: measure_induct_rule[of size])
  case (less d)
  show ?case
    unfolding bindStruct.simps[of E fm dest "erase_rules d"] bindStruct.simps[of E fm dest d] erase_fields
  proof (rule form_loop_map, goal_cases)
    case (2 k c fd)
    then have c: "size c < size d" by (rule size_property)
    have e: "bindStruct E fm' fd' (erase_rules ec) = bindStruct E fm' fd' ec" if "rd_item c = Some ec" for fm' fd' ec
      using size_item[OF that] c by (intro less.IH) simp
    show ?case
      by (cases "rd_item c") (auto simp: Let_def less.IH[OF c] e)
  qed simp_all
qed

text \<open>Without binding a form is not checked at all: whatever the rules of a struct schema,
  \<open>Validate\<close> accepts every form that parses and every multipart form.\<close>

theorem unbound_form_unchecked:
  assumes "ri_kind (rd d) = KStruct" and "ParseQuery (take (form_limit M) body) = Inr fm"
  shows "Form_ValidateAndDecodeRequest E M body False d rs = Returns (None, rs)
     \<and> Multipart_ValidateAndDecodeRequest E (Inr (fm, fl)) False d rs = Returns (None, rs)"
  using assms by (simp add: Form_ValidateAndDecodeRequest_def Multipart_ValidateAndDecodeRequest_def bind_body_def)

theorem unbound_form_unchecked_witness:
  "Form_ValidateAndDecodeRequest demo_fe 40 ''name=x'' False demo_form_def None = Returns (None, None)
   \<and> Multipart_ValidateAndDecodeRequest demo_fe (Inr ([(''name'', [''x''])], [])) False demo_form_def None = Returns (None, None)"
proof -
  have "ri_kind (rd demo_form_def) = KStruct" by code_simp
  from unbound_form_unchecked[OF this demo_query] show ?thesis .
qed

text \<open>A date is a struct to the parsers: without properties its field is left as it is, and neither
  the layout nor the rules of the field are looked at.\<close>

lemma date_of_form_ignored:
  assumes "ri_kind (rd c) = KStruct" and "CustomSpecs_Find (fe_specs E) (ri_format (rd c)) = None"
    and "rd_properties c = []"
  shows "form_property E fm k c fd = Returns (None, fd)"
  using assms by (simp add: form_property_def Let_def is_list_kind_def bindStruct.simps)

subsection \<open>What a bound form has been checked for\<close>

definition scalar_rule :: "form_env \<Rightarrow> RuleDef \<Rightarrow> bool" where
  "scalar_rule E c \<longleftrightarrow> \<not> is_list_kind (ri_kind (rd c)) \<and> ri_kind (rd c) \<noteq> KStruct"

lemma body_scalar_checked:
  assumes "body_scalar E fm k c fd = Returns (None, fd')" and "form_vals fm k = v # vs"
  shows "\<exists>w. parseVal E v (rd c) = Returns (Inr w) \<and> runValidation w RequestErr schemaBody k (ri_rules (rd c)) = Returns None"
proof -
  from assms obtain w where w: "parseVal E v (rd c) = Returns (Inr w)" by (auto simp: body_scalar_def call_sum)
  with assms show ?thesis by (auto simp: body_scalar_def call_Returns split: if_split_asm)
qed

lemma form_loop_checked:
  assumes "form_loop pre step cs fd = Returns (None, fd')" and "(k, c) \<in> set cs"
  shows "pre k c = Skip \<or> pre k c = Go \<and> (\<exists>fd0 ix child. form_field fd0 (ri_fieldName (rd c)) = Returns (ix, child)
     \<and> (child = Invalid \<or> (\<exists>child'. step k c child = Returns (None, child'))))"
  using assms
proof (induction cs arbitrary: fd)
  case (Cons p cs)
  obtain k1 c1 where p: "p = (k1, c1)" by (cases p)
  show ?case
  proof (cases "pre k1 c1")
    case (Stop e)
    with Cons.prems(1) show ?thesis by (simp add: p)
  next
    case Skip
    with Cons p show ?thesis by auto
  next
    case Go
    with Cons.prems(1) obtain ix child where f: "form_field fd (ri_fieldName (rd c1)) = Returns (ix, child)" and
      r: "(if child = Invalid then form_loop pre step cs fd
           else bind_call (step k1 c1 child) (\<lambda>(er, child').
             bind_call (put_child fd ix child') (\<lambda>fd1.
               if er \<noteq> None then Returns (er, fd1) else form_loop pre step cs fd1))) = Returns (None, fd')"
      by (auto simp: p call_Returns)
    then have "child = Invalid \<and> form_loop pre step cs fd = Returns (None, fd')
      \<or> (\<exists>child' fd1. step k1 c1 child = Returns (None, child') \<and> form_loop pre step cs fd1 = Returns (None, fd'))"
      by (auto simp: call_Returns split: if_split_asm)
    then obtain fd1 where ok: "child = Invalid \<or> (\<exists>child'. step k1 c1 child = Returns (None, child'))" and
      rest: "form_loop pre step cs fd1 = Returns (None, fd')" by blast
    show ?thesis
    proof (cases "(k, c) = (k1, c1)")
      case True
      with Go f ok show ?thesis by auto
    next
      case False
      with Cons.prems(2) p have "(k, c) \<in> set cs" by auto
      from Cons.IH[OF rest this] show ?thesis .
    qed
  qed
qed simp

text \<open>In a form that binds without an error, every scalar property of the body is there when it
  is required, and unless the struct has no such field its first value parses and satisfies its
  rules.\<close>

theorem bound_form_scalars_checked:
  assumes "Form_ValidateAndDecodeRequest E M body True d (Some r) = Returns (None, rs')"
    and "ParseQuery (take (form_limit M) body) = Inr fm" and "(k, c) \<in> set (rd_properties d)" and "scalar_rule E c"
  shows "(map_of fm k = None \<longrightarrow> \<not> ri_required (rd c) \<and> \<not> ri_present (rd c))
     \<and> (\<forall>v vs. map_of fm k = Some (v # vs) \<longrightarrow>
          (\<exists>fd ix. form_field fd (ri_fieldName (rd c)) = Returns (ix, Invalid))
          \<or> (\<exists>w. parseVal E v (rd c) = Returns (Inr w)
               \<and> runValidation w RequestErr schemaBody k (ri_rules (rd c)) = Returns None))"
proof -
  have "ri_kind (rd d) = KStruct"
    using assms(1,2) by (auto simp: Form_ValidateAndDecodeRequest_def split: if_split_asm)
  with assms(1,2) obtain fd fd' where l: "form_loop (form_pre fm) (form_property E fm) (rd_properties d) fd = Returns (None, fd')"
    by (auto simp: Form_ValidateAndDecodeRequest_def bind_body_def Let_def call_Returns)
  have s: "form_property E fm k c child = body_scalar E fm k c child" for child
    using assms(4) by (auto simp: form_property_def Let_def scalar_rule_def)
  have p: "form_pre fm k c = (if map_of fm k = None then if ri_required (rd c) \<or> ri_present (rd c)
      then Stop (required_error k) else Skip else Go)"
    using assms(4) by (auto simp: form_pre_def Let_def scalar_rule_def nested_kind_def)
  note checked = form_loop_checked[OF l assms(3)]
  show ?thesis
  proof (cases "map_of fm k")
    case None
    with checked p show ?thesis by (auto split: if_split_asm)
  next
    case (Some vals)
    with checked p obtain fd0 ix child where f: "form_field fd0 (ri_fieldName (rd c)) = Returns (ix, child)"
      and r: "child = Invalid \<or> (\<exists>child'. body_scalar E fm k c child = Returns (None, child'))"
      by (auto simp: s)
    have "\<exists>w. parseVal E v (rd c) = Returns (Inr w) \<and> runValidation w RequestErr schemaBody k (ri_rules (rd c)) = Returns None"
      if "child \<noteq> Invalid" "vals = v # vs" for v vs
      using r that Some body_scalar_checked[of E fm k c child _ v vs] by (auto simp: form_vals_def)
    note valid = this
    show ?thesis
    proof (intro conjI impI allI)
      fix v vs assume "map_of fm k = Some (v # vs)"
      with Some have "vals = v # vs" by simp
      with f valid show "(\<exists>fd ix. form_field fd (ri_fieldName (rd c)) = Returns (ix, Invalid))
          \<or> (\<exists>w. parseVal E v (rd c) = Returns (Inr w)
               \<and> runValidation w RequestErr schemaBody k (ri_rules (rd c)) = Returns None)"
        by (cases "child = Invalid") blast+
    qed (use Some in simp_all)
  qed
qed

theorem bound_form_scalars_checked_witness:
  "\<exists>w. parseVal demo_fe ''x'' (rd (demo_def TString)) = Returns (Inr w)"
proof -
  have k: "(''name'', demo_def TString) \<in> set (rd_properties demo_form_def)" "scalar_rule demo_fe (demo_def TString)"
    by (simp_all add: demo_form_def_def scalar_rule_def demo_def_def demo_info_def is_list_kind_def)
  have m: "map_of [(''name'', [''x''])] ''name'' = Some (''x'' # [])" by simp
  have p: "parseVal demo_fe ''x'' (rd (demo_def TString)) = Returns (Inr (str ''x''))" by code_simp
  with bound_form_scalars_checked[OF demo_form_bound demo_query k] m show ?thesis by blast
qed

subsection \<open>Uploaded files\<close>

text \<open>An uploaded file satisfies a text field of its name: the field counts as present, required
  or not, no rule of it is run and nothing is bound.\<close>

theorem file_satisfies_text_field:
  assumes "map_of fl k = Some fls" and "\<not> isSingleFileField fd" and "\<not> isMultiFileField fd"
  shows "multipart_property E fm fl k c fd = Returns (None, fd)"
  using assms by (simp add: multipart_property_def multipart_check_def bind_files_def Let_def)

theorem file_satisfies_text_field_witness:
  "multipart_property demo_fe [] [(''name'', [VPtr fileHeaderPtrType None])] ''name'' (demo_def TString) (Field Settable TString (str []))
     = Returns (None, Field Settable TString (str []))"
proof (rule file_satisfies_text_field)
  show "map_of [(''name'', [VPtr fileHeaderPtrType None])] ''name'' = Some [VPtr fileHeaderPtrType None]" by simp
  show "\<not> isSingleFileField (Field Settable TString (str []))" by (simp add: isSingleFileField_def)
  show "\<not> isMultiFileField (Field Settable TString (str []))" by (simp add: isMultiFileField_def is_list_kind_def)
qed

end
