(* ===== verification/Responses.thy ===== *)
theory Responses
  imports JsonEncode Context
begin

section \<open>Sending a response (responses.go)\<close>

text \<open>
  \<open>Send\<close> takes an object with the fields \<open>Headers\<close>, \<open>Cookies\<close> and \<open>Body\<close>, checks each against the
  rules of its status, writes the headers and cookies as it goes and the body at the end. The
  entries of a part are those of a Go map, in the order of the list here. Dates, cookies, the text
  of values with methods, the objects that encode themselves and the body parsers are those of the
  environment; the context is the one of the request.
\<close>

type_synonym response_parser = "RuleDef \<Rightarrow> rvalue \<Rightarrow> (verr + gostring) call"

type_synonym ('f, 'v) part_result = "(verr option \<times> ('f, 'v) ctx) call"

record ('f, 'v) resp_env =
  rs_specs :: "custom_spec gomap"
  rs_timeFormat :: "goval \<Rightarrow> gostring \<Rightarrow> gostring"
  rs_timeIsZero :: "goval \<Rightarrow> bool"
  rs_cookieValue :: "goval \<Rightarrow> gostring"
  rs_cookieString :: "goval \<Rightarrow> gostring"
  rs_newCookie :: "gostring \<Rightarrow> gostring \<Rightarrow> gostring"
  rs_cookieNames :: "'f \<Rightarrow> gostring list"
  rs_Sprint :: "goval \<Rightarrow> gostring"
  rs_headerSetter :: "goval \<Rightarrow> ('f, 'v) ctx \<Rightarrow> ('f, 'v) part_result"
  rs_cookieSetter :: "goval \<Rightarrow> ('f, 'v) ctx \<Rightarrow> ('f, 'v) part_result"
  rs_parsers :: "response_parser BodyParser list"

definition set_header :: "'f fasthttp \<Rightarrow> gostring \<Rightarrow> gostring \<Rightarrow> ('f, 'v) ctx \<Rightarrow> ('f, 'v) ctx" where
  "set_header F k v c = c\<lparr>fctx := fh_RespSet F k v (fctx c)\<rparr>"

definition add_cookie :: "'f fasthttp \<Rightarrow> gostring \<Rightarrow> ('f, 'v) ctx \<Rightarrow> ('f, 'v) ctx" where
  "add_cookie F v c = c\<lparr>fctx := fh_RespAdd F ''Set-Cookie'' v (fctx c)\<rparr>"

text \<open>Run the rules on a value, then go on.\<close>

definition checked ::
  "goval \<Rightarrow> gostring \<Rightarrow> gostring \<Rightarrow> ruleOpts list \<Rightarrow> ('f, 'v) ctx \<Rightarrow> ('f, 'v) part_result \<Rightarrow> ('f, 'v) part_result"
where
  "checked v sch k rls c cont =
     bind_call (runValidation v ResponseErr sch k rls) (\<lambda>er. if er \<noteq> None then Returns (er, c) else cont)"

definition resp_fail :: "gostring \<Rightarrow> gostring \<Rightarrow> gostring \<Rightarrow> gerr \<Rightarrow> ('f, 'v) ctx \<Rightarrow> ('f, 'v) part_result" where
  "resp_fail sch k rule e c = Returns (Some (VReport ResponseErr sch k rule e), c)"

fun entries_loop ::
  "(gostring \<times> RuleDef \<Rightarrow> ('f, 'v) ctx \<Rightarrow> ('f, 'v) part_result) \<Rightarrow> (gostring \<times> RuleDef) list \<Rightarrow> ('f, 'v) ctx \<Rightarrow> ('f, 'v) part_result"
where
  "entries_loop step [] c = Returns (None, c)"
| "entries_loop step (e # es) c =
     bind_call (step e c) (\<lambda>(er, c'). if er \<noteq> None then Returns (er, c') else entries_loop step es c')"

text \<open>The value of a primitive with its default; empty is what \<open>PrimitiveKindIsEmpty\<close> calls so.\<close>

definition or_default :: "rule_info \<Rightarrow> goval \<Rightarrow> (goval \<times> bool) call" where
  "or_default i v =
     bind_call (PrimitiveKindIsEmpty (ri_kind i) v) (\<lambda>empty.
       let w = (if empty \<and> ri_defVal i \<noteq> VNil then ri_defVal i else v) in
       bind_call (PrimitiveKindIsEmpty (ri_kind i) w) (\<lambda>still. Returns (w, still)))"

subsection \<open>Headers\<close>

definition missing_entry ::
  "bool \<Rightarrow> gostring \<Rightarrow> gostring \<Rightarrow> rule_info \<Rightarrow> ('f, 'v) ctx \<Rightarrow> ('f, 'v) part_result"
where
  "missing_entry written sch k i c =
     (if ri_required i \<and> \<not> written then checked VNil sch k (ri_rules i) c (Returns (None, c)) else Returns (None, c))"

definition time_header ::
  "('f, 'v) resp_env \<Rightarrow> 'f fasthttp \<Rightarrow> gostring \<Rightarrow> rule_info \<Rightarrow> gotype \<Rightarrow> goval \<Rightarrow> ('f, 'v) ctx \<Rightarrow> ('f, 'v) part_result"
where
  "time_header E F k i t v c =
     (let written = headerAlreadyWritten F k c;
          bad = resp_fail schemaHeaders k ''parser'' (errNew ''unable to parse header'') c
      in if kind_of t = KPointer then
           (if typeof v \<noteq> Some (TPointer TimeType) then bad
            else if (nil_pointer v \<or> rs_timeIsZero E v) \<and> written then Returns (None, c)
            else checked v schemaHeaders k (ri_rules i) c
              (if nil_pointer v then Panics else Returns (None, set_header F k (rs_timeFormat E v (ri_pattern i)) c)))
         else if kind_of t = KStruct then
           (if typeof v \<noteq> Some TimeType then bad
            else if rs_timeIsZero E v \<and> written then Returns (None, c)
            else checked v schemaHeaders k (ri_rules i) c
              (Returns (None, set_header F k (rs_timeFormat E v (ri_pattern i)) c)))
         else Returns (None, c))"

definition header_entry ::
  "('f, 'v) resp_env \<Rightarrow> 'f fasthttp \<Rightarrow> goval \<Rightarrow> gostring \<times> RuleDef \<Rightarrow> ('f, 'v) ctx \<Rightarrow> ('f, 'v) part_result"
where
  "header_entry E F headers e c =
     (let k = fst e; i = rd (snd e); written = headerAlreadyWritten F k c in
      if ToLower k = ''content-type'' then Returns (None, c)
      else bind_call (field_named headers (ri_fieldName i)) (\<lambda>rv.
        case rv of
          None \<Rightarrow> missing_entry written schemaHeaders k i c
        | Some (ro, t, v) \<Rightarrow>
            if ro then Panics
            else case CustomSpecs_Find (rs_specs E) (ri_format i) of
              Some spec \<Rightarrow>
                bind_call (sp_Encode spec v) (\<lambda>r.
                  case r of
                    Inl er \<Rightarrow> resp_fail schemaHeaders k ''typeMismatch'' er c
                  | Inr s \<Rightarrow>
                      if s = [] \<and> written then Returns (None, c)
                      else checked (str s) schemaHeaders k (ri_rules i) c (Returns (None, set_header F k s c)))
            | None \<Rightarrow>
                if IsPrimitiveKind (ri_kind i) then
                  bind_call (or_default i v) (\<lambda>(w, empty).
                    if empty \<and> written then Returns (None, c)
                    else checked w schemaHeaders k (ri_rules i) c
                      (Returns (None, set_header F k (Sprint_v (rs_Sprint E) w) c)))
                else if ri_format i = TimeObjectFormat then time_header E F k i t v c
                else Returns (None, c)))"

definition setter_of :: "goval \<Rightarrow> gostring \<Rightarrow> bool" where
  "setter_of v m = (case typeof v of None \<Rightarrow> False | Some t \<Rightarrow> implements t [m])"

definition part_props :: "ruleDefMap \<Rightarrow> gostring \<Rightarrow> (gostring \<times> RuleDef) list" where
  "part_props rls sch = (case map_of rls sch of None \<Rightarrow> [] | Some d \<Rightarrow> rd_properties d)"

definition validateAndEncodeHeaders ::
  "('f, 'v) resp_env \<Rightarrow> 'f fasthttp \<Rightarrow> ruleDefMap \<Rightarrow> rvalue \<Rightarrow> ('f, 'v) ctx \<Rightarrow> ('f, 'v) part_result"
where
  "validateAndEncodeHeaders E F rls headers c =
     (let props = part_props rls schemaHeaders in
      if props = [] then Returns (None, c)
      else case headers of
        None \<Rightarrow> resp_fail schemaHeaders [] ''invalid_error'' (errNew ''headers object is invalid'') c
      | Some (ro, t, v) \<Rightarrow>
          if ro then Panics
          else if setter_of v ''ValidateAndEncodeHeaders'' then rs_headerSetter E v c
          else entries_loop (header_entry E F v) props c)"

subsection \<open>Cookies\<close>

definition cookie_name :: "gostring \<Rightarrow> gostring" where "cookie_name s = takeWhile (\<lambda>ch. ch \<noteq> CHR ''='') s"

definition cookieAlreadyWritten :: "('f, 'v) resp_env \<Rightarrow> gostring \<Rightarrow> ('f, 'v) ctx \<Rightarrow> bool" where
  "cookieAlreadyWritten E name c \<longleftrightarrow>
     name \<in> set (rs_cookieNames E (fctx c))
     \<or> (case rw c of
          None \<Rightarrow> False
        | Some w \<Rightarrow> headerInit w \<and>
            list_ex (\<lambda>s. CHR ''='' \<in> set s \<and> cookie_name s \<noteq> [] \<and> cookie_name s = name) (Header_values (header w) ''Set-Cookie''))"

definition cookie_object ::
  "('f, 'v) resp_env \<Rightarrow> 'f fasthttp \<Rightarrow> gostring \<Rightarrow> rule_info \<Rightarrow> gotype \<Rightarrow> goval \<Rightarrow> ('f, 'v) ctx \<Rightarrow> ('f, 'v) part_result"
where
  "cookie_object E F k i t v c =
     (let written = cookieAlreadyWritten E k c;
          bad = resp_fail schemaCookies [] ''parser'' (errNew ''unable to parse cookie'') c
      in if kind_of t = KPointer then
           (if typeof v \<noteq> Some (TPointer CookieType) then bad
            else if nil_pointer v \<and> written then Returns (None, c)
            else checked (str (if nil_pointer v then [] else rs_cookieValue E v)) schemaCookies k (ri_rules i) c
              (Returns (None, add_cookie F (if nil_pointer v then [] else rs_cookieString E v) c)))
         else if kind_of t = KStruct then
           (if typeof v \<noteq> Some CookieType then bad
            else if rs_cookieValue E v = [] \<and> written then Returns (None, c)
            else checked (str (rs_cookieValue E v)) schemaCookies k (ri_rules i) c
              (Returns (None, add_cookie F (rs_cookieString E v) c)))
         else Returns (None, c))"

definition cookie_entry ::
  "('f, 'v) resp_env \<Rightarrow> 'f fasthttp \<Rightarrow> goval \<Rightarrow> gostring \<times> RuleDef \<Rightarrow> ('f, 'v) ctx \<Rightarrow> ('f, 'v) part_result"
where
  "cookie_entry E F cookies e c =
     (let k = fst e; i = rd (snd e); written = cookieAlreadyWritten E k c in
      bind_call (field_named cookies (ri_fieldName i)) (\<lambda>rv.
        case rv of
          None \<Rightarrow> missing_entry written schemaCookies k i c
        | Some (ro, t, v) \<Rightarrow>
            if ro then Panics
            else if IsPrimitiveKind (ri_kind i) then
              bind_call (or_default i v) (\<lambda>(w, empty).
                if empty \<and> written then Returns (None, c)
                else checked w schemaCookies k (ri_rules i) c
                  (Returns (None, add_cookie F (rs_newCookie E k (Sprint_v (rs_Sprint E) w)) c)))
            else if ri_format i = CookieObjectFormat then cookie_object E F k i t v c
            else Returns (None, c)))"

definition validateAndEncodeCookie ::
  "('f, 'v) resp_env \<Rightarrow> 'f fasthttp \<Rightarrow> ruleDefMap \<Rightarrow> rvalue \<Rightarrow> ('f, 'v) ctx \<Rightarrow> ('f, 'v) part_result"
where
  "validateAndEncodeCookie E F rls cookies c =
     (let props = part_props rls schemaCookies in
      if props = [] then Returns (None, c)
      else case cookies of
        None \<Rightarrow> resp_fail schemaCookies [] ''invalid_error'' (errNew ''headers object is invalid'') c
      | Some (ro, t, v) \<Rightarrow>
          if ro then Panics
          else if setter_of v ''ValidateAndEncodeCookies'' then rs_cookieSetter E v c
          else entries_loop (cookie_entry E F v) props c)"

subsection \<open>The response\<close>

definition empty_def :: RuleDef where
  "empty_def = RuleDef ((rd (getItemRuleDef TAny))\<lparr>ri_kind := KInvalid, ri_jsonKeyBytes := []\<rparr>) None None [] []"

definition body_rules :: "ruleDefMap \<Rightarrow> RuleDef" where
  "body_rules rls = (case map_of rls schemaBody of None \<Rightarrow> empty_def | Some d \<Rightarrow> d)"

definition deref_object :: "goval \<Rightarrow> goval option" where
  "deref_object v =
     (case v of VPtr t (Some (a, w)) \<Rightarrow> Some w | VPtr t None \<Rightarrow> None | _ \<Rightarrow> Some v)"

definition send_body ::
  "('f, 'v) resp_env \<Rightarrow> 'f fasthttp \<Rightarrow> gostring \<Rightarrow> RuleDef \<Rightarrow> rvalue \<Rightarrow> int \<Rightarrow> ('f, 'v) ctx \<Rightarrow> ('f, 'v) part_result"
where
  "send_body E F ct d body code c =
     (case getSerializer (rs_parsers E) ct of
        Inl e \<Rightarrow> Returns (Some (VReport RequestErr schemaBody ct ''required'' (errNew e)), c)
      | Inr sz \<Rightarrow>
          bind_call (parser sz d body) (\<lambda>r.
            case r of
              Inl er \<Rightarrow> Returns (Some er, c)
            | Inr bs \<Rightarrow>
                Returns (None, c\<lparr>fctx := fh_SetBody F bs (fh_SetStatusCode F code (fh_RespSet F ''Content-Type'' ct (fctx c)))\<rparr>)))"

definition Send ::
  "('f, 'v) resp_env \<Rightarrow> 'f fasthttp \<Rightarrow> 'w schemaRules option \<Rightarrow> int \<Rightarrow> goval \<Rightarrow> ('f, 'v) ctx \<Rightarrow> ('f, 'v) part_result"
where
  "Send E F srs code obj c =
     (case srs of
        None \<Rightarrow> resp_fail schemaBody [] ''required'' (errNew ''schema not properly registered to route handler'') c
      | Some s \<Rightarrow>
          (case getRespRulesByCode s code of
             Inl e \<Rightarrow> Returns (Some (VPlain e), c)
           | Inr (f, rls) \<Rightarrow>
               if rls = [] then Returns (None, c)
               else if obj = VNil then
                 Returns (Some (VPlain (errNew ''undefined schema when calling the gofi Send function'')), c)
               else case deref_object obj of
                 Some v \<Rightarrow>
                   if vkind v \<noteq> KStruct then
                     Returns (Some (VPlain (errNew ''bad response. invalid response type. response object must be a struct'')), c)
                   else
                     bind_call (field_named v schemaHeaders) (\<lambda>hs.
                       bind_call (validateAndEncodeHeaders E F rls hs c) (\<lambda>(er, c1).
                         if er \<noteq> None then Returns (er, c1)
                         else bind_call (field_named v schemaCookies) (\<lambda>cs.
                           bind_call (validateAndEncodeCookie E F rls cs c1) (\<lambda>(er, c2).
                             if er \<noteq> None then Returns (er, c2)
                             else bind_call (field_named v schemaBody) (\<lambda>body.
                               send_body E F (respContent s code) (body_rules rls) body code c2)))))
               | None \<Rightarrow>
                   Returns (Some (VPlain (errNew ''bad response. invalid response type. response object must be a struct'')), c)))"

end
