(* ===== verification/ResponseLaws.thy ===== *)
theory ResponseLaws
  imports Responses EncodeLaws
begin

section \<open>What a response has been checked for\<close>

subsection \<open>A failed response\<close>

text \<open>The states of a response reached by writing headers.\<close>

inductive header_writes :: "'f fasthttp \<Rightarrow> 'f \<Rightarrow> 'f \<Rightarrow> bool" for F where
  none: "header_writes F f f"
| set: "header_writes F f g \<Longrightarrow> header_writes F f (fh_RespSet F k v g)"
| add: "header_writes F f g \<Longrightarrow> header_writes F f (fh_RespAdd F k v g)"

lemma header_writes_trans: "header_writes F g h \<Longrightarrow> header_writes F f g \<Longrightarrow> header_writes F f h"
  by (induction rule: header_writes.induct) (auto intro: header_writes.intros)

definition wrote :: "'f fasthttp \<Rightarrow> ('f, 'v) ctx \<Rightarrow> ('f, 'v) ctx \<Rightarrow> bool" where
  "wrote F c c' \<longleftrightarrow> (\<exists>f. c' = c\<lparr>fctx := f\<rparr> \<and> header_writes F (fctx c) f)"

lemma wrote_refl [simp]: "wrote F c c"
  unfolding wrote_def by (rule exI[of _ "fctx c"]) (simp add: header_writes.none)

lemma wrote_trans: "wrote F c c1 \<Longrightarrow> wrote F c1 c2 \<Longrightarrow> wrote F c c2"
proof -
  assume "wrote F c c1" "wrote F c1 c2"
  then obtain f g where f: "c1 = c\<lparr>fctx := f\<rparr>" "header_writes F (fctx c) f"
    and g: "c2 = c1\<lparr>fctx := g\<rparr>" "header_writes F (fctx c1) g"
    by (auto simp: wrote_def)
  have "header_writes F (fctx c) g" by (rule header_writes_trans[OF _ f(2)]) (use f(1) g(2) in simp)
  then show "wrote F c c2" unfolding wrote_def by (intro exI[of _ g]) (simp add: f(1) g(1))
qed

lemma wrote_set [simp]: "wrote F c (set_header F k v c)" and wrote_add [simp]: "wrote F c (add_cookie F v c)"
  by (auto simp: wrote_def set_header_def add_cookie_def intro: header_writes.intros)

definition writes_headers :: "'f fasthttp \<Rightarrow> ('f, 'v) ctx \<Rightarrow> ('f, 'v) part_result \<Rightarrow> bool" where
  "writes_headers F c r \<longleftrightarrow> (\<forall>er c'. r = Returns (er, c') \<longrightarrow> wrote F c c')"

lemma writes_return [simp]:
  "writes_headers F c (Returns (er, c)) " "writes_headers F c Panics" "writes_headers F c (resp_fail s k r e c)"
  "writes_headers F c (Returns (er, set_header F k v c))" "writes_headers F c (Returns (er, add_cookie F v c))"
  by (simp_all add: writes_headers_def resp_fail_def)

lemma writes_call: "(\<And>x. writes_headers F c (f x)) \<Longrightarrow> writes_headers F c (bind_call r f)"
  by (cases r) simp_all

lemma writes_checked: "writes_headers F c k \<Longrightarrow> writes_headers F c (checked v s kk rls c k)"
  by (auto simp: checked_def intro!: writes_call)

lemma writes_missing: "writes_headers F c (missing_entry w s k i c)"
  by (auto simp: missing_entry_def intro!: writes_checked)

lemma writes_header_entry: "writes_headers F c (header_entry E F v e c)"
  unfolding header_entry_def time_header_def Let_def
  by (auto intro!: writes_call writes_checked writes_missing split: option.split sum.split)

lemma writes_cookie_entry: "writes_headers F c (cookie_entry E F v e c)"
  unfolding cookie_entry_def cookie_object_def Let_def
  by (auto intro!: writes_call writes_checked writes_missing split: option.split)

lemma writes_loop: "(\<And>e c. writes_headers F c (step e c)) \<Longrightarrow> writes_headers F c (entries_loop step es c)"
proof (induction es arbitrary: c)
  case (Cons e es)
  show ?case
  proof (cases "step e c")
    case (Returns r)
    obtain er c1 where r: "r = (er, c1)" by (cases r)
    have 1: "wrote F c c1" using Cons.prems[of c e] Returns r by (simp add: writes_headers_def)
    have 2: "writes_headers F c1 (entries_loop step es c1)" by (rule Cons.IH[OF Cons.prems])
    show ?thesis using 1 2 Returns r by (auto simp: writes_headers_def intro: wrote_trans)
  qed simp
qed simp

text \<open>C26. A response that fails has written headers and cookies at most: the status, the body and the
  rest of the context are as before, whatever the part that failed.\<close>

theorem failed_send_writes_headers_only:
  assumes "Send E F srs code obj c = Returns (Some er, c')"
    and "\<And>v c. writes_headers F c (rs_headerSetter E v c)" and "\<And>v c. writes_headers F c (rs_cookieSetter E v c)"
  shows "\<exists>f. c' = c\<lparr>fctx := f\<rparr> \<and> header_writes F (fctx c) f"
proof -
  have h: "writes_headers F c (validateAndEncodeHeaders E F rls hs c)" for rls hs c
    unfolding validateAndEncodeHeaders_def Let_def
    by (auto intro!: writes_loop writes_header_entry assms(2) split: option.split)
  have k: "writes_headers F c (validateAndEncodeCookie E F rls hs c)" for rls hs c
    unfolding validateAndEncodeCookie_def Let_def
    by (auto intro!: writes_loop writes_cookie_entry assms(3) split: option.split)
  have b: "send_body E F ct d body code c2 = Returns (Some er, c') \<Longrightarrow> c' = c2" for ct d body c2
    by (auto simp: send_body_def call_sum split: sum.split_asm)
  have hk: "validateAndEncodeHeaders E F rls hs c = Returns (e1, c1) \<Longrightarrow> wrote F c c1"
    "validateAndEncodeCookie E F rls hs c1 = Returns (e2, c2) \<Longrightarrow> wrote F c1 c2" for rls hs e1 c1 e2 c2
    using h k by (simp_all add: writes_headers_def)
  have "wrote F c c'"
  proof (cases srs)
    case None
    with assms(1) show ?thesis by (simp add: Send_def resp_fail_def)
  next
    case (Some s)
    show ?thesis
    proof (cases "getRespRulesByCode s code")
      case (Inl e)
      with assms(1) Some show ?thesis by (simp add: Send_def)
    next
      case (Inr p)
      obtain f rls where p: "p = (f, rls)" by (cases p)
      show ?thesis
        using assms(1) Some Inr p
        by (auto simp: Send_def call_Returns split: if_split_asm option.split_asm dest: b dest!: hk intro: wrote_trans)
    qed
  qed
  then show ?thesis by (simp add: wrote_def)
qed

subsection \<open>A response to send\<close>

text \<open>A schema for the status 200 with one required header of text and one number.\<close>

definition demo_header_info :: "gostring \<Rightarrow> gotype \<Rightarrow> ruleOpts list \<Rightarrow> goval \<Rightarrow> rule_info" where
  "demo_header_info n t rls dv = (demo_info t rls)\<lparr>ri_field := n, ri_fieldName := n, ri_defVal := dv\<rparr>"

definition nonempty_rule :: ruleOpts where
  "nonempty_rule = \<lparr>ro_typ = TString, ro_kind = KString, ro_rule = ''required'', ro_args = [],
     ro_dator = (\<lambda>v. Returns (if v = str [] then Some (errNew ''value is required'') else None))\<rparr>"

definition name_def :: RuleDef where
  "name_def = RuleDef (demo_header_info ''Name'' TString [nonempty_rule] VNil) None None [] []"

definition left_def :: RuleDef where
  "left_def = RuleDef (demo_header_info ''Left'' (TBasic KInt32) [] (VInt (TBasic KInt32) 9)) None None [] []"

definition demo_response_rules :: "unit schemaRules" where
  "demo_response_rules = \<lparr>sr_req = [], sr_responses = [(''Ok'',
     [(schemaHeaders, RuleDef (demo_info TAny []) None None [(''Name'', name_def), (''Left'', left_def)] [])])],
     sr_websocket = None, sr_schemaType = None\<rparr>"

definition demo_response_header :: gotype where
  "demo_response_header = TStruct [SField ''Name'' TString [] False, SField ''Left'' (TBasic KInt32) [] False]"

definition demo_response :: "gostring \<Rightarrow> int \<Rightarrow> goval" where
  "demo_response n k = VStruct (TStruct [SField schemaHeaders demo_response_header [] False])
     [VStruct demo_response_header [str n, VInt (TBasic KInt32) k]]"

definition demo_re :: "(web, nat) resp_env" where
  "demo_re = \<lparr>rs_specs = [], rs_timeFormat = (\<lambda>v l. l), rs_timeIsZero = (\<lambda>v. False), rs_cookieValue = (\<lambda>v. []),
     rs_cookieString = (\<lambda>v. []), rs_newCookie = (\<lambda>n v. n @ ''='' @ v), rs_cookieNames = (\<lambda>f. []), rs_Sprint = (\<lambda>v. ''<nil>''),
     rs_headerSetter = (\<lambda>v c. Returns (None, c)), rs_cookieSetter = (\<lambda>v c. Returns (None, c)),
     rs_parsers = [\<lparr>Match = (\<lambda>ct. True), parser = (\<lambda>d rv. Returns (Inr ''null''))\<rparr>]\<rparr>"

definition demo_sending :: "(web, nat) ctx" where "demo_sending = base (demo_ctx ''GET'' ''/'')"

lemma demo_response_code:
  "getRespRulesByCode demo_response_rules 200 = Inr (''Ok'', snd (hd (sr_responses demo_response_rules)))"
proof -
  have c: "codeToStatuses 200 = Some \<lparr>sfi_Field = ''Ok'', sfi_Description = ''OK Response''\<rparr>"
    unfolding codeToStatuses_iff by (simp add: statuses_def field_names ParseInt_three digit_chars digit_vals)
  show ?thesis by (simp add: getRespRulesByCode_def c demo_response_rules_def)
qed

lemma demo_resp_parts:
  "part_props (snd (hd (sr_responses demo_response_rules))) schemaHeaders = [(''Name'', name_def), (''Left'', left_def)]"
  "part_props (snd (hd (sr_responses demo_response_rules))) schemaCookies = []"
  "snd (hd (sr_responses demo_response_rules)) \<noteq> []"
  by (simp_all add: demo_response_rules_def part_props_def schema_fields)

lemma demo_response_fields:
  "deref_object (demo_response n k) = Some (demo_response n k)" "vkind (demo_response n k) = KStruct"
  "field_named (demo_response n k) schemaHeaders =
     Returns (Some (False, demo_response_header, VStruct demo_response_header [str n, VInt (TBasic KInt32) k]))"
  "field_named (demo_response n k) schemaCookies = Returns None"
  "field_named (demo_response n k) schemaBody = Returns None"
  by code_simp+

lemma demo_header_fields:
  "field_named (VStruct demo_response_header [str n, VInt (TBasic KInt32) k]) ''Name'' = Returns (Some (False, TString, str n))"
  "field_named (VStruct demo_response_header [str n, VInt (TBasic KInt32) k]) ''Left'' =
     Returns (Some (False, TBasic KInt32, VInt (TBasic KInt32) k))"
  "setter_of (VStruct demo_response_header [str n, VInt (TBasic KInt32) k]) ''ValidateAndEncodeHeaders'' = False"
  by code_simp+

lemma demo_not_content: "ToLower ''Name'' \<noteq> ''content-type''" "ToLower ''Left'' \<noteq> ''content-type''"
  by code_simp+

lemma loop_step:
  "entries_loop step (bs @ e # es) c = Returns (None, c') \<Longrightarrow>
   \<exists>c1 c2. entries_loop step bs c = Returns (None, c1) \<and> step e c1 = Returns (None, c2)"
proof (induction bs arbitrary: c)
  case (Cons b bs)
  then obtain d where d: "step b c = Returns (None, d)" "entries_loop step (bs @ e # es) d = Returns (None, c')"
    by (auto simp: call_Returns split: if_split_asm)
  from Cons.IH[OF d(2)] d(1) show ?case by simp
qed (auto simp: call_Returns split: if_split_asm)

text \<open>C25. When a response has been sent, every header field of a primitive type has satisfied its rules,
  an empty value with the default in its place, or without one as it is. The only field that is
  passed over is one that is empty, without a default, and whose header had been written before
  the send or by the fields before it. The status, content type and body are those of the
  schema and its body parser.\<close>

theorem sent_response_checked:
  assumes sent: "Send E F (Some s) code obj c = Returns (None, c')"
    and r: "getRespRulesByCode s code = Inr (f, rls)" "rls \<noteq> []" "deref_object obj = Some v"
    and h: "field_named v schemaHeaders = Returns (Some (ro, t, hv))" "\<not> setter_of hv ''ValidateAndEncodeHeaders''"
    and k: "part_props rls schemaHeaders = before @ (k, d) # after" "ToLower k \<noteq> ''content-type''"
      "field_named hv (ri_fieldName (rd d)) = Returns (Some (ro', t', fv))"
      "CustomSpecs_Find (rs_specs E) (ri_format (rd d)) = None" "IsPrimitiveKind (ri_kind (rd d))"
      "or_default (rd d) fv = Returns (w, void)"
  shows "(\<exists>c1. entries_loop (header_entry E F hv) before c = Returns (None, c1)
          \<and> (list_all (\<lambda>r. ro_dator r w = ok) (ri_rules (rd d)) \<or> void \<and> headerAlreadyWritten F k c1))
     \<and> (\<exists>sz body bs g. getSerializer (rs_parsers E) (respContent s code) = Inr sz
          \<and> field_named v schemaBody = Returns body \<and> parser sz (body_rules rls) body = Returns (Inr bs)
          \<and> fctx c' = fh_SetBody F bs (fh_SetStatusCode F code (fh_RespSet F ''Content-Type'' (respContent s code) g)))"
proof -
  from sent r h obtain cs e1 c1 e2 c2 body where
    1: "validateAndEncodeHeaders E F rls (Some (ro, t, hv)) c = Returns (None, c1)"
    and 2: "validateAndEncodeCookie E F rls cs c1 = Returns (None, c2)"
    and b: "field_named v schemaBody = Returns body"
    and 3: "send_body E F (respContent s code) (body_rules rls) body code c2 = Returns (None, c')"
    by (auto simp: Send_def call_Returns split: if_split_asm)
  from 1 h(2) k(1) have l: "entries_loop (header_entry E F hv) (before @ (k, d) # after) c = Returns (None, c1)"
    by (simp add: validateAndEncodeHeaders_def Let_def split: if_split_asm)
  from loop_step[OF l] obtain g1 g2 where g: "entries_loop (header_entry E F hv) before c = Returns (None, g1)"
    "header_entry E F hv (k, d) g1 = Returns (None, g2)" by blast
  then have "runValidation w ResponseErr schemaHeaders k (ri_rules (rd d)) = Returns None \<or> void \<and> headerAlreadyWritten F k g1"
    using k(2-6) by (auto simp: header_entry_def Let_def checked_def call_Returns split: if_split_asm)
  then have "\<exists>c1. entries_loop (header_entry E F hv) before c = Returns (None, c1)
      \<and> (list_all (\<lambda>r. ro_dator r w = ok) (ri_rules (rd d)) \<or> void \<and> headerAlreadyWritten F k c1)"
    using g(1) by (auto simp: runValidation_ok_iff list_all_iff)
  moreover obtain sz bs where "getSerializer (rs_parsers E) (respContent s code) = Inr sz"
    "parser sz (body_rules rls) body = Returns (Inr bs)"
    "c' = c2\<lparr>fctx := fh_SetBody F bs (fh_SetStatusCode F code (fh_RespSet F ''Content-Type'' (respContent s code) (fctx c2)))\<rparr>"
    using 3 by (auto simp: send_body_def call_sum split: sum.split_asm)
  ultimately show ?thesis using b by auto
qed

lemma never_empty: "typeof v \<noteq> Some TInt \<Longrightarrow> typeof v \<noteq> Some TString \<Longrightarrow> or_default i v = Returns (v, False)"
  by (cases v) (auto simp: or_default_def PrimitiveKindIsEmpty_def)

text \<open>The default of a header or cookie has no effect unless the value is exactly an \<open>int\<close> or a
  \<open>string\<close>: a zero \<open>int32\<close>, a nil pointer or an empty value of a named string type is never empty to
  the encoder, and is written as it is.\<close>

theorem typed_default_has_no_effect:
  assumes "\<And>ro t v. field_named hv (ri_fieldName (rd d)) = Returns (Some (ro, t, v)) \<Longrightarrow>
    typeof v \<noteq> Some TInt \<and> typeof v \<noteq> Some TString"
  shows "header_entry E F hv (k, rd_update (ri_defVal_update (\<lambda>_. dv)) d) c = header_entry E F hv (k, d) c
     \<and> cookie_entry E F hv (k, rd_update (ri_defVal_update (\<lambda>_. dv)) d) c = cookie_entry E F hv (k, d) c"
proof (cases "field_named hv (ri_fieldName (rd d))")
  case (Returns r)
  show ?thesis
  proof (cases r)
    case None
    with Returns show ?thesis by (cases d) (simp add: header_entry_def cookie_entry_def missing_entry_def Let_def)
  next
    case (Some x)
    obtain ro t v where x: "x = (ro, t, v)" by (cases x)
    with assms[of ro t v] Returns Some have "or_default i v = Returns (v, False)" for i by (simp add: never_empty)
    moreover obtain i it ad ps os where d: "d = RuleDef i it ad ps os" by (cases d)
    moreover have sel: "ri_kind (ri_defVal_update g i) = ri_kind i" "ri_rules (ri_defVal_update g i) = ri_rules i"
      "ri_format (ri_defVal_update g i) = ri_format i" "ri_fieldName (ri_defVal_update g i) = ri_fieldName i"
      "ri_pattern (ri_defVal_update g i) = ri_pattern i" "time_header E F k (ri_defVal_update g i) t v c = time_header E F k i t v c"
      "cookie_object E F k (ri_defVal_update g i) t v c = cookie_object E F k i t v c" for g
      by (simp_all add: time_header_def cookie_object_def Let_def)
    moreover have "field_named hv (ri_fieldName i) = Returns (Some (ro, t, v))" using Returns Some x d by simp
    ultimately show ?thesis
      unfolding header_entry_def cookie_entry_def Let_def d fst_conv snd_conv rd_update.simps RuleDef.sel sel
      by (simp only: bind_call.simps option.case prod.case) (simp add: sel split: option.split)
  qed
next
  case Panics
  then show ?thesis by (cases d) (simp add: header_entry_def cookie_entry_def Let_def)
qed

abbreviation "demo_hv n k \<equiv> VStruct demo_response_header [str n, VInt (TBasic KInt32) k]"

lemma left_field: "field_named (demo_hv n k) (ri_fieldName (rd left_def)) = Returns (Some (False, TBasic KInt32, VInt (TBasic KInt32) k))"
  by (simp add: left_def_def demo_header_info_def demo_header_fields)

theorem typed_default_has_no_effect_witness:
  "header_entry demo_re web_fasthttp (demo_hv [] 0) (''Left'', rd_update (ri_defVal_update (\<lambda>_. VInt (TBasic KInt32) 5)) left_def) demo_sending
     = header_entry demo_re web_fasthttp (demo_hv [] 0) (''Left'', left_def) demo_sending"
proof -
  have "header_entry demo_re web_fasthttp (demo_hv [] 0) (''Left'', rd_update (ri_defVal_update (\<lambda>_. VInt (TBasic KInt32) 5)) left_def) demo_sending
       = header_entry demo_re web_fasthttp (demo_hv [] 0) (''Left'', left_def) demo_sending
     \<and> cookie_entry demo_re web_fasthttp (demo_hv [] 0) (''Left'', rd_update (ri_defVal_update (\<lambda>_. VInt (TBasic KInt32) 5)) left_def) demo_sending
       = cookie_entry demo_re web_fasthttp (demo_hv [] 0) (''Left'', left_def) demo_sending"
    by (rule typed_default_has_no_effect) (simp add: left_field)
  then show ?thesis by (rule conjunct1)
qed

lemma runValidation_nil: "runValidation v t s k [] = Returns None"
  by (simp add: runValidation_ok_iff)

lemma left_entry:
  "header_entry demo_re web_fasthttp (demo_hv n k) (''Left'', left_def) c =
     Returns (None, set_header web_fasthttp ''Left'' (Itoa k) c)"
proof -
  have o: "or_default (rd left_def) (VInt (TBasic KInt32) k) = Returns (VInt (TBasic KInt32) k, False)"
    by (rule never_empty) simp_all
  have s: "CustomSpecs_Find (rs_specs demo_re) x = None" for x by (simp add: demo_re_def CustomSpecs_Find_def)
  have p: "ri_kind (rd left_def) = KInt32" "ri_rules (rd left_def) = []" by (simp_all add: left_def_def demo_header_info_def demo_info_def)
  show ?thesis
    by (simp add: header_entry_def Let_def demo_not_content left_field o s p checked_def runValidation_nil IsPrimitiveKind_def
        Sprint_v_def)
qed

lemma name_entry:
  "n \<noteq> [] \<Longrightarrow> header_entry demo_re web_fasthttp (demo_hv n k) (''Name'', name_def) c = Returns (None, set_header web_fasthttp ''Name'' n c)"
  "headerAlreadyWritten web_fasthttp ''Name'' c = False \<Longrightarrow>
     \<exists>er. header_entry demo_re web_fasthttp (demo_hv [] k) (''Name'', name_def) c = Returns (Some er, c)"
proof -
  have f: "field_named (demo_hv n k) (ri_fieldName (rd name_def)) = Returns (Some (False, TString, str n))" for n
    by (simp add: name_def_def demo_header_info_def demo_header_fields)
  have o: "or_default (rd name_def) (str n) = Returns (str n, n = [])" for n
    by (auto simp: name_def_def demo_header_info_def demo_info_def or_default_def PrimitiveKindIsEmpty_def KindIsNumber_def)
  have s: "CustomSpecs_Find (rs_specs demo_re) x = None" for x by (simp add: demo_re_def CustomSpecs_Find_def)
  have p: "ri_kind (rd name_def) = KString" "ri_rules (rd name_def) = [nonempty_rule]"
    by (simp_all add: name_def_def demo_header_info_def demo_info_def)
  show "n \<noteq> [] \<Longrightarrow> header_entry demo_re web_fasthttp (demo_hv n k) (''Name'', name_def) c = Returns (None, set_header web_fasthttp ''Name'' n c)"
    by (simp add: header_entry_def Let_def demo_not_content f o s p checked_def runValidation_def nonempty_rule_def
        IsPrimitiveKind_def Sprint_v_def errors_Join_def)
  show "headerAlreadyWritten web_fasthttp ''Name'' c = False \<Longrightarrow>
     \<exists>er. header_entry demo_re web_fasthttp (demo_hv [] k) (''Name'', name_def) c = Returns (Some er, c)"
    by (simp add: header_entry_def Let_def demo_not_content f o s p checked_def runValidation_def nonempty_rule_def
        IsPrimitiveKind_def Sprint_v_def errors_Join_def)
qed

lemma demo_headers:
  "n \<noteq> [] \<Longrightarrow> validateAndEncodeHeaders demo_re web_fasthttp (snd (hd (sr_responses demo_response_rules)))
       (Some (False, demo_response_header, demo_hv n k)) c
     = Returns (None, set_header web_fasthttp ''Left'' (Itoa k) (set_header web_fasthttp ''Name'' n c))"
  "\<exists>er. validateAndEncodeHeaders demo_re web_fasthttp (snd (hd (sr_responses demo_response_rules)))
       (Some (False, demo_response_header, demo_hv [] k)) demo_sending = Returns (Some er, demo_sending)"
proof -
  show "n \<noteq> [] \<Longrightarrow> validateAndEncodeHeaders demo_re web_fasthttp (snd (hd (sr_responses demo_response_rules)))
       (Some (False, demo_response_header, demo_hv n k)) c
     = Returns (None, set_header web_fasthttp ''Left'' (Itoa k) (set_header web_fasthttp ''Name'' n c))"
    by (simp add: validateAndEncodeHeaders_def demo_resp_parts demo_header_fields name_entry left_entry)
  have "headerAlreadyWritten web_fasthttp ''Name'' demo_sending = False" by code_simp
  from name_entry(2)[OF this, of k]
  show "\<exists>er. validateAndEncodeHeaders demo_re web_fasthttp (snd (hd (sr_responses demo_response_rules)))
       (Some (False, demo_response_header, demo_hv [] k)) demo_sending = Returns (Some er, demo_sending)"
    by (auto simp: validateAndEncodeHeaders_def demo_resp_parts demo_header_fields)
qed

lemma demo_send:
  "n \<noteq> [] \<Longrightarrow> \<exists>c'. Send demo_re web_fasthttp (Some demo_response_rules) 200 (demo_response n k) demo_sending = Returns (None, c')
     \<and> p_body (fctx c') = ''null''"
  "\<exists>er. Send demo_re web_fasthttp (Some demo_response_rules) 200 (demo_response [] k) demo_sending = Returns (Some er, demo_sending)"
proof -
  have o: "demo_response n k \<noteq> VNil" for n k by (simp add: demo_response_def)
  note send = Send_def demo_response_code demo_resp_parts demo_response_fields o
  have c: "validateAndEncodeCookie demo_re web_fasthttp (snd (hd (sr_responses demo_response_rules))) cs c = Returns (None, c)" for cs c
    by (simp add: validateAndEncodeCookie_def demo_resp_parts)
  have b: "getSerializer (rs_parsers demo_re) ct = Inr \<lparr>Match = (\<lambda>ct. True), parser = (\<lambda>d rv. Returns (Inr ''null''))\<rparr>" for ct
    by (simp add: demo_re_def)
  have pb: "p_body (fh_SetBody web_fasthttp b' f) = b'" for b' f by (simp add: web_fasthttp_def)
  show "n \<noteq> [] \<Longrightarrow> \<exists>c'. Send demo_re web_fasthttp (Some demo_response_rules) 200 (demo_response n k) demo_sending = Returns (None, c')
     \<and> p_body (fctx c') = ''null''"
    by (simp add: send demo_headers(1) c send_body_def b pb)
  show "\<exists>er. Send demo_re web_fasthttp (Some demo_response_rules) 200 (demo_response [] k) demo_sending = Returns (Some er, demo_sending)"
    using demo_headers(2)[of k] by (auto simp: send)
qed

theorem failed_send_writes_headers_only_witness:
  "\<exists>er c'. Send demo_re web_fasthttp (Some demo_response_rules) 200 (demo_response [] 5) demo_sending = Returns (Some er, c')
     \<and> (\<exists>f. c' = demo_sending\<lparr>fctx := f\<rparr> \<and> header_writes web_fasthttp (fctx demo_sending) f)"
proof -
  obtain er where s: "Send demo_re web_fasthttp (Some demo_response_rules) 200 (demo_response [] 5) demo_sending = Returns (Some er, demo_sending)"
    using demo_send(2) by blast
  have "\<exists>f. demo_sending = demo_sending\<lparr>fctx := f\<rparr> \<and> header_writes web_fasthttp (fctx demo_sending) f"
    by (rule failed_send_writes_headers_only[OF s]) (simp_all add: demo_re_def)
  with s show ?thesis by blast
qed

theorem sent_response_checked_witness:
  "list_all (\<lambda>r. ro_dator r (str ''n'') = ok) (ri_rules (rd name_def))
   \<and> (\<exists>c'. Send demo_re web_fasthttp (Some demo_response_rules) 200 (demo_response ''n'' 0) demo_sending = Returns (None, c')
        \<and> p_body (fctx c') = ''null'' \<and> p_status (fctx c') = 200)"
proof -
  obtain c' where s: "Send demo_re web_fasthttp (Some demo_response_rules) 200 (demo_response ''n'' 0) demo_sending = Returns (None, c')"
    and b: "p_body (fctx c') = ''null''"
    using demo_send(1)[of "''n''" 0] by auto
  have f: "field_named (demo_hv ''n'' 0) (ri_fieldName (rd name_def)) = Returns (Some (False, TString, str ''n''))"
    by (simp add: name_def_def demo_header_info_def demo_header_fields)
  have o: "or_default (rd name_def) (str ''n'') = Returns (str ''n'', False)"
    by (simp add: name_def_def demo_header_info_def demo_info_def or_default_def PrimitiveKindIsEmpty_def KindIsNumber_def)
  have m: "part_props (snd (hd (sr_responses demo_response_rules))) schemaHeaders = [] @ (''Name'', name_def) # [(''Left'', left_def)]"
    by (simp add: demo_resp_parts)
  have w: "p_status (fh_SetBody web_fasthttp b' (fh_SetStatusCode web_fasthttp x g)) = x" for b' x g
    by (simp add: web_fasthttp_def)
  have sp: "CustomSpecs_Find (rs_specs demo_re) (ri_format (rd name_def)) = None" "IsPrimitiveKind (ri_kind (rd name_def))"
    by (simp_all add: demo_re_def CustomSpecs_Find_def name_def_def demo_header_info_def demo_info_def IsPrimitiveKind_def)
  have hs: "\<not> setter_of (demo_hv ''n'' 0) ''ValidateAndEncodeHeaders''" by (simp add: demo_header_fields)
  from sent_response_checked[OF s demo_response_code demo_resp_parts(3) demo_response_fields(1,3) hs m demo_not_content(1) f sp o]
  have "list_all (\<lambda>r. ro_dator r (str ''n'') = ok) (ri_rules (rd name_def))" "p_status (fctx c') = 200"
    using w by auto
  with s b show ?thesis by blast
qed

end
