(* ===== verification/Middleware.thy ===== *)
theory Middleware
  imports Context Encoding NetAddr "HOL-Library.Word"
begin

section \<open>Middleware (middleware/*.go)\<close>

text \<open>
  Each middleware is a handler program on the context, built from its configuration: the record of
  the source, and the function that puts the defaults in. \<open>fasthttp\<close> operations that only the
  middleware uses are a second record of parameters, next to the one of the adapter; so are the
  clock, the random sources and the file system.
\<close>

record 'f mw_fasthttp =
  mf_SetPath :: "gostring \<Rightarrow> 'f \<Rightarrow> 'f"
  mf_ResetBody :: "'f \<Rightarrow> 'f"
  mf_ContentType :: "'f \<Rightarrow> gostring"
  mf_ArgsString :: "'f \<Rightarrow> gostring"
  mf_CopyResponse :: "'f \<Rightarrow> 'f \<Rightarrow> 'f"
  mf_CompressHandler :: "int \<Rightarrow> int \<Rightarrow> 'f \<Rightarrow> 'f"
  mf_FS :: "gostring \<Rightarrow> gostring \<Rightarrow> bool \<Rightarrow> 'f \<Rightarrow> 'f"

text \<open>The override of the configuration: its first element, or the default.\<close>

definition configured :: "'c \<Rightarrow> ('c \<Rightarrow> 'c) \<Rightarrow> 'c list \<Rightarrow> 'c" where
  "configured dflt fill cs = (case cs of [] \<Rightarrow> dflt | c # _ \<Rightarrow> fill c)"

definition or_else :: "gostring \<Rightarrow> gostring \<Rightarrow> gostring" where
  "or_else s d = (if s = [] then d else s)"

text \<open>Reading the context, writing a header through the adapter, the \<open>Request\<close> adapter that the first
  call of \<open>Request()\<close> makes, and changing the state of the connection.\<close>

definition reading :: "(('f, 'v) ctx \<Rightarrow> ('f, 'v) ctx prog) \<Rightarrow> ('f, 'v) ctx prog" where
  "reading k = Step id k"

definition doing :: "('s \<Rightarrow> 's) \<Rightarrow> 's prog \<Rightarrow> 's prog" where
  "doing u p = Step u (\<lambda>_. p)"

definition set_resp :: "gostring \<Rightarrow> gostring \<Rightarrow> ('f, 'v) ctx \<Rightarrow> ('f, 'v) ctx" where
  "set_resp k v = Writer_Header (Header_Set k v)"

definition touch_request :: "'f fasthttp \<Rightarrow> ('f, 'v) ctx \<Rightarrow> ('f, 'v) ctx" where
  "touch_request F c = snd (Request_of F c)"

definition on_fctx :: "('f \<Rightarrow> 'f) \<Rightarrow> ('f, 'v) ctx \<Rightarrow> ('f, 'v) ctx" where
  "on_fctx u c = c\<lparr>fctx := u (fctx c)\<rparr>"

definition cond_set :: "bool \<Rightarrow> gostring \<Rightarrow> gostring \<Rightarrow> ('f, 'v) ctx \<Rightarrow> ('f, 'v) ctx" where
  "cond_set b k v c = (if b then set_resp k v c else c)"

definition send_string :: "'f fasthttp \<Rightarrow> int \<Rightarrow> gostring \<Rightarrow> ('f, 'v) ctx prog" where
  "send_string F code s = doing (SendString F code s) (Return None)"

definition safe_method :: "gostring \<Rightarrow> bool" where
  "safe_method m \<longleftrightarrow> m \<in> {''GET'', ''HEAD'', ''OPTIONS'', ''TRACE''}"

subsection \<open>CORS (cors.go)\<close>

record CORSConfig =
  co_AllowOrigins :: gostring
  co_AllowMethods :: gostring
  co_AllowHeaders :: gostring
  co_AllowCredentials :: bool
  co_ExposeHeaders :: gostring
  co_MaxAge :: int

definition CORSConfigDefault :: CORSConfig where
  "CORSConfigDefault = \<lparr>co_AllowOrigins = ''*'', co_AllowMethods = ''GET,POST,HEAD,PUT,DELETE,PATCH,OPTIONS'',
     co_AllowHeaders = [], co_AllowCredentials = False, co_ExposeHeaders = [], co_MaxAge = 0\<rparr>"

definition cors_config :: "CORSConfig list \<Rightarrow> CORSConfig" where
  "cors_config = configured CORSConfigDefault (\<lambda>c. c\<lparr>
     co_AllowOrigins := or_else (co_AllowOrigins c) (co_AllowOrigins CORSConfigDefault),
     co_AllowMethods := or_else (co_AllowMethods c) (co_AllowMethods CORSConfigDefault)\<rparr>)"

definition allow_origin :: "CORSConfig \<Rightarrow> gostring \<Rightarrow> gostring" where
  "allow_origin cfg origin =
     (if co_AllowOrigins cfg = ''*'' then ''*''
      else if list_ex (\<lambda>o'. TrimSpace o' = origin) (Split (CHR '','') (co_AllowOrigins cfg)) then origin else [])"

definition cors_headers :: "CORSConfig \<Rightarrow> gostring \<Rightarrow> ('f, 'v) ctx \<Rightarrow> ('f, 'v) ctx" where
  "cors_headers cfg allow =
     cond_set (co_ExposeHeaders cfg \<noteq> []) ''Access-Control-Expose-Headers'' (co_ExposeHeaders cfg)
     \<circ> cond_set (co_AllowCredentials cfg) ''Access-Control-Allow-Credentials'' ''true''
     \<circ> set_resp ''Access-Control-Allow-Origin'' allow"

definition preflight_headers :: "'f fasthttp \<Rightarrow> CORSConfig \<Rightarrow> ('f, 'v) ctx \<Rightarrow> ('f, 'v) ctx" where
  "preflight_headers F cfg c =
     (let h = ctx_HeaderVal F c ''Access-Control-Request-Headers'';
          c1 = set_resp ''Access-Control-Allow-Methods'' (co_AllowMethods cfg) c;
          c2 = (if co_AllowHeaders cfg \<noteq> [] then set_resp ''Access-Control-Allow-Headers'' (co_AllowHeaders cfg) c1
                else cond_set (h \<noteq> []) ''Access-Control-Allow-Headers'' h c1)
      in cond_set (co_MaxAge cfg > 0) ''Access-Control-Max-Age'' (Itoa (co_MaxAge cfg)) c2)"

definition CORS :: "'f fasthttp \<Rightarrow> CORSConfig list \<Rightarrow> ('f, 'v) ctx prog" where
  "CORS F config =
     (let cfg = cors_config config in
      reading (\<lambda>c.
        let origin = ctx_HeaderVal F c ''Origin''; allow = allow_origin cfg origin in
        if origin = [] \<or> allow = [] then ret_next
        else doing (cors_headers cfg allow)
          (if ctx_Method F c = ''OPTIONS'' then doing (preflight_headers F cfg) (send_string F 204 [])
           else ret_next)))"

subsection \<open>Request ids, early data, skipping (requestid.go, earlydata.go, skip.go)\<close>

record RequestIDConfig =
  ri_Header :: gostring
  ri_Generator :: "(unit \<Rightarrow> gostring) option"

definition requestid_config :: "RequestIDConfig list \<Rightarrow> RequestIDConfig" where
  "requestid_config = configured \<lparr>ri_Header = ''X-Request-Id'', ri_Generator = None\<rparr>
     (\<lambda>c. c\<lparr>ri_Header := or_else (ri_Header c) ''X-Request-Id''\<rparr>)"

text \<open>\<open>rand\<close> is what the default generator reads, as text.\<close>

definition RequestID :: "'f fasthttp \<Rightarrow> gostring \<Rightarrow> RequestIDConfig list \<Rightarrow> ('f, 'v) ctx prog" where
  "RequestID F rand config =
     (let cfg = requestid_config config in
      reading (\<lambda>c.
        let rid = ctx_HeaderVal F c (ri_Header cfg);
            rid' = (if rid = [] then case ri_Generator cfg of None \<Rightarrow> rand | Some g \<Rightarrow> g () else rid)
        in doing (set_resp (ri_Header cfg) rid') ret_next))"

record ('f, 'v) EarlyDataConfig =
  ed_IsEarlyData :: "(('f, 'v) ctx \<Rightarrow> bool) option"
  ed_AllowEarlyData :: "(('f, 'v) ctx \<Rightarrow> bool) option"
  ed_ErrorHandler :: "('f, 'v) ctx prog option"

definition EarlyData :: "'f fasthttp \<Rightarrow> ('f, 'v) EarlyDataConfig list \<Rightarrow> ('f, 'v) ctx prog" where
  "EarlyData F config =
     (let cfg = configured \<lparr>ed_IsEarlyData = None, ed_AllowEarlyData = None, ed_ErrorHandler = None\<rparr> id config;
          early = (case ed_IsEarlyData cfg of None \<Rightarrow> (\<lambda>c. ctx_HeaderVal F c ''Early-Data'' = ''1'') | Some p \<Rightarrow> p);
          allow = (case ed_AllowEarlyData cfg of None \<Rightarrow> (\<lambda>c. safe_method (ctx_Method F c)) | Some p \<Rightarrow> p);
          reject = (case ed_ErrorHandler cfg of None \<Rightarrow> Return (Some (NewHTTPError 425 ''too early'')) | Some h \<Rightarrow> h)
      in reading (\<lambda>c. if early c \<and> \<not> allow c then reject else ret_next))"

definition Skip_mw :: "(('f, 'v) ctx \<Rightarrow> bool) option \<Rightarrow> ('f, 'v) ctx prog \<Rightarrow> ('f, 'v) ctx prog" where
  "Skip_mw filt h =
     reading (\<lambda>c. if (case filt of None \<Rightarrow> False | Some p \<Rightarrow> p c) then ret_next else h)"

subsection \<open>Security headers (helmet.go)\<close>

record HelmetConfig =
  he_XSSProtection :: gostring
  he_ContentTypeNosniff :: gostring
  he_XFrameOptions :: gostring
  he_HSTSMaxAge :: int
  he_HSTSExcludeSubdomains :: bool
  he_HSTSPreload :: bool
  he_ContentSecurityPolicy :: gostring
  he_CSPReportOnly :: bool
  he_ReferrerPolicy :: gostring
  he_CrossOriginEmbedderPolicy :: gostring
  he_CrossOriginOpenerPolicy :: gostring
  he_CrossOriginResourcePolicy :: gostring
  he_OriginAgentCluster :: gostring
  he_XDNSPrefetchControl :: gostring
  he_XDownloadOptions :: gostring
  he_XPermittedCrossDomainPolicies :: gostring

definition HelmetConfigDefault :: HelmetConfig where
  "HelmetConfigDefault = \<lparr>he_XSSProtection = ''0'', he_ContentTypeNosniff = ''nosniff'', he_XFrameOptions = ''SAMEORIGIN'',
     he_HSTSMaxAge = 0, he_HSTSExcludeSubdomains = False, he_HSTSPreload = False, he_ContentSecurityPolicy = [],
     he_CSPReportOnly = False, he_ReferrerPolicy = ''no-referrer'', he_CrossOriginEmbedderPolicy = ''require-corp'',
     he_CrossOriginOpenerPolicy = ''same-origin'', he_CrossOriginResourcePolicy = ''same-origin'',
     he_OriginAgentCluster = ''?1'', he_XDNSPrefetchControl = ''off'', he_XDownloadOptions = ''noopen'',
     he_XPermittedCrossDomainPolicies = ''none''\<rparr>"

definition helmet_config :: "HelmetConfig list \<Rightarrow> HelmetConfig" where
  "helmet_config = configured HelmetConfigDefault (\<lambda>c. c\<lparr>
     he_XSSProtection := or_else (he_XSSProtection c) (he_XSSProtection HelmetConfigDefault),
     he_ContentTypeNosniff := or_else (he_ContentTypeNosniff c) (he_ContentTypeNosniff HelmetConfigDefault),
     he_XFrameOptions := or_else (he_XFrameOptions c) (he_XFrameOptions HelmetConfigDefault),
     he_ReferrerPolicy := or_else (he_ReferrerPolicy c) (he_ReferrerPolicy HelmetConfigDefault),
     he_CrossOriginEmbedderPolicy := or_else (he_CrossOriginEmbedderPolicy c) (he_CrossOriginEmbedderPolicy HelmetConfigDefault),
     he_CrossOriginOpenerPolicy := or_else (he_CrossOriginOpenerPolicy c) (he_CrossOriginOpenerPolicy HelmetConfigDefault),
     he_CrossOriginResourcePolicy := or_else (he_CrossOriginResourcePolicy c) (he_CrossOriginResourcePolicy HelmetConfigDefault),
     he_OriginAgentCluster := or_else (he_OriginAgentCluster c) (he_OriginAgentCluster HelmetConfigDefault),
     he_XDNSPrefetchControl := or_else (he_XDNSPrefetchControl c) (he_XDNSPrefetchControl HelmetConfigDefault),
     he_XDownloadOptions := or_else (he_XDownloadOptions c) (he_XDownloadOptions HelmetConfigDefault),
     he_XPermittedCrossDomainPolicies :=
       or_else (he_XPermittedCrossDomainPolicies c) (he_XPermittedCrossDomainPolicies HelmetConfigDefault)\<rparr>)"

definition hsts :: "HelmetConfig \<Rightarrow> gostring" where
  "hsts cfg =
     (if he_HSTSMaxAge cfg > 0
      then ''max-age='' @ Itoa (he_HSTSMaxAge cfg) @ (if he_HSTSExcludeSubdomains cfg then [] else ''; includeSubDomains'')
           @ (if he_HSTSPreload cfg then ''; preload'' else [])
      else [])"

text \<open>The headers in the order they are set; an empty value is not set.\<close>

definition helmet_headers :: "HelmetConfig \<Rightarrow> (gostring \<times> gostring) list" where
  "helmet_headers cfg =
     [(''X-XSS-Protection'', he_XSSProtection cfg), (''X-Content-Type-Options'', he_ContentTypeNosniff cfg),
      (''X-Frame-Options'', he_XFrameOptions cfg), (''Referrer-Policy'', he_ReferrerPolicy cfg),
      (''Cross-Origin-Embedder-Policy'', he_CrossOriginEmbedderPolicy cfg),
      (''Cross-Origin-Opener-Policy'', he_CrossOriginOpenerPolicy cfg),
      (''Cross-Origin-Resource-Policy'', he_CrossOriginResourcePolicy cfg),
      (''Origin-Agent-Cluster'', he_OriginAgentCluster cfg), (''X-DNS-Prefetch-Control'', he_XDNSPrefetchControl cfg),
      (''X-Download-Options'', he_XDownloadOptions cfg),
      (''X-Permitted-Cross-Domain-Policies'', he_XPermittedCrossDomainPolicies cfg),
      (''Strict-Transport-Security'', hsts cfg),
      (if he_CSPReportOnly cfg then ''Content-Security-Policy-Report-Only'' else ''Content-Security-Policy'',
       he_ContentSecurityPolicy cfg)]"

definition Helmet :: "HelmetConfig list \<Rightarrow> ('f, 'v) ctx prog" where
  "Helmet config =
     (let cfg = helmet_config config in
      doing (fold (\<lambda>(k, v). cond_set (v \<noteq> []) k v) (helmet_headers cfg) \<circ> Writer_Header id) ret_next)"

subsection \<open>Redirects and rewrites (redirect.go, rewrite.go)\<close>

definition split_rules :: "gostring gomap \<Rightarrow> gostring gomap \<times> gostring gomap" where
  "split_rules rs =
     (filter (\<lambda>(p, r). \<not> HasSuffix p ''/*'') rs,
      map (\<lambda>(p, r). (take (length p - 2) p, r)) (filter (\<lambda>(p, r). HasSuffix p ''/*'') rs))"

definition rule_target :: "gostring gomap \<Rightarrow> gostring \<Rightarrow> gostring option" where
  "rule_target rs path =
     (let (exact, wild) = split_rules rs in
      case map_of exact path of
        Some t \<Rightarrow> Some t
      | None \<Rightarrow>
          map_option (\<lambda>(p, r). ReplaceAll (ReplaceAll r ''$1'' (drop (length p) path)) ''//'' ''/'')
            (List.find (\<lambda>(p, r). HasPrefix path p) wild))"

record RedirectConfig =
  rc_Rules :: "gostring gomap"
  rc_StatusCode :: int

definition redirect_config :: "RedirectConfig list \<Rightarrow> RedirectConfig" where
  "redirect_config = configured \<lparr>rc_Rules = [], rc_StatusCode = 302\<rparr>
     (\<lambda>c. if rc_StatusCode c = 0 then c\<lparr>rc_StatusCode := 302\<rparr> else c)"

definition Redirect :: "'f fasthttp \<Rightarrow> RedirectConfig list \<Rightarrow> ('f, 'v) ctx prog" where
  "Redirect F config =
     (let cfg = redirect_config config in
      if rc_Rules cfg = [] then ret_next
      else reading (\<lambda>c.
        case rule_target (rc_Rules cfg) (ctx_Path F c) of
          Some t \<Rightarrow> doing (set_resp ''Location'' t) (send_string F (rc_StatusCode cfg) [])
        | None \<Rightarrow> ret_next))"

definition Rewrite :: "'f fasthttp \<Rightarrow> 'f mw_fasthttp \<Rightarrow> gostring gomap list \<Rightarrow> ('f, 'v) ctx prog" where
  "Rewrite F M config =
     (let rs = configured [] id config in
      if rs = [] then ret_next
      else reading (\<lambda>c.
        case rule_target rs (ctx_Path F c) of
          Some t \<Rightarrow> doing (on_fctx (mf_SetPath M t) \<circ> touch_request F) ret_next
        | None \<Rightarrow> ret_next))"

subsection \<open>Recovery and timeouts (recover.go, timeout.go)\<close>

text \<open>What the recovery logs is left out. The default handlers build an error.\<close>

definition Recover :: "(gostring \<Rightarrow> 's prog) option list \<Rightarrow> 's prog" where
  "Recover config =
     (let handler = (case configured None id config of
           None \<Rightarrow> (\<lambda>v. Return (Some (NewHTTPError 500 (''panic recovered: '' @ v)))) | Some h \<Rightarrow> h)
      in CallNext (\<lambda>r. case r of Returned e \<Rightarrow> Return e | Panicked v \<Rightarrow> handler v))"

text \<open>A handler run on a context with its chain, as \<open>Next\<close> runs it.\<close>

definition run_prog :: "('f, 'v) ctx prog \<Rightarrow> ('f, 'v) reqctx \<Rightarrow> outcome \<times> ('f, 'v) reqctx" where
  "run_prog p c =
     (case exec p (Next (chain c)) (nat (handlerIdx c + 1), base c) of
        (r, i, b) \<Rightarrow> (r, c\<lparr>base := b, handlerIdx := int i - 1\<rparr>))"

definition on_base :: "(('f, 'v) ctx \<Rightarrow> ('f, 'v) ctx) \<Rightarrow> ('f, 'v) reqctx \<Rightarrow> ('f, 'v) reqctx" where
  "on_base u c = c\<lparr>base := u (base c)\<rparr>"

text \<open>The timeout runs the rest of the chain on a copy of the context. \<open>finished\<close> says whether it ended
  before the time was over; if not, it goes on in the background, on the copy only.\<close>

definition Timeout :: "'f fasthttp \<Rightarrow> 'f mw_fasthttp \<Rightarrow> ('f, 'v) ctx prog option list \<Rightarrow> bool
    \<Rightarrow> ('f, 'v) reqctx \<Rightarrow> outcome \<times> ('f, 'v) reqctx" where
  "Timeout F M config finished c =
     (let handler = (case configured None id config of
           None \<Rightarrow> Return (Some (NewHTTPError 408 ''request timeout'')) | Some h \<Rightarrow> h)
      in if finished then
           (case ctx_Next (ctx_Copy F c) of
              (r, cc) \<Rightarrow>
                (Returned (case r of Returned e \<Rightarrow> e
                           | Panicked v \<Rightarrow> Some (NewHTTPError 500 (''panic in timeout middleware: '' @ v))),
                 on_base (on_fctx (mf_CopyResponse M (fctx (base cc))) \<circ> touch_request F) c))
         else run_prog handler c)"

subsection \<open>Logging and response times (logger.go, responsetime.go)\<close>

definition is_control :: "char \<Rightarrow> bool" where
  "is_control c \<longleftrightarrow> byte c < 32 \<or> byte c = 127"

definition sanitizeLogField :: "gostring \<Rightarrow> gostring" where
  "sanitizeLogField s =
     (case find_index is_control s of
        None \<Rightarrow> s
      | Some i \<Rightarrow> take i s @ map (\<lambda>c. if is_control c then CHR '' '' else c) (drop i s))"

text \<open>The line that is printed, \<open>stamp\<close> and \<open>latency\<close> from the clock; the format of the configuration
  has no part in it.\<close>

definition log_line :: "'f fasthttp \<Rightarrow> gostring \<Rightarrow> gostring \<Rightarrow> ('f, 'v) ctx \<Rightarrow> gostring" where
  "log_line F stamp latency c =
     (let st = Itoa (fh_StatusCode F (fctx c)); fwd = ctx_HeaderVal F c ''X-Forwarded-For''
      in Join [stamp, or_else (if st = ''0'' then [] else st) ''200'', latency, sanitizeLogField (or_else fwd ''unknown''),
               sanitizeLogField (ctx_Method F c), sanitizeLogField (ctx_Path F c)] '' | '' @ [CHR 0x0A])"

definition Logger :: "'f fasthttp \<Rightarrow> ('f, 'v) ctx prog" where
  "Logger F = CallNext (on_return (\<lambda>e. doing (touch_request F) (Return e)))"

text \<open>\<open>FormatFloat(x, 'f', 2, 64)\<close> of a number that is not negative.\<close>

definition two_digits :: "int \<Rightarrow> gostring" where
  "two_digits n = (if n < 10 then ''0'' else []) @ Itoa n"

definition FormatFloat_2 :: "flt \<Rightarrow> gostring" where
  "FormatFloat_2 x =
     (case x of
        FNum q \<Rightarrow> let n = round_even (q * 100) in Itoa (n div 100) @ ''.'' @ two_digits (n mod 100)
      | _ \<Rightarrow> format_flt (\<lambda>q. []) x)"

definition milliseconds :: "int \<Rightarrow> gostring" where
  "milliseconds micros =
     FormatFloat_2 (case float64_of_int micros of FNum q \<Rightarrow> to_float64 False (q / 1000) | y \<Rightarrow> y)"

record ResponseTimeConfig =
  rt_Header :: gostring
  rt_Suffix :: gostring

definition responsetime_config :: "ResponseTimeConfig list \<Rightarrow> ResponseTimeConfig" where
  "responsetime_config = configured \<lparr>rt_Header = ''X-Response-Time'', rt_Suffix = ''ms''\<rparr>
     (\<lambda>c. c\<lparr>rt_Header := or_else (rt_Header c) ''X-Response-Time''\<rparr>)"

text \<open>\<open>micros\<close> is the time the chain took.\<close>

definition ResponseTime :: "int \<Rightarrow> ResponseTimeConfig list \<Rightarrow> ('f, 'v) ctx prog" where
  "ResponseTime micros config =
     (let cfg = responsetime_config config in
      CallNext (on_return (\<lambda>e.
        doing (set_resp (rt_Header cfg) (milliseconds micros @ rt_Suffix cfg)) (Return e))))"

subsection \<open>Entity tags and compression (etag.go, compress.go)\<close>

text \<open>\<open>crc32.ChecksumIEEE\<close>.\<close>

definition crc_bit :: "32 word \<Rightarrow> 32 word" where
  "crc_bit c = (if bit c 0 then xor (drop_bit 1 c) 0xEDB88320 else drop_bit 1 c)"

definition crc_byte :: "32 word \<Rightarrow> char \<Rightarrow> 32 word" where
  "crc_byte c b = (crc_bit ^^ 8) (xor c (of_nat (byte b)))"

definition ChecksumIEEE :: "gostring \<Rightarrow> 32 word" where
  "ChecksumIEEE s = not (foldl crc_byte (not 0) s)"

definition hex_char :: "nat \<Rightarrow> char" where
  "hex_char n = char_of (if n < 10 then 48 + n else 87 + n)"

fun hex_digits :: "nat \<Rightarrow> gostring" where
  "hex_digits n = (if n < 16 then [hex_char n] else hex_digits (n div 16) @ [hex_char (n mod 16)])"

declare hex_digits.simps [simp del]

definition etag_of :: "bool \<Rightarrow> gostring \<Rightarrow> gostring" where
  "etag_of weak b =
     (if weak then ''W/'' else [])
     @ CHR 0x22 # hex_digits (length b) @ ''-'' @ hex_digits (unat (ChecksumIEEE b)) @ [CHR 0x22]"

definition ETag :: "'f fasthttp \<Rightarrow> 'f mw_fasthttp \<Rightarrow> bool list \<Rightarrow> ('f, 'v) ctx prog" where
  "ETag F M config =
     (let weak = configured False id config in
      reading (\<lambda>c.
        if ctx_Method F c \<noteq> ''GET'' \<and> ctx_Method F c \<noteq> ''HEAD'' then ret_next
        else CallNext (on_return (\<lambda>e.
          Step (touch_request F) (\<lambda>c1.
            let b = fh_RespBody F (fctx c1); tag = etag_of weak b in
            if fh_StatusCode F (fctx c1) \<noteq> 200 \<or> b = [] then Return e
            else Step (set_resp ''ETag'' tag) (\<lambda>c2.
              let given = ctx_HeaderVal F c2 ''If-None-Match'' in
              if Contains given tag \<or> given = ''*''
              then doing (on_fctx (fh_SetStatusCode F 304 \<circ> mf_ResetBody M)) (Return None)
              else Return e))))))"

definition Compress :: "'f fasthttp \<Rightarrow> 'f mw_fasthttp \<Rightarrow> int list \<Rightarrow> ('f, 'v) ctx prog" where
  "Compress F M config =
     (let level = configured (- 1) id config in
      CallNext (on_return (\<lambda>e.
        doing (on_fctx (fh_RespDel F ''Content-Length'' \<circ> mf_CompressHandler M level level) \<circ> touch_request F) (Return e))))"

subsection \<open>Favicons and static files (favicon.go, static.go)\<close>

record FaviconConfig =
  fa_File :: gostring
  fa_URL :: gostring
  fa_CacheControl :: gostring

definition FaviconConfigDefault :: FaviconConfig where
  "FaviconConfigDefault = \<lparr>fa_File = [], fa_URL = ''/favicon.ico'', fa_CacheControl = ''public, max-age=31536000''\<rparr>"

definition favicon_config :: "FaviconConfig list \<Rightarrow> FaviconConfig" where
  "favicon_config = configured FaviconConfigDefault (\<lambda>c. c\<lparr>
     fa_URL := or_else (fa_URL c) (fa_URL FaviconConfigDefault),
     fa_CacheControl := or_else (fa_CacheControl c) (fa_CacheControl FaviconConfigDefault)\<rparr>)"

definition defaultFavicon :: gostring where
  "defaultFavicon = map char_of
     ([0, 0, 1, 0, 1, 0, 0x10, 0x10, 0, 0, 1, 0, 0x18, 0, 0x68, 0, 0, 0, 0x16, 0, 0, 0, 0x28, 0, 0, 0, 0x10, 0, 0, 0,
       0x20, 0, 0, 0, 1, 0, 0x18, 0, 0, 0, 0, 0, 0, 0, 0, 0, 0x13, 0x0b, 0, 0, 0x13, 0x0b, 0, 0, 0, 0, 0, 0, 0, 0,
       0, 0, 0, 0, 0, 0, 0, 0] :: nat list)"

definition Favicon :: "'f fasthttp \<Rightarrow> (gostring \<Rightarrow> gostring option) \<Rightarrow> FaviconConfig list \<Rightarrow> ('f, 'v) ctx prog" where
  "Favicon F ReadFile config =
     (let cfg = favicon_config config;
          icon = (if fa_File cfg = [] then defaultFavicon
                  else case ReadFile (fa_File cfg) of None \<Rightarrow> defaultFavicon | Some d \<Rightarrow> d)
      in reading (\<lambda>c.
        if ctx_Path F c \<noteq> fa_URL cfg then ret_next
        else if ctx_Method F c \<noteq> ''GET'' \<and> ctx_Method F c \<noteq> ''HEAD'' then ret_next
        else doing (set_resp ''Cache-Control'' (fa_CacheControl cfg) \<circ> set_resp ''Content-Type'' ''image/x-icon'')
               (send_string F 200 icon)))"

text \<open>\<open>path.Clean\<close>, with the segments read so far as a stack.\<close>

fun clean_segments :: "bool \<Rightarrow> gostring list \<Rightarrow> gostring list \<Rightarrow> gostring list" where
  "clean_segments rooted [] st = rev st"
| "clean_segments rooted (w # ws) st =
     (if w = [] \<or> w = ''.'' then clean_segments rooted ws st
      else if w = ''..'' then
        (case st of
           [] \<Rightarrow> clean_segments rooted ws (if rooted then [] else [w])
         | t # ts \<Rightarrow> clean_segments rooted ws (if t = ''..'' then w # st else ts))
      else clean_segments rooted ws (w # st))"

definition path_Clean :: "gostring \<Rightarrow> gostring" where
  "path_Clean p =
     (let rooted = HasPrefix p ''/'';
          r = (if rooted then ''/'' else []) @ Join (clean_segments rooted (Split slash p) []) ''/''
      in if r = [] then ''.'' else r)"

definition pathClean :: "gostring \<Rightarrow> gostring" where
  "pathClean p =
     (if p = [] then ''/''
      else let cp = path_Clean (if hd p \<noteq> slash then slash # p else p) in if cp = ''.'' then ''/'' else cp)"

record StaticConfig =
  sc_Root :: gostring
  sc_Prefix :: gostring
  sc_Index :: gostring
  sc_Compress :: bool

definition StaticConfigDefault :: StaticConfig where
  "StaticConfigDefault = \<lparr>sc_Root = ''.'', sc_Prefix = [], sc_Index = ''index.html'', sc_Compress = False\<rparr>"

definition static_config :: "StaticConfig list \<Rightarrow> StaticConfig" where
  "static_config = configured StaticConfigDefault (\<lambda>c. c\<lparr>
     sc_Root := or_else (sc_Root c) (sc_Root StaticConfigDefault),
     sc_Index := or_else (sc_Index c) (sc_Index StaticConfigDefault)\<rparr>)"

definition strip_prefix :: "gostring \<Rightarrow> gostring \<Rightarrow> gostring" where
  "strip_prefix pre p = (let q = TrimPrefix p pre in if HasPrefix q ''/'' then q else slash # q)"

definition static_serve :: "'f fasthttp \<Rightarrow> 'f mw_fasthttp \<Rightarrow> StaticConfig \<Rightarrow> ('f, 'v) ctx prog" where
  "static_serve F M cfg =
     Step (on_fctx (mf_FS M (sc_Root cfg) (sc_Index cfg) (sc_Compress cfg)) \<circ> touch_request F) (\<lambda>c.
       if fh_StatusCode F (fctx c) = 404 then
         doing (on_fctx (mf_ResetBody M) \<circ> (if sc_Prefix cfg \<noteq> [] then on_fctx (mf_SetPath M (ctx_Path F c)) else id)) ret_next
       else Return None)"

definition Static :: "'f fasthttp \<Rightarrow> 'f mw_fasthttp \<Rightarrow> StaticConfig list \<Rightarrow> ('f, 'v) ctx prog" where
  "Static F M config =
     (let cfg = static_config config in
      reading (\<lambda>c.
        if ctx_Method F c \<noteq> ''GET'' \<and> ctx_Method F c \<noteq> ''HEAD'' then ret_next
        else if sc_Prefix cfg = [] then static_serve F M cfg
        else let p = pathClean (ctx_Path F c) in
          if \<not> HasPrefix p (sc_Prefix cfg) then ret_next
          else doing (on_fctx (mf_SetPath M (strip_prefix (sc_Prefix cfg) p)) \<circ> touch_request F) (static_serve F M cfg)))"

end
