(* ===== verification/Csrf.thy ===== *)
theory Csrf
  imports Middleware
begin

section \<open>CSRF tokens (middleware/csrf.go)\<close>

text \<open>
  The double-submit check. The message code (HMAC-SHA256) is a parameter \<open>hmac\<close> on the key and the
  text, the random sources are values; comparing in constant time is equality.
\<close>

record ('f, 'v) CSRFConfig =
  cs_KeyLookup :: gostring
  cs_CookieName :: gostring
  cs_CookieDomain :: gostring
  cs_CookiePath :: gostring
  cs_CookieSecure :: bool
  cs_CookieHTTPOnly :: bool
  cs_CookieSameSite :: gostring
  cs_Expiration :: int
  cs_KeyGenerator :: "(unit \<Rightarrow> gostring) option"
  cs_ErrorHandler :: "('f, 'v) ctx prog option"
  cs_SignTokens :: bool
  cs_SigningKey :: gostring

definition CSRFConfigDefault :: "('f, 'v) CSRFConfig" where
  "CSRFConfigDefault = \<lparr>cs_KeyLookup = ''header:X-CSRF-Token'', cs_CookieName = ''csrf_'', cs_CookieDomain = [],
     cs_CookiePath = [], cs_CookieSecure = False, cs_CookieHTTPOnly = False, cs_CookieSameSite = ''Lax'',
     cs_Expiration = 3600 * 10 ^ 9, cs_KeyGenerator = None, cs_ErrorHandler = None, cs_SignTokens = False, cs_SigningKey = []\<rparr>"

text \<open>\<open>ephemeral\<close> is the key that is made up when none is given.\<close>

definition csrf_config :: "gostring \<Rightarrow> ('f, 'v) CSRFConfig list \<Rightarrow> ('f, 'v) CSRFConfig" where
  "csrf_config ephemeral config =
     (let cfg = configured CSRFConfigDefault (\<lambda>c. c\<lparr>
            cs_KeyLookup := or_else (cs_KeyLookup c) ''header:X-CSRF-Token'',
            cs_CookieName := or_else (cs_CookieName c) ''csrf_'',
            cs_Expiration := (if cs_Expiration c = 0 then 3600 * 10 ^ 9 else cs_Expiration c),
            cs_CookieSameSite := or_else (cs_CookieSameSite c) ''Lax''\<rparr>) config
      in if cs_SignTokens cfg \<and> cs_SigningKey cfg = [] then cfg\<lparr>cs_SigningKey := ephemeral\<rparr> else cfg)"

subsection \<open>Signed tokens\<close>

definition hex_byte :: "char \<Rightarrow> gostring" where
  "hex_byte c = [hex_char (byte c div 16), hex_char (byte c mod 16)]"

definition hex_EncodeToString :: "gostring \<Rightarrow> gostring" where
  "hex_EncodeToString s = concat (map hex_byte s)"

definition hex_of_char :: "char \<Rightarrow> nat option" where
  "hex_of_char c =
     (let n = byte c in
      if 48 \<le> n \<and> n \<le> 57 then Some (n - 48) else if 97 \<le> n \<and> n \<le> 102 then Some (n - 87)
      else if 65 \<le> n \<and> n \<le> 70 then Some (n - 55) else None)"

fun hex_DecodeString :: "gostring \<Rightarrow> gostring option" where
  "hex_DecodeString [] = Some []"
| "hex_DecodeString [c] = None"
| "hex_DecodeString (c # d # s) =
     (case (hex_of_char c, hex_of_char d) of
        (Some a, Some b) \<Rightarrow> map_option (\<lambda>t. char_of (16 * a + b) # t) (hex_DecodeString s)
      | _ \<Rightarrow> None)"

type_synonym mac = "gostring \<Rightarrow> gostring \<Rightarrow> gostring"

definition signCSRFToken :: "mac \<Rightarrow> gostring \<Rightarrow> gostring \<Rightarrow> gostring" where
  "signCSRFToken hmac raw k = raw @ ''.'' @ hex_EncodeToString (hmac k raw)"

definition verifySignedCSRFToken :: "mac \<Rightarrow> gostring \<Rightarrow> gostring \<Rightarrow> bool" where
  "verifySignedCSRFToken hmac tok k =
     (case LastIndexByte tok (CHR ''.'') of
        None \<Rightarrow> False
      | Some idx \<Rightarrow>
          if idx = 0 \<or> idx = length tok - 1 then False
          else case hex_DecodeString (drop (idx + 1) tok) of
                 None \<Rightarrow> False
               | Some sig \<Rightarrow> sig = hmac k (take idx tok))"

subsection \<open>The middleware\<close>

text \<open>\<open>KeyLookup\<close> in its two parts.\<close>

definition key_lookup :: "gostring \<Rightarrow> gostring \<times> gostring" where
  "key_lookup s =
     (case find_index (\<lambda>c. c = colon) s of
        None \<Rightarrow> (''header'', ''X-CSRF-Token'')
      | Some i \<Rightarrow> (take i s, drop (i + 1) s))"

definition extractToken :: "'f fasthttp \<Rightarrow> gostring \<times> gostring \<Rightarrow> ('f, 'v) ctx \<Rightarrow> gostring \<times> ('f, 'v) ctx" where
  "extractToken F lookup c =
     (let (source, k) = lookup in
      if source = ''header'' then (ctx_HeaderVal F c k, c)
      else if source = ''query'' then (ctx_Query F c k, c)
      else if source = ''param'' then (ctx_Param c k, c)
      else if source = ''form'' then
        (case Request_of F c of
           (r, c1) \<Rightarrow> let r1 = ParseForm F (fctx c1) r in (first_value (rq_PostForm r1) k, c1\<lparr>req := Some r1\<rparr>))
      else ([], c))"

text \<open>\<open>int(d.Seconds())\<close> of a duration in nanoseconds.\<close>

definition duration_seconds :: "int \<Rightarrow> int" where
  "duration_seconds d =
     (let a = \<bar>d\<bar> in
      case to_float64 False (of_int (a mod 10 ^ 9) / 10 ^ 9) of
        FNum q \<Rightarrow>
          (case to_float64 False (of_int (a div 10 ^ 9) + q) of FNum r \<Rightarrow> (if d < 0 then - \<lfloor>r\<rfloor> else \<lfloor>r\<rfloor>) | _ \<Rightarrow> 0)
      | _ \<Rightarrow> 0)"

definition csrf_cookie :: "('f, 'v) CSRFConfig \<Rightarrow> gostring \<Rightarrow> bool \<Rightarrow> gostring" where
  "csrf_cookie cfg token tls =
     cs_CookieName cfg @ ''='' @ token @ ''; Path='' @ or_else (cs_CookiePath cfg) ''/''
     @ (if cs_CookieDomain cfg \<noteq> [] then ''; Domain='' @ cs_CookieDomain cfg else [])
     @ ''; Max-Age='' @ Itoa (duration_seconds (cs_Expiration cfg))
     @ (if cs_CookieHTTPOnly cfg then ''; HttpOnly'' else [])
     @ (if cs_CookieSecure cfg \<or> tls then ''; Secure'' else [])
     @ ''; SameSite='' @ cs_CookieSameSite cfg"

text \<open>The token of the cookie, and whether it counts.\<close>

definition cookie_token :: "'f fasthttp \<Rightarrow> mac \<Rightarrow> ('f, 'v) CSRFConfig \<Rightarrow> ('f, 'v) ctx \<Rightarrow> gostring \<times> bool" where
  "cookie_token F hmac cfg c =
     (case Request_Cookie F (fctx c) (cs_CookieName cfg) of
        Inl e \<Rightarrow> ([], False)
      | Inr (n, v) \<Rightarrow>
          if v = [] then ([], False)
          else (v, cs_SignTokens cfg \<longrightarrow> verifySignedCSRFToken hmac v (cs_SigningKey cfg)))"

definition fresh_token :: "mac \<Rightarrow> gostring \<Rightarrow> ('f, 'v) CSRFConfig \<Rightarrow> gostring" where
  "fresh_token hmac rand cfg =
     (let raw = (case cs_KeyGenerator cfg of None \<Rightarrow> rand | Some g \<Rightarrow> g ())
      in if cs_SignTokens cfg then signCSRFToken hmac raw (cs_SigningKey cfg) else raw)"

definition csrf_token :: "'f fasthttp \<Rightarrow> mac \<Rightarrow> gostring \<Rightarrow> ('f, 'v) CSRFConfig \<Rightarrow> ('f, 'v) ctx \<Rightarrow> gostring" where
  "csrf_token F hmac rand cfg c =
     (case cookie_token F hmac cfg c of
        (t, valid) \<Rightarrow>
          if t = [] \<or> \<not> valid then fresh_token hmac rand cfg
          else t)"

definition csrf_rejects :: "mac \<Rightarrow> ('f, 'v) CSRFConfig \<Rightarrow> bool \<Rightarrow> gostring \<Rightarrow> gostring \<Rightarrow> bool" where
  "csrf_rejects hmac cfg cookieValid token client \<longleftrightarrow>
     cs_SignTokens cfg \<and> (\<not> cookieValid \<or> client = [] \<or> \<not> verifySignedCSRFToken hmac client (cs_SigningKey cfg))
     \<or> client = [] \<or> token \<noteq> client"

definition CSRF :: "'f fasthttp \<Rightarrow> mac \<Rightarrow> gostring \<Rightarrow> gostring \<Rightarrow> ('f, 'v) CSRFConfig list \<Rightarrow> ('f, 'v) ctx prog" where
  "CSRF F hmac rand ephemeral config =
     (let cfg = csrf_config ephemeral config;
          lookup = key_lookup (cs_KeyLookup cfg);
          reject = (case cs_ErrorHandler cfg of
             None \<Rightarrow> Return (Some (NewHTTPError 403 ''invalid CSRF token'')) | Some h \<Rightarrow> h)
      in Step (touch_request F) (\<lambda>c.
        let token = csrf_token F hmac rand cfg c;
            valid = snd (cookie_token F hmac cfg c);
            cookie = csrf_cookie cfg token (fh_IsTLS F (fctx c));
            pass = doing (Writer_Header (Header_Add ''Set-Cookie'' cookie)) ret_next
        in if safe_method (ctx_Method F c) then pass
           else doing (snd \<circ> extractToken F lookup)
             (if csrf_rejects hmac cfg valid token (fst (extractToken F lookup c)) then reject else pass)))"

end
