(* ===== verification/MiddlewareLaws.thy ===== *)
theory MiddlewareLaws
  imports Middleware Mux
begin

section \<open>What the middleware guarantees\<close>

subsection \<open>Running a handler in front of a chain\<close>

definition shift :: "outcome \<times> nat \<times> 's \<Rightarrow> outcome \<times> nat \<times> 's" where
  "shift r = (case r of (o', i, s) \<Rightarrow> (o', Suc i, s))"

lemma exec_shift:
  assumes "\<And>i s. nx (Suc i, s) = shift (nx' (i, s))"
  shows "exec p nx (Suc i, s) = shift (exec p nx' (i, s))"
proof (induction p arbitrary: i s)
  case (CallNext k)
  obtain r j t where n: "nx' (i, s) = (r, j, t)" by (cases "nx' (i, s)") auto
  then show ?case using assms[of i s] CallNext.IH[of "k r" j t] by (simp add: shift_def)
qed (simp_all add: shift_def)

lemma Next_shift: "Next (h # hs) (Suc i, s) = shift (Next hs (i, s))"
proof (induction "length hs - i" arbitrary: i s rule: less_induct)
  case less
  show ?case
  proof (cases "i < length hs")
    case True
    let ?nx = "\<lambda>st. if Suc i < fst st then Next (h # hs) st else shift (Next hs (fst st - 1, snd st))"
    let ?nx' = "\<lambda>st. Next hs st"
    have "exec (hs ! i) (Next (h # hs)) (Suc (Suc i), s) = exec (hs ! i) ?nx (Suc (Suc i), s)"
    proof (rule exec_cong)
      show "never_back (Next (h # hs))" unfolding never_back_def using Next_mono by blast
    qed auto
    also have "\<dots> = shift (exec (hs ! i) ?nx' (Suc i, s))"
    proof (rule exec_shift)
      fix j t show "?nx (Suc j, t) = shift (?nx' (j, t))"
        using less[of j] True by auto
    qed
    finally show ?thesis using True by (subst (1 2) Next_eq) simp
  qed (simp add: Next_end shift_def)
qed

lemma exec_ret_next [simp]: "exec ret_next nx st = nx st"
  by (cases "nx st") (auto simp: ret_next_def on_return_def split: outcome.split)

lemma exec_doing [simp]: "exec (doing u p) nx (i, s) = exec p nx (i, u s)"
  by (simp add: doing_def)

lemma exec_reading [simp]: "exec (reading k) nx (i, s) = exec (k s) nx (i, s)"
  by (simp add: reading_def)

lemma exec_send_string [simp]: "exec (send_string F code b) nx (i, s) = (Returned None, i, SendString F code b s)"
  by (simp add: send_string_def)

text \<open>
  A handler in front of a chain: what running it on the rest gives. The chain from its second handler
  on is a chain of its own, so the place of the handler does not matter.
\<close>

definition enter :: "'s prog \<Rightarrow> 's prog list \<Rightarrow> 's \<Rightarrow> outcome \<times> 's" where
  "enter p hs s =
     (case exec p (\<lambda>st. shift (Next hs (fst st - 1, snd st))) (1, s) of (r, i, s') \<Rightarrow> (r, s'))"

lemma run_chain_enter: "run_chain (h # hs) s = enter h hs s"
proof -
  have "exec h (Next (h # hs)) (1, s) = exec h (\<lambda>st. shift (Next hs (fst st - 1, snd st))) (1, s)"
  proof (rule exec_cong)
    show "never_back (Next (h # hs))" unfolding never_back_def using Next_mono by blast
  next
    fix i :: nat and t assume "1 \<le> i"
    then obtain j where "i = Suc j" by (cases i) auto
    then show "Next (h # hs) (i, t) = shift (Next hs (fst (i, t) - 1, snd (i, t)))" by (simp add: Next_shift)
  qed
  then show ?thesis by (simp add: run_chain_def enter_def Next_eq[of "h # hs" 0])
qed

lemma enter_Return [simp]: "enter (Return e) hs s = (Returned e, s)"
  and enter_Panic [simp]: "enter (Panic v) hs s = (Panicked v, s)"
  and enter_Step [simp]: "enter (Step u k) hs s = enter (k (u s)) hs (u s)"
  and enter_doing [simp]: "enter (doing u p) hs s = enter p hs (u s)"
  by (simp_all add: enter_def doing_def)

lemma enter_reading [simp]: "enter (reading k) hs c = enter (k c) hs c"
  by (simp add: enter_def reading_def)

lemma enter_send_string [simp]: "enter (send_string F code b) hs c = (Returned None, SendString F code b c)"
  by (simp add: send_string_def)

lemma enter_ret_next [simp]: "enter ret_next hs s = run_chain hs s"
proof -
  have "exec ret_next nx st = nx st" for nx and st :: "nat \<times> 's"
    by (cases "nx st") (auto simp: ret_next_def on_return_def split: outcome.split)
  then show ?thesis by (auto simp: enter_def run_chain_def shift_def split: prod.split)
qed

text \<open>A handler that calls \<open>Next\<close> once: its answer is a function of what the rest of the chain gave.\<close>

lemma exec_quiet:
  "no_next p \<Longrightarrow> exec p nx (i, s) = (case exec p nx' (j, s) of (r, _, t) \<Rightarrow> (r, i, t))"
  by (induction p arbitrary: s) (auto split: prod.split)

lemma enter_CallNext:
  assumes "\<And>r. no_next (k r)"
  shows "enter (CallNext k) hs s = (case run_chain hs s of (r, s') \<Rightarrow> enter (k r) [] s')"
proof -
  obtain r i s' where n: "Next hs (0, s) = (r, i, s')" by (cases "Next hs (0, s)") auto
  show ?thesis
    using exec_quiet[OF assms[of r], where nx = "\<lambda>st. shift (Next hs (fst st - 1, snd st))"
        and nx' = "\<lambda>st. shift (Next [] (fst st - 1, snd st))" and i = "Suc i" and j = 1 and s = s']
    by (simp add: enter_def run_chain_def n shift_def split: prod.split)
qed

lemma no_next_simps [simp]:
  "no_next (doing u p) \<longleftrightarrow> no_next p" "no_next (send_string F code b)"
  "no_next (on_return f r) \<longleftrightarrow> (\<forall>e. r = Returned e \<longrightarrow> no_next (f e))"
  by (auto simp: doing_def send_string_def on_return_def split: outcome.split)

lemma no_next_if [simp]: "no_next (if b then p else q) \<longleftrightarrow> (if b then no_next p else no_next q)"
  by simp

lemma enter_after:
  assumes "\<And>e. no_next (k e)"
  shows "enter (CallNext (on_return k)) hs s =
    (case run_chain hs s of (Returned e, t) \<Rightarrow> enter (k e) [] t | (Panicked v, t) \<Rightarrow> (Panicked v, t))"
  by (subst enter_CallNext) (auto simp: assms on_return_def split: prod.split outcome.split)

subsection \<open>Recovery\<close>

text \<open>A panic becomes an error of status 500 with the panic's text, any other outcome is handed on, and
  the state is the one the handlers left.\<close>

lemma recover_chain:
  "run_chain (Recover [] # hs) s =
     (case run_chain hs s of
        (Panicked v, t) \<Rightarrow> (Returned (Some (NewHTTPError 500 (''panic recovered: '' @ v))), t)
      | (Returned e, t) \<Rightarrow> (Returned e, t))"
  by (simp add: run_chain_enter Recover_def configured_def enter_CallNext split: outcome.split)
    (auto split: prod.split outcome.split)

lemma ctx_Next_run: "chain c = hs \<Longrightarrow> handlerIdx c = - 1 \<Longrightarrow> ctx_Next c = (r, c') \<Longrightarrow> run_chain hs (base c) = (r, base c')"
  by (auto simp: ctx_Next_def run_chain_def split: prod.splits)

lemma finish_run:
  assumes "run_chain hs (setContextSettings o' (srvMeta W) (srvStore W) (base c)) = (Returned e, b)"
  shows "\<exists>W'. finish F o' hs c W
    = (Returned None, fctx (syncWriter F (case e of None \<Rightarrow> b | Some err \<Rightarrow> errHandler W err b)), W')"
proof -
  define c1 where "c1 = \<lparr>base = setContextSettings o' (srvMeta W) (srvStore W) (base c), chain = hs, handlerIdx = - 1\<rparr>"
  obtain r c2 where n: "ctx_Next c1 = (r, c2)" by (cases "ctx_Next c1")
  with ctx_Next_run[of c1 hs r c2] assms have "r = Returned e" "base c2 = b" by (simp_all add: c1_def)
  with n show ?thesis by (auto simp: finish_def c1_def Let_def)
qed

text \<open>C39. The server behind it always answers: when a handler behind the recovery panics, the response is the
  one the error handler makes of a 500 error with the panic's text, in the state the panic left.\<close>

theorem recover_keeps_serving:
  assumes "run_chain hs (setContextSettings o' (srvMeta W) (srvStore W) (base c)) = (Panicked v, b)"
  shows "\<exists>W'. finish F o' (Recover [] # hs) c W
    = (Returned None, fctx (syncWriter F (errHandler W (NewHTTPError 500 (''panic recovered: '' @ v)) b)), W')"
proof -
  have "run_chain (Recover [] # hs) (setContextSettings o' (srvMeta W) (srvStore W) (base c))
    = (Returned (Some (NewHTTPError 500 (''panic recovered: '' @ v))), b)"
    by (simp add: recover_chain assms)
  from finish_run[OF this] show ?thesis by (simp only: option.case)
qed

theorem recover_keeps_serving_witness:
  "\<exists>f' W'. finish web_fasthttp (newContextOptions ''/a'' ''GET'') [Recover [], Panic ''boom''] (demo_ctx ''GET'' ''/a'') demo_new
     = (Returned None, f', W') \<and> p_status f' = 500"
proof -
  have "run_chain [Panic ''boom''] b = (Panicked ''boom'', b)" for b :: "(web, nat) ctx"
    by (simp add: run_chain_enter)
  from recover_keeps_serving[OF this, where F = web_fasthttp and o' = "newContextOptions ''/a'' ''GET''" and W = demo_new
      and c = "demo_ctx ''GET'' ''/a''"]
  show ?thesis
    by (auto simp: demo_new_def newRouter_def default_handle_def defaultErrorHandler_def NewHTTPError_def err_status_def
        SendBytes_def syncWriter_def demo_ctx_def setContextSettings_def web_fasthttp_def)
qed

subsection \<open>The headers of the writer\<close>

text \<open>What is in the header map of the response writer, none before it is made.\<close>

definition written :: "('f, 'v) ctx \<Rightarrow> http_Header" where
  "written c = (case rw c of None \<Rightarrow> [] | Some w \<Rightarrow> if headerInit w then header w else [])"

lemma written_Writer_Header [simp]: "written (Writer_Header u c) = u (written c)"
  by (auto simp: written_def Writer_Header_def Writer_def rw_Header_def newResponseWriter_def Let_def split: option.split)

definition sent_already :: "('f, 'v) ctx \<Rightarrow> bool" where
  "sent_already c = (case rw c of None \<Rightarrow> False | Some w \<Rightarrow> headerSync w)"

definition has_headers :: "('f, 'v) ctx \<Rightarrow> bool" where
  "has_headers c = (case rw c of None \<Rightarrow> False | Some w \<Rightarrow> headerInit w)"

lemma writer_simps [simp]:
  "sent_already (Writer_Header u c) = sent_already c" "has_headers (Writer_Header u c)"
  by (auto simp: sent_already_def has_headers_def Writer_Header_def Writer_def rw_Header_def newResponseWriter_def
      Let_def split: option.split)

lemma rw_written: "has_headers c \<Longrightarrow> rw c = Some \<lparr>header = written c, headerSync = sent_already c, headerInit = True\<rparr>"
  by (auto simp: sent_already_def has_headers_def written_def split: option.splits)

lemma fctx_Writer_Header [simp]: "fctx (Writer_Header u c) = fctx c"
  by (auto simp: Writer_Header_def Writer_def split: option.split)

lemma set_resp_simps [simp]:
  "fctx (set_resp k v c) = fctx c" "written (set_resp k v c) = Header_Set k v (written c)"
  "sent_already (set_resp k v c) = sent_already c" "has_headers (set_resp k v c)"
  by (simp_all add: set_resp_def)

lemma cond_set_simps [simp]:
  "fctx (cond_set b k v c) = fctx c" "written (cond_set b k v c) = (if b then Header_Set k v (written c) else written c)"
  "sent_already (cond_set b k v c) = sent_already c" "has_headers (cond_set b k v c) \<longleftrightarrow> b \<or> has_headers c"
  by (simp_all add: cond_set_def)

lemma SendString_written [simp]: "written (SendString F code b c) = written c"
  by (simp add: written_def SendString_def)

lemma fctx_touch [simp]: "fctx (touch_request F c) = fctx c" "written (touch_request F c) = written c"
  by (auto simp: touch_request_def Request_of_def written_def Let_def split: option.split)

lemma written_on_fctx [simp]: "written (on_fctx u c) = written c" "fctx (on_fctx u c) = u (fctx c)"
  by (simp_all add: on_fctx_def written_def)

lemma Header_Get_Set:
  "Header_Get (Header_Set k v h) k' = (if CanonicalHeaderKey k = CanonicalHeaderKey k' then v else Header_Get h k')"
  by (simp add: Header_Get_def Header_Set_def Header_values_def map_of_map_put)

subsection \<open>CORS\<close>

lemma CORS_chain:
  "run_chain (CORS F config # hs) c =
     (let cfg = cors_config config; allow = allow_origin cfg (ctx_HeaderVal F c ''Origin'') in
      if ctx_HeaderVal F c ''Origin'' = [] \<or> allow = [] then run_chain hs c
      else if ctx_Method F c = ''OPTIONS''
      then (Returned None, SendString F 204 [] (preflight_headers F cfg (cors_headers cfg allow c)))
      else run_chain hs (cors_headers cfg allow c))"
  by (simp add: run_chain_enter CORS_def Let_def)

lemma cors_headers_simps [simp]:
  "fctx (cors_headers cfg allow c) = fctx c" "fctx (preflight_headers F cfg c) = fctx c"
  "sent_already (cors_headers cfg allow c) = sent_already c" "sent_already (preflight_headers F cfg c) = sent_already c"
  "has_headers (preflight_headers F cfg c)"
  by (simp_all add: cors_headers_def preflight_headers_def Let_def)

lemma cors_headers_written [simp]:
  "Header_Get (written (cors_headers cfg allow c)) ''Access-Control-Allow-Origin'' = allow"
proof -
  have k: "CanonicalHeaderKey ''Access-Control-Expose-Headers'' \<noteq> CanonicalHeaderKey ''Access-Control-Allow-Origin''"
    "CanonicalHeaderKey ''Access-Control-Allow-Credentials'' \<noteq> CanonicalHeaderKey ''Access-Control-Allow-Origin''"
    by code_simp+
  then show ?thesis by (simp add: cors_headers_def Header_Get_Set)
qed

lemma preflight_written [simp]:
  "Header_Get (written (preflight_headers F cfg c)) ''Access-Control-Allow-Origin''
     = Header_Get (written c) ''Access-Control-Allow-Origin''"
  "Header_Get (written (preflight_headers F cfg c)) ''Access-Control-Allow-Methods'' = co_AllowMethods cfg"
proof -
  have k: "CanonicalHeaderKey ''Access-Control-Allow-Methods'' \<noteq> CanonicalHeaderKey ''Access-Control-Allow-Origin''"
    "CanonicalHeaderKey ''Access-Control-Allow-Headers'' \<noteq> CanonicalHeaderKey ''Access-Control-Allow-Origin''"
    "CanonicalHeaderKey ''Access-Control-Max-Age'' \<noteq> CanonicalHeaderKey ''Access-Control-Allow-Origin''"
    "CanonicalHeaderKey ''Access-Control-Allow-Headers'' \<noteq> CanonicalHeaderKey ''Access-Control-Allow-Methods''"
    "CanonicalHeaderKey ''Access-Control-Max-Age'' \<noteq> CanonicalHeaderKey ''Access-Control-Allow-Methods''"
    by code_simp+
  show "Header_Get (written (preflight_headers F cfg c)) ''Access-Control-Allow-Origin''
     = Header_Get (written c) ''Access-Control-Allow-Origin''"
    "Header_Get (written (preflight_headers F cfg c)) ''Access-Control-Allow-Methods'' = co_AllowMethods cfg"
    using k by (simp_all add: preflight_headers_def Let_def Header_Get_Set)
qed

lemma allow_origin_cases:
  "allow_origin cfg origin \<noteq> [] \<Longrightarrow>
     co_AllowOrigins cfg = ''*'' \<and> allow_origin cfg origin = ''*''
   \<or> allow_origin cfg origin = origin \<and> origin \<in> TrimSpace ` set (Split (CHR '','') (co_AllowOrigins cfg))"
  by (auto simp: allow_origin_def list_ex_iff split: if_splits)

text \<open>C39. The origin that a cross-origin response names is either the wildcard of the configuration or the
  request's own origin, and then one of the configured ones; for every other origin the
  middleware does nothing, and the browser refuses the response.\<close>

theorem cors_admits_only_listed:
  assumes "co_AllowOrigins (cors_config config) \<noteq> ''*''"
    and "ctx_Method F c \<noteq> ''OPTIONS''"
  shows "run_chain (CORS F config # hs) c =
    (if ctx_HeaderVal F c ''Origin'' \<noteq> []
        \<and> ctx_HeaderVal F c ''Origin'' \<in> TrimSpace ` set (Split (CHR '','') (co_AllowOrigins (cors_config config)))
     then run_chain hs (cors_headers (cors_config config) (ctx_HeaderVal F c ''Origin'') c)
     else run_chain hs c)
    \<and> Header_Get (written (cors_headers (cors_config config) (ctx_HeaderVal F c ''Origin'') c)) ''Access-Control-Allow-Origin''
        = ctx_HeaderVal F c ''Origin''"
proof -
  have l: "list_ex (\<lambda>o'. TrimSpace o' = y) os \<longleftrightarrow> y \<in> TrimSpace ` set os" for os y
    by (auto simp: list_ex_iff)
  show ?thesis using assms by (simp add: CORS_chain Let_def allow_origin_def l)
qed

theorem cors_admits_only_listed_witness:
  "let F = web_fasthttp; cfg = CORSConfigDefault\<lparr>co_AllowOrigins := ''https://a.io, https://b.io''\<rparr>;
       c = \<lambda>or. (base (demo_ctx ''GET'' ''/''))\<lparr>fctx := (demo_web ''GET'' ''/'')\<lparr>q_headers := [(''Origin'', or)]\<rparr>\<rparr>
   in run_chain [CORS F [cfg], demo_hello] (c ''https://b.io'') = run_chain [demo_hello] (cors_headers cfg ''https://b.io'' (c ''https://b.io''))
      \<and> run_chain [CORS F [cfg], demo_hello] (c ''https://evil.io'') = run_chain [demo_hello] (c ''https://evil.io'')"
proof -
  define F where "F = web_fasthttp"
  define cfg where "cfg = CORSConfigDefault\<lparr>co_AllowOrigins := ''https://a.io, https://b.io''\<rparr>"
  define c where "c = (\<lambda>or. (base (demo_ctx ''GET'' ''/''))\<lparr>fctx := (demo_web ''GET'' ''/'')\<lparr>q_headers := [(''Origin'', or)]\<rparr>\<rparr>)"
  have cc: "cors_config [cfg] = cfg"
    by (simp add: cors_config_def configured_def cfg_def or_else_def CORSConfigDefault_def)
  have h: "ctx_HeaderVal F (c or) ''Origin'' = or" "ctx_Method F (c or) = ''GET''" for or
    by (simp_all add: F_def c_def web_fasthttp_def ctx_HeaderVal_def ctx_Method_def pairs_get_def demo_web_def)
  have "map TrimSpace (Split (CHR '','') ''https://a.io, https://b.io'') = [''https://a.io'', ''https://b.io'']" by code_simp
  then have os: "TrimSpace ` set (Split (CHR '','') (co_AllowOrigins cfg)) = {''https://a.io'', ''https://b.io''}"
    by (simp add: cfg_def CORSConfigDefault_def flip: list.set_map)
  have star: "co_AllowOrigins (cors_config [cfg]) \<noteq> ''*''" unfolding cc by (simp add: cfg_def)
  note t = cors_admits_only_listed[OF star, of F "c or" "[demo_hello]" for or, unfolded cc os h, simplified]
  show ?thesis using t[of "''https://b.io''"] t[of "''https://evil.io''"] by (simp add: Let_def F_def cfg_def c_def)
qed

lemma preflight_finish:
  assumes "ctx_Method F (base c) = ''OPTIONS''" and "ctx_HeaderVal F (base c) ''Origin'' \<noteq> []"
    and "allow_origin (cors_config config) (ctx_HeaderVal F (base c) ''Origin'') \<noteq> []"
  shows "\<exists>h W'. finish F o' (CORS F config # hs) c W = (Returned None,
      snd (syncHeaders F \<lparr>header = h, headerSync = sent_already (base c), headerInit = True\<rparr>
        (fh_SetBody F [] (fh_SetStatusCode F 204 (fh_SetContentType F ''text/plain; charset=utf-8'' (fctx (base c)))))), W')
    \<and> Header_Get h ''Access-Control-Allow-Origin'' = allow_origin (cors_config config) (ctx_HeaderVal F (base c) ''Origin'')
    \<and> Header_Get h ''Access-Control-Allow-Methods'' = co_AllowMethods (cors_config config)"
proof -
  define b where "b = setContextSettings o' (srvMeta W) (srvStore W) (base c)"
  define b' where "b' = preflight_headers F (cors_config config)
    (cors_headers (cors_config config) (allow_origin (cors_config config) (ctx_HeaderVal F b ''Origin'')) b)"
  have b: "fctx b = fctx (base c)" "rw b = rw (base c)" by (simp_all add: b_def setContextSettings_def)
  have req: "ctx_Method F b = ''OPTIONS''" "ctx_HeaderVal F b ''Origin'' = ctx_HeaderVal F (base c) ''Origin''"
    using assms(1) by (simp_all add: ctx_Method_def ctx_HeaderVal_def b)
  have "run_chain (CORS F config # hs) b = (Returned None, SendString F 204 [] b')"
    using assms req by (simp add: CORS_chain Let_def b'_def)
  from finish_run[OF this[unfolded b_def]] obtain W' where
    fin: "finish F o' (CORS F config # hs) c W = (Returned None, fctx (syncWriter F (SendString F 204 [] b')), W')"
    by auto
  have rw: "rw b' = Some \<lparr>header = written b', headerSync = sent_already (base c), headerInit = True\<rparr>"
  proof -
    have "sent_already b' = sent_already (base c)" by (simp add: b'_def) (simp add: sent_already_def b)
    moreover have "has_headers b'" by (simp add: b'_def)
    ultimately show ?thesis using rw_written[of b'] by simp
  qed
  have f: "fctx b' = fctx (base c)" by (simp add: b'_def b)
  have "fctx (syncWriter F (SendString F 204 [] b'))
    = snd (syncHeaders F \<lparr>header = written b', headerSync = sent_already (base c), headerInit = True\<rparr>
        (fh_SetBody F [] (fh_SetStatusCode F 204 (fh_SetContentType F ''text/plain; charset=utf-8'' (fctx (base c))))))"
    by (simp add: syncWriter_def SendString_def rw f case_prod_unfold)
  with fin show ?thesis
    by (intro exI[of _ "written b'"] exI[of _ W']) (simp add: b'_def req)
qed

text \<open>A preflight request is answered although no route has the method \<open>OPTIONS\<close>: the middleware stands in
  front of the handlers for unknown routes too. The answer has status 204, no body, the
  admitted origin and the configured methods; nothing behind the middleware runs.\<close>

theorem cors_preflight_without_route:
  assumes "server_ok W" and "\<forall>m \<in> fst ` set (trees W). m \<noteq> []"
    and "\<And>root. map_of (trees W) (fh_Method F f) = Some root \<Longrightarrow>
      \<exists>ps. getValue root (fh_Path F f) (Some []) = Inr (None, False, ps)"
    and "global_mws W i = CORS F config # ms"
    and "fh_Method F f = ''OPTIONS''" and "fh_ReqPeek F ''Origin'' f \<noteq> []"
    and "allow_origin (cors_config config) (fh_ReqPeek F ''Origin'' f) \<noteq> []"
  shows "\<exists>h W'. handleFastHTTP F z i f W = Inr (Returned None,
      add_headers F h (fh_SetBody F [] (fh_SetStatusCode F 204 (fh_SetContentType F ''text/plain; charset=utf-8'' f))), W')
    \<and> Header_Get h ''Access-Control-Allow-Origin'' = allow_origin (cors_config config) (fh_ReqPeek F ''Origin'' f)
    \<and> Header_Get h ''Access-Control-Allow-Methods'' = co_AllowMethods (cors_config config)"
proof -
  obtain c W1 where a: "acquireContext z f W = (c, W1)" by (cases "acquireContext z f W")
  obtain ps where h: "handleFastHTTP F z i f W
      = no_route F i (fh_Path F f) (fh_Method F f) (c\<lparr>base := (base c)\<lparr>params := ps\<rparr>\<rparr>) W1"
    using handle_not_found[OF assms(1) a assms(3)] by blast
  let ?c = "c\<lparr>base := (base c)\<lparr>params := ps\<rparr>\<rparr>"
  have c: "fctx (base ?c) = f" "sent_already (base ?c) = False"
    using acquire_context[OF a] by (auto simp: sent_already_def newResponseWriter_def split: option.splits)
  obtain r where r: "no_route F i (fh_Path F f) (fh_Method F f) ?c W1 = Inr r"
    using no_route_total[OF server_ok_acquire[OF a assms(1)]] by blast
  then obtain h0 where "r = finish F (newContextOptions (fh_Path F f) (fh_Method F f)) (CORS F config # ms @ [h0]) ?c W1"
    using global_mws_acquire[OF a, of i] assms(4)
    by (auto simp: no_route_def runNotFound_def split: if_splits sum.splits)
  with h r preflight_finish[where c = ?c and W = W1 and hs = "ms @ [h0]" and config = config and F = F]
  show ?thesis using assms(5-7) c by (auto simp: ctx_Method_def ctx_HeaderVal_def syncHeaders_def)
qed

definition demo_cors0 :: demo_server where
  "demo_cors0 = mux_Use (\<lambda>c n. 2 * n) [CORS web_fasthttp []] 0 demo_new"

definition demo_cors :: demo_server where
  "demo_cors = (case mux_method demo_compile ''GET'' ''/hello'' (demo_ro None) 0 demo_cors0 of
     Inr W \<Rightarrow> W | Inl _ \<Rightarrow> demo_new)"

lemma demo_cors: "mux_method demo_compile ''GET'' ''/hello'' (demo_ro None) 0 demo_cors0 = Inr demo_cors"
proof -
  have "\<not> isl (mux_method demo_compile ''GET'' ''/hello'' (demo_ro None) 0 demo_cors0)" by code_simp
  then show ?thesis by (auto simp: demo_cors_def split: sum.splits)
qed

lemma demo_cors_parts: "map fst (trees demo_cors) = [''GET'']" by code_simp

lemma demo_cors0_ok: "server_ok demo_cors0" "0 < length (muxes demo_cors0)" "full_path demo_cors0 0 p = p"
  "global_mws demo_cors0 0 = [CORS web_fasthttp []]"
proof -
  show "server_ok demo_cors0" unfolding demo_cors0_def
    by (rule mux_Use_ok[OF demo_new_ok(1,2)])
  show "0 < length (muxes demo_cors0)" "full_path demo_cors0 0 p = p" "global_mws demo_cors0 0 = [CORS web_fasthttp []]"
    by (simp_all add: demo_cors0_def demo_new_def newRouter_def mux_Use_def full_path_def mux_of_def global_mws_def
        slice_append_def slice_elems_def Let_def)
qed

lemma demo_cors_ok: "server_ok demo_cors" "global_mws demo_cors 0 = [CORS web_fasthttp []]"
proof -
  show "server_ok demo_cors" by (rule mux_method_ok[OF demo_cors0_ok(1,2) _ demo_cors]) (simp add: demo_cors0_ok)
  show "global_mws demo_cors 0 = [CORS web_fasthttp []]"
    by (rule mux_method_parts[OF demo_cors]) (use demo_cors0_ok(2,4) in \<open>simp add: global_mws_def mux_of_def\<close>)
qed

theorem cors_preflight_without_route_witness:
  "\<exists>h W'. handleFastHTTP web_fasthttp (\<lambda>_. None) 0
       ((demo_web ''OPTIONS'' ''/hello'')\<lparr>q_headers := [(''Origin'', ''https://a.io'')]\<rparr>) demo_cors
     = Inr (Returned None, add_headers web_fasthttp h (fh_SetBody web_fasthttp [] (fh_SetStatusCode web_fasthttp 204
         (fh_SetContentType web_fasthttp ''text/plain; charset=utf-8''
           ((demo_web ''OPTIONS'' ''/hello'')\<lparr>q_headers := [(''Origin'', ''https://a.io'')]\<rparr>)))), W')
     \<and> Header_Get h ''Access-Control-Allow-Origin'' = ''*''"
proof -
  let ?f = "(demo_web ''OPTIONS'' ''/hello'')\<lparr>q_headers := [(''Origin'', ''https://a.io'')]\<rparr>"
  have names: "fst ` set (trees demo_cors) = {''GET''}" using arg_cong[OF demo_cors_parts(1), of set] by simp
  have none: "map_of (trees demo_cors) ''OPTIONS'' = None" by (simp add: map_of_eq_None_iff names)
  have req: "fh_Method web_fasthttp ?f = ''OPTIONS''" "fh_ReqPeek web_fasthttp ''Origin'' ?f = ''https://a.io''"
    by (simp_all add: web_fasthttp_def demo_web_def pairs_get_def)
  have al: "allow_origin (cors_config []) ''https://a.io'' = ''*''"
    by (simp add: allow_origin_def cors_config_def configured_def CORSConfigDefault_def)
  from cors_preflight_without_route[where F = web_fasthttp and W = demo_cors and f = ?f and z = "\<lambda>_. None",
      OF demo_cors_ok(1) _ _ demo_cors_ok(2)]
  show ?thesis by (auto simp: req al names none)
qed

end
