(* ===== verification/CsrfLaws.thy ===== *)
theory CsrfLaws
  imports Csrf MiddlewareLaws
begin

section \<open>What the CSRF check guarantees\<close>

subsection \<open>Signed tokens\<close>

lemma hex_of_hex_char: "n < 16 \<Longrightarrow> hex_of_char (hex_char n) = Some n"
  by (auto simp: hex_of_char_def hex_char_def)

lemma hex_char_dot: "n < 16 \<Longrightarrow> hex_char n \<noteq> CHR ''.''"
proof
  assume "n < 16" and "hex_char n = CHR ''.''"
  then have "hex_of_char (CHR ''.'') = Some n" using hex_of_hex_char[of n] by simp
  then show False by (simp add: hex_of_char_def)
qed

lemma hex_roundtrip: "hex_DecodeString (hex_EncodeToString s) = Some s"
proof (induction s)
  case (Cons c s)
  have "byte c div 16 < 16" "byte c mod 16 < 16" by (simp_all add: less_mult_imp_div_less)
  then show ?case using Cons by (simp add: hex_EncodeToString_def hex_byte_def hex_of_hex_char)
qed (simp add: hex_EncodeToString_def)

lemma hex_no_dot: "CHR ''.'' \<notin> set (hex_EncodeToString s)"
proof -
  have "CHR ''.'' \<noteq> hex_char (byte c div 16)" "CHR ''.'' \<noteq> hex_char (byte c mod 16)" for c
    using hex_char_dot[of "byte c div 16"] hex_char_dot[of "byte c mod 16"] by (auto simp: less_mult_imp_div_less)
  then show ?thesis by (auto simp: hex_EncodeToString_def hex_byte_def)
qed

lemma LastIndexByte_Some:
  "LastIndexByte s d = Some i \<Longrightarrow> i < length s \<and> s ! i = d \<and> d \<notin> set (drop (i + 1) s)"
proof -
  assume "LastIndexByte s d = Some i"
  then obtain j where j: "find_index (\<lambda>c. c = d) (rev s) = Some j" "i = length s - 1 - j"
    by (auto simp: LastIndexByte_def)
  from find_index_SomeD[OF j(1)] have *: "j < length s" "rev s ! j = d" "\<forall>k < j. rev s ! k \<noteq> d" by auto
  then have "i < length s" "s ! i = d" by (simp_all add: j(2) rev_nth)
  moreover have "s ! k \<noteq> d" if "i < k" "k < length s" for k
  proof -
    have "length s - 1 - k < j" using that *(1) j(2) by simp
    with *(3) have "rev s ! (length s - 1 - k) \<noteq> d" by blast
    then show ?thesis using that by (simp add: rev_nth)
  qed
  ultimately show ?thesis by (auto simp: in_set_conv_nth)
qed

lemma LastIndexByte_last: "d \<notin> set v \<Longrightarrow> LastIndexByte (u @ d # v) d = Some (length u)"
proof (cases "LastIndexByte (u @ d # v) d")
  case None
  then show ?thesis by (auto simp: LastIndexByte_def find_index_None)
next
  case (Some i)
  assume "d \<notin> set v"
  note at = LastIndexByte_Some[OF Some]
  have "\<not> i < length u"
  proof
    assume "i < length u"
    then have "d \<in> set (drop (i + 1) (u @ d # v))" by simp
    with at show False by simp
  qed
  moreover have "\<not> length u < i" using at \<open>d \<notin> set v\<close> nth_mem[of "i - length u - 1" v]
    by (auto simp: nth_append nth_Cons')
  ultimately show ?thesis using Some by simp
qed

lemma cut_at: "i < length s \<Longrightarrow> s ! i = d \<Longrightarrow> s = take i s @ d # drop (i + 1) s"
  by (metis Suc_eq_plus1 id_take_nth_drop)

lemma issued_verifies: "raw \<noteq> [] \<Longrightarrow> hmac k raw \<noteq> [] \<Longrightarrow> verifySignedCSRFToken hmac (signCSRFToken hmac raw k) k"
  using LastIndexByte_last[OF hex_no_dot[of "hmac k raw"], of raw] hex_roundtrip[of "hmac k raw"]
  by (cases "hmac k raw") (auto simp: verifySignedCSRFToken_def signCSRFToken_def hex_EncodeToString_def hex_byte_def)

text \<open>A token verifies exactly when it is some text, a dot and the hexadecimal digits, in either case, of
  the message code of that text; the tokens the middleware issues are among them.\<close>

theorem signed_token_verifies:
  "(verifySignedCSRFToken hmac tok k \<longleftrightarrow>
     (\<exists>raw h. tok = raw @ CHR ''.'' # h \<and> raw \<noteq> [] \<and> h \<noteq> [] \<and> CHR ''.'' \<notin> set h \<and> hex_DecodeString h = Some (hmac k raw)))
   \<and> (raw = [] \<or> hmac k raw = [] \<or> verifySignedCSRFToken hmac (signCSRFToken hmac raw k) k)"
proof -
  let ?R = "\<lambda>tok. \<exists>raw h. tok = raw @ CHR ''.'' # h \<and> raw \<noteq> [] \<and> h \<noteq> [] \<and> CHR ''.'' \<notin> set h
    \<and> hex_DecodeString h = Some (hmac k raw)"
  have iff: "verifySignedCSRFToken hmac tok k \<longleftrightarrow> ?R tok" for tok
  proof
    assume v: "verifySignedCSRFToken hmac tok k"
    then obtain i where i: "LastIndexByte tok (CHR ''.'') = Some i" "i \<noteq> 0" "i \<noteq> length tok - 1"
      "hex_DecodeString (drop (i + 1) tok) = Some (hmac k (take i tok))"
      by (auto simp: verifySignedCSRFToken_def split: option.splits if_splits)
    from LastIndexByte_Some[OF i(1)] cut_at[of i tok] i(2-4) show "?R tok"
      by (intro exI[of _ "take i tok"] exI[of _ "drop (i + 1) tok"]) auto
  next
    assume "?R tok"
    then obtain raw h where t: "tok = raw @ CHR ''.'' # h" "raw \<noteq> []" "h \<noteq> []" "CHR ''.'' \<notin> set h"
      "hex_DecodeString h = Some (hmac k raw)" by blast
    then show "verifySignedCSRFToken hmac tok k"
      by (simp add: verifySignedCSRFToken_def LastIndexByte_last)
  qed
  then show ?thesis using issued_verifies[of raw hmac k] by blast
qed

subsection \<open>The double submit\<close>

lemma extractToken_frame [simp]:
  "fctx (snd (extractToken F lookup c)) = fctx c" "written (snd (extractToken F lookup c)) = written c"
  by (auto simp: extractToken_def Request_of_def written_def Let_def split: prod.split option.split)

lemma cookie_token_valid:
  "cookie_token F hmac cfg c = (t, True) \<Longrightarrow> t \<noteq> [] \<and> (cs_SignTokens cfg \<longrightarrow> verifySignedCSRFToken hmac t (cs_SigningKey cfg))"
  by (auto simp: cookie_token_def split: sum.splits if_splits)

text \<open>The request repeats, in the place the configuration names, a cookie that counts.\<close>

definition double_submit :: "'f fasthttp \<Rightarrow> mac \<Rightarrow> ('f, 'v) CSRFConfig \<Rightarrow> ('f, 'v) ctx \<Rightarrow> bool" where
  "double_submit F hmac cfg c \<longleftrightarrow>
     cookie_token F hmac cfg c = (fst (extractToken F (key_lookup (cs_KeyLookup cfg)) c), True)"

lemma csrf_rejects_iff:
  assumes "client \<noteq> fresh_token hmac rand cfg"
  shows "csrf_rejects hmac cfg (snd (cookie_token F hmac cfg c)) (csrf_token F hmac rand cfg c) client
    \<longleftrightarrow> cookie_token F hmac cfg c \<noteq> (client, True)"
proof (cases "cookie_token F hmac cfg c")
  case (Pair t valid)
  then show ?thesis
    using assms cookie_token_valid[of F hmac cfg c t]
    by (auto simp: csrf_rejects_def csrf_token_def)
qed

text \<open>C33. A request whose method is not safe reaches the handlers only if it repeats a cookie token that
  counts, signed with the key when tokens are signed; any other, unless it guesses the token made
  up for it just now, gets the 403 error, and no handler behind the check runs.\<close>

theorem csrf_protects:
  fixes hmac F config eph rand and c :: "('f, 'v) ctx"
  defines "cfg \<equiv> csrf_config eph config"
  defines "c0 \<equiv> touch_request F c"
  defines "c1 \<equiv> snd (extractToken F (key_lookup (cs_KeyLookup cfg)) c0)"
  assumes "\<not> safe_method (ctx_Method F c)" and "cs_ErrorHandler cfg = None"
    and "fst (extractToken F (key_lookup (cs_KeyLookup cfg)) c0) \<noteq> fresh_token hmac rand cfg"
  shows "run_chain (CSRF F hmac rand eph config # hs) c =
      (if double_submit F hmac cfg c0
       then run_chain hs (Writer_Header (Header_Add ''Set-Cookie'' (csrf_cookie cfg (csrf_token F hmac rand cfg c0) (fh_IsTLS F (fctx c)))) c1)
       else (Returned (Some (NewHTTPError 403 ''invalid CSRF token'')), c1))
    \<and> fctx c1 = fctx c \<and> written c1 = written c"
proof -
  have m: "ctx_Method F c0 = ctx_Method F c" by (simp add: ctx_Method_def c0_def)
  show ?thesis
    using assms(4,5) csrf_rejects_iff[OF assms(6), of F c0] m
    by (simp add: run_chain_enter CSRF_def Let_def cfg_def[symmetric] c0_def[symmetric] c1_def[symmetric] double_submit_def)
      (simp add: c1_def c0_def)
qed

text \<open>C34. Liveness of the same check: the token a response hands out, the one of the request or a fresh one, is
  accepted when the client sends it back both as the cookie and as its token.\<close>

theorem csrf_issued_token_accepted:
  assumes "csrf_token F hmac rand cfg a = t" and "t \<noteq> []"
    and "cs_KeyGenerator cfg = None" and "rand \<noteq> []" and "hmac (cs_SigningKey cfg) rand \<noteq> []"
    and "fh_ReqCookie F (cs_CookieName cfg) (fctx b) = t"
    and "fst (extractToken F (key_lookup (cs_KeyLookup cfg)) b) = t"
  shows "double_submit F hmac cfg b"
proof -
  have "cs_SignTokens cfg \<longrightarrow> verifySignedCSRFToken hmac t (cs_SigningKey cfg)"
  proof (cases "cookie_token F hmac cfg a")
    case (Pair u valid)
    show ?thesis
    proof (cases "u = [] \<or> \<not> valid")
      case True
      then have "t = fresh_token hmac rand cfg" using assms(1) Pair by (auto simp: csrf_token_def)
      then show ?thesis using issued_verifies[of rand hmac "cs_SigningKey cfg", OF assms(4,5)] assms(3) by (simp add: fresh_token_def)
    next
      case False
      then show ?thesis using assms(1) Pair cookie_token_valid[of F hmac cfg a u] by (auto simp: csrf_token_def)
    qed
  qed
  then show ?thesis
    using assms(2,6,7) by (simp add: double_submit_def cookie_token_def Request_Cookie_def Let_def)
qed

subsection \<open>Examples\<close>

definition demo_mac :: mac where
  "demo_mac k s = take 4 (k @ s)"

definition demo_csrf :: "(web, nat) CSRFConfig" where
  "demo_csrf = CSRFConfigDefault\<lparr>cs_SignTokens := True, cs_SigningKey := ''key''\<rparr>"

definition demo_post :: "gostring \<Rightarrow> gostring \<Rightarrow> (web, nat) ctx" where
  "demo_post cookie token = (base (demo_ctx ''POST'' ''/pay''))\<lparr>fctx := (demo_web ''POST'' ''/pay'')
     \<lparr>q_cookies := [(''csrf_'', cookie)], q_headers := [(''X-CSRF-Token'', token)]\<rparr>\<rparr>"

lemma demo_csrf_parts:
  "csrf_config eph [demo_csrf] = demo_csrf" "cs_ErrorHandler demo_csrf = None" "cs_KeyGenerator demo_csrf = None"
  "key_lookup (cs_KeyLookup demo_csrf) = (''header'', ''X-CSRF-Token'')" "cs_CookieName demo_csrf = ''csrf_''"
  "cs_SigningKey demo_csrf = ''key''"
  by (simp_all add: csrf_config_def configured_def or_else_def demo_csrf_def CSRFConfigDefault_def key_lookup_def)

lemma demo_fresh: "fresh_token demo_mac ''r1'' demo_csrf = ''r1.6b657972''"
  by code_simp

lemma demo_post_parts:
  "fst (extractToken web_fasthttp (''header'', ''X-CSRF-Token'') (touch_request web_fasthttp (demo_post a b))) = b"
  "fst (extractToken web_fasthttp (''header'', ''X-CSRF-Token'') (demo_post a b)) = b"
  "ctx_Method web_fasthttp (demo_post a b) = ''POST''"
  "fh_ReqCookie web_fasthttp ''csrf_'' (fctx (demo_post a b)) = a"
  by (simp_all add: extractToken_def ctx_HeaderVal_def) (simp_all add: demo_post_def web_fasthttp_def pairs_get_def ctx_Method_def demo_web_def)

theorem csrf_issued_token_accepted_witness:
  "double_submit web_fasthttp demo_mac demo_csrf (demo_post ''r1.6b657972'' ''r1.6b657972'')"
proof -
  have "csrf_token web_fasthttp demo_mac ''r1'' demo_csrf (demo_post [] []) = ''r1.6b657972''"
    using demo_post_parts(4)[of "[]" "[]"]
    by (simp add: csrf_token_def cookie_token_def Request_Cookie_def Let_def demo_csrf_parts demo_fresh)
  from csrf_issued_token_accepted[OF this] show ?thesis
    by (simp add: demo_csrf_parts demo_post_parts demo_mac_def)
qed

theorem csrf_protects_witness:
  "fst (run_chain [CSRF web_fasthttp demo_mac ''r1'' [] [demo_csrf], demo_hello] (demo_post ''x.6b657978'' ''guess''))
     = Returned (Some (NewHTTPError 403 ''invalid CSRF token''))"
proof -
  have "\<not> double_submit web_fasthttp demo_mac demo_csrf (touch_request web_fasthttp (demo_post ''x.6b657978'' ''guess''))"
    using demo_post_parts(4)[of "''x.6b657978''" "''guess''"]
    by (simp add: double_submit_def demo_csrf_parts demo_post_parts cookie_token_def Request_Cookie_def Let_def)
  with csrf_protects[where F = web_fasthttp and hmac = demo_mac and rand = "''r1''" and eph = "[]" and config = "[demo_csrf]"
      and c = "demo_post ''x.6b657978'' ''guess''" and hs = "[demo_hello]"]
  show ?thesis by (simp add: demo_csrf_parts demo_post_parts demo_fresh safe_method_def)
qed

end
