(* ===== verification/PathLaws.thy ===== *)
theory PathLaws
  imports MiddlewareLaws
begin

section \<open>Paths in middleware: static files, redirects and rewrites\<close>

subsection \<open>Cleaning a path\<close>

definition plain_segment :: "gostring \<Rightarrow> bool" where
  "plain_segment w \<longleftrightarrow> w \<noteq> [] \<and> w \<noteq> ''.'' \<and> w \<noteq> ''..'' \<and> slash \<notin> set w"

lemma clean_segments_plain:
  "list_all plain_segment st \<Longrightarrow> list_all (\<lambda>w. slash \<notin> set w) ws \<Longrightarrow>
   list_all plain_segment (clean_segments True ws st)"
proof (induction True ws st rule: clean_segments.induct)
  case (2 w ws st)
  then show ?case by (auto simp: plain_segment_def split: list.split)
qed simp

lemma clean_segments_id: "list_all plain_segment ws \<Longrightarrow> clean_segments True ws st = rev st @ ws"
  by (induction ws arbitrary: st) (auto simp: plain_segment_def)

lemma pathClean_eq:
  "pathClean p = slash # Join (clean_segments True (Split slash p) []) [slash]"
proof -
  have c: "path_Clean (slash # q) = slash # Join (clean_segments True (Split slash q) []) [slash]" for q
    by (simp add: path_Clean_def Let_def HasPrefix_def)
  show ?thesis
  proof (cases p)
    case (Cons d q)
    then show ?thesis using c[of q] c[of p] by (auto simp: pathClean_def)
  qed (simp add: pathClean_def)
qed

lemma segments_plain: "list_all plain_segment (clean_segments True (Split slash p) [])"
  by (rule clean_segments_plain) (auto simp: list_all_iff dest: Split_no_sep)

lemma pathClean_segments:
  "Split slash (pathClean p)
     = [] # (if clean_segments True (Split slash p) [] = [] then [[]] else clean_segments True (Split slash p) [])"
proof -
  have "\<forall>w \<in> set (clean_segments True (Split slash p) []). slash \<notin> set w"
    using segments_plain[of p] by (auto simp: list_all_iff plain_segment_def)
  then show ?thesis
    by (cases "clean_segments True (Split slash p) []") (auto simp: pathClean_eq Split_Join)
qed

text \<open>The cleaned path starts with a slash, has no segment that moves up or stays, and cleaning it again
  changes nothing.\<close>

theorem pathClean_normal:
  "HasPrefix (pathClean p) ''/'' \<and> ''..'' \<notin> set (Split slash (pathClean p)) \<and> ''.'' \<notin> set (Split slash (pathClean p))
   \<and> pathClean (pathClean p) = pathClean p"
proof -
  note pl = segments_plain[of p]
  have id: "clean_segments True ws [] = ws" if "list_all plain_segment ws" for ws
    using clean_segments_id[OF that, of "[]"] by simp
  have "clean_segments True ([] # (if ws = [] then [[]] else ws)) [] = ws" if "list_all plain_segment ws" for ws
    using id[OF that] by auto
  from this[OF pl] have "clean_segments True (Split slash (pathClean p)) [] = clean_segments True (Split slash p) []"
    by (simp add: pathClean_segments)
  then have "pathClean (pathClean p) = pathClean p" by (simp add: pathClean_eq)
  moreover have "w \<notin> set ([] # (if ws = [] then [[]] else ws))" if "list_all plain_segment ws" "w \<in> {''.'', ''..''}" for w ws
    using that by (auto simp: list_all_iff plain_segment_def)
  note this[OF pl, folded pathClean_segments]
  moreover have "HasPrefix (pathClean p) ''/''" by (simp add: pathClean_eq HasPrefix_def)
  ultimately show ?thesis by simp
qed

subsection \<open>Static files\<close>

lemma Split_append_sep: "Split d (u @ d # v) = Split d u @ Split d v"
proof (induction u)
  case (Cons c u)
  then show ?case by (cases "Split d u") auto
qed simp

lemma slash_prefix: "HasPrefix p [slash] \<longleftrightarrow> (\<exists>q. p = slash # q)"
  by (auto simp: HasPrefix_iff)

text \<open>When the prefix ends at a segment of the cleaned path, what is left has no segment that moves up.\<close>

lemma stripped_no_dotdot:
  assumes "HasPrefix (pathClean p) pre"
    and "HasSuffix pre ''/'' \<or> drop (length pre) (pathClean p) = [] \<or> HasPrefix (drop (length pre) (pathClean p)) ''/''"
  shows "''..'' \<notin> set (Split slash (strip_prefix pre (pathClean p)))"
proof -
  from assms(1) obtain q where q: "pathClean p = pre @ q" by (auto simp: HasPrefix_iff)
  then have t: "TrimPrefix (pathClean p) pre = q" "drop (length pre) (pathClean p) = q" by (simp_all add: TrimPrefix_def)
  have up: "''..'' \<notin> set (Split slash (pre @ q))" using pathClean_normal[of p] by (simp add: q)
  have "''..'' \<notin> set (Split slash q)"
  proof -
    consider (suffix) r where "pre = r @ [slash]" | (empty) "q = []" | (seg) q' where "q = slash # q'"
      using assms(2) by (auto simp: t HasSuffix_iff slash_prefix)
    then show ?thesis
    proof cases
      case suffix
      then show ?thesis using up by (simp add: Split_append_sep)
    next
      case seg
      then show ?thesis using up by (simp add: Split_append_sep)
    qed simp
  qed
  then show ?thesis by (simp add: strip_prefix_def t)
qed

text \<open>Otherwise it can have one: the prefix need not end where a segment does, and what is left of the
  segment may be two dots. The cleaning was before.\<close>

lemma static_strip_makes_dotdot: "strip_prefix ''/static'' (pathClean ''/static../secret'') = ''/../secret''"
  by code_simp

subsection \<open>Redirects and rewrites\<close>

definition fill :: "gostring \<Rightarrow> gostring \<Rightarrow> gostring" where
  "fill r capture = ReplaceAll (ReplaceAll r ''$1'' capture) ''//'' ''/''"

lemma rule_target_Some:
  assumes "rule_target rs path = Some t"
  shows "(path, t) \<in> set rs \<or> (\<exists>p r. (p @ ''/*'', r) \<in> set rs \<and> HasPrefix path p \<and> t = fill r (drop (length p) path))"
proof (cases "map_of (fst (split_rules rs)) path")
  case (Some u)
  then show ?thesis
    using assms map_of_SomeD[OF Some] by (auto simp: rule_target_def split_rules_def)
next
  case None
  with assms obtain p r where f: "List.find (\<lambda>(p, r). HasPrefix path p) (snd (split_rules rs)) = Some (p, r)"
    and t: "t = fill r (drop (length p) path)"
    by (auto simp: rule_target_def split_rules_def fill_def)
  from f have "(p, r) \<in> set (snd (split_rules rs))" "HasPrefix path p"
    using nth_mem by (fastforce simp: find_Some_iff)+
  then obtain k where "(k, r) \<in> set rs" "HasSuffix k ''/*''" "p = take (length k - 2) k"
    by (auto simp: split_rules_def)
  then have "(p @ ''/*'', r) \<in> set rs" by (auto simp: HasSuffix_iff)
  with \<open>HasPrefix path p\<close> t show ?thesis by blast
qed

lemma rule_target_None:
  assumes "rule_target rs path = None" and "(p @ ''/*'', r) \<in> set rs"
  shows "\<not> HasPrefix path p"
proof -
  have "(p, r) \<in> set (snd (split_rules rs))"
    using assms(2) by (force simp: split_rules_def)
  moreover have "List.find (\<lambda>(p, r). HasPrefix path p) (snd (split_rules rs)) = None"
    using assms(1) by (simp add: rule_target_def case_prod_unfold Let_def split: option.splits)
  ultimately show ?thesis by (auto simp: find_None_iff)
qed

lemma rule_target_exact:
  "map_of rs path = Some t \<Longrightarrow> \<not> HasSuffix path ''/*'' \<Longrightarrow> rule_target rs path = Some t"
proof -
  have "\<not> HasSuffix path ''/*'' \<Longrightarrow> map_of (filter (\<lambda>(p, r). \<not> HasSuffix p ''/*'') rs) path = map_of rs path"
    by (induction rs) auto
  then show "map_of rs path = Some t \<Longrightarrow> \<not> HasSuffix path ''/*'' \<Longrightarrow> rule_target rs path = Some t"
    by (simp add: rule_target_def split_rules_def)
qed

text \<open>A request whose path no rule covers passes. Otherwise it is answered with the configured status and
  the location of a rule: the rule for exactly this path where there is one, else one whose
  prefix the path has, with the rest of the path in the place of the mark.\<close>

theorem redirect_obeys_rules:
  assumes "redirect_config config = \<lparr>rc_Rules = rs, rc_StatusCode = code\<rparr>" and "\<not> HasSuffix (ctx_Path F c) ''/*''"
  shows "run_chain (Redirect F config # hs) c = run_chain hs c \<and> map_of rs (ctx_Path F c) = None
      \<and> (\<nexists>p r. (p @ ''/*'', r) \<in> set rs \<and> HasPrefix (ctx_Path F c) p)
    \<or> (\<exists>t. run_chain (Redirect F config # hs) c = (Returned None, SendString F code [] (set_resp ''Location'' t c))
          \<and> (map_of rs (ctx_Path F c) = Some t
             \<or> map_of rs (ctx_Path F c) = None
                \<and> (\<exists>p r. (p @ ''/*'', r) \<in> set rs \<and> HasPrefix (ctx_Path F c) p \<and> t = fill r (drop (length p) (ctx_Path F c)))))"
proof -
  have run: "run_chain (Redirect F config # hs) c =
     (case rule_target rs (ctx_Path F c) of
        None \<Rightarrow> run_chain hs c | Some t \<Rightarrow> (Returned None, SendString F code [] (set_resp ''Location'' t c)))"
    by (cases "rs = []")
      (simp_all add: run_chain_enter Redirect_def assms(1) rule_target_def split_rules_def split: option.split)
  show ?thesis
  proof (cases "map_of rs (ctx_Path F c)")
    case (Some t)
    then show ?thesis using rule_target_exact[OF _ assms(2)] by (simp add: run)
  next
    case None
    then have "(ctx_Path F c, t) \<notin> set rs" for t by (metis map_of_eq_None_iff fst_conv image_eqI)
    then show ?thesis
      using None rule_target_Some[of rs "ctx_Path F c"] rule_target_None[of rs "ctx_Path F c"]
      by (cases "rule_target rs (ctx_Path F c)") (auto simp: run)
  qed
qed

theorem redirect_obeys_rules_witness:
  "let F = web_fasthttp; c = base (demo_ctx ''GET'' ''/old/a'');
       rs = [(''/old/*'', ''/new/$1''), (''/old'', ''/home'')]
   in run_chain [Redirect F [\<lparr>rc_Rules = rs, rc_StatusCode = 0\<rparr>], demo_hello] c
      = (Returned None, SendString F 302 [] (set_resp ''Location'' ''/new/a'' c))"
proof -
  let ?rs = "[(''/old/*'', ''/new/$1''), (''/old'', ''/home'')]"
  have cfg: "redirect_config [\<lparr>rc_Rules = ?rs, rc_StatusCode = 0\<rparr>] = \<lparr>rc_Rules = ?rs, rc_StatusCode = 302\<rparr>"
    by (simp add: redirect_config_def configured_def)
  have p: "ctx_Path web_fasthttp (base (demo_ctx ''GET'' ''/old/a'')) = ''/old/a''"
    by (simp add: ctx_Path_def web_fasthttp_def demo_ctx_def demo_web_def)
  have "(q @ ''/*'', r) \<in> set ?rs \<Longrightarrow> q = ''/old'' \<and> r = ''/new/$1''" for q r
    by (auto simp: append_eq_Cons_conv)
  moreover have "fill ''/new/$1'' ''/a'' = ''/new/a''" by code_simp
  moreover have "\<not> HasSuffix ''/old/a'' ''/*''" by code_simp
  moreover have "(''/old'' @ ''/*'', ''/new/$1'') \<in> set ?rs" "HasPrefix ''/old/a'' ''/old''" by (simp_all add: HasPrefix_def)
  ultimately show ?thesis
    using redirect_obeys_rules[OF cfg, of web_fasthttp "base (demo_ctx ''GET'' ''/old/a'')" "[demo_hello]"]
    by (fastforce simp: p Let_def)
qed

text \<open>What the code says of wildcards is not what it does at two places: the prefix is compared byte by
  byte, so the rule for \<open>/old/*\<close> covers \<open>/older\<close>, and the slashes of an absolute location are
  merged as well.\<close>

lemma redirect_ignores_segments: "rule_target [(''/old/*'', ''/new$1'')] ''/older'' = Some ''/newer''"
  by code_simp

lemma redirect_breaks_absolute: "rule_target [(''/old/*'', ''https://x.io/$1'')] ''/old/a'' = Some ''https:/x.io/a''"
  by code_simp

text \<open>A rewritten request goes on with the handlers of the route that its old path found, and with their
  parameters: only the path that they read is another one.\<close>

theorem rewrite_keeps_route:
  assumes "rule_target rs (ctx_Path F c) = Some t"
  shows "\<exists>c'. run_chain (Rewrite F M [rs] # hs) c = run_chain hs c'
    \<and> fctx c' = mf_SetPath M t (fctx c) \<and> params c' = params c \<and> opts c' = opts c"
proof -
  have "rs \<noteq> []" using assms by (auto simp: rule_target_def split_rules_def)
  then show ?thesis
    using assms
    by (intro exI[of _ "on_fctx (mf_SetPath M t) (touch_request F c)"])
      (simp add: run_chain_enter Rewrite_def configured_def on_fctx_def touch_request_def Request_of_def Let_def split: option.split)
qed

text \<open>The instance in memory of the operations that only middleware uses; it compresses nothing and has no
  files.\<close>

definition web_mw :: "web mw_fasthttp" where
  "web_mw = \<lparr>mf_SetPath = (\<lambda>p f. f\<lparr>q_path := p\<rparr>), mf_ResetBody = (\<lambda>f. f\<lparr>p_body := []\<rparr>),
     mf_ContentType = (\<lambda>f. pairs_get (p_headers f) ''Content-Type''), mf_ArgsString = q_query,
     mf_CopyResponse = (\<lambda>g f. f\<lparr>p_status := p_status g, p_headers := p_headers g, p_body := p_body g\<rparr>),
     mf_CompressHandler = (\<lambda>l m f. f),
     mf_FS = (\<lambda>root index compress f. f\<lparr>p_status := 404, p_body := ''404 Page not found''\<rparr>)\<rparr>"

theorem rewrite_keeps_route_witness:
  "\<exists>c'. run_chain [Rewrite web_fasthttp web_mw [[(''/v1/*'', ''/v2$1'')]], demo_hello] (base (demo_ctx ''GET'' ''/v1/a''))
       = run_chain [demo_hello] c' \<and> q_path (fctx c') = ''/v2/a'' \<and> opts c' = newContextOptions ''/v1/a'' ''GET''"
proof -
  have p: "ctx_Path web_fasthttp (base (demo_ctx ''GET'' ''/v1/a'')) = ''/v1/a''"
    by (simp add: ctx_Path_def web_fasthttp_def demo_ctx_def demo_web_def)
  have t: "rule_target [(''/v1/*'', ''/v2$1'')] ''/v1/a'' = Some ''/v2/a''" by code_simp
  obtain c' where r: "run_chain [Rewrite web_fasthttp web_mw [[(''/v1/*'', ''/v2$1'')]], demo_hello] (base (demo_ctx ''GET'' ''/v1/a''))
       = run_chain [demo_hello] c'" and f: "fctx c' = mf_SetPath web_mw ''/v2/a'' (fctx (base (demo_ctx ''GET'' ''/v1/a'')))"
    and o: "opts c' = opts (base (demo_ctx ''GET'' ''/v1/a''))"
    using rewrite_keeps_route[of "[(''/v1/*'', ''/v2$1'')]" web_fasthttp "base (demo_ctx ''GET'' ''/v1/a'')" "''/v2/a''" web_mw "[demo_hello]"] t
    unfolding p by blast
  from f have "q_path (fctx c') = ''/v2/a''" by (simp add: web_mw_def)
  moreover from o have "opts c' = newContextOptions ''/v1/a'' ''GET''" by (simp add: demo_ctx_def)
  ultimately show ?thesis using r by blast
qed

subsection \<open>What the static middleware asks the file server for\<close>

text \<open>The prefix takes whole segments of the path off, or is not a prefix of it.\<close>

definition whole_segments :: "gostring \<Rightarrow> gostring \<Rightarrow> bool" where
  "whole_segments pre p \<longleftrightarrow>
     \<not> HasPrefix p pre \<or> HasSuffix pre ''/'' \<or> drop (length pre) p = [] \<or> HasPrefix (drop (length pre) p) ''/''"

text \<open>The file server is asked for the path \<open>p\<close>; its answer stands unless it is a 404.\<close>

definition file_served :: "'f fasthttp \<Rightarrow> 'f mw_fasthttp \<Rightarrow> StaticConfig \<Rightarrow> ('f, 'v) ctx prog list \<Rightarrow> gostring
    \<Rightarrow> ('f, 'v) ctx \<Rightarrow> outcome \<times> ('f, 'v) ctx" where
  "file_served F M cfg hs p c =
     (let c1 = on_fctx (mf_FS M (or_else (sc_Root cfg) ''.'') (or_else (sc_Index cfg) ''index.html'') (sc_Compress cfg))
                 (on_fctx (mf_SetPath M p) (touch_request F c))
      in if fh_StatusCode F (fctx c1) = 404
         then run_chain hs (on_fctx (mf_ResetBody M) (on_fctx (mf_SetPath M (ctx_Path F c1)) c1))
         else (Returned None, c1))"

lemma touch_again: "touch_request F (on_fctx u (touch_request F c)) = on_fctx u (touch_request F c)"
  by (simp add: touch_request_def Request_of_def on_fctx_def Let_def split: option.split)

text \<open>C40. With a prefix, the static middleware either passes a request on untouched or asks the file server
  for a path that starts with a slash and has no segment that moves up, whatever the path of the
  request; for that the prefix has to end where a segment of the cleaned path does.\<close>

theorem static_no_traversal:
  assumes "sc_Prefix cfg \<noteq> []" and "whole_segments (sc_Prefix cfg) (pathClean (ctx_Path F c))"
  shows "run_chain (Static F M [cfg] # hs) c = run_chain hs c
    \<or> (\<exists>p. HasPrefix p ''/'' \<and> ''..'' \<notin> set (Split slash p)
        \<and> run_chain (Static F M [cfg] # hs) c = file_served F M cfg hs p c)"
proof (cases "(ctx_Method F c = ''GET'' \<or> ctx_Method F c = ''HEAD'') \<and> HasPrefix (pathClean (ctx_Path F c)) (sc_Prefix cfg)")
  case False
  then show ?thesis
    using assms(1) by (auto simp: run_chain_enter Static_def static_config_def configured_def Let_def)
next
  case True
  let ?p = "strip_prefix (sc_Prefix cfg) (pathClean (ctx_Path F c))"
  have "''..'' \<notin> set (Split slash ?p)"
    using stripped_no_dotdot True assms(2) by (simp add: whole_segments_def)
  moreover have "HasPrefix ?p ''/''" by (simp add: strip_prefix_def Let_def HasPrefix_def)
  moreover have "run_chain (Static F M [cfg] # hs) c = file_served F M cfg hs ?p c"
    using True assms(1)
    by (auto simp: run_chain_enter Static_def static_serve_def static_config_def configured_def StaticConfigDefault_def
        file_served_def touch_again Let_def)
  ultimately show ?thesis by blast
qed

theorem static_no_traversal_witness:
  "\<exists>p. HasPrefix p ''/'' \<and> ''..'' \<notin> set (Split slash p)
     \<and> run_chain [Static web_fasthttp web_mw [StaticConfigDefault\<lparr>sc_Prefix := ''/static''\<rparr>], send_string web_fasthttp 200 ''next'']
         (base (demo_ctx ''GET'' ''/static/../static/a/../b''))
       = file_served web_fasthttp web_mw (StaticConfigDefault\<lparr>sc_Prefix := ''/static''\<rparr>) [send_string web_fasthttp 200 ''next''] p
         (base (demo_ctx ''GET'' ''/static/../static/a/../b''))"
proof -
  let ?cfg = "StaticConfigDefault\<lparr>sc_Prefix := ''/static''\<rparr>" and ?c = "base (demo_ctx ''GET'' ''/static/../static/a/../b'')"
  let ?hs = "[send_string web_fasthttp 200 ''next''] :: (web, nat) ctx prog list"
  have "pathClean ''/static/../static/a/../b'' = ''/static/b''" by code_simp
  then have p: "pathClean (ctx_Path web_fasthttp ?c) = ''/static/b''"
    by (simp add: ctx_Path_def web_fasthttp_def demo_ctx_def demo_web_def)
  have "q_path (fctx (snd (run_chain ?hs ?c))) = ''/static/../static/a/../b''"
    by (simp add: run_chain_enter SendString_def web_fasthttp_def demo_ctx_def demo_web_def)
  moreover have "q_path (fctx (snd (run_chain (Static web_fasthttp web_mw [?cfg] # ?hs) ?c))) = ''/b''"
    using p
    by (simp add: run_chain_enter Static_def static_serve_def static_config_def configured_def StaticConfigDefault_def Let_def)
      (simp add: strip_prefix_def TrimPrefix_def HasPrefix_def on_fctx_def touch_request_def Request_of_def ctx_Path_def
        ctx_Method_def SendString_def web_fasthttp_def web_mw_def demo_ctx_def demo_web_def Let_def)
  ultimately have "run_chain (Static web_fasthttp web_mw [?cfg] # ?hs) ?c \<noteq> run_chain ?hs ?c" by auto
  with static_no_traversal[of ?cfg web_fasthttp ?c web_mw ?hs] show ?thesis
    by (auto simp: p whole_segments_def HasPrefix_def)
qed

text \<open>Without a prefix, the default, nothing of this holds: the cleaned path is not used at all, and the
  file server sees the path as it came.\<close>

lemma static_default_serves_raw_path:
  assumes "ctx_Method F c = ''GET''" and "sc_Prefix cfg = []"
  shows "run_chain (Static F M [cfg] # hs) c = run_chain (static_serve F M (static_config [cfg]) # hs) c"
  using assms by (simp add: run_chain_enter Static_def static_config_def configured_def Let_def)

end
