(* ===== verification/HeaderLaws.thy ===== *)
theory HeaderLaws
  imports PathLaws
begin

section \<open>Responses in middleware: logging, security headers, entity tags, timeouts\<close>

subsection \<open>Log lines\<close>

lemma sanitize_map: "sanitizeLogField s = map (\<lambda>c. if is_control c then CHR '' '' else c) s"
proof (cases "find_index is_control s")
  case None
  then have "map (\<lambda>c. if is_control c then CHR '' '' else c) s = map id s"
    by (intro map_cong) (auto simp: find_index_None)
  then show ?thesis using None by (simp add: sanitizeLogField_def)
next
  case (Some i)
  have "\<not> is_control c" if "c \<in> set (take i s)" for c
    using find_index_SomeD[OF Some] that by (auto simp: in_set_conv_nth)
  then have "map (\<lambda>c. if is_control c then CHR '' '' else c) (take i s) = take i s"
    by (intro map_idI) auto
  then have "sanitizeLogField s = map (\<lambda>c. if is_control c then CHR '' '' else c) (take i s @ drop i s)"
    unfolding map_append using Some by (simp add: sanitizeLogField_def)
  then show ?thesis by simp
qed

definition printable :: "gostring \<Rightarrow> bool" where
  "printable s \<longleftrightarrow> (\<forall>c \<in> set s. \<not> is_control c)"

lemma printable_simps [simp]:
  "printable []" "printable (c # s) \<longleftrightarrow> \<not> is_control c \<and> printable s"
  "printable (s @ t) \<longleftrightarrow> printable s \<and> printable t"
  by (auto simp: printable_def)

lemma printable_sanitized [simp]: "printable (sanitizeLogField s)"
  by (auto simp: sanitize_map printable_def is_control_def)

lemma printable_digits [simp]: "printable (nat_digits n)" "printable (Itoa i)"
proof -
  have "\<not> is_control c" if "is_digit c" for c using that by (auto simp: is_digit_def is_control_def)
  then show n: "printable (nat_digits n)" for n using nat_digits_digit by (auto simp: printable_def)
  show "printable (Itoa i)" by (simp add: Itoa_def n is_control_def)
qed

lemma printable_Join: "\<forall>w \<in> set ws. printable w \<Longrightarrow> printable sep \<Longrightarrow> printable (Join ws sep)"
  by (induction ws sep rule: Join.induct) auto

text \<open>Whatever the request holds in its path, its method and its headers, the logger writes one line: the
  only control character of the text is the newline at its end.\<close>

theorem log_line_single:
  assumes "printable stamp" and "printable latency"
  shows "\<exists>s. log_line F stamp latency c = s @ [CHR 0x0A] \<and> printable s"
proof -
  have or_else: "printable s \<Longrightarrow> printable d \<Longrightarrow> printable (or_else s d)" for s d by (simp add: or_else_def)
  have p: "printable ''200''" "printable '' | ''" "printable ''0''" by (simp_all add: is_control_def)
  show ?thesis
    unfolding log_line_def Let_def
    by (rule exI, rule conjI, rule refl, rule printable_Join) (use assms p in \<open>auto intro!: or_else simp del: printable_simps(2)\<close>)
qed

theorem log_line_single_witness:
  "\<exists>s. log_line web_fasthttp ''12:00:00'' ''5ms'' (base (demo_ctx ''GET'' [CHR ''/'', CHR 0x0A, CHR ''x''])) = s @ [CHR 0x0A] \<and> printable s"
  by (rule log_line_single) (simp_all add: is_control_def)

subsection \<open>Entity tags\<close>

lemma ETag_chain:
  "run_chain (ETag F M config # hs) c =
     (if ctx_Method F c \<noteq> ''GET'' \<and> ctx_Method F c \<noteq> ''HEAD'' then run_chain hs c
      else case run_chain hs c of
        (Panicked v, t) \<Rightarrow> (Panicked v, t)
      | (Returned e, t) \<Rightarrow>
          let t1 = touch_request F t; b = fh_RespBody F (fctx t); tag = etag_of (configured False id config) b;
              given = fh_ReqPeek F ''If-None-Match'' (fctx t)
          in if fh_StatusCode F (fctx t) \<noteq> 200 \<or> b = [] then (Returned e, t1)
             else if Contains given tag \<or> given = ''*''
             then (Returned None, on_fctx (fh_SetStatusCode F 304 \<circ> mf_ResetBody M) (set_resp ''ETag'' tag t1))
             else (Returned e, set_resp ''ETag'' tag t1))"
proof (cases "run_chain hs c")
  case (Pair r t)
  then show ?thesis
    unfolding run_chain_enter[of "ETag F M config"] unfolding ETag_def Let_def enter_reading
    by (cases r) (simp_all add: enter_after ctx_HeaderVal_def)
qed

text \<open>A client that repeats the tag of the body it would get, alone or in a list, is answered 304 without a
  body; the tag is sent along.\<close>

theorem etag_revalidates:
  assumes "ctx_Method F c \<in> {''GET'', ''HEAD''}"
    and "run_chain hs c = (Returned e, t)" and "fh_StatusCode F (fctx t) = 200" and "fh_RespBody F (fctx t) \<noteq> []"
    and "Contains (fh_ReqPeek F ''If-None-Match'' (fctx t)) (etag_of weak (fh_RespBody F (fctx t)))"
  shows "\<exists>t'. run_chain (ETag F M [weak] # hs) c = (Returned None, t')
    \<and> fctx t' = fh_SetStatusCode F 304 (mf_ResetBody M (fctx t))
    \<and> Header_Get (written t') ''ETag'' = etag_of weak (fh_RespBody F (fctx t))"
  using assms
  by (auto simp: ETag_chain configured_def Let_def ctx_HeaderVal_def Header_Get_Set)

theorem etag_revalidates_witness:
  "\<exists>t'. run_chain [ETag web_fasthttp web_mw [False], demo_hello]
         ((base (demo_ctx ''GET'' ''/''))\<lparr>fctx := (demo_web ''GET'' ''/'')\<lparr>q_headers := [(''If-None-Match'', etag_of False ''hi'')]\<rparr>\<rparr>)
       = (Returned None, t') \<and> p_status (fctx t') = 304 \<and> p_body (fctx t') = []"
proof -
  let ?c = "(base (demo_ctx ''GET'' ''/''))\<lparr>fctx := (demo_web ''GET'' ''/'')\<lparr>q_headers := [(''If-None-Match'', etag_of False ''hi'')]\<rparr>\<rparr>"
  define t where "t = SendString web_fasthttp 200 ''hi'' ?c"
  have run: "run_chain [demo_hello] ?c = (Returned None, t)" by (simp add: run_chain_enter demo_hello_def t_def)
  have t: "fh_StatusCode web_fasthttp (fctx t) = 200" "fh_RespBody web_fasthttp (fctx t) = ''hi''"
    "fh_ReqPeek web_fasthttp ''If-None-Match'' (fctx t) = etag_of False ''hi''"
    by (simp_all add: t_def SendString_def) (simp_all add: web_fasthttp_def pairs_get_def)
  have c: "Contains x x" for x by (metis Contains_iff append_Nil append_Nil2)
  have m: "ctx_Method web_fasthttp ?c \<in> {''GET'', ''HEAD''}" by (simp add: ctx_Method_def web_fasthttp_def demo_web_def)
  have s: "p_status (fh_SetStatusCode web_fasthttp n f) = n" "p_body (fh_SetStatusCode web_fasthttp n f) = p_body f"
    "p_body (mf_ResetBody web_mw f) = []" for n f by (simp_all add: web_fasthttp_def web_mw_def)
  have b: "fh_RespBody web_fasthttp (fctx t) \<noteq> []" by (simp add: t)
  have i: "Contains (fh_ReqPeek web_fasthttp ''If-None-Match'' (fctx t)) (etag_of False (fh_RespBody web_fasthttp (fctx t)))"
    by (simp only: t c)
  from etag_revalidates[OF m run t(1) b i, of web_mw] show ?thesis by (metis s)
qed

text \<open>A client that sends \<open>If-None-Match: *\<close> is answered 304 even if the chain returned an error: the error is
  lost, and with it the error response.\<close>

lemma etag_swallows_error:
  assumes "ctx_Method F c = ''GET''" and "run_chain hs c = (Returned (Some err), t)"
    and "fh_StatusCode F (fctx t) = 200" and "fh_RespBody F (fctx t) \<noteq> []" and "fh_ReqPeek F ''If-None-Match'' (fctx t) = ''*''"
  shows "fst (run_chain (ETag F M config # hs) c) = Returned None"
  using assms by (simp add: ETag_chain Let_def)

subsection \<open>Security headers\<close>

lemma set_all_headers:
  assumes "distinct (map (CanonicalHeaderKey \<circ> fst) kvs)" and "(k, v) \<in> set kvs" and "v \<noteq> []"
  shows "Header_Get (written (fold (\<lambda>(k, v). cond_set (v \<noteq> []) k v) kvs c)) k = v"
  using assms
proof (induction kvs arbitrary: c rule: rev_induct)
  case (snoc kv kvs)
  obtain k' v' where kv: "kv = (k', v')" by (cases kv)
  show ?case
  proof (cases "(k, v) = kv")
    case True
    then show ?thesis using snoc.prems(3) kv by (simp add: Header_Get_Set)
  next
    case False
    then have "(k, v) \<in> set kvs" using snoc.prems(2) by simp
    then have "CanonicalHeaderKey k' \<noteq> CanonicalHeaderKey k" using snoc.prems(1) by (auto simp: kv image_iff)
    with snoc.IH[of c] \<open>(k, v) \<in> set kvs\<close> snoc.prems kv show ?thesis by (simp add: Header_Get_Set)
  qed
qed simp

text \<open>Every header of the configuration that has a value is in the response, with this value, unless a handler
  behind the middleware sets another one.\<close>

theorem helmet_sets_headers:
  assumes "(k, v) \<in> set (helmet_headers (helmet_config config))" and "v \<noteq> []"
  shows "\<exists>c'. run_chain (Helmet config # hs) c = run_chain hs c' \<and> fctx c' = fctx c \<and> Header_Get (written c') k = v"
proof -
  let ?kvs = "helmet_headers (helmet_config config)"
  have f: "fctx (fold (\<lambda>(k, v). cond_set (v \<noteq> []) k v) kvs d) = fctx d" for kvs d
    by (induction kvs arbitrary: d) auto
  have "distinct (map CanonicalHeaderKey [''X-XSS-Protection'', ''X-Content-Type-Options'', ''X-Frame-Options'', ''Referrer-Policy'',
      ''Cross-Origin-Embedder-Policy'', ''Cross-Origin-Opener-Policy'', ''Cross-Origin-Resource-Policy'', ''Origin-Agent-Cluster'',
      ''X-DNS-Prefetch-Control'', ''X-Download-Options'', ''X-Permitted-Cross-Domain-Policies'', ''Strict-Transport-Security'',
      ''Content-Security-Policy'', ''Content-Security-Policy-Report-Only''])" (is "distinct (map _ ?ks)") by code_simp
  then have "distinct (map (CanonicalHeaderKey \<circ> fst) ?kvs)"
    by (auto simp: helmet_headers_def)
  from set_all_headers[OF this assms] show ?thesis
    by (intro exI[of _ "fold (\<lambda>(k, v). cond_set (v \<noteq> []) k v) ?kvs (Writer_Header id c)"])
      (simp add: run_chain_enter Helmet_def Let_def f)
qed

theorem helmet_sets_headers_witness:
  "\<exists>c'. run_chain [Helmet [], demo_hello] (base (demo_ctx ''GET'' ''/'')) = run_chain [demo_hello] c'
     \<and> Header_Get (written c') ''X-Frame-Options'' = ''SAMEORIGIN''"
proof -
  have "(''X-Frame-Options'', ''SAMEORIGIN'') \<in> set (helmet_headers (helmet_config []))"
    by (simp add: helmet_headers_def helmet_config_def configured_def HelmetConfigDefault_def)
  from helmet_sets_headers[OF this, of "[demo_hello]" "base (demo_ctx ''GET'' ''/'')"] show ?thesis by auto
qed

subsection \<open>Timeouts\<close>

text \<open>The handlers behind a timeout work on a copy. When the time is over, the context is as it was before
  they started and the error handler runs on it; when they finish in time, their response is
  copied back, a panic among them being an error of status 500. Nothing else of the copy is:
  headers that a handler put in the copy's writer and that no write has sent are lost.\<close>

theorem timeout_isolates:
  "Timeout F M [] False c = (Returned (Some (NewHTTPError 408 ''request timeout'')), c\<lparr>base := base c, handlerIdx := int (nat (handlerIdx c + 1)) - 1\<rparr>)
   \<and> (case ctx_Next (ctx_Copy F c) of
        (r, cc) \<Rightarrow> fst (Timeout F M [] True c) = Returned (case r of Returned e \<Rightarrow> e
              | Panicked v \<Rightarrow> Some (NewHTTPError 500 (''panic in timeout middleware: '' @ v)))
          \<and> fctx (base (snd (Timeout F M [] True c))) = mf_CopyResponse M (fctx (base cc)) (fctx (base c))
          \<and> written (base (snd (Timeout F M [] True c))) = written (base c)
          \<and> dataStore (base (snd (Timeout F M [] True c))) = dataStore (base c))"
  by (auto simp: Timeout_def configured_def run_prog_def on_base_def on_fctx_def touch_request_def Request_of_def Let_def
      written_def split: prod.split option.split)

end
