(* ===== verification/CacheMw.thy ===== *)
theory CacheMw
  imports Csrf MiddlewareLaws
begin

section \<open>The response cache (middleware/cache.go)\<close>

text \<open>
  The cache is state that all requests share: the entries by key, and a count of their bytes. What a
  request does to it happens while it holds the lock, at three places: it drops a stale entry,
  it stores a response, and in between the rest of the chain runs; a cleaner removes expired
  entries now and then. Go visits a map in any order; the order of the entries here is the one the
  next visit uses. Times are nanoseconds.
\<close>

record ('f, 'v) CacheConfig =
  cc_Expiration :: int
  cc_CacheHeader :: bool
  cc_KeyGenerator :: "(('f, 'v) ctx \<Rightarrow> gostring) option"
  cc_Methods :: gostring
  cc_MaxEntries :: int
  cc_MaxBytes :: int
  cc_AllowPrivateResponses :: bool

definition CacheConfigDefault :: "('f, 'v) CacheConfig" where
  "CacheConfigDefault = \<lparr>cc_Expiration = 60 * 10 ^ 9, cc_CacheHeader = False, cc_KeyGenerator = None,
     cc_Methods = ''GET, HEAD'', cc_MaxEntries = 4096, cc_MaxBytes = 64 * 2 ^ 20, cc_AllowPrivateResponses = False\<rparr>"

definition cache_config :: "('f, 'v) CacheConfig list \<Rightarrow> ('f, 'v) CacheConfig" where
  "cache_config = configured CacheConfigDefault (\<lambda>c. c\<lparr>
     cc_Expiration := (if cc_Expiration c = 0 then 60 * 10 ^ 9 else cc_Expiration c),
     cc_Methods := or_else (cc_Methods c) ''GET, HEAD'',
     cc_MaxEntries := (if cc_MaxEntries c = 0 then 4096 else cc_MaxEntries c),
     cc_MaxBytes := (if cc_MaxBytes c = 0 then 64 * 2 ^ 20 else cc_MaxBytes c)\<rparr>)"

subsection \<open>Keys\<close>

text \<open>\<open>sort.Strings\<close>, by bytes.\<close>

fun str_le :: "gostring \<Rightarrow> gostring \<Rightarrow> bool" where
  "str_le [] t = True"
| "str_le (c # s) [] = False"
| "str_le (c # s) (d # t) = (byte c < byte d \<or> c = d \<and> str_le s t)"

fun insert_str :: "gostring \<Rightarrow> gostring list \<Rightarrow> gostring list" where
  "insert_str s [] = [s]"
| "insert_str s (t # ts) = (if str_le s t then s # t # ts else t # insert_str s ts)"

definition sort_Strings :: "gostring list \<Rightarrow> gostring list" where
  "sort_Strings ws = foldr insert_str ws []"

definition normalizeQuery :: "gostring \<Rightarrow> gostring" where
  "normalizeQuery q =
     (if q = [] \<or> \<not> Contains q ''&'' then q else Join (sort_Strings (Split (CHR ''&'') q)) ''&'')"

definition defaultKeyGenerator :: "'f fasthttp \<Rightarrow> 'f mw_fasthttp \<Rightarrow> ('f, 'v) ctx \<Rightarrow> gostring" where
  "defaultKeyGenerator F M c =
     (let q = normalizeQuery (mf_ArgsString M (fctx c))
      in if q = [] then ctx_Method F c @ '' '' @ ctx_Path F c else ctx_Method F c @ '' '' @ ctx_Path F c @ ''?'' @ q)"

definition cache_key :: "'f fasthttp \<Rightarrow> 'f mw_fasthttp \<Rightarrow> ('f, 'v) CacheConfig \<Rightarrow> ('f, 'v) ctx \<Rightarrow> gostring" where
  "cache_key F M cfg c = (case cc_KeyGenerator cfg of None \<Rightarrow> defaultKeyGenerator F M c | Some g \<Rightarrow> g c)"

subsection \<open>Entries\<close>

record cacheEntry =
  ce_body :: gostring
  ce_contentType :: gostring
  ce_statusCode :: int
  ce_exp :: int
  ce_size :: int

record cache =
  ca_store :: "cacheEntry gomap"
  totalBytes :: int

definition empty_cache :: cache where
  "empty_cache = \<lparr>ca_store = [], totalBytes = 0\<rparr>"

definition forget_bytes :: "int \<Rightarrow> int \<Rightarrow> int" where
  "forget_bytes n t = (if t - n < 0 then 0 else t - n)"

text \<open>\<open>delete(store, k)\<close> of an entry of size \<open>n\<close>, with its bytes.\<close>

definition remove_entry :: "gostring \<Rightarrow> int \<Rightarrow> cache \<Rightarrow> cache" where
  "remove_entry k n ca = \<lparr>ca_store = AList.delete k (ca_store ca), totalBytes = forget_bytes n (totalBytes ca)\<rparr>"

definition expired :: "int \<Rightarrow> cacheEntry \<Rightarrow> bool" where
  "expired now e \<longleftrightarrow> ce_exp e > 0 \<and> ce_exp e < now"

definition evictOne :: "int \<Rightarrow> cache \<Rightarrow> cache option" where
  "evictOne now ca =
     (case List.find (\<lambda>(k, v). expired now v) (ca_store ca) of
        Some (k, v) \<Rightarrow> Some (remove_entry k (ce_size v) ca)
      | None \<Rightarrow> (case ca_store ca of [] \<Rightarrow> None | (k, v) # _ \<Rightarrow> Some (remove_entry k (ce_size v) ca)))"

lemma find_SomeD: "List.find P xs = Some x \<Longrightarrow> x \<in> set xs \<and> P x"
  by (induction xs) (auto split: if_splits)

lemma evictOne_entry:
  assumes "evictOne now ca = Some ca'"
  shows "\<exists>k v. (k, v) \<in> set (ca_store ca) \<and> ca' = remove_entry k (ce_size v) ca"
proof (cases "List.find (\<lambda>(k, v). expired now v) (ca_store ca)")
  case None
  with assms show ?thesis by (cases "ca_store ca") (auto simp: evictOne_def)
next
  case (Some p)
  with assms show ?thesis using find_SomeD[OF Some] by (cases p) (auto simp: evictOne_def)
qed

lemma evictOne_None: "evictOne now ca = None \<longleftrightarrow> ca_store ca = []"
  by (auto simp: evictOne_def split: option.splits list.splits)

lemma evictOne_shrinks: "evictOne now ca = Some ca' \<Longrightarrow> length (ca_store ca') < length (ca_store ca)"
proof -
  assume "evictOne now ca = Some ca'"
  from evictOne_entry[OF this] obtain k v where "(k, v) \<in> set (ca_store ca)" "ca' = remove_entry k (ce_size v) ca" by blast
  then show ?thesis
    by (simp add: remove_entry_def AList.delete_eq length_filter_less)
qed

definition full :: "('f, 'v) CacheConfig \<Rightarrow> int \<Rightarrow> cache \<Rightarrow> bool" where
  "full cfg n ca \<longleftrightarrow>
     cc_MaxEntries cfg > 0 \<and> int (length (ca_store ca)) \<ge> cc_MaxEntries cfg
     \<or> cc_MaxBytes cfg > 0 \<and> totalBytes ca + n > cc_MaxBytes cfg"

function make_room :: "('f, 'v) CacheConfig \<Rightarrow> int \<Rightarrow> int \<Rightarrow> cache \<Rightarrow> cache" where
  "make_room cfg now n ca =
     (if full cfg n ca then case evictOne now ca of None \<Rightarrow> ca | Some ca' \<Rightarrow> make_room cfg now n ca' else ca)"
  by pat_completeness auto
termination
  by (relation "measure (\<lambda>(cfg, now, n, ca). length (ca_store ca))") (auto simp: evictOne_shrinks)

declare make_room.simps [simp del]

text \<open>The time of expiry is an \<open>int64\<close>, and the sum wraps.\<close>

definition new_entry :: "('f, 'v) CacheConfig \<Rightarrow> gostring \<Rightarrow> int \<Rightarrow> int \<Rightarrow> gostring \<Rightarrow> gostring \<Rightarrow> cacheEntry" where
  "new_entry cfg k now code body ct =
     \<lparr>ce_body = body, ce_contentType = ct, ce_statusCode = code, ce_exp = wrap_int KInt64 (now + cc_Expiration cfg),
      ce_size = int (length body + length ct + length k)\<rparr>"

definition write_off :: "gostring \<Rightarrow> cache \<Rightarrow> cache" where
  "write_off k ca =
     (case map_of (ca_store ca) k of None \<Rightarrow> ca
      | Some prev \<Rightarrow> ca\<lparr>totalBytes := forget_bytes (ce_size prev) (totalBytes ca)\<rparr>)"

definition store_entry :: "('f, 'v) CacheConfig \<Rightarrow> gostring \<Rightarrow> int \<Rightarrow> cacheEntry \<Rightarrow> cache \<Rightarrow> cache" where
  "store_entry cfg k now e ca =
     (let ca1 = make_room cfg now (ce_size e) (write_off k ca)
      in \<lparr>ca_store = map_put k e (ca_store ca1), totalBytes = totalBytes ca1 + ce_size e\<rparr>)"

text \<open>The second look under the lock, before a stale entry is dropped.\<close>

definition drop_stale :: "gostring \<Rightarrow> int \<Rightarrow> cache \<Rightarrow> cache" where
  "drop_stale k now ca =
     (case map_of (ca_store ca) k of
        Some e \<Rightarrow> if ce_exp e \<le> now then remove_entry k (ce_size e) ca else ca
      | None \<Rightarrow> ca)"

definition cleanup :: "int \<Rightarrow> cache \<Rightarrow> cache" where
  "cleanup now ca =
     fold (\<lambda>(k, v) c. if expired now v then remove_entry k (ce_size v) c else c) (ca_store ca) ca"

subsection \<open>The middleware\<close>

text \<open>The state of the chain is the context and the cache; a handler of the application works on the
  context.\<close>

primrec on_first :: "'s prog \<Rightarrow> ('s \<times> 't) prog" where
  "on_first (Return e) = Return e"
| "on_first (Panic v) = Panic v"
| "on_first (Step u k) = Step (map_prod u id) (\<lambda>st. on_first (k (fst st)))"
| "on_first (CallNext k) = CallNext (\<lambda>r. on_first (k r))"

definition cacheable :: "'f fasthttp \<Rightarrow> ('f, 'v) CacheConfig \<Rightarrow> ('f, 'v) ctx \<Rightarrow> bool" where
  "cacheable F cfg c \<longleftrightarrow>
     ctx_Method F c \<in> TrimSpace ` set (Split (CHR '','') (cc_Methods cfg))
     \<and> (cc_AllowPrivateResponses cfg \<or> ctx_HeaderVal F c ''Authorization'' = [] \<and> ctx_HeaderVal F c ''Cookie'' = [])"

definition hit :: "int \<Rightarrow> gostring \<Rightarrow> cache \<Rightarrow> cacheEntry option" where
  "hit now k ca =
     (case map_of (ca_store ca) k of
        Some e \<Rightarrow> if ce_exp e = 0 \<or> ce_exp e > now then Some e else None | None \<Rightarrow> None)"

definition cache_control :: "('f, 'v) CacheConfig \<Rightarrow> ('f, 'v) ctx \<Rightarrow> ('f, 'v) ctx" where
  "cache_control cfg =
     cond_set (cc_CacheHeader cfg) ''Cache-Control'' (''public, max-age='' @ Itoa (duration_seconds (cc_Expiration cfg)))"

definition send_cached :: "'f fasthttp \<Rightarrow> ('f, 'v) CacheConfig \<Rightarrow> cacheEntry \<Rightarrow> ('f, 'v) ctx \<Rightarrow> ('f, 'v) ctx" where
  "send_cached F cfg e c =
     (let c1 = cache_control cfg c;
          c2 = (if ce_contentType e \<noteq> [] then on_fctx (fh_SetContentType F (ce_contentType e)) (touch_request F c1) else c1)
      in SendBytes F (ce_statusCode e) (ce_body e) c2)"

text \<open>What follows the rest of the chain.\<close>

definition store_response :: "'f fasthttp \<Rightarrow> 'f mw_fasthttp \<Rightarrow> ('f, 'v) CacheConfig \<Rightarrow> gostring \<Rightarrow> int
    \<Rightarrow> ('f, 'v) ctx \<times> cache \<Rightarrow> ('f, 'v) ctx \<times> cache" where
  "store_response F M cfg k now st =
     (let (c, ca) = st; f = fctx c; c1 = touch_request F c
      in if fh_StatusCode F f < 400
         then (cache_control cfg c1,
               store_entry cfg k now (new_entry cfg k now (fh_StatusCode F f) (fh_RespBody F f) (mf_ContentType M f)) ca)
         else (c1, ca))"

definition keyed :: "'f fasthttp \<Rightarrow> ('f, 'v) CacheConfig \<Rightarrow> ('f, 'v) ctx \<Rightarrow> ('f, 'v) ctx" where
  "keyed F cfg = (if cc_KeyGenerator cfg = None then touch_request F else id)"

definition miss :: "gostring \<Rightarrow> int \<Rightarrow> cache \<Rightarrow> cache" where
  "miss k now ca =
     (case map_of (ca_store ca) k of
        Some e \<Rightarrow> if ce_exp e > 0 \<and> ce_exp e \<le> now then drop_stale k now ca else ca
      | None \<Rightarrow> ca)"

definition Cache :: "'f fasthttp \<Rightarrow> 'f mw_fasthttp \<Rightarrow> ('f, 'v) CacheConfig list \<Rightarrow> int \<Rightarrow> (('f, 'v) ctx \<times> cache) prog" where
  "Cache F M config now =
     (let cfg = cache_config config in
      Step id (\<lambda>(c, ca).
        if \<not> cacheable F cfg c then ret_next
        else let k = cache_key F M cfg c in
          case hit now k ca of
            Some e \<Rightarrow> doing (map_prod (send_cached F cfg e \<circ> keyed F cfg) id) (Return None)
          | None \<Rightarrow>
              doing (map_prod (keyed F cfg) (miss k now))
                (CallNext (on_return (\<lambda>err. doing (store_response F M cfg k now) (Return err))))))"

end
