(* ===== verification/CacheLaws.thy ===== *)
theory CacheLaws
  imports CacheMw PathLaws "HOL-Library.Multiset"
begin

section \<open>What the cache guarantees\<close>

subsection \<open>Keys\<close>

lemma str_le_total: "str_le s t \<or> str_le t s"
proof (induction s t rule: str_le.induct)
  case (3 c s d t)
  then show ?case using nat_neq_iff[of "byte c" "byte d"] by auto
qed auto

lemma str_le_antisym: "str_le s t \<Longrightarrow> str_le t s \<Longrightarrow> s = t"
  by (induction s t rule: str_le.induct) (auto elim: str_le.elims)

lemma str_le_trans: "str_le s t \<Longrightarrow> str_le t u \<Longrightarrow> str_le s u"
proof (induction s t arbitrary: u rule: str_le.induct)
  case (3 c s d t)
  then show ?case by (cases u) auto
qed auto

lemma mset_insert_str [simp]: "mset (insert_str s ts) = add_mset s (mset ts)"
  by (induction ts) auto

lemma sorted_insert_str: "sorted_wrt str_le ts \<Longrightarrow> sorted_wrt str_le (insert_str s ts)"
proof (induction ts)
  case (Cons t ts)
  have "set (insert_str s ts) = insert s (set ts)"
    by (metis mset_insert_str set_mset_mset set_mset_add_mset_insert)
  then show ?case using Cons str_le_total[of s t] by (auto intro: str_le_trans)
qed simp

lemma sort_Strings_sorts: "mset (sort_Strings ws) = mset ws" "sorted_wrt str_le (sort_Strings ws)"
  unfolding sort_Strings_def by (induction ws) (auto intro: sorted_insert_str)

lemma sorted_unique:
  "sorted_wrt str_le xs \<Longrightarrow> sorted_wrt str_le ys \<Longrightarrow> mset xs = mset ys \<Longrightarrow> xs = ys"
proof (induction xs arbitrary: ys)
  case (Cons x xs)
  then obtain y ys' where ys: "ys = y # ys'" by (cases ys) auto
  have "set ys = set (x # xs)" using Cons.prems(3) by (metis set_mset_mset)
  then have "str_le y x" "str_le x y" using Cons.prems(1,2) str_le_total[of x x] ys by auto
  then have "x = y" by (rule str_le_antisym[rotated])
  then show ?case using Cons ys by simp
qed simp

text \<open>Two queries of the same parameters in another order have the same key: the normalisation depends on
  the collection of the parts alone.\<close>

theorem normalizeQuery_order_free:
  assumes "mset (Split (CHR ''&'') q) = mset (Split (CHR ''&'') q')"
  shows "normalizeQuery q = normalizeQuery q'"
proof -
  have amp: "Contains s ''&'' \<longleftrightarrow> size (mset (Split (CHR ''&'') s)) > 1" for s
  proof -
    have "CHR ''&'' \<in> set s \<longleftrightarrow> length (Split (CHR ''&'') s) > 1"
      by (induction s) (auto split: list.split)
    moreover have "Contains s ''&'' \<longleftrightarrow> CHR ''&'' \<in> set s"
      by (auto simp: Contains_iff in_set_conv_decomp)
    ultimately show ?thesis by simp
  qed
  have eq: "sort_Strings (Split (CHR ''&'') q) = sort_Strings (Split (CHR ''&'') q')"
    using assms by (intro sorted_unique) (simp_all add: sort_Strings_sorts)
  show ?thesis
  proof (cases "Contains q ''&''")
    case True
    then have "Contains q' ''&''" using amp assms by metis
    with True eq show ?thesis by (auto simp: normalizeQuery_def Contains_def)
  next
    case False
    then have one: "length (Split (CHR ''&'') q) \<le> 1" "length (Split (CHR ''&'') q') \<le> 1" and "\<not> Contains q' ''&''"
      using amp assms by (metis not_less size_mset)+
    have "Split (CHR ''&'') q = Split (CHR ''&'') q'"
      using one assms by (cases "Split (CHR ''&'') q"; cases "Split (CHR ''&'') q'") auto
    then have "q = q'" using Join_Split by metis
    then show ?thesis by simp
  qed
qed

theorem normalizeQuery_order_free_witness: "normalizeQuery ''b=2&a=1'' = normalizeQuery ''a=1&b=2''"
proof -
  have "mset (Split (CHR ''&'') ''b=2&a=1'') = mset (Split (CHR ''&'') ''a=1&b=2'')"
    by simp
  then show ?thesis by (rule normalizeQuery_order_free)
qed

text \<open>That includes a parameter given twice, where the order decides which value a handler reads.\<close>

lemma key_ignores_value_order: "normalizeQuery ''a=1&a=2'' = normalizeQuery ''a=2&a=1''"
  by code_simp

subsection \<open>The states of the cache\<close>

text \<open>
  A step is what happens while the lock is held: Go may visit the map in another order, a request drops a
  stale entry or stores a response, the cleaner runs. The requests in flight may take their steps
  in any order; \<open>overlap\<close> says whether two of them may have missed the same key, so that a response
  is stored where one already is. The history lists the responses stored, the last one first.
  The clock and the duration of the configuration are values of \<open>int64\<close>.
\<close>

record stored =
  sd_key :: gostring
  sd_at :: int
  sd_code :: int
  sd_body :: gostring
  sd_type :: gostring

definition entry_of :: "('f, 'v) CacheConfig \<Rightarrow> stored \<Rightarrow> cacheEntry" where
  "entry_of cfg s = new_entry cfg (sd_key s) (sd_at s) (sd_code s) (sd_body s) (sd_type s)"

inductive cached :: "('f, 'v) CacheConfig \<Rightarrow> bool \<Rightarrow> stored list \<Rightarrow> cache \<Rightarrow> bool" for cfg overlap where
  start: "cached cfg overlap [] empty_cache"
| visit: "cached cfg overlap hist ca \<Longrightarrow> mset xs = mset (ca_store ca) \<Longrightarrow> cached cfg overlap hist (ca\<lparr>ca_store := xs\<rparr>)"
| stale: "cached cfg overlap hist ca \<Longrightarrow> cached cfg overlap hist (drop_stale k now ca)"
| clean: "cached cfg overlap hist ca \<Longrightarrow> cached cfg overlap hist (cleanup now ca)"
| store: "cached cfg overlap hist ca \<Longrightarrow> overlap \<or> map_of (ca_store ca) (sd_key s) = None \<Longrightarrow>
     sd_code s < 400 \<Longrightarrow> 0 \<le> sd_at s \<Longrightarrow> sd_at s < 2 ^ 63 \<Longrightarrow> cc_Expiration cfg < 2 ^ 63 \<Longrightarrow>
     cached cfg overlap (s # hist) (store_entry cfg (sd_key s) (sd_at s) (entry_of cfg s) ca)"

definition bytes_of :: "cacheEntry gomap \<Rightarrow> int" where
  "bytes_of xs = (\<Sum>p \<leftarrow> xs. ce_size (snd p))"

definition sizes_ok :: "cacheEntry gomap \<Rightarrow> bool" where
  "sizes_ok xs \<longleftrightarrow> map_ok xs \<and> (\<forall>(k, e) \<in> set xs. ce_size e = int (length (ce_body e) + length (ce_contentType e) + length k))"

lemma sizes_ok_delete: "sizes_ok xs \<Longrightarrow> sizes_ok (AList.delete k xs)"
  by (auto simp: sizes_ok_def map_ok_def AList.delete_eq distinct_map_filter)

lemma sizes_ok_nonneg: "sizes_ok xs \<Longrightarrow> (k, e) \<in> set xs \<Longrightarrow> 0 \<le> ce_size e"
  by (auto simp: sizes_ok_def)

lemma bytes_nonneg: "sizes_ok xs \<Longrightarrow> 0 \<le> bytes_of xs"
  unfolding bytes_of_def by (rule sum_list_nonneg) (auto simp: sizes_ok_def)

lemma bytes_delete:
  "map_ok xs \<Longrightarrow> bytes_of (AList.delete k xs) = bytes_of xs - (case map_of xs k of None \<Rightarrow> 0 | Some e \<Rightarrow> ce_size e)"
proof (induction xs)
  case (Cons p xs)
  obtain k' e where p: "p = (k', e)" by (cases p)
  show ?case
  proof (cases "k' = k")
    case True
    then have "AList.delete k xs = xs"
      using Cons.prems p by (force simp: map_ok_def AList.delete_eq filter_id_conv)
    with True p show ?thesis by (simp add: bytes_of_def)
  next
    case False
    with Cons p show ?thesis by (simp add: bytes_of_def map_ok_def)
  qed
qed (simp add: bytes_of_def)

lemma bytes_put:
  "bytes_of (map_put k e xs) = bytes_of xs - (case map_of xs k of None \<Rightarrow> 0 | Some e' \<Rightarrow> ce_size e') + ce_size e"
  by (induction xs) (auto simp: bytes_of_def map_put_def)

lemma length_put: "length (map_put k e xs) \<le> Suc (length xs)"
  by (induction xs) (auto simp: map_put_def)

lemma set_put: "p \<in> set (map_put k e xs) \<Longrightarrow> p = (k, e) \<or> p \<in> set xs"
  by (induction xs) (auto simp: map_put_def split: if_splits)

text \<open>Evicting, cleaning and dropping only remove entries: whatever every removal keeps, they keep.\<close>

locale kept_by_removal =
  fixes P :: "cache \<Rightarrow> bool"
  assumes removal: "P ca \<Longrightarrow> (k, v) \<in> set (ca_store ca) \<Longrightarrow> P (remove_entry k (ce_size v) ca)"
begin

lemma room_made: "P ca \<Longrightarrow> P (make_room cfg now n ca)"
proof (induction cfg now n ca rule: make_room.induct)
  case (1 cfg now n ca)
  then show ?case
    using removal evictOne_entry[of now ca] by (subst make_room.simps) (auto split: option.split)
qed

lemma cleaned:
  assumes "P ca" and "map_ok (ca_store ca)"
  shows "P (cleanup now ca)"
proof -
  let ?f = "\<lambda>(k, v) c. if expired now v then remove_entry k (ce_size v) c else c"
  have "P (fold ?f xs c)" if "P c" "set xs \<subseteq> set (ca_store c)" "distinct (map fst xs)" for xs c
    using that
  proof (induction xs arbitrary: c)
    case (Cons p xs)
    obtain k v where p: "p = (k, v)" by (cases p)
    have "set xs \<subseteq> set (ca_store (remove_entry k (ce_size v) c))"
      using Cons.prems(2,3) by (auto simp: p remove_entry_def AList.delete_eq image_iff)
    then show ?case using Cons removal[of c k v] by (auto simp: p)
  qed simp
  from this[OF assms(1), of "ca_store ca"] assms(2) show ?thesis by (simp add: cleanup_def map_ok_def)
qed

lemma dropped: "P ca \<Longrightarrow> P (drop_stale k now ca)"
  using removal map_of_SomeD[of "ca_store ca" k] by (auto simp: drop_stale_def split: option.split)

end

lemma make_room_result: "\<not> full cfg n (make_room cfg now n ca) \<or> ca_store (make_room cfg now n ca) = []"
proof (induction cfg now n ca rule: make_room.induct)
  case (1 cfg now n ca)
  show ?case
  proof (cases "full cfg n ca")
    case True
    then show ?thesis
      using 1 evictOne_None[of now ca] by (cases "evictOne now ca") (simp_all add: make_room.simps[of cfg now n ca])
  qed (simp add: make_room.simps[of cfg now n ca])
qed

subsection \<open>The bounds\<close>

text \<open>The invariant under any interleaving.\<close>

definition bounded :: "('f, 'v) CacheConfig \<Rightarrow> cache \<Rightarrow> bool" where
  "bounded cfg ca \<longleftrightarrow>
     (cc_MaxEntries cfg \<le> 0 \<or> int (length (ca_store ca)) \<le> cc_MaxEntries cfg)
     \<and> (cc_MaxBytes cfg \<le> 0 \<or> totalBytes ca \<le> cc_MaxBytes cfg \<or> length (ca_store ca) \<le> 1)"

definition cache_ok :: "('f, 'v) CacheConfig \<Rightarrow> cache \<Rightarrow> bool" where
  "cache_ok cfg ca \<longleftrightarrow>
     sizes_ok (ca_store ca) \<and> 0 \<le> totalBytes ca \<and> totalBytes ca \<le> bytes_of (ca_store ca) \<and> bounded cfg ca"

lemma forget_bytes_simps: "forget_bytes n t = max 0 (t - n)"
  by (simp add: forget_bytes_def)

lemma map_of_entry: "sizes_ok xs \<Longrightarrow> (k, v) \<in> set xs \<Longrightarrow> map_of xs k = Some v"
  by (simp add: sizes_ok_def map_ok_def)

lemma remove_bytes:
  "sizes_ok (ca_store ca) \<Longrightarrow> (k, v) \<in> set (ca_store ca) \<Longrightarrow>
   bytes_of (ca_store (remove_entry k (ce_size v) ca)) = bytes_of (ca_store ca) - ce_size v"
  using map_of_entry[of "ca_store ca" k v] by (simp add: remove_entry_def bytes_delete sizes_ok_def)

lemma length_remove: "length (ca_store (remove_entry k n ca)) \<le> length (ca_store ca)"
  by (simp add: remove_entry_def AList.delete_eq)

lemma remove_bounded:
  assumes "sizes_ok (ca_store ca)" and "(k, v) \<in> set (ca_store ca)" and "0 \<le> totalBytes ca" and "bounded cfg ca"
  shows "bounded cfg (remove_entry k (ce_size v) ca)"
  using assms(3,4) sizes_ok_nonneg[OF assms(1,2)] length_remove[of k "ce_size v" ca]
  by (auto simp: bounded_def remove_entry_def forget_bytes_simps)

lemma remove_ok: "cache_ok cfg ca \<Longrightarrow> (k, v) \<in> set (ca_store ca) \<Longrightarrow> cache_ok cfg (remove_entry k (ce_size v) ca)"
  using remove_bytes[of ca k v] remove_bounded[of ca k v cfg]
    bytes_nonneg[OF sizes_ok_delete, of "ca_store ca" k]
  by (auto simp: cache_ok_def forget_bytes_simps remove_entry_def sizes_ok_delete)

interpretation bounds: kept_by_removal "cache_ok cfg" for cfg
  by unfold_locales (rule remove_ok)

definition sized :: "gostring \<Rightarrow> cacheEntry \<Rightarrow> bool" where
  "sized k e \<longleftrightarrow> ce_size e = int (length (ce_body e) + length (ce_contentType e) + length k)"

lemma sized_entry [simp]: "sized (sd_key s) (entry_of cfg s)"
  by (simp add: sized_def entry_of_def new_entry_def)

lemma sizes_ok_put: "sizes_ok xs \<Longrightarrow> sized k e \<Longrightarrow> sizes_ok (map_put k e xs)"
  by (auto simp: sizes_ok_def sized_def dest!: set_put)

text \<open>What holds between the moment an old entry of the key is written off and the moment the new one is
  put in: the count leaves the old entry out.\<close>

definition making_room :: "gostring \<Rightarrow> cache \<Rightarrow> bool" where
  "making_room k ca \<longleftrightarrow>
     sizes_ok (ca_store ca) \<and> 0 \<le> totalBytes ca \<and> totalBytes ca \<le> bytes_of (AList.delete k (ca_store ca))"

lemma delete_twice: "AList.delete k (AList.delete k xs) = AList.delete k xs"
  by (simp add: AList.delete_eq)

lemma making_room_remove:
  assumes "making_room k ca" and "(k', v) \<in> set (ca_store ca)"
  shows "making_room k (remove_entry k' (ce_size v) ca)"
proof (cases "k' = k")
  case True
  then show ?thesis
    using assms sizes_ok_nonneg[OF _ assms(2)] bytes_nonneg[OF sizes_ok_delete, of "ca_store ca" k]
    by (auto simp: making_room_def remove_entry_def forget_bytes_simps sizes_ok_delete delete_twice)
next
  case False
  have ok: "sizes_ok (ca_store ca)" using assms(1) by (simp add: making_room_def)
  have "bytes_of (AList.delete k (AList.delete k' (ca_store ca))) = bytes_of (AList.delete k (ca_store ca)) - ce_size v"
    using ok map_of_entry[OF ok assms(2)] False sizes_ok_delete[OF ok]
    by (simp add: bytes_delete delete_conv' sizes_ok_def)
  moreover have "0 \<le> bytes_of (AList.delete k (AList.delete k' (ca_store ca)))"
    by (intro bytes_nonneg sizes_ok_delete ok)
  ultimately show ?thesis
    using assms(1) by (auto simp: making_room_def remove_entry_def forget_bytes_simps sizes_ok_delete)
qed

interpretation room: kept_by_removal "making_room k" for k
  by unfold_locales (rule making_room_remove)

lemma store_entry_bounded:
  assumes "0 \<le> ce_size e"
  shows "bounded cfg (store_entry cfg k now e ca)"
proof -
  let ?c = "make_room cfg now (ce_size e) (write_off k ca)"
  note eq = store_entry_def[of cfg k now e ca, unfolded Let_def]
  have len: "length (map_put k e (ca_store ?c)) \<le> Suc (length (ca_store ?c))" by (rule length_put)
  from make_room_result[of cfg "ce_size e" now "write_off k ca"] show ?thesis
  proof
    assume "\<not> full cfg (ce_size e) ?c"
    then show ?thesis using len by (auto simp: eq bounded_def full_def)
  next
    assume "ca_store ?c = []"
    then show ?thesis by (auto simp: eq bounded_def map_put_def)
  qed
qed

lemma store_entry_ok:
  assumes "cache_ok cfg ca" and "sized k e"
  shows "cache_ok cfg (store_entry cfg k now e ca)"
proof -
  let ?c = "make_room cfg now (ce_size e) (write_off k ca)"
  note eq = store_entry_def[of cfg k now e ca, unfolded Let_def]
  have ok: "sizes_ok (ca_store ca)" using assms(1) by (simp add: cache_ok_def)
  have pos: "0 \<le> ce_size e" using assms(2) by (simp add: sized_def)
  have "making_room k (write_off k ca)"
  proof (cases "map_of (ca_store ca) k")
    case None
    have "bytes_of (AList.delete k (ca_store ca)) = bytes_of (ca_store ca)"
      using ok None by (simp add: bytes_delete sizes_ok_def)
    with None show ?thesis using assms(1) by (simp add: write_off_def making_room_def cache_ok_def)
  next
    case (Some v)
    have "bytes_of (AList.delete k (ca_store ca)) = bytes_of (ca_store ca) - ce_size v"
      using ok Some by (simp add: bytes_delete sizes_ok_def)
    moreover have "0 \<le> bytes_of (AList.delete k (ca_store ca))" by (intro bytes_nonneg sizes_ok_delete ok)
    ultimately show ?thesis
      using Some assms(1) by (simp add: write_off_def making_room_def cache_ok_def forget_bytes_simps)
  qed
  then have mr: "making_room k ?c" by (rule room.room_made)
  then have "bytes_of (map_put k e (ca_store ?c)) = bytes_of (AList.delete k (ca_store ?c)) + ce_size e"
    by (simp add: bytes_put bytes_delete making_room_def sizes_ok_def)
  moreover have "sizes_ok (map_put k e (ca_store ?c))"
    using mr assms(2) by (intro sizes_ok_put) (simp_all add: making_room_def)
  moreover have "0 \<le> totalBytes ?c" "totalBytes ?c \<le> bytes_of (AList.delete k (ca_store ?c))"
    using mr by (simp_all add: making_room_def)
  ultimately have "sizes_ok (ca_store (store_entry cfg k now e ca))" "0 \<le> totalBytes (store_entry cfg k now e ca)"
    "totalBytes (store_entry cfg k now e ca) \<le> bytes_of (ca_store (store_entry cfg k now e ca))"
    using pos unfolding eq cache.simps by (assumption | linarith)+
  then show ?thesis using store_entry_bounded[OF pos] by (simp only: cache_ok_def simp_thms)
qed

lemma visit_bytes: "mset xs = mset ys \<Longrightarrow> bytes_of xs = bytes_of ys"
proof -
  assume "mset xs = mset ys"
  then have "sum_mset (mset (map (\<lambda>p. ce_size (snd p)) xs)) = sum_mset (mset (map (\<lambda>p. ce_size (snd p)) ys))"
    by simp
  then show ?thesis unfolding bytes_of_def sum_mset_sum_list .
qed

lemma visit_ok: "mset xs = mset (ca_store ca) \<Longrightarrow> cache_ok cfg ca \<Longrightarrow> cache_ok cfg (ca\<lparr>ca_store := xs\<rparr>)"
proof -
  assume m: "mset xs = mset (ca_store ca)" and ok: "cache_ok cfg ca"
  have "bytes_of xs = bytes_of (ca_store ca)" using visit_bytes[OF m] .
  moreover have "distinct (map fst xs) = distinct (map fst (ca_store ca))"
    by (rule mset_eq_imp_distinct_iff) (simp add: m)
  moreover have "set xs = set (ca_store ca)" by (metis m set_mset_mset)
  moreover have "length xs = length (ca_store ca)" by (metis m size_mset)
  ultimately show ?thesis using ok by (simp add: cache_ok_def sizes_ok_def map_ok_def bounded_def)
qed

text \<open>C35. Whatever the requests do at the same time, the cache holds at most one entry per key, never more
  entries than configured, and its count of bytes is never negative and never above the true
  number, nor above the configured one unless there is a single entry.\<close>

theorem cache_bounded:
  assumes "cached cfg overlap hist ca"
  shows "cache_ok cfg ca"
  using assms
proof (induction rule: cached.induct)
  case start
  show ?case by (simp add: cache_ok_def empty_cache_def sizes_ok_def map_ok_def bytes_of_def bounded_def) linarith
next
  case (clean hist ca now)
  show ?case by (rule bounds.cleaned[OF clean.IH]) (use clean.IH in \<open>simp add: cache_ok_def sizes_ok_def\<close>)
next
  case (stale hist ca k now)
  show ?case by (rule bounds.dropped[OF stale.IH])
qed (simp_all add: visit_ok store_entry_ok)

subsection \<open>The count when requests of a key do not overlap\<close>

definition counted :: "gostring option \<Rightarrow> cache \<Rightarrow> bool" where
  "counted k ca \<longleftrightarrow> sizes_ok (ca_store ca) \<and> totalBytes ca = bytes_of (ca_store ca)
     \<and> (case k of None \<Rightarrow> True | Some k \<Rightarrow> map_of (ca_store ca) k = None)"

lemma counted_remove:
  assumes "counted k ca" and "(k', v) \<in> set (ca_store ca)"
  shows "counted k (remove_entry k' (ce_size v) ca)"
proof -
  have ok: "sizes_ok (ca_store ca)" using assms(1) by (simp add: counted_def)
  have b: "bytes_of (AList.delete k' (ca_store ca)) = bytes_of (ca_store ca) - ce_size v"
    using remove_bytes[OF ok assms(2)] by (simp add: remove_entry_def)
  have nn: "0 \<le> bytes_of (AList.delete k' (ca_store ca))" by (intro bytes_nonneg sizes_ok_delete ok)
  have "map_of (AList.delete k' (ca_store ca)) j = None" if "map_of (ca_store ca) j = None" for j
    using that by (simp add: delete_conv')
  with b nn show ?thesis
    using assms(1) sizes_ok_delete[OF ok] by (auto simp: counted_def remove_entry_def forget_bytes_simps split: option.splits)
qed

interpretation count: kept_by_removal "counted k" for k
  by unfold_locales (rule counted_remove)

text \<open>Without such an overlap the count is exact, so the configured number of bytes bounds what the cache
  holds, but for a single response that is larger than it.\<close>

theorem cache_counts_exactly:
  assumes "cached cfg False hist ca"
  shows "totalBytes ca = bytes_of (ca_store ca)
    \<and> (cc_MaxBytes cfg \<le> 0 \<or> bytes_of (ca_store ca) \<le> cc_MaxBytes cfg \<or> length (ca_store ca) \<le> 1)"
proof -
  have "counted None ca"
    using assms
  proof (induction rule: cached.induct)
    case start
    show ?case by (simp add: counted_def empty_cache_def sizes_ok_def map_ok_def bytes_of_def)
  next
    case (visit hist ca xs)
    note ok = cache_bounded[OF visit.hyps(1)]
    have "bytes_of xs = bytes_of (ca_store ca)" using visit_bytes[OF visit.hyps(2)] .
    then show ?case using visit.IH visit_ok[OF visit.hyps(2) ok] by (simp add: counted_def cache_ok_def)
  next
    case (clean hist ca now)
    show ?case by (rule count.cleaned[OF clean.IH]) (use clean.IH in \<open>simp add: counted_def sizes_ok_def\<close>)
  next
    case (stale hist ca k now)
    show ?case by (rule count.dropped[OF stale.IH])
  next
    case (store hist ca s)
    let ?c = "make_room cfg (sd_at s) (ce_size (entry_of cfg s)) ca"
    have k: "map_of (ca_store ca) (sd_key s) = None" using store.hyps(2) by simp
    then have "counted (Some (sd_key s)) ca" using store.IH by (simp add: counted_def)
    then have c: "counted (Some (sd_key s)) ?c" by (rule count.room_made)
    then have "sizes_ok (map_put (sd_key s) (entry_of cfg s) (ca_store ?c))"
      by (intro sizes_ok_put) (simp_all add: counted_def)
    moreover have "bytes_of (map_put (sd_key s) (entry_of cfg s) (ca_store ?c)) = totalBytes ?c + ce_size (entry_of cfg s)"
      using c by (simp add: counted_def bytes_put)
    ultimately show ?case by (simp add: counted_def store_entry_def write_off_def k Let_def)
  qed
  with cache_bounded[OF assms] show ?thesis by (auto simp: counted_def cache_ok_def bounded_def)
qed

text \<open>With an overlap it is not: an eviction can hit the entry whose bytes were written off already, and
  then the cache holds more than it counts and than it may.\<close>

definition small_cache :: "(web, nat) CacheConfig" where
  "small_cache = CacheConfigDefault\<lparr>cc_MaxBytes := 10\<rparr>"

definition demo_stored :: "gostring \<Rightarrow> int \<Rightarrow> gostring \<Rightarrow> stored" where
  "demo_stored k t b = \<lparr>sd_key = k, sd_at = t, sd_code = 200, sd_body = b, sd_type = []\<rparr>"

definition put_demo :: "stored \<Rightarrow> cache \<Rightarrow> cache" where
  "put_demo s = store_entry small_cache (sd_key s) (sd_at s) (entry_of small_cache s)"

definition overcounted :: cache where
  "overcounted = put_demo (demo_stored ''a'' 2 ''123456'') (put_demo (demo_stored ''b'' 1 ''123'') (put_demo (demo_stored ''a'' 0 ''123'') empty_cache))"

lemma overcounted_reached:
  "cached small_cache True [demo_stored ''a'' 2 ''123456'', demo_stored ''b'' 1 ''123'', demo_stored ''a'' 0 ''123''] overcounted"
  unfolding overcounted_def put_demo_def
  by (intro cached.store cached.start) (simp_all add: demo_stored_def small_cache_def CacheConfigDefault_def)

lemma cache_undercounts_on_overlap:
  "totalBytes overcounted = 7 \<and> bytes_of (ca_store overcounted) = 11 \<and> length (ca_store overcounted) = 2"
  by code_simp

subsection \<open>Hits\<close>

text \<open>Every entry is a response that was stored.\<close>

interpretation entries: kept_by_removal "\<lambda>ca. \<forall>(k, e) \<in> set (ca_store ca). Q k e" for Q
  by unfold_locales (auto simp: remove_entry_def AList.delete_eq)

lemma cached_from_history:
  assumes "cached cfg overlap hist ca" and "(k, e) \<in> set (ca_store ca)"
  shows "\<exists>s \<in> set hist. k = sd_key s \<and> e = entry_of cfg s"
proof -
  have "\<forall>(k, e) \<in> set (ca_store ca). \<exists>s \<in> set hist. k = sd_key s \<and> e = entry_of cfg s" (is "?P hist ca")
    using assms(1)
  proof (induction rule: cached.induct)
    case (visit hist ca xs)
    then show ?case using mset_eq_setD[OF visit.hyps(2)] by simp
  next
    case (clean hist ca now)
    have "map_ok (ca_store ca)" using cache_bounded[OF clean.hyps] by (simp add: cache_ok_def sizes_ok_def)
    then show ?case by (rule entries.cleaned[OF clean.IH])
  next
    case (stale hist ca k now)
    show ?case by (rule entries.dropped[OF stale.IH])
  next
    case (store hist ca s)
    have "?P hist (write_off (sd_key s) ca)" using store.IH by (simp add: write_off_def split: option.split)
    then have "?P hist (make_room cfg (sd_at s) (ce_size (entry_of cfg s)) (write_off (sd_key s) ca))"
      by (rule entries.room_made)
    then show ?case by (fastforce simp: store_entry_def Let_def dest!: set_put)
  qed (simp add: empty_cache_def)
  with assms(2) show ?thesis by blast
qed

lemma history_times:
  "cached cfg overlap hist ca \<Longrightarrow> s \<in> set hist \<Longrightarrow>
   0 \<le> sd_at s \<and> sd_at s < 2 ^ 63 \<and> cc_Expiration cfg < 2 ^ 63 \<and> sd_code s < 400"
  by (induction rule: cached.induct) auto

text \<open>A sum of the clock and the duration that does not fit is negative, so it expires at once.\<close>

lemma wrap_sum:
  assumes "0 \<le> a" "a < 2 ^ 63" "0 < b" "b < 2 ^ 63"
  shows "wrap_int KInt64 (a + b) = (if a + b < 2 ^ 63 then a + b else a + b - 2 ^ 64)"
proof (cases "a + b < 2 ^ 63")
  case True
  then have "in_range KInt64 (a + b)" using assms by (simp add: in_range_def)
  with True show ?thesis by (simp add: wrap_int_id)
next
  case False
  have "(a + b) mod 2 ^ 64 = a + b" using assms by (intro mod_pos_pos_trivial) auto
  with False show ?thesis by (simp add: wrap_int_def Let_def kind_class_defs)
qed

lemma expiry:
  assumes "cached cfg overlap hist ca" and "s \<in> set hist" and "cc_Expiration cfg > 0"
  shows "ce_exp (entry_of cfg s) =
    (if sd_at s + cc_Expiration cfg < 2 ^ 63 then sd_at s + cc_Expiration cfg
     else sd_at s + cc_Expiration cfg - 2 ^ 64)"
    and "ce_exp (entry_of cfg s) \<noteq> 0" and "ce_exp (entry_of cfg s) \<le> sd_at s + cc_Expiration cfg"
  using history_times[OF assms(1,2)] assms(3) wrap_sum[of "sd_at s" "cc_Expiration cfg"]
  by (auto simp: entry_of_def new_entry_def)

text \<open>C37. A response taken from the cache is one that was stored for the same key, with its status, body and
  type, not longer ago than the configured time, and its status was not an error.\<close>

theorem cache_hit_sound:
  assumes "cached cfg overlap hist ca" and "cc_Expiration cfg > 0" and "hit now k ca = Some e"
  shows "\<exists>s \<in> set hist. sd_key s = k \<and> now < sd_at s + cc_Expiration cfg \<and> sd_code s < 400
    \<and> ce_statusCode e = sd_code s \<and> ce_body e = sd_body s \<and> ce_contentType e = sd_type s"
proof -
  from assms(3) have e: "(k, e) \<in> set (ca_store ca)" "ce_exp e = 0 \<or> ce_exp e > now"
    by (auto simp: hit_def split: option.splits if_splits dest: map_of_SomeD)
  from cached_from_history[OF assms(1) e(1)] obtain s where s: "s \<in> set hist" "k = sd_key s" "e = entry_of cfg s" by blast
  with history_times[OF assms(1) s(1)] e(2) expiry(2,3)[OF assms(1) s(1) assms(2)] show ?thesis
    by (intro bexI[of _ s]) (auto simp: entry_of_def new_entry_def)
qed

theorem cache_hit_sound_witness:
  "\<exists>s \<in> set [demo_stored ''a'' 2 ''123456'', demo_stored ''b'' 1 ''123'', demo_stored ''a'' 0 ''123''].
     sd_key s = ''a'' \<and> 60000000000 < sd_at s + 60000000000 \<and> sd_body s = ''123456''"
proof -
  have "hit 60000000000 ''a'' overcounted = Some (entry_of small_cache (demo_stored ''a'' 2 ''123456''))" by code_simp
  from cache_hit_sound[OF overcounted_reached _ this]
  show ?thesis by (auto simp: small_cache_def CacheConfigDefault_def entry_of_def new_entry_def demo_stored_def)
qed

theorem cache_bounded_witness: "cache_ok small_cache overcounted"
  by (rule cache_bounded[OF overcounted_reached])

theorem cache_counts_exactly_witness:
  "totalBytes (put_demo (demo_stored ''b'' 1 ''123456789'') (put_demo (demo_stored ''a'' 0 ''123'') empty_cache)) = 10
   \<and> bytes_of (ca_store (put_demo (demo_stored ''b'' 1 ''123456789'') (put_demo (demo_stored ''a'' 0 ''123'') empty_cache))) = 10"
proof -
  have one: "cached small_cache False [demo_stored ''a'' 0 ''123''] (put_demo (demo_stored ''a'' 0 ''123'') empty_cache)"
    unfolding put_demo_def
    by (intro cached.store cached.start) (simp_all add: demo_stored_def empty_cache_def small_cache_def CacheConfigDefault_def)
  have new: "map_of (ca_store (put_demo (demo_stored ''a'' 0 ''123'') empty_cache)) ''b'' = None" by code_simp
  have "cached small_cache False [demo_stored ''b'' 1 ''123456789'', demo_stored ''a'' 0 ''123'']
      (put_demo (demo_stored ''b'' 1 ''123456789'') (put_demo (demo_stored ''a'' 0 ''123'') empty_cache))"
    unfolding put_demo_def[of "demo_stored ''b'' 1 ''123456789''"]
    by (rule cached.store[OF one])
      (use new in \<open>simp_all add: demo_stored_def, simp_all add: small_cache_def CacheConfigDefault_def\<close>)
  moreover have "totalBytes (put_demo (demo_stored ''b'' 1 ''123456789'') (put_demo (demo_stored ''a'' 0 ''123'') empty_cache)) = 10"
    by code_simp
  ultimately show ?thesis using cache_counts_exactly by metis
qed

end
