(* ===== verification/CacheServing.thy ===== *)
theory CacheServing
  imports CacheLaws
begin

section \<open>The cache in front of the handlers\<close>

text \<open>The handlers of the application leave the cache alone.\<close>

lemma exec_on_first:
  assumes "\<And>i s t. nx (i, (s, t)) = (case nx' (i, s) of (r, j, s') \<Rightarrow> (r, j, (s', t)))"
  shows "exec (on_first p) nx (i, (s, t)) = (case exec p nx' (i, s) of (r, j, s') \<Rightarrow> (r, j, (s', t)))"
proof (induction p arbitrary: i s)
  case (CallNext k)
  obtain r j s' where "nx' (i, s) = (r, j, s')" by (cases "nx' (i, s)") auto
  then show ?case using CallNext.IH[of "k r" j s'] assms[of i s t] by simp
qed simp_all

lemma run_chain_on_first: "run_chain (map on_first hs) (s, t) = (case run_chain hs s of (r, s') \<Rightarrow> (r, (s', t)))"
proof -
  have "next_fuel n (map on_first hs) (i, (s, t)) = (case next_fuel n hs (i, s) of (r, j, s') \<Rightarrow> (r, j, (s', t)))" for n i s t
  proof (induction n arbitrary: i s t)
    case (Suc n)
    then show ?case by (auto intro: exec_on_first)
  qed simp
  from this[of "length hs" 0 s t] show ?thesis by (auto simp: run_chain_def Next_def split: prod.split)
qed

lemma enter_Step_pair: "enter (Step id (\<lambda>(c, ca). p c ca)) hs (c, ca) = enter (p c ca) hs (c, ca)"
  by simp

text \<open>A request as a whole.\<close>

definition serve_cached :: "'f fasthttp \<Rightarrow> 'f mw_fasthttp \<Rightarrow> ('f, 'v) CacheConfig \<Rightarrow> int \<Rightarrow> ('f, 'v) ctx prog list
    \<Rightarrow> ('f, 'v) ctx \<Rightarrow> cache \<Rightarrow> outcome \<times> ('f, 'v) ctx \<times> cache" where
  "serve_cached F M cfg now hs c ca =
    (if \<not> cacheable F cfg c then (case run_chain hs c of (r, t) \<Rightarrow> (r, (t, ca)))
     else case hit now (cache_key F M cfg c) ca of
         Some e \<Rightarrow> (Returned None, (send_cached F cfg e (keyed F cfg c), ca))
       | None \<Rightarrow>
           (case run_chain hs (keyed F cfg c) of
              (Panicked v, t) \<Rightarrow> (Panicked v, (t, miss (cache_key F M cfg c) now ca))
            | (Returned e, t) \<Rightarrow>
                (Returned e, store_response F M cfg (cache_key F M cfg c) now (t, miss (cache_key F M cfg c) now ca))))"

lemma Cache_chain:
  "run_chain (Cache F M config now # map on_first hs) (c, ca) = serve_cached F M (cache_config config) now hs c ca"
proof (cases "cacheable F (cache_config config) c")
  case False
  then show ?thesis
    unfolding run_chain_enter[of "Cache F M config now"] unfolding Cache_def Let_def enter_Step_pair
    by (simp add: run_chain_on_first serve_cached_def)
next
  case True
  obtain r t where rt: "run_chain hs (keyed F (cache_config config) c) = (r, t)"
    by (cases "run_chain hs (keyed F (cache_config config) c)")
  show ?thesis
    unfolding run_chain_enter[of "Cache F M config now"] unfolding Cache_def Let_def enter_Step_pair
    using True rt by (cases "hit now (cache_key F M (cache_config config) c) ca"; cases r)
      (simp_all add: enter_after run_chain_on_first serve_cached_def)
qed

text \<open>The time of expiry of every stored response fits an \<open>int64\<close>.\<close>

definition in_time :: "('f, 'v) CacheConfig \<Rightarrow> stored list \<Rightarrow> bool" where
  "in_time cfg hist \<longleftrightarrow> (\<forall>s \<in> set hist. sd_at s + cc_Expiration cfg < 2 ^ 63)"

lemma miss_absent:
  assumes "cached cfg overlap hist ca" and "cc_Expiration cfg > 0" and "in_time cfg hist" and "hit now k ca = None"
  shows "map_of (ca_store (miss k now ca)) k = None"
proof (cases "map_of (ca_store ca) k")
  case None
  then show ?thesis by (simp add: miss_def)
next
  case (Some e)
  from cached_from_history[OF assms(1) map_of_SomeD[OF Some]] obtain s where s: "s \<in> set hist" "e = entry_of cfg s" by blast
  with history_times[OF assms(1) s(1)] assms(2,3) expiry(1)[OF assms(1) s(1) assms(2)]
  have "ce_exp e > 0" by (simp add: in_time_def)
  moreover have "ce_exp e \<le> now" using assms(4) Some by (simp add: hit_def split: if_splits)
  ultimately show ?thesis using Some by (simp add: miss_def drop_stale_def remove_entry_def delete_conv')
qed

lemma miss_cached: "cached cfg overlap hist ca \<Longrightarrow> cached cfg overlap hist (miss k now ca)"
  using cached.stale[of cfg overlap hist ca k now] by (auto simp: miss_def split: option.split)

text \<open>C36. Requests that are served one after the other never store a response where there is one: from each
  state that such requests, the cleaner and the order of the map can lead to, the next request leads
  to another, so the count stays exact. The configured time is positive and no time of expiry
  overflows; \<open>overflowing_expiry\<close> shows what happens otherwise.\<close>

theorem request_after_request_counts:
  assumes "cached cfg False hist ca" and "cc_Expiration cfg > 0" and "in_time cfg hist"
    and "0 \<le> now" and "now + cc_Expiration cfg < 2 ^ 63"
  shows "\<exists>hist'. cached cfg False hist' (snd (snd (serve_cached F M cfg now hs c ca))) \<and> in_time cfg hist'
    \<and> totalBytes (snd (snd (serve_cached F M cfg now hs c ca))) = bytes_of (ca_store (snd (snd (serve_cached F M cfg now hs c ca))))"
proof -
  have "\<exists>hist'. cached cfg False hist' (snd (snd (serve_cached F M cfg now hs c ca))) \<and> in_time cfg hist'"
  proof (cases "cacheable F cfg c \<and> hit now (cache_key F M cfg c) ca = None")
    case True
    let ?k = "cache_key F M cfg c"
    obtain r t where rt: "run_chain hs (keyed F cfg c) = (r, t)" by (cases "run_chain hs (keyed F cfg c)")
    have m: "cached cfg False hist (miss ?k now ca)" using miss_cached[OF assms(1)] .
    define s where "s = \<lparr>sd_key = ?k, sd_at = now, sd_code = fh_StatusCode F (fctx t),
      sd_body = fh_RespBody F (fctx t), sd_type = mf_ContentType M (fctx t)\<rparr>"
    have st: "cached cfg False (s # hist) (store_entry cfg ?k now (entry_of cfg s) (miss ?k now ca))"
      if "fh_StatusCode F (fctx t) < 400"
      using cached.store[OF m, of s] miss_absent[OF assms(1-3)] True that assms(2,4,5) by (simp add: s_def)
    have t: "in_time cfg (s # hist)" using assms(3,5) by (simp add: in_time_def s_def)
    have e: "entry_of cfg s = new_entry cfg ?k now (fh_StatusCode F (fctx t)) (fh_RespBody F (fctx t)) (mf_ContentType M (fctx t))"
      by (simp add: s_def entry_of_def)
    show ?thesis
    proof (cases r)
      case (Returned x1)
      show ?thesis
      proof (cases "fh_StatusCode F (fctx t) < 400")
        case True
        then show ?thesis using st t \<open>cacheable F cfg c \<and> _\<close> rt Returned
          by (intro exI[of _ "s # hist"]) (simp add: serve_cached_def store_response_def Let_def e)
      next
        case False
        then show ?thesis using m assms(3) \<open>cacheable F cfg c \<and> _\<close> rt Returned
          by (intro exI[of _ hist]) (simp add: serve_cached_def store_response_def Let_def)
      qed
    next
      case (Panicked v)
      then show ?thesis using m assms(3) True rt by (intro exI[of _ hist]) (simp add: serve_cached_def)
    qed
  next
    case False
    then show ?thesis using assms(1,3) by (intro exI[of _ hist]) (auto simp: serve_cached_def split: prod.split option.split)
  qed
  then show ?thesis using cache_counts_exactly by blast
qed

lemma fctx_cache_control [simp]: "fctx (cache_control cfg c) = fctx c"
  by (simp add: cache_control_def)

lemma keyed_simps [simp]: "fctx (keyed F cfg c) = fctx c" "written (keyed F cfg c) = written c"
  by (simp_all add: keyed_def)




subsection \<open>Examples\<close>

abbreviation demo_cache :: "(web, nat) CacheConfig" where
  "demo_cache \<equiv> CacheConfigDefault"

definition demo_req :: "(web, nat) ctx" where
  "demo_req = base (demo_ctx ''GET'' ''/hello'')"

lemma web_parts:
  "fh_Method web_fasthttp = q_method" "fh_Path web_fasthttp = q_path" "mf_ArgsString web_mw = q_query"
  "fh_ReqPeek web_fasthttp k f = pairs_get (q_headers f) k" "fh_StatusCode web_fasthttp = p_status"
  "fh_RespBody web_fasthttp = p_body" "fh_SetStatusCode web_fasthttp n f = f\<lparr>p_status := n\<rparr>"
  "fh_SetBody web_fasthttp b f = f\<lparr>p_body := b\<rparr>"
  by (simp_all add: web_fasthttp_def web_mw_def)

lemma demo_req_parts:
  "cacheable web_fasthttp demo_cache demo_req" "cache_key web_fasthttp web_mw demo_cache demo_req = ''GET /hello''"
  "cc_Expiration demo_cache = 60000000000" "hit now k empty_cache = None"
proof -
  have "map TrimSpace (Split (CHR '','') ''GET, HEAD'') = [''GET'', ''HEAD'']" by code_simp
  then have "TrimSpace ` set (Split (CHR '','') (cc_Methods demo_cache)) = {''GET'', ''HEAD''}"
    by (simp add: CacheConfigDefault_def flip: list.set_map)
  then show "cacheable web_fasthttp demo_cache demo_req"
    by (simp add: cacheable_def ctx_Method_def ctx_HeaderVal_def)
      (simp add: demo_req_def demo_ctx_def demo_web_def web_parts pairs_get_def)
  show "cache_key web_fasthttp web_mw demo_cache demo_req = ''GET /hello''"
    by (simp add: cache_key_def CacheConfigDefault_def defaultKeyGenerator_def ctx_Method_def ctx_Path_def)
      (simp add: demo_req_def demo_ctx_def demo_web_def web_parts normalizeQuery_def ctx_Method_def ctx_Path_def)
qed (simp_all add: CacheConfigDefault_def hit_def empty_cache_def)

theorem request_after_request_counts_witness:
  "totalBytes (snd (snd (serve_cached web_fasthttp web_mw demo_cache 5 [demo_hello] demo_req empty_cache)))
   = bytes_of (ca_store (snd (snd (serve_cached web_fasthttp web_mw demo_cache 5 [demo_hello] demo_req empty_cache))))"
  using request_after_request_counts[OF cached.start, of demo_cache 5 web_fasthttp web_mw "[demo_hello]" demo_req]
  by (auto simp: demo_req_parts in_time_def)

text \<open>With a configured time so long that the sum overflows, the time of expiry is negative: the entry
  never answers a request and no request and no cleaner drops it.\<close>

definition endless :: "(web, nat) CacheConfig" where
  "endless = CacheConfigDefault\<lparr>cc_Expiration := 2 ^ 63 - 1\<rparr>"

lemma overflowing_expiry:
  "let ca = store_entry endless ''a'' 5 (new_entry endless ''a'' 5 200 ''x'' []) empty_cache
   in hit 6 ''a'' ca = None \<and> miss ''a'' 6 ca = ca \<and> cleanup 6 ca = ca \<and> length (ca_store ca) = 1"
  by code_simp





end
