(* ===== verification/WsContract.thy ===== *)
theory WsContract
  imports Compiler
begin

section \<open>Websocket contracts (websocket_contract.go)\<close>

text \<open>
  A route schema may declare a websocket protocol: for each direction a family of message
  variants, told apart by a discriminator. At registration the protocol is compiled twice, into
  the OpenAPI schema that documents it and into the contract the messages are checked against.
  At run time a payload is validated by its Go type or as an envelope with a discriminator and a
  payload, and a received text is decoded into a variant or an envelope. The JSON decoder
  is an argument. The validator of a struct type, which the source
  caches, is recomputed: the lemma \<open>validator_cache_transparent\<close> says that this is the same.
\<close>

subsection \<open>The declared protocol\<close>

definition WebSocketInbound :: gostring where "WebSocketInbound = ''inbound''"
definition WebSocketOutbound :: gostring where "WebSocketOutbound = ''outbound''"
definition WebSocketError :: gostring where "WebSocketError = ''error''"

record WebSocketMessage =
  wm_Type :: gostring
  wm_Schema :: goval
  wm_Description :: gostring
  wm_Example :: goval

record WebSocketMessageFamily =
  wf_Description :: gostring
  wf_Discriminator :: gostring
  wf_Variants :: "WebSocketMessage list"

record WebSocketSchema =
  ws_Inbound :: WebSocketMessageFamily
  ws_Outbound :: WebSocketMessageFamily
  ws_Error :: WebSocketMessageFamily

definition family_IsZero :: "WebSocketMessageFamily \<Rightarrow> bool" where
  "family_IsZero f \<longleftrightarrow> length (wf_Variants f) = 0"

definition schema_IsZero :: "WebSocketSchema \<Rightarrow> bool" where
  "schema_IsZero s \<longleftrightarrow> family_IsZero (ws_Inbound s) \<and> family_IsZero (ws_Outbound s) \<and> family_IsZero (ws_Error s)"

definition NormalizedDiscriminator :: "WebSocketMessageFamily \<Rightarrow> gostring" where
  "NormalizedDiscriminator f = (let v = TrimSpace (wf_Discriminator f) in if v \<noteq> [] then v else ''type'')"

definition SingleSchema :: "WebSocketMessageFamily \<Rightarrow> goval option" where
  "SingleSchema f =
     (case wf_Variants f of
        [v] \<Rightarrow> if wm_Schema v = VNil then None else Some (wm_Schema v)
      | _ \<Rightarrow> None)"

text \<open>The types of these values, and a protocol read from the value of a schema field: the type
  assertion \<open>.(WebSocketSchema)\<close>.\<close>

definition WebSocketMessageT :: gotype where
  "WebSocketMessageT = TNamed ''gofi.WebSocketMessage'' [] []
     (TStruct [SField ''Type'' TString [] False, SField ''Schema'' TAny [] False,
               SField ''Description'' TString [] False, SField ''Example'' TAny [] False])"

definition tagged :: "gostring \<Rightarrow> gostring \<Rightarrow> gostring" where
  "tagged k v = k @ colon # CHR 0x22 # v @ [CHR 0x22]"

definition WebSocketMessageFamilyT :: gotype where
  "WebSocketMessageFamilyT = TNamed ''gofi.WebSocketMessageFamily''
     [''IsZero'', ''NormalizedDiscriminator'', ''SingleSchema''] []
     (TStruct [SField ''Description'' TString (tagged ''json'' ''-'') False,
               SField ''Discriminator'' TString (tagged ''json'' ''-'') False,
               SField ''Variants'' (TSlice WebSocketMessageT) (tagged ''json'' ''-'') False])"

definition WebSocketSchemaT :: gotype where
  "WebSocketSchemaT = TNamed ''gofi.WebSocketSchema'' [''IsZero''] []
     (TStruct [SField ''Inbound'' WebSocketMessageFamilyT (tagged ''json'' ''inbound,omitempty'') False,
               SField ''Outbound'' WebSocketMessageFamilyT (tagged ''json'' ''outbound,omitempty'') False,
               SField ''Error'' WebSocketMessageFamilyT (tagged ''json'' ''error,omitempty'') False])"

fun as_message :: "goval \<Rightarrow> WebSocketMessage option" where
  "as_message (VStruct t [VString t1 ty, sch, VString t2 d, ex]) =
     Some \<lparr>wm_Type = ty, wm_Schema = sch, wm_Description = d, wm_Example = ex\<rparr>"
| "as_message _ = None"

fun as_family :: "goval \<Rightarrow> WebSocketMessageFamily option" where
  "as_family (VStruct t [VString t1 d, VString t2 k, VSlice t3 vs]) =
     Some \<lparr>wf_Description = d, wf_Discriminator = k,
           wf_Variants = pick as_message (case vs of None \<Rightarrow> [] | Some xs \<Rightarrow> xs)\<rparr>"
| "as_family _ = None"

definition as_protocol :: "goval \<Rightarrow> WebSocketSchema option" where
  "as_protocol v =
     (case v of
        VStruct t [i, out, e] \<Rightarrow>
          if t \<noteq> WebSocketSchemaT then None
          else (case (as_family i, as_family out, as_family e) of
                  (Some fi, Some fo, Some fe) \<Rightarrow> Some \<lparr>ws_Inbound = fi, ws_Outbound = fo, ws_Error = fe\<rparr>
                | _ \<Rightarrow> None)
      | _ \<Rightarrow> None)"

text \<open>The loop that follows pointers and interfaces; nil ends it without a value.\<close>

fun follow :: "goval \<Rightarrow> goval option" where
  "follow VNil = None"
| "follow (VPtr t None) = None"
| "follow (VPtr t (Some (a, v))) = follow v"
| "follow v = Some v"

definition ExtractWebSocketSchema :: "goval \<Rightarrow> WebSocketSchema option call" where
  "ExtractWebSocketSchema schema =
     (case follow schema of
        None \<Rightarrow> Returns None
      | Some v \<Rightarrow>
          if vkind v \<noteq> KStruct then Returns None
          else bind_call (FieldByName v schemaWebSocket) (\<lambda>r. Returns
            (case r of
               None \<Rightarrow> None
             | Some (f, w) \<Rightarrow>
                 (case as_protocol w of
                    None \<Rightarrow> None
                  | Some ws \<Rightarrow> if schema_IsZero ws then None else Some ws))))"

subsection \<open>Compiling the contract\<close>

record compiledWebSocketVariant =
  cv_messageType :: gostring
  cv_schema :: goval
  cv_schemaType :: gotype

record compiledWebSocketMessageContract =
  mc_discriminator :: gostring
  mc_variants :: "compiledWebSocketVariant gomap"
  mc_bySchemaType :: "(gotype \<times> compiledWebSocketVariant) list"

record compiledWebSocketContract =
  cc_inbound :: "compiledWebSocketMessageContract option"
  cc_outbound :: "compiledWebSocketMessageContract option"
  cc_error :: "compiledWebSocketMessageContract option"

function resolve_from :: "gotype \<Rightarrow> goval \<Rightarrow> gotype \<times> goval" where
  "resolve_from t v =
     (if kind_of t \<noteq> KPointer then (t, v)
      else case elem_of t of
             None \<Rightarrow> (t, v)
           | Some e \<Rightarrow> resolve_from e (case v of VPtr u (Some (a, w)) \<Rightarrow> w | _ \<Rightarrow> zero_of e))"
  by pat_completeness auto
termination
  by (relation "measure (\<lambda>(t, v). size t)") (auto dest: size_elem_of)

declare resolve_from.simps [simp del]

definition resolveWebSocketVariantType :: "goval \<Rightarrow> (gotype \<times> goval) option" where
  "resolveWebSocketVariantType schema = map_option (\<lambda>t. resolve_from t schema) (typeof schema)"

definition add_variant ::
  "WebSocketMessage \<Rightarrow> compiledWebSocketMessageContract \<Rightarrow> compiledWebSocketMessageContract"
where
  "add_variant variant c =
     (case resolveWebSocketVariantType (wm_Schema variant) of
        None \<Rightarrow> c
      | Some (t, v) \<Rightarrow>
          let compiled = \<lparr>cv_messageType = wm_Type variant, cv_schema = v, cv_schemaType = t\<rparr>
          in c\<lparr>mc_variants := map_put (wm_Type variant) compiled (mc_variants c),
               mc_bySchemaType := AList.update t compiled (mc_bySchemaType c)\<rparr>)"

definition compileWebSocketMessageContract ::
  "WebSocketMessageFamily \<Rightarrow> compiledWebSocketMessageContract option"
where
  "compileWebSocketMessageContract family =
     (if family_IsZero family then None
      else let c = fold add_variant (wf_Variants family)
             \<lparr>mc_discriminator = NormalizedDiscriminator family, mc_variants = [], mc_bySchemaType = []\<rparr>
           in if length (mc_variants c) = 0 then None else Some c)"

definition compileWebSocketContract :: "WebSocketSchema \<Rightarrow> compiledWebSocketContract option" where
  "compileWebSocketContract p =
     (let c = \<lparr>cc_inbound = compileWebSocketMessageContract (ws_Inbound p),
               cc_outbound = compileWebSocketMessageContract (ws_Outbound p),
               cc_error = compileWebSocketMessageContract (ws_Error p)\<rparr>
      in if cc_inbound c = None \<and> cc_outbound c = None \<and> cc_error c = None then None else Some c)"

subsection \<open>The validator of a struct type\<close>

record structFieldRule =
  fr_index :: nat
  fr_rule :: gostring
  fr_name :: gostring

record cachedStructValidator =
  sv_typeName :: gostring
  sv_fields :: "structFieldRule list"

definition buildWebSocketFieldRules :: "gotype \<Rightarrow> structFieldRule list" where
  "buildWebSocketFieldRules t =
     pick (\<lambda>(i, f). let rule = tag_Get (sf_tag f) ''validate''
                    in if rule = [] then None else Some \<lparr>fr_index = i, fr_rule = rule, fr_name = sf_name f\<rparr>)
       (enumerate 0 (fields_of t))"

definition not_a_struct :: "gotype \<Rightarrow> gerr" where
  "not_a_struct t = Errorf ''websocket validation expects struct payload, got %s'' [str (type_name t)]"

definition structValidator :: "gotype \<Rightarrow> gerr + cachedStructValidator" where
  "structValidator t =
     (if kind_of t \<noteq> KStruct then Inl (not_a_struct t)
      else Inr \<lparr>sv_typeName = type_name t, sv_fields = buildWebSocketFieldRules t\<rparr>)"

text \<open>With the cache, which is shared by all messages: the validator stored first stays.\<close>

type_synonym validator_cache = "gotype \<rightharpoonup> cachedStructValidator"

definition getCachedWebSocketStructValidator ::
  "gotype \<Rightarrow> validator_cache \<Rightarrow> (gerr + cachedStructValidator) \<times> validator_cache"
where
  "getCachedWebSocketStructValidator t cache =
     (if kind_of t \<noteq> KStruct then (Inl (not_a_struct t), cache)
      else case cache t of
             Some v \<Rightarrow> (Inr v, cache)
           | None \<Rightarrow> let built = \<lparr>sv_typeName = type_name t, sv_fields = buildWebSocketFieldRules t\<rparr>
                     in (Inr built, cache(t \<mapsto> built)))"

definition cache_sound :: "validator_cache \<Rightarrow> bool" where
  "cache_sound cache \<longleftrightarrow> (\<forall>t v. cache t = Some v \<longrightarrow> structValidator t = Inr v)"

lemma validator_cache_transparent:
  assumes "cache_sound cache" and "getCachedWebSocketStructValidator t cache = (r, cache')"
  shows "r = structValidator t" and "cache_sound cache'"
  using assms
  by (auto simp: getCachedWebSocketStructValidator_def structValidator_def cache_sound_def Let_def
      split: if_splits option.splits)

text \<open>One pointer is followed. A field is read by its index, which panics on anything but a struct;
  the value of an unexported field cannot be handed out.\<close>

fun check_rules :: "stdlib \<Rightarrow> goval \<Rightarrow> structFieldRule list \<Rightarrow> verdict" where
  "check_rules L rv [] = ok"
| "check_rules L rv (f # fs) =
     (case rv of
        VStruct t vs \<Rightarrow>
          if fr_index f \<ge> length vs \<or> \<not> exported (fr_name f) then Panics
          else bind_call (Validate L (vs ! fr_index f) (fr_rule f)) (\<lambda>e.
            case e of
              Some x \<Rightarrow> err (gerr.WrapErr ''field '%s': %w'' [str (fr_name f)] x)
            | None \<Rightarrow> check_rules L rv fs)
      | _ \<Rightarrow> Panics)"

definition sv_validate :: "stdlib \<Rightarrow> cachedStructValidator \<Rightarrow> goval \<Rightarrow> verdict" where
  "sv_validate L sv payload =
     (case payload of
        VPtr t None \<Rightarrow> err (Errorf ''nil payload for type %s'' [str (sv_typeName sv)])
      | VPtr t (Some (a, w)) \<Rightarrow> check_rules L w (sv_fields sv)
      | _ \<Rightarrow> check_rules L payload (sv_fields sv))"

function strip_pointers :: "gotype \<Rightarrow> gotype" where
  "strip_pointers t =
     (if kind_of t = KPointer then (case elem_of t of Some e \<Rightarrow> strip_pointers e | None \<Rightarrow> t) else t)"
  by pat_completeness auto
termination
  by (relation "measure size") (auto dest: size_elem_of)

declare strip_pointers.simps [simp del]

definition type_arg :: "gotype option \<Rightarrow> goval" where
  "type_arg t = str (case t of None \<Rightarrow> [] | Some t \<Rightarrow> type_name t)"

definition validateWebSocketSchemaValue :: "stdlib \<Rightarrow> goval \<Rightarrow> goval \<Rightarrow> gostring \<Rightarrow> verdict" where
  "validateWebSocketSchemaValue L payload schema direction =
     (if schema = VNil then ok
      else if payload = VNil then err (Errorf ''websocket %s payload is nil'' [str direction])
      else let pt = map_option strip_pointers (typeof payload); st = map_option strip_pointers (typeof schema)
           in if pt = None \<or> st = None \<or> pt \<noteq> st then
                err (Errorf ''websocket %s payload type mismatch: expected %s, got %s''
                       [str direction, type_arg st, type_arg pt])
              else case structValidator (the pt) of
                     Inl e \<Rightarrow> err e
                   | Inr sv \<Rightarrow>
                       bind_call (sv_validate L sv payload) (\<lambda>e. Returns
                         (map_option (gerr.WrapErr ''websocket %s validation failed: %w'' [str direction]) e)))"

subsection \<open>JSON and reflection\<close>

text \<open>
  What the run time takes from \<open>encoding/json\<close> and \<open>reflect\<close>: \<open>lib_into s t v\<close> decodes a text into a
  place of type \<open>t\<close> that holds \<open>v\<close>, and gives the error and what the place holds afterwards (a
  failed decode may have stored a part); \<open>lib_object\<close> splits the text of an object into the texts of
  its fields and \<open>lib_string\<close> decodes a string; \<open>lib_address\<close> is the address of a
  new variable, \<open>lib_marshal\<close> is \<open>json.Marshal\<close>.
\<close>

record wslib =
  lib_rules :: stdlib
  lib_into :: "gostring \<Rightarrow> gotype \<Rightarrow> goval \<Rightarrow> gerr option \<times> goval"
  lib_object :: "gostring \<Rightarrow> gerr + gostring gomap"
  lib_string :: "gostring \<Rightarrow> gerr + gostring"
  lib_address :: nat
  lib_marshal :: "goval \<Rightarrow> gerr + gostring"

text \<open>\<open>json.Unmarshal\<close> wants a pointer that is not nil.\<close>

definition not_a_pointer :: gerr where
  "not_a_pointer = LibErr ''json: Unmarshal wants a pointer that is not nil''"

definition Unmarshal :: "wslib \<Rightarrow> gostring \<Rightarrow> goval \<Rightarrow> gerr option \<times> goval" where
  "Unmarshal J raw dst =
     (case dst of
        VPtr t (Some (a, v)) \<Rightarrow>
          (case elem_of t of
             None \<Rightarrow> (Some not_a_pointer, dst)
           | Some e \<Rightarrow> (case lib_into J raw e v of (er, w) \<Rightarrow> (er, VPtr t (Some (a, w)))))
      | _ \<Rightarrow> (Some not_a_pointer, dst))"

definition has_name :: "gotype \<Rightarrow> bool" where
  "has_name t = (case t of TNamed n ms pms u \<Rightarrow> True | TBasic k \<Rightarrow> True | _ \<Rightarrow> False)"

text \<open>\<open>Type.AssignableTo\<close>; a value stored in a place of another type takes the type of the place,
  unless the place is an interface.\<close>

definition AssignableTo :: "gotype \<Rightarrow> gotype \<Rightarrow> bool" where
  "AssignableTo v t \<longleftrightarrow>
     v = t \<or> (kind_of t = KInterface \<and> implements v (methods_of t))
     \<or> (\<not> (has_name v \<and> has_name t) \<and> underlying v = underlying t)"

subsection \<open>Finding a variant\<close>

definition variantForType :: "compiledWebSocketMessageContract \<Rightarrow> gotype option \<Rightarrow> compiledWebSocketVariant option" where
  "variantForType c t = (case t of None \<Rightarrow> None | Some t \<Rightarrow> map_of (mc_bySchemaType c) (strip_pointers t))"

definition variantForValue :: "compiledWebSocketMessageContract \<Rightarrow> goval \<Rightarrow> compiledWebSocketVariant option" where
  "variantForValue c payload = variantForType c (typeof payload)"

definition variantForTarget :: "compiledWebSocketMessageContract \<Rightarrow> goval \<Rightarrow> compiledWebSocketVariant option" where
  "variantForTarget c dst = variantForType c (typeof dst)"

text \<open>The field of a struct with a JSON name, or a Go name: its index. The fields promoted from
  embedded structs are not looked at.\<close>

definition findStructFieldByJSONName :: "gotype \<Rightarrow> gostring \<Rightarrow> nat option" where
  "findStructFieldByJSONName t jsonName =
     find_index (\<lambda>f. exported (sf_name f) \<and>
        (let tag = hd (Split (CHR '','') (tag_Get (sf_tag f) ''json''));
             name = (if tag = [] then sf_name f else tag)
         in name = jsonName \<or> sf_name f = jsonName)) (fields_of t)"

text \<open>Pointers are followed by the static type: an interface between them ends the walk.\<close>

fun walk_pointers :: "gotype \<Rightarrow> goval \<Rightarrow> (gotype \<times> goval) option" where
  "walk_pointers t (VPtr u p) =
     (if kind_of t \<noteq> KPointer then Some (t, VPtr u p)
      else case p of
             None \<Rightarrow> None
           | Some (a, w) \<Rightarrow> (case elem_of t of None \<Rightarrow> None | Some e \<Rightarrow> walk_pointers e w))"
| "walk_pointers t v = Some (t, v)"

definition fields_in :: "goval \<Rightarrow> goval list" where
  "fields_in v = (case v of VStruct t vs \<Rightarrow> vs | _ \<Rightarrow> [])"

definition string_in :: "goval \<Rightarrow> gostring" where
  "string_in v = (case v of VString t s \<Rightarrow> s | _ \<Rightarrow> [])"

definition extractEnvelopePayload ::
  "compiledWebSocketMessageContract \<Rightarrow> goval \<Rightarrow> (gostring \<times> goval) option"
where
  "extractEnvelopePayload c payload =
     (case Option.bind (typeof payload) (\<lambda>t. walk_pointers t payload) of
        None \<Rightarrow> None
      | Some (t, v) \<Rightarrow>
          if kind_of t \<noteq> KStruct then None
          else case findStructFieldByJSONName t (mc_discriminator c) of
                 None \<Rightarrow> None
               | Some i \<Rightarrow>
                   if kind_of (sf_type (fields_of t ! i)) \<noteq> KString then None
                   else case findStructFieldByJSONName t ''payload'' of
                          None \<Rightarrow> None
                        | Some j \<Rightarrow> Some (string_in (fields_in v ! i), fields_in v ! j))"

subsection \<open>Validating a payload\<close>

definition undeclared :: "gostring \<Rightarrow> gostring \<Rightarrow> gerr" where
  "undeclared direction discriminator =
     Errorf ''websocket %s payload type '%s' is not declared in the websocket contract''
       [str direction, str discriminator]"

definition mc_validate :: "stdlib \<Rightarrow> compiledWebSocketMessageContract \<Rightarrow> goval \<Rightarrow> gostring \<Rightarrow> verdict" where
  "mc_validate L c payload direction =
     (if payload = VNil then err (Errorf ''websocket %s payload is nil'' [str direction])
      else case variantForValue c payload of
             Some v \<Rightarrow> validateWebSocketSchemaValue L payload (cv_schema v) direction
           | None \<Rightarrow>
               (case extractEnvelopePayload c payload of
                  None \<Rightarrow> err (Errorf ''websocket %s payload does not match any declared websocket contract''
                                 [str direction])
                | Some (discriminator, innerPayload) \<Rightarrow>
                    (case map_of (mc_variants c) discriminator of
                       None \<Rightarrow> err (undeclared direction discriminator)
                     | Some v \<Rightarrow> validateWebSocketSchemaValue L innerPayload (cv_schema v) direction)))"

subsection \<open>Decoding a message\<close>

definition extractWireEnvelope ::
  "wslib \<Rightarrow> compiledWebSocketMessageContract \<Rightarrow> gostring \<Rightarrow> gostring \<Rightarrow> gerr + gostring \<times> gostring"
where
  "extractWireEnvelope J c payload direction =
     (case lib_object J payload of
        Inl e \<Rightarrow> Inl e
      | Inr envelope \<Rightarrow>
          (case map_of envelope (mc_discriminator c) of
             None \<Rightarrow> Inl (Errorf (''websocket %s payload missing discriminator field '%s'' @ [CHR 0x27])
                            [str direction, str (mc_discriminator c)])
           | Some rawType \<Rightarrow>
               (case lib_string J rawType of
                  Inl e \<Rightarrow> Inl (Errorf ''websocket %s discriminator field '%s' must be a string''
                                 [str direction, str (mc_discriminator c)])
                | Inr discriminator \<Rightarrow>
                    (case map_of envelope ''payload'' of
                       None \<Rightarrow> Inl (Errorf (''websocket %s payload missing envelope field 'payload'' @ [CHR 0x27]) [str direction])
                     | Some rawPayload \<Rightarrow> Inr (discriminator, rawPayload)))))"

definition decodeWebSocketVariantPayload :: "wslib \<Rightarrow> gostring \<Rightarrow> gotype \<Rightarrow> gerr + goval" where
  "decodeWebSocketVariantPayload J raw t =
     (case lib_into J raw t (zero_of t) of (Some e, v) \<Rightarrow> Inl e | (None, v) \<Rightarrow> Inr v)"

text \<open>The value to be stored in a field of type \<open>ft\<close>: \<open>Inl\<close> is the refusal.\<close>

definition field_value :: "wslib \<Rightarrow> gotype \<Rightarrow> goval \<Rightarrow> (gerr + goval) call" where
  "field_value J ft payload =
     (case typeof payload of
        None \<Rightarrow> Returns (Inl (Errorf ''websocket destination payload is invalid'' []))
      | Some dt \<Rightarrow>
          if kind_of ft = KInterface then
            (if implements dt (methods_of ft) then Returns (Inr payload) else Panics)
          else if AssignableTo dt ft then Returns (Inr (retype ft payload))
          else if kind_of ft = KPointer \<and> (case elem_of ft of Some e \<Rightarrow> AssignableTo dt e | None \<Rightarrow> False) then
            (if AssignableTo (TPointer dt) ft then Returns (Inr (VPtr ft (Some (lib_address J, payload)))) else Panics)
          else if convertible_to dt ft then Returns (Inr (go_convert (lib_f2i (lib_rules J)) payload ft))
          else Returns (Inl (Errorf ''websocket destination payload field cannot accept %s'' [str (type_name dt)])))"

definition no_payload_field :: gerr where
  "no_payload_field = Errorf (''websocket destination type mismatch: expected envelope field 'payload'' @ [CHR 0x27]) []"

text \<open>The value of the destination afterwards is returned too: the discriminator is stored even when
  the payload cannot be.\<close>

definition populateWebSocketEnvelope ::
  "wslib \<Rightarrow> goval \<Rightarrow> gostring \<Rightarrow> gostring \<Rightarrow> goval \<Rightarrow> (gerr option \<times> goval) call"
where
  "populateWebSocketEnvelope J dst discriminatorField discriminator payload =
     (case dst of
        VPtr pt (Some (a, v)) \<Rightarrow>
          (case elem_of pt of
             None \<Rightarrow> Panics
           | Some t \<Rightarrow>
               if kind_of t \<noteq> KStruct then
                 Returns (Some (Errorf ''websocket destination type mismatch: expected envelope struct'' []), dst)
               else
                 let fs = fields_of t; vs = fields_in v;
                     vs1 = (case findStructFieldByJSONName t discriminatorField of
                              Some i \<Rightarrow> if kind_of (sf_type (fs ! i)) = KString
                                        then vs[i := VString (sf_type (fs ! i)) discriminator] else vs
                            | None \<Rightarrow> vs);
                     put = (\<lambda>ws. VPtr pt (Some (a, VStruct t ws)))
                 in case findStructFieldByJSONName t ''payload'' of
                      None \<Rightarrow> Returns (Some no_payload_field, put vs1)
                    | Some j \<Rightarrow>
                        bind_call (field_value J (sf_type (fs ! j)) payload) (\<lambda>r. Returns
                          (case r of
                             Inl e \<Rightarrow> (Some e, put vs1)
                           | Inr w \<Rightarrow> (None, put (vs1[j := w])))))
      | _ \<Rightarrow> Returns (Some (Errorf ''websocket destination must be a non-nil pointer'' []), dst))"

text \<open>The destination of the type of a variant is tried first with the whole text; what the failed
  attempt stored stays in it.\<close>

definition decode_direct ::
  "wslib \<Rightarrow> compiledWebSocketMessageContract \<Rightarrow> gostring \<Rightarrow> goval \<Rightarrow> gostring \<Rightarrow> (bool \<times> goval) call"
where
  "decode_direct J c payload dst direction =
     (case variantForTarget c dst of
        None \<Rightarrow> Returns (False, dst)
      | Some v \<Rightarrow>
          (case Unmarshal J payload dst of
             (Some e, dst1) \<Rightarrow> Returns (False, dst1)
           | (None, dst1) \<Rightarrow>
               bind_call (validateWebSocketSchemaValue (lib_rules J) dst1 (cv_schema v) direction) (\<lambda>e.
                 Returns (e = None, dst1))))"

definition decode_envelope ::
  "wslib \<Rightarrow> compiledWebSocketMessageContract \<Rightarrow> gostring \<Rightarrow> goval \<Rightarrow> gostring \<Rightarrow> (gerr option \<times> goval) call"
where
  "decode_envelope J c payload dst direction =
     (case extractWireEnvelope J c payload direction of
        Inl e \<Rightarrow> Returns (Some e, dst)
      | Inr (discriminator, rawPayload) \<Rightarrow>
          (case map_of (mc_variants c) discriminator of
             None \<Rightarrow> Returns (Some (undeclared direction discriminator), dst)
           | Some v \<Rightarrow>
               (case decodeWebSocketVariantPayload J rawPayload (cv_schemaType v) of
                  Inl e \<Rightarrow> Returns (Some (gerr.WrapErr ''websocket %s validation failed: %w'' [str direction] e), dst)
                | Inr decoded \<Rightarrow>
                    if (case variantForTarget c dst of Some t \<Rightarrow> cv_schemaType t = cv_schemaType v | None \<Rightarrow> False) then
                      (case Unmarshal J rawPayload dst of
                         (Some e, dst1) \<Rightarrow> Returns (Some e, dst1)
                       | (None, dst1) \<Rightarrow>
                           bind_call (validateWebSocketSchemaValue (lib_rules J) dst1 (cv_schema v) direction) (\<lambda>e.
                             Returns (e, dst1)))
                    else
                      bind_call (populateWebSocketEnvelope J dst (mc_discriminator c) discriminator decoded) (\<lambda>(er, dst1).
                        case er of
                          Some e \<Rightarrow> Returns (Some e, dst1)
                        | None \<Rightarrow>
                            bind_call (validateWebSocketSchemaValue (lib_rules J) decoded (cv_schema v) direction) (\<lambda>e.
                              Returns (e, dst1))))))"

definition mc_decode ::
  "wslib \<Rightarrow> compiledWebSocketMessageContract \<Rightarrow> gostring \<Rightarrow> goval \<Rightarrow> gostring \<Rightarrow> (gerr option \<times> goval) call"
where
  "mc_decode J c payload dst direction =
     (if dst = VNil then Returns (Some (Errorf ''websocket %s destination is nil'' [str direction]), dst)
      else bind_call (decode_direct J c payload dst direction) (\<lambda>(done, dst1).
        if done then Returns (None, dst1) else decode_envelope J c payload dst1 direction))"

subsection \<open>The contract of a route\<close>

text \<open>\<open>rules\<close> is what \<open>ctx.rules()\<close> finds for the route of the context; a context that is not gofi's own
  has none either.\<close>

definition getWebSocketMessageContract ::
  "compiledWebSocketContract option schemaRules option \<Rightarrow> gostring \<Rightarrow> compiledWebSocketMessageContract option"
where
  "getWebSocketMessageContract rules direction =
     (case Option.bind rules sr_websocket of
        Some (Some c) \<Rightarrow>
          if direction = WebSocketInbound then cc_inbound c
          else if direction = WebSocketOutbound then cc_outbound c
          else if direction = WebSocketError then cc_error c
          else None
      | _ \<Rightarrow> None)"

text \<open>The first part of the result says whether the contract handled the call.\<close>

definition DecodeWebSocketJSON ::
  "wslib \<Rightarrow> compiledWebSocketContract option schemaRules option \<Rightarrow> gostring \<Rightarrow> gostring \<Rightarrow> goval \<Rightarrow>
   (bool \<times> gerr option \<times> goval) call"
where
  "DecodeWebSocketJSON J rules direction payload dst =
     (case getWebSocketMessageContract rules direction of
        None \<Rightarrow> Returns (False, None, dst)
      | Some c \<Rightarrow> bind_call (mc_decode J c payload dst direction) (\<lambda>r. Returns (True, r)))"

definition ValidateWebSocketPayload ::
  "stdlib \<Rightarrow> compiledWebSocketContract option schemaRules option \<Rightarrow> gostring \<Rightarrow> goval \<Rightarrow> (bool \<times> gerr option) call"
where
  "ValidateWebSocketPayload L rules direction payload =
     (case getWebSocketMessageContract rules direction of
        None \<Rightarrow> Returns (False, None)
      | Some c \<Rightarrow> bind_call (mc_validate L c payload direction) (\<lambda>e. Returns (True, e)))"

subsection \<open>The OpenAPI schema of the protocol\<close>

definition object_schema :: openapiSchema where
  "object_schema = newOpenapiSchema [] ''object'' [] VNil None None None None None [] [] None [] VNil False"

definition compileWebSocketVariantPayload :: "compiler \<Rightarrow> WebSocketMessage \<Rightarrow> openapiSchema run" where
  "compileWebSocketVariantPayload cm variant =
     (case resolveWebSocketVariantType (wm_Schema variant) of
        None \<Rightarrow> Done object_schema
      | Some (t, v) \<Rightarrow>
          let d = newRuleDef \<lparr>StructFld = SField (wm_Type variant) t [] False, Index = []\<rparr> [] v [] False False
                    None None None None
          in bind_run (getTypeInfo cm t v (wm_Type variant) d) (\<lambda>(s, d'). Done
               (case s of OASchema i one items addl ps \<Rightarrow>
                  if os_Title i = [] then OASchema (i\<lparr>os_Title := wm_Type variant\<rparr>) one items addl ps else s)))"

definition variant_branch :: "gostring \<Rightarrow> WebSocketMessage \<Rightarrow> openapiSchema \<Rightarrow> openapiSchema" where
  "variant_branch discriminator variant payload =
     (case newOpenapiSchema [] ''object'' [] VNil None None None None None
             (map_put ''payload'' payload
                [(discriminator, newOpenapiSchema [] ''string'' [] VNil None None (Some [str (wm_Type variant)])
                                   None None [] [] None [] VNil False)])
             [discriminator, ''payload''] None (wm_Description variant) (wm_Example variant) False
      of OASchema i one items addl ps \<Rightarrow> OASchema (i\<lparr>os_Title := wm_Type variant\<rparr>) one items addl ps)"

definition compileWebSocketMessageFamily :: "compiler \<Rightarrow> WebSocketMessageFamily \<Rightarrow> openapiSchema run" where
  "compileWebSocketMessageFamily cm family =
     (if family_IsZero family then Done empty_schema
      else let discriminator = NormalizedDiscriminator family
           in bind_run
                (fold_run (\<lambda>variant oneOf. bind_run (compileWebSocketVariantPayload cm variant) (\<lambda>payload.
                     Done (oneOf @ [variant_branch discriminator variant payload]))) (wf_Variants family) [])
                (\<lambda>oneOf.
                   if oneOf = [] then Done empty_schema
                   else Done
                     (case object_schema of OASchema i one items addl ps \<Rightarrow>
                        OASchema (i\<lparr>os_Description := wf_Description family,
                                    os_Discriminator := Some \<lparr>PropertyName = discriminator, Mapping = []\<rparr>\<rparr>)
                          oneOf items addl ps)))"

definition add_family ::
  "compiler \<Rightarrow> gostring \<times> WebSocketMessageFamily \<Rightarrow> openapiSchema gomap \<times> gostring list \<Rightarrow>
   (openapiSchema gomap \<times> gostring list) run"
where
  "add_family cm nf acc =
     bind_run (compileWebSocketMessageFamily cm (snd nf)) (\<lambda>s. Done
       (if oa_IsEmpty (Some s) then acc else (map_put (fst nf) s (fst acc), snd acc @ [fst nf])))"

definition compileWebSocketSchema :: "compiler \<Rightarrow> WebSocketSchema \<Rightarrow> openapiSchema run" where
  "compileWebSocketSchema cm protocol =
     bind_run
       (fold_run (add_family cm)
          [(''inbound'', ws_Inbound protocol), (''outbound'', ws_Outbound protocol), (''error'', ws_Error protocol)]
          ([], []))
       (\<lambda>(properties, required).
          if length properties = 0 then Done empty_schema
          else Done (newOpenapiSchema [] ''object'' [] VNil None None None None None properties required None [] VNil
                       False))"

text \<open>The websocket part of a schema, as \<open>compileSchema\<close> uses it (compiler.go). A protocol without a
  compiled family leaves the contract nil.\<close>

definition websocket_part :: "compiler \<Rightarrow> compiledWebSocketContract option websocket_part" where
  "websocket_part cm schema =
     bind_run (run_of (ExtractWebSocketSchema schema)) (\<lambda>r.
       case r of
         None \<Rightarrow> Done None
       | Some protocol \<Rightarrow>
           bind_run (compileWebSocketSchema cm protocol) (\<lambda>s.
             Done (Some (s, compileWebSocketContract protocol))))"

end
