(* ===== verification/WebSocket.thy ===== *)
theory WebSocket
  imports WsContract Requests Context
begin

section \<open>Websocket routes and sessions (websocket/websocket.go)\<close>

text \<open>
  Package \<open>websocket\<close>: a handler checks the handshake, copies the context and lets the upgrader take
  the connection over; then a session reads and writes messages on it, checked by the contract of
  the route or by the schemas of the options. A registry counts the running sessions and drains
  them. The connection, the upgrader and JSON are arguments; a deadline is a time in nanoseconds.
\<close>

subsection \<open>The connection\<close>

record 'c connlib =
  wc_SetReadLimit :: "int \<Rightarrow> 'c \<Rightarrow> 'c"
  wc_SetReadDeadline :: "int \<Rightarrow> 'c \<Rightarrow> 'c"
  wc_SetWriteDeadline :: "int \<Rightarrow> 'c \<Rightarrow> 'c"
  wc_ReadMessage :: "'c \<Rightarrow> (gerr + int \<times> gostring) \<times> 'c"
  wc_WriteMessage :: "int \<Rightarrow> gostring \<Rightarrow> 'c \<Rightarrow> gerr option \<times> 'c"
  wc_WriteControl :: "int \<Rightarrow> gostring \<Rightarrow> int \<Rightarrow> 'c \<Rightarrow> gerr option \<times> 'c"
  wc_FormatCloseMessage :: "int \<Rightarrow> gostring \<Rightarrow> gostring"
  wc_Close :: "'c \<Rightarrow> gerr option \<times> 'c"

definition TextMessage :: int where "TextMessage = 1"
definition CloseMessage :: int where "CloseMessage = 8"

subsection \<open>Options\<close>

definition HandshakeAuto :: gostring where "HandshakeAuto = ''auto''"
definition HandshakeOff :: gostring where "HandshakeOff = ''off''"
definition HandshakeSelective :: gostring where "HandshakeSelective = ''selective''"

record HandshakePolicy =
  hp_Mode :: gostring
  hp_Selectors :: "RequestSchema list"

text \<open>A hook is code of the application that may change the context it is given.\<close>

record 'x Hooks =
  hk_OnUpgradeAttempt :: "('x \<Rightarrow> 'x) option"
  hk_OnUpgradeSuccess :: "('x \<Rightarrow> 'x) option"
  hk_OnUpgradeError :: "(goerr \<Rightarrow> 'x \<Rightarrow> 'x) option"
  hk_OnSessionStart :: "('x \<Rightarrow> 'x) option"
  hk_OnSessionEnd :: "(int \<Rightarrow> 'x \<Rightarrow> 'x) option"
  hk_OnSessionError :: "(gerr \<Rightarrow> 'x \<Rightarrow> 'x) option"

text \<open>The upgrader and the registry are shared state and stand beside the options; \<open>wo_tracked\<close> says
  that there is a registry.\<close>

record 'x Options =
  wo_MaxMessageBytes :: int
  wo_ReadTimeout :: int
  wo_WriteTimeout :: int
  wo_ValidateHandshake :: bool
  wo_HandshakeSelectors :: "RequestSchema list"
  wo_InboundSchema :: goval
  wo_OutboundSchema :: goval
  wo_Hooks :: "'x Hooks"
  wo_tracked :: bool

record 'x RuntimeOptions =
  rt_MaxMessageBytes :: int
  rt_ReadTimeout :: int
  rt_WriteTimeout :: int
  rt_Hooks :: "'x Hooks"
  rt_tracked :: bool

definition applyHandshakePolicy :: "'x Options \<Rightarrow> HandshakePolicy \<Rightarrow> bool \<Rightarrow> 'x Options" where
  "applyHandshakePolicy o0 policy hasSchema =
     (let rt = o0\<lparr>wo_ValidateHandshake := False, wo_HandshakeSelectors := []\<rparr>
      in if \<not> hasSchema then rt
         else if hp_Mode policy = HandshakeOff then rt
         else if hp_Mode policy = HandshakeSelective then
           (if length (hp_Selectors policy) = 0 then rt\<lparr>wo_ValidateHandshake := True\<rparr>
            else rt\<lparr>wo_HandshakeSelectors := hp_Selectors policy\<rparr>)
         else rt\<lparr>wo_ValidateHandshake := True\<rparr>)"

text \<open>The options \<open>DefineWebSocket\<close> gives to the handler of a route.\<close>

definition DefineWebSocket_options :: "'x RuntimeOptions \<Rightarrow> HandshakePolicy \<Rightarrow> goval \<Rightarrow> 'x Options" where
  "DefineWebSocket_options r handshake schema =
     applyHandshakePolicy
       \<lparr>wo_MaxMessageBytes = rt_MaxMessageBytes r, wo_ReadTimeout = rt_ReadTimeout r,
        wo_WriteTimeout = rt_WriteTimeout r, wo_ValidateHandshake = False, wo_HandshakeSelectors = [],
        wo_InboundSchema = VNil, wo_OutboundSchema = VNil, wo_Hooks = rt_Hooks r, wo_tracked = rt_tracked r\<rparr>
       handshake (schema \<noteq> VNil)"

subsection \<open>The registry\<close>

text \<open>A session is known by its address.\<close>

record SessionRegistry =
  rg_sessions :: "nat set"
  rg_draining :: bool

definition NewSessionRegistry :: SessionRegistry where
  "NewSessionRegistry = \<lparr>rg_sessions = {}, rg_draining = False\<rparr>"

definition Active :: "SessionRegistry \<Rightarrow> nat" where "Active r = card (rg_sessions r)"

definition IsDraining :: "SessionRegistry option \<Rightarrow> bool" where
  "IsDraining r = (case r of None \<Rightarrow> False | Some g \<Rightarrow> rg_draining g)"

definition track :: "nat \<Rightarrow> SessionRegistry option \<Rightarrow> bool \<times> SessionRegistry option" where
  "track s r =
     (case r of
        None \<Rightarrow> (True, None)
      | Some g \<Rightarrow> if rg_draining g then (False, r) else (True, Some (g\<lparr>rg_sessions := insert s (rg_sessions g)\<rparr>)))"

definition untrack :: "nat \<Rightarrow> SessionRegistry option \<Rightarrow> SessionRegistry option" where
  "untrack s r = map_option (\<lambda>g. g\<lparr>rg_sessions := rg_sessions g - {s}\<rparr>) r"

subsection \<open>Checking a payload against a schema of the options\<close>

text \<open>The package has its own copy of the struct validator, \<open>getCachedStructValidator\<close>, with its own
  cache; at most one pointer is followed.\<close>

definition buildFieldRules :: "gotype \<Rightarrow> structFieldRule list" where
  "buildFieldRules t =
     pick (\<lambda>(i, f). let rule = tag_Get (sf_tag f) ''validate''
                    in if rule = [] then None else Some \<lparr>fr_index = i, fr_rule = rule, fr_name = sf_name f\<rparr>)
       (enumerate 0 (fields_of t))"

definition getCachedStructValidator ::
  "gotype \<Rightarrow> validator_cache \<Rightarrow> (gerr + cachedStructValidator) \<times> validator_cache"
where
  "getCachedStructValidator t cache =
     (if kind_of t \<noteq> KStruct then (Inl (not_a_struct t), cache)
      else case cache t of
             Some v \<Rightarrow> (Inr v, cache)
           | None \<Rightarrow> let built = \<lparr>sv_typeName = type_name t, sv_fields = buildFieldRules t\<rparr>
                     in (Inr built, cache(t \<mapsto> built)))"

lemma buildFieldRules_copy: "buildFieldRules = buildWebSocketFieldRules"
  by (intro ext) (simp add: buildFieldRules_def buildWebSocketFieldRules_def)

lemma getCachedStructValidator_copy: "getCachedStructValidator = getCachedWebSocketStructValidator"
  by (intro ext) (simp only: getCachedStructValidator_def getCachedWebSocketStructValidator_def buildFieldRules_copy)

definition strip_pointer :: "gotype \<Rightarrow> gotype" where
  "strip_pointer t = (if kind_of t = KPointer then (case elem_of t of Some e \<Rightarrow> e | None \<Rightarrow> t) else t)"

definition validatePayloadSchema :: "stdlib \<Rightarrow> goval \<Rightarrow> goval \<Rightarrow> gostring \<Rightarrow> verdict" where
  "validatePayloadSchema L payload schema direction =
     (case typeof schema of
        None \<Rightarrow> ok
      | Some st0 \<Rightarrow>
          (case typeof payload of
             None \<Rightarrow> err (Errorf ''websocket %s payload is nil'' [str direction])
           | Some pt0 \<Rightarrow>
               let pt = strip_pointer pt0; st = strip_pointer st0
               in if pt \<noteq> st then
                    err (Errorf ''websocket %s payload type mismatch: expected %s, got %s''
                           [str direction, str (type_name st), str (type_name pt)])
                  else case structValidator pt of
                         Inl e \<Rightarrow> err e
                       | Inr sv \<Rightarrow>
                           bind_call (sv_validate L sv payload) (\<lambda>e. Returns
                             (map_option (gerr.WrapErr ''websocket %s validation failed: %w'' [str direction]) e))))"

subsection \<open>A session\<close>

text \<open>\<open>se_rules\<close> are the rules of the route that the context of the session finds.\<close>

record Session =
  se_rules :: "compiledWebSocketContract option schemaRules option"
  se_inboundSchema :: goval
  se_outboundSchema :: goval
  se_readTimeout :: int
  se_writeTimeout :: int

definition ReadMessage :: "'c connlib \<Rightarrow> int \<Rightarrow> Session \<Rightarrow> 'c \<Rightarrow> (gerr + int \<times> gostring) \<times> 'c" where
  "ReadMessage W now s c =
     wc_ReadMessage W (if se_readTimeout s > 0 then wc_SetReadDeadline W (now + se_readTimeout s) c else c)"

definition WriteMessage :: "'c connlib \<Rightarrow> int \<Rightarrow> Session \<Rightarrow> int \<Rightarrow> gostring \<Rightarrow> 'c \<Rightarrow> gerr option \<times> 'c" where
  "WriteMessage W now s mt data c =
     wc_WriteMessage W mt data
       (if se_writeTimeout s > 0 then wc_SetWriteDeadline W (now + se_writeTimeout s) c else c)"

definition ValidateInbound :: "stdlib \<Rightarrow> Session \<Rightarrow> goval \<Rightarrow> verdict" where
  "ValidateInbound L s v =
     bind_call (ValidateWebSocketPayload L (se_rules s) WebSocketInbound v) (\<lambda>(handled, e).
       if handled then Returns e else validatePayloadSchema L v (se_inboundSchema s) ''inbound'')"

definition ValidateOutbound :: "stdlib \<Rightarrow> Session \<Rightarrow> goval \<Rightarrow> verdict" where
  "ValidateOutbound L s v =
     bind_call (ValidateWebSocketPayload L (se_rules s) WebSocketOutbound v) (\<lambda>(handled, e).
       if handled then Returns e else validatePayloadSchema L v (se_outboundSchema s) ''outbound'')"

text \<open>The result: the error and the destination afterwards, and the connection.\<close>

definition ReadJSON ::
  "wslib \<Rightarrow> 'c connlib \<Rightarrow> Session \<Rightarrow> goval \<Rightarrow> 'c \<Rightarrow> (gerr option \<times> goval) call \<times> 'c"
where
  "ReadJSON J W s dst c =
     (case wc_ReadMessage W c of
        (Inl e, c1) \<Rightarrow> (Returns (Some e, dst), c1)
      | (Inr (mt, payload), c1) \<Rightarrow>
          (bind_call (DecodeWebSocketJSON J (se_rules s) WebSocketInbound payload dst) (\<lambda>(handled, r).
             if handled then Returns r
             else (case Unmarshal J payload dst of
                     (Some e, dst1) \<Rightarrow> Returns (Some e, dst1)
                   | (None, dst1) \<Rightarrow>
                       bind_call (ValidateInbound (lib_rules J) s dst1) (\<lambda>e. Returns (e, dst1)))), c1))"

definition marshal_and_send :: "wslib \<Rightarrow> 'c connlib \<Rightarrow> goval \<Rightarrow> 'c \<Rightarrow> verdict \<times> 'c" where
  "marshal_and_send J W v c =
     (case lib_marshal J v of
        Inl e \<Rightarrow> (err e, c)
      | Inr payload \<Rightarrow> (case wc_WriteMessage W TextMessage payload c of (e, c1) \<Rightarrow> (Returns e, c1)))"

definition WriteJSON :: "wslib \<Rightarrow> 'c connlib \<Rightarrow> Session \<Rightarrow> goval \<Rightarrow> 'c \<Rightarrow> verdict \<times> 'c" where
  "WriteJSON J W s v c =
     (case ValidateOutbound (lib_rules J) s v of
        Panics \<Rightarrow> (Panics, c)
      | Returns (Some e) \<Rightarrow> (err e, c)
      | Returns None \<Rightarrow> marshal_and_send J W v c)"

definition WriteError :: "wslib \<Rightarrow> 'c connlib \<Rightarrow> Session \<Rightarrow> goval \<Rightarrow> 'c \<Rightarrow> verdict \<times> 'c" where
  "WriteError J W s v c =
     (case ValidateWebSocketPayload (lib_rules J) (se_rules s) WebSocketError v of
        Panics \<Rightarrow> (Panics, c)
      | Returns (True, Some e) \<Rightarrow> (err e, c)
      | Returns _ \<Rightarrow> marshal_and_send J W v c)"

definition CloseWithReason :: "'c connlib \<Rightarrow> int \<Rightarrow> Session \<Rightarrow> int \<Rightarrow> gostring \<Rightarrow> 'c \<Rightarrow> gerr option \<times> 'c" where
  "CloseWithReason W now s code reason c =
     (let deadline = (if se_writeTimeout s > 0 then now + se_writeTimeout s else now + 2000000000)
      in case wc_WriteControl W CloseMessage (wc_FormatCloseMessage W code reason) deadline c of
           (e, c1) \<Rightarrow> (case wc_Close W c1 of (closeErr, c2) \<Rightarrow> (if e \<noteq> None then e else closeErr, c2)))"

subsection \<open>The handler of a route\<close>

text \<open>What the handler takes from the upgrader: whether the request asks for an upgrade, the upgrade
  itself, which answers the client also when it fails, and whether the connection has been taken
  over. The session then runs on its own.\<close>

record 'f upgrader =
  ug_IsUpgrade :: "'f \<Rightarrow> bool"
  ug_Upgrade :: "'f \<Rightarrow> goerr option \<times> 'f"
  ug_Hijacked :: "'f \<Rightarrow> bool"

text \<open>A hook of the application changes the context and returns: its panics are not modelled. In the code
  a panic of \<open>OnSessionStart\<close>, which runs after the session was registered and before the clean-up is
  deferred, leaves the session registered and the connection open, and one of \<open>OnSessionEnd\<close> leaves
  the connection open.\<close>

definition on_hook :: "('x \<Rightarrow> 'x) option \<Rightarrow> 'x \<Rightarrow> 'x" where
  "on_hook h x = (case h of None \<Rightarrow> x | Some f \<Rightarrow> f x)"

text \<open>The handler works on the context and the cached result of its validation; \<open>hs_session\<close> is the copied
  context a session was started with.\<close>

record ('f, 'v) handshake =
  hs_ctx :: "('f, 'v) reqctx"
  hs_cache :: bind_cache
  hs_session :: "('f, 'v) reqctx option"

definition send_text :: "'f fasthttp \<Rightarrow> int \<Rightarrow> gostring \<Rightarrow> ('f, 'v) handshake \<Rightarrow> outcome \<times> ('f, 'v) handshake" where
  "send_text F code s h =
     (Returned None, h\<lparr>hs_ctx := (hs_ctx h)\<lparr>base := SendString F code s (base (hs_ctx h))\<rparr>\<rparr>)"

definition handshake_selectors :: "'x Options \<Rightarrow> RequestSchema list option" where
  "handshake_selectors o' =
     (if wo_ValidateHandshake o' \<or> length (wo_HandshakeSelectors o') > 0 then Some (wo_HandshakeSelectors o') else None)"

text \<open>The error, or the panic, of the validation; \<open>env\<close> holds the code the checks call.\<close>

definition validate_handshake ::
  "'f fasthttp \<Rightarrow> (gerr \<Rightarrow> gostring) \<Rightarrow> req_env \<Rightarrow> 'w schemaRules option \<Rightarrow> 'x Options \<Rightarrow> ('f, 'v) handshake \<Rightarrow>
   outcome \<times> ('f, 'v) handshake"
where
  "validate_handshake F msg env srs o' h =
     (case handshake_selectors o' of
        None \<Rightarrow> (Returned None, h)
      | Some sel \<Rightarrow>
          (case Request_Validate (env_reads F (base (hs_ctx h)) env) srs sel (hs_cache h) of
             Panics \<Rightarrow> (Panicked [], h)
           | Returns (e, cache) \<Rightarrow> (Returned (map_option (goerr_of msg) e), h\<lparr>hs_cache := cache\<rparr>)))"

definition upgrade ::
  "'f fasthttp \<Rightarrow> 'f upgrader \<Rightarrow> (('f, 'v) reqctx) Options \<Rightarrow> ('f, 'v) handshake \<Rightarrow> outcome \<times> ('f, 'v) handshake"
where
  "upgrade F U o' h =
     (let cc = ctx_Copy F (hs_ctx h); b = base (hs_ctx h)
      in case ug_Upgrade U (fctx b) of
           (er, f') \<Rightarrow>
             let h1 = h\<lparr>hs_ctx := (hs_ctx h)\<lparr>base := b\<lparr>fctx := f'\<rparr>\<rparr>\<rparr>
             in case er of
                  Some e \<Rightarrow>
                    let h2 = h1\<lparr>hs_ctx := on_hook (map_option (\<lambda>f. f e) (hk_OnUpgradeError (wo_Hooks o'))) (hs_ctx h1)\<rparr>
                    in if ug_Hijacked U (fctx (base (hs_ctx h2))) then (Returned (Some e), h2)
                       else send_text F 400 ''websocket handshake failed'' h2
                | None \<Rightarrow>
                    (Returned None,
                     h1\<lparr>hs_ctx := on_hook (hk_OnUpgradeSuccess (wo_Hooks o')) (hs_ctx h1), hs_session := Some cc\<rparr>))"

definition NewWithContextAndOptions ::
  "'f fasthttp \<Rightarrow> 'f upgrader \<Rightarrow> (gerr \<Rightarrow> gostring) \<Rightarrow> req_env \<Rightarrow> 'w schemaRules option \<Rightarrow> SessionRegistry option \<Rightarrow>
   (('f, 'v) reqctx) Options \<Rightarrow> ('f, 'v) handshake \<Rightarrow> outcome \<times> ('f, 'v) handshake"
where
  "NewWithContextAndOptions F U msg env srs reg o' h0 =
     (let h = h0\<lparr>hs_ctx := on_hook (hk_OnUpgradeAttempt (wo_Hooks o')) (hs_ctx h0)\<rparr>
      in if IsDraining reg then send_text F 503 ''websocket server draining'' h
         else if \<not> ug_IsUpgrade U (fctx (base (hs_ctx h))) then send_text F 426 ''websocket upgrade required'' h
         else case validate_handshake F msg env srs o' h of
                (Returned None, h1) \<Rightarrow> upgrade F U o' h1
              | r \<Rightarrow> r)"

subsection \<open>The life of a session\<close>

text \<open>The state of a session: its context, its connection and the registry.\<close>

record ('x, 'c) session_state =
  ss_ctx :: 'x
  ss_conn :: 'c
  ss_reg :: "SessionRegistry option"

definition new_session :: "compiledWebSocketContract option schemaRules option \<Rightarrow> 'x Options \<Rightarrow> Session" where
  "new_session srs o' =
     \<lparr>se_rules = srs, se_inboundSchema = wo_InboundSchema o', se_outboundSchema = wo_OutboundSchema o',
      se_readTimeout = wo_ReadTimeout o', se_writeTimeout = wo_WriteTimeout o'\<rparr>"

definition prepare_conn :: "'c connlib \<Rightarrow> int \<Rightarrow> 'x Options \<Rightarrow> 'c \<Rightarrow> 'c" where
  "prepare_conn W now o' c =
     (let c1 = (if wo_MaxMessageBytes o' > 0 then wc_SetReadLimit W (wo_MaxMessageBytes o') c else c);
          c2 = (if wo_ReadTimeout o' > 0 then wc_SetReadDeadline W (now + wo_ReadTimeout o') c1 else c1)
      in if wo_WriteTimeout o' > 0 then wc_SetWriteDeadline W (now + wo_WriteTimeout o') c2 else c2)"

text \<open>The deferred function, which runs after a return and after a panic.\<close>

definition end_session :: "'c connlib \<Rightarrow> nat \<Rightarrow> int \<Rightarrow> 'x Options \<Rightarrow> ('x, 'c) session_state \<Rightarrow> ('x, 'c) session_state" where
  "end_session W me elapsed o' st =
     st\<lparr>ss_reg := untrack me (ss_reg st),
        ss_ctx := on_hook (map_option (\<lambda>f. f elapsed) (hk_OnSessionEnd (wo_Hooks o'))) (ss_ctx st),
        ss_conn := snd (wc_Close W (ss_conn st))\<rparr>"

text \<open>The handler of the application uses the session: it changes its context and its connection, and
  the registry may change meanwhile. It returns an error or panics.\<close>

type_synonym ('x, 'c) session_handler =
  "Session \<Rightarrow> ('x, 'c) session_state \<Rightarrow> gerr option call \<times> ('x, 'c) session_state"

definition NewWithSessionAndOptions ::
  "'c connlib \<Rightarrow> nat \<Rightarrow> int \<Rightarrow> int \<Rightarrow> compiledWebSocketContract option schemaRules option \<Rightarrow> 'x Options \<Rightarrow>
   ('x, 'c) session_handler \<Rightarrow> ('x, 'c) session_state \<Rightarrow> unit call \<times> ('x, 'c) session_state"
where
  "NewWithSessionAndOptions W me now elapsed srs o' handler st0 =
     (let st = st0\<lparr>ss_conn := prepare_conn W now o' (ss_conn st0)\<rparr>
      in case track me (ss_reg st) of
           (False, reg) \<Rightarrow>
             (Returns (), st\<lparr>ss_reg := reg,
                ss_conn := snd (CloseWithReason W now (new_session srs o') 1013 ''server draining'' (ss_conn st))\<rparr>)
         | (True, reg) \<Rightarrow>
             let st1 = st\<lparr>ss_reg := reg, ss_ctx := on_hook (hk_OnSessionStart (wo_Hooks o')) (ss_ctx st)\<rparr>
             in case handler (new_session srs o') st1 of
                  (Panics, st2) \<Rightarrow> (Panics, end_session W me elapsed o' st2)
                | (Returns e, st2) \<Rightarrow>
                    (Returns (), end_session W me elapsed o'
                       (case e of
                          None \<Rightarrow> st2
                        | Some x \<Rightarrow> st2\<lparr>ss_ctx := on_hook (map_option (\<lambda>f. f x) (hk_OnSessionError (wo_Hooks o')))
                                                   (ss_ctx st2)\<rparr>)))"

end
