(* ===== verification/WsLaws.thy ===== *)
theory WsLaws
  imports WebSocket RequestLaws ValidatorLaws
begin

section \<open>What the websocket contract guarantees\<close>

text \<open>
  Laws of the compiled contract (it knows exactly the variants that were declared with a schema),
  of the checks of messages, and of decoding: what an accepted message satisfies, and where a
  message is accepted without its discriminator being read. Then the handshake and the end of a
  session.
\<close>

subsection \<open>The compiled contract and its documentation\<close>

lemma typeof_None [simp]: "typeof v = None \<longleftrightarrow> v = VNil"
  by (cases v) simp_all

lemma resolve_None [simp]: "resolveWebSocketVariantType s = None \<longleftrightarrow> s = VNil" "resolveWebSocketVariantType VNil = None"
  by (simp_all add: resolveWebSocketVariantType_def)

definition compiled_of :: "WebSocketMessage \<Rightarrow> compiledWebSocketVariant" where
  "compiled_of v =
     (case the (resolveWebSocketVariantType (wm_Schema v)) of
        (t, x) \<Rightarrow> \<lparr>cv_messageType = wm_Type v, cv_schema = x, cv_schemaType = t\<rparr>)"

definition declares :: "gostring \<Rightarrow> WebSocketMessage \<Rightarrow> bool" where
  "declares k v \<longleftrightarrow> wm_Type v = k \<and> wm_Schema v \<noteq> VNil"

lemma add_variant_eq:
  "add_variant v c =
     (if wm_Schema v = VNil then c
      else c\<lparr>mc_variants := map_put (wm_Type v) (compiled_of v) (mc_variants c),
             mc_bySchemaType := AList.update (cv_schemaType (compiled_of v)) (compiled_of v) (mc_bySchemaType c)\<rparr>)"
  using resolve_None(1)[of "wm_Schema v"]
  by (cases "wm_Schema v = VNil") (auto simp: add_variant_def compiled_of_def Let_def split: option.splits prod.splits)

lemma fold_add_variant_discriminator [simp]: "mc_discriminator (fold add_variant vs c) = mc_discriminator c"
  by (induction vs arbitrary: c) (simp_all add: add_variant_eq)

lemma fold_add_variant_lookup:
  "map_of (mc_variants (fold add_variant vs c)) k =
     (case List.find (declares k) (rev vs) of Some v \<Rightarrow> Some (compiled_of v) | None \<Rightarrow> map_of (mc_variants c) k)"
proof (induction vs rule: rev_induct)
  case (snoc v vs)
  then show ?case by (auto simp: add_variant_eq declares_def)
qed simp

text \<open>The contract maps a message type to the last variant declared with it that has a schema.\<close>

lemma contract_lookup:
  assumes "compileWebSocketMessageContract f = Some c"
  shows "map_of (mc_variants c) k = map_option compiled_of (List.find (declares k) (rev (wf_Variants f)))"
    and "mc_discriminator c = NormalizedDiscriminator f"
  using assms
  by (auto simp: compileWebSocketMessageContract_def Let_def fold_add_variant_lookup split: if_splits option.splits)

lemma contract_keys:
  assumes "compileWebSocketMessageContract f = Some c"
  shows "map_of (mc_variants c) k \<noteq> None \<longleftrightarrow> (\<exists>v \<in> set (wf_Variants f). wm_Type v = k \<and> wm_Schema v \<noteq> VNil)"
  using contract_lookup(1)[OF assms, of k]
  by (auto simp: find_None_iff declares_def)

lemma title_of_branch: "os_Title (oa (variant_branch k v p)) = wm_Type v"
  by (simp add: variant_branch_def newOpenapiSchema_def)

lemma oneOf_titles:
  "fold_run (\<lambda>v oneOf. bind_run (compileWebSocketVariantPayload cm v) (\<lambda>p. Done (oneOf @ [variant_branch k v p]))) vs acc
     = Done bs \<Longrightarrow> map (\<lambda>b. os_Title (oa b)) bs = map (\<lambda>b. os_Title (oa b)) acc @ map wm_Type vs"
  by (induction vs arbitrary: acc) (auto simp: bind_run_Done title_of_branch)

lemma family_schema:
  assumes "compileWebSocketMessageFamily cm f = Done s" and "\<not> family_IsZero f"
  shows "map (\<lambda>b. os_Title (oa b)) (oa_OneOf s) = map wm_Type (wf_Variants f)"
    and "os_Discriminator (oa s) = Some \<lparr>PropertyName = NormalizedDiscriminator f, Mapping = []\<rparr>"
proof -
  from assms obtain bs where
    bs: "fold_run (\<lambda>v oneOf. bind_run (compileWebSocketVariantPayload cm v)
        (\<lambda>p. Done (oneOf @ [variant_branch (NormalizedDiscriminator f) v p]))) (wf_Variants f) [] = Done bs"
    by (auto simp: compileWebSocketMessageFamily_def Let_def bind_run_Done split: if_splits)
  have "length bs = length (wf_Variants f)" using oneOf_titles[OF bs] by (metis append_Nil length_map list.simps(8))
  then have ne: "bs \<noteq> []" using assms(2) by (auto simp: family_IsZero_def)
  show "map (\<lambda>b. os_Title (oa b)) (oa_OneOf s) = map wm_Type (wf_Variants f)"
    and "os_Discriminator (oa s) = Some \<lparr>PropertyName = NormalizedDiscriminator f, Mapping = []\<rparr>"
    using assms bs ne oneOf_titles[OF bs]
    by (auto simp: compileWebSocketMessageFamily_def Let_def object_schema_def newOpenapiSchema_def)
qed

text \<open>C32. The documentation and the run time read the same declaration: the OpenAPI schema lists one
  branch per variant, in order, under the discriminator the contract uses; the contract accepts
  exactly the types of the variants that have a schema. A variant without one is documented and
  refused.\<close>

theorem documentation_matches_contract:
  assumes "compileWebSocketMessageFamily cm f = Done s" and "compileWebSocketMessageContract f = Some c"
  shows "map (\<lambda>b. os_Title (oa b)) (oa_OneOf s) = map wm_Type (wf_Variants f)
       \<and> os_Discriminator (oa s) = Some \<lparr>PropertyName = mc_discriminator c, Mapping = []\<rparr>
       \<and> (\<forall>k. map_of (mc_variants c) k \<noteq> None \<longleftrightarrow> (\<exists>v \<in> set (wf_Variants f). wm_Type v = k \<and> wm_Schema v \<noteq> VNil))"
proof -
  have "\<not> family_IsZero f" using assms(2) by (auto simp: compileWebSocketMessageContract_def)
  with family_schema[OF assms(1)] contract_lookup(2)[OF assms(2)] contract_keys[OF assms(2)] show ?thesis by metis
qed

subsection \<open>Validation\<close>

lemma strip_pointers_other [simp]: "kind_of t \<noteq> KPointer \<Longrightarrow> strip_pointers t = t"
  by (simp add: strip_pointers.simps)

lemma strip_pointers_pointer [simp]: "strip_pointers (TPointer t) = strip_pointers t"
  by (subst strip_pointers.simps) (simp add: elem_of_def)

text \<open>What a verdict without error says: every rule of a field holds of the field.\<close>

lemma check_rules_ok:
  "check_rules L v fs = ok \<longleftrightarrow>
     (\<forall>f \<in> set fs. \<exists>t vs. v = VStruct t vs \<and> fr_index f < length vs \<and> exported (fr_name f)
        \<and> Validate L (vs ! fr_index f) (fr_rule f) = ok)"
proof (induction fs)
  case (Cons f fs)
  then show ?case
    by (cases v; cases "Validate L (fields_in v ! fr_index f) (fr_rule f)")
       (auto simp: fields_in_def split: option.splits)
qed simp

definition rules_hold :: "stdlib \<Rightarrow> gotype \<Rightarrow> goval \<Rightarrow> bool" where
  "rules_hold L t v \<longleftrightarrow>
     (\<forall>f \<in> set (buildWebSocketFieldRules t). \<exists>u vs. v = VStruct u vs \<and> fr_index f < length vs
        \<and> Validate L (vs ! fr_index f) (fr_rule f) = ok)"

lemma wrapped_ok: "bind_call r (\<lambda>e. Returns (map_option g e)) = ok \<longleftrightarrow> r = ok"
  by (cases r) auto

lemma sv_validate_value:
  "kind_of t \<noteq> KPointer \<Longrightarrow> well_typed v \<Longrightarrow> typeof v = Some t \<Longrightarrow> sv_validate L sv v = check_rules L v (sv_fields sv)"
  by (cases v) (auto simp: sv_validate_def)

lemma schema_value_ok:
  assumes "validateWebSocketSchemaValue L v schema d = ok" and "typeof schema = Some st" and "typeof v = Some t"
  shows "strip_pointers t = strip_pointers st" and "kind_of (strip_pointers t) = KStruct"
    and "kind_of t \<noteq> KPointer \<Longrightarrow> well_typed v \<Longrightarrow> rules_hold L t v"
proof -
  have n: "schema \<noteq> VNil" "v \<noteq> VNil" using assms(2,3) by auto
  then have k: "strip_pointers t = strip_pointers st" "kind_of (strip_pointers t) = KStruct"
    and sv: "sv_validate L \<lparr>sv_typeName = type_name (strip_pointers t), sv_fields = buildWebSocketFieldRules (strip_pointers t)\<rparr> v = ok"
    using assms
    by (auto simp: validateWebSocketSchemaValue_def structValidator_def Let_def wrapped_ok split: if_splits)
  then show "strip_pointers t = strip_pointers st" and "kind_of (strip_pointers t) = KStruct" by simp_all
  assume p: "kind_of t \<noteq> KPointer" "well_typed v"
  with sv have "check_rules L v (buildWebSocketFieldRules t) = ok"
    using sv_validate_value[OF p(1,2) assms(3)] by simp
  then show "rules_hold L t v" by (simp only: check_rules_ok rules_hold_def) blast
qed

subsection \<open>Decoding\<close>

text \<open>Without a first attempt, an accepted message is an envelope: its discriminator names a declared
  variant and its payload is a valid value of that variant.\<close>

lemma decode_envelope_ok:
  assumes "decode_envelope J c payload dst d = Returns (None, dst')" and "variantForTarget c dst = None"
  obtains k raw v w where
    "extractWireEnvelope J c payload d = Inr (k, raw)" "map_of (mc_variants c) k = Some v"
    "decodeWebSocketVariantPayload J raw (cv_schemaType v) = Inr w"
    "validateWebSocketSchemaValue (lib_rules J) w (cv_schema v) d = ok"
    "populateWebSocketEnvelope J dst (mc_discriminator c) k w = Returns (None, dst')"
proof -
  obtain k raw where e: "extractWireEnvelope J c payload d = Inr (k, raw)"
    using assms(1) by (auto simp: decode_envelope_def split: sum.splits)
  then obtain v where v: "map_of (mc_variants c) k = Some v"
    using assms(1) by (auto simp: decode_envelope_def split: option.splits)
  with e obtain w where w: "decodeWebSocketVariantPayload J raw (cv_schemaType v) = Inr w"
    using assms(1) by (auto simp: decode_envelope_def split: sum.splits)
  have "bind_call (populateWebSocketEnvelope J dst (mc_discriminator c) k w) (\<lambda>(er, dst1).
          case er of Some e \<Rightarrow> Returns (Some e, dst1)
          | None \<Rightarrow> bind_call (validateWebSocketSchemaValue (lib_rules J) w (cv_schema v) d) (\<lambda>e. Returns (e, dst1)))
        = Returns (None, dst')"
    using assms e v w by (simp add: decode_envelope_def)
  then have "validateWebSocketSchemaValue (lib_rules J) w (cv_schema v) d = ok"
    and "populateWebSocketEnvelope J dst (mc_discriminator c) k w = Returns (None, dst')"
    by (auto simp: bind_call_Returns split: option.splits)
  with e v w show thesis by (rule that)
qed

lemma mc_decode_envelope:
  assumes "variantForTarget c dst = None" and "dst \<noteq> VNil"
  shows "mc_decode J c payload dst d = decode_envelope J c payload dst d"
  using assms by (simp add: mc_decode_def decode_direct_def)

text \<open>The parts of an accepted message, as named by the theorem below.\<close>

definition accepted_as ::
  "wslib \<Rightarrow> compiledWebSocketMessageContract \<Rightarrow> gostring \<Rightarrow> gostring \<Rightarrow> gostring \<Rightarrow> compiledWebSocketVariant \<Rightarrow> goval \<Rightarrow> bool"
where
  "accepted_as J c payload d k v w \<longleftrightarrow>
     (\<exists>fields rawType raw. lib_object J payload = Inr fields
        \<and> map_of fields (mc_discriminator c) = Some rawType \<and> lib_string J rawType = Inr k
        \<and> map_of fields ''payload'' = Some raw \<and> map_of (mc_variants c) k = Some v
        \<and> lib_into J raw (cv_schemaType v) (zero_of (cv_schemaType v)) = (None, w)
        \<and> validateWebSocketSchemaValue (lib_rules J) w (cv_schema v) d = ok)"

lemma wire_envelope_ok:
  "extractWireEnvelope J c payload d = Inr (k, raw) \<Longrightarrow>
     \<exists>fields rawType. lib_object J payload = Inr fields
        \<and> map_of fields (mc_discriminator c) = Some rawType \<and> lib_string J rawType = Inr k
        \<and> map_of fields ''payload'' = Some raw"
  by (auto simp: extractWireEnvelope_def split: sum.splits option.splits)

lemma variant_payload_ok:
  "decodeWebSocketVariantPayload J raw t = Inr w \<longleftrightarrow> lib_into J raw t (zero_of t) = (None, w)"
  by (auto simp: decodeWebSocketVariantPayload_def split: prod.splits option.splits)

lemma envelope_accepted:
  assumes "mc_decode J c payload dst d = Returns (None, dst')" and "variantForTarget c dst = None"
  shows "\<exists>k v w. accepted_as J c payload d k v w
           \<and> populateWebSocketEnvelope J dst (mc_discriminator c) k w = Returns (None, dst')"
proof -
  have "dst \<noteq> VNil" using assms(1) by (auto simp: mc_decode_def)
  with assms have "decode_envelope J c payload dst d = Returns (None, dst')" by (simp add: mc_decode_envelope)
  then obtain k raw v w where a:
    "extractWireEnvelope J c payload d = Inr (k, raw)" "map_of (mc_variants c) k = Some v"
    "decodeWebSocketVariantPayload J raw (cv_schemaType v) = Inr w"
    "validateWebSocketSchemaValue (lib_rules J) w (cv_schema v) d = ok"
    "populateWebSocketEnvelope J dst (mc_discriminator c) k w = Returns (None, dst')"
    using assms(2) by (rule decode_envelope_ok)
  have "accepted_as J c payload d k v w"
    using wire_envelope_ok[OF a(1)] a(2,3,4) by (auto simp: accepted_as_def variant_payload_ok)
  with a(5) show ?thesis by blast
qed

text \<open>C30. Nothing undeclared comes in as an envelope: when a message is decoded without error into a
  destination that is not itself of the type of a variant, its discriminator was read, names a
  declared variant, and its payload was decoded into the type of that variant and passed the rules
  of its fields.\<close>

theorem accepted_message_is_declared:
  assumes "mc_decode J c payload dst d = Returns (None, dst')" and "variantForTarget c dst = None"
  shows "\<exists>k v w. accepted_as J c payload d k v w
           \<and> populateWebSocketEnvelope J dst (mc_discriminator c) k w = Returns (None, dst')"
  using envelope_accepted[OF assms] .

text \<open>A destination of the type of a variant is different: when the whole text decodes into it and its
  rules hold, the message is accepted, and neither the discriminator nor the payload is looked at.\<close>

theorem direct_decoding_skips_discriminator:
  assumes "variantForTarget c dst = Some v" and "Unmarshal J payload dst = (None, dst1)"
    and "validateWebSocketSchemaValue (lib_rules J) dst1 (cv_schema v) d = ok"
  shows "mc_decode J c payload dst d = Returns (None, dst1)"
proof -
  have "dst \<noteq> VNil" using assms(1) by (auto simp: variantForTarget_def variantForType_def)
  with assms show ?thesis by (simp add: mc_decode_def decode_direct_def)
qed

subsection \<open>Envelopes there and back\<close>

text \<open>A field for the payloads of a contract: one of an interface type, or one that holds values of a
  single variant or pointers to them, and that can store no other variant, as in the envelopes of
  the documentation. What can be stored is what \<open>populateWebSocketEnvelope\<close> tries.\<close>

definition storable :: "gotype \<Rightarrow> gotype \<Rightarrow> bool" where
  "storable dt ft \<longleftrightarrow> AssignableTo dt ft
     \<or> kind_of ft = KPointer \<and> (case elem_of ft of Some e \<Rightarrow> AssignableTo dt e | None \<Rightarrow> False)
     \<or> convertible_to dt ft"

definition payload_field :: "compiledWebSocketMessageContract \<Rightarrow> gotype \<Rightarrow> bool" where
  "payload_field c ft \<longleftrightarrow> kind_of ft = KInterface
     \<or> (\<forall>(k, v) \<in> set (mc_variants c). storable (cv_schemaType v) ft \<longrightarrow>
          kind_of (cv_schemaType v) \<noteq> KPointer \<and> ft \<in> {cv_schemaType v, TPointer (cv_schemaType v)})"

text \<open>An envelope: a pointer to a struct that is no variant, with a string field for the discriminator
  and a field for the payload.\<close>

definition envelope_type :: "compiledWebSocketMessageContract \<Rightarrow> gotype \<Rightarrow> nat \<Rightarrow> nat \<Rightarrow> bool" where
  "envelope_type c t i j \<longleftrightarrow>
     kind_of t = KStruct \<and> map_of (mc_bySchemaType c) t = None \<and> i \<noteq> j
     \<and> findStructFieldByJSONName t (mc_discriminator c) = Some i \<and> kind_of (sf_type (fields_of t ! i)) = KString
     \<and> findStructFieldByJSONName t ''payload'' = Some j \<and> payload_field c (sf_type (fields_of t ! j))"

text \<open>What \<open>json.Unmarshal\<close> leaves in a new variable of the type of a variant is of that type.\<close>

definition decodes_typed :: "wslib \<Rightarrow> compiledWebSocketMessageContract \<Rightarrow> bool" where
  "decodes_typed J c \<longleftrightarrow> (\<forall>(k, v) \<in> set (mc_variants c). \<forall>s w.
     lib_into J s (cv_schemaType v) (zero_of (cv_schemaType v)) = (None, w) \<longrightarrow>
       well_typed w \<and> typeof w = Some (cv_schemaType v))"

lemma field_found: "findStructFieldByJSONName t n = Some i \<Longrightarrow> i < length (fields_of t)"
  unfolding findStructFieldByJSONName_def by (drule find_index_SomeD) simp

lemma retype_same: "typeof w = Some t \<Longrightarrow> retype t w = w"
  by (cases w) auto

lemma pointer_is_larger: "underlying t \<noteq> TPointer t"
proof
  assume "underlying t = TPointer t"
  moreover have "size (underlying t) \<le> size t" by (induction t rule: underlying.induct) simp_all
  ultimately show False by simp
qed

lemma validate_pointer:
  assumes "typeof w = Some t" and "well_typed w" and "kind_of t \<noteq> KPointer"
  shows "validateWebSocketSchemaValue L (VPtr (TPointer t) (Some (a, w))) schema d = validateWebSocketSchemaValue L w schema d"
proof -
  have "sv_validate L sv (VPtr (TPointer t) (Some (a, w))) = sv_validate L sv w" for sv
    using sv_validate_value[OF assms(3,2,1)] by (simp add: sv_validate_def)
  moreover have "w \<noteq> VNil" using assms(1) by auto
  ultimately show ?thesis
    unfolding validateWebSocketSchemaValue_def assms(1) typeof.simps option.map strip_pointers_pointer Let_def
    by (simp cong: sum.case_cong)
qed

text \<open>What a payload field stores of a valid payload is valid.\<close>

lemma stored_payload_valid:
  assumes "payload_field c ft" and "(k, v) \<in> set (mc_variants c)"
    and "kind_of ft = KInterface \<or> well_typed w \<and> typeof w = Some (cv_schemaType v)"
    and f: "field_value J ft w = Returns (Inr x)" and "validateWebSocketSchemaValue L w (cv_schema v) d = ok"
  shows "validateWebSocketSchemaValue L x (cv_schema v) d = ok"
proof (cases "kind_of ft = KInterface")
  case True
  then have "x = w" using f by (auto simp: field_value_def split: option.split_asm if_split_asm)
  with assms(5) show ?thesis by simp
next
  case False
  let ?t = "cv_schemaType v"
  have w: "well_typed w" "typeof w = Some ?t" using assms(3) False by auto
  have "storable ?t ft"
    using f False w(2) by (auto simp: field_value_def storable_def split: if_split_asm)
  with assms(1,2) False have ft: "kind_of ?t \<noteq> KPointer" "ft = ?t \<or> ft = TPointer ?t"
    by (fastforce simp: payload_field_def)+
  show ?thesis
  proof (cases "ft = ?t")
    case True
    have "AssignableTo ?t ?t" by (simp add: AssignableTo_def)
    with f True w(2) False have "x = w" by (simp add: field_value_def retype_same)
    with assms(5) show ?thesis by simp
  next
    case False
    then have p: "ft = TPointer ?t" using ft(2) by simp
    have na: "\<not> AssignableTo ?t (TPointer ?t)"
      using pointer_is_larger[of ?t] by (auto simp: AssignableTo_def dest: arg_cong[where f = size])
    have "AssignableTo ?t ?t" "AssignableTo (TPointer ?t) (TPointer ?t)" by (simp_all add: AssignableTo_def)
    with f na w(2) have "x = VPtr (TPointer ?t) (Some (lib_address J, w))"
      by (simp add: p field_value_def elem_of_def)
    with validate_pointer[OF w(2,1) ft(1)] assms(5) show ?thesis by simp
  qed
qed

lemma populate_envelope:
  assumes "envelope_type c t i j" and "populateWebSocketEnvelope J (VPtr (TPointer t) (Some (a, VStruct t vs)))
      (mc_discriminator c) k w = Returns (None, dst')"
  shows "\<exists>x. field_value J (sf_type (fields_of t ! j)) w = Returns (Inr x)
    \<and> dst' = VPtr (TPointer t) (Some (a, VStruct t (vs[i := VString (sf_type (fields_of t ! i)) k, j := x])))"
proof (cases "field_value J (sf_type (fields_of t ! j)) w")
  case (Returns r)
  then show ?thesis
    using assms by (cases r) (auto simp: envelope_type_def populateWebSocketEnvelope_def elem_of_def fields_in_def Let_def)
next
  case Panics
  with assms show ?thesis by (simp add: envelope_type_def populateWebSocketEnvelope_def elem_of_def fields_in_def Let_def)
qed

text \<open>C31. A decoded envelope is a valid message: what \<open>decode\<close> stores in a struct that is no variant, with
  a string field for the discriminator and a payload field of an interface type or of the type of
  one variant (or a pointer to it), is accepted by \<open>validate\<close> of the same contract.\<close>

theorem decoded_envelope_validates:
  assumes "mc_decode J c payload (VPtr (TPointer t) (Some (a, VStruct t vs))) d = Returns (None, dst')"
    and "envelope_type c t i j" and "length vs = length (fields_of t)"
    and "kind_of (sf_type (fields_of t ! j)) = KInterface \<or> decodes_typed J c"
  shows "mc_validate (lib_rules J) c dst' d = ok"
proof -
  let ?dst = "VPtr (TPointer t) (Some (a, VStruct t vs))"
  have t: "kind_of t = KStruct" "i < length vs" "j < length vs"
    using assms(2,3) field_found[of t] by (auto simp: envelope_type_def)
  have nv: "variantForTarget c ?dst = None" using assms(2) t
    by (simp add: variantForTarget_def variantForType_def envelope_type_def)
  obtain k v w where k: "accepted_as J c payload d k v w"
    and p: "populateWebSocketEnvelope J ?dst (mc_discriminator c) k w = Returns (None, dst')"
    using envelope_accepted[OF assms(1) nv] by blast
  obtain x where x: "field_value J (sf_type (fields_of t ! j)) w = Returns (Inr x)"
    and d': "dst' = VPtr (TPointer t) (Some (a, VStruct t (vs[i := VString (sf_type (fields_of t ! i)) k, j := x])))"
    using populate_envelope[OF assms(2) p] by blast
  have mv: "map_of (mc_variants c) k = Some v" "validateWebSocketSchemaValue (lib_rules J) w (cv_schema v) d = ok"
    using k by (auto simp: accepted_as_def)
  have ij: "i \<noteq> j" using assms(2) by (simp add: envelope_type_def)
  have "kind_of (sf_type (fields_of t ! j)) = KInterface \<or> well_typed w \<and> typeof w = Some (cv_schemaType v)"
  proof (rule disjE[OF assms(4)])
    assume "decodes_typed J c"
    then have "lib_into J s (cv_schemaType v) (zero_of (cv_schemaType v)) = (None, w) \<Longrightarrow>
        well_typed w \<and> typeof w = Some (cv_schemaType v)" for s
      using map_of_SomeD[OF mv(1)] unfolding decodes_typed_def by blast
    then show ?thesis using k mv(1) by (auto simp: accepted_as_def)
  qed blast
  note w = this
  have pf: "payload_field c (sf_type (fields_of t ! j))" using assms(2) by (simp add: envelope_type_def)
  have "validateWebSocketSchemaValue (lib_rules J) x (cv_schema v) d = ok"
    by (rule stored_payload_valid[OF pf map_of_SomeD[OF mv(1)] w x mv(2)])
  moreover have "extractEnvelopePayload c dst' = Some (k, x)"
    using assms(2) t ij by (simp add: d' extractEnvelopePayload_def envelope_type_def elem_of_def fields_in_def string_in_def)
  moreover have "variantForValue c dst' = None" using nv by (simp add: d' variantForValue_def variantForTarget_def)
  ultimately show ?thesis using mv(1) by (simp add: mc_validate_def d')
qed

subsection \<open>A protocol\<close>

text \<open>Two variants, a chat line that must have a text and a message that joins a room, and an envelope
  for both. The decoder is the one of the three texts below.\<close>

definition chatT :: gotype where
  "chatT = TNamed ''main.Chat'' [] []
     (TStruct [SField ''Text'' TString (tagged ''json'' ''text'' @ '' '' @ tagged ''validate'' ''required'') False])"

definition joinT :: gotype where
  "joinT = TNamed ''main.Join'' [] [] (TStruct [SField ''Room'' TString (tagged ''json'' ''room'') False])"

definition envT :: gotype where
  "envT = TNamed ''main.Envelope'' [] []
     (TStruct [SField ''Type'' TString (tagged ''json'' ''type'') False,
               SField ''Payload'' TAny (tagged ''json'' ''payload'') False])"

definition demo_family :: WebSocketMessageFamily where
  "demo_family = \<lparr>wf_Description = [], wf_Discriminator = '' '',
     wf_Variants = [\<lparr>wm_Type = ''chat'', wm_Schema = VStruct chatT [str []], wm_Description = [], wm_Example = VNil\<rparr>,
                    \<lparr>wm_Type = ''join'', wm_Schema = VPtr (TPointer joinT) None, wm_Description = [], wm_Example = VNil\<rparr>,
                    \<lparr>wm_Type = ''ping'', wm_Schema = VNil, wm_Description = [], wm_Example = VNil\<rparr>]\<rparr>"

definition demo_contract :: compiledWebSocketMessageContract where
  "demo_contract = \<lparr>mc_discriminator = ''type'',
     mc_variants = [(''chat'', \<lparr>cv_messageType = ''chat'', cv_schema = VStruct chatT [str []], cv_schemaType = chatT\<rparr>),
                    (''join'', \<lparr>cv_messageType = ''join'', cv_schema = VStruct joinT [str []], cv_schemaType = joinT\<rparr>)],
     mc_bySchemaType = [(chatT, \<lparr>cv_messageType = ''chat'', cv_schema = VStruct chatT [str []], cv_schemaType = chatT\<rparr>),
                        (joinT, \<lparr>cv_messageType = ''join'', cv_schema = VStruct joinT [str []], cv_schemaType = joinT\<rparr>)]\<rparr>"

lemma demo_types [simp]:
  "kind_of chatT = KStruct" "kind_of joinT = KStruct" "kind_of envT = KStruct"
  "chatT \<noteq> joinT" "joinT \<noteq> chatT" "envT \<noteq> chatT" "envT \<noteq> joinT"
  by (simp_all add: chatT_def joinT_def envT_def)

lemma zero_joinT: "zero_of joinT = VStruct joinT [str []]"
  by (simp add: zero_of.simps joinT_def kind_class_defs fields_of_def)

lemma zero_chatT: "zero_of chatT = VStruct chatT [str []]"
  by (simp add: zero_of.simps chatT_def kind_class_defs fields_of_def)

lemma demo_compiles: "compileWebSocketMessageContract demo_family = Some demo_contract"
proof -
  have "NormalizedDiscriminator demo_family = ''type''"
    by (simp add: NormalizedDiscriminator_def demo_family_def TrimSpace_def is_space_def)
  then show ?thesis
    by (simp add: compileWebSocketMessageContract_def demo_family_def family_IsZero_def add_variant_eq compiled_of_def
        resolveWebSocketVariantType_def resolve_from.simps elem_of_def zero_joinT demo_contract_def map_put_def)
qed

text \<open>Three texts: a chat line, a chat line without text, and a room joined. A decoder of a struct
  stores the fields it knows and skips the others.\<close>

definition demo_object :: "gostring \<Rightarrow> gerr + gostring gomap" where
  "demo_object s =
     (if s = ''{chat:hi}'' then Inr [(''type'', ''chat''), (''payload'', ''{text:hi}'')]
      else if s = ''{chat:}'' then Inr [(''type'', ''chat''), (''payload'', ''{}'')]
      else if s = ''{join:x}'' then Inr [(''type'', ''join''), (''payload'', ''{room:x}'')]
      else Inl (LibErr ''syntax''))"

definition demo_into :: "gostring \<Rightarrow> gotype \<Rightarrow> goval \<Rightarrow> gerr option \<times> goval" where
  "demo_into s t v =
     (if s = ''{text:hi}'' \<and> t = chatT then (None, VStruct t [str ''hi''])
      else if s = ''{room:x}'' \<and> t = joinT then (None, VStruct t [str ''x''])
      else (None, v))"

definition demo_json :: "stdlib \<Rightarrow> wslib" where
  "demo_json L = \<lparr>lib_rules = L, lib_into = demo_into, lib_object = demo_object, lib_string = Inr,
     lib_address = 7, lib_marshal = (\<lambda>v. Inr ''text'')\<rparr>"

abbreviation new_envelope :: goval where
  "new_envelope \<equiv> VPtr (TPointer envT) (Some (5, VStruct envT [str [], VNil]))"

lemma demo_rules:
  "buildWebSocketFieldRules chatT = [\<lparr>fr_index = 0, fr_rule = ''required'', fr_name = ''Text''\<rparr>]"
  "buildWebSocketFieldRules joinT = []"
  by code_simp+

lemma demo_envelope_fields: "findStructFieldByJSONName envT ''type'' = Some 0" "findStructFieldByJSONName envT ''payload'' = Some 1"
  by code_simp+

lemma demo_envelope: "envelope_type demo_contract envT 0 1"
  using demo_envelope_fields by (simp add: envelope_type_def payload_field_def demo_contract_def) (simp add: envT_def fields_of_def)

lemma demo_required: "Validate L (str ''hi'') ''required'' = ok" "\<exists>e. Validate L (str []) ''required'' = err e"
proof -
  have v: "map_of Validators ''required'' = Some IsRequired" by (simp add: Validators_def)
  have r: "parseRules ''required'' = [\<lparr>rdf_Name = ''required'', rdf_Args = []\<rparr>]" by code_simp
  show "Validate L (str ''hi'') ''required'' = ok" "\<exists>e. Validate L (str []) ''required'' = err e"
    using v by (simp_all add: Validate_def r NewContextValidatorFn_def IsRequired_def vkind_def)
qed

lemma demo_exported: "exported ''Text''" by code_simp

lemma demo_chat_ok: "validateWebSocketSchemaValue L (VStruct chatT [str ''hi'']) (VStruct chatT [str []]) d = ok"
  by (simp add: validateWebSocketSchemaValue_def structValidator_def demo_rules sv_validate_def demo_required
      demo_exported Let_def)

definition demo_chat :: compiledWebSocketVariant where
  "demo_chat = \<lparr>cv_messageType = ''chat'', cv_schema = VStruct chatT [str []], cv_schemaType = chatT\<rparr>"

definition demo_join :: compiledWebSocketVariant where
  "demo_join = \<lparr>cv_messageType = ''join'', cv_schema = VStruct joinT [str []], cv_schemaType = joinT\<rparr>"

lemma demo_contract_parts [simp]:
  "mc_discriminator demo_contract = ''type''"
  "map_of (mc_variants demo_contract) ''chat'' = Some demo_chat"
  "map_of (mc_variants demo_contract) ''join'' = Some demo_join"
  "map_of (mc_bySchemaType demo_contract) chatT = Some demo_chat"
  "map_of (mc_bySchemaType demo_contract) joinT = Some demo_join"
  "map_of (mc_bySchemaType demo_contract) envT = None"
  "cv_schemaType demo_chat = chatT" "cv_schema demo_chat = VStruct chatT [str []]"
  "cv_schemaType demo_join = joinT" "cv_schema demo_join = VStruct joinT [str []]"
  by (simp_all add: demo_contract_def demo_chat_def demo_join_def)

lemma demo_json_parts [simp]:
  "lib_rules (demo_json L) = L" "lib_object (demo_json L) = demo_object" "lib_string (demo_json L) = Inr"
  "lib_into (demo_json L) = demo_into"
  by (simp_all add: demo_json_def)

lemma demo_decodes:
  "extractWireEnvelope (demo_json L) demo_contract ''{chat:hi}'' d = Inr (''chat'', ''{text:hi}'')"
  "extractWireEnvelope (demo_json L) demo_contract ''{join:x}'' d = Inr (''join'', ''{room:x}'')"
  "decodeWebSocketVariantPayload (demo_json L) ''{text:hi}'' chatT = Inr (VStruct chatT [str ''hi''])"
  by (simp_all add: extractWireEnvelope_def demo_object_def decodeWebSocketVariantPayload_def demo_into_def)

lemma demo_populate:
  "populateWebSocketEnvelope (demo_json L) new_envelope ''type'' ''chat'' (VStruct chatT [str ''hi'']) =
     Returns (None, VPtr (TPointer envT) (Some (5, VStruct envT [str ''chat'', VStruct chatT [str ''hi'']])))"
proof -
  have "sf_type (fields_of envT ! 0) = TString" "sf_type (fields_of envT ! 1) = TAny"
    by (simp_all add: envT_def fields_of_def)
  moreover have "implements chatT (methods_of TAny)" by (simp add: implements_def)
  ultimately show ?thesis
    by (simp add: populateWebSocketEnvelope_def elem_of_def demo_envelope_fields fields_in_def field_value_def Let_def)
qed

lemma demo_target [simp]: "variantForTarget demo_contract new_envelope = None"
  by (simp add: variantForTarget_def variantForType_def)

lemma demo_decoded:
  "mc_decode (demo_json L) demo_contract ''{chat:hi}'' new_envelope d =
     Returns (None, VPtr (TPointer envT) (Some (5, VStruct envT [str ''chat'', VStruct chatT [str ''hi'']])))"
  by (simp add: mc_decode_envelope decode_envelope_def demo_decodes demo_populate demo_chat_ok)

theorem accepted_message_is_declared_witness:
  "\<exists>k v w. accepted_as (demo_json demo_lib) demo_contract ''{chat:hi}'' WebSocketInbound k v w"
  using accepted_message_is_declared[OF demo_decoded[of demo_lib WebSocketInbound] demo_target] by blast

lemma demo_envelope_type: "kind_of (sf_type (fields_of envT ! 1)) = KInterface"
  by (simp add: envT_def fields_of_def)

text \<open>An envelope as the documentation writes them, with the payload type of one variant.\<close>

definition chatEnvT :: gotype where
  "chatEnvT = TNamed ''main.ChatEnvelope'' [] []
     (TStruct [SField ''Type'' TString (tagged ''json'' ''type'') False,
               SField ''Payload'' chatT (tagged ''json'' ''payload'') False])"

lemma chatEnv_fields:
  "kind_of chatEnvT = KStruct" "fields_of chatEnvT ! 0 = SField ''Type'' TString (tagged ''json'' ''type'') False"
  "fields_of chatEnvT ! Suc 0 = SField ''Payload'' chatT (tagged ''json'' ''payload'') False" "length (fields_of chatEnvT) = 2"
  by (simp_all add: chatEnvT_def fields_of_def)

lemma chatEnv_found: "findStructFieldByJSONName chatEnvT ''type'' = Some 0" "findStructFieldByJSONName chatEnvT ''payload'' = Some 1"
  by code_simp+

lemma join_not_storable: "\<not> storable joinT chatT"
  by code_simp

lemma chatEnv_type: "envelope_type demo_contract chatEnvT 0 1"
proof -
  have "map_of (mc_bySchemaType demo_contract) chatEnvT = None"
    by (simp add: demo_contract_def) (simp add: chatT_def joinT_def chatEnvT_def)
  moreover have "payload_field demo_contract chatT"
    using join_not_storable by (auto simp: payload_field_def demo_contract_def)
  ultimately show ?thesis by (simp add: envelope_type_def chatEnv_fields chatEnv_found)
qed

lemma demo_typed: "decodes_typed (demo_json L) demo_contract"
proof -
  have "length (fields_of chatT) = 1" "length (fields_of joinT) = 1"
    by (simp_all add: chatT_def joinT_def fields_of_def)
  then show ?thesis
    by (auto simp: decodes_typed_def demo_contract_def demo_into_def zero_chatT zero_joinT split: if_splits)
qed

lemma chatEnv_decoded:
  "mc_decode (demo_json L) demo_contract ''{chat:hi}'' (VPtr (TPointer chatEnvT) (Some (5, VStruct chatEnvT [str [], VStruct chatT [str []]]))) d =
     Returns (None, VPtr (TPointer chatEnvT) (Some (5, VStruct chatEnvT [str ''chat'', VStruct chatT [str ''hi'']])))"
proof -
  have t: "variantForTarget demo_contract (VPtr (TPointer chatEnvT) (Some (5, VStruct chatEnvT [str [], VStruct chatT [str []]]))) = None"
    using chatEnv_type by (simp add: variantForTarget_def variantForType_def envelope_type_def)
  have "AssignableTo chatT chatT" by (simp add: AssignableTo_def)
  then have "populateWebSocketEnvelope (demo_json L) (VPtr (TPointer chatEnvT) (Some (5, VStruct chatEnvT [str [], VStruct chatT [str []]])))
      ''type'' ''chat'' (VStruct chatT [str ''hi'']) =
      Returns (None, VPtr (TPointer chatEnvT) (Some (5, VStruct chatEnvT [str ''chat'', VStruct chatT [str ''hi'']])))"
    by (simp add: populateWebSocketEnvelope_def elem_of_def chatEnv_found chatEnv_fields fields_in_def field_value_def Let_def)
  then show ?thesis
    by (simp add: mc_decode_envelope t decode_envelope_def demo_decodes demo_chat_ok)
qed

theorem decoded_envelope_validates_witness:
  "mc_validate demo_lib demo_contract
     (VPtr (TPointer envT) (Some (5, VStruct envT [str ''chat'', VStruct chatT [str ''hi'']]))) WebSocketInbound = ok
   \<and> mc_validate demo_lib demo_contract
     (VPtr (TPointer chatEnvT) (Some (5, VStruct chatEnvT [str ''chat'', VStruct chatT [str ''hi'']]))) WebSocketInbound = ok"
  using decoded_envelope_validates[OF demo_decoded[of demo_lib WebSocketInbound] demo_envelope] demo_envelope_type
    decoded_envelope_validates[OF chatEnv_decoded[of demo_lib WebSocketInbound] chatEnv_type] demo_typed
  by (simp add: chatEnv_fields) (simp add: envT_def fields_of_def)

text \<open>The envelope of a chat line, decoded into a \<open>*Join\<close>, which has no rules: it is accepted as a room
  with an empty name.\<close>

theorem direct_decoding_skips_discriminator_witness:
  "mc_decode (demo_json demo_lib) demo_contract ''{chat:hi}'' (VPtr (TPointer joinT) (Some (5, VStruct joinT [str []])))
     WebSocketInbound = Returns (None, VPtr (TPointer joinT) (Some (5, VStruct joinT [str []])))"
  by (rule direct_decoding_skips_discriminator[of _ _ demo_join])
     (simp_all add: variantForTarget_def variantForType_def Unmarshal_def elem_of_def demo_into_def
        validateWebSocketSchemaValue_def structValidator_def demo_rules sv_validate_def Let_def)

definition room_family :: WebSocketMessageFamily where
  "room_family = demo_family\<lparr>wf_Variants := tl (wf_Variants demo_family)\<rparr>"

lemma room_compiles:
  "compileWebSocketMessageContract room_family =
     Some \<lparr>mc_discriminator = ''type'', mc_variants = [(''join'', demo_join)], mc_bySchemaType = [(joinT, demo_join)]\<rparr>"
proof -
  have "NormalizedDiscriminator room_family = ''type''"
    by (simp add: NormalizedDiscriminator_def room_family_def demo_family_def TrimSpace_def is_space_def)
  then show ?thesis
    by (simp add: compileWebSocketMessageContract_def room_family_def demo_family_def family_IsZero_def add_variant_eq
        compiled_of_def resolveWebSocketVariantType_def resolve_from.simps elem_of_def zero_joinT demo_join_def map_put_def)
qed

theorem documentation_matches_contract_witness:
  "case compileWebSocketMessageFamily demo_cm room_family of
     Done s \<Rightarrow> map (\<lambda>b. os_Title (oa b)) (oa_OneOf s) = [''join'', ''ping'']
             \<and> map_of (mc_variants (the (compileWebSocketMessageContract room_family))) ''ping'' = None
   | _ \<Rightarrow> False"
proof -
  have c: "case compileWebSocketMessageFamily demo_cm room_family of Done s \<Rightarrow> True | _ \<Rightarrow> False" by code_simp
  then obtain s where s: "compileWebSocketMessageFamily demo_cm room_family = Done s" by (auto split: run.splits)
  have t: "map wm_Type (wf_Variants room_family) = [''join'', ''ping'']" by (simp add: room_family_def demo_family_def)
  from documentation_matches_contract[OF s room_compiles] s show ?thesis by (simp add: room_compiles t)
qed

subsection \<open>The two validators\<close>

text \<open>The schemas of the options are checked by a copy of the validator; it agrees with the one of the
  contract as long as payload and schema are behind at most one pointer.\<close>

lemma one_pointer: "kind_of (strip_pointer t) \<noteq> KPointer \<Longrightarrow> strip_pointers t = strip_pointer t"
  by (subst strip_pointers.simps) (auto simp: strip_pointer_def split: option.splits if_splits)

theorem validators_agree:
  assumes "\<forall>t. typeof payload = Some t \<or> typeof schema = Some t \<longrightarrow> kind_of (strip_pointer t) \<noteq> KPointer"
  shows "validatePayloadSchema L payload schema d = validateWebSocketSchemaValue L payload schema d"
proof (cases "typeof schema")
  case None
  then show ?thesis by (simp add: validatePayloadSchema_def validateWebSocketSchemaValue_def)
next
  case s: (Some st)
  then have n: "schema \<noteq> VNil" by auto
  show ?thesis
  proof (cases "typeof payload")
    case None
    with n s show ?thesis by (simp add: validatePayloadSchema_def validateWebSocketSchemaValue_def)
  next
    case (Some pt)
    then have "payload \<noteq> VNil" by auto
    with n s Some assms show ?thesis
      by (simp add: validatePayloadSchema_def validateWebSocketSchemaValue_def Let_def one_pointer type_arg_def)
  qed
qed

text \<open>Behind two pointers the copy reports a mismatch of types, and the one of the contract panics when
  the struct has a rule.\<close>

theorem two_pointers_panic:
  assumes "typeof v = Some t" and "kind_of t = KStruct" and "buildWebSocketFieldRules t \<noteq> []"
  shows "validateWebSocketSchemaValue L (VPtr (TPointer (TPointer t)) (Some (a, VPtr (TPointer t) (Some (b, v))))) v d = Panics"
proof -
  obtain f fs where "buildWebSocketFieldRules t = f # fs" using assms(3) by (cases "buildWebSocketFieldRules t") auto
  moreover have "v \<noteq> VNil" using assms(1) by auto
  ultimately show ?thesis using assms
    by (simp add: validateWebSocketSchemaValue_def structValidator_def sv_validate_def Let_def)
qed

subsection \<open>Sessions\<close>

text \<open>A message is written only when the check of outbound messages has passed, and then as the text of
  the value.\<close>

theorem write_json_sends_checked:
  assumes "WriteJSON J W s v c = (r, c')" and "c' \<noteq> c"
  shows "ValidateOutbound (lib_rules J) s v = ok
       \<and> (\<exists>text. lib_marshal J v = Inr text \<and> c' = snd (wc_WriteMessage W TextMessage text c))"
  using assms
  by (auto simp: WriteJSON_def marshal_and_send_def split: call.splits option.splits sum.splits prod.splits)

text \<open>The timeouts of the options are renewed by \<open>ReadMessage\<close> and \<open>WriteMessage\<close> only.\<close>

theorem json_helpers_set_no_deadline:
  "ReadJSON J W (s\<lparr>se_readTimeout := t\<rparr>) dst c = ReadJSON J W s dst c
   \<and> WriteJSON J W (s\<lparr>se_writeTimeout := t\<rparr>) v c = WriteJSON J W s v c
   \<and> (t > 0 \<longrightarrow> ReadMessage W now (s\<lparr>se_readTimeout := t\<rparr>) c = wc_ReadMessage W (wc_SetReadDeadline W (now + t) c))"
proof -
  have "ValidateInbound L (s\<lparr>se_readTimeout := t\<rparr>) = ValidateInbound L s" for L
    by (cases s) (intro ext, simp only: ValidateInbound_def Session.select_convs Session.update_convs)
  moreover have "ValidateOutbound L (s\<lparr>se_writeTimeout := t\<rparr>) = ValidateOutbound L s" for L
    by (cases s) (intro ext, simp only: ValidateOutbound_def Session.select_convs Session.update_convs)
  moreover have "se_rules (s\<lparr>se_readTimeout := t\<rparr>) = se_rules s" by simp
  ultimately show ?thesis by (simp only: ReadJSON_def WriteJSON_def) (simp add: ReadMessage_def)
qed

text \<open>C29. A session leaves nothing behind: however its handler ends, by a return, an error or a panic, and
  whatever it does to the registry, the session is out of the registry and its last action on
  the connection was to close it.\<close>

theorem session_cleans_up:
  assumes "NewWithSessionAndOptions W me now elapsed srs o' handler st = (r, st')"
    and "\<forall>g. ss_reg st = Some g \<longrightarrow> me \<notin> rg_sessions g"
  shows "(\<forall>g. ss_reg st' = Some g \<longrightarrow> me \<notin> rg_sessions g) \<and> (\<exists>c. ss_conn st' = snd (wc_Close W c))"
proof -
  have c: "\<exists>c. snd (CloseWithReason W now s code reason x) = snd (wc_Close W c)" for s code reason x
    by (simp add: CloseWithReason_def Let_def split_beta) blast
  have e: "(\<forall>g. ss_reg (end_session W me elapsed o' x) = Some g \<longrightarrow> me \<notin> rg_sessions g)
      \<and> (\<exists>c. ss_conn (end_session W me elapsed o' x) = snd (wc_Close W c))" for x
    by (auto simp: end_session_def untrack_def)
  from assms c e show ?thesis
    unfolding NewWithSessionAndOptions_def
    by (auto simp: Let_def track_def split: prod.splits option.splits if_splits call.splits)
qed

subsection \<open>The handshake\<close>

text \<open>The policy of a route: without a schema, or switched off, nothing is validated; the selective mode
  validates the selected parts; everything else, also an unknown mode and a selective one without
  selectors, validates the whole request.\<close>

theorem handshake_policy:
  "handshake_selectors (DefineWebSocket_options r hp schema) =
     (if schema = VNil \<or> hp_Mode hp = HandshakeOff then None
      else Some (if hp_Mode hp = HandshakeSelective then hp_Selectors hp else []))"
  by (simp add: handshake_selectors_def DefineWebSocket_options_def applyHandshakePolicy_def Let_def
      HandshakeOff_def HandshakeSelective_def)

definition attempted :: "(('f, 'v) reqctx) Options \<Rightarrow> ('f, 'v) reqctx \<Rightarrow> ('f, 'v) reqctx" where
  "attempted o' c = on_hook (hk_OnUpgradeAttempt (wo_Hooks o')) c"

lemma validate_handshake_ok:
  assumes "validate_handshake F msg env srs o' h = (Returned None, h1)"
  shows "hs_ctx h1 = hs_ctx h \<and> hs_session h1 = hs_session h
       \<and> (\<forall>sel. handshake_selectors o' = Some sel \<longrightarrow>
            (\<exists>cache. Request_Validate (env_reads F (base (hs_ctx h)) env) srs sel (hs_cache h) = Returns (None, cache)))"
  using assms by (auto simp: validate_handshake_def split: option.splits call.splits prod.splits)

lemma validate_handshake_session: "hs_session (snd (validate_handshake F msg env srs o' h)) = hs_session h"
  by (auto simp: validate_handshake_def split: option.splits call.splits prod.splits)

lemma upgrade_session:
  assumes "upgrade F U o' h = (r, h')" and "hs_session h' \<noteq> hs_session h"
  shows "hs_session h' = Some (ctx_Copy F (hs_ctx h)) \<and> fst (ug_Upgrade U (fctx (base (hs_ctx h)))) = None \<and> r = Returned None"
  using assms by (auto simp: upgrade_def send_text_def Let_def split: prod.splits option.splits if_splits)

text \<open>C28. No session without a valid handshake: when the handler starts a session, the registry was not
  draining, the request asked for an upgrade and the upgrader agreed, the request passed the
  validation the options ask for, and the session works on a detached copy of the context.\<close>

theorem session_needs_valid_handshake:
  assumes "NewWithContextAndOptions F U msg env srs reg o' h = (r, h')"
    and "hs_session h = None" and "hs_session h' = Some cc"
  shows "\<not> IsDraining reg \<and> r = Returned None \<and> ug_IsUpgrade U (fctx (base (attempted o' (hs_ctx h))))
       \<and> fst (ug_Upgrade U (fctx (base (attempted o' (hs_ctx h))))) = None
       \<and> (\<forall>sel. handshake_selectors o' = Some sel \<longrightarrow>
            (\<exists>cache. Request_Validate (env_reads F (base (attempted o' (hs_ctx h))) env) srs sel (hs_cache h)
                       = Returns (None, cache)))
       \<and> cc = ctx_Copy F (attempted o' (hs_ctx h)) \<and> detached (base cc)"
proof -
  let ?h = "h\<lparr>hs_ctx := attempted o' (hs_ctx h)\<rparr>"
  have d: "\<not> IsDraining reg" and u: "ug_IsUpgrade U (fctx (base (hs_ctx ?h)))"
    using assms by (auto simp: NewWithContextAndOptions_def attempted_def send_text_def Let_def split: if_splits)
  obtain r1 h1 where v: "validate_handshake F msg env srs o' ?h = (r1, h1)" by fastforce
  have "r1 = Returned None"
  proof (rule ccontr)
    assume "r1 \<noteq> Returned None"
    then have "h' = h1" using assms(1) d u v
      by (auto simp: NewWithContextAndOptions_def attempted_def Let_def split: outcome.splits option.splits)
    then show False using validate_handshake_session[of F msg env srs o' ?h] v assms(2,3) by simp
  qed
  with v have ok: "validate_handshake F msg env srs o' ?h = (Returned None, h1)" by simp
  have up: "upgrade F U o' h1 = (r, h')"
    using assms(1) d u ok by (simp add: NewWithContextAndOptions_def attempted_def Let_def)
  note f = validate_handshake_ok[OF ok]
  have "hs_session h' \<noteq> hs_session h1" using f assms(2,3) by simp
  from upgrade_session[OF up this] f d u assms(3) show ?thesis
    by (auto simp: ctx_Copy_def Let_def)
qed

text \<open>A draining registry and a request without upgrade are answered before anything is validated.\<close>

theorem handshake_refusals:
  assumes "hk_OnUpgradeAttempt (wo_Hooks o') = None"
  shows "IsDraining reg \<Longrightarrow> NewWithContextAndOptions F U msg env srs reg o' h = send_text F 503 ''websocket server draining'' h"
    and "\<not> IsDraining reg \<Longrightarrow> \<not> ug_IsUpgrade U (fctx (base (hs_ctx h))) \<Longrightarrow>
           NewWithContextAndOptions F U msg env srs reg o' h = send_text F 426 ''websocket upgrade required'' h"
  using assms by (simp_all add: NewWithContextAndOptions_def on_hook_def)

subsection \<open>A run\<close>

definition no_hooks :: "'x Hooks" where
  "no_hooks = \<lparr>hk_OnUpgradeAttempt = None, hk_OnUpgradeSuccess = None, hk_OnUpgradeError = None,
     hk_OnSessionStart = None, hk_OnSessionEnd = None, hk_OnSessionError = None\<rparr>"

definition demo_runtime :: "'x RuntimeOptions" where
  "demo_runtime = \<lparr>rt_MaxMessageBytes = 512, rt_ReadTimeout = 0, rt_WriteTimeout = 0, rt_Hooks = no_hooks, rt_tracked = True\<rparr>"

text \<open>A connection that keeps its last frame and whether it is closed.\<close>

definition demo_conn :: "(gostring \<times> bool) connlib" where
  "demo_conn = \<lparr>wc_SetReadLimit = (\<lambda>n c. c), wc_SetReadDeadline = (\<lambda>t c. c), wc_SetWriteDeadline = (\<lambda>t c. c),
     wc_ReadMessage = (\<lambda>c. (Inr (TextMessage, fst c), c)), wc_WriteMessage = (\<lambda>m b c. (None, (b, snd c))),
     wc_WriteControl = (\<lambda>m b t c. (None, (b, snd c))), wc_FormatCloseMessage = (\<lambda>n s. s), wc_Close = (\<lambda>c. (None, (fst c, True)))\<rparr>"

definition demo_upgrader :: "web upgrader" where
  "demo_upgrader = \<lparr>ug_IsUpgrade = (\<lambda>f. True), ug_Upgrade = (\<lambda>f. (None, f)), ug_Hijacked = (\<lambda>f. False)\<rparr>"

definition demo_state :: "(nat, gostring \<times> bool) session_state" where
  "demo_state = \<lparr>ss_ctx = 0, ss_conn = (''{chat:hi}'', False), ss_reg = Some NewSessionRegistry\<rparr>"

text \<open>The handler of the run writes a message and panics.\<close>

definition demo_handler :: "(nat, gostring \<times> bool) session_handler" where
  "demo_handler s st =
     (Panics, st\<lparr>ss_conn := snd (marshal_and_send (demo_json demo_lib) demo_conn (str ''hi'') (ss_conn st))\<rparr>)"

definition demo_options :: "gostring \<Rightarrow> goval \<Rightarrow> 'x Options" where
  "demo_options mode schema = DefineWebSocket_options demo_runtime \<lparr>hp_Mode = mode, hp_Selectors = []\<rparr> schema"

lemma demo_options_parts [simp]:
  "wo_Hooks (demo_options m s) = no_hooks" "wo_MaxMessageBytes (demo_options m s) = 512"
  "wo_ReadTimeout (demo_options m s) = 0" "wo_WriteTimeout (demo_options m s) = 0"
  by (simp_all add: demo_options_def DefineWebSocket_options_def applyHandshakePolicy_def Let_def demo_runtime_def)

lemma demo_session_runs:
  "NewWithSessionAndOptions demo_conn 4 0 9 None (demo_options [] VNil) demo_handler demo_state =
     (Panics, demo_state\<lparr>ss_conn := (''text'', True)\<rparr>)"
  by (simp add: NewWithSessionAndOptions_def demo_state_def prepare_conn_def demo_conn_def track_def NewSessionRegistry_def
      demo_handler_def marshal_and_send_def demo_json_def end_session_def untrack_def no_hooks_def on_hook_def Let_def)

theorem session_cleans_up_witness:
  "4 \<notin> rg_sessions (the (ss_reg (demo_state\<lparr>ss_conn := (''text'', True)\<rparr>)))
   \<and> (\<exists>c. (''text'', True) = snd (wc_Close demo_conn c))"
  using session_cleans_up[OF demo_session_runs] by (simp add: demo_state_def NewSessionRegistry_def)

definition demo_handshake :: "(web, nat) handshake" where
  "demo_handshake = \<lparr>hs_ctx = demo_ctx ''GET'' ''/ws'', hs_cache = no_cache, hs_session = None\<rparr>"

lemma demo_request_ok:
  "Request_Validate env (Some (newSchemaRules None)) [] no_cache =
     Returns (None, \<lparr>bc_bound = True, bc_err = None, bc_val = None\<rparr>)"
proof -
  have "buildRequestPartMask [] = Inr partAll" by (simp add: buildRequestPartMask_def)
  then show ?thesis
    by (simp add: Request_Validate_def no_cache_def validateAndOrBindRequest_def newSchemaRules_def)
qed

lemma demo_selectors: "handshake_selectors (demo_options HandshakeAuto (str [])) = Some []"
  by (simp add: demo_options_def handshake_selectors_def DefineWebSocket_options_def applyHandshakePolicy_def Let_def
      HandshakeAuto_def HandshakeOff_def HandshakeSelective_def)

lemma demo_handshake_runs:
  "NewWithContextAndOptions web_fasthttp demo_upgrader (\<lambda>e. []) env (Some (newSchemaRules None)) None
     (demo_options HandshakeAuto (str [])) demo_handshake =
     (Returned None, demo_handshake\<lparr>hs_cache := \<lparr>bc_bound = True, bc_err = None, bc_val = None\<rparr>,
                       hs_session := Some (ctx_Copy web_fasthttp (hs_ctx demo_handshake))\<rparr>)"
  by (simp add: NewWithContextAndOptions_def IsDraining_def demo_upgrader_def validate_handshake_def demo_selectors
      demo_request_ok upgrade_def no_hooks_def on_hook_def Let_def demo_handshake_def)

theorem session_needs_valid_handshake_witness:
  "detached (base (ctx_Copy web_fasthttp (hs_ctx demo_handshake)))
   \<and> (\<exists>cache. Request_Validate (env_reads web_fasthttp
        (base (attempted (demo_options HandshakeAuto (str [])) (hs_ctx demo_handshake))) demo_env)
        (Some (newSchemaRules None)) [] (hs_cache demo_handshake) = Returns (None, cache))"
proof -
  have s: "hs_session demo_handshake = None" by (simp add: demo_handshake_def)
  have t: "hs_session (demo_handshake\<lparr>hs_cache := \<lparr>bc_bound = True, bc_err = None, bc_val = None\<rparr>,
      hs_session := Some (ctx_Copy web_fasthttp (hs_ctx demo_handshake))\<rparr>) = Some (ctx_Copy web_fasthttp (hs_ctx demo_handshake))"
    by simp
  from session_needs_valid_handshake[OF demo_handshake_runs[of demo_env] s t] demo_selectors show ?thesis by blast
qed

end
