(* ===== verification/WsRegistry.thy ===== *)
theory WsRegistry
  imports WebSocket
begin

section \<open>Draining while sessions come and go\<close>

text \<open>
  \<open>DrainContext\<close> runs beside the sessions. Every step below is one atomic access to the registry or
  one call on a connection: a session loads the flag, enters the map, leaves it when its
  handler has returned, and closes its connection; the drain sets the flag, copies the map under the lock, closes what it
  copied, and replaces the map. \<open>w_late\<close> is a history variable: the sessions that had loaded the
  flag, but not yet entered the map, when the map was copied.
\<close>

datatype session_pc = Starting | Admitted | Running | Leaving | Gone

datatype drain_pc = Serving | Flagged | Closing "nat list" | Drained

record world =
  w_reg :: SessionRegistry
  w_pc :: "nat \<Rightarrow> session_pc"
  w_closed :: "nat set"
  w_drain :: drain_pc
  w_late :: "nat set"

definition start_world :: world where
  "start_world = \<lparr>w_reg = NewSessionRegistry, w_pc = (\<lambda>_. Starting), w_closed = {}, w_drain = Serving, w_late = {}\<rparr>"

text \<open>The two halves of \<open>track\<close>.\<close>

definition track_load :: "SessionRegistry \<Rightarrow> bool" where "track_load r \<longleftrightarrow> \<not> rg_draining r"

definition track_store :: "nat \<Rightarrow> SessionRegistry \<Rightarrow> SessionRegistry" where
  "track_store s r = r\<lparr>rg_sessions := insert s (rg_sessions r)\<rparr>"

lemma track_halves: "track s (Some r) = (if track_load r then (True, Some (track_store s r)) else (False, Some r))"
  by (simp add: track_def track_load_def track_store_def)

inductive session_step :: "world \<Rightarrow> world \<Rightarrow> bool" where
  admit: "w_pc w s = Starting \<Longrightarrow> track_load (w_reg w) \<Longrightarrow>
      session_step w (w\<lparr>w_pc := (w_pc w)(s := Admitted)\<rparr>)"
| refuse: "w_pc w s = Starting \<Longrightarrow> \<not> track_load (w_reg w) \<Longrightarrow>
      session_step w (w\<lparr>w_pc := (w_pc w)(s := Leaving)\<rparr>)"
| store: "w_pc w s = Admitted \<Longrightarrow>
      session_step w (w\<lparr>w_pc := (w_pc w)(s := Running), w_reg := track_store s (w_reg w)\<rparr>)"
| leave: "w_pc w s = Running \<Longrightarrow> untrack s (Some (w_reg w)) = Some r \<Longrightarrow>
      session_step w (w\<lparr>w_pc := (w_pc w)(s := Leaving), w_reg := r\<rparr>)"
| shut: "w_pc w s = Leaving \<Longrightarrow>
      session_step w (w\<lparr>w_pc := (w_pc w)(s := Gone), w_closed := insert s (w_closed w)\<rparr>)"

inductive drain_step :: "world \<Rightarrow> world \<Rightarrow> bool" where
  flag: "w_drain w = Serving \<Longrightarrow>
      drain_step w (w\<lparr>w_drain := Flagged, w_reg := (w_reg w)\<lparr>rg_draining := True\<rparr>\<rparr>)"
| copy: "w_drain w = Flagged \<Longrightarrow> set xs = rg_sessions (w_reg w) \<Longrightarrow> distinct xs \<Longrightarrow>
      drain_step w (w\<lparr>w_drain := Closing xs, w_late := {s. w_pc w s = Admitted}\<rparr>)"
| close: "w_drain w = Closing (x # xs) \<Longrightarrow>
      drain_step w (w\<lparr>w_drain := Closing xs, w_closed := insert x (w_closed w)\<rparr>)"
| clear: "w_drain w = Closing [] \<Longrightarrow>
      drain_step w (w\<lparr>w_drain := Drained, w_reg := (w_reg w)\<lparr>rg_sessions := {}\<rparr>\<rparr>)"

definition step :: "world \<Rightarrow> world \<Rightarrow> bool" where
  "step w w' \<longleftrightarrow> session_step w w' \<or> drain_step w w'"

abbreviation reaches :: "world \<Rightarrow> world \<Rightarrow> bool" where "reaches \<equiv> step\<^sup>*\<^sup>*"

inductive_cases session_stepE: "session_step w w'"
inductive_cases drain_stepE: "drain_step w w'"

subsection \<open>The invariant\<close>

definition pending :: "drain_pc \<Rightarrow> nat set" where
  "pending d = (case d of Closing xs \<Rightarrow> set xs | _ \<Rightarrow> {})"

text \<open>Up to the copy, the map holds exactly the running sessions; from the copy on, a session whose
  connection is open is either still to be closed or was late.\<close>

definition drain_inv :: "world \<Rightarrow> bool" where
  "drain_inv w \<longleftrightarrow>
     (w_drain w = Serving \<longleftrightarrow> \<not> rg_draining (w_reg w))
     \<and> rg_sessions (w_reg w) \<subseteq> {s. w_pc w s = Running}
     \<and> (w_drain w \<noteq> Drained \<longrightarrow> rg_sessions (w_reg w) = {s. w_pc w s = Running})
     \<and> (w_drain w \<notin> {Serving, Flagged} \<longrightarrow>
          {s. w_pc w s = Admitted} \<subseteq> w_late w
          \<and> {s. w_pc w s = Running} \<subseteq> w_closed w \<union> pending (w_drain w) \<union> w_late w)"

lemmas world_defs = track_load_def track_store_def untrack_def pending_def

lemma drain_inv_start: "drain_inv start_world"
  by (simp add: drain_inv_def start_world_def NewSessionRegistry_def)

lemma drain_inv_session: "session_step w w' \<Longrightarrow> drain_inv w \<Longrightarrow> drain_inv w'"
  by (erule session_stepE) (auto simp: drain_inv_def world_defs split: if_splits)

lemma drain_inv_drain: "drain_step w w' \<Longrightarrow> drain_inv w \<Longrightarrow> drain_inv w'"
  by (erule drain_stepE) (auto simp: drain_inv_def world_defs split: if_splits)

lemma drain_inv_reachable: "reaches start_world w \<Longrightarrow> drain_inv w"
  by (induction rule: rtranclp_induct)
     (auto simp: step_def intro: drain_inv_start drain_inv_session drain_inv_drain)

text \<open>A session that has been refused or has ended closes its connection.\<close>

lemma gone_closed: "reaches start_world w \<Longrightarrow> w_pc w s = Gone \<Longrightarrow> s \<in> w_closed w"
proof (induction arbitrary: s rule: rtranclp_induct)
  case base
  then show ?case by (simp add: start_world_def)
next
  case (step w w')
  then show ?case
    by (auto simp: step_def elim!: session_stepE drain_stepE split: if_splits)
qed

subsection \<open>What a drain achieves\<close>

lemma after_copy:
  assumes "reaches start_world w" and "w_drain w = Drained"
  shows "w_pc w s = Running \<Longrightarrow> s \<in> w_closed w \<union> w_late w" and "w_pc w s = Admitted \<Longrightarrow> s \<in> w_late w"
  using drain_inv_reachable[OF assms(1)] assms(2) by (auto simp: drain_inv_def pending_def)

lemma drained_refuses: "reaches start_world w \<Longrightarrow> w_drain w \<noteq> Serving \<Longrightarrow> \<not> track_load (w_reg w)"
  using drain_inv_reachable[of w] by (simp add: drain_inv_def track_load_def)

text \<open>C27. Draining is complete up to the sessions that were between their two accesses to the registry:
  when \<open>DrainContext\<close> returns, every session that still runs has a closed connection or was late,
  and a session that starts later is refused; without late sessions nothing is left open.\<close>

theorem drain_closes_all_but_late:
  assumes "reaches start_world w" and "w_drain w = Drained"
  shows "(\<forall>s. w_pc w s \<in> {Admitted, Running} \<longrightarrow> s \<in> w_closed w \<or> s \<in> w_late w)
       \<and> \<not> fst (track s (Some (w_reg w)))
       \<and> (w_late w = {} \<longrightarrow> (\<forall>s. w_pc w s = Running \<longrightarrow> s \<in> w_closed w))"
  using after_copy[OF assms] drained_refuses[OF assms(1)] assms(2) by (auto simp: track_halves)

text \<open>A run: session 0 is in the map when it is copied, session 1 has loaded the flag before it was set.\<close>

definition race :: "world list" where
  "race =
     (let w0 = start_world;
          w1 = w0\<lparr>w_pc := (w_pc w0)(0 := Admitted)\<rparr>;
          w2 = w1\<lparr>w_pc := (w_pc w1)(0 := Running), w_reg := track_store 0 (w_reg w1)\<rparr>;
          w3 = w2\<lparr>w_pc := (w_pc w2)(1 := Admitted)\<rparr>;
          w4 = w3\<lparr>w_drain := Flagged, w_reg := (w_reg w3)\<lparr>rg_draining := True\<rparr>\<rparr>;
          w5 = w4\<lparr>w_drain := Closing [0], w_late := {s. w_pc w4 s = Admitted}\<rparr>;
          w6 = w5\<lparr>w_drain := Closing [], w_closed := insert 0 (w_closed w5)\<rparr>;
          w7 = w6\<lparr>w_drain := Drained, w_reg := (w_reg w6)\<lparr>rg_sessions := {}\<rparr>\<rparr>;
          w8 = w7\<lparr>w_pc := (w_pc w7)(1 := Running), w_reg := track_store 1 (w_reg w7)\<rparr>
      in [w0, w1, w2, w3, w4, w5, w6, w7, w8])"

lemmas race_defs = race_def Let_def start_world_def NewSessionRegistry_def track_store_def

lemma race_step:
  "session_step (race ! 0) (race ! 1)" "session_step (race ! 1) (race ! 2)" "session_step (race ! 2) (race ! 3)"
  "drain_step (race ! 3) (race ! 4)" "drain_step (race ! 4) (race ! 5)" "drain_step (race ! 5) (race ! 6)"
  "drain_step (race ! 6) (race ! 7)" "session_step (race ! 7) (race ! 8)"
proof -
  show "session_step (race ! 0) (race ! 1)"
    using admit[of "race ! 0" 0] by (simp add: race_defs track_load_def)
  show "session_step (race ! 1) (race ! 2)"
    using store[of "race ! 1" 0] by (simp add: race_defs)
  show "session_step (race ! 2) (race ! 3)"
    using admit[of "race ! 2" 1] by (simp add: race_defs track_load_def)
  show "drain_step (race ! 3) (race ! 4)"
    using flag[of "race ! 3"] by (simp add: race_defs)
  show "drain_step (race ! 4) (race ! 5)"
    using copy[of "race ! 4" "[0]"] by (simp add: race_defs del: fun_upd_apply)
  show "drain_step (race ! 5) (race ! 6)"
    using close[of "race ! 5" 0 "[]"] by (simp add: race_defs)
  show "drain_step (race ! 6) (race ! 7)"
    using clear[of "race ! 6"] by (simp add: race_defs)
  show "session_step (race ! 7) (race ! 8)"
    using store[of "race ! 7" 1] by (simp add: race_defs)
qed

lemma race_reaches: "reaches start_world (race ! 7)" "reaches start_world (race ! 8)"
proof -
  have 0: "race ! 0 = start_world" by (simp add: race_def Let_def)
  have s: "step (race ! i) (race ! Suc i)" if "i < 8" for i
  proof -
    from that have "i \<in> {0, 1, 2, 3, 4, 5, 6, 7}" by auto
    then show ?thesis using race_step by (auto simp: step_def eval_nat_numeral)
  qed
  have r: "reaches start_world (race ! i)" if "i \<le> 8" for i
    using that
  proof (induction i)
    case (Suc i)
    then show ?case using s[of i] by (auto intro: rtranclp.rtrancl_into_rtrancl)
  qed (simp add: 0)
  show "reaches start_world (race ! 7)" "reaches start_world (race ! 8)" using r[of 7] r[of 8] by simp_all
qed

theorem drain_closes_all_but_late_witness:
  "w_drain (race ! 7) = Drained \<and> (0 :: nat) \<in> w_closed (race ! 7) \<and> \<not> fst (track 5 (Some (w_reg (race ! 7))))"
  using drain_closes_all_but_late[OF race_reaches(1), of 5]
  by (simp add: race_defs)

text \<open>The gap is real: a session that loaded the flag before the drain enters the map after the drain has
  returned, and runs on an open connection that nothing closes. And a drain does not wait: the map
  is empty, so \<open>Active\<close> is zero, while the handler of session 0 still runs.\<close>

theorem drain_misses_late_session:
  "\<exists>w. reaches start_world w \<and> w_drain w = Drained \<and> w_pc w 1 = Running \<and> 1 \<notin> w_closed w \<and> Active (w_reg w) = 1"
  by (rule exI[of _ "race ! 8"]) (simp add: race_reaches, simp add: race_defs Active_def)

theorem drain_does_not_wait:
  "\<exists>w. reaches start_world w \<and> w_drain w = Drained \<and> w_pc w 0 = Running \<and> Active (w_reg w) = 0"
  by (rule exI[of _ "race ! 7"]) (simp add: race_reaches, simp add: race_defs Active_def)

end
