(* ===== verification/Docs.thy ===== *)
theory Docs
  imports Mux Compiler Middleware
begin

section \<open>Documentation pages (docs.go)\<close>

text \<open>
  The OpenAPI document of a router, the parts of it a view shows, and the two routes per view that
  serve the document and a page of a viewer. The routes keep what they have rendered: a
  \<open>sync.Once\<close> is an optional value. \<open>json.Marshal\<close> is an argument; \<open>fmt.Sprintf\<close> is modelled for
  texts as arguments, and without flags and widths.
\<close>

subsection \<open>Documents\<close>

record DocsInfoContact = dc_Name :: gostring dc_Url :: gostring dc_Email :: gostring
record DocsInfoLicense = dl_Name :: gostring dl_Url :: gostring

record DocsInfoOptions =
  di_Title :: gostring
  di_Version :: gostring
  di_Description :: gostring
  di_Summary :: gostring
  di_TermsOfService :: gostring
  di_Contact :: "DocsInfoContact option"
  di_License :: "DocsInfoLicense option"

record ExternalDocs = ed_Url :: gostring ed_Description :: gostring

record DocsInfoTag =
  dt_Name :: gostring
  dt_Description :: gostring
  dt_ExternalDocs :: "ExternalDocs option"

record DocsServerVariable =
  dv_Enum :: "gostring list"
  dv_Default :: gostring
  dv_Description :: gostring

record DocsServerOptions =
  ds_Url :: gostring
  ds_Description :: gostring
  ds_Variables :: "DocsServerVariable gomap"

text \<open>A template is given by its method \<open>HTML\<close>; the schemas of the components are values of the
  application.\<close>

type_synonym DocsComponent = "goval gomap"

record DocsView =
  vw_RoutePrefix :: gostring
  vw_Template :: "(gostring \<Rightarrow> gostring) option"
  vw_URLMatch :: "(gostring \<Rightarrow> bool) option"
  vw_Components :: DocsComponent

record DocsOptions =
  do_Info :: DocsInfoOptions
  do_Servers :: "DocsServerOptions list"
  do_ExternalDocs :: "ExternalDocs option"
  do_Tags :: "DocsInfoTag list"
  do_Views :: "DocsView list"

record 'd Docs =
  dd_OpenApi :: gostring
  dd_Paths :: "'d gomap gomap option"
  dd_Options :: "DocsOptions option"
  dd_Components :: DocsComponent

definition keep_paths :: "(gostring \<Rightarrow> bool) \<Rightarrow> 'd gomap gomap \<Rightarrow> 'd gomap gomap" where
  "keep_paths match ps = filter (\<lambda>e. match (fst e)) ps"

definition getMatchingDocs :: "DocsOptions \<Rightarrow> 'd gomap gomap \<Rightarrow> (gostring \<Rightarrow> bool) \<Rightarrow> 'd Docs" where
  "getMatchingDocs d mpaths match =
     \<lparr>dd_OpenApi = ''3.0.3'', dd_Paths = Some (keep_paths match mpaths), dd_Options = Some d, dd_Components = []\<rparr>"

text \<open>\<open>None\<close> is a router that is not gofi's own.\<close>

definition OpenAPISpec :: "('f, 'v, 'r, 'd, 'b) server option \<Rightarrow> DocsOptions \<Rightarrow> 'd Docs" where
  "OpenAPISpec r o' =
     (case r of
        None \<Rightarrow> \<lparr>dd_OpenApi = ''3.0.3'', dd_Paths = None, dd_Options = Some o', dd_Components = []\<rparr>
      | Some W \<Rightarrow> getMatchingDocs o' (paths W) (\<lambda>url. True))"

definition Docs_Filter :: "(gostring \<Rightarrow> bool) option \<Rightarrow> 'd Docs \<Rightarrow> 'd Docs" where
  "Docs_Filter match d =
     d\<lparr>dd_Paths := Some (case dd_Paths d of
          None \<Rightarrow> []
        | Some ps \<Rightarrow> (case match of None \<Rightarrow> ps | Some m \<Rightarrow> keep_paths m ps))\<rparr>"

definition FilterByURL :: "gostring \<Rightarrow> 'd Docs \<Rightarrow> 'd Docs" where
  "FilterByURL pre d = Docs_Filter (Some (\<lambda>p. HasPrefix p pre)) d"

definition FilterByRoutePrefix :: "gostring \<Rightarrow> 'd Docs \<Rightarrow> 'd Docs" where
  "FilterByRoutePrefix routePrefix d =
     (case dd_Options d of
        None \<Rightarrow> d
      | Some o' \<Rightarrow>
          (case List.find (\<lambda>v. vw_RoutePrefix v = routePrefix) (do_Views o') of
             None \<Rightarrow> d
           | Some view \<Rightarrow>
               (if vw_URLMatch view \<noteq> None then Docs_Filter (vw_URLMatch view) d else d)
                 \<lparr>dd_Components := vw_Components view\<rparr>))"

subsection \<open>fmt.Sprintf\<close>

text \<open>Verbs that are letters other than the ones with a form of their own for texts; \<open>None\<close> is a format
  outside the model.\<close>

definition extra_args :: "gostring list \<Rightarrow> gostring" where
  "extra_args as = (if as = [] then [] else ''%!(EXTRA '' @ Join (map ((@) ''string='') as) '', '' @ '')'')"

definition plain_verb :: "char \<Rightarrow> bool" where
  "plain_verb c \<longleftrightarrow> 33 \<le> byte c \<and> byte c < 127 \<and> c \<notin> set ''+-#0123456789.*[qxXTp''"

fun Sprintf :: "gostring \<Rightarrow> gostring list \<Rightarrow> gostring option" where
  "Sprintf [] as = Some (extra_args as)"
| "Sprintf (c # s) as =
     (if c \<noteq> CHR ''%'' then map_option ((#) c) (Sprintf s as)
      else case s of
          [] \<Rightarrow> Some (''%!(NOVERB)'' @ extra_args as)
        | v # r \<Rightarrow>
            if v = CHR ''%'' then map_option ((#) v) (Sprintf r as)
            else if \<not> plain_verb v then None
            else (case as of
                    [] \<Rightarrow> map_option ((@) (''%!'' @ [v] @ ''(MISSING)'')) (Sprintf r [])
                  | a # as' \<Rightarrow>
                      map_option ((@) (if v = CHR ''s'' \<or> v = CHR ''v'' then a
                                       else ''%!'' @ [v] @ ''(string='' @ a @ '')'')) (Sprintf r as')))"

subsection \<open>The templates\<close>

text \<open>A page is written as lines, each with its indentation.\<close>

definition html_lines :: "(nat \<times> gostring) list \<Rightarrow> gostring" where
  "html_lines ls = concat (map (\<lambda>(n, l). CHR 0x0A # replicate n (CHR 0x09) @ l) ls)"

definition SwaggerTemplate :: gostring where
  "SwaggerTemplate = html_lines
     [(2, ''<!DOCTYPE html>''),
      (2, ''<html lang=\"en\">''),
      (2, ''<head>''),
      (3, ''<meta charset=\"utf-8\" />''),
      (3, ''<meta name=\"viewport\" content=\"width=device-width, initial-scale=1\" />''),
      (3, ''<meta name=\"description\" content=\"SwaggerUI\" />''),
      (3, ''<title>SwaggerUI</title>''),
      (3, ''<link rel=\"stylesheet\" href=\"https://unpkg.com/swagger-ui-dist@5.11.0/swagger-ui.css\" />''),
      (2, ''</head>''),
      (2, ''<body>''),
      (3, ''<div id=\"swagger-ui\"></div>''),
      (3, ''<script src=\"https://unpkg.com/swagger-ui-dist@5.11.0/swagger-ui-bundle.js\" crossorigin></script>''),
      (3, ''<script>''),
      (4, ''window.onload = () => {''),
      (5, ''window.ui = SwaggerUIBundle({''),
      (5, ''url: '%s',''),
      (5, ''dom_id: '#swagger-ui',''),
      (5, ''});''),
      (4, ''};''),
      (3, ''</script>''),
      (2, ''</body>''),
      (2, ''</html>''),
      (1, [])]"

definition RedoclyTemplate :: gostring where
  "RedoclyTemplate = html_lines
     [(2, ''<!DOCTYPE html>''),
      (2, ''<html>''),
      (2, ''<head>''),
      (3, ''<title>Redoc</title>''),
      (3, ''<!-- needed for adaptive design -->''),
      (3, ''<meta charset=\"utf-8\"/>''),
      (3, ''<meta name=\"viewport\" content=\"width=device-width, initial-scale=1\">''),
      (3, ''<link href=\"https://fonts.googleapis.com/css?family=Montserrat:300,400,700|Roboto:300,400,700\" rel=\"stylesheet\">''),
      (0, []),
      (3, ''<!--''),
      (3, ''Redoc doesn't change outer page styles''),
      (3, ''-->''),
      (3, ''<style>''),
      (3, ''body {''),
      (4, ''margin: 0;''),
      (4, ''padding: 0;''),
      (3, ''}''),
      (3, ''</style>''),
      (2, ''</head>''),
      (2, ''<body>''),
      (3, ''<redoc spec-url='%s'></redoc>''),
      (3, ''<script src=\"https://cdn.redoc.ly/redoc/latest/bundles/redoc.standalone.js\"> </script>''),
      (2, ''</body>''),
      (2, ''</html>''),
      (1, [])]"

definition RapidDoc :: gostring where
  "RapidDoc = html_lines
     [(2, ''<!doctype html> <!-- Important: must specify -->''),
      (2, ''<html>''),
      (2, ''<head>''),
      (3, ''<meta charset=\"utf-8\"> <!-- Important: rapi-doc uses utf8 characters -->''),
      (3, ''<script type=\"module\" src=\"https://unpkg.com/rapidoc/dist/rapidoc-min.js\"></script>''),
      (2, ''</head>''),
      (2, ''<body>''),
      (3, ''<rapi-doc spec-url=\"%s\"> </rapi-doc>''),
      (2, ''</body>''),
      (2, ''</html>''),
      (1, [])]"

definition StopLight :: gostring where
  "StopLight = html_lines
     [(2, ''<!doctype html>''),
      (2, ''<html lang=\"en\">''),
      (2, ''<head>''),
      (3, ''<meta charset=\"utf-8\">''),
      (3, ''<meta name=\"viewport\" content=\"width=device-width, initial-scale=1, shrink-to-fit=no\">''),
      (3, ''<title>Elements in HTML</title>''),
      (3, ''<!-- Embed elements Elements via Web Component -->''),
      (3, ''<script src=\"https://unpkg.com/@stoplight/elements/web-components.min.js\"></script>''),
      (3, ''<link rel=\"stylesheet\" href=\"https://unpkg.com/@stoplight/elements/styles.min.css\">''),
      (2, ''</head>''),
      (2, ''<body>''),
      (0, []),
      (3, ''<elements-api''),
      (4, ''apiDescriptionUrl=\"%s\"''),
      (4, ''router=\"hash\"''),
      (4, ''layout=\"sidebar\"''),
      (3, ''/>''),
      (2, ''</body>''),
      (2, ''</html>''),
      (1, [])]"

text \<open>The JSON text of the configuration, quoted, is an argument: \<open>config\<close> is the default or the result of
  \<open>json.Marshal\<close>.\<close>

record ScalarConfig =
  sc_config :: gostring
  sc_ScriptSrcLink :: gostring
  sc_AdditionalStyle :: gostring
  sc_AdditionalScript :: gostring

definition scalar_default :: gostring where
  "scalar_default = [CHR 0x22] @ ''{}'' @ [CHR 0x22]"

definition scalar_head :: gostring where
  "scalar_head = html_lines
      [(2, ''<!doctype html>''),
       (2, ''<html>''),
       (2, ''<head>''),
       (3, ''<title>API Reference</title>''),
       (3, ''<meta charset=\"utf-8\" />''),
       (3, ''<meta''),
       (3, ''name=\"viewport\"''),
       (3, ''content=\"width=device-width, initial-scale=1\" />''),
       (3, [])]"

definition scalar_body :: gostring where
  "scalar_body = html_lines
      [(2, ''</head>''),
       (2, ''<body>''),
       (3, ''<script''),
       (4, ''id=\"api-reference\"''),
       (4, ''data-url=\"%s\">''),
       (3, ''</script>''),
       (3, ''<script>''),
       (4, ''document.getElementById('api-reference').dataset.configuration = '')]"

definition scalar_tail :: "gostring \<Rightarrow> gostring \<Rightarrow> gostring" where
  "scalar_tail srcLink additionalScript =
     html_lines
      [(3, ''</script>''),
       (3, ''<script src=\"'')] @ srcLink
     @ ''\"></script>'' @ html_lines
      [(3, [])] @ additionalScript
     @ html_lines
      [(2, ''</body>''),
       (2, ''</html>'')]"

definition ScalarTemplate :: "ScalarConfig option \<Rightarrow> gostring" where
  "ScalarTemplate config =
     (let cs = (case config of None \<Rightarrow> scalar_default | Some c \<Rightarrow> sc_config c);
          srcLink = (case config of
              Some c \<Rightarrow> if sc_ScriptSrcLink c \<noteq> [] then sc_ScriptSrcLink c
                        else ''https://cdn.jsdelivr.net/npm/@scalar/api-reference''
            | None \<Rightarrow> ''https://cdn.jsdelivr.net/npm/@scalar/api-reference'');
          additionalStyle = (case config of
              Some c \<Rightarrow> if sc_AdditionalStyle c \<noteq> []
                        then ''<style id=\"gofi-additional-styles\" type=\"text/css\">'' @ [CHR 0x0D, CHR 0x09]
                             @ sc_AdditionalStyle c @ [CHR 0x0D] @ ''</style>''
                        else []
            | None \<Rightarrow> []);
          additionalScript = (case config of
              Some c \<Rightarrow> if sc_AdditionalScript c \<noteq> []
                        then ''<script>'' @ [CHR 0x0D] @ sc_AdditionalScript c @ [CHR 0x0D] @ ''</script>''
                        else []
            | None \<Rightarrow> [])
      in scalar_head @ additionalStyle @ scalar_body @ cs @ scalar_tail srcLink additionalScript)"

definition uiTemplate_HTML :: "gostring \<Rightarrow> gostring \<Rightarrow> gostring option" where
  "uiTemplate_HTML html specPath = Sprintf html [specPath]"

subsection \<open>Serving a view\<close>

definition docsPath :: gostring where "docsPath = ''/q/openapi''"

text \<open>\<open>path.Join\<close> of two elements that are not empty.\<close>

definition path_Join :: "gostring \<Rightarrow> gostring \<Rightarrow> gostring" where
  "path_Join a b = path_Clean (a @ ''/'' @ b)"

record docsViewState =
  specJSON :: "gostring option"
  htmlBody :: "gostring option"

definition newViewState :: docsViewState where
  "newViewState = \<lparr>specJSON = None, htmlBody = None\<rparr>"

definition once :: "gostring option \<Rightarrow> gostring \<Rightarrow> gostring" where
  "once st v = (case st of None \<Rightarrow> v | Some w \<Rightarrow> w)"

definition view_docs :: "DocsOptions \<Rightarrow> DocsView \<Rightarrow> 'd gomap gomap \<Rightarrow> 'd Docs" where
  "view_docs o' view mpaths =
     (case vw_URLMatch view of
        None \<Rightarrow> getMatchingDocs o' mpaths (\<lambda>url. True)
      | Some m \<Rightarrow> getMatchingDocs o' mpaths m)\<lparr>dd_Components := vw_Components view\<rparr>"

definition send_page :: "'f fasthttp \<Rightarrow> gostring \<Rightarrow> gostring \<Rightarrow> ('f, 'v) ctx \<Rightarrow> ('f, 'v) ctx" where
  "send_page F ty body c =
     c\<lparr>fctx := fh_SetBody F body (fh_SetStatusCode F 200 (fh_RespSet F ''Content-Type'' ty (fctx c)))\<rparr>"

text \<open>The handlers of the two routes of a view. The paths are those of the router when the request comes; a
  failed \<open>json.Marshal\<close> leaves no bytes.\<close>

definition serve_spec ::
  "'f fasthttp \<Rightarrow> ('d Docs \<Rightarrow> gerr + gostring) \<Rightarrow> DocsOptions \<Rightarrow> DocsView \<Rightarrow> 'd gomap gomap \<Rightarrow>
   docsViewState \<times> ('f, 'v) ctx \<Rightarrow> docsViewState \<times> ('f, 'v) ctx"
where
  "serve_spec F marshal o' view mpaths st =
     (let spec = once (specJSON (fst st))
                   (case marshal (view_docs o' view mpaths) of Inr s \<Rightarrow> s | Inl e \<Rightarrow> [])
      in ((fst st)\<lparr>specJSON := Some spec\<rparr>, send_page F ''application/json'' spec (snd st)))"

definition serve_html ::
  "'f fasthttp \<Rightarrow> DocsView \<Rightarrow> docsViewState \<times> ('f, 'v) ctx \<Rightarrow> docsViewState \<times> ('f, 'v) ctx"
where
  "serve_html F view st =
     (let tmplt = (case vw_Template view of
                     None \<Rightarrow> (\<lambda>p. case uiTemplate_HTML SwaggerTemplate p of Some s \<Rightarrow> s | None \<Rightarrow> [])
                   | Some t \<Rightarrow> t);
          page = once (htmlBody (fst st)) (tmplt (path_Join (vw_RoutePrefix view) docsPath))
      in ((fst st)\<lparr>htmlBody := Some page\<rparr>, send_page F ''text/html'' page (snd st)))"

text \<open>The routes of the views, in the order of their registration.\<close>

datatype docs_route = SpecRoute nat DocsView | PageRoute nat DocsView

definition view_routes :: "nat \<times> DocsView \<Rightarrow> (gostring \<times> docs_route) list" where
  "view_routes iv =
     (let v = snd iv in
      if vw_RoutePrefix v = [] then []
      else [(path_Join (vw_RoutePrefix v) docsPath, SpecRoute (fst iv) v), (vw_RoutePrefix v, PageRoute (fst iv) v)])"

fun register_routes ::
  "('s \<Rightarrow> gostring \<Rightarrow> gostring \<Rightarrow> 'd \<times> 'r) \<Rightarrow> (docs_route \<Rightarrow> ('f, 'v) ctx prog) \<Rightarrow> nat \<Rightarrow>
   (gostring \<times> docs_route) list \<Rightarrow> ('f, 'v, 'r, 'd, 'b) server \<Rightarrow> panic + ('f, 'v, 'r, 'd, 'b) server"
where
  "register_routes spec_of progs i [] W = Inr W"
| "register_routes spec_of progs i ((p, r) # rs) W =
     (case mux_method spec_of ''GET'' p \<lparr>Hidden = False, Schema = None, RouteMeta = None, Handler = progs r\<rparr> i W of
        Inl e \<Rightarrow> Inl e
      | Inr W1 \<Rightarrow> register_routes spec_of progs i rs W1)"

text \<open>\<open>ServeDocs\<close> on router \<open>i\<close>. \<open>progs\<close> are the handlers as programs; the state of a view is not part of
  the context and lives beside the server.\<close>

definition ServeDocs ::
  "('s \<Rightarrow> gostring \<Rightarrow> gostring \<Rightarrow> 'd \<times> 'r) \<Rightarrow> (docs_route \<Rightarrow> ('f, 'v) ctx prog) \<Rightarrow> DocsOptions \<Rightarrow> nat \<Rightarrow>
   ('f, 'v, 'r, 'd, 'b) server \<Rightarrow> panic + ('f, 'v, 'r, 'd, 'b) server"
where
  "ServeDocs spec_of progs o' i W =
     register_routes spec_of progs i (concat (map view_routes (enumerate 0 (do_Views o')))) W"

end
