(* ===== verification/DocsLaws.thy ===== *)
theory DocsLaws
  imports Docs
begin

section \<open>What the documentation shows\<close>

text \<open>A page of a viewer embeds the path of the document; the document of a view is the filtered document
  of the router, as it was at the first request.\<close>

subsection \<open>Pages\<close>

lemma Sprintf_plain: "CHR ''%'' \<notin> set a \<Longrightarrow> Sprintf (a @ s) as = map_option ((@) a) (Sprintf s as)"
proof (induction a)
  case Nil
  have "((@) []) = (\<lambda>x. x)" by auto
  then show ?case by (simp add: option.map_ident)
next
  case (Cons c a)
  then have "c \<noteq> CHR ''%''" by auto
  with Cons show ?case by (simp add: option.map_comp comp_def)
qed

lemma Sprintf_no_verb: "CHR ''%'' \<notin> set a \<Longrightarrow> Sprintf a [] = Some a"
  using Sprintf_plain[of a "[]" "[]"] by (simp add: extra_args_def)

lemma Sprintf_hole:
  assumes "CHR ''%'' \<notin> set a" and "CHR ''%'' \<notin> set b"
  shows "Sprintf (a @ ''%s'' @ b) [p] = Some (a @ p @ b)"
  using assms by (simp add: Sprintf_plain Sprintf_no_verb plain_verb_def)

definition page_start :: "gostring \<Rightarrow> gostring" where "page_start t = takeWhile (\<lambda>c. c \<noteq> CHR ''%'') t"
definition page_rest :: "gostring \<Rightarrow> gostring" where "page_rest t = drop 2 (dropWhile (\<lambda>c. c \<noteq> CHR ''%'') t)"

definition one_hole :: "gostring \<Rightarrow> bool" where
  "one_hole t \<longleftrightarrow> take 2 (dropWhile (\<lambda>c. c \<noteq> CHR ''%'') t) = ''%s'' \<and> list_all (\<lambda>c. c \<noteq> CHR ''%'') (page_rest t)"

lemma one_hole_page: "one_hole t \<Longrightarrow> uiTemplate_HTML t p = Some (page_start t @ p @ page_rest t)"
proof -
  assume h: "one_hole t"
  have "t = page_start t @ ''%s'' @ page_rest t"
    using h append_take_drop_id[of 2 "dropWhile (\<lambda>c. c \<noteq> CHR ''%'') t"] takeWhile_dropWhile_id[of "\<lambda>c. c \<noteq> CHR ''%''" t]
    by (metis one_hole_def page_rest_def page_start_def)
  moreover have "CHR ''%'' \<notin> set (page_start t)" by (auto simp: page_start_def dest: set_takeWhileD)
  moreover have "CHR ''%'' \<notin> set (page_rest t)" using h by (auto simp: one_hole_def list_all_iff)
  ultimately show ?thesis using Sprintf_hole unfolding uiTemplate_HTML_def by metis
qed

lemma templates_one_hole:
  "one_hole SwaggerTemplate" "one_hole RedoclyTemplate" "one_hole RapidDoc" "one_hole StopLight" "one_hole (ScalarTemplate None)"
  by code_simp+

text \<open>Every viewer page is a fixed text around the path of the document.\<close>

theorem viewer_pages_link_spec:
  assumes "t \<in> {SwaggerTemplate, RedoclyTemplate, RapidDoc, StopLight, ScalarTemplate None}"
  shows "uiTemplate_HTML t p = Some (page_start t @ p @ page_rest t)"
  using assms templates_one_hole by (intro one_hole_page) auto

text \<open>The parts of a configured Scalar page belong to the format: a percent sign in the style, here before a
  semicolon as in \<open>width: 100%;\<close>, takes the path, and the page asks for a document called
  \<open>%!s(MISSING)\<close>.\<close>

lemma scalar_parts:
  "list_all (\<lambda>c. c \<noteq> CHR ''%'') scalar_head" "one_hole scalar_body"
  "page_start scalar_body @ ''%s'' @ page_rest scalar_body = scalar_body"
  "list_all (\<lambda>c. c \<noteq> CHR ''%'') (page_start scalar_body @ page_rest scalar_body)"
  "list_all (\<lambda>c. c \<noteq> CHR ''%'') (scalar_tail [] [])"
  by code_simp+

lemma scalar_tail_chars: "set (scalar_tail src script) \<subseteq> set src \<union> set script \<union> set (scalar_tail [] [])"
  unfolding scalar_tail_def set_append by blast

lemma no_percent: "list_all (\<lambda>c. c \<noteq> CHR ''%'') s \<longleftrightarrow> CHR ''%'' \<notin> set s"
  by (auto simp: list_all_iff)

lemma Sprintf_bad_verb:
  assumes "CHR ''%'' \<notin> set (a @ b @ c @ d)"
  shows "Sprintf (a @ ''%;'' @ b @ c @ ''%s'' @ d) [p] =
     Some (a @ (''%!;(string='' @ p @ '')'') @ b @ c @ ''%!s(MISSING)'' @ d)"
  using assms by (simp add: Sprintf_plain Sprintf_no_verb plain_verb_def)

theorem scalar_style_takes_path:
  assumes "config = \<lparr>sc_config = cs, sc_ScriptSrcLink = src, sc_AdditionalStyle = a @ ''%;'' @ b, sc_AdditionalScript = []\<rparr>"
    and "CHR ''%'' \<notin> set (a @ b @ cs @ src)" and "src \<noteq> []"
  shows "uiTemplate_HTML (ScalarTemplate (Some config)) p =
     Some ((scalar_head @ ''<style id=\"gofi-additional-styles\" type=\"text/css\">'' @ [CHR 0x0D, CHR 0x09] @ a)
       @ (''%!;(string='' @ p @ '')'') @ (b @ [CHR 0x0D] @ ''</style>'') @ page_start scalar_body @ ''%!s(MISSING)''
       @ (page_rest scalar_body @ cs @ scalar_tail src []))"
proof -
  let ?s = "scalar_head @ ''<style id=\"gofi-additional-styles\" type=\"text/css\">'' @ [CHR 0x0D, CHR 0x09] @ a"
    and ?t = "b @ [CHR 0x0D] @ ''</style>''" and ?r = "page_rest scalar_body @ cs @ scalar_tail src []"
  have "ScalarTemplate (Some config) =
      ?s @ ''%;'' @ ?t @ (page_start scalar_body @ ''%s'' @ page_rest scalar_body) @ cs @ scalar_tail src []"
    using assms(1,3) by (simp only: scalar_parts(3)) (simp add: ScalarTemplate_def)
  then have t: "ScalarTemplate (Some config) = ?s @ ''%;'' @ ?t @ page_start scalar_body @ ''%s'' @ ?r" by simp
  have "CHR ''%'' \<notin> set (scalar_tail src [])"
    using scalar_tail_chars[of src "[]"] scalar_parts(5) assms(2) by (auto simp: no_percent)
  then have "CHR ''%'' \<notin> set (?s @ ?t @ page_start scalar_body @ ?r)"
    using scalar_parts(1,4) assms(2) by (simp add: no_percent)
  then show ?thesis unfolding uiTemplate_HTML_def t by (rule Sprintf_bad_verb)
qed

subsection \<open>Documents\<close>

lemma map_of_keep: "map_of (keep_paths m ps) k = (if m k then map_of ps k else None)"
  by (induction ps) (auto simp: keep_paths_def)

text \<open>A view serves what \<open>FilterByRoutePrefix\<close> cuts out of the document of the router: the same paths, those
  its \<open>URLMatch\<close> admits, and its own components, for the first view with its prefix.\<close>

theorem view_serves_filtered_spec:
  assumes "List.find (\<lambda>v. vw_RoutePrefix v = vw_RoutePrefix view) (do_Views o') = Some view"
  shows "view_docs o' view (paths W) = FilterByRoutePrefix (vw_RoutePrefix view) (OpenAPISpec (Some W) o')"
proof -
  have "keep_paths (\<lambda>url. True) (paths W) = paths W" by (simp add: keep_paths_def)
  then show ?thesis
    using assms by (auto simp: view_docs_def FilterByRoutePrefix_def OpenAPISpec_def getMatchingDocs_def Docs_Filter_def
        split: option.splits)
qed

text \<open>A filter never invents or changes a path.\<close>

theorem filter_by_url_exact:
  "map_of (the (dd_Paths (FilterByURL pre (OpenAPISpec (Some W) o')))) k =
     (if HasPrefix k pre then map_of (paths W) k else None)"
  by (simp add: FilterByURL_def Docs_Filter_def OpenAPISpec_def getMatchingDocs_def map_of_keep)

text \<open>The document is the one of the first request: a route registered later is never shown.\<close>

theorem spec_frozen_at_first_request:
  assumes "serve_spec F marshal o' view ps1 (newViewState, c1) = (st1, d1)"
    and "serve_spec F marshal o' view ps2 (st1, c2) = (st2, d2)"
  shows "d2 = send_page F ''application/json'' (the (specJSON st1)) c2 \<and> specJSON st2 = specJSON st1
       \<and> specJSON st1 = Some (case marshal (view_docs o' view ps1) of Inr s \<Rightarrow> s | Inl e \<Rightarrow> [])"
  using assms by (auto simp: serve_spec_def Let_def newViewState_def once_def)

end
