(* ===== verification/Fluid.thy ===== *)
theory Fluid
  imports GoValues Stores
begin

section \<open>Builders for OpenAPI objects (package fluid)\<close>

text \<open>
  Package \<open>fluid\<close>: values for the components of the OpenAPI document, written with builder methods. The
  receivers are values, so a builder returns a changed copy. The maps of contents are shared by
  copies: they live in a heap, a map by its address, and the builders that add a content type
  write to the map of the receiver. A pointer to a value is an option.
\<close>

subsection \<open>Schemas (schema.go, discriminator.go, xml.go)\<close>

record DiscriminatorObject = dc_PropertyName :: gostring dc_Mapping :: "gostring gomap"

record XMLObject =
  xm_Name :: gostring
  xm_Namespace :: gostring
  xm_Prefix :: gostring
  xm_Attribute :: bool
  xm_Wrapped :: bool

record ExternalDocsObject = xd_Description :: gostring xd_URL :: gostring

text \<open>The fields that hold no schema, and a schema with the fields that do.\<close>

record schema_facts =
  sf_Ref :: gostring
  sf_Title :: gostring
  sf_Type :: gostring
  sf_Format :: gostring
  sf_Description :: gostring
  sf_Default :: goval
  sf_Example :: goval
  sf_Enum :: "goval list"
  sf_Const :: goval
  sf_Minimum :: "flt option"
  sf_Maximum :: "flt option"
  sf_ExclusiveMinimum :: "flt option"
  sf_ExclusiveMaximum :: "flt option"
  sf_MinLength :: "int option"
  sf_MaxLength :: "int option"
  sf_MinItems :: "int option"
  sf_MaxItems :: "int option"
  sf_MinProperties :: "int option"
  sf_MaxProperties :: "int option"
  sf_Pattern :: gostring
  sf_MultipleOf :: "flt option"
  sf_UniqueItems :: bool
  sf_Required :: "gostring list"
  sf_Discriminator :: "DiscriminatorObject option"
  sf_Nullable :: bool
  sf_Deprecated :: "bool option"
  sf_ReadOnly :: bool
  sf_WriteOnly :: bool
  sf_XML :: "XMLObject option"
  sf_ExternalDocs :: "ExternalDocsObject option"

datatype SchemaObject =
  SchemaObject (so: schema_facts) (so_Properties: "(gostring \<times> SchemaObject) list option")
    (so_AdditionalProperties: "SchemaObject option") (so_Items: "SchemaObject option")
    (so_OneOf: "SchemaObject list") (so_AnyOf: "SchemaObject list") (so_AllOf: "SchemaObject list")
    (so_Not: "SchemaObject option")

definition no_facts :: schema_facts where
  "no_facts = \<lparr>sf_Ref = [], sf_Title = [], sf_Type = [], sf_Format = [], sf_Description = [], sf_Default = VNil,
     sf_Example = VNil, sf_Enum = [], sf_Const = VNil, sf_Minimum = None, sf_Maximum = None,
     sf_ExclusiveMinimum = None, sf_ExclusiveMaximum = None, sf_MinLength = None, sf_MaxLength = None,
     sf_MinItems = None, sf_MaxItems = None, sf_MinProperties = None, sf_MaxProperties = None, sf_Pattern = [],
     sf_MultipleOf = None, sf_UniqueItems = False, sf_Required = [], sf_Discriminator = None, sf_Nullable = False,
     sf_Deprecated = None, sf_ReadOnly = False, sf_WriteOnly = False, sf_XML = None, sf_ExternalDocs = None\<rparr>"

text \<open>The schema \<open>SchemaObject{...}\<close> with these fields, and one whose own fields are changed.\<close>

definition schema_with :: "schema_facts \<Rightarrow> SchemaObject" where
  "schema_with i = SchemaObject i None None None [] [] [] None"

fun on_facts :: "(schema_facts \<Rightarrow> schema_facts) \<Rightarrow> SchemaObject \<Rightarrow> SchemaObject" where
  "on_facts f (SchemaObject i ps ad it one any al neg) = SchemaObject (f i) ps ad it one any al neg"

definition typed_schema :: "gostring \<Rightarrow> gostring \<Rightarrow> SchemaObject" where
  "typed_schema ty fmt = schema_with (no_facts\<lparr>sf_Type := ty, sf_Format := fmt\<rparr>)"

definition StringSchema :: "SchemaObject" where
  "StringSchema = typed_schema ''string'' []"

definition IntegerSchema :: "SchemaObject" where
  "IntegerSchema = typed_schema ''integer'' []"

definition NumberSchema :: "SchemaObject" where
  "NumberSchema = typed_schema ''number'' []"

definition BooleanSchema :: "SchemaObject" where
  "BooleanSchema = typed_schema ''boolean'' []"

definition DateTimeSchema :: "SchemaObject" where
  "DateTimeSchema = typed_schema ''string'' ''date-time''"

definition DateSchema :: "SchemaObject" where
  "DateSchema = typed_schema ''string'' ''date''"

definition BinarySchema :: "SchemaObject" where
  "BinarySchema = typed_schema ''string'' ''binary''"

definition ByteSchema :: "SchemaObject" where
  "ByteSchema = typed_schema ''string'' ''byte''"

definition PasswordSchema :: "SchemaObject" where
  "PasswordSchema = typed_schema ''string'' ''password''"

definition EmailSchema :: "SchemaObject" where
  "EmailSchema = typed_schema ''string'' ''email''"

definition URISchema :: "SchemaObject" where
  "URISchema = typed_schema ''string'' ''uri''"

definition UUIDSchema :: "SchemaObject" where
  "UUIDSchema = typed_schema ''string'' ''uuid''"

definition ArraySchema :: "SchemaObject \<Rightarrow> SchemaObject" where
  "ArraySchema items = SchemaObject (no_facts\<lparr>sf_Type := ''array''\<rparr>) None None (Some items) [] [] [] None"

definition ObjectSchema :: "SchemaObject gomap option \<Rightarrow> SchemaObject" where
  "ObjectSchema props = SchemaObject (no_facts\<lparr>sf_Type := ''object''\<rparr>) props None None [] [] [] None"

definition RefSchema :: "gostring \<Rightarrow> SchemaObject" where
  "RefSchema r = schema_with (no_facts\<lparr>sf_Ref := r\<rparr>)"

definition Schema_WithDescription :: "gostring \<Rightarrow> SchemaObject \<Rightarrow> SchemaObject" where
  "Schema_WithDescription v = on_facts (\<lambda>x. x\<lparr>sf_Description := v\<rparr>)"

definition Schema_WithExample :: "goval \<Rightarrow> SchemaObject \<Rightarrow> SchemaObject" where
  "Schema_WithExample v = on_facts (\<lambda>x. x\<lparr>sf_Example := v\<rparr>)"

definition Schema_WithDefault :: "goval \<Rightarrow> SchemaObject \<Rightarrow> SchemaObject" where
  "Schema_WithDefault v = on_facts (\<lambda>x. x\<lparr>sf_Default := v\<rparr>)"

definition Schema_WithEnum :: "goval list \<Rightarrow> SchemaObject \<Rightarrow> SchemaObject" where
  "Schema_WithEnum v = on_facts (\<lambda>x. x\<lparr>sf_Enum := v\<rparr>)"

definition Schema_WithConst :: "goval \<Rightarrow> SchemaObject \<Rightarrow> SchemaObject" where
  "Schema_WithConst v = on_facts (\<lambda>x. x\<lparr>sf_Const := v\<rparr>)"

definition Schema_WithNullable :: "SchemaObject \<Rightarrow> SchemaObject" where
  "Schema_WithNullable = on_facts (\<lambda>x. x\<lparr>sf_Nullable := True\<rparr>)"

definition Schema_WithDeprecated :: "bool \<Rightarrow> SchemaObject \<Rightarrow> SchemaObject" where
  "Schema_WithDeprecated v = on_facts (\<lambda>x. x\<lparr>sf_Deprecated := Some v\<rparr>)"

definition Schema_WithMinimum :: "flt option \<Rightarrow> SchemaObject \<Rightarrow> SchemaObject" where
  "Schema_WithMinimum v = on_facts (\<lambda>x. x\<lparr>sf_Minimum := v\<rparr>)"

definition Schema_WithMaximum :: "flt option \<Rightarrow> SchemaObject \<Rightarrow> SchemaObject" where
  "Schema_WithMaximum v = on_facts (\<lambda>x. x\<lparr>sf_Maximum := v\<rparr>)"

definition Schema_WithExclusiveMinimum :: "flt option \<Rightarrow> SchemaObject \<Rightarrow> SchemaObject" where
  "Schema_WithExclusiveMinimum v = on_facts (\<lambda>x. x\<lparr>sf_ExclusiveMinimum := v\<rparr>)"

definition Schema_WithExclusiveMaximum :: "flt option \<Rightarrow> SchemaObject \<Rightarrow> SchemaObject" where
  "Schema_WithExclusiveMaximum v = on_facts (\<lambda>x. x\<lparr>sf_ExclusiveMaximum := v\<rparr>)"

definition Schema_WithMinLength :: "int option \<Rightarrow> SchemaObject \<Rightarrow> SchemaObject" where
  "Schema_WithMinLength v = on_facts (\<lambda>x. x\<lparr>sf_MinLength := v\<rparr>)"

definition Schema_WithMaxLength :: "int option \<Rightarrow> SchemaObject \<Rightarrow> SchemaObject" where
  "Schema_WithMaxLength v = on_facts (\<lambda>x. x\<lparr>sf_MaxLength := v\<rparr>)"

definition Schema_WithMinItems :: "int option \<Rightarrow> SchemaObject \<Rightarrow> SchemaObject" where
  "Schema_WithMinItems v = on_facts (\<lambda>x. x\<lparr>sf_MinItems := v\<rparr>)"

definition Schema_WithMaxItems :: "int option \<Rightarrow> SchemaObject \<Rightarrow> SchemaObject" where
  "Schema_WithMaxItems v = on_facts (\<lambda>x. x\<lparr>sf_MaxItems := v\<rparr>)"

definition Schema_WithPattern :: "gostring \<Rightarrow> SchemaObject \<Rightarrow> SchemaObject" where
  "Schema_WithPattern v = on_facts (\<lambda>x. x\<lparr>sf_Pattern := v\<rparr>)"

definition Schema_WithFormat :: "gostring \<Rightarrow> SchemaObject \<Rightarrow> SchemaObject" where
  "Schema_WithFormat v = on_facts (\<lambda>x. x\<lparr>sf_Format := v\<rparr>)"

definition Schema_WithRequired :: "gostring list \<Rightarrow> SchemaObject \<Rightarrow> SchemaObject" where
  "Schema_WithRequired v = on_facts (\<lambda>x. x\<lparr>sf_Required := v\<rparr>)"

definition Schema_WithReadOnly :: "SchemaObject \<Rightarrow> SchemaObject" where
  "Schema_WithReadOnly = on_facts (\<lambda>x. x\<lparr>sf_ReadOnly := True\<rparr>)"

definition Schema_WithWriteOnly :: "SchemaObject \<Rightarrow> SchemaObject" where
  "Schema_WithWriteOnly = on_facts (\<lambda>x. x\<lparr>sf_WriteOnly := True\<rparr>)"

definition Schema_WithUniqueItems :: "SchemaObject \<Rightarrow> SchemaObject" where
  "Schema_WithUniqueItems = on_facts (\<lambda>x. x\<lparr>sf_UniqueItems := True\<rparr>)"

definition Schema_WithMultipleOf :: "flt option \<Rightarrow> SchemaObject \<Rightarrow> SchemaObject" where
  "Schema_WithMultipleOf v = on_facts (\<lambda>x. x\<lparr>sf_MultipleOf := v\<rparr>)"

definition Schema_WithMinProperties :: "int option \<Rightarrow> SchemaObject \<Rightarrow> SchemaObject" where
  "Schema_WithMinProperties v = on_facts (\<lambda>x. x\<lparr>sf_MinProperties := v\<rparr>)"

definition Schema_WithMaxProperties :: "int option \<Rightarrow> SchemaObject \<Rightarrow> SchemaObject" where
  "Schema_WithMaxProperties v = on_facts (\<lambda>x. x\<lparr>sf_MaxProperties := v\<rparr>)"

definition Schema_WithExternalDocs :: "ExternalDocsObject \<Rightarrow> SchemaObject \<Rightarrow> SchemaObject" where
  "Schema_WithExternalDocs v = on_facts (\<lambda>x. x\<lparr>sf_ExternalDocs := Some v\<rparr>)"

definition Schema_WithXML :: "XMLObject \<Rightarrow> SchemaObject \<Rightarrow> SchemaObject" where
  "Schema_WithXML v = on_facts (\<lambda>x. x\<lparr>sf_XML := Some v\<rparr>)"

definition Schema_WithDiscriminator :: "DiscriminatorObject \<Rightarrow> SchemaObject \<Rightarrow> SchemaObject" where
  "Schema_WithDiscriminator v = on_facts (\<lambda>x. x\<lparr>sf_Discriminator := Some v\<rparr>)"

fun Schema_WithAdditionalProperties :: "SchemaObject \<Rightarrow> SchemaObject \<Rightarrow> SchemaObject" where
  "Schema_WithAdditionalProperties v (SchemaObject i ps ad it one any al neg) = SchemaObject i ps (Some v) it one any al neg"

fun Schema_WithProperties :: "SchemaObject gomap option \<Rightarrow> SchemaObject \<Rightarrow> SchemaObject" where
  "Schema_WithProperties v (SchemaObject i ps ad it one any al neg) = SchemaObject i v ad it one any al neg"

subsection \<open>Media types and the heap of contents (media\_type.go, example.go, encoding.go, header.go)\<close>

record ExampleObject =
  ex_Summary :: gostring
  ex_Description :: gostring
  ex_Value :: goval
  ex_ExternalValue :: gostring

text \<open>A map of contents is an address in the heap.\<close>

type_synonym content = "nat option"

record HeaderObject =
  hd_Description :: gostring
  hd_Required :: "bool option"
  hd_Deprecated :: "bool option"
  hd_AllowEmptyValue :: bool
  hd_Style :: gostring
  hd_Explode :: "bool option"
  hd_AllowReserved :: bool
  hd_Schema :: "SchemaObject option"
  hd_Example :: goval
  hd_Examples :: "ExampleObject gomap"
  hd_Content :: content

record EncodingObject =
  en_ContentType :: gostring
  en_Headers :: "HeaderObject gomap"
  en_Style :: gostring
  en_Explode :: "bool option"
  en_AllowReserved :: bool

record MediaTypeObject =
  mt_Schema :: "SchemaObject option"
  mt_Example :: goval
  mt_Examples :: "ExampleObject gomap"
  mt_Encoding :: "EncodingObject gomap"

type_synonym contents = "MediaTypeObject gomap list"

definition content_at :: "contents \<Rightarrow> content \<Rightarrow> MediaTypeObject gomap" where
  "content_at h a = (case a of None \<Rightarrow> [] | Some i \<Rightarrow> h ! i)"

definition media_of :: "SchemaObject \<Rightarrow> MediaTypeObject" where
  "media_of s = \<lparr>mt_Schema = Some s, mt_Example = VNil, mt_Examples = [], mt_Encoding = []\<rparr>"

definition new_content :: "gostring \<Rightarrow> SchemaObject \<Rightarrow> contents \<Rightarrow> content \<times> contents" where
  "new_content ty s h = (Some (length h), h @ [[(ty, media_of s)]])"

text \<open>\<open>m[ty] = ...\<close> on the map at hand, which is made first when it is nil.\<close>

definition put_content :: "gostring \<Rightarrow> SchemaObject \<Rightarrow> content \<Rightarrow> contents \<Rightarrow> content \<times> contents" where
  "put_content ty s a h =
     (case a of
        None \<Rightarrow> new_content ty s h
      | Some i \<Rightarrow> (a, h[i := map_put ty (media_of s) (h ! i)]))"

definition Media_WithSchema :: "SchemaObject \<Rightarrow> MediaTypeObject \<Rightarrow> MediaTypeObject" where
  "Media_WithSchema v r = r\<lparr>mt_Schema := Some v\<rparr>"

definition Media_WithExample :: "goval \<Rightarrow> MediaTypeObject \<Rightarrow> MediaTypeObject" where
  "Media_WithExample v r = r\<lparr>mt_Example := v\<rparr>"

definition Media_WithExamples :: "ExampleObject gomap \<Rightarrow> MediaTypeObject \<Rightarrow> MediaTypeObject" where
  "Media_WithExamples v r = r\<lparr>mt_Examples := v\<rparr>"

definition Media_WithEncoding :: "EncodingObject gomap \<Rightarrow> MediaTypeObject \<Rightarrow> MediaTypeObject" where
  "Media_WithEncoding v r = r\<lparr>mt_Encoding := v\<rparr>"

definition Header_WithDescription :: "gostring \<Rightarrow> HeaderObject \<Rightarrow> HeaderObject" where
  "Header_WithDescription v r = r\<lparr>hd_Description := v\<rparr>"

definition Header_WithRequired :: "bool \<Rightarrow> HeaderObject \<Rightarrow> HeaderObject" where
  "Header_WithRequired v r = r\<lparr>hd_Required := Some v\<rparr>"

definition Header_WithDeprecated :: "bool \<Rightarrow> HeaderObject \<Rightarrow> HeaderObject" where
  "Header_WithDeprecated v r = r\<lparr>hd_Deprecated := Some v\<rparr>"

definition Header_WithSchema :: "SchemaObject \<Rightarrow> HeaderObject \<Rightarrow> HeaderObject" where
  "Header_WithSchema v r = r\<lparr>hd_Schema := Some v\<rparr>"

definition Header_WithExample :: "goval \<Rightarrow> HeaderObject \<Rightarrow> HeaderObject" where
  "Header_WithExample v r = r\<lparr>hd_Example := v\<rparr>"

definition Header_WithExamples :: "ExampleObject gomap \<Rightarrow> HeaderObject \<Rightarrow> HeaderObject" where
  "Header_WithExamples v r = r\<lparr>hd_Examples := v\<rparr>"

subsection \<open>Parameters (parameter.go)\<close>

record ParameterObject =
  pm_Name :: gostring
  pm_In :: gostring
  pm_Description :: gostring
  pm_Required :: "bool option"
  pm_Deprecated :: "bool option"
  pm_AllowEmptyValue :: bool
  pm_Style :: gostring
  pm_Explode :: "bool option"
  pm_AllowReserved :: bool
  pm_Schema :: "SchemaObject option"
  pm_Example :: goval
  pm_Examples :: "ExampleObject gomap"
  pm_Content :: content

definition parameter_in :: "gostring \<Rightarrow> bool option \<Rightarrow> gostring \<Rightarrow> SchemaObject \<Rightarrow> ParameterObject" where
  "parameter_in loc required name s =
     \<lparr>pm_Name = name, pm_In = loc, pm_Description = [], pm_Required = required, pm_Deprecated = None,
      pm_AllowEmptyValue = False, pm_Style = [], pm_Explode = None, pm_AllowReserved = False, pm_Schema = Some s,
      pm_Example = VNil, pm_Examples = [], pm_Content = None\<rparr>"

definition QueryParameter :: "gostring \<Rightarrow> SchemaObject \<Rightarrow> ParameterObject" where
  "QueryParameter = parameter_in ''query'' None"

definition PathParameter :: "gostring \<Rightarrow> SchemaObject \<Rightarrow> ParameterObject" where
  "PathParameter = parameter_in ''path'' (Some True)"

definition HeaderParameter :: "gostring \<Rightarrow> SchemaObject \<Rightarrow> ParameterObject" where
  "HeaderParameter = parameter_in ''header'' None"

definition CookieParameter :: "gostring \<Rightarrow> SchemaObject \<Rightarrow> ParameterObject" where
  "CookieParameter = parameter_in ''cookie'' None"

definition Param_WithDescription :: "gostring \<Rightarrow> ParameterObject \<Rightarrow> ParameterObject" where
  "Param_WithDescription v r = r\<lparr>pm_Description := v\<rparr>"

definition Param_WithRequired :: "bool \<Rightarrow> ParameterObject \<Rightarrow> ParameterObject" where
  "Param_WithRequired v r = r\<lparr>pm_Required := Some v\<rparr>"

definition Param_WithDeprecated :: "bool \<Rightarrow> ParameterObject \<Rightarrow> ParameterObject" where
  "Param_WithDeprecated v r = r\<lparr>pm_Deprecated := Some v\<rparr>"

definition Param_WithExample :: "goval \<Rightarrow> ParameterObject \<Rightarrow> ParameterObject" where
  "Param_WithExample v r = r\<lparr>pm_Example := v\<rparr>"

definition Param_WithStyle :: "gostring \<Rightarrow> ParameterObject \<Rightarrow> ParameterObject" where
  "Param_WithStyle v r = r\<lparr>pm_Style := v\<rparr>"

definition Param_WithExplode :: "bool \<Rightarrow> ParameterObject \<Rightarrow> ParameterObject" where
  "Param_WithExplode v r = r\<lparr>pm_Explode := Some v\<rparr>"

definition Param_WithAllowEmptyValue :: "ParameterObject \<Rightarrow> ParameterObject" where
  "Param_WithAllowEmptyValue r = r\<lparr>pm_AllowEmptyValue := True\<rparr>"

definition Param_WithAllowReserved :: "ParameterObject \<Rightarrow> ParameterObject" where
  "Param_WithAllowReserved r = r\<lparr>pm_AllowReserved := True\<rparr>"

definition Param_WithExamples :: "ExampleObject gomap \<Rightarrow> ParameterObject \<Rightarrow> ParameterObject" where
  "Param_WithExamples v r = r\<lparr>pm_Examples := v\<rparr>"

definition Param_WithContent :: "content \<Rightarrow> ParameterObject \<Rightarrow> ParameterObject" where
  "Param_WithContent v r = r\<lparr>pm_Content := v\<rparr>"

subsection \<open>Request bodies and responses (request\_body.go, response.go)\<close>

record RequestBodyObject =
  rb_Description :: gostring
  rb_Required :: bool
  rb_Content :: content

record ResponseObject =
  rp_Description :: gostring
  rp_Headers :: "HeaderObject gomap"
  rp_Content :: content
  rp_Links :: "goval gomap"

definition body_with :: "gostring \<Rightarrow> SchemaObject \<Rightarrow> contents \<Rightarrow> RequestBodyObject \<times> contents" where
  "body_with ty s h =
     (case new_content ty s h of (a, h') \<Rightarrow> (\<lparr>rb_Description = [], rb_Required = False, rb_Content = a\<rparr>, h'))"

definition response_with :: "gostring \<Rightarrow> gostring \<Rightarrow> SchemaObject \<Rightarrow> contents \<Rightarrow> ResponseObject \<times> contents" where
  "response_with desc ty s h =
     (case new_content ty s h of
        (a, h') \<Rightarrow> (\<lparr>rp_Description = desc, rp_Headers = [], rp_Content = a, rp_Links = []\<rparr>, h'))"

definition JSONRequestBody :: "SchemaObject \<Rightarrow> contents \<Rightarrow> RequestBodyObject \<times> contents" where
  "JSONRequestBody = body_with ''application/json''"

definition FormURLEncodedRequestBody :: "SchemaObject \<Rightarrow> contents \<Rightarrow> RequestBodyObject \<times> contents" where
  "FormURLEncodedRequestBody = body_with ''application/x-www-form-urlencoded''"

definition MultipartRequestBody :: "SchemaObject \<Rightarrow> contents \<Rightarrow> RequestBodyObject \<times> contents" where
  "MultipartRequestBody = body_with ''multipart/form-data''"

definition PlainTextRequestBody :: "SchemaObject \<Rightarrow> contents \<Rightarrow> RequestBodyObject \<times> contents" where
  "PlainTextRequestBody = body_with ''text/plain''"

definition Body_WithDescription :: "gostring \<Rightarrow> RequestBodyObject \<Rightarrow> RequestBodyObject" where
  "Body_WithDescription v r = r\<lparr>rb_Description := v\<rparr>"

definition Body_WithRequired :: "RequestBodyObject \<Rightarrow> RequestBodyObject" where
  "Body_WithRequired r = r\<lparr>rb_Required := True\<rparr>"

definition Body_WithContent :: "content \<Rightarrow> RequestBodyObject \<Rightarrow> RequestBodyObject" where
  "Body_WithContent v r = r\<lparr>rb_Content := v\<rparr>"

definition body_put :: "gostring \<Rightarrow> SchemaObject \<Rightarrow> RequestBodyObject \<Rightarrow> contents \<Rightarrow> RequestBodyObject \<times> contents" where
  "body_put ty s r h = (case put_content ty s (rb_Content r) h of (a, h') \<Rightarrow> (r\<lparr>rb_Content := a\<rparr>, h'))"

definition Body_WithJSONContent :: "SchemaObject \<Rightarrow> RequestBodyObject \<Rightarrow> contents \<Rightarrow> RequestBodyObject \<times> contents" where
  "Body_WithJSONContent = body_put ''application/json''"

definition Body_WithFormURLEncodedContent :: "SchemaObject \<Rightarrow> RequestBodyObject \<Rightarrow> contents \<Rightarrow> RequestBodyObject \<times> contents" where
  "Body_WithFormURLEncodedContent = body_put ''application/x-www-form-urlencoded''"

definition Body_WithMultipartContent :: "SchemaObject \<Rightarrow> RequestBodyObject \<Rightarrow> contents \<Rightarrow> RequestBodyObject \<times> contents" where
  "Body_WithMultipartContent = body_put ''multipart/form-data''"

definition JSONResponse :: "gostring \<Rightarrow> SchemaObject \<Rightarrow> contents \<Rightarrow> ResponseObject \<times> contents" where
  "JSONResponse desc = response_with desc ''application/json''"

definition PlainTextResponse :: "gostring \<Rightarrow> SchemaObject \<Rightarrow> contents \<Rightarrow> ResponseObject \<times> contents" where
  "PlainTextResponse desc = response_with desc ''text/plain''"

definition HTMLResponse :: "gostring \<Rightarrow> contents \<Rightarrow> ResponseObject \<times> contents" where
  "HTMLResponse desc = response_with desc ''text/html'' (typed_schema ''string'' [])"

definition BinaryResponse :: "gostring \<Rightarrow> contents \<Rightarrow> ResponseObject \<times> contents" where
  "BinaryResponse desc = response_with desc ''application/octet-stream'' (typed_schema ''string'' ''binary'')"

definition Resp_WithDescription :: "gostring \<Rightarrow> ResponseObject \<Rightarrow> ResponseObject" where
  "Resp_WithDescription v r = r\<lparr>rp_Description := v\<rparr>"

definition Resp_WithHeaders :: "HeaderObject gomap \<Rightarrow> ResponseObject \<Rightarrow> ResponseObject" where
  "Resp_WithHeaders v r = r\<lparr>rp_Headers := v\<rparr>"

definition Resp_WithContent :: "content \<Rightarrow> ResponseObject \<Rightarrow> ResponseObject" where
  "Resp_WithContent v r = r\<lparr>rp_Content := v\<rparr>"

definition Resp_WithJSONContent :: "SchemaObject \<Rightarrow> ResponseObject \<Rightarrow> contents \<Rightarrow> ResponseObject \<times> contents" where
  "Resp_WithJSONContent s r h =
     (case put_content ''application/json'' s (rp_Content r) h of (a, h') \<Rightarrow> (r\<lparr>rp_Content := a\<rparr>, h'))"

subsection \<open>Security schemes (security\_scheme.go)\<close>

record OAuthFlowObject =
  of_AuthorizationURL :: gostring
  of_TokenURL :: gostring
  of_RefreshURL :: gostring
  of_Scopes :: "gostring gomap"

record OAuthFlowsObject =
  os_Implicit :: "OAuthFlowObject option"
  os_Password :: "OAuthFlowObject option"
  os_ClientCredentials :: "OAuthFlowObject option"
  os_AuthorizationCode :: "OAuthFlowObject option"

record SecuritySchemeObject =
  sx_Type :: gostring
  sx_Description :: gostring
  sx_Name :: gostring
  sx_In :: gostring
  sx_Scheme :: gostring
  sx_BearerFormat :: gostring
  sx_Flows :: "OAuthFlowsObject option"
  sx_OpenIDConnectURL :: gostring

definition no_scheme :: "gostring \<Rightarrow> SecuritySchemeObject" where
  "no_scheme ty = \<lparr>sx_Type = ty, sx_Description = [], sx_Name = [], sx_In = [], sx_Scheme = [], sx_BearerFormat = [],
     sx_Flows = None, sx_OpenIDConnectURL = []\<rparr>"

text \<open>The options run in order on the new scheme.\<close>

type_synonym scheme_option = "SecuritySchemeObject \<Rightarrow> SecuritySchemeObject"

definition BearerAuth :: "scheme_option list \<Rightarrow> SecuritySchemeObject" where
  "BearerAuth os = fold id os ((no_scheme ''http'')\<lparr>sx_Scheme := ''bearer'', sx_BearerFormat := ''JWT''\<rparr>)"

definition BasicAuth :: "scheme_option list \<Rightarrow> SecuritySchemeObject" where
  "BasicAuth os = fold id os ((no_scheme ''http'')\<lparr>sx_Scheme := ''basic''\<rparr>)"

definition APIKeyAuth :: "gostring \<Rightarrow> gostring \<Rightarrow> scheme_option list \<Rightarrow> SecuritySchemeObject" where
  "APIKeyAuth name loc os = fold id os ((no_scheme ''apiKey'')\<lparr>sx_Name := name, sx_In := loc\<rparr>)"

definition OAuth2Auth :: "OAuthFlowsObject \<Rightarrow> scheme_option list \<Rightarrow> SecuritySchemeObject" where
  "OAuth2Auth flows os = fold id os ((no_scheme ''oauth2'')\<lparr>sx_Flows := Some flows\<rparr>)"

definition OpenIDConnectAuth :: "gostring \<Rightarrow> scheme_option list \<Rightarrow> SecuritySchemeObject" where
  "OpenIDConnectAuth url os = fold id os ((no_scheme ''openIdConnect'')\<lparr>sx_OpenIDConnectURL := url\<rparr>)"

definition WithSecurityDescription :: "gostring \<Rightarrow> scheme_option" where
  "WithSecurityDescription desc s = s\<lparr>sx_Description := desc\<rparr>"

definition WithBearerFormat :: "gostring \<Rightarrow> scheme_option" where
  "WithBearerFormat fmt s = s\<lparr>sx_BearerFormat := fmt\<rparr>"

subsection \<open>Copies that share a content\<close>

text \<open>A builder that adds a content type writes to the map of its receiver: the receiver, and every copy made
  of it, gets the content type too.\<close>

theorem content_builders_change_receiver:
  assumes "body_put ty s r h = (r', h')" and "rb_Content r = Some i" and "i < length h"
  shows "rb_Content r' = rb_Content r \<and> content_at h' (rb_Content r) = map_put ty (media_of s) (content_at h (rb_Content r))"
  using assms by (auto simp: body_put_def put_content_def content_at_def)

text \<open>Two bodies built from one share their content: the second builder call of the example adds its type to
  the body of the first.\<close>

theorem content_builders_change_receiver_witness:
  "case JSONRequestBody StringSchema [] of (plain, h) \<Rightarrow>
     (case Body_WithMultipartContent BinarySchema plain h of (upload, h1) \<Rightarrow>
        map fst (content_at h1 (rb_Content plain)) = [''application/json'', ''multipart/form-data''])"
  using content_builders_change_receiver[of "''multipart/form-data''" BinarySchema
      "fst (JSONRequestBody StringSchema [])" "snd (JSONRequestBody StringSchema [])"]
  by (simp add: JSONRequestBody_def body_with_def new_content_def Body_WithMultipartContent_def body_put_def
      put_content_def content_at_def map_put_def)

text \<open>With a nil content there is nothing to share, and the receiver stays as it was.\<close>

theorem content_builders_keep_bare_receiver:
  assumes "body_put ty s r h = (r', h')" and "rb_Content r = None"
  shows "content_at h' (rb_Content r') = [(ty, media_of s)] \<and> take (length h) h' = h"
  using assms by (auto simp: body_put_def put_content_def new_content_def content_at_def)

end
