(* ===== verification/Streaming.thy ===== *)
theory Streaming
  imports Responses
begin

section \<open>Streamed responses (stream.go)\<close>

text \<open>
  \<open>SendStream\<close> checks the headers and cookies like \<open>Send\<close> and then hands a writer function to fasthttp.
  \<open>SetBodyStreamWriter\<close> waits for the result of that function. How fasthttp runs the function and
  sends what it flushes, a list of chunks, is not code of the repository: it is the parameter
  \<open>lib\<close> of the steps. One library is written out, \<open>bounded_pipe\<close>: a pipe of limited capacity that is
  read after the handler has returned, which is how fasthttp sends a response with a body
  stream. What is shown of it rests on that reading of fasthttp.
\<close>

subsection \<open>The writer and the handler\<close>

datatype 'e writer_pc = Flushing "gostring list" | Ended 'e

datatype 'e handler_pc = AwaitsWriter | HandlerDone 'e

record 'e stream =
  st_writer :: "'e writer_pc"
  st_handler :: "'e handler_pc"
  st_pipe :: "gostring list"
  st_client :: "gostring list"

definition SetBodyStreamWriter :: "gostring list \<Rightarrow> 'e stream" where
  "SetBodyStreamWriter chunks = \<lparr>st_writer = Flushing chunks, st_handler = AwaitsWriter, st_pipe = [], st_client = []\<rparr>"

text \<open>The result of the function, here \<open>e\<close>, goes through a channel with one place, so the function never
  waits for the handler; the handler waits for the result. The steps of the library change
  neither the handler nor a function that has ended.\<close>

inductive stream_step :: "('e stream \<Rightarrow> 'e stream \<Rightarrow> bool) \<Rightarrow> 'e \<Rightarrow> 'e stream \<Rightarrow> 'e stream \<Rightarrow> bool" for lib e where
  library: "lib s s' \<Longrightarrow> st_handler s' = st_handler s \<Longrightarrow> (\<And>r. st_writer s = Ended r \<Longrightarrow> st_writer s' = Ended r) \<Longrightarrow>
      (\<And>r. st_writer s' = Ended r \<Longrightarrow> st_writer s = Ended r) \<Longrightarrow> stream_step lib e s s'"
| finish: "st_writer s = Flushing [] \<Longrightarrow> stream_step lib e s (s\<lparr>st_writer := Ended e\<rparr>)"
| return: "st_handler s = AwaitsWriter \<Longrightarrow> st_writer s = Ended r \<Longrightarrow>
      stream_step lib e s (s\<lparr>st_handler := HandlerDone r\<rparr>)"

text \<open>Whatever the library does, the handler returns after the function has, with the result of the
  function.\<close>

lemma handler_waits_for_writer:
  assumes "(stream_step lib e)\<^sup>*\<^sup>* (SetBodyStreamWriter chunks) s"
  shows "(st_handler s = HandlerDone r \<longrightarrow> st_writer s = Ended r) \<and> (st_writer s = Ended r \<longrightarrow> r = e)"
  using assms
proof (induction rule: rtranclp_induct)
  case (step s s')
  from step.hyps(2) step.IH show ?case
  proof (induction rule: stream_step.induct)
    case (library s s')
    from library.hyps(2) library.prems library.hyps(3)[of r] library.hyps(4)[of r] show ?case by metis
  qed simp_all
qed (simp add: SetBodyStreamWriter_def)

subsection \<open>A pipe that is read after the handler has returned\<close>

text \<open>The function blocks while the pipe is full; the client is sent what is in the pipe once the handler
  has returned.\<close>

inductive bounded_pipe :: "nat \<Rightarrow> 'e stream \<Rightarrow> 'e stream \<Rightarrow> bool" for cap where
  flush: "st_writer s = Flushing (x # xs) \<Longrightarrow> length (st_pipe s) < cap \<Longrightarrow>
      bounded_pipe cap s (s\<lparr>st_writer := Flushing xs, st_pipe := st_pipe s @ [x]\<rparr>)"
| send: "st_handler s = HandlerDone r \<Longrightarrow> st_pipe s = x # xs \<Longrightarrow>
      bounded_pipe cap s (s\<lparr>st_pipe := xs, st_client := st_client s @ [x]\<rparr>)"

inductive_cases bounded_pipeE: "bounded_pipe cap s s'"

abbreviation piped_step :: "nat \<Rightarrow> 'e \<Rightarrow> 'e stream \<Rightarrow> 'e stream \<Rightarrow> bool" where
  "piped_step cap e \<equiv> stream_step (bounded_pipe cap) e"

lemma piped_library: "bounded_pipe cap s s' \<Longrightarrow> piped_step cap e s s'"
  by (rule library) (auto elim!: bounded_pipeE)

lemmas piped_flush = piped_library[OF flush]
lemmas piped_send = piped_library[OF send]

abbreviation streams :: "nat \<Rightarrow> 'e \<Rightarrow> 'e stream \<Rightarrow> 'e stream \<Rightarrow> bool" where
  "streams cap e \<equiv> (piped_step cap e)\<^sup>*\<^sup>*"

definition unsent :: "'e writer_pc \<Rightarrow> gostring list" where
  "unsent w = (case w of Flushing xs \<Rightarrow> xs | Ended r \<Rightarrow> [])"

text \<open>Nothing is lost or reordered; the pipe stays within its capacity; the client receives nothing before
  the writer has ended.\<close>

definition stream_inv :: "nat \<Rightarrow> 'e \<Rightarrow> gostring list \<Rightarrow> 'e stream \<Rightarrow> bool" where
  "stream_inv cap e chunks s \<longleftrightarrow>
     (case st_writer s of
        Flushing xs \<Rightarrow> st_handler s = AwaitsWriter \<and> st_client s = [] \<and> chunks = st_pipe s @ xs
                      \<and> length (st_pipe s) \<le> cap
      | Ended r \<Rightarrow> r = e \<and> chunks = st_client s @ st_pipe s \<and> length chunks \<le> cap
                   \<and> (if st_handler s = AwaitsWriter then st_client s = [] else st_handler s = HandlerDone e))"

lemma stream_inv_start: "stream_inv cap e chunks (SetBodyStreamWriter chunks)"
  by (simp add: stream_inv_def SetBodyStreamWriter_def)

lemma stream_inv_step: "piped_step cap e s s' \<Longrightarrow> stream_inv cap e chunks s \<Longrightarrow> stream_inv cap e chunks s'"
proof (induction rule: stream_step.induct)
  case (library s s')
  from library.hyps(1) library.prems show ?case
    by (cases rule: bounded_pipe.cases) (auto simp: stream_inv_def split: writer_pc.splits)
qed (auto simp: stream_inv_def)

lemma stream_inv_reachable: "streams cap e (SetBodyStreamWriter chunks) s \<Longrightarrow> stream_inv cap e chunks s"
  by (induction rule: rtranclp_induct) (auto intro: stream_inv_start stream_inv_step)

text \<open>Every run ends: a chunk moves twice, and the writer and the handler stop once.\<close>

definition work_left :: "'e stream \<Rightarrow> nat" where
  "work_left s = 2 * length (unsent (st_writer s)) + length (st_pipe s)
     + (case st_writer s of Flushing xs \<Rightarrow> 1 | Ended r \<Rightarrow> 0) + (case st_handler s of AwaitsWriter \<Rightarrow> 1 | HandlerDone r \<Rightarrow> 0)"

lemma stream_terminates: "piped_step cap e s s' \<Longrightarrow> work_left s' < work_left s"
proof (induction rule: stream_step.induct)
  case (library s s')
  from library.hyps(1) show ?case by (cases rule: bounded_pipe.cases) (simp_all add: work_left_def unsent_def)
qed (simp_all add: work_left_def unsent_def)

definition stuck :: "nat \<Rightarrow> 'e \<Rightarrow> 'e stream \<Rightarrow> bool" where
  "stuck cap e s \<longleftrightarrow> (\<forall>s'. \<not> piped_step cap e s s')"

lemma stuck_cases:
  assumes "stuck cap e s"
  shows "st_handler s = AwaitsWriter \<or> st_pipe s = []"
    and "st_writer s = Flushing xs \<Longrightarrow> xs \<noteq> [] \<and> cap \<le> length (st_pipe s)"
    and "st_writer s = Ended r \<Longrightarrow> st_handler s \<noteq> AwaitsWriter"
proof -
  show "st_handler s = AwaitsWriter \<or> st_pipe s = []"
    using assms piped_send[of s _ _ _ cap e] unfolding stuck_def by (cases "st_handler s"; cases "st_pipe s") blast+
  show "st_writer s = Flushing xs \<Longrightarrow> xs \<noteq> [] \<and> cap \<le> length (st_pipe s)"
    using assms piped_flush[of s _ _ cap e] finish[of s "bounded_pipe cap" e] unfolding stuck_def by (cases xs) (metis not_le list.distinct(1))+
  show "st_writer s = Ended r \<Longrightarrow> st_handler s \<noteq> AwaitsWriter"
    using assms return[of s r "bounded_pipe cap" e] unfolding stuck_def by blast
qed

text \<open>How a streamed response ends with such a library, for every interleaving: every run stops, and
  where it stops depends on the number of chunks only. If they fit into the pipe, the handler has
  returned the result of the writer and the client has all of them in order; if they do not, the
  handler waits for ever and the client has received nothing.\<close>

theorem stream_outcome:
  assumes "streams cap e (SetBodyStreamWriter chunks) s"
  shows "(\<forall>s'. piped_step cap e s s' \<longrightarrow> work_left s' < work_left s)
       \<and> (stuck cap e s \<longrightarrow>
            (if length chunks \<le> cap then st_handler s = HandlerDone e \<and> st_client s = chunks
             else st_handler s = AwaitsWriter \<and> st_client s = []))"
proof (intro conjI allI impI)
  show "piped_step cap e s s' \<Longrightarrow> work_left s' < work_left s" for s' by (rule stream_terminates)
  assume st: "stuck cap e s"
  note inv = stream_inv_reachable[OF assms]
  show "if length chunks \<le> cap then st_handler s = HandlerDone e \<and> st_client s = chunks
        else st_handler s = AwaitsWriter \<and> st_client s = []"
  proof (cases "st_writer s")
    case (Flushing xs)
    then have "0 < length xs" "cap \<le> length (st_pipe s)" using stuck_cases(2)[OF st Flushing] by simp_all
    with inv Flushing show ?thesis by (simp add: stream_inv_def)
  next
    case (Ended r)
    have h: "st_handler s \<noteq> AwaitsWriter" by (rule stuck_cases(3)[OF st Ended])
    then have "st_pipe s = []" using stuck_cases(1)[OF st] by simp
    with inv Ended h show ?thesis by (auto simp: stream_inv_def)
  qed
qed

text \<open>A run of two chunks through a pipe of two, and one that stops with a pipe of one.\<close>

lemma demo_stream_reaches:
  "streams 1 (None :: goerr option) (SetBodyStreamWriter [''a'', ''b''])
     \<lparr>st_writer = Flushing [''b''], st_handler = AwaitsWriter, st_pipe = [''a''], st_client = []\<rparr>"
  using piped_flush[of "SetBodyStreamWriter [''a'', ''b'']" "''a''" "[''b'']" 1 "None :: goerr option"]
  by (simp add: SetBodyStreamWriter_def)

theorem stream_outcome_witness:
  "\<exists>s. streams 1 (None :: goerr option) (SetBodyStreamWriter [''a'', ''b'']) s \<and> stuck 1 None s
     \<and> st_handler s = AwaitsWriter \<and> st_client s = [] \<and> st_pipe s = [''a'']"
proof -
  let ?s = "\<lparr>st_writer = Flushing [''b''], st_handler = AwaitsWriter, st_pipe = [''a''], st_client = []\<rparr> :: goerr option stream"
  have "stuck 1 None ?s" unfolding stuck_def by (auto elim!: stream_step.cases bounded_pipeE)
  moreover from this have "st_handler ?s = AwaitsWriter \<and> st_client ?s = []"
    using stream_outcome[OF demo_stream_reaches] by simp
  ultimately show ?thesis using demo_stream_reaches by (intro exI[of _ ?s]) simp
qed

text \<open>With such a library it is never a stream to the client: the first chunk is sent when the last one has been written.\<close>

theorem nothing_streamed_before_end:
  assumes "streams cap e (SetBodyStreamWriter chunks) s" and "st_client s \<noteq> []"
  shows "st_writer s = Ended e \<and> st_client s @ st_pipe s = chunks"
  using stream_inv_reachable[OF assms(1)] assms(2) by (simp add: stream_inv_def split: writer_pc.splits)

subsection \<open>SendStream\<close>

text \<open>The last step, the stream itself, is \<open>run\<close>: it gives the result of the writer and the context.\<close>

definition SendStream ::
  "('f, 'v) resp_env \<Rightarrow> 'f fasthttp \<Rightarrow> 'w schemaRules option \<Rightarrow> (('f, 'v) ctx \<Rightarrow> ('f, 'v) part_result) \<Rightarrow> int \<Rightarrow> goval \<Rightarrow>
   ('f, 'v) ctx \<Rightarrow> ('f, 'v) part_result"
where
  "SendStream E F srs run code obj c =
     (case srs of
        None \<Rightarrow> resp_fail schemaBody [] ''required'' (errNew ''schema not properly registered to route handler'') c
      | Some s \<Rightarrow>
          (case getRespRulesByCode s code of
             Inl e \<Rightarrow> Returns (Some (VPlain e), c)
           | Inr (f, rls) \<Rightarrow>
               if rls = [] then Returns (None, c)
               else if obj = VNil then
                 Returns (Some (VPlain (errNew ''undefined schema when calling the gofi Send function'')), c)
               else case deref_object obj of
                 Some v \<Rightarrow>
                   if vkind v \<noteq> KStruct then
                     Returns (Some (VPlain (errNew ''bad response. invalid response type. response object must be a struct'')), c)
                   else
                     bind_call (field_named v schemaHeaders) (\<lambda>hs.
                       bind_call (validateAndEncodeHeaders E F rls hs c) (\<lambda>(er, c1).
                         if er \<noteq> None then Returns (er, c1)
                         else bind_call (field_named v schemaCookies) (\<lambda>cs.
                           bind_call (validateAndEncodeCookie E F rls cs c1) (\<lambda>(er, c2).
                             if er \<noteq> None then Returns (er, c2)
                             else run (c2\<lparr>fctx := fh_SetStatusCode F code
                                     (fh_RespSet F ''Content-Type'' (respContent s code) (fctx c2))\<rparr>)))))
               | None \<Rightarrow>
                   Returns (Some (VPlain (errNew ''bad response. invalid response type. response object must be a struct'')), c)))"

text \<open>A status whose response declares nothing is sent without running the writer, and without an error.\<close>

theorem undeclared_stream_is_dropped:
  assumes "getRespRulesByCode s code = Inr (f, [])"
  shows "SendStream E F (Some s) run code obj c = Returns (None, c)"
  using assms by (simp add: SendStream_def)

end
