(* ===== verification/Testing.thy ===== *)
theory Testing
  imports Mux
begin

section \<open>Requests without a server (Test and Inject of mux.go)\<close>

text \<open>
  \<open>Test\<close> and \<open>Inject\<close> write a request as text, let fasthttp read it, and run the router or a single
  route on it. A Go map of the options is a list of its entries in the order of one iteration, which
  the language leaves open. Reading the body and parsing the text are arguments, as is the text
  of a panic of the router.
\<close>

record TestOptions =
  to_Path :: gostring
  to_Method :: gostring
  to_Query :: "(gostring \<times> gostring) list"
  to_Paths :: "(gostring \<times> gostring) list"
  to_Headers :: "(gostring \<times> gostring) list"
  to_Cookies :: "(gostring \<times> gostring) list"
  to_Body :: "(goerr + gostring) option"

definition resolveTestPath :: "gostring \<Rightarrow> (gostring \<times> gostring) list \<Rightarrow> gostring" where
  "resolveTestPath path entries =
     (if length entries = 0 then path
      else fold (\<lambda>(key, v) r.
             ReplaceAll (ReplaceAll (ReplaceAll r (''{'' @ key @ ''}'') v) (colon # key) v) (''*'' @ key) v) entries path)"

definition crlf :: gostring where "crlf = [CHR 0x0D, CHR 0x0A]"

definition with_query :: "gostring \<Rightarrow> (gostring \<times> gostring) list \<Rightarrow> gostring" where
  "with_query path query =
     (if length query > 0 then path @ ''?'' @ Join (map (\<lambda>(k, v). k @ ''='' @ v) query) ''&'' else path)"

definition raw_request ::
  "gostring \<Rightarrow> gostring \<Rightarrow> (gostring \<times> gostring) list \<Rightarrow> (gostring \<times> gostring) list \<Rightarrow> gostring \<Rightarrow> gostring"
where
  "raw_request method path hs cookies body =
     method @ '' '' @ path @ '' HTTP/1.1'' @ crlf @ ''Host: localhost'' @ crlf
     @ concat (map (\<lambda>(k, v). k @ '': '' @ v @ crlf) hs)
     @ concat (map (\<lambda>(k, v). ''Cookie: '' @ k @ ''='' @ v @ crlf) cookies)
     @ (if length body > 0 then ''Content-Length: '' @ Itoa (int (length body)) @ crlf else [])
     @ crlf @ body"

definition read_body :: "gostring \<Rightarrow> (goerr + gostring) option \<Rightarrow> goerr + gostring" where
  "read_body msg b =
     (case b of
        None \<Rightarrow> Inr []
      | Some (Inr s) \<Rightarrow> Inr s
      | Some (Inl e) \<Rightarrow> Inl (WrapErr (msg @ Error e) e))"

text \<open>The run of the router, with a panic recovered: the error response goes through a context of its own.\<close>

definition recovered ::
  "('r \<Rightarrow> 'b option) \<Rightarrow> contextOptions \<Rightarrow> gostring \<Rightarrow> 'f \<Rightarrow> ('f, 'v, 'r, 'd, 'b) server \<Rightarrow>
   goerr option \<times> 'f \<times> ('f, 'v, 'r, 'd, 'b) server"
where
  "recovered schema_zero o' v f W =
     (let e = NewHTTPError 500 (''panic recovered in Test: '' @ v);
          (c, W1) = acquireContext schema_zero f W;
          b = errHandler W1 e (setContextSettings o' (srvMeta W1) (srvStore W1) (base c))
      in (Some e, fctx b, releaseContext (c\<lparr>base := b\<rparr>) W1))"

definition Test_serve ::
  "'f fasthttp \<Rightarrow> ('r \<Rightarrow> 'b option) \<Rightarrow> (panic \<Rightarrow> gostring) \<Rightarrow> nat \<Rightarrow> contextOptions \<Rightarrow> 'f \<Rightarrow> ('f, 'v, 'r, 'd, 'b) server \<Rightarrow>
   goerr option \<times> 'f \<times> ('f, 'v, 'r, 'd, 'b) server"
where
  "Test_serve F schema_zero panic_text i o' f W =
     (case handleFastHTTP F schema_zero i f W of
        Inl p \<Rightarrow> recovered schema_zero o' (panic_text p) f W
      | Inr (Panicked v, f1, W1) \<Rightarrow> recovered schema_zero o' v f1 W1
      | Inr (Returned e, f1, W1) \<Rightarrow> (None, f1, W1))"

text \<open>The response, if there is one, the error, and the server.\<close>

definition Test ::
  "'f fasthttp \<Rightarrow> ('r \<Rightarrow> 'b option) \<Rightarrow> (panic \<Rightarrow> gostring) \<Rightarrow> (gostring \<Rightarrow> goerr + 'f) \<Rightarrow> nat \<Rightarrow> TestOptions \<Rightarrow>
   ('f, 'v, 'r, 'd, 'b) server \<Rightarrow> InjectResponse option \<times> goerr option \<times> ('f, 'v, 'r, 'd, 'b) server"
where
  "Test F schema_zero panic_text parse i o' W =
     (if to_Method o' = [] then (None, Some (PlainErr ''gofi.Test: Method is required''), W)
      else if to_Path o' = [] then (None, Some (PlainErr ''gofi.Test: Path is required''), W)
      else case read_body ''failed to read test body: '' (to_Body o') of
             Inl e \<Rightarrow> (None, Some e, W)
           | Inr body \<Rightarrow>
               let path = with_query (resolveTestPath (to_Path o') (to_Paths o')) (to_Query o')
               in case parse (raw_request (to_Method o') path (to_Headers o') (to_Cookies o') body) of
                    Inl e \<Rightarrow> (None, Some (WrapErr (''failed to build test request: '' @ Error e) e), W)
                  | Inr f \<Rightarrow>
                      (case Test_serve F schema_zero panic_text i (newContextOptions path (to_Method o')) f W of
                         (er, f1, W1) \<Rightarrow> (Some (inject_response F f1), er, W1)))"

subsection \<open>Inject\<close>

text \<open>The route is not registered: the schema and the meta value are stored under the path as it is, and
  the chain is the global middleware and the handler. A request text that cannot be read leaves
  whatever the parser made of it: \<open>parse\<close> is total here.\<close>

definition inject_settings ::
  "('s \<Rightarrow> gostring \<Rightarrow> gostring \<Rightarrow> 'd \<times> 'r) \<Rightarrow> ('f, 'v, 's) RouteOptions \<Rightarrow> TestOptions \<Rightarrow>
   ('f, 'v, 'r, 'd, 'b) server \<Rightarrow> ('f, 'v, 'r, 'd, 'b) server"
where
  "inject_settings spec_of d o' W =
     (let W1 = (case Schema d of
            None \<Rightarrow> W
          | Some sch \<Rightarrow> W\<lparr>schemaRules := SetRules (to_Path o', to_Method o') (snd (spec_of sch (to_Method o') (to_Path o')))
                               (schemaRules W)\<rparr>)
      in case RouteMeta d of
           None \<Rightarrow> W1
         | Some v \<Rightarrow> W1\<lparr>srvMeta := map_put (to_Path o') [(ToLower (to_Method o'), v)] (srvMeta W1)\<rparr>)"

definition inject_headers :: "'f fasthttp \<Rightarrow> ('f, 'v) ctx \<Rightarrow> http_Header" where
  "inject_headers F c =
     (let h = response_headers F (fctx c)
      in case rw c of
           Some w \<Rightarrow> if headerInit w \<and> \<not> headerSync w
                     then fold (\<lambda>(k, vals). fold (Header_Add k) vals) (header w) h else h
         | None \<Rightarrow> h)"

definition Inject ::
  "'f fasthttp \<Rightarrow> ('r \<Rightarrow> 'b option) \<Rightarrow> ('s \<Rightarrow> gostring \<Rightarrow> gostring \<Rightarrow> 'd \<times> 'r) \<Rightarrow> (gostring \<Rightarrow> 'f) \<Rightarrow> nat \<Rightarrow>
   ('f, 'v, 's) RouteOptions option \<Rightarrow> TestOptions \<Rightarrow> ('f, 'v, 'r, 'd, 'b) server \<Rightarrow>
   InjectResponse option \<times> goerr option \<times> ('f, 'v, 'r, 'd, 'b) server"
where
  "Inject F schema_zero spec_of parse i h o' W =
     (case h of
        None \<Rightarrow> (None, Some (PlainErr (''gofi controller not defined for the given method '' @ [CHR 0x27] @ to_Method o'
                   @ [CHR 0x27] @ '' and path '' @ [CHR 0x27] @ to_Path o' @ [CHR 0x27])), W)
      | Some d \<Rightarrow>
          (case read_body ''failed to read inject body: '' (to_Body o') of
             Inl e \<Rightarrow> (None, Some e, W)
           | Inr body \<Rightarrow>
               let path = with_query (to_Path o') (to_Query o');
                   f = parse (raw_request (to_Method o') path (to_Headers o') (to_Cookies o') body);
                   (c, W1) = acquireContext schema_zero f W;
                   ps = params (base c) @ map (\<lambda>(k, v). \<lparr>Key = k, Value = v\<rparr>) (to_Paths o');
                   W2 = inject_settings spec_of d o' W1;
                   b = setContextSettings (newContextOptions (to_Path o') (to_Method o'))
                         (if RouteMeta d = None then [] else srvMeta W2) (srvStore W2) ((base c)\<lparr>params := ps\<rparr>);
                   c1 = \<lparr>base = b, chain = global_mws W2 i @ [Handler d], handlerIdx = - 1\<rparr>
               in case ctx_Next c1 of
                    (r, c2) \<Rightarrow>
                      let (er, b2) = (case r of
                            Returned None \<Rightarrow> (None, base c2)
                          | Returned (Some e) \<Rightarrow> (None, errHandler W2 e (base c2))
                          | Panicked v \<Rightarrow>
                              let e = NewHTTPError 500 (''panic recovered in Inject: '' @ v)
                              in (Some e, errHandler W2 e (base c2)))
                      in (Some \<lparr>StatusCode = fh_StatusCode F (fctx b2), HeaderMap = inject_headers F b2,
                                Body = fh_RespBody F (fctx b2)\<rparr>, er, releaseContext (c2\<lparr>base := b2\<rparr>) W2)))"

subsection \<open>What a test sees\<close>

text \<open>A request that the router answers is seen by \<open>Test\<close> as the server sends it, with no error; a panic
  becomes the answer of the error handler on the response so far.\<close>

theorem test_sees_served_response:
  assumes "to_Method o' \<noteq> []" and "to_Path o' \<noteq> []" and "to_Body o' = None"
    and "parse (raw_request (to_Method o') (with_query (resolveTestPath (to_Path o') (to_Paths o')) (to_Query o'))
                 (to_Headers o') (to_Cookies o') []) = Inr f"
    and "handleFastHTTP F schema_zero i f W = Inr (Returned e, f1, W1)"
  shows "Test F schema_zero panic_text parse i o' W = (Some (inject_response F f1), None, W1)"
  using assms by (simp add: Test_def read_body_def Test_serve_def)

text \<open>The parameters of a path are replaced one after the other, wherever their names occur: when one name
  begins with another, the path depends on the order in which the map is visited.\<close>

theorem test_path_depends_on_map_order:
  "resolveTestPath ''/u/:userId'' [(''user'', ''a''), (''userId'', ''b'')] = ''/u/aId''
   \<and> resolveTestPath ''/u/:userId'' [(''userId'', ''b''), (''user'', ''a'')] = ''/u/b''"
  by code_simp

text \<open>The values of the query are not escaped: one value can be two entries.\<close>

theorem test_query_not_escaped:
  "with_query p [(''a'', ''1&b=2'')] = with_query p [(''a'', ''1''), (''b'', ''2'')]"
  by (simp add: with_query_def)

end
