(* ===== verification/Spec2Isabelle.thy ===== *)
theory Spec2Isabelle
  imports RouterLaws MuxLaws ValidatorLaws CompilerLaws RequestLaws EncodeLaws FormLaws ResponseLaws CsrfLaws HeaderLaws CacheServing
    WsLaws WsRegistry DocsLaws Fluid Streaming Testing
begin

text \<open>
  A verification library for gofi, an HTTP framework in Go on top of fasthttp.

  \<^bold>\<open>The program.\<close> A server (\<open>mux.go\<close>) owns one radix tree of routes per method (\<open>tree.go\<close>), the global
  middleware, the rules compiled from the schemas of its routes, and a pool of request contexts. A
  request takes a context from the pool, the tree finds the route and its parameters, and the
  chain of handlers runs: each handler is given the context and moves on with \<open>Next\<close>
  (\<open>context.go\<close>). A schema is a Go struct whose tags name the parts of the request and the
  responses; the compiler (\<open>compiler.go\<close>, \<open>schema.go\<close>, \<open>rules.go\<close>) turns it into rule
  definitions and the OpenAPI description at registration. At run time \<open>requests.go\<close> validates
  and binds the parts of a request against the rule definitions, with a body parser for JSON
  (\<open>bodyparser_json.go\<close>, \<open>cont/json.go\<close>), forms or multipart bodies, and \<open>responses.go\<close>
  checks and encodes a response. The rules themselves are those of \<open>validators/\<close>. Errors go
  to the error handler of the server; \<open>middleware/\<close> holds ready-made handlers.

  \<^bold>\<open>Conventions.\<close> Strings are lists of bytes (\<open>GoStrings\<close>, with runes in \<open>Utf8\<close>), integers are
  \<open>int\<close> with the range of their kind, or words where the source relies on wrap-around, floats are
  rationals with IEEE rounding (\<open>GoFloat\<close>), interface values carry their dynamic type
  (\<open>GoValues\<close>), a Go map is an association list whose order is the order of one iteration. A
  result \<open>'e + 'a\<close> is an error or a value; \<open>call\<close> adds the panic of a routine that has one.
  Handlers are programs (\<open>prog\<close>): trees of state changes, calls of \<open>Next\<close>, returns and panics.

  \<^bold>\<open>Theories and sources.\<close>
  \<^item> \<open>Prelude\<close>, \<open>GoStrings\<close>, \<open>Utf8\<close>, \<open>GoFloat\<close>, \<open>GoValues\<close>, \<open>Encoding\<close>: what the source uses of the
    language and the standard library. \<open>Utils\<close>: \<open>utils/\<close>.
  \<^item> \<open>RadixTree\<close> (\<open>tree.go\<close>, \<open>param.go\<close>) with \<open>TreeSpec\<close>, \<open>TreeInsert\<close>, \<open>RouteTable\<close> and
    \<open>RouterLaws\<close>: the routes of a tree are a multiset of patterns; registration refines insertion
    into it, rejects the conflicts that \<open>docs/routing.md\<close> lists (and a catch-all beside a parameter,
    which it does not), and a lookup is sound but for the byte in the place of a catch-all's slash,
    complete up to the preference of literals, and independent of the order of registration. The interface is the locale \<open>route_table\<close>.
  \<^item> \<open>Stores\<close> (\<open>extras.go\<close>, \<open>mux_options.go\<close>): stores, meta information and schema rules, three
    interpretations of the locale \<open>kv_store\<close>.
  \<^item> \<open>HandlerChain\<close> (\<open>errors.go\<close>, \<open>report.go\<close>, \<open>handler.go\<close>, \<open>context.go\<close>), \<open>Adapter\<close>
    (\<open>adapter.go\<close>), \<open>Context\<close> (\<open>context.go\<close>), \<open>Mux\<close> (\<open>mux.go\<close>): the chain, the writer whose headers are
    sent once, the pooled context, registration with sub-routers that share slices, and dispatch with
    redirects, 404 and 405. \<open>MuxLaws\<close>: after any sequence of operations and requests (\<open>built\<close>) the
    server refines an abstract state of routes and routers without trees and shared slices, and what
    an earlier request left in the pool of contexts does not show in the answer of a later one.
  \<^item> \<open>Regex\<close>, \<open>Regexes\<close>, \<open>NetAddr\<close>, \<open>RuleChecks\<close>, \<open>NetRules\<close>, \<open>Validators\<close> (\<open>validators/\<close>): every rule,
    the pattern language they are written in, the parsers of addresses; \<open>ValidatorLaws\<close>: what the
    rules accept.
  \<^item> \<open>Rules\<close>, \<open>Compiler\<close>, \<open>CompilerLaws\<close> (\<open>rules.go\<close>, \<open>statuses.go\<close>, \<open>schema.go\<close>, \<open>compiler.go\<close>): rule
    definitions and the OpenAPI description agree at every depth; a tag reads back.
  \<^item> \<open>Requests\<close>, \<open>RequestLaws\<close> (\<open>requests.go\<close>): the parts are validated and bound, an accepted request
    satisfies the schema, a full validation is cached.
  \<^item> \<open>JsonNodes\<close>, \<open>JsonDecode\<close>, \<open>JsonLaws\<close>, \<open>JsonEncode\<close>, \<open>EncodeLaws\<close> (\<open>cont/json.go\<close>,
    \<open>bodyparser_json.go\<close>), \<open>FormParser\<close>, \<open>MultipartParser\<close>, \<open>FormLaws\<close> (\<open>bodyparser_form.go\<close>,
    \<open>bodyparser_multipart.go\<close>), \<open>Responses\<close>, \<open>ResponseLaws\<close> (\<open>responses.go\<close>): bodies both ways. What is
    bound has been checked, what is sent has been checked, and bytes and strings read back.
  \<^item> \<open>Middleware\<close>, \<open>Csrf\<close>, \<open>CacheMw\<close> (\<open>middleware/\<close>) with \<open>MiddlewareLaws\<close>, \<open>PathLaws\<close>, \<open>HeaderLaws\<close>,
    \<open>CsrfLaws\<close>, \<open>CacheLaws\<close>, \<open>CacheServing\<close>: every middleware as a program in front of a chain
    (\<open>run_chain_enter\<close> removes the place in the chain), composed with the server for recovery
    and CORS; the shared cache as a transition system (\<open>cached\<close>) of the steps taken under its
    lock, with the locale \<open>kept_by_removal\<close> for what every removal keeps.
  \<^item> \<open>WsContract\<close> (\<open>websocket_contract.go\<close>), \<open>WebSocket\<close>, \<open>WsRegistry\<close> (\<open>websocket/websocket.go\<close>) with
    \<open>WsLaws\<close>: the message contract of a route, its checks, decoding and OpenAPI schema; the handshake, the
    life of a session and its registry, and a drain interleaved with sessions as a step relation.
    What is accepted was declared, an envelope that was decoded is valid for a payload field of an
    interface type or of the type of one variant, a session needs a valid
    handshake and leaves nothing behind, and a drain misses only the sessions named by \<open>w_late\<close>.
  \<^item> \<open>Streaming\<close> (\<open>stream.go\<close>): writer, handler and client of a streamed response. How fasthttp moves what
    the writer flushes is a parameter of the steps; whatever it is, the handler returns after the
    writer. What follows for a pipe of limited capacity that is read after the handler has
    returned is shown for that library only (\<open>bounded_pipe\<close>).
  \<^item> \<open>Docs\<close>, \<open>DocsLaws\<close> (\<open>docs.go\<close>): the document of a router, its filters, the pages of the viewers and
    their routes. \<open>Fluid\<close> (\<open>fluid/\<close>): the builders of its components, whose maps of contents live in
    a store because copies of a value share them.
  \<^item> \<open>Testing\<close> (\<open>Test\<close> and \<open>Inject\<close> of \<open>mux.go\<close>): requests written as text and run without a server.

  \<^bold>\<open>Bounds and fuel.\<close> \<open>Next\<close> is computed with one unit of fuel per handler, and \<open>Next_obeys_source\<close>
  shows that this is always enough. The encoder of responses takes fuel because a default may lead
  back to its own field; \<open>encoding_returns\<close> gives an amount from the size of the value that is
  enough for a text, an error or a panic, and shows that more changes nothing. Values are finite
  trees: on a value that contains itself the code recurses for ever. The matcher of regular expressions takes as much fuel as
  the pattern is long; all patterns of the source are compiled in \<open>Regexes\<close>. The loop that reads an array
  element by element (\<open>arr_vals_from\<close>) has a fuel and the value \<open>None\<close> when it ends. The eviction loop
  of the cache terminates because every round removes an entry. Numbers of the tree's nodes are
  words of the width of the source.

  \<^bold>\<open>Parameters.\<close> Code that is not in the repository is an argument of the definitions: the operations
  on a fasthttp request (\<open>fasthttp\<close>, \<open>mw_fasthttp\<close>), with the instance \<open>web_fasthttp\<close> in memory for
  the witnesses; the JSON parser and its nodes; \<open>time.Parse\<close>, name resolution, files and the other
  services of the standard library that the rules call (\<open>stdlib\<close>); methods, custom formats and body
  parsers of the application; HMAC, clocks and random sources.

  \<^bold>\<open>Not modelled.\<close> Serving: the listeners, TLS and shutdown (\<open>fasthttpserver.go\<close> and the methods
  \<open>Listen\<close> of \<open>mux.go\<close>), \<open>Static\<close> of \<open>mux.go\<close>, and the bridge of net/http middleware in
  \<open>adapter.go\<close>, which are input and output through libraries; the methods that only fix a verb
  or a default option; the interfaces (\<open>router.go\<close>); the caches of compiled values and the reuse of
  buffers, which do not change a result (shown for the validators of messages by
  \<open>validator_cache_transparent\<close>). Allocation, data races other than those of the response cache and of
  the session registry, and the text of messages of the standard library are left out. The
  hooks of WebSocket sessions return (a panic of one skips parts of the clean-up, see \<open>on_hook\<close>),
  and values are finite trees (the JSON encoder does not return on a value that contains itself).
\<close>

end
